(* ===== verification/Prelude.thy ===== *)
theory Prelude
  imports Main "HOL-Library.AList" "HOL-Library.Sublist" "HOL-Library.Word"
begin

text \<open>
  What every component of the operator shares: the values Go calls an error (an API server
  answer carries a reason, \<^verbatim>\<open>fmt.Errorf\<close> with \<^verbatim>\<open>%w\<close> wraps, anything else is text), the
  functions of the Go \<^verbatim>\<open>strings\<close> and \<^verbatim>\<open>strconv\<close> packages the sources call, Go maps as
  association lists (the list order is the order a \<^verbatim>\<open>range\<close> visits the keys in; a statement
  about every list is a statement about every order), and the rule collections the component
  theories use.
\<close>

named_theorems go_defs \<open>definitions unfolded to evaluate a closed term\<close>
named_theorems map_simps \<open>reading a Go map after a write\<close>

section \<open>Go errors\<close>

datatype api_reason = NotFound | Forbidden | AlreadyExists | Conflict | Invalid | OtherReason

datatype err =
    ApiErr api_reason string
  | Msg string
  | Wrap string err
  | GoPanic string

fun err_string :: "err \<Rightarrow> string" where
  "err_string (ApiErr r s) = s"
| "err_string (Msg s) = s"
| "err_string (Wrap s e) = s @ '': '' @ err_string e"
| "err_string (GoPanic s) = s"

text \<open>\<^verbatim>\<open>k8serr.ReasonForError\<close> looks through wrapped errors (\<^verbatim>\<open>errors.As\<close>).\<close>

fun err_reason :: "err \<Rightarrow> api_reason option" where
  "err_reason (ApiErr r s) = Some r"
| "err_reason (Msg s) = None"
| "err_reason (Wrap s e) = err_reason e"
| "err_reason (GoPanic s) = None"

text \<open>
  A run-time panic (nil dereference, index out of range) unwinds the call stack; where callers
  pass every error on at once it is modelled as an error value of its own.
\<close>

fun is_panic :: "err \<Rightarrow> bool" where
  "is_panic (GoPanic s) = True"
| "is_panic (Wrap s e) = is_panic e"
| "is_panic e = False"

definition IsNotFound :: "err option \<Rightarrow> bool" where
  "IsNotFound eo = (case eo of None \<Rightarrow> False | Some e \<Rightarrow> err_reason e = Some NotFound)"

definition IsForbidden :: "err option \<Rightarrow> bool" where
  "IsForbidden eo = (case eo of None \<Rightarrow> False | Some e \<Rightarrow> err_reason e = Some Forbidden)"

definition IsAlreadyExists :: "err option \<Rightarrow> bool" where
  "IsAlreadyExists eo = (case eo of None \<Rightarrow> False | Some e \<Rightarrow> err_reason e = Some AlreadyExists)"

lemma IsAlreadyExists_None [simp]: "\<not> IsAlreadyExists None"
  by (simp add: IsAlreadyExists_def)

lemma IsNotFound_simps [simp]:
  "\<not> IsNotFound None"
  "IsNotFound (Some (ApiErr r s)) = (r = NotFound)"
  "\<not> IsNotFound (Some (Msg s))"
  "\<not> IsNotFound (Some (GoPanic s))"
  "IsNotFound (Some (Wrap s e)) = IsNotFound (Some e)"
  by (simp_all add: IsNotFound_def)

lemma IsForbidden_simps [simp]:
  "\<not> IsForbidden None"
  "IsForbidden (Some (ApiErr r s)) = (r = Forbidden)"
  "\<not> IsForbidden (Some (Msg s))"
  "\<not> IsForbidden (Some (GoPanic s))"
  "IsForbidden (Some (Wrap s e)) = IsForbidden (Some e)"
  by (simp_all add: IsForbidden_def)

lemma NotFound_not_Forbidden: "IsNotFound eo \<Longrightarrow> \<not> IsForbidden eo"
  by (cases eo) (auto simp: IsNotFound_def IsForbidden_def)

section \<open>Go strings\<close>

abbreviation HasPrefix :: "string \<Rightarrow> string \<Rightarrow> bool" where
  "HasPrefix s p \<equiv> prefix p s"

abbreviation HasSuffix :: "string \<Rightarrow> string \<Rightarrow> bool" where
  "HasSuffix s p \<equiv> prefix (rev p) (rev s)"

definition TrimPrefix :: "string \<Rightarrow> string \<Rightarrow> string" where
  "TrimPrefix s p = (if HasPrefix s p then drop (length p) s else s)"

definition TrimSuffix :: "string \<Rightarrow> string \<Rightarrow> string" where
  "TrimSuffix s p = (if HasSuffix s p then take (length s - length p) s else s)"

text \<open>\<^verbatim>\<open>strings.Contains(s, sub)\<close>.\<close>

fun StrContains :: "string \<Rightarrow> string \<Rightarrow> bool" where
  "StrContains [] sub = (sub = [])"
| "StrContains (c # cs) sub = (prefix sub (c # cs) \<or> StrContains cs sub)"

lemma StrContains_iff_sublist: "StrContains s sub \<longleftrightarrow> sublist sub s"
  by (induction s) (auto simp: sublist_Cons_right)

lemma StrContains_append [simp]: "StrContains (a @ sub @ b) sub"
  by (simp add: StrContains_iff_sublist)

lemma StrContains_prefix: "prefix sub s \<Longrightarrow> StrContains s sub"
  by (simp add: StrContains_iff_sublist prefix_imp_sublist)

text \<open>\<^verbatim>\<open>strings.Join\<close>.\<close>

fun Join :: "string list \<Rightarrow> string \<Rightarrow> string" where
  "Join [] sep = []"
| "Join [s] sep = s"
| "Join (s # ss) sep = s @ sep @ Join ss sep"

text \<open>\<^verbatim>\<open>strings.Split\<close> on a one-byte separator: never the empty list.\<close>

fun SplitC :: "char \<Rightarrow> string \<Rightarrow> string list" where
  "SplitC c [] = [[]]"
| "SplitC c (x # xs) =
     (if x = c then [] # SplitC c xs
      else (case SplitC c xs of [] \<Rightarrow> [[x]] | w # ws \<Rightarrow> (x # w) # ws))"

lemma SplitC_not_Nil [simp]: "SplitC c s \<noteq> []"
  by (induction s) (auto split: list.splits)

lemma SplitC_segment: "c \<notin> set x \<Longrightarrow> SplitC c (x @ c # rest) = x # SplitC c rest"
  by (induction x) auto

lemma SplitC_whole: "c \<notin> set x \<Longrightarrow> SplitC c x = [x]"
  by (induction x) auto

lemma Join_Cons: "ss \<noteq> [] \<Longrightarrow> Join (s # ss) sep = s @ sep @ Join ss sep"
  by (cases ss) auto

lemma Join_SplitC: "Join (SplitC c s) [c] = s"
proof (induction s)
  case Nil
  show ?case by simp
next
  case (Cons x xs)
  obtain w ws where w: "SplitC c xs = w # ws" by (cases "SplitC c xs") auto
  show ?case
  proof (cases "x = c")
    case True
    then show ?thesis using Cons by (simp add: Join_Cons)
  next
    case False
    have "Join ((x # w) # ws) [c] = x # Join (w # ws) [c]" by (cases ws) auto
    then show ?thesis using False Cons w by simp
  qed
qed

text \<open>
  \<^verbatim>\<open>strings.ToLower\<close> on the ASCII letters. Go's function also maps upper-case letters outside
  ASCII; none of them has one of the letters of the words it is compared with here as its
  lower case.
\<close>

definition lower_char :: "char \<Rightarrow> char" where
  "lower_char c = (if 65 \<le> (of_char c :: nat) \<and> (of_char c :: nat) \<le> 90
                   then char_of ((of_char c :: nat) + 32) else c)"

definition ToLower :: "string \<Rightarrow> string" where
  "ToLower s = map lower_char s"

text \<open>\<^verbatim>\<open>strings.ToUpper\<close> on ASCII letters.\<close>

definition ToUpper :: "string \<Rightarrow> string" where
  "ToUpper s = map (\<lambda>c. let n = of_char c :: nat in if 97 \<le> n \<and> n \<le> 122 then char_of (n - 32) else c) s"

text \<open>\<^verbatim>\<open>strings.Replace(s, c, d, -1)\<close> for one-byte strings.\<close>

definition ReplaceAllC :: "string \<Rightarrow> char \<Rightarrow> char \<Rightarrow> string" where
  "ReplaceAllC s c d = map (\<lambda>x. if x = c then d else x) s"

text \<open>\<^verbatim>\<open>strings.TrimSpace\<close> for the white space of ASCII.\<close>

definition is_space :: "char \<Rightarrow> bool" where
  "is_space c \<longleftrightarrow> (of_char c :: nat) \<in> {9, 10, 11, 12, 13, 32}"

definition TrimSpace :: "string \<Rightarrow> string" where
  "TrimSpace s = rev (dropWhile is_space (rev (dropWhile is_space s)))"

section \<open>Decimal numerals (\<^verbatim>\<open>strconv.Itoa\<close>, \<^verbatim>\<open>strconv.Atoi\<close>)\<close>

definition digit_char :: "nat \<Rightarrow> char" where
  "digit_char d = char_of (48 + d)"

definition char_digit :: "char \<Rightarrow> nat option" where
  "char_digit c = (let n = (of_char c :: nat) in if 48 \<le> n \<and> n \<le> 57 then Some (n - 48) else None)"

fun nat_digits :: "nat \<Rightarrow> string" where
  "nat_digits n = (if n < 10 then [digit_char n] else nat_digits (n div 10) @ [digit_char (n mod 10)])"

declare nat_digits.simps [simp del]

definition Itoa :: "int \<Rightarrow> string" where
  "Itoa i = (if i < 0 then CHR ''-'' # nat_digits (nat (- i)) else nat_digits (nat i))"

fun digits_val :: "nat \<Rightarrow> string \<Rightarrow> nat option" where
  "digits_val acc [] = Some acc"
| "digits_val acc (c # cs) =
     (case char_digit c of None \<Rightarrow> None | Some d \<Rightarrow> digits_val (10 * acc + d) cs)"

text \<open>
  \<^verbatim>\<open>strconv.Atoi\<close> for 64-bit \<^verbatim>\<open>int\<close>: an optional sign, at least one digit, and a value in range;
  \<open>None\<close> is the error return.
\<close>

definition Atoi :: "string \<Rightarrow> int option" where
  "Atoi s =
     (let neg = (s \<noteq> [] \<and> hd s = CHR ''-'');
          ds = (if s \<noteq> [] \<and> (hd s = CHR ''-'' \<or> hd s = CHR ''+'') then tl s else s)
      in if ds = [] then None
         else (case digits_val 0 ds of
                 None \<Rightarrow> None
               | Some n \<Rightarrow> (let v = (if neg then - int n else int n)
                           in if - (2 ^ 63) \<le> v \<and> v < 2 ^ 63 then Some v else None)))"

lemma char_digit_digit_char [simp]: "d < 10 \<Longrightarrow> char_digit (digit_char d) = Some d"
  by (simp add: char_digit_def digit_char_def Let_def)

lemma digits_val_append:
  "digits_val acc (s @ t) = (case digits_val acc s of None \<Rightarrow> None | Some n \<Rightarrow> digits_val n t)"
  by (induction s arbitrary: acc) (auto split: option.splits)

lemma nat_digits_not_Nil [simp]: "nat_digits n \<noteq> []"
  by (subst nat_digits.simps) simp

lemma digits_val_nat_digits: "digits_val 0 (nat_digits n) = Some n"
proof (induction n rule: nat_digits.induct)
  case (1 n)
  show ?case
  proof (cases "n < 10")
    case True
    then show ?thesis by (subst nat_digits.simps) simp
  next
    case False
    then show ?thesis using 1
      by (subst nat_digits.simps) (simp add: digits_val_append)
  qed
qed

lemma hd_nat_digits: "\<exists>d < 10. hd (nat_digits n) = digit_char d"
proof (induction n rule: nat_digits.induct)
  case (1 n)
  then show ?case by (cases "n < 10") (auto simp: nat_digits.simps [of n])
qed

lemma digit_char_not_sign: "d < 10 \<Longrightarrow> digit_char d \<noteq> CHR ''-'' \<and> digit_char d \<noteq> CHR ''+''"
proof -
  assume d: "d < 10"
  have "char_digit (CHR ''-'') = None" and "char_digit (CHR ''+'') = None"
    by (simp_all add: char_digit_def)
  then show ?thesis using char_digit_digit_char [OF d] by auto
qed

lemma Atoi_Itoa:
  assumes "- (2 ^ 63) \<le> i" and "i < 2 ^ 63"
  shows "Atoi (Itoa i) = Some i"
proof (cases "i < 0")
  case True
  then show ?thesis using assms
    by (simp add: Atoi_def Itoa_def digits_val_nat_digits)
next
  case False
  obtain d where "d < 10" and "hd (nat_digits (nat i)) = digit_char d"
    using hd_nat_digits by blast
  then show ?thesis using False assms digit_char_not_sign [of d]
    by (simp add: Atoi_def Itoa_def digits_val_nat_digits)
qed

text \<open>The spellings \<^verbatim>\<open>strconv.ParseBool\<close> accepts.\<close>

definition ParseBool :: "string \<Rightarrow> bool option" where
  "ParseBool s =
     (if s \<in> set [''1'', ''t'', ''T'', ''true'', ''TRUE'', ''True''] then Some True
      else if s \<in> set [''0'', ''f'', ''F'', ''false'', ''FALSE'', ''False''] then Some False
      else None)"

section \<open>Go maps\<close>

type_synonym ('k, 'v) gomap = "('k \<times> 'v) list"

definition gomap_wf :: "('k, 'v) gomap \<Rightarrow> bool" where
  "gomap_wf m \<longleftrightarrow> distinct (map fst m)"

text \<open>Reading a missing key yields the value type's zero value.\<close>

definition gget :: "'v \<Rightarrow> ('k, 'v) gomap \<Rightarrow> 'k \<Rightarrow> 'v" where
  "gget z m k = (case map_of m k of None \<Rightarrow> z | Some v \<Rightarrow> v)"

abbreviation gset :: "'k \<Rightarrow> 'v \<Rightarrow> ('k, 'v) gomap \<Rightarrow> ('k, 'v) gomap" where
  "gset k v m \<equiv> AList.update k v m"

lemma gget_gset [simp, map_simps]: "gget z (gset k v m) j = (if j = k then v else gget z m j)"
  by (simp add: gget_def update_conv')

lemma gget_Nil [simp]: "gget z [] k = z"
  by (simp add: gget_def)

lemma gget_Cons [simp]: "gget z ((k, v) # m) j = (if j = k then v else gget z m j)"
  by (simp add: gget_def)

lemma gomap_wf_gset [simp, intro]: "gomap_wf m \<Longrightarrow> gomap_wf (gset k v m)"
  by (simp add: gomap_wf_def distinct_update)

lemma gset_same: "map_of m k = Some v \<Longrightarrow> gset k v m = m"
  by (induction m) auto

lemma map_of_gset [simp, map_simps]: "map_of (gset k v m) j = (if j = k then Some v else map_of m j)"
  by (simp add: update_conv')

lemma gset_present_keys: "k \<in> fst ` set m \<Longrightarrow> map fst (gset k v m) = map fst m"
  by (induction m) auto

lemma map_fst_gset:
  "map fst (gset k v m) = (if k \<in> fst ` set m then map fst m else map fst m @ [k])"
  by (induction m) auto

text \<open>\<^verbatim>\<open>reflect.DeepEqual\<close> on two maps, given the equality of their values.\<close>

definition gomap_eq :: "('v \<Rightarrow> 'v \<Rightarrow> bool) \<Rightarrow> ('k, 'v) gomap \<Rightarrow> ('k, 'v) gomap \<Rightarrow> bool" where
  "gomap_eq eq m n \<longleftrightarrow>
     (\<forall>k \<in> set (map fst m @ map fst n).
        case (map_of m k, map_of n k) of (Some v, Some w) \<Rightarrow> eq v w | _ \<Rightarrow> False)"

lemma gomap_eq_refl: "(\<And>v. eq v v) \<Longrightarrow> gomap_eq eq m m"
  by (auto simp: gomap_eq_def split: option.splits simp: map_of_eq_None_iff)

section \<open>Lists\<close>

lemma takeWhile_dropWhile_neq: "x \<in> set xs \<Longrightarrow> xs = takeWhile (\<lambda>y. y \<noteq> x) xs @ x # tl (dropWhile (\<lambda>y. y \<noteq> x) xs)"
  by (induction xs) auto

section \<open>Results with several components\<close>

lemma triple_eq: "fst r = a \<Longrightarrow> r = (a, fst (snd r), snd (snd r))"
  by (cases r) auto

lemma triple_eqE:
  assumes "fst r = a"
  obtains x y where "r = (a, x, y)"
  using assms by (cases r) auto

end
