(* ===== verification/RHMI_Types.thy ===== *)
theory RHMI_Types
  imports Prelude
begin

text \<open>
  The RHMI custom resource (\<^verbatim>\<open>api/v1alpha1\<close>): the typed string constants, the spec and status
  structs, the predicates and lookups on the resource and the add-on conditions built from it.
  Product and stage names stay strings, as in Go, because the controller compares them by
  substring. Times are nanoseconds; the clock is an argument.
\<close>

section \<open>Constants (\<^verbatim>\<open>rhmi_types.go\<close>)\<close>

datatype StatusPhase =
    PhaseNone | PhaseAwaitingOperator | PhaseAwaitingCloudResources | PhaseCreatingComponents
  | PhaseAwaitingComponents | PhaseInProgress | PhaseCompleted | PhaseFailed

fun phase_string :: "StatusPhase \<Rightarrow> string" where
  "phase_string PhaseNone = ''''"
| "phase_string PhaseAwaitingOperator = ''awaiting operator''"
| "phase_string PhaseAwaitingCloudResources = ''awaiting cloud resources''"
| "phase_string PhaseCreatingComponents = ''creating components''"
| "phase_string PhaseAwaitingComponents = ''awaiting components''"
| "phase_string PhaseInProgress = ''in progress''"
| "phase_string PhaseCompleted = ''completed''"
| "phase_string PhaseFailed = ''failed''"

type_synonym StageName = string
type_synonym ProductName = string
type_synonym ProductVersion = string
type_synonym OperatorVersion = string
type_synonym InstallationType = string

abbreviation InstallationTypeManagedApi :: InstallationType where
  "InstallationTypeManagedApi \<equiv> ''managed-api''"
abbreviation InstallationTypeMultitenantManagedApi :: InstallationType where
  "InstallationTypeMultitenantManagedApi \<equiv> ''multitenant-managed-api''"

abbreviation BootstrapStage :: StageName where "BootstrapStage \<equiv> ''bootstrap''"
abbreviation InstallStage :: StageName where "InstallStage \<equiv> ''installation''"
abbreviation CompleteStage :: StageName where "CompleteStage \<equiv> ''complete''"
abbreviation UninstallProductsStage :: StageName where
  "UninstallProductsStage \<equiv> ''uninstall - products''"
abbreviation UninstallCloudResourcesStage :: StageName where
  "UninstallCloudResourcesStage \<equiv> ''uninstall - cloud-resources''"
abbreviation UninstallBootstrap :: StageName where
  "UninstallBootstrap \<equiv> ''uninstall - bootstrap''"

abbreviation ProductRHSSO :: ProductName where "ProductRHSSO \<equiv> ''rhsso''"
abbreviation ProductRHSSOUser :: ProductName where "ProductRHSSOUser \<equiv> ''rhssouser''"
abbreviation Product3Scale :: ProductName where "Product3Scale \<equiv> ''3scale''"
abbreviation ProductCloudResources :: ProductName where "ProductCloudResources \<equiv> ''cloud-resources''"
abbreviation ProductMarin3r :: ProductName where "ProductMarin3r \<equiv> ''marin3r''"
abbreviation ProductGrafana :: ProductName where "ProductGrafana \<equiv> ''grafana''"

abbreviation Version3Scale :: ProductVersion where "Version3Scale \<equiv> ''2.16.3''"
abbreviation VersionCloudResources :: ProductVersion where "VersionCloudResources \<equiv> ''1.1.8''"
abbreviation VersionRHSSO :: ProductVersion where "VersionRHSSO \<equiv> ''7.6''"
abbreviation VersionRHSSOUser :: ProductVersion where "VersionRHSSOUser \<equiv> ''7.6''"
abbreviation VersionMarin3r :: ProductVersion where "VersionMarin3r \<equiv> ''0.13.4''"
abbreviation VersionGrafana :: ProductVersion where "VersionGrafana \<equiv> ''9.6.0''"

abbreviation OperatorVersionRHSSO :: OperatorVersion where "OperatorVersionRHSSO \<equiv> ''7.6.12-9''"
abbreviation OperatorVersionRHSSOUser :: OperatorVersion where
  "OperatorVersionRHSSOUser \<equiv> ''7.6.12-9''"
abbreviation OperatorVersionCloudResources :: OperatorVersion where
  "OperatorVersionCloudResources \<equiv> ''1.1.8''"
abbreviation OperatorVersion3Scale :: OperatorVersion where "OperatorVersion3Scale \<equiv> ''0.13.3''"
abbreviation OperatorVersionMarin3r :: OperatorVersion where "OperatorVersionMarin3r \<equiv> ''0.13.4''"

datatype PreflightStatus = PreflightInProgress | PreflightSuccess | PreflightFail

section \<open>The resource\<close>

record PullSecretSpec =
  ps_Name :: string
  ps_Namespace :: string

record AlertingEmailAddresses =
  BusinessUnit :: string
  CSSRE :: string

record RHMISpec =
  Type :: string
  RoutingSubdomain :: string
  MasterURL :: string
  NamespacePrefix :: string
  RebalancePods :: bool
  SelfSignedCerts :: bool
  PullSecret :: PullSecretSpec
  UseClusterStorage :: string
  AlertingEmailAddress :: string
  PriorityClassName :: string
  AlertingEmails :: AlertingEmailAddresses
  AlertFromAddress :: string
  APIServer :: string
  OperatorsInProductNamespace :: bool
  SMTPSecret :: string
  PagerDutySecret :: string
  DeadMansSnitchSecret :: string

record RHMIProductStatus =
  p_Name :: ProductName
  p_OperatorVersion :: OperatorVersion
  p_Version :: ProductVersion
  p_Host :: string
  p_Type :: string
  p_Mobile :: bool
  p_Phase :: StatusPhase
  p_Uninstall :: bool

record RHMIStageStatus =
  s_Name :: StageName
  s_Phase :: StatusPhase
  s_Products :: "(ProductName, RHMIProductStatus) gomap"

record EnabledStatus =
  Enabled :: bool
  EnabledError :: string

record RHMIStatus =
  Stages :: "(StageName, RHMIStageStatus) gomap option"  \<comment> \<open>\<open>None\<close> is the nil map\<close>
  Stage :: StageName
  PreflightStatusF :: PreflightStatus
  PreflightMessage :: string
  LastError :: string
  GitHubOAuthEnabled :: bool
  SMTPEnabled :: bool
  Version :: string
  ToVersion :: string
  QuotaF :: string
  ToQuota :: string
  CustomSmtp :: "EnabledStatus option"
  CustomDomain :: "EnabledStatus option"

record RHMI =
  Name :: string
  Namespace :: string
  ResourceVersion :: string
  Annotations :: "(string, string) gomap"
  Finalizers :: "string list"
  CreationTimestamp :: int
  DeletionTimestamp :: "int option"
  Spec :: RHMISpec
  Status :: RHMIStatus

text \<open>Zero values (what Go reads from a missing map key, or from a fresh struct).\<close>

definition zero_product :: RHMIProductStatus where
  "zero_product = \<lparr>p_Name = '''', p_OperatorVersion = '''', p_Version = '''', p_Host = '''',
     p_Type = '''', p_Mobile = False, p_Phase = PhaseNone, p_Uninstall = False\<rparr>"

definition product_named :: "ProductName \<Rightarrow> RHMIProductStatus" where
  "product_named n = zero_product\<lparr>p_Name := n\<rparr>"

definition zero_stage :: RHMIStageStatus where
  "zero_stage = \<lparr>s_Name = '''', s_Phase = PhaseNone, s_Products = []\<rparr>"

definition zero_spec :: RHMISpec where
  "zero_spec = \<lparr>Type = '''', RoutingSubdomain = '''', MasterURL = '''', NamespacePrefix = '''',
     RebalancePods = False, SelfSignedCerts = False,
     PullSecret = \<lparr>ps_Name = '''', ps_Namespace = ''''\<rparr>, UseClusterStorage = '''',
     AlertingEmailAddress = '''', PriorityClassName = '''',
     AlertingEmails = \<lparr>BusinessUnit = '''', CSSRE = ''''\<rparr>, AlertFromAddress = '''',
     APIServer = '''', OperatorsInProductNamespace = False, SMTPSecret = '''',
     PagerDutySecret = '''', DeadMansSnitchSecret = ''''\<rparr>"

definition zero_status :: RHMIStatus where
  "zero_status = \<lparr>Stages = None, Stage = '''', PreflightStatusF = PreflightInProgress,
     PreflightMessage = '''', LastError = '''', GitHubOAuthEnabled = False, SMTPEnabled = False,
     Version = '''', ToVersion = '''', QuotaF = '''', ToQuota = '''',
     CustomSmtp = None, CustomDomain = None\<rparr>"

definition zero_rhmi :: RHMI where
  "zero_rhmi = \<lparr>Name = '''', Namespace = '''', ResourceVersion = '''', Annotations = [],
     Finalizers = [], CreationTimestamp = 0, DeletionTimestamp = None,
     Spec = zero_spec, Status = zero_status\<rparr>"

lemmas zero_defs [go_defs] =
  zero_product_def product_named_def zero_stage_def zero_spec_def zero_status_def zero_rhmi_def

section \<open>Installation types (\<^verbatim>\<open>installationTypesHelper.go\<close>)\<close>

definition IsRHOAM :: "InstallationType \<Rightarrow> bool" where
  "IsRHOAM t \<longleftrightarrow> t = InstallationTypeManagedApi \<or> t = InstallationTypeMultitenantManagedApi"

definition isMultitenant :: "InstallationType \<Rightarrow> bool" where
  "isMultitenant t \<longleftrightarrow> t = InstallationTypeMultitenantManagedApi"

definition IsRHOAMMultitenant :: "InstallationType \<Rightarrow> bool" where
  "IsRHOAMMultitenant t \<longleftrightarrow> IsRHOAM t \<and> isMultitenant t"

definition IsRHOAMSingletenant :: "InstallationType \<Rightarrow> bool" where
  "IsRHOAMSingletenant t \<longleftrightarrow> IsRHOAM t \<and> \<not> isMultitenant t"

lemma installation_type_partition:
  "IsRHOAM t \<longleftrightarrow> (IsRHOAMMultitenant t \<noteq> IsRHOAMSingletenant t)"
  by (auto simp: IsRHOAM_def IsRHOAMMultitenant_def IsRHOAMSingletenant_def isMultitenant_def)

section \<open>Methods of RHMI\<close>

definition stages_of :: "RHMI \<Rightarrow> (StageName, RHMIStageStatus) gomap" where
  "stages_of i = (case Stages (Status i) of None \<Rightarrow> [] | Some m \<Rightarrow> m)"

text \<open>The first stage, in the map's visiting order, that has the product.\<close>

definition GetProductStatusObject :: "RHMI \<Rightarrow> ProductName \<Rightarrow> RHMIProductStatus" where
  "GetProductStatusObject i product =
     (case List.find (\<lambda>(n, st). product \<in> fst ` set (s_Products st)) (stages_of i) of
        Some (n, st) \<Rightarrow> gget zero_product (s_Products st) product
      | None \<Rightarrow> product_named product)"

definition GetPullSecretSpec :: "RHMI \<Rightarrow> PullSecretSpec" where
  "GetPullSecretSpec i =
     (if ps_Name (PullSecret (Spec i)) \<noteq> '''' \<and> ps_Namespace (PullSecret (Spec i)) \<noteq> ''''
      then PullSecret (Spec i)
      else \<lparr>ps_Name = ''pull-secret'', ps_Namespace = ''openshift-config''\<rparr>)"

definition GetStage :: "RHMI \<Rightarrow> StageName \<Rightarrow> RHMIStageStatus" where
  "GetStage i n = gget zero_stage (stages_of i) n"

definition GetInstallStage :: "RHMI \<Rightarrow> RHMIStageStatus" where
  "GetInstallStage i = GetStage i InstallStage"

definition IsProductInInstallStagePhaseComplete :: "RHMI \<Rightarrow> ProductName \<Rightarrow> bool" where
  "IsProductInInstallStagePhaseComplete i p \<longleftrightarrow>
     p_Phase (gget zero_product (s_Products (GetInstallStage i)) p) = PhaseCompleted"

definition GetDegradedComponents :: "RHMI \<Rightarrow> ProductName list" where
  "GetDegradedComponents i =
     filter (\<lambda>k. \<not> IsProductInInstallStagePhaseComplete i k)
       (map fst (s_Products (GetInstallStage i)))"

definition IsInstalled :: "RHMI \<Rightarrow> bool" where
  "IsInstalled i \<longleftrightarrow> Version (Status i) \<noteq> ''''"

definition IsUninstalling :: "RHMI \<Rightarrow> bool" where
  "IsUninstalling i \<longleftrightarrow> DeletionTimestamp i \<noteq> None"

abbreviation second_ns :: int where "second_ns \<equiv> 1000000000"
abbreviation two_hours :: int where "two_hours \<equiv> 2 * 3600 * second_ns"

definition IsInstallBlocked :: "int \<Rightarrow> RHMI \<Rightarrow> bool" where
  "IsInstallBlocked now i \<longleftrightarrow>
     CreationTimestamp i + two_hours < now \<and> \<not> IsInstalled i \<and> \<not> IsUninstalling i"

definition IsDegraded :: "RHMI \<Rightarrow> bool" where
  "IsDegraded i \<longleftrightarrow> \<not> IsUninstalling i \<and> Stage (Status i) \<noteq> CompleteStage"

definition IsUninstallBlocked :: "int \<Rightarrow> RHMI \<Rightarrow> bool" where
  "IsUninstallBlocked now i \<longleftrightarrow>
     (case DeletionTimestamp i of None \<Rightarrow> False | Some d \<Rightarrow> d + two_hours < now)"

definition IsCoreComponentsHealthy :: "RHMI \<Rightarrow> bool" where
  "IsCoreComponentsHealthy i \<longleftrightarrow>
     IsProductInInstallStagePhaseComplete i ProductCloudResources \<and>
     IsProductInInstallStagePhaseComplete i ProductRHSSOUser \<and>
     IsProductInInstallStagePhaseComplete i Product3Scale"

lemmas rhmi_method_defs [go_defs] =
  stages_of_def GetProductStatusObject_def GetPullSecretSpec_def GetStage_def GetInstallStage_def
  IsProductInInstallStagePhaseComplete_def GetDegradedComponents_def IsInstalled_def
  IsUninstalling_def IsInstallBlocked_def IsDegraded_def IsUninstallBlocked_def
  IsCoreComponentsHealthy_def

text \<open>A product status is found under its own name when every stage stores it so.\<close>

definition product_names_ok :: "(ProductName, RHMIProductStatus) gomap \<Rightarrow> bool" where
  "product_names_ok m \<longleftrightarrow> (\<forall>(k, v) \<in> set m. p_Name v = k)"

lemma product_names_ok_gset [intro]:
  "product_names_ok m \<Longrightarrow> p_Name v = k \<Longrightarrow> product_names_ok (gset k v m)"
  by (induction m) (auto simp: product_names_ok_def)

lemma product_names_ok_gget:
  assumes "product_names_ok m" and "k \<in> fst ` set m"
  shows "p_Name (gget z m k) = k"
proof -
  obtain v where v: "map_of m k = Some v"
    using assms(2) by (metis map_of_eq_None_iff not_None_eq)
  then have "(k, v) \<in> set m" by (rule map_of_SomeD)
  then show ?thesis using assms(1) v by (auto simp: product_names_ok_def gget_def)
qed

lemma GetProductStatusObject_name:
  assumes "\<And>n st. (n, st) \<in> set (stages_of i) \<Longrightarrow> product_names_ok (s_Products st)"
  shows "p_Name (GetProductStatusObject i product) = product"
proof (cases "List.find (\<lambda>(n, st). product \<in> fst ` set (s_Products st)) (stages_of i)")
  case None
  then show ?thesis
    by (simp add: GetProductStatusObject_def product_named_def)
next
  case (Some x)
  obtain n st where x: "x = (n, st)" by (cases x)
  from Some x have "(n, st) \<in> set (stages_of i)" and "product \<in> fst ` set (s_Products st)"
    by (auto simp: find_Some_iff in_set_conv_nth)
  with assms have "p_Name (gget zero_product (s_Products st) product) = product"
    by (blast intro: product_names_ok_gget)
  then show ?thesis using Some x by (simp add: GetProductStatusObject_def)
qed

section \<open>\<^verbatim>\<open>reflect.DeepEqual\<close> on the resource\<close>

definition DeepEqual_stage :: "RHMIStageStatus \<Rightarrow> RHMIStageStatus \<Rightarrow> bool" where
  "DeepEqual_stage a b \<longleftrightarrow> s_Name a = s_Name b \<and> s_Phase a = s_Phase b \<and>
     gomap_eq (=) (s_Products a) (s_Products b)"

definition DeepEqual_status :: "RHMIStatus \<Rightarrow> RHMIStatus \<Rightarrow> bool" where
  "DeepEqual_status a b \<longleftrightarrow>
     (case (Stages a, Stages b) of
        (None, None) \<Rightarrow> True
      | (Some m, Some n) \<Rightarrow> gomap_eq DeepEqual_stage m n
      | _ \<Rightarrow> False) \<and>
     a\<lparr>Stages := None\<rparr> = b\<lparr>Stages := None\<rparr>"

definition DeepEqual_rhmi :: "RHMI \<Rightarrow> RHMI \<Rightarrow> bool" where
  "DeepEqual_rhmi a b \<longleftrightarrow> DeepEqual_status (Status a) (Status b) \<and>
     gomap_eq (=) (Annotations a) (Annotations b) \<and>
     a\<lparr>Status := zero_status, Annotations := []\<rparr> = b\<lparr>Status := zero_status, Annotations := []\<rparr>"

lemma DeepEqual_stage_refl [simp]: "DeepEqual_stage a a"
  by (simp add: DeepEqual_stage_def gomap_eq_refl)

lemma DeepEqual_status_refl [simp]: "DeepEqual_status a a"
  by (simp add: DeepEqual_status_def gomap_eq_refl split: option.split)

lemma DeepEqual_rhmi_refl [simp]: "DeepEqual_rhmi a a"
  by (simp add: DeepEqual_rhmi_def gomap_eq_refl)

section \<open>Add-on conditions (\<^verbatim>\<open>rhmi_conditions.go\<close>)\<close>

datatype ConditionStatus = ConditionTrue | ConditionFalse | ConditionUnknown

record Condition =
  c_Type :: string
  c_Status :: ConditionStatus
  c_ObservedGeneration :: int
  c_LastTransitionTime :: int
  c_Reason :: string
  c_Message :: string

text \<open>
  The constructors of the add-on operator's client set type, status, reason and message and
  leave the generation and the transition time at their zero values.
\<close>

definition mk_condition :: "string \<Rightarrow> ConditionStatus \<Rightarrow> string \<Rightarrow> string \<Rightarrow> Condition" where
  "mk_condition t s r m = \<lparr>c_Type = t, c_Status = s, c_ObservedGeneration = 0,
     c_LastTransitionTime = 0, c_Reason = r, c_Message = m\<rparr>"

abbreviation addon_group :: string where "addon_group \<equiv> ''addons.managed.openshift.io/''"

definition NewAddonInstanceConditionInstalled :: "ConditionStatus \<Rightarrow> string \<Rightarrow> string \<Rightarrow> Condition" where
  "NewAddonInstanceConditionInstalled s r m = mk_condition (addon_group @ ''Installed'') s r m"

definition NewAddonInstanceConditionDegraded :: "ConditionStatus \<Rightarrow> string \<Rightarrow> string \<Rightarrow> Condition" where
  "NewAddonInstanceConditionDegraded s r m = mk_condition (addon_group @ ''Degraded'') s r m"

definition newRHMICondition :: "string \<Rightarrow> ConditionStatus \<Rightarrow> string \<Rightarrow> string \<Rightarrow> Condition" where
  "newRHMICondition t s r m = mk_condition (''integreatly.org/'' @ t) s r m"

definition InstalledCondition :: Condition where
  "InstalledCondition =
     NewAddonInstanceConditionInstalled ConditionTrue ''SetupComplete'' ''Installation complete''"

definition InstallBlockedCondition :: Condition where
  "InstallBlockedCondition =
     NewAddonInstanceConditionInstalled ConditionFalse ''Blocked'' ''Installation blocked''"

definition UninstalledCondition :: Condition where
  "UninstalledCondition =
     NewAddonInstanceConditionInstalled ConditionFalse ''TeardownComplete'' ''Teardown complete''"

definition UninstallBlockedCondition :: Condition where
  "UninstallBlockedCondition =
     NewAddonInstanceConditionInstalled ConditionTrue ''Blocked'' ''Teardown blocked''"

definition HealthyCondition :: Condition where
  "HealthyCondition =
     newRHMICondition ''Healthy'' ConditionTrue ''Healthy'' ''Core components healthy''"

definition UnHealthyCondition :: Condition where
  "UnHealthyCondition =
     newRHMICondition ''Healthy'' ConditionFalse ''Healthy'' ''One or more core components unhealthy''"

text \<open>\<^verbatim>\<open>%s\<close> of a slice of names: brackets, elements separated by blanks.\<close>

definition DegradedCondition :: "RHMI \<Rightarrow> Condition" where
  "DegradedCondition i =
     NewAddonInstanceConditionDegraded ConditionTrue ''Degraded''
       (''Components degraded: ['' @ Join (GetDegradedComponents i) '' '' @ '']'')"

definition NonDegradedCondition :: Condition where
  "NonDegradedCondition =
     NewAddonInstanceConditionDegraded ConditionFalse ''Degraded'' ''All components healthy''"

definition ReadyToBeDeletedCondition :: Condition where
  "ReadyToBeDeletedCondition =
     mk_condition (addon_group @ ''ReadyToBeDeleted'') ConditionTrue
       ''AddonReadyToBeDeleted'' ''Teardown complete''"

lemmas condition_defs [go_defs] =
  mk_condition_def NewAddonInstanceConditionInstalled_def NewAddonInstanceConditionDegraded_def
  newRHMICondition_def InstalledCondition_def InstallBlockedCondition_def UninstalledCondition_def
  UninstallBlockedCondition_def HealthyCondition_def UnHealthyCondition_def DegradedCondition_def
  NonDegradedCondition_def ReadyToBeDeletedCondition_def

end
