(* ===== verification/Product_Config.thy ===== *)
theory Product_Config
  imports RHMI_Types
begin

text \<open>
  The per-product configuration wrappers of \<^verbatim>\<open>pkg/config\<close>: each is a string map with typed
  accessors and implements the Go interface \<^verbatim>\<open>ConfigReadable\<close>. A setter writes one key of the
  map; the model returns the wrapper with the written map. The interface is the locale
  \<open>config_readable\<close>, interpreted for all six wrappers.
\<close>

type_synonym ProductConfig = "(string, string) gomap"

type_synonym crd = "string \<times> string"  \<comment> \<open>kind and API version of a watched object\<close>

abbreviation cfg :: "ProductConfig \<Rightarrow> string \<Rightarrow> string" where
  "cfg m k \<equiv> gget '''' m k"

section \<open>Prow detection (\<^verbatim>\<open>utils/prow.go\<close>, \<^verbatim>\<open>pkg/resources/utils.go\<close>)\<close>

definition RunningInProw :: "RHMI \<Rightarrow> bool" where
  "RunningInProw inst =
     (case map_of (Annotations inst) ''in_prow'' of
        None \<Rightarrow> False | Some v \<Rightarrow> if v = ''false'' then False else True)"

definition IsInProw :: "RHMI \<Rightarrow> bool" where
  "IsInProw inst =
     (case map_of (Annotations inst) ''in_prow'' of
        None \<Rightarrow> False | Some v \<Rightarrow> v = ''true'')"

definition IsSkipFinalDBSnapshots :: "RHMI \<Rightarrow> bool" where
  "IsSkipFinalDBSnapshots inst =
     (case map_of (Annotations inst) ''skip_final_db_snapshots'' of
        None \<Rightarrow> False | Some v \<Rightarrow> v = ''true'')"

lemma IsInProw_RunningInProw: "IsInProw i \<Longrightarrow> RunningInProw i"
  by (auto simp: IsInProw_def RunningInProw_def split: option.splits)

section \<open>\<^verbatim>\<open>ParseBool\<close> and \<^verbatim>\<open>FormatBool\<close>\<close>

definition FormatBool :: "bool \<Rightarrow> string" where
  "FormatBool b = (if b then ''true'' else ''false'')"

lemma ParseBool_FormatBool [simp]: "ParseBool (FormatBool b) = Some b"
  by (simp add: ParseBool_def FormatBool_def)

section \<open>The RHSSO wrappers (\<^verbatim>\<open>rhssoCommon.go\<close>, \<^verbatim>\<open>rhsso.go\<close>, \<^verbatim>\<open>rhssoUser.go\<close>)\<close>

record RHSSOCommon = rhsso_Config :: ProductConfig

definition NewRHSSOCommon :: "ProductConfig \<Rightarrow> RHSSOCommon" where
  "NewRHSSOCommon c = \<lparr>rhsso_Config = c\<rparr>"

definition RHSSOCommon_GetWatchableCRDs :: "RHSSOCommon \<Rightarrow> crd list" where
  "RHSSOCommon_GetWatchableCRDs r =
     [(''Keycloak'', ''keycloak.org/v1alpha1''), (''KeycloakRealm'', ''keycloak.org/v1alpha1''),
      (''KeycloakUser'', ''keycloak.org/v1alpha1''), (''KeycloakClient'', ''keycloak.org/v1alpha1''),
      (''KeycloakBackup'', ''keycloak.org/v1alpha1'')]"

definition RHSSOCommon_GetNamespace :: "RHSSOCommon \<Rightarrow> string" where
  "RHSSOCommon_GetNamespace r = cfg (rhsso_Config r) ''NAMESPACE''"

definition RHSSOCommon_SetNamespace :: "RHSSOCommon \<Rightarrow> string \<Rightarrow> RHSSOCommon" where
  "RHSSOCommon_SetNamespace r v = r\<lparr>rhsso_Config := gset ''NAMESPACE'' v (rhsso_Config r)\<rparr>"

definition RHSSOCommon_GetOperatorNamespace :: "RHSSOCommon \<Rightarrow> string" where
  "RHSSOCommon_GetOperatorNamespace r = cfg (rhsso_Config r) ''OPERATOR_NAMESPACE''"

definition RHSSOCommon_SetOperatorNamespace :: "RHSSOCommon \<Rightarrow> string \<Rightarrow> RHSSOCommon" where
  "RHSSOCommon_SetOperatorNamespace r v = r\<lparr>rhsso_Config := gset ''OPERATOR_NAMESPACE'' v (rhsso_Config r)\<rparr>"

definition RHSSOCommon_GetRealm :: "RHSSOCommon \<Rightarrow> string" where
  "RHSSOCommon_GetRealm r = cfg (rhsso_Config r) ''REALM''"

definition RHSSOCommon_SetRealm :: "RHSSOCommon \<Rightarrow> string \<Rightarrow> RHSSOCommon" where
  "RHSSOCommon_SetRealm r v = r\<lparr>rhsso_Config := gset ''REALM'' v (rhsso_Config r)\<rparr>"

definition RHSSOCommon_GetHost :: "RHSSOCommon \<Rightarrow> string" where
  "RHSSOCommon_GetHost r = cfg (rhsso_Config r) ''HOST''"

definition RHSSOCommon_SetHost :: "RHSSOCommon \<Rightarrow> string \<Rightarrow> RHSSOCommon" where
  "RHSSOCommon_SetHost r v = r\<lparr>rhsso_Config := gset ''HOST'' v (rhsso_Config r)\<rparr>"

definition RHSSOCommon_Read :: "RHSSOCommon \<Rightarrow> ProductConfig" where
  "RHSSOCommon_Read r = rhsso_Config r"

definition RHSSOCommon_GetLabelSelector :: "RHSSOCommon \<Rightarrow> string" where
  "RHSSOCommon_GetLabelSelector r = ''middleware''"

definition RHSSOCommon_GetProductVersion :: "RHSSOCommon \<Rightarrow> ProductVersion" where
  "RHSSOCommon_GetProductVersion r = cfg (rhsso_Config r) ''VERSION''"

definition RHSSOCommon_SetProductVersion :: "RHSSOCommon \<Rightarrow> string \<Rightarrow> RHSSOCommon" where
  "RHSSOCommon_SetProductVersion r v = r\<lparr>rhsso_Config := gset ''VERSION'' v (rhsso_Config r)\<rparr>"

definition RHSSOCommon_SetOperatorVersion :: "RHSSOCommon \<Rightarrow> string \<Rightarrow> RHSSOCommon" where
  "RHSSOCommon_SetOperatorVersion r v = r\<lparr>rhsso_Config := gset ''OPERATOR'' v (rhsso_Config r)\<rparr>"

definition RHSSOCommon_ValidateCommon :: "RHSSOCommon \<Rightarrow> err option" where
  "RHSSOCommon_ValidateCommon r =
     (if RHSSOCommon_GetRealm r = '''' then Some (Msg ''config realm is not defined'')
      else if RHSSOCommon_GetNamespace r = '''' then Some (Msg ''config namespace is not defined'')
      else if RHSSOCommon_GetHost r = '''' then Some (Msg ''config url is not defined'')
      else None)"

text \<open>The two embeddings of the common part; promoted methods are those of the embedded struct.\<close>

record RHSSO = rhsso_common :: RHSSOCommon

definition NewRHSSO :: "ProductConfig \<Rightarrow> RHSSO" where
  "NewRHSSO c = \<lparr>rhsso_common = NewRHSSOCommon c\<rparr>"

definition RHSSO_GetProductName :: "RHSSO \<Rightarrow> ProductName" where
  "RHSSO_GetProductName r = ProductRHSSO"

definition RHSSO_GetLabelSelector :: "RHSSO \<Rightarrow> string" where
  "RHSSO_GetLabelSelector r = ''middleware''"

definition RHSSO_GetOperatorVersion :: "RHSSO \<Rightarrow> OperatorVersion" where
  "RHSSO_GetOperatorVersion r = OperatorVersionRHSSO"

definition RHSSO_Validate :: "RHSSO \<Rightarrow> err option" where
  "RHSSO_Validate r =
     (if RHSSO_GetProductName r = '''' then Some (Msg ''config product name is not defined'')
      else RHSSOCommon_ValidateCommon (rhsso_common r))"

definition RHSSO_GetReplicasConfig :: "RHMI \<Rightarrow> int" where
  "RHSSO_GetReplicasConfig inst = (if RunningInProw inst then 1 else 2)"

record RHSSOUser = rhssouser_common :: RHSSOCommon

definition NewRHSSOUser :: "ProductConfig \<Rightarrow> RHSSOUser" where
  "NewRHSSOUser c = \<lparr>rhssouser_common = NewRHSSOCommon c\<rparr>"

abbreviation user_cfg :: "RHSSOUser \<Rightarrow> ProductConfig" where
  "user_cfg r \<equiv> rhsso_Config (rhssouser_common r)"

definition RHSSOUser_SetDevelopersGroupConfigured :: "RHSSOUser \<Rightarrow> bool \<Rightarrow> RHSSOUser" where
  "RHSSOUser_SetDevelopersGroupConfigured r b =
     r\<lparr>rhssouser_common := \<lparr>rhsso_Config =
        gset ''DEVELOPERS_GROUP_CONFIGURED'' (FormatBool b) (user_cfg r)\<rparr>\<rparr>"

text \<open>\<^verbatim>\<open>strconv.ParseBool\<close> returns false together with its error.\<close>

definition RHSSOUser_GetDevelopersGroupConfigured :: "RHSSOUser \<Rightarrow> bool \<times> err option" where
  "RHSSOUser_GetDevelopersGroupConfigured r =
     (let v = cfg (user_cfg r) ''DEVELOPERS_GROUP_CONFIGURED'' in
      if v = '''' then (False, None)
      else (case ParseBool v of Some b \<Rightarrow> (b, None) | None \<Rightarrow> (False, Some (Msg ''invalid syntax''))))"

definition RHSSOUser_GetBlackboxTargetPath :: "RHSSOUser \<Rightarrow> string" where
  "RHSSOUser_GetBlackboxTargetPath r = cfg (user_cfg r) ''BLACKBOX_TARGET_PATH''"

definition RHSSOUser_SetBlackboxTargetPath :: "RHSSOUser \<Rightarrow> string \<Rightarrow> RHSSOUser" where
  "RHSSOUser_SetBlackboxTargetPath r v =
     r\<lparr>rhssouser_common := \<lparr>rhsso_Config = gset ''BLACKBOX_TARGET_PATH'' v (user_cfg r)\<rparr>\<rparr>"

definition RHSSOUser_GetProductName :: "RHSSOUser \<Rightarrow> ProductName" where
  "RHSSOUser_GetProductName r = ProductRHSSOUser"

definition RHSSOUser_GetOperatorVersion :: "RHSSOUser \<Rightarrow> OperatorVersion" where
  "RHSSOUser_GetOperatorVersion r = OperatorVersionRHSSOUser"

definition RHSSOUser_Validate :: "RHSSOUser \<Rightarrow> err option" where
  "RHSSOUser_Validate r =
     (if RHSSOUser_GetProductName r = '''' then Some (Msg ''config product name is not defined'')
      else RHSSOCommon_ValidateCommon (rhssouser_common r))"

definition RHSSOUser_GetReplicasConfig :: "RHMI \<Rightarrow> int" where
  "RHSSOUser_GetReplicasConfig inst = (if RunningInProw inst then 1 else 3)"

section \<open>3scale (\<^verbatim>\<open>threescale.go\<close>)\<close>

record ThreeScale = ts_config :: ProductConfig

definition NewThreeScale :: "ProductConfig \<Rightarrow> ThreeScale" where
  "NewThreeScale c = \<lparr>ts_config = c\<rparr>"

definition ThreeScale_GetWatchableCRDs :: "ThreeScale \<Rightarrow> crd list" where
  "ThreeScale_GetWatchableCRDs t = [(''APIManager'', ''apps.3scale.net/v1alpha1'')]"

definition ThreeScale_GetHost :: "ThreeScale \<Rightarrow> string" where
  "ThreeScale_GetHost r = cfg (ts_config r) ''HOST''"

definition ThreeScale_SetHost :: "ThreeScale \<Rightarrow> string \<Rightarrow> ThreeScale" where
  "ThreeScale_SetHost r v = r\<lparr>ts_config := gset ''HOST'' v (ts_config r)\<rparr>"

definition ThreeScale_GetBlackboxTargetPathForAdminUI :: "ThreeScale \<Rightarrow> string" where
  "ThreeScale_GetBlackboxTargetPathForAdminUI r = cfg (ts_config r) ''BLACKBOX_TARGET_PATH_ADMIN_UI''"

definition ThreeScale_SetBlackboxTargetPathForAdminUI :: "ThreeScale \<Rightarrow> string \<Rightarrow> ThreeScale" where
  "ThreeScale_SetBlackboxTargetPathForAdminUI r v = r\<lparr>ts_config := gset ''BLACKBOX_TARGET_PATH_ADMIN_UI'' v (ts_config r)\<rparr>"

definition ThreeScale_GetNamespace :: "ThreeScale \<Rightarrow> string" where
  "ThreeScale_GetNamespace r = cfg (ts_config r) ''NAMESPACE''"

definition ThreeScale_SetNamespace :: "ThreeScale \<Rightarrow> string \<Rightarrow> ThreeScale" where
  "ThreeScale_SetNamespace r v = r\<lparr>ts_config := gset ''NAMESPACE'' v (ts_config r)\<rparr>"

definition ThreeScale_GetOperatorNamespace :: "ThreeScale \<Rightarrow> string" where
  "ThreeScale_GetOperatorNamespace r = cfg (ts_config r) ''OPERATOR_NAMESPACE''"

definition ThreeScale_SetOperatorNamespace :: "ThreeScale \<Rightarrow> string \<Rightarrow> ThreeScale" where
  "ThreeScale_SetOperatorNamespace r v = r\<lparr>ts_config := gset ''OPERATOR_NAMESPACE'' v (ts_config r)\<rparr>"

definition ThreeScale_GetLabelSelector :: "ThreeScale \<Rightarrow> string" where
  "ThreeScale_GetLabelSelector r = ''middleware''"

definition ThreeScale_Read :: "ThreeScale \<Rightarrow> ProductConfig" where
  "ThreeScale_Read r = ts_config r"

definition ThreeScale_GetProductName :: "ThreeScale \<Rightarrow> ProductName" where
  "ThreeScale_GetProductName r = Product3Scale"

definition ThreeScale_GetProductVersion :: "ThreeScale \<Rightarrow> ProductVersion" where
  "ThreeScale_GetProductVersion r = cfg (ts_config r) ''VERSION''"

definition ThreeScale_GetOperatorVersion :: "ThreeScale \<Rightarrow> OperatorVersion" where
  "ThreeScale_GetOperatorVersion r = cfg (ts_config r) ''OPERATOR''"

definition ThreeScale_SetOperatorVersion :: "ThreeScale \<Rightarrow> string \<Rightarrow> ThreeScale" where
  "ThreeScale_SetOperatorVersion r v = r\<lparr>ts_config := gset ''OPERATOR'' v (ts_config r)\<rparr>"

definition ThreeScale_SetProductVersion :: "ThreeScale \<Rightarrow> string \<Rightarrow> ThreeScale" where
  "ThreeScale_SetProductVersion r v = r\<lparr>ts_config := gset ''VERSION'' v (ts_config r)\<rparr>"

definition ThreeScale_Validate :: "ThreeScale \<Rightarrow> err option" where
  "ThreeScale_Validate t =
     (if ThreeScale_GetNamespace t = '''' then Some (Msg ''config namespace is not defined'')
      else if ThreeScale_GetProductName t = '''' then Some (Msg ''config product name is not defined'')
      else if ThreeScale_GetHost t = '''' then Some (Msg ''config host is not defined'')
      else None)"

definition setDefaultNumberOfReplicas :: "int \<Rightarrow> (string, int) gomap \<Rightarrow> (string, int) gomap" where
  "setDefaultNumberOfReplicas d m = map (\<lambda>(k, v). (k, d)) m"

definition set_quota_replicas :: "int \<Rightarrow> int \<Rightarrow> int \<Rightarrow> (string, int) gomap \<Rightarrow> (string, int) gomap" where
  "set_quota_replicas apicast listener worker m =
     gset ''backendWorker'' worker (gset ''backendListener'' listener (gset ''apicastProd'' apicast m))"

definition ThreeScale_GetReplicasConfig :: "RHMI \<Rightarrow> (string, int) gomap" where
  "ThreeScale_GetReplicasConfig inst =
     (let c0 = [(''systemApp'', 3), (''systemSidekiq'', 3), (''apicastProd'', 3), (''apicastStage'', 3),
                (''backendListener'', 3), (''backendWorker'', 3), (''backendCron'', 1),
                (''zyncApp'', 3), (''zyncQue'', 3)];
          c1 = (if RunningInProw inst then setDefaultNumberOfReplicas 1 c0 else c0);
          q = QuotaF (Status inst)
      in if q = ''100K'' then set_quota_replicas 2 2 2 c1
         else if q = ''1 Million'' then set_quota_replicas 2 2 2 c1
         else if q = ''5 Million'' then set_quota_replicas 3 3 3 c1
         else if q = ''10 Million'' then set_quota_replicas 3 3 3 c1
         else if q = ''20 Million'' then set_quota_replicas 3 3 3 c1
         else if q = ''50 Million'' then set_quota_replicas 3 5 4 c1
         else if q = ''100 Million'' then set_quota_replicas 8 7 5 c1
         else c1)"

definition ThreeScale_GetBackendRedisNodeSize :: "string \<Rightarrow> string \<Rightarrow> string" where
  "ThreeScale_GetBackendRedisNodeSize activeQuota platformType =
     (if activeQuota = ''100 Million'' \<and> platformType = ''AWS'' then ''cache.m5.xlarge'' else '''')"

section \<open>Marin3r, Grafana, cloud resources\<close>

record Marin3r = mr_Config :: ProductConfig

definition NewMarin3r :: "ProductConfig \<Rightarrow> Marin3r" where
  "NewMarin3r c = \<lparr>mr_Config = c\<rparr>"

definition Marin3r_GetWatchableCRDs :: "Marin3r \<Rightarrow> crd list" where
  "Marin3r_GetWatchableCRDs m = [(''EnvoyConfig'', ''marin3r.3scale.net/v1alpha1'')]"

definition Marin3r_GetProductName :: "Marin3r \<Rightarrow> ProductName" where
  "Marin3r_GetProductName r = ProductMarin3r"

definition Marin3r_GetOperatorNamespace :: "Marin3r \<Rightarrow> string" where
  "Marin3r_GetOperatorNamespace r = cfg (mr_Config r) ''OPERATOR_NAMESPACE''"

definition Marin3r_SetOperatorNamespace :: "Marin3r \<Rightarrow> string \<Rightarrow> Marin3r" where
  "Marin3r_SetOperatorNamespace r v = r\<lparr>mr_Config := gset ''OPERATOR_NAMESPACE'' v (mr_Config r)\<rparr>"

definition Marin3r_GetNamespace :: "Marin3r \<Rightarrow> string" where
  "Marin3r_GetNamespace r = cfg (mr_Config r) ''NAMESPACE''"

definition Marin3r_SetNamespace :: "Marin3r \<Rightarrow> string \<Rightarrow> Marin3r" where
  "Marin3r_SetNamespace r v = r\<lparr>mr_Config := gset ''NAMESPACE'' v (mr_Config r)\<rparr>"

definition Marin3r_Read :: "Marin3r \<Rightarrow> ProductConfig" where
  "Marin3r_Read r = mr_Config r"

definition Marin3r_GetProductVersion :: "Marin3r \<Rightarrow> ProductVersion" where
  "Marin3r_GetProductVersion r = VersionMarin3r"

definition Marin3r_GetOperatorVersion :: "Marin3r \<Rightarrow> OperatorVersion" where
  "Marin3r_GetOperatorVersion r = OperatorVersionMarin3r"

definition Marin3r_GetHost :: "Marin3r \<Rightarrow> string" where
  "Marin3r_GetHost r = cfg (mr_Config r) ''HOST''"

record Grafana = gf_config :: ProductConfig

definition NewGrafana :: "ProductConfig \<Rightarrow> Grafana" where
  "NewGrafana c = \<lparr>gf_config = c\<rparr>"

definition Grafana_GetWatchableCRDs :: "Grafana \<Rightarrow> crd list" where
  "Grafana_GetWatchableCRDs g = []"

definition Grafana_GetNamespace :: "Grafana \<Rightarrow> string" where
  "Grafana_GetNamespace r = cfg (gf_config r) ''NAMESPACE''"

definition Grafana_SetNamespace :: "Grafana \<Rightarrow> string \<Rightarrow> Grafana" where
  "Grafana_SetNamespace r v = r\<lparr>gf_config := gset ''NAMESPACE'' v (gf_config r)\<rparr>"

definition Grafana_GetHost :: "Grafana \<Rightarrow> string" where
  "Grafana_GetHost r = cfg (gf_config r) ''HOST''"

definition Grafana_SetHost :: "Grafana \<Rightarrow> string \<Rightarrow> Grafana" where
  "Grafana_SetHost r v = r\<lparr>gf_config := gset ''HOST'' v (gf_config r)\<rparr>"

definition Grafana_Read :: "Grafana \<Rightarrow> ProductConfig" where
  "Grafana_Read r = gf_config r"

definition Grafana_GetLabelSelector :: "Grafana \<Rightarrow> string" where
  "Grafana_GetLabelSelector r = ''middleware''"

definition Grafana_GetProductName :: "Grafana \<Rightarrow> ProductName" where
  "Grafana_GetProductName r = ProductGrafana"

definition Grafana_GetProductVersion :: "Grafana \<Rightarrow> ProductVersion" where
  "Grafana_GetProductVersion r = cfg (gf_config r) ''VERSION''"

definition Grafana_SetProductVersion :: "Grafana \<Rightarrow> string \<Rightarrow> Grafana" where
  "Grafana_SetProductVersion r v = r\<lparr>gf_config := gset ''VERSION'' v (gf_config r)\<rparr>"

definition Grafana_GetOperatorVersion :: "Grafana \<Rightarrow> OperatorVersion" where
  "Grafana_GetOperatorVersion r = ''123stub''"

record CloudResources = cr_Config :: ProductConfig

definition NewCloudResources :: "ProductConfig \<Rightarrow> CloudResources" where
  "NewCloudResources c = \<lparr>cr_Config = c\<rparr>"

definition CloudResources_GetWatchableCRDs :: "CloudResources \<Rightarrow> crd list" where
  "CloudResources_GetWatchableCRDs c =
     [(''Postgres'', ''integreatly.org/v1alpha1''), (''Redis'', ''integreatly.org/v1alpha1''),
      (''BlobStorage'', ''integreatly.org/v1alpha1'')]"

definition CloudResources_GetHost :: "CloudResources \<Rightarrow> string" where
  "CloudResources_GetHost r = cfg (cr_Config r) ''HOST''"

definition CloudResources_SetHost :: "CloudResources \<Rightarrow> string \<Rightarrow> CloudResources" where
  "CloudResources_SetHost r v = r\<lparr>cr_Config := gset ''HOST'' v (cr_Config r)\<rparr>"

definition CloudResources_GetNamespace :: "CloudResources \<Rightarrow> string" where
  "CloudResources_GetNamespace r = cfg (cr_Config r) ''NAMESPACE''"

definition CloudResources_SetNamespace :: "CloudResources \<Rightarrow> string \<Rightarrow> CloudResources" where
  "CloudResources_SetNamespace r v = r\<lparr>cr_Config := gset ''NAMESPACE'' v (cr_Config r)\<rparr>"

definition CloudResources_GetOperatorNamespace :: "CloudResources \<Rightarrow> string" where
  "CloudResources_GetOperatorNamespace r = cfg (cr_Config r) ''OPERATOR_NAMESPACE''"

definition CloudResources_SetOperatorNamespace :: "CloudResources \<Rightarrow> string \<Rightarrow> CloudResources" where
  "CloudResources_SetOperatorNamespace r v = r\<lparr>cr_Config := gset ''OPERATOR_NAMESPACE'' v (cr_Config r)\<rparr>"

definition CloudResources_GetStrategiesConfigMapName :: "CloudResources \<Rightarrow> string" where
  "CloudResources_GetStrategiesConfigMapName r = cfg (cr_Config r) ''STRATEGIES_CONFIG_MAP_NAME''"

definition CloudResources_SetStrategiesConfigMapName :: "CloudResources \<Rightarrow> string \<Rightarrow> CloudResources" where
  "CloudResources_SetStrategiesConfigMapName r v = r\<lparr>cr_Config := gset ''STRATEGIES_CONFIG_MAP_NAME'' v (cr_Config r)\<rparr>"

definition CloudResources_Read :: "CloudResources \<Rightarrow> ProductConfig" where
  "CloudResources_Read r = cr_Config r"

definition CloudResources_GetProductName :: "CloudResources \<Rightarrow> ProductName" where
  "CloudResources_GetProductName r = ProductCloudResources"

definition CloudResources_GetProductVersion :: "CloudResources \<Rightarrow> ProductVersion" where
  "CloudResources_GetProductVersion r = VersionCloudResources"

definition CloudResources_GetOperatorVersion :: "CloudResources \<Rightarrow> OperatorVersion" where
  "CloudResources_GetOperatorVersion r = OperatorVersionCloudResources"

lemmas accessor_defs [go_defs] =
  RHSSOCommon_GetWatchableCRDs_def RHSSOCommon_GetNamespace_def RHSSOCommon_SetNamespace_def
  RHSSOCommon_GetOperatorNamespace_def RHSSOCommon_SetOperatorNamespace_def
  RHSSOCommon_GetRealm_def RHSSOCommon_SetRealm_def RHSSOCommon_GetHost_def
  RHSSOCommon_SetHost_def RHSSOCommon_Read_def RHSSOCommon_GetLabelSelector_def
  RHSSOCommon_GetProductVersion_def RHSSOCommon_SetProductVersion_def
  RHSSOCommon_SetOperatorVersion_def RHSSO_GetProductName_def RHSSO_GetLabelSelector_def
  RHSSO_GetOperatorVersion_def RHSSOUser_GetBlackboxTargetPath_def
  RHSSOUser_SetBlackboxTargetPath_def RHSSOUser_GetProductName_def
  RHSSOUser_GetOperatorVersion_def ThreeScale_GetWatchableCRDs_def ThreeScale_GetHost_def
  ThreeScale_SetHost_def ThreeScale_GetBlackboxTargetPathForAdminUI_def
  ThreeScale_SetBlackboxTargetPathForAdminUI_def ThreeScale_GetNamespace_def
  ThreeScale_SetNamespace_def ThreeScale_GetOperatorNamespace_def
  ThreeScale_SetOperatorNamespace_def ThreeScale_GetLabelSelector_def ThreeScale_Read_def
  ThreeScale_GetProductName_def ThreeScale_GetProductVersion_def ThreeScale_GetOperatorVersion_def
  ThreeScale_SetOperatorVersion_def ThreeScale_SetProductVersion_def Marin3r_GetWatchableCRDs_def
  Marin3r_GetProductName_def Marin3r_GetOperatorNamespace_def Marin3r_SetOperatorNamespace_def
  Marin3r_GetNamespace_def Marin3r_SetNamespace_def Marin3r_Read_def Marin3r_GetProductVersion_def
  Marin3r_GetOperatorVersion_def Marin3r_GetHost_def Grafana_GetWatchableCRDs_def
  Grafana_GetNamespace_def Grafana_SetNamespace_def Grafana_GetHost_def Grafana_SetHost_def
  Grafana_Read_def Grafana_GetLabelSelector_def Grafana_GetProductName_def
  Grafana_GetProductVersion_def Grafana_SetProductVersion_def Grafana_GetOperatorVersion_def
  CloudResources_GetWatchableCRDs_def CloudResources_GetHost_def CloudResources_SetHost_def
  CloudResources_GetNamespace_def CloudResources_SetNamespace_def
  CloudResources_GetOperatorNamespace_def CloudResources_SetOperatorNamespace_def
  CloudResources_GetStrategiesConfigMapName_def CloudResources_SetStrategiesConfigMapName_def
  CloudResources_Read_def CloudResources_GetProductName_def CloudResources_GetProductVersion_def
  CloudResources_GetOperatorVersion_def NewRHSSOCommon_def NewRHSSO_def NewRHSSOUser_def
  NewThreeScale_def NewMarin3r_def NewGrafana_def NewCloudResources_def

section \<open>The interface \<^verbatim>\<open>ConfigReadable\<close>\<close>

text \<open>
  What the manager and the controller rely on: a wrapper made from a map reads back that map,
  namespace and host are the map's entries, and the product name does not depend on the map.
\<close>

locale config_readable =
  fixes mk :: "ProductConfig \<Rightarrow> 'c"
    and Read :: "'c \<Rightarrow> ProductConfig"
    and GetProductName :: "'c \<Rightarrow> ProductName"
    and GetNamespace :: "'c \<Rightarrow> string"
    and SetNamespace :: "'c \<Rightarrow> string \<Rightarrow> 'c"
    and GetHost :: "'c \<Rightarrow> string"
    and GetWatchableCRDs :: "'c \<Rightarrow> crd list"
    and product :: ProductName
  assumes Read_mk: "Read (mk m) = m"
    and product_name: "GetProductName c = product"
    and namespace: "GetNamespace c = cfg (Read c) ''NAMESPACE''"
    and set_namespace: "Read (SetNamespace c v) = gset ''NAMESPACE'' v (Read c)"
    and host: "GetHost c = cfg (Read c) ''HOST''"
    and crds: "GetWatchableCRDs c = GetWatchableCRDs d"
begin

lemma namespace_set: "GetNamespace (SetNamespace c v) = v"
  by (simp add: namespace set_namespace)

lemma host_set_namespace: "GetHost (SetNamespace c v) = GetHost c"
  by (simp add: host set_namespace)

text \<open>Wrappers over maps with the same entries cannot be told apart through the interface.\<close>

lemma observations_map:
  assumes "map_of (Read c) = map_of (Read d)"
  shows "GetNamespace c = GetNamespace d \<and> GetHost c = GetHost d \<and>
     GetProductName c = GetProductName d \<and> GetWatchableCRDs c = GetWatchableCRDs d"
  using assms crds [of c d] by (simp add: namespace host product_name gget_def)

end

text \<open>The promoted methods of the two RHSSO wrappers.\<close>

definition RHSSO_Read :: "RHSSO \<Rightarrow> ProductConfig" where
  "RHSSO_Read r = RHSSOCommon_Read (rhsso_common r)"

definition RHSSO_SetNamespace :: "RHSSO \<Rightarrow> string \<Rightarrow> RHSSO" where
  "RHSSO_SetNamespace r v = r\<lparr>rhsso_common := RHSSOCommon_SetNamespace (rhsso_common r) v\<rparr>"

definition RHSSOUser_Read :: "RHSSOUser \<Rightarrow> ProductConfig" where
  "RHSSOUser_Read r = RHSSOCommon_Read (rhssouser_common r)"

definition RHSSOUser_SetNamespace :: "RHSSOUser \<Rightarrow> string \<Rightarrow> RHSSOUser" where
  "RHSSOUser_SetNamespace r v =
     r\<lparr>rhssouser_common := RHSSOCommon_SetNamespace (rhssouser_common r) v\<rparr>"

lemmas promoted_defs [go_defs] =
  RHSSO_Read_def RHSSO_SetNamespace_def RHSSOUser_Read_def RHSSOUser_SetNamespace_def

interpretation rhsso: config_readable NewRHSSO RHSSO_Read RHSSO_GetProductName
  "\<lambda>r. RHSSOCommon_GetNamespace (rhsso_common r)" RHSSO_SetNamespace
  "\<lambda>r. RHSSOCommon_GetHost (rhsso_common r)"
  "\<lambda>r. RHSSOCommon_GetWatchableCRDs (rhsso_common r)" ProductRHSSO
  by unfold_locales (simp_all add: accessor_defs promoted_defs)

interpretation rhssouser: config_readable NewRHSSOUser RHSSOUser_Read RHSSOUser_GetProductName
  "\<lambda>r. RHSSOCommon_GetNamespace (rhssouser_common r)" RHSSOUser_SetNamespace
  "\<lambda>r. RHSSOCommon_GetHost (rhssouser_common r)"
  "\<lambda>r. RHSSOCommon_GetWatchableCRDs (rhssouser_common r)" ProductRHSSOUser
  by unfold_locales (simp_all add: accessor_defs promoted_defs)

interpretation threescale: config_readable NewThreeScale ThreeScale_Read ThreeScale_GetProductName
  ThreeScale_GetNamespace ThreeScale_SetNamespace ThreeScale_GetHost ThreeScale_GetWatchableCRDs
  Product3Scale
  by unfold_locales (simp_all add: accessor_defs)

interpretation marin3r: config_readable NewMarin3r Marin3r_Read Marin3r_GetProductName
  Marin3r_GetNamespace Marin3r_SetNamespace Marin3r_GetHost Marin3r_GetWatchableCRDs ProductMarin3r
  by unfold_locales (simp_all add: accessor_defs)

interpretation grafana: config_readable NewGrafana Grafana_Read Grafana_GetProductName
  Grafana_GetNamespace Grafana_SetNamespace Grafana_GetHost Grafana_GetWatchableCRDs ProductGrafana
  by unfold_locales (simp_all add: accessor_defs)

interpretation cloudresources: config_readable NewCloudResources CloudResources_Read
  CloudResources_GetProductName CloudResources_GetNamespace CloudResources_SetNamespace
  CloudResources_GetHost CloudResources_GetWatchableCRDs ProductCloudResources
  by unfold_locales (simp_all add: accessor_defs)

lemma developers_group_roundtrip:
  "RHSSOUser_GetDevelopersGroupConfigured (RHSSOUser_SetDevelopersGroupConfigured r b) = (b, None)"
  by (cases b) (simp_all add: RHSSOUser_GetDevelopersGroupConfigured_def
        RHSSOUser_SetDevelopersGroupConfigured_def Let_def FormatBool_def ParseBool_def)

end
