(* ===== verification/Config_Manager.thy ===== *)
theory Config_Manager
  imports Product_Config
begin

text \<open>
  The installation configuration manager (\<^verbatim>\<open>pkg/config/manager.go\<close>): one ConfigMap whose data
  maps a product name to the YAML text of that product's configuration. The YAML codec and the
  API server are parameters: \<open>marshal\<close> and \<open>decode\<close> for \<^verbatim>\<open>yaml.v2\<close>, and get, create and update
  of the ConfigMap, each giving the error, the object as the call leaves it, and the server's
  new state.
\<close>

record ConfigMap =
  cm_Name :: string
  cm_Namespace :: string
  cm_Data :: "(string, string) gomap option"

type_synonym 'w cm_op = "ConfigMap \<Rightarrow> 'w \<Rightarrow> err option \<times> ConfigMap \<times> 'w"

record Manager =
  m_Namespace :: string
  cfgmap :: ConfigMap

definition cm_entry :: "ConfigMap \<Rightarrow> string \<Rightarrow> string" where
  "cm_entry cm k = (case cm_Data cm of None \<Rightarrow> '''' | Some d \<Rightarrow> gget '''' d k)"

definition NewManager ::
  "'w cm_op \<Rightarrow> string \<Rightarrow> string \<Rightarrow> 'w \<Rightarrow> (err + Manager) \<times> 'w" where
  "NewManager get namespace configMapName w =
     (let (e, cm, w') = get \<lparr>cm_Name = configMapName, cm_Namespace = namespace, cm_Data = None\<rparr> w in
      (if \<not> IsNotFound e \<and> e \<noteq> None then Inl (the e)
       else Inr \<lparr>m_Namespace = namespace, cfgmap = cm\<rparr>, w'))"

definition readConfigForProduct ::
  "(string \<Rightarrow> err + ProductConfig) \<Rightarrow> Manager \<Rightarrow> ProductName \<Rightarrow> err + ProductConfig" where
  "readConfigForProduct decode m product =
     (let config = cm_entry (cfgmap m) product in
      if config = '''' then Inr []
      else (case decode config of
              Inl e \<Rightarrow> Inl (Wrap (''failed to decode product config for '' @ product) e)
            | Inr c \<Rightarrow> Inr c))"

text \<open>
  \<^verbatim>\<open>WriteConfig\<close>: an error of the read other than not-found is not looked at; the write then goes
  ahead on the copy held in memory.
\<close>

definition WriteConfig ::
  "(ProductConfig \<Rightarrow> err + string) \<Rightarrow> 'w cm_op \<Rightarrow> 'w cm_op \<Rightarrow> 'w cm_op \<Rightarrow> Manager \<Rightarrow>
   ProductName \<Rightarrow> ProductConfig \<Rightarrow> 'w \<Rightarrow> err option \<times> Manager \<times> 'w" where
  "WriteConfig marshal get create upd m name config w =
     (case marshal config of
        Inl e \<Rightarrow> (Some e, m, w)
      | Inr stringConfig \<Rightarrow>
          (let (e, cm, w1) = get (cfgmap m) w in
           if IsNotFound e then
             (let (e2, cm2, w2) = create (cm\<lparr>cm_Data := Some [(name, stringConfig)]\<rparr>) w1
              in (e2, m\<lparr>cfgmap := cm2\<rparr>, w2))
           else
             (let data = (case cm_Data cm of None \<Rightarrow> [] | Some d \<Rightarrow> d);
                  (e2, cm2, w2) = upd (cm\<lparr>cm_Data := Some (gset name stringConfig data)\<rparr>) w1
              in (e2, m\<lparr>cfgmap := cm2\<rparr>, w2))))"

section \<open>Reading a product\<close>

datatype AnyConfig =
    CThreeScale ThreeScale | CRHSSO RHSSO | CRHSSOUser RHSSOUser
  | CCloudResources CloudResources | CMarin3r Marin3r | CGrafana Grafana

definition ReadThreeScale :: "(string \<Rightarrow> err + ProductConfig) \<Rightarrow> Manager \<Rightarrow> err + ThreeScale" where
  "ReadThreeScale decode m = map_sum id NewThreeScale (readConfigForProduct decode m Product3Scale)"

definition ReadRHSSO :: "(string \<Rightarrow> err + ProductConfig) \<Rightarrow> Manager \<Rightarrow> err + RHSSO" where
  "ReadRHSSO decode m = map_sum id NewRHSSO (readConfigForProduct decode m ProductRHSSO)"

definition ReadRHSSOUser :: "(string \<Rightarrow> err + ProductConfig) \<Rightarrow> Manager \<Rightarrow> err + RHSSOUser" where
  "ReadRHSSOUser decode m = map_sum id NewRHSSOUser (readConfigForProduct decode m ProductRHSSOUser)"

definition ReadGrafana :: "(string \<Rightarrow> err + ProductConfig) \<Rightarrow> Manager \<Rightarrow> err + Grafana" where
  "ReadGrafana decode m = map_sum id NewGrafana (readConfigForProduct decode m ProductGrafana)"

definition ReadCloudResources :: "(string \<Rightarrow> err + ProductConfig) \<Rightarrow> Manager \<Rightarrow> err + CloudResources" where
  "ReadCloudResources decode m =
     map_sum id NewCloudResources (readConfigForProduct decode m ProductCloudResources)"

definition ReadMarin3r :: "(string \<Rightarrow> err + ProductConfig) \<Rightarrow> Manager \<Rightarrow> err + Marin3r" where
  "ReadMarin3r decode m = map_sum id NewMarin3r (readConfigForProduct decode m ProductMarin3r)"

definition ReadProduct :: "(string \<Rightarrow> err + ProductConfig) \<Rightarrow> Manager \<Rightarrow> ProductName \<Rightarrow> err + AnyConfig" where
  "ReadProduct decode m product =
     (if product = Product3Scale then map_sum id CThreeScale (ReadThreeScale decode m)
      else if product = ProductRHSSO then map_sum id CRHSSO (ReadRHSSO decode m)
      else if product = ProductRHSSOUser then map_sum id CRHSSOUser (ReadRHSSOUser decode m)
      else if product = ProductCloudResources then map_sum id CCloudResources (ReadCloudResources decode m)
      else if product = ProductMarin3r then map_sum id CMarin3r (ReadMarin3r decode m)
      else if product = ProductGrafana then map_sum id CGrafana (ReadGrafana decode m)
      else Inl (Msg (''no config found for product '' @ product)))"

text \<open>Dynamic dispatch on the interface value.\<close>

fun any_name :: "AnyConfig \<Rightarrow> ProductName" where
  "any_name (CThreeScale c) = ThreeScale_GetProductName c"
| "any_name (CRHSSO c) = RHSSO_GetProductName c"
| "any_name (CRHSSOUser c) = RHSSOUser_GetProductName c"
| "any_name (CCloudResources c) = CloudResources_GetProductName c"
| "any_name (CMarin3r c) = Marin3r_GetProductName c"
| "any_name (CGrafana c) = Grafana_GetProductName c"

fun any_Read :: "AnyConfig \<Rightarrow> ProductConfig" where
  "any_Read (CThreeScale c) = ThreeScale_Read c"
| "any_Read (CRHSSO c) = RHSSO_Read c"
| "any_Read (CRHSSOUser c) = RHSSOUser_Read c"
| "any_Read (CCloudResources c) = CloudResources_Read c"
| "any_Read (CMarin3r c) = Marin3r_Read c"
| "any_Read (CGrafana c) = Grafana_Read c"

fun any_GetNamespace :: "AnyConfig \<Rightarrow> string" where
  "any_GetNamespace (CThreeScale c) = ThreeScale_GetNamespace c"
| "any_GetNamespace (CRHSSO c) = RHSSOCommon_GetNamespace (rhsso_common c)"
| "any_GetNamespace (CRHSSOUser c) = RHSSOCommon_GetNamespace (rhssouser_common c)"
| "any_GetNamespace (CCloudResources c) = CloudResources_GetNamespace c"
| "any_GetNamespace (CMarin3r c) = Marin3r_GetNamespace c"
| "any_GetNamespace (CGrafana c) = Grafana_GetNamespace c"

fun any_GetHost :: "AnyConfig \<Rightarrow> string" where
  "any_GetHost (CThreeScale c) = ThreeScale_GetHost c"
| "any_GetHost (CRHSSO c) = RHSSOCommon_GetHost (rhsso_common c)"
| "any_GetHost (CRHSSOUser c) = RHSSOCommon_GetHost (rhssouser_common c)"
| "any_GetHost (CCloudResources c) = CloudResources_GetHost c"
| "any_GetHost (CMarin3r c) = Marin3r_GetHost c"
| "any_GetHost (CGrafana c) = Grafana_GetHost c"

fun any_GetWatchableCRDs :: "AnyConfig \<Rightarrow> crd list" where
  "any_GetWatchableCRDs (CThreeScale c) = ThreeScale_GetWatchableCRDs c"
| "any_GetWatchableCRDs (CRHSSO c) = RHSSOCommon_GetWatchableCRDs (rhsso_common c)"
| "any_GetWatchableCRDs (CRHSSOUser c) = RHSSOCommon_GetWatchableCRDs (rhssouser_common c)"
| "any_GetWatchableCRDs (CCloudResources c) = CloudResources_GetWatchableCRDs c"
| "any_GetWatchableCRDs (CMarin3r c) = Marin3r_GetWatchableCRDs c"
| "any_GetWatchableCRDs (CGrafana c) = Grafana_GetWatchableCRDs c"

lemmas read_defs = ReadThreeScale_def ReadRHSSO_def ReadRHSSOUser_def ReadGrafana_def
  ReadCloudResources_def ReadMarin3r_def

text \<open>The interface facts of the six wrappers, as facts about the interface value.\<close>

lemma any_namespace: "any_GetNamespace c = cfg (any_Read c) ''NAMESPACE''"
  by (cases c)
    (simp_all add: rhsso.namespace rhssouser.namespace threescale.namespace marin3r.namespace
       grafana.namespace cloudresources.namespace)

lemma any_host: "any_GetHost c = cfg (any_Read c) ''HOST''"
  by (cases c)
    (simp_all add: rhsso.host rhssouser.host threescale.host marin3r.host
       grafana.host cloudresources.host)

definition known_products :: "ProductName list" where
  "known_products = [Product3Scale, ProductRHSSO, ProductRHSSOUser, ProductCloudResources,
     ProductMarin3r, ProductGrafana]"

lemma ReadProduct_simps [simp]:
  "ReadProduct decode m Product3Scale = map_sum id CThreeScale (ReadThreeScale decode m)"
  "ReadProduct decode m ProductRHSSO = map_sum id CRHSSO (ReadRHSSO decode m)"
  "ReadProduct decode m ProductRHSSOUser = map_sum id CRHSSOUser (ReadRHSSOUser decode m)"
  "ReadProduct decode m ProductCloudResources = map_sum id CCloudResources (ReadCloudResources decode m)"
  "ReadProduct decode m ProductMarin3r = map_sum id CMarin3r (ReadMarin3r decode m)"
  "ReadProduct decode m ProductGrafana = map_sum id CGrafana (ReadGrafana decode m)"
  by (simp_all add: ReadProduct_def)

lemma ReadProduct_unknown:
  "p \<notin> set known_products \<Longrightarrow>
     ReadProduct decode m p = Inl (Msg (''no config found for product '' @ p))"
  by (simp add: known_products_def ReadProduct_def)

lemma known_productsE:
  assumes "p \<in> set known_products"
  obtains "p = Product3Scale" | "p = ProductRHSSO" | "p = ProductRHSSOUser"
    | "p = ProductCloudResources" | "p = ProductMarin3r" | "p = ProductGrafana"
  using assms unfolding known_products_def list.set by (elim insertE emptyE) iprover+

lemma ReadProduct_known: "ReadProduct decode m p = Inr c \<Longrightarrow> p \<in> set known_products"
  by (rule ccontr) (simp add: ReadProduct_unknown)

lemma map_sum_inverse3:
  "(\<And>x. f (g (h x)) = x) \<Longrightarrow> map_sum id f (map_sum id g (map_sum id h r)) = r"
  by (cases r) simp_all

lemma ReadProduct_Read:
  assumes "p \<in> set known_products"
  shows "map_sum id any_Read (ReadProduct decode m p) = readConfigForProduct decode m p"
  using assms
proof (cases rule: known_productsE)
  case 1
  show ?thesis unfolding 1 ReadProduct_simps read_defs
    by (rule map_sum_inverse3) (simp only: any_Read.simps threescale.Read_mk)
next
  case 2
  show ?thesis unfolding 2 ReadProduct_simps read_defs
    by (rule map_sum_inverse3) (simp only: any_Read.simps rhsso.Read_mk)
next
  case 3
  show ?thesis unfolding 3 ReadProduct_simps read_defs
    by (rule map_sum_inverse3) (simp only: any_Read.simps rhssouser.Read_mk)
next
  case 4
  show ?thesis unfolding 4 ReadProduct_simps read_defs
    by (rule map_sum_inverse3) (simp only: any_Read.simps cloudresources.Read_mk)
next
  case 5
  show ?thesis unfolding 5 ReadProduct_simps read_defs
    by (rule map_sum_inverse3) (simp only: any_Read.simps marin3r.Read_mk)
next
  case 6
  show ?thesis unfolding 6 ReadProduct_simps read_defs
    by (rule map_sum_inverse3) (simp only: any_Read.simps grafana.Read_mk)
qed

lemma map_sum_constD: "map_sum id f r = Inr c \<Longrightarrow> \<exists>x. c = f x"
  by (cases r) auto

lemma ReadProduct_name:
  assumes "ReadProduct decode m p = Inr c"
  shows "any_name c = p"
  using ReadProduct_known [OF assms]
  by (cases rule: known_productsE)
    (use assms in \<open>auto dest!: map_sum_constD simp: threescale.product_name rhsso.product_name
       rhssouser.product_name marin3r.product_name grafana.product_name
       cloudresources.product_name\<close>)

section \<open>What the codec and the server promise\<close>

text \<open>\<^verbatim>\<open>yaml.v2\<close>: the text of a map is not empty and decodes to the same entries.\<close>

definition yaml_ok :: "(ProductConfig \<Rightarrow> err + string) \<Rightarrow> (string \<Rightarrow> err + ProductConfig) \<Rightarrow> bool" where
  "yaml_ok marshal decode \<longleftrightarrow>
     (\<forall>c s. marshal c = Inr s \<longrightarrow> s \<noteq> '''' \<and> (\<exists>d. decode s = Inr d \<and> map_of d = map_of c))"

text \<open>A write that succeeds leaves in memory the data that was sent.\<close>

definition write_echo :: "'w cm_op \<Rightarrow> bool" where
  "write_echo f \<longleftrightarrow> (\<forall>cm w cm' w'. f cm w = (None, cm', w') \<longrightarrow> cm_Data cm' = cm_Data cm)"

lemma write_echoD: "write_echo f \<Longrightarrow> f cm w = (None, cm', w') \<Longrightarrow> cm_Data cm' = cm_Data cm"
  unfolding write_echo_def by blast

lemma WriteConfig_entry:
  assumes "write_echo create" and "write_echo upd"
    and "WriteConfig marshal get create upd m name c w = (None, m', w')"
    and "marshal c = Inr s"
  shows "cm_entry (cfgmap m') name = s"
  using assms(3,4)
  by (auto simp: WriteConfig_def Let_def cm_entry_def split: prod.splits if_splits
        dest!: write_echoD [OF assms(1)] write_echoD [OF assms(2)])

section \<open>Properties\<close>

text \<open>
  C9. Writing a product's configuration and reading the product back through the manager gives
  a configuration of the same product with the same entries, so every accessor of the interface
  (namespace, host) gives what was written.
\<close>

theorem WriteConfig_ReadProduct:
  assumes "yaml_ok marshal decode" and "write_echo create" and "write_echo upd"
    and "any_name c \<in> set known_products"
    and "WriteConfig marshal get create upd m (any_name c) (any_Read c) w = (None, m', w')"
  shows "\<exists>c'. ReadProduct decode m' (any_name c) = Inr c' \<and> any_name c' = any_name c \<and>
     map_of (any_Read c') = map_of (any_Read c) \<and>
     any_GetNamespace c' = any_GetNamespace c \<and> any_GetHost c' = any_GetHost c"
proof -
  obtain s where s: "marshal (any_Read c) = Inr s"
    using assms(5) by (cases "marshal (any_Read c)") (auto simp: WriteConfig_def)
  with assms(1) obtain d where d: "s \<noteq> ''''" "decode s = Inr d" "map_of d = map_of (any_Read c)"
    unfolding yaml_ok_def by blast
  have "cm_entry (cfgmap m') (any_name c) = s"
    using WriteConfig_entry [OF assms(2,3,5) s] .
  with d have "readConfigForProduct decode m' (any_name c) = Inr d"
    by (simp add: readConfigForProduct_def)
  with ReadProduct_Read [OF assms(4), of decode m'] obtain c' where
    c': "ReadProduct decode m' (any_name c) = Inr c'" "any_Read c' = d"
    by (cases "ReadProduct decode m' (any_name c)") auto
  then show ?thesis using d ReadProduct_name [OF c'(1)]
    by (auto simp: any_namespace any_host gget_def)
qed

text \<open>A codec and a server that keep these promises: keys and values of one letter, stored as is.\<close>

definition sample_marshal :: "ProductConfig \<Rightarrow> err + string" where
  "sample_marshal c = (if c = [(''NAMESPACE'', ''n'')] then Inr ''x'' else Inl (Msg ''unsupported''))"

definition sample_decode :: "string \<Rightarrow> err + ProductConfig" where
  "sample_decode s = (if s = ''x'' then Inr [(''NAMESPACE'', ''n'')] else Inl (Msg ''unsupported''))"

theorem WriteConfig_ReadProduct_witness:
  "\<exists>c'. ReadProduct sample_decode
      \<lparr>m_Namespace = ''ns'', cfgmap = \<lparr>cm_Name = ''c'', cm_Namespace = ''ns'',
         cm_Data = Some [(''marin3r'', ''x'')]\<rparr>\<rparr> (any_name (CMarin3r (NewMarin3r [(''NAMESPACE'', ''n'')]))) =
      Inr c' \<and>
    any_name c' = any_name (CMarin3r (NewMarin3r [(''NAMESPACE'', ''n'')])) \<and>
    map_of (any_Read c') = map_of (any_Read (CMarin3r (NewMarin3r [(''NAMESPACE'', ''n'')]))) \<and>
    any_GetNamespace c' = any_GetNamespace (CMarin3r (NewMarin3r [(''NAMESPACE'', ''n'')])) \<and>
    any_GetHost c' = any_GetHost (CMarin3r (NewMarin3r [(''NAMESPACE'', ''n'')]))"
proof (rule WriteConfig_ReadProduct [where marshal = sample_marshal and w = "0::nat" and w' = 0
      and get = "\<lambda>cm w. (None, cm, w)" and create = "\<lambda>cm w. (None, cm, w)"
      and upd = "\<lambda>cm w. (None, cm, w)"
      and m = "\<lparr>m_Namespace = ''ns'', cfgmap = \<lparr>cm_Name = ''c'', cm_Namespace = ''ns'', cm_Data = None\<rparr>\<rparr>"])
  show "yaml_ok sample_marshal sample_decode"
    by (auto simp: yaml_ok_def sample_marshal_def sample_decode_def split: if_splits)
qed (simp_all add: write_echo_def WriteConfig_def sample_marshal_def accessor_defs known_products_def)

text \<open>
  C10. Writing one product's configuration into an existing ConfigMap leaves the stored text of
  every other product as it was on the server.
\<close>

theorem WriteConfig_other_products:
  assumes "write_echo upd" and "get (cfgmap m) w = (None, cm, wg)"
    and "WriteConfig marshal get create upd m name c w = (None, m', w')" and "p \<noteq> name"
  shows "cm_entry (cfgmap m') p = cm_entry cm p"
  using assms(2-4)
  by (auto simp: WriteConfig_def Let_def cm_entry_def split: prod.splits sum.splits option.splits
        dest!: write_echoD [OF assms(1)])

theorem WriteConfig_other_products_witness:
  "cm_entry (cfgmap \<lparr>m_Namespace = ''ns'', cfgmap = \<lparr>cm_Name = ''c'', cm_Namespace = ''ns'',
       cm_Data = Some [(''3scale'', ''t''), (''marin3r'', ''x'')]\<rparr>\<rparr>) ''3scale'' =
   cm_entry \<lparr>cm_Name = ''c'', cm_Namespace = ''ns'', cm_Data = Some [(''3scale'', ''t'')]\<rparr> ''3scale''"
  by (rule WriteConfig_other_products
        [where upd = "\<lambda>cm w. (None, cm, w)" and get = "\<lambda>cm w. (None, cm, w)"
           and create = "\<lambda>cm w. (None, cm, w)" and w = "0::nat" and wg = 0 and w' = 0
           and marshal = sample_marshal and name = "''marin3r''" and c = "[(''NAMESPACE'', ''n'')]"
           and m = "\<lparr>m_Namespace = ''ns'', cfgmap = \<lparr>cm_Name = ''c'', cm_Namespace = ''ns'',
              cm_Data = Some [(''3scale'', ''t'')]\<rparr>\<rparr>"])
    (simp_all add: write_echo_def WriteConfig_def sample_marshal_def)

text \<open>
  The manager hides a failed read of the ConfigMap: whatever error other than not-found the
  read gives, the write is sent all the same, made from the copy the failed read left in memory,
  and its outcome alone is reported.
\<close>

theorem WriteConfig_swallows_read_error:
  assumes "marshal c = Inr s" and "get (cfgmap m) w = (Some e, cm, wg)"
    and "\<not> IsNotFound (Some e)"
  shows "fst (WriteConfig marshal get create upd m name c w) =
     fst (upd (cm\<lparr>cm_Data := Some (gset name s (case cm_Data cm of None \<Rightarrow> [] | Some d \<Rightarrow> d))\<rparr>) wg)"
  using assms by (simp add: WriteConfig_def Let_def split: prod.splits)

theorem WriteConfig_swallows_read_error_witness:
  "fst (WriteConfig sample_marshal (\<lambda>cm w. (Some (Msg ''timeout''), cm, w)) (\<lambda>cm w. (None, cm, w))
     (\<lambda>cm w. (None, cm, w)) \<lparr>m_Namespace = ''ns'', cfgmap = \<lparr>cm_Name = ''c'', cm_Namespace = ''ns'',
       cm_Data = None\<rparr>\<rparr> ''marin3r'' [(''NAMESPACE'', ''n'')] (0::nat)) = None"
  by (subst WriteConfig_swallows_read_error [where s = "''x''" and e = "Msg ''timeout''"
        and cm = "\<lparr>cm_Name = ''c'', cm_Namespace = ''ns'', cm_Data = None\<rparr>" and wg = 0])
    (simp_all add: sample_marshal_def)

end
