(* ===== verification/Quota.thy ===== *)
theory Quota
  imports Config_Manager
begin

text \<open>
  Quotas (\<^verbatim>\<open>pkg/resources/quota/quota.go\<close>, \<^verbatim>\<open>pkg/products/marin3r/config/config.go\<close>): selecting
  the quota the add-on parameter names from the quota ConfigMap, and scaling workloads to it.
  \<^verbatim>\<open>int32\<close> and \<^verbatim>\<open>int64\<close> replica counts are signed words; a \<^verbatim>\<open>resource.Quantity\<close> is its value in
  nano-units (its smallest step), so its comparison is that of integers. A
  \<^verbatim>\<open>QuotaProductConfig\<close> holds a pointer to its \<^verbatim>\<open>Quota\<close>: methods take the quota it points to
  as an argument, and \<open>None\<close> is the nil pointer, whose use panics.
\<close>

section \<open>Data\<close>

record RateLimitConfig =
  Unit :: string
  RequestsPerUnit :: "32 word"

type_synonym Quantity = int

abbreviation nano :: int where "nano \<equiv> 1000000000"

type_synonym ResourceList = "(string, Quantity) gomap"

record ResourceRequirements =
  Limits :: "ResourceList option"
  Requests :: "ResourceList option"

definition zero_resources :: ResourceRequirements where
  "zero_resources = \<lparr>Limits = None, Requests = None\<rparr>"

record ResourceConfig =
  Replicas :: "32 word"
  Resources :: ResourceRequirements

definition zero_resource_config :: ResourceConfig where
  "zero_resource_config = \<lparr>Replicas = 0, Resources = zero_resources\<rparr>"

record quotaConfigReceiver =
  qr_Name :: string
  qr_Param :: string
  qr_RateLimit :: RateLimitConfig
  qr_Resources :: "(string, ResourceConfig) gomap"

record QuotaProductConfig =
  pc_productName :: ProductName
  pc_resourceConfigs :: "(string, ResourceConfig) gomap"

record Quota =
  q_name :: string
  q_productConfigs :: "(ProductName, QuotaProductConfig) gomap"
  q_isUpdated :: bool
  q_rateLimitConfig :: RateLimitConfig

definition zero_quota :: Quota where
  "zero_quota = \<lparr>q_name = '''', q_productConfigs = [], q_isUpdated = False,
     q_rateLimitConfig = \<lparr>Unit = '''', RequestsPerUnit = 0\<rparr>\<rparr>"

abbreviation BackendListenerName :: string where "BackendListenerName \<equiv> ''backend_listener''"
abbreviation BackendWorkerName :: string where "BackendWorkerName \<equiv> ''backend_worker''"
abbreviation ApicastProductionName :: string where "ApicastProductionName \<equiv> ''apicast_production''"
abbreviation ApicastStagingName :: string where "ApicastStagingName \<equiv> ''apicast_staging''"
abbreviation KeycloakName :: string where "KeycloakName \<equiv> ''rhssouser''"
abbreviation RateLimitName :: string where "RateLimitName \<equiv> ''ratelimit''"
abbreviation GrafanaName :: string where "GrafanaName \<equiv> ''grafana''"
abbreviation QuotaConfigMapData :: string where "QuotaConfigMapData \<equiv> ''quota-configs''"

definition quota_products :: "(ProductName, string list) gomap" where
  "quota_products =
     [(Product3Scale, [BackendListenerName, BackendWorkerName, ApicastProductionName, ApicastStagingName]),
      (ProductRHSSOUser, [KeycloakName]),
      (ProductMarin3r, [RateLimitName]),
      (ProductGrafana, [GrafanaName])]"

section \<open>Selecting the quota\<close>

definition quota_receiver :: "string \<Rightarrow> quotaConfigReceiver list \<Rightarrow> quotaConfigReceiver option" where
  "quota_receiver param qs = List.find (\<lambda>q. qr_Param q = param) qs"

definition product_config :: "quotaConfigReceiver \<Rightarrow> ProductName \<times> string list \<Rightarrow> ProductName \<times> QuotaProductConfig" where
  "product_config r = (\<lambda>(product, ddcssNames).
     (product, \<lparr>pc_productName = product,
        pc_resourceConfigs = map (\<lambda>n. (n, gget zero_resource_config (qr_Resources r) n)) ddcssNames\<rparr>))"

definition no_quota_err :: "string \<Rightarrow> err" where
  "no_quota_err quotaParam =
     Msg (''wasn't able to find a quota in the quota config which matches the '' @ [CHR 0x27]
          @ quotaParam @ [CHR 0x27] @ '' quota parameter'')"

text \<open>\<open>unmarshal\<close> is \<^verbatim>\<open>json.Unmarshal\<close> of the stored text.\<close>

definition GetQuota ::
  "(string \<Rightarrow> err + quotaConfigReceiver list) \<Rightarrow> string \<Rightarrow> ConfigMap \<Rightarrow> Quota \<Rightarrow> err option \<times> Quota" where
  "GetQuota unmarshal quotaParam cm retQuota =
     (case unmarshal (cm_entry cm QuotaConfigMapData) of
        Inl e \<Rightarrow> (Some e, retQuota)
      | Inr allQuotas \<Rightarrow>
          (case quota_receiver quotaParam allQuotas of
             None \<Rightarrow> (Some (no_quota_err quotaParam), retQuota)
           | Some r \<Rightarrow>
               if qr_Name r = '''' then (Some (no_quota_err quotaParam), retQuota)
               else (None, retQuota\<lparr>q_name := qr_Name r,
                       q_productConfigs := map (product_config r) quota_products,
                       q_rateLimitConfig := qr_RateLimit r\<rparr>)))"

text \<open>\<^verbatim>\<open>GetProduct\<close>: a missing product is the zero config, whose quota pointer is nil.\<close>

definition GetProduct :: "Quota \<Rightarrow> ProductName \<Rightarrow> QuotaProductConfig option" where
  "GetProduct q p = map_of (q_productConfigs q) p"

definition SetIsUpdated :: "Quota \<Rightarrow> bool \<Rightarrow> Quota" where
  "SetIsUpdated q b = q\<lparr>q_isUpdated := b\<rparr>"

definition GetResourceConfig :: "QuotaProductConfig \<Rightarrow> string \<Rightarrow> ResourceRequirements \<times> bool" where
  "GetResourceConfig p n =
     (case map_of (pc_resourceConfigs p) n of
        None \<Rightarrow> (zero_resources, False) | Some c \<Rightarrow> (Resources c, True))"

definition GetReplicas :: "QuotaProductConfig \<Rightarrow> string \<Rightarrow> 32 word" where
  "GetReplicas p n = Replicas (gget zero_resource_config (pc_resourceConfigs p) n)"

section \<open>Scaling\<close>

text \<open>The three updates of one value, by the value's type.\<close>

definition raise_int32 :: "bool \<Rightarrow> 32 word \<Rightarrow> 32 word \<Rightarrow> 32 word" where
  "raise_int32 updated replicas configReplicas =
     (if updated \<or> sint replicas < sint configReplicas \<or> replicas = 0 then configReplicas else replicas)"

definition raise_int64 :: "bool \<Rightarrow> 64 word \<Rightarrow> 64 word \<Rightarrow> 64 word" where
  "raise_int64 updated replicas val =
     (if updated \<or> sint replicas < sint val \<or> replicas = 0 then val else replicas)"

definition raise_quantity :: "bool \<Rightarrow> Quantity \<Rightarrow> Quantity \<Rightarrow> Quantity" where
  "raise_quantity updated pod cfgq = (if updated \<or> pod < cfgq \<or> pod = 0 then cfgq else pod)"

text \<open>
  The contract the three share: an updated quota overwrites; otherwise a value below the
  configured one, or zero, is replaced by it and any other value is left alone.
\<close>

locale scale_policy =
  fixes raise :: "bool \<Rightarrow> 'a \<Rightarrow> 'a \<Rightarrow> 'a"
    and val :: "'a \<Rightarrow> int"
  assumes updated: "raise True cur c = c"
    and kept: "raise False cur c = (if val cur < val c \<or> val cur = 0 then c else cur)"
begin

lemma raise_max:
  "0 \<le> val c \<Longrightarrow> val (raise u cur c) = (if u then val c else max (val cur) (val c))"
  by (cases u) (auto simp: updated kept)

lemma raise_idem: "raise u (raise u cur c) c = raise u cur c"
  by (cases u) (auto simp: updated kept)

lemma raise_at_least: "0 \<le> val c \<Longrightarrow> val c \<le> val (raise u cur c)"
  by (simp add: raise_max)

lemma raise_never_shrinks: "0 \<le> val c \<Longrightarrow> val cur \<le> val (raise False cur c)"
  by (simp add: raise_max)

end

lemma sint_eq_0 [simp]: "sint (x :: 'a::len word) = 0 \<longleftrightarrow> x = 0"
  by (metis signed_0 signed_word_eqI)

interpretation int32: scale_policy raise_int32 sint
  by unfold_locales (auto simp: raise_int32_def)

interpretation int64: scale_policy raise_int64 sint
  by unfold_locales (auto simp: raise_int64_def)

interpretation quantity: scale_policy raise_quantity id
  by unfold_locales (auto simp: raise_quantity_def)

definition mutateReplicas :: "bool \<Rightarrow> QuotaProductConfig \<Rightarrow> 32 word \<Rightarrow> string \<Rightarrow> 32 word" where
  "mutateReplicas updated p replicas name =
     raise_int32 updated replicas (Replicas (gget zero_resource_config (pc_resourceConfigs p) name))"

definition mutateAPIManagerReplicas :: "bool \<Rightarrow> QuotaProductConfig \<Rightarrow> 64 word \<Rightarrow> string \<Rightarrow> 64 word" where
  "mutateAPIManagerReplicas updated p replicas name =
     raise_int64 updated replicas
       (signed_take_bit 31 (ucast (Replicas (gget zero_resource_config (pc_resourceConfigs p) name))))"

definition rl :: "ResourceList option \<Rightarrow> string \<Rightarrow> Quantity" where
  "rl m k = (case m of None \<Rightarrow> 0 | Some m \<Rightarrow> gget 0 m k)"

text \<open>\<^verbatim>\<open>mutateResources\<close>: the pod's map (never nil here), the configured map may be nil.\<close>

definition mutate_entry :: "bool \<Rightarrow> string \<Rightarrow> ResourceList option \<Rightarrow> ResourceList \<Rightarrow> ResourceList" where
  "mutate_entry updated k c pod =
     (if updated \<or> gget 0 pod k < rl c k \<or> gget 0 pod k = 0 then gset k (rl c k) pod else pod)"

definition mutateResources :: "bool \<Rightarrow> ResourceList \<Rightarrow> ResourceList option \<Rightarrow> ResourceList" where
  "mutateResources updated pod c = mutate_entry updated ''memory'' c (mutate_entry updated ''cpu'' c pod)"

definition nonnil :: "ResourceList option \<Rightarrow> ResourceList" where
  "nonnil m = (case m of None \<Rightarrow> [] | Some m \<Rightarrow> m)"

definition checkResourceBlock :: "ResourceRequirements \<Rightarrow> ResourceRequirements" where
  "checkResourceBlock r = r\<lparr>Requests := Some (nonnil (Requests r)), Limits := Some (nonnil (Limits r))\<rparr>"

definition mutate_requirements :: "bool \<Rightarrow> ResourceRequirements \<Rightarrow> ResourceRequirements \<Rightarrow> ResourceRequirements" where
  "mutate_requirements updated conf r =
     (let r1 = checkResourceBlock r in
      r1\<lparr>Limits := Some (mutateResources updated (nonnil (Limits r1)) (Limits conf)),
         Requests := Some (mutateResources updated (nonnil (Requests r1)) (Requests conf))\<rparr>)"

definition mutateResourcesRequirement ::
  "bool \<Rightarrow> QuotaProductConfig \<Rightarrow> ResourceRequirements \<Rightarrow> string \<Rightarrow> ResourceRequirements" where
  "mutateResourcesRequirement updated p r name =
     mutate_requirements updated (Resources (gget zero_resource_config (pc_resourceConfigs p) name)) r"

definition mutatePodTemplate ::
  "bool \<Rightarrow> QuotaProductConfig \<Rightarrow> ResourceRequirements list \<Rightarrow> string \<Rightarrow> ResourceRequirements list" where
  "mutatePodTemplate updated p containers name =
     map (\<lambda>r. mutateResourcesRequirement updated p r name) containers"

section \<open>Workloads\<close>

record ComponentSpec =
  cs_Replicas :: "64 word option"
  cs_Resources :: "ResourceRequirements option"

record ApicastSpec =
  ProductionSpec :: "ComponentSpec option"
  StagingSpec :: "ComponentSpec option"

record BackendSpec =
  ListenerSpec :: "ComponentSpec option"
  WorkerSpec :: "ComponentSpec option"

record APIManager =
  Apicast :: "ApicastSpec option"
  Backend :: "BackendSpec option"

text \<open>The object kinds \<^verbatim>\<open>Configure\<close> switches on, with the fields it touches.\<close>

datatype workload =
    DeploymentConfig string "32 word" "ResourceRequirements list option"
  | Deployment string "32 word option" "ResourceRequirements list"
  | StatefulSet string "32 word option" "ResourceRequirements list"
  | Keycloak string int ResourceRequirements
  | APIMgr string APIManager
  | OtherObject string

definition nil_to_zero :: "('a::zero) option \<Rightarrow> 'a" where
  "nil_to_zero x = (case x of None \<Rightarrow> 0 | Some v \<Rightarrow> v)"

definition check_component :: "ComponentSpec option \<Rightarrow> ComponentSpec" where
  "check_component c =
     (let c1 = (case c of None \<Rightarrow> \<lparr>cs_Replicas = None, cs_Resources = None\<rparr> | Some c \<Rightarrow> c) in
      c1\<lparr>cs_Replicas := Some (nil_to_zero (cs_Replicas c1)),
         cs_Resources := Some (checkResourceBlock
            (case cs_Resources c1 of None \<Rightarrow> zero_resources | Some r \<Rightarrow> r))\<rparr>)"

definition checkApiManager :: "APIManager \<Rightarrow> APIManager" where
  "checkApiManager t =
     (let a = (case Apicast t of None \<Rightarrow> \<lparr>ProductionSpec = None, StagingSpec = None\<rparr> | Some a \<Rightarrow> a);
          b = (case Backend t of None \<Rightarrow> \<lparr>ListenerSpec = None, WorkerSpec = None\<rparr> | Some b \<Rightarrow> b)
      in t\<lparr>Apicast := Some (a\<lparr>ProductionSpec := Some (check_component (ProductionSpec a)),
                              StagingSpec := Some (check_component (StagingSpec a))\<rparr>),
           Backend := Some (b\<lparr>ListenerSpec := Some (check_component (ListenerSpec b)),
                              WorkerSpec := Some (check_component (WorkerSpec b))\<rparr>)\<rparr>)"

text \<open>Replicas and resources of one component after the check, which leaves no pointer nil.\<close>

definition scale_component :: "bool \<Rightarrow> QuotaProductConfig \<Rightarrow> string \<Rightarrow> ComponentSpec option \<Rightarrow> ComponentSpec option" where
  "scale_component updated p name c =
     map_option (\<lambda>c. c\<lparr>
        cs_Replicas := map_option (\<lambda>r. mutateAPIManagerReplicas updated p r name) (cs_Replicas c),
        cs_Resources := map_option (\<lambda>r. mutateResourcesRequirement updated p r name) (cs_Resources c)\<rparr>) c"

definition Configure ::
  "Quota option \<Rightarrow> QuotaProductConfig \<Rightarrow> workload \<Rightarrow> (err + workload) option" where
  "Configure qptr p obj =
     (case obj of
        OtherObject ty \<Rightarrow> Some (Inl (Msg
          (''quota configuration can only be applied to Deployments, StatefulSets, Deployment Configs, ApiManager, Keycloak found '' @ ty)))
      | _ \<Rightarrow>
        (case qptr of None \<Rightarrow> None | Some q \<Rightarrow>
          (let u = q_isUpdated q in
           case obj of
             DeploymentConfig name r tmpl \<Rightarrow>
               (case tmpl of None \<Rightarrow> None
                | Some cs \<Rightarrow> Some (Inr (DeploymentConfig name (mutateReplicas u p r name)
                    (Some (mutatePodTemplate u p cs name)))))
           | Deployment name r cs \<Rightarrow>
               Some (Inr (Deployment name (Some (mutateReplicas u p (nil_to_zero r) name))
                 (mutatePodTemplate u p cs name)))
           | StatefulSet name r cs \<Rightarrow>
               Some (Inr (StatefulSet name (Some (mutateReplicas u p (nil_to_zero r) name))
                 (mutatePodTemplate u p cs name)))
           | Keycloak name instances res \<Rightarrow>
               (let configReplicas = sint (Replicas (gget zero_resource_config (pc_resourceConfigs p) name))
                in Some (Inr (Keycloak name
                     (if u \<or> instances < configReplicas then configReplicas else instances)
                     (mutateResourcesRequirement u p res KeycloakName))))
           | APIMgr name t \<Rightarrow>
               (let t1 = checkApiManager t in
                Some (Inr (APIMgr name (t1\<lparr>
                  Apicast := map_option (\<lambda>a. a\<lparr>ProductionSpec :=
                     scale_component u p ApicastProductionName (ProductionSpec a)\<rparr>) (Apicast t1),
                  Backend := map_option (\<lambda>b. b\<lparr>ListenerSpec :=
                     scale_component u p BackendListenerName (ListenerSpec b),
                     WorkerSpec := scale_component u p BackendWorkerName (WorkerSpec b)\<rparr>) (Backend t1)\<rparr>))))
           | OtherObject ty \<Rightarrow> None)))"

section \<open>Lemmas\<close>

lemma gget_mutate_entry:
  "gget 0 (mutate_entry u k c pod) j =
     (if j = k then raise_quantity u (gget 0 pod k) (rl c k) else gget 0 pod j)"
  by (simp add: mutate_entry_def raise_quantity_def)

lemma mutateResources_value:
  "gget 0 (mutateResources u pod c) k =
     (if k = ''cpu'' \<or> k = ''memory'' then raise_quantity u (gget 0 pod k) (rl c k) else gget 0 pod k)"
  by (simp add: mutateResources_def gget_mutate_entry)

text \<open>An entry that an application of the rule has settled is not moved by the next one.\<close>

definition settled :: "bool \<Rightarrow> string \<Rightarrow> ResourceList option \<Rightarrow> ResourceList \<Rightarrow> bool" where
  "settled u k c pod \<longleftrightarrow>
     (u \<or> gget 0 pod k < rl c k \<or> gget 0 pod k = 0) \<longrightarrow> map_of pod k = Some (rl c k)"

lemma settled_mutate_same: "settled u k c (mutate_entry u k c pod)"
  by (auto simp: settled_def mutate_entry_def)

lemma settled_mutate_other: "j \<noteq> k \<Longrightarrow> settled u k c pod \<Longrightarrow> settled u k c (mutate_entry u j c pod)"
  by (simp add: settled_def mutate_entry_def)

lemma mutate_entry_settled: "settled u k c pod \<Longrightarrow> mutate_entry u k c pod = pod"
  by (auto simp: settled_def mutate_entry_def intro: gset_same)

lemma mutateResources_idem: "mutateResources u (mutateResources u pod c) c = mutateResources u pod c"
proof -
  have "settled u ''cpu'' c (mutateResources u pod c)"
    unfolding mutateResources_def by (rule settled_mutate_other) (simp_all add: settled_mutate_same)
  moreover have "settled u ''memory'' c (mutateResources u pod c)"
    unfolding mutateResources_def by (rule settled_mutate_same)
  ultimately show ?thesis
    by (simp add: mutateResources_def [of u "mutateResources u pod c"] mutate_entry_settled)
qed

lemma checkResourceBlock_idem [simp]: "checkResourceBlock (checkResourceBlock r) = checkResourceBlock r"
  by (simp add: checkResourceBlock_def nonnil_def)

lemma mutate_requirements_idem:
  "mutate_requirements u conf (mutate_requirements u conf r) = mutate_requirements u conf r"
  by (simp add: mutate_requirements_def checkResourceBlock_def Let_def nonnil_def mutateResources_idem)

lemma mutateResourcesRequirement_idem [simp]:
  "mutateResourcesRequirement u p (mutateResourcesRequirement u p r n) n =
   mutateResourcesRequirement u p r n"
  by (simp add: mutateResourcesRequirement_def mutate_requirements_idem)

lemma checkResourceBlock_mutate [simp]:
  "checkResourceBlock (mutateResourcesRequirement u p r n) = mutateResourcesRequirement u p r n"
  by (simp add: checkResourceBlock_def mutateResourcesRequirement_def mutate_requirements_def
        Let_def nonnil_def)

lemma mutatePodTemplate_idem [simp]:
  "mutatePodTemplate u p (mutatePodTemplate u p cs n) n = mutatePodTemplate u p cs n"
  by (simp add: mutatePodTemplate_def)

lemma mutateReplicas_idem [simp]: "mutateReplicas u p (mutateReplicas u p r n) n = mutateReplicas u p r n"
  by (simp add: mutateReplicas_def int32.raise_idem)

lemma mutateAPIManagerReplicas_idem [simp]:
  "mutateAPIManagerReplicas u p (mutateAPIManagerReplicas u p r n) n = mutateAPIManagerReplicas u p r n"
  by (simp add: mutateAPIManagerReplicas_def int64.raise_idem)

lemma scale_component_idem:
  "scale_component u p n (scale_component u p n c) = scale_component u p n c"
  by (cases c) (simp_all add: scale_component_def option.map_comp comp_def)

lemma check_component_check [simp]:
  "check_component (Some (check_component c)) = check_component c"
  by (simp add: check_component_def Let_def nil_to_zero_def)

lemma check_scale_component [simp]:
  "Some (check_component (scale_component u p n (Some (check_component c)))) =
   scale_component u p n (Some (check_component c))"
  by (simp add: check_component_def scale_component_def Let_def nil_to_zero_def)

text \<open>The sign extension of the configured replicas: the value is that of the 32-bit count.\<close>

lemma sint_extend_int32: "sint (signed_take_bit 31 (ucast (r :: 32 word)) :: 64 word) = sint r"
proof -
  have "(signed_take_bit 31 (ucast r) :: 64 word) = scast r"
    by (rule bit_word_eqI) (auto simp: bit_signed_take_bit_iff bit_ucast_iff bit_signed_iff min_def not_le)
  then show ?thesis by (simp add: sint_up_scast is_up)
qed

definition configured_replicas :: "QuotaProductConfig \<Rightarrow> string \<Rightarrow> int" where
  "configured_replicas p n = sint (Replicas (gget zero_resource_config (pc_resourceConfigs p) n))"

lemma mutateAPIManagerReplicas_value:
  "0 \<le> configured_replicas p n \<Longrightarrow> sint (mutateAPIManagerReplicas u p r n) =
     (if u then configured_replicas p n else max (sint r) (configured_replicas p n))"
  by (simp add: mutateAPIManagerReplicas_def configured_replicas_def int64.raise_max sint_extend_int32)

text \<open>The replica counts of the three scaled components, a nil pointer read as zero.\<close>

definition component_replicas :: "ComponentSpec option \<Rightarrow> 64 word" where
  "component_replicas c = (case c of None \<Rightarrow> 0 | Some c \<Rightarrow> nil_to_zero (cs_Replicas c))"

definition apim_replicas :: "APIManager \<Rightarrow> 64 word list" where
  "apim_replicas t =
     [component_replicas (Option.bind (Apicast t) ProductionSpec),
      component_replicas (Option.bind (Backend t) ListenerSpec),
      component_replicas (Option.bind (Backend t) WorkerSpec)]"

definition scaled_components :: "string list" where
  "scaled_components = [ApicastProductionName, BackendListenerName, BackendWorkerName]"

lemma component_replicas_check [simp]:
  "component_replicas (Some (check_component c)) = component_replicas c"
  by (cases c) (simp_all add: component_replicas_def check_component_def Let_def nil_to_zero_def)

lemma component_replicas_scale:
  "component_replicas (scale_component u p n (Some (check_component c))) =
   mutateAPIManagerReplicas u p (component_replicas c) n"
  by (cases c) (simp_all add: component_replicas_def scale_component_def check_component_def Let_def
     nil_to_zero_def)

text \<open>A quota carries an entry's resources: every workload of every product of the table has one.\<close>

definition quota_carries :: "Quota \<Rightarrow> quotaConfigReceiver \<Rightarrow> bool" where
  "quota_carries q r \<longleftrightarrow>
     list_all (\<lambda>(p, ns). case GetProduct q p of None \<Rightarrow> False
        | Some pc \<Rightarrow> list_all (\<lambda>n. GetResourceConfig pc n =
              (Resources (gget zero_resource_config (qr_Resources r) n), True) \<and>
              GetReplicas pc n = Replicas (gget zero_resource_config (qr_Resources r) n)) ns)
       quota_products"

lemma quota_carries_update:
  "quota_carries (q\<lparr>q_name := x, q_productConfigs := map (product_config r) quota_products,
      q_rateLimitConfig := y\<rparr>) r"
  by (simp add: quota_carries_def quota_products_def GetProduct_def product_config_def
        GetResourceConfig_def GetReplicas_def)

section \<open>Properties\<close>

text \<open>
  Configuring a workload for a quota twice is configuring it once: the reconcile loop, which
  applies \<^verbatim>\<open>Configure\<close> on every pass, reaches a fixed point after the first.
\<close>

theorem Configure_idempotent:
  "Configure (Some q) p obj = Some (Inr obj') \<Longrightarrow> Configure (Some q) p obj' = Some (Inr obj')"
proof (cases obj)
  case (APIMgr n t)
  assume "Configure (Some q) p obj = Some (Inr obj')"
  with APIMgr show ?thesis
    by (auto simp: Configure_def Let_def checkApiManager_def scale_component_idem)
qed (auto simp: Configure_def Let_def nil_to_zero_def split: option.splits)

definition sample_config :: QuotaProductConfig where
  "sample_config = \<lparr>pc_productName = ''marin3r'', pc_resourceConfigs =
     [(''ratelimit'', \<lparr>Replicas = 3, Resources = \<lparr>Limits = Some [(''cpu'', 300)], Requests = None\<rparr>\<rparr>)]\<rparr>"

lemma sample_config_deployment:
  "Configure (Some zero_quota) sample_config (Deployment ''ratelimit'' None [zero_resources]) =
     Some (Inr (Deployment ''ratelimit'' (Some 3)
       [\<lparr>Limits = Some [(''cpu'', 300), (''memory'', 0)], Requests = Some [(''cpu'', 0), (''memory'', 0)]\<rparr>]))"
  by (simp add: Configure_def sample_config_def zero_quota_def nil_to_zero_def mutateReplicas_def
        raise_int32_def mutatePodTemplate_def mutateResourcesRequirement_def mutate_requirements_def
        checkResourceBlock_def zero_resources_def mutateResources_def mutate_entry_def nonnil_def rl_def)

theorem Configure_idempotent_witness:
  "Configure (Some zero_quota) sample_config (Deployment ''ratelimit'' (Some 3)
       [\<lparr>Limits = Some [(''cpu'', 300), (''memory'', 0)], Requests = Some [(''cpu'', 0), (''memory'', 0)]\<rparr>]) =
   Some (Inr (Deployment ''ratelimit'' (Some 3)
       [\<lparr>Limits = Some [(''cpu'', 300), (''memory'', 0)], Requests = Some [(''cpu'', 0), (''memory'', 0)]\<rparr>]))"
  by (rule Configure_idempotent [OF sample_config_deployment])

text \<open>
  C35. Replicas of the 3scale components: with configured counts that are not negative, an
  updated quota sets exactly those counts; otherwise the larger of the current and the
  configured count is kept, so an operator who scaled a component up is not scaled back. The
  64-bit arithmetic on the sign-extended 32-bit count never changes the configured value.
\<close>

theorem APIManager_replicas:
  assumes "list_all (\<lambda>c. 0 \<le> configured_replicas p c) scaled_components"
  shows "\<exists>t'. Configure (Some q) p (APIMgr n t) = Some (Inr (APIMgr n t')) \<and>
     map sint (apim_replicas t') =
       map2 (\<lambda>cur c. if q_isUpdated q then configured_replicas p c
                     else max (sint cur) (configured_replicas p c))
         (apim_replicas t) scaled_components"
  using assms
  by (simp add: Configure_def Let_def apim_replicas_def checkApiManager_def component_replicas_scale
        scaled_components_def mutateAPIManagerReplicas_value)
    (simp split: option.split)

definition sample_apim_config :: QuotaProductConfig where
  "sample_apim_config = \<lparr>pc_productName = ''3scale'', pc_resourceConfigs =
     [(''apicast_production'', \<lparr>Replicas = 3, Resources = zero_resources\<rparr>)]\<rparr>"

theorem APIManager_replicas_witness:
  "\<exists>t'. Configure (Some zero_quota) sample_apim_config (APIMgr ''apim'' \<lparr>Apicast = None, Backend = None\<rparr>) =
      Some (Inr (APIMgr ''apim'' t')) \<and> map sint (apim_replicas t') = [3, 0, 0]"
proof -
  have h: "list_all (\<lambda>c. 0 \<le> configured_replicas sample_apim_config c) scaled_components"
    by (simp add: sample_apim_config_def scaled_components_def configured_replicas_def
          zero_resource_config_def)
  show ?thesis
    using APIManager_replicas [OF h, of zero_quota "''apim''" "\<lparr>Apicast = None, Backend = None\<rparr>"]
    by (simp add: apim_replicas_def component_replicas_def zero_quota_def sample_apim_config_def
          scaled_components_def configured_replicas_def zero_resource_config_def)
qed

text \<open>
  \<^verbatim>\<open>GetQuota\<close> fails, and leaves the quota untouched, unless the stored table has an entry
  with the parameter and a name; when it succeeds the quota has that entry's name and rate
  limit, the update flag is as before, and for every product of the table and each of its
  workloads a resource configuration is present: the entry's, or zero where the entry has none.
\<close>

theorem GetQuota_correct:
  "case GetQuota unmarshal param cm q of (e, q') \<Rightarrow>
     (e = None \<longleftrightarrow> (\<exists>qs r. unmarshal (cm_entry cm QuotaConfigMapData) = Inr qs \<and>
                     quota_receiver param qs = Some r \<and> qr_Name r \<noteq> '''')) \<and>
     (e \<noteq> None \<longrightarrow> q' = q) \<and>
     (e = None \<longrightarrow> q_isUpdated q' = q_isUpdated q \<and>
        (\<exists>qs r. unmarshal (cm_entry cm QuotaConfigMapData) = Inr qs \<and> r \<in> set qs \<and> qr_Param r = param \<and>
           q_name q' = qr_Name r \<and> q_rateLimitConfig q' = qr_RateLimit r \<and>
           quota_carries q' r))"
proof -
  have "quota_receiver param qs = Some r \<Longrightarrow> r \<in> set qs \<and> qr_Param r = param" for qs r
    by (auto simp: quota_receiver_def find_Some_iff in_set_conv_nth)
  then show ?thesis
    by (auto simp: GetQuota_def split: sum.splits option.splits
          intro!: exI [where P = "\<lambda>r. r \<in> set _ \<and> _ r"] quota_carries_update)
qed

definition sample_receiver :: quotaConfigReceiver where
  "sample_receiver = \<lparr>qr_Name = ''100K'', qr_Param = ''1'',
     qr_RateLimit = \<lparr>Unit = ''minute'', RequestsPerUnit = 70\<rparr>,
     qr_Resources = [(''ratelimit'', \<lparr>Replicas = 2, Resources = zero_resources\<rparr>)]\<rparr>"

theorem GetQuota_correct_witness:
  "\<exists>q'. GetQuota (\<lambda>s. Inr [sample_receiver]) ''1'' \<lparr>cm_Name = ''c'', cm_Namespace = ''n'', cm_Data = None\<rparr>
      zero_quota = (None, q') \<and> q_name q' = ''100K'' \<and> quota_carries q' sample_receiver"
  using GetQuota_correct [where unmarshal = "\<lambda>s. Inr [sample_receiver]" and param = "''1''"
      and cm = "\<lparr>cm_Name = ''c'', cm_Namespace = ''n'', cm_Data = None\<rparr>" and q = zero_quota]
  by (auto simp: quota_receiver_def sample_receiver_def split: prod.splits)

end
