(* ===== verification/Stages.thy ===== *)
theory Stages
  imports RHMI_Types
begin

text \<open>
  Installation types and their stages (\<^verbatim>\<open>internal/controller/rhmi/types.go\<close>). The product maps of
  the two types are package variables shared by every reconcile; the controller's state holds
  them, and what is defined here is their initial value.
\<close>

record Stage =
  st_Name :: StageName
  st_Products :: "(ProductName, RHMIProductStatus) gomap"

record InstallType =
  InstallStages :: "Stage list"
  UninstallStages :: "Stage list"

definition stage_of :: "StageName \<Rightarrow> ProductName list \<Rightarrow> Stage" where
  "stage_of n ps = \<lparr>st_Name = n, st_Products = map (\<lambda>p. (p, product_named p)) ps\<rparr>"

definition allMultitenantManagedApiStages :: InstallType where
  "allMultitenantManagedApiStages = \<lparr>
     InstallStages = [
       stage_of BootstrapStage [],
       stage_of InstallStage [ProductCloudResources, ProductRHSSO, Product3Scale, ProductMarin3r, ProductGrafana]],
     UninstallStages = [
       stage_of UninstallProductsStage [ProductRHSSO, Product3Scale, ProductMarin3r, ProductGrafana],
       stage_of UninstallCloudResourcesStage [ProductCloudResources],
       stage_of UninstallBootstrap []]\<rparr>"

definition allManagedApiStages :: InstallType where
  "allManagedApiStages = \<lparr>
     InstallStages = [
       stage_of BootstrapStage [],
       stage_of InstallStage [ProductCloudResources, ProductRHSSO, Product3Scale, ProductRHSSOUser,
          ProductMarin3r, ProductGrafana]],
     UninstallStages = [
       stage_of UninstallProductsStage [ProductRHSSO, Product3Scale, ProductRHSSOUser, ProductMarin3r, ProductGrafana],
       stage_of UninstallCloudResourcesStage [ProductCloudResources],
       stage_of UninstallBootstrap []]\<rparr>"

definition TypeFactory :: "string \<Rightarrow> err + InstallType" where
  "TypeFactory installationType =
     (if installationType = InstallationTypeManagedApi then Inr allManagedApiStages
      else if installationType = InstallationTypeMultitenantManagedApi then Inr allMultitenantManagedApiStages
      else Inl (Msg (''unknown installation type: '' @ installationType)))"

lemma TypeFactory_simps [simp]:
  "TypeFactory InstallationTypeManagedApi = Inr allManagedApiStages"
  "TypeFactory InstallationTypeMultitenantManagedApi = Inr allMultitenantManagedApiStages"
  by (simp_all add: TypeFactory_def)

definition GetProductNamespaces :: "string \<Rightarrow> string list" where
  "GetProductNamespaces watchNamespace =
     (let namespacePrefix = TrimSuffix watchNamespace ''operator'';
          expectedNamespaces =
            [Product3Scale, Product3Scale @ ''-operator'', ProductMarin3r, ProductMarin3r @ ''-operator'',
             ProductCloudResources @ ''-operator'', ProductRHSSO, ProductRHSSO @ ''-operator'',
             ''user-sso'', ''user-sso-operator'', ''customer-monitoring'', ''operator-observability'']
      in remdups (watchNamespace # map (\<lambda>suffix. namespacePrefix @ suffix) expectedNamespaces))"

lemmas stage_defs [go_defs] =
  stage_of_def allMultitenantManagedApiStages_def allManagedApiStages_def product_named_def

definition stage_products :: "Stage list \<Rightarrow> ProductName list" where
  "stage_products ss = concat (map (\<lambda>s. map fst (st_Products s)) ss)"

lemma TypeFactory_cases:
  assumes "TypeFactory t = Inr ty"
  obtains "t = InstallationTypeManagedApi" "ty = allManagedApiStages"
    | "t = InstallationTypeMultitenantManagedApi" "ty = allMultitenantManagedApiStages"
  using assms that unfolding TypeFactory_def
  by (metis Inl_Inr_False sum.inject(2))

section \<open>Properties\<close>

text \<open>
  C39. The types the factory builds exist exactly for the RHOAM installation types; their first
  install stage is the bootstrap stage, every stage's products are distinct and carry their own
  name, and the products uninstalled, over all uninstall stages, are exactly those installed.
\<close>

theorem TypeFactory_wf:
  "(\<exists>ty. TypeFactory t = Inr ty) = IsRHOAM t \<and>
   (TypeFactory t = Inr ty \<longrightarrow>
      (\<exists>s ss. InstallStages ty = s # ss \<and> st_Name s = BootstrapStage \<and> st_Products s = []) \<and>
      distinct (map st_Name (InstallStages ty)) \<and>
      list_all (\<lambda>s. gomap_wf (st_Products s) \<and> product_names_ok (st_Products s))
        (InstallStages ty @ UninstallStages ty) \<and>
      set (stage_products (InstallStages ty)) = set (stage_products (UninstallStages ty)))"
proof -
  have "(\<exists>ty. TypeFactory t = Inr ty) = IsRHOAM t"
    by (auto simp: TypeFactory_def IsRHOAM_def)
  moreover have "TypeFactory t = Inr ty \<Longrightarrow>
      (\<exists>s ss. InstallStages ty = s # ss \<and> st_Name s = BootstrapStage \<and> st_Products s = []) \<and>
      distinct (map st_Name (InstallStages ty)) \<and>
      list_all (\<lambda>s. gomap_wf (st_Products s) \<and> product_names_ok (st_Products s))
        (InstallStages ty @ UninstallStages ty) \<and>
      set (stage_products (InstallStages ty)) = set (stage_products (UninstallStages ty))"
    by (erule TypeFactory_cases)
      (auto simp: stage_defs gomap_wf_def product_names_ok_def stage_products_def)
  ultimately show ?thesis by blast
qed

theorem TypeFactory_wf_witness:
  "set (stage_products (InstallStages allManagedApiStages)) =
   set (stage_products (UninstallStages allManagedApiStages))"
  using TypeFactory_wf [of InstallationTypeManagedApi allManagedApiStages] by simp

text \<open>
  No uninstall stage of either type has the name of the bootstrap stage: the test the
  uninstall handler makes for it never succeeds, and the bootstrap clean-up it guards is never
  run.
\<close>

theorem uninstall_never_bootstrap:
  "TypeFactory t = Inr ty \<Longrightarrow> list_all (\<lambda>s. st_Name s \<noteq> BootstrapStage) (UninstallStages ty)"
  by (erule TypeFactory_cases) (simp_all add: stage_defs)

theorem uninstall_never_bootstrap_witness:
  "list_all (\<lambda>s. st_Name s \<noteq> BootstrapStage) (UninstallStages allManagedApiStages)"
  using uninstall_never_bootstrap [of InstallationTypeManagedApi allManagedApiStages] by simp

text \<open>
  The health check asks for the user SSO product, which the multitenant type does not
  install: an installation whose install stage lists only products of that type is never
  reported healthy, whatever their phases.
\<close>

theorem multitenant_never_healthy:
  "set (map fst (s_Products (GetInstallStage i))) \<subseteq>
     set (stage_products (InstallStages allMultitenantManagedApiStages)) \<Longrightarrow>
   \<not> IsCoreComponentsHealthy i"
proof -
  assume sub: "set (map fst (s_Products (GetInstallStage i))) \<subseteq>
     set (stage_products (InstallStages allMultitenantManagedApiStages))"
  have "ProductRHSSOUser \<notin> set (stage_products (InstallStages allMultitenantManagedApiStages))"
    by (simp add: stage_products_def stage_defs)
  with sub have "ProductRHSSOUser \<notin> set (map fst (s_Products (GetInstallStage i)))" by blast
  then have "map_of (s_Products (GetInstallStage i)) ProductRHSSOUser = None"
    by (simp add: map_of_eq_None_iff)
  then show ?thesis
    by (simp add: IsCoreComponentsHealthy_def IsProductInInstallStagePhaseComplete_def gget_def
          zero_product_def)
qed

theorem multitenant_never_healthy_witness:
  "\<not> IsCoreComponentsHealthy (zero_rhmi\<lparr>Status := zero_status\<lparr>Stages := Some [(InstallStage,
      \<lparr>s_Name = InstallStage, s_Phase = PhaseCompleted,
       s_Products = [(Product3Scale, zero_product\<lparr>p_Phase := PhaseCompleted\<rparr>)]\<rparr>)]\<rparr>\<rparr>)"
  by (rule multitenant_never_healthy)
    (simp add: GetInstallStage_def GetStage_def stages_of_def zero_defs stage_products_def stage_defs)

end
