(* ===== verification/Install_Stage.thy ===== *)
theory Install_Stage
  imports Quota Stages
begin

text \<open>
  One stage of an installation (\<^verbatim>\<open>processStage\<close>, \<^verbatim>\<open>bootstrapStage\<close> and \<^verbatim>\<open>addCustomInformer\<close> of
  \<^verbatim>\<open>rhmi_controller.go\<close>, \<^verbatim>\<open>pkg/resources/multiErr.go\<close>). A product reconciler is a value of the Go
  interface \<^verbatim>\<open>products.Interface\<close>, here a record of its methods; what the methods do to the
  cluster is the state \<open>'w\<close> they thread. The record \<open>stage_env\<close> collects what the controller
  calls: the reconciler factory, the client constructor, the configuration reader, the informer
  machinery of controller-runtime.
\<close>

section \<open>\<^verbatim>\<open>MultiErr\<close>\<close>

type_synonym MultiErr = "string list"

definition MultiErr_Error :: "MultiErr \<Rightarrow> string" where
  "MultiErr_Error m = ''product reconcilation errors : '' @ Join m '':  ''"

definition MultiErr_Add :: "MultiErr option \<Rightarrow> err \<Rightarrow> MultiErr option" where
  "MultiErr_Add m e = Some ((case m of None \<Rightarrow> [] | Some es \<Rightarrow> es) @ [err_string e])"

section \<open>Environment and state\<close>

record 'w product_reconciler =
  r_Reconcile :: "RHMI \<Rightarrow> RHMIProductStatus \<Rightarrow> Quota \<Rightarrow> QuotaProductConfig option \<Rightarrow> bool \<Rightarrow> 'w \<Rightarrow>
     (StatusPhase \<times> err option) \<times> RHMI \<times> RHMIProductStatus \<times> 'w"
  r_VerifyVersion :: "RHMI \<Rightarrow> bool"
  r_GetPreflightObject :: "string \<Rightarrow> string option"

type_synonym informers = "(crd \<times> string) list"

record 'w stage_env =
  NewReconciler :: "ProductName \<Rightarrow> RHMI \<Rightarrow> 'w \<Rightarrow> err + 'w product_reconciler"
  NewClient :: "'w \<Rightarrow> err option"
  ReadProductCfg :: "ProductName \<Rightarrow> 'w \<Rightarrow> err + AnyConfig"
  PrepareInformer :: "crd \<Rightarrow> string \<Rightarrow> 'w \<Rightarrow> err option \<times> 'w"
  WaitForCacheSync :: "crd \<Rightarrow> string \<Rightarrow> 'w \<Rightarrow> bool \<times> 'w"
  HasSynced :: "crd \<Rightarrow> string \<Rightarrow> 'w \<Rightarrow> bool"
  NewBootstrap :: "RHMI \<Rightarrow> 'w \<Rightarrow> err option"
  BootstrapReconcile :: "RHMI \<Rightarrow> Quota \<Rightarrow> 'w \<Rightarrow> (StatusPhase \<times> err option) \<times> RHMI \<times> Quota \<times> 'w"

record 'w pstate =
  ps_inst :: RHMI
  ps_products :: "(ProductName, RHMIProductStatus) gomap"
  ps_mErr :: "MultiErr option"
  ps_incomplete :: bool
  ps_mismatch :: bool
  ps_informers :: informers
  ps_world :: 'w

section \<open>Watches\<close>

fun gvk_string :: "crd \<Rightarrow> string" where
  "gvk_string (kind, apiVersion) = apiVersion @ '', Kind='' @ kind"

text \<open>
  The informer is registered once it is prepared; waiting for its first synchronisation can then
  still fail, and leaves it registered.
\<close>

definition addCustomInformer ::
  "'w stage_env \<Rightarrow> crd \<Rightarrow> string \<Rightarrow> informers \<Rightarrow> 'w \<Rightarrow> err option \<times> informers \<times> 'w" where
  "addCustomInformer env crd namespace infs w =
     (case PrepareInformer env crd namespace w of
        (Some e, w1) \<Rightarrow> (Some e, infs, w1)
      | (None, w1) \<Rightarrow>
          (let infs' = (crd, namespace) # infs; (synced, w2) = WaitForCacheSync env crd namespace w1 in
           if synced then (None, infs', w2)
           else (Some (Msg (''failed to sync cache for '' @ gvk_string crd @ '' watch in '' @ namespace
                  @ '' namespace'')), infs', w2)))"

fun check_crds ::
  "'w stage_env \<Rightarrow> ProductName \<Rightarrow> string \<Rightarrow> crd list \<Rightarrow> informers \<Rightarrow> 'w \<Rightarrow> err option \<times> informers \<times> 'w" where
  "check_crds env p ns [] infs w = (None, infs, w)"
| "check_crds env p ns (crd # crds) infs w =
     (if (crd, ns) \<notin> set infs then
        (case addCustomInformer env crd ns infs w of
           (Some e, infs', w') \<Rightarrow>
             (Some (Msg (''failed to create a '' @ gvk_string crd @ '' CRD watch for '' @ p @ '': ''
                    @ err_string e)), infs', w')
         | (None, infs', w') \<Rightarrow> check_crds env p ns crds infs' w')
      else if \<not> HasSynced env crd ns w then
        (Some (Msg (''A '' @ gvk_string crd @ '' CRD Informer for '' @ p @ '' has not synced'')), infs, w)
      else check_crds env p ns crds infs w)"

section \<open>Products\<close>

text \<open>One iteration of the loop over the stage's products; \<open>Some\<close> is the early return's error.\<close>

definition process_product :: "'w stage_env \<Rightarrow> Quota \<Rightarrow> ProductName \<Rightarrow> 'w pstate \<Rightarrow> err option \<times> 'w pstate" where
  "process_product env q productName s =
     (let productStatus = gget zero_product (ps_products s) productName;
          inst = ps_inst s
      in case NewReconciler env (p_Name productStatus) inst (ps_world s) of
           Inl e \<Rightarrow> (Some (Wrap (''failed to build a reconciler for '' @ p_Name productStatus) e), s)
         | Inr r \<Rightarrow>
             (let s1 = (if \<not> r_VerifyVersion r inst then s\<lparr>ps_mismatch := True\<rparr> else s) in
              case NewClient env (ps_world s1) of
                Some e \<Rightarrow> (Some (Wrap ''could not create server client'' e), s1)
              | None \<Rightarrow>
                  (let uninstall = (p_Uninstall productStatus \<or> DeletionTimestamp inst \<noteq> None);
                       ((phase, e), inst', ps0, w') =
                         r_Reconcile r inst productStatus q (GetProduct q productName) uninstall (ps_world s1);
                       ps' = ps0\<lparr>p_Phase := phase\<rparr>;
                       s2 = s1\<lparr>ps_inst := inst', ps_world := w',
                              ps_mErr := (case e of None \<Rightarrow> ps_mErr s1
                                | Some e \<Rightarrow> MultiErr_Add (ps_mErr s1)
                                    (Wrap (''failed installation of '' @ p_Name ps') e))\<rparr>
                   in case ReadProductCfg env (p_Name ps') w' of
                        Inl e2 \<Rightarrow> (Some (Msg (''failed to read productStatus config for '' @ p_Name ps'
                                    @ '': '' @ err_string e2)), s2)
                      | Inr pcfg \<Rightarrow>
                          (let (e3, infs, w3) =
                             (if phase = PhaseCompleted
                              then check_crds env (p_Name ps') (any_GetNamespace pcfg)
                                     (any_GetWatchableCRDs pcfg) (ps_informers s2) w'
                              else (None, ps_informers s2, w'));
                               s3 = s2\<lparr>ps_informers := infs, ps_world := w3\<rparr>
                           in case e3 of
                                Some e \<Rightarrow> (Some e, s3)
                              | None \<Rightarrow> (None, s3\<lparr>
                                  ps_incomplete := (ps_incomplete s3 \<or> phase \<noteq> PhaseCompleted),
                                  ps_products := gset productName ps' (ps_products s3)\<rparr>)))))"

fun process_products :: "'w stage_env \<Rightarrow> Quota \<Rightarrow> ProductName list \<Rightarrow> 'w pstate \<Rightarrow> err option \<times> 'w pstate" where
  "process_products env q [] s = (None, s)"
| "process_products env q (p # ps) s =
     (case process_product env q p s of
        (Some e, s') \<Rightarrow> (Some e, s')
      | (None, s') \<Rightarrow> process_products env q ps s')"

text \<open>
  What a stage hands back: phase, error, and the state: the resource, the stage's product map
  (shared with the package variable), the version-mismatch flag, the informers, whether a panic
  unwinds the reconcile, the cluster.
\<close>

record 'w cstate =
  c_inst :: RHMI
  c_quota :: Quota
  c_mismatch :: bool
  c_informers :: informers
  c_panic :: bool
  c_world :: 'w

definition processStage ::
  "'w stage_env \<Rightarrow> Stage \<Rightarrow> 'w cstate \<Rightarrow> (StatusPhase \<times> err option) \<times> Stage \<times> 'w cstate" where
  "processStage env stage c =
     (let s0 = \<lparr>ps_inst = (c_inst c)\<lparr>Status := (Status (c_inst c))\<lparr>RHMIStatus.Stage := st_Name stage\<rparr>\<rparr>,
                ps_products = st_Products stage, ps_mErr = None, ps_incomplete = False,
                ps_mismatch = False, ps_informers = c_informers c, ps_world = c_world c\<rparr>;
          (e, s) = process_products env (c_quota c) (map fst (st_Products stage)) s0;
          stage' = stage\<lparr>st_Products := ps_products s\<rparr>;
          c' = c\<lparr>c_inst := ps_inst s, c_mismatch := ps_mismatch s, c_informers := ps_informers s,
                 c_world := ps_world s\<rparr>
      in case e of
           Some err \<Rightarrow> ((PhaseFailed, Some err), stage', c')
         | None \<Rightarrow>
             ((if ps_incomplete s then PhaseInProgress else PhaseCompleted,
               map_option (\<lambda>m. Msg (MultiErr_Error m)) (ps_mErr s)), stage', c'))"

definition bootstrapStage :: "'w stage_env \<Rightarrow> 'w cstate \<Rightarrow> (StatusPhase \<times> err option) \<times> 'w cstate" where
  "bootstrapStage env c =
     (let inst = (c_inst c)\<lparr>Status := (Status (c_inst c))\<lparr>RHMIStatus.Stage := BootstrapStage\<rparr>\<rparr>;
          c1 = c\<lparr>c_inst := inst\<rparr>
      in case NewBootstrap env inst (c_world c) of
           Some e \<Rightarrow> ((PhaseFailed, Some (Wrap ''failed to build a reconciler for Bootstrap'' e)), c1)
         | None \<Rightarrow>
             (case NewClient env (c_world c) of
                Some e \<Rightarrow> ((PhaseFailed, Some (Wrap ''could not create server client'' e)), c1)
              | None \<Rightarrow>
                  (let ((phase, e), inst', q', w') = BootstrapReconcile env inst (c_quota c) (c_world c);
                       c2 = c1\<lparr>c_inst := inst', c_quota := q', c_world := w'\<rparr>
                   in if e \<noteq> None \<or> phase = PhaseFailed then
                        ((PhaseFailed, Some (case e of
                             None \<Rightarrow> Msg ''bootstrap stage reconcile failed: %!w(<nil>)''
                           | Some e \<Rightarrow> Wrap ''bootstrap stage reconcile failed'' e)), c2)
                      else ((phase, None), c2))))"

section \<open>Stage after stage\<close>

text \<open>The body of the loop over the install stages: run the stage and record it in the status.\<close>

definition run_stage :: "'w stage_env \<Rightarrow> Stage \<Rightarrow> 'w cstate \<Rightarrow> bool \<times> Stage \<times> 'w cstate" where
  "run_stage env stage c =
     (let ((phase, e), stage', c') =
            (if st_Name stage = BootstrapStage
             then (let (r, c1) = bootstrapStage env c in (r, stage, c1))
             else processStage env stage c);
          st = Status (c_inst c');
          m = (case Stages st of None \<Rightarrow> [] | Some m \<Rightarrow> m);
          st' = st\<lparr>Stages := Some (gset (st_Name stage) \<lparr>s_Name = st_Name stage, s_Phase = phase,
                      s_Products = st_Products stage'\<rparr> m),
                   LastError := (case e of None \<Rightarrow> '''' | Some e \<Rightarrow> err_string e)\<rparr>
      in (phase = PhaseCompleted, stage', c'\<lparr>c_inst := (c_inst c')\<lparr>Status := st'\<rparr>,
            c_panic := (case e of None \<Rightarrow> False | Some e \<Rightarrow> is_panic e)\<rparr>))"

text \<open>
  The loop itself: it stops after the first stage that is not complete. The first component of
  the result is whether all stages completed; the stages come back with their product maps.
\<close>

fun install_loop :: "'w stage_env \<Rightarrow> Stage list \<Rightarrow> 'w cstate \<Rightarrow> bool \<times> Stage list \<times> 'w cstate" where
  "install_loop env [] c = (True, [], c)"
| "install_loop env (stage # stages) c =
     (case run_stage env stage c of
        (False, stage', c') \<Rightarrow> (False, stage' # stages, c')
      | (True, stage', c') \<Rightarrow>
          (let (done, stages', c'') = install_loop env stages c' in (done, stage' # stages', c'')))"

section \<open>Lemmas on one stage\<close>

text \<open>An early return leaves product map and incompleteness as they were.\<close>

lemma process_product_Some:
  assumes "process_product env q p s = (Some e, s')"
  shows "ps_products s' = ps_products s \<and> ps_incomplete s' = ps_incomplete s"
  using assms
  by (auto simp: process_product_def Let_def split: sum.splits option.splits prod.splits if_splits)

text \<open>A finished iteration writes the product's entry and counts it if it is not complete.\<close>

lemma process_product_None:
  assumes "process_product env q p s = (None, s')"
  shows "\<exists>v. ps_products s' = gset p v (ps_products s) \<and>
     ps_incomplete s' = (ps_incomplete s \<or> p_Phase v \<noteq> PhaseCompleted)"
  using assms
  by (auto simp: process_product_def Let_def split: sum.splits option.splits prod.splits if_splits)

abbreviation phase_of :: "(ProductName, RHMIProductStatus) gomap \<Rightarrow> ProductName \<Rightarrow> StatusPhase" where
  "phase_of m p \<equiv> p_Phase (gget zero_product m p)"

lemma process_products_keys:
  assumes "process_products env q ps s = (e, s')" and "set ps \<subseteq> fst ` set (ps_products s)"
  shows "map fst (ps_products s') = map fst (ps_products s)"
  using assms
proof (induction ps arbitrary: s)
  case Nil
  then show ?case by simp
next
  case (Cons p ps)
  obtain e1 s1 where s1: "process_product env q p s = (e1, s1)" by (cases "process_product env q p s")
  show ?case
  proof (cases e1)
    case (Some a)
    then show ?thesis using Cons.prems s1 process_product_Some [of env q p s a s1] by simp
  next
    case None
    with process_product_None [of env q p s s1] s1
    obtain v where "ps_products s1 = gset p v (ps_products s)" by blast
    with Cons.prems have k: "map fst (ps_products s1) = map fst (ps_products s)"
      by (simp add: gset_present_keys)
    then have "set ps \<subseteq> fst ` set (ps_products s1)" using Cons.prems(2)
      by (metis list.set_map set_subset_Cons subset_trans)
    moreover have "process_products env q ps s1 = (e, s')" using Cons.prems(1) None s1 by simp
    ultimately show ?thesis using Cons.IH k by metis
  qed
qed

lemma process_products_complete:
  assumes "process_products env q ps s = (None, s')" and "distinct ps"
  shows "(ps_incomplete s' \<longleftrightarrow> ps_incomplete s \<or> (\<exists>p \<in> set ps. phase_of (ps_products s') p \<noteq> PhaseCompleted)) \<and>
     (\<forall>j. j \<notin> set ps \<longrightarrow> gget zero_product (ps_products s') j = gget zero_product (ps_products s) j)"
  using assms
proof (induction ps arbitrary: s)
  case Nil
  then show ?case by simp
next
  case (Cons p ps)
  obtain s1 where s1: "process_product env q p s = (None, s1)"
    and rest: "process_products env q ps s1 = (None, s')"
    using Cons.prems(1) by (cases "process_product env q p s") (auto split: option.splits)
  obtain v where v: "ps_products s1 = gset p v (ps_products s)"
    "ps_incomplete s1 = (ps_incomplete s \<or> p_Phase v \<noteq> PhaseCompleted)"
    using process_product_None [OF s1] by blast
  have "p \<notin> set ps" using Cons.prems(2) by simp
  with Cons.IH [OF rest] Cons.prems(2) v show ?case by auto
qed

section \<open>Staged execution\<close>

text \<open>
  What the install loop and the uninstall loop share: stages run in order, each may say it is not
  complete, and the first that does stops the loop. The client's lemmas: an interrupted run is a
  complete run of a prefix followed by one incomplete stage, and the stages behind it are not
  touched; a run over two lists in a row is the run over their concatenation.
\<close>

locale staged =
  fixes step :: "'x \<Rightarrow> 's \<Rightarrow> bool \<times> 'x \<times> 's"
    and loop :: "'x list \<Rightarrow> 's \<Rightarrow> bool \<times> 'x list \<times> 's"
  assumes loop_Nil: "loop [] s = (True, [], s)"
    and loop_stop: "step x s = (False, x', s') \<Longrightarrow> loop (x # xs) s = (False, x' # xs, s')"
    and loop_go: "step x s = (True, x', s') \<Longrightarrow> loop xs s' = (b, xs', s'') \<Longrightarrow>
       loop (x # xs) s = (b, x' # xs', s'')"
begin

lemma loop_interrupted:
  assumes "loop xs s = (False, xs', s')"
  shows "\<exists>ys x zs ys' x' s1. xs = ys @ x # zs \<and> loop ys s = (True, ys', s1) \<and>
     step x s1 = (False, x', s') \<and> xs' = ys' @ x' # zs"
  using assms
proof (induction xs arbitrary: s xs')
  case Nil
  then show ?case by (simp add: loop_Nil)
next
  case (Cons x xs)
  obtain b x' s1 where st: "step x s = (b, x', s1)" by (cases "step x s")
  show ?case
  proof (cases b)
    case False
    with st have "loop (x # xs) s = (False, x' # xs, s1)" by (simp add: loop_stop)
    with Cons.prems have "xs' = x' # xs" and "s' = s1" by simp_all
    then show ?thesis using st False loop_Nil by (metis append_Nil)
  next
    case True
    obtain b2 xs2 s2 where rest: "loop xs s1 = (b2, xs2, s2)" by (cases "loop xs s1")
    with st True have "loop (x # xs) s = (b2, x' # xs2, s2)" by (simp add: loop_go)
    with Cons.prems have eq: "b2 = False" "xs' = x' # xs2" "s2 = s'" by simp_all
    with Cons.IH rest obtain ys z zs ys' z' s3 where
      "xs = ys @ z # zs" "loop ys s1 = (True, ys', s3)" "step z s3 = (False, z', s')"
      "xs2 = ys' @ z' # zs" by blast
    moreover from this st True have "loop (x # ys) s = (True, x' # ys', s3)" by (simp add: loop_go)
    ultimately show ?thesis using eq by (metis append_Cons)
  qed
qed

lemma loop_append:
  assumes "loop xs s = (True, xs', s1)" and "loop ys s1 = (b, ys', s')"
  shows "loop (xs @ ys) s = (b, xs' @ ys', s')"
  using assms
proof (induction xs arbitrary: s xs')
  case Nil
  then show ?case by (simp add: loop_Nil)
next
  case (Cons x xs)
  obtain c x' s2 where st: "step x s = (c, x', s2)" by (cases "step x s")
  obtain b2 xs2 s3 where rest: "loop xs s2 = (b2, xs2, s3)" by (cases "loop xs s2")
  show ?case
  proof (cases c)
    case False
    then show ?thesis using Cons.prems(1) st by (simp add: loop_stop)
  next
    case True
    with st rest have "loop (x # xs) s = (b2, x' # xs2, s3)" by (simp add: loop_go)
    with Cons.prems(1) have "b2" "xs' = x' # xs2" "s3 = s1" by simp_all
    with rest Cons.IH Cons.prems(2) have "loop (xs @ ys) s2 = (b, xs2 @ ys', s')" by simp
    with st True \<open>xs' = x' # xs2\<close> show ?thesis by (simp add: loop_go)
  qed
qed

lemma loop_length: "loop xs s = (b, xs', s') \<Longrightarrow> length xs' = length xs"
proof (induction xs arbitrary: s b xs' s')
  case Nil
  then show ?case by (simp add: loop_Nil)
next
  case (Cons x xs)
  obtain c x' s2 where st: "step x s = (c, x', s2)" by (cases "step x s")
  obtain b2 xs2 s3 where rest: "loop xs s2 = (b2, xs2, s3)" by (cases "loop xs s2")
  from Cons.prems Cons.IH [OF rest] st rest show ?case
    by (cases c) (auto simp: loop_stop loop_go)
qed

end

interpretation install: staged "run_stage env" "install_loop env"
  by unfold_locales simp_all

text \<open>The status records the stage that ran last, under its name, with its phase and products.\<close>

lemma run_stage_recorded:
  assumes "run_stage env stage c = (b, stage', c')"
  shows "GetStage (c_inst c') (st_Name stage) =
     \<lparr>s_Name = st_Name stage,
      s_Phase = s_Phase (GetStage (c_inst c') (st_Name stage)),
      s_Products = st_Products stage'\<rparr> \<and>
     (b \<longleftrightarrow> s_Phase (GetStage (c_inst c') (st_Name stage)) = PhaseCompleted)"
  using assms
  by (auto simp: run_stage_def Let_def GetStage_def stages_of_def split: prod.splits)

section \<open>Properties\<close>


definition sample_reconciler :: "StatusPhase \<Rightarrow> nat product_reconciler" where
  "sample_reconciler ph = \<lparr>r_Reconcile = (\<lambda>i ps q pc u w. ((ph, None), i, ps, w + 1)),
     r_VerifyVersion = (\<lambda>i. True), r_GetPreflightObject = (\<lambda>n. None)\<rparr>"

definition sample_env :: "nat stage_env" where
  "sample_env = \<lparr>
     NewReconciler = (\<lambda>p i w. Inr (sample_reconciler (if p = ''grafana'' then PhaseInProgress else PhaseCompleted))),
     NewClient = (\<lambda>w. None), ReadProductCfg = (\<lambda>p w. Inr (CGrafana (NewGrafana []))),
     PrepareInformer = (\<lambda>c n w. (None, w)), WaitForCacheSync = (\<lambda>c n w. (True, w)),
     HasSynced = (\<lambda>c n w. True), NewBootstrap = (\<lambda>i w. None),
     BootstrapReconcile = (\<lambda>i q w. ((PhaseCompleted, None), i, q, w))\<rparr>"

definition sample_cstate :: "nat cstate" where
  "sample_cstate = \<lparr>c_inst = zero_rhmi, c_quota = zero_quota, c_mismatch = False, c_informers = [], c_panic = False, c_world = 0\<rparr>"

lemmas sample_defs = sample_reconciler_def sample_env_def sample_cstate_def




end
