(* ===== verification/Kube.thy ===== *)
theory Kube
  imports RHMI_Types
begin

text \<open>
  The Kubernetes client as the operator uses it: for one kind of object \<open>'o\<close>, a record of its
  calls. Each call takes the object and the server's state \<open>'w\<close> and gives the error, the object
  as the call leaves it in memory and the new state. On top of the calls stand the helpers of
  \<^verbatim>\<open>pkg/resources/k8s/objectQueries.go\<close> and controller-runtime's \<^verbatim>\<open>CreateOrUpdate\<close>.
\<close>

type_synonym ('o, 'w) op = "'o \<Rightarrow> 'w \<Rightarrow> err option \<times> 'o \<times> 'w"

record ('o, 'w) kind_api =
  k_Get :: "('o, 'w) op"
  k_Create :: "('o, 'w) op"
  k_Update :: "('o, 'w) op"
  k_Patch :: "('o, 'w) op"
  k_Delete :: "'o \<Rightarrow> 'w \<Rightarrow> err option \<times> 'w"
  k_Key :: "'o \<Rightarrow> string \<times> string"

text \<open>What a controller answers to the work queue.\<close>

record ctrl_result =
  Requeue :: bool
  RequeueAfter :: int

abbreviation no_requeue :: ctrl_result where "no_requeue \<equiv> \<lparr>Requeue = False, RequeueAfter = 0\<rparr>"
abbreviation retryRequeue :: ctrl_result where
  "retryRequeue \<equiv> \<lparr>Requeue = True, RequeueAfter = 10 * second_ns\<rparr>"

text \<open>The prefix of the product namespaces; a slice past the end of the segments panics.\<close>

definition namespace_prefix :: "string \<Rightarrow> string option" where
  "namespace_prefix namespace =
     (let segments = SplitC (CHR ''-'') namespace in
      if length segments < 2 then None else Some (Join (take 2 segments) ''-'' @ ''-''))"

lemma namespace_prefix_segments:
  assumes "CHR ''-'' \<notin> set x" and "CHR ''-'' \<notin> set y"
  shows "namespace_prefix (x @ ''-'' @ y @ ''-'' @ z) = Some (x @ ''-'' @ y @ ''-'')"
  using assms by (simp add: namespace_prefix_def SplitC_segment)

section \<open>\<^verbatim>\<open>objectQueries.go\<close>\<close>

text \<open>\<^verbatim>\<open>k8s.Exists\<close>, given the answer of the get it makes.\<close>

definition Exists :: "err option \<Rightarrow> err + bool" where
  "Exists answer =
     (case answer of
        None \<Rightarrow> Inr True
      | Some e \<Rightarrow> if IsNotFound (Some e) then Inr False else Inl e)"

text \<open>What \<^verbatim>\<open>UpdateIfExists\<close> and \<^verbatim>\<open>PatchIfExists\<close> share: get, mutate, write.\<close>

definition write_if_exists ::
  "('o, 'w) op \<Rightarrow> ('o, 'w) op \<Rightarrow> ('o, 'w) op \<Rightarrow> 'o \<Rightarrow> 'w \<Rightarrow> (StatusPhase \<times> err option) \<times> 'o \<times> 'w" where
  "write_if_exists get fn write obj w =
     (case get obj w of
        (Some e, o1, w1) \<Rightarrow>
          (if IsNotFound (Some e) then (PhaseInProgress, None) else (PhaseFailed, Some e), o1, w1)
      | (None, o1, w1) \<Rightarrow>
          (case fn o1 w1 of
             (Some e, o2, w2) \<Rightarrow> ((PhaseFailed, Some e), o2, w2)
           | (None, o2, w2) \<Rightarrow>
               (case write o2 w2 of
                  (Some e, o3, w3) \<Rightarrow> ((PhaseFailed, Some e), o3, w3)
                | (None, o3, w3) \<Rightarrow> ((PhaseCompleted, None), o3, w3))))"

definition UpdateIfExists ::
  "('o, 'w) kind_api \<Rightarrow> ('o, 'w) op \<Rightarrow> 'o \<Rightarrow> 'w \<Rightarrow> (StatusPhase \<times> err option) \<times> 'o \<times> 'w" where
  "UpdateIfExists api fn = write_if_exists (k_Get api) fn (k_Update api)"

definition PatchIfExists ::
  "('o, 'w) kind_api \<Rightarrow> ('o, 'w) op \<Rightarrow> 'o \<Rightarrow> 'w \<Rightarrow> (StatusPhase \<times> err option) \<times> 'o \<times> 'w" where
  "PatchIfExists api fn = write_if_exists (k_Get api) fn (k_Patch api)"

definition EnsureObjectDeleted :: "('o, 'w) kind_api \<Rightarrow> 'o \<Rightarrow> 'w \<Rightarrow> (StatusPhase \<times> err option) \<times> 'w" where
  "EnsureObjectDeleted api obj w =
     (case k_Delete api obj w of
        (Some e, w') \<Rightarrow> (if IsNotFound (Some e) then (PhaseCompleted, None) else (PhaseFailed, Some e), w')
      | (None, w') \<Rightarrow> ((PhaseInProgress, None), w'))"

section \<open>\<^verbatim>\<open>controllerutil.CreateOrUpdate\<close>\<close>

datatype OperationResult = OperationResultNone | OperationResultCreated | OperationResultUpdated

text \<open>The mutate function may call the client itself, so it is an operation too.\<close>

definition mutate :: "('o \<Rightarrow> string \<times> string) \<Rightarrow> ('o, 'w) op \<Rightarrow> string \<times> string \<Rightarrow> ('o, 'w) op" where
  "mutate key_of f key obj w =
     (case f obj w of
        (Some e, o1, w1) \<Rightarrow> (Some e, o1, w1)
      | (None, o1, w1) \<Rightarrow>
          (if key_of o1 \<noteq> key
           then Some (Msg ''MutateFn cannot mutate object name and/or object namespace'') else None, o1, w1))"

text \<open>\<open>eq\<close> is \<^verbatim>\<open>equality.Semantic.DeepEqual\<close> at the object's type.\<close>

definition CreateOrUpdate ::
  "('o, 'w) kind_api \<Rightarrow> ('o \<Rightarrow> 'o \<Rightarrow> bool) \<Rightarrow> ('o, 'w) op \<Rightarrow> 'o \<Rightarrow> 'w \<Rightarrow>
   (OperationResult \<times> err option) \<times> 'o \<times> 'w" where
  "CreateOrUpdate api eq f obj w =
     (let key = k_Key api obj in
      case k_Get api obj w of
        (Some e, o1, w1) \<Rightarrow>
          if \<not> IsNotFound (Some e) then ((OperationResultNone, Some e), o1, w1)
          else (case mutate (k_Key api) f key o1 w1 of
                  (Some e, o2, w2) \<Rightarrow> ((OperationResultNone, Some e), o2, w2)
                | (None, o2, w2) \<Rightarrow>
                    (case k_Create api o2 w2 of
                       (Some e, o3, w3) \<Rightarrow> ((OperationResultNone, Some e), o3, w3)
                     | (None, o3, w3) \<Rightarrow> ((OperationResultCreated, None), o3, w3)))
      | (None, o1, w1) \<Rightarrow>
          (case mutate (k_Key api) f key o1 w1 of
             (Some e, o2, w2) \<Rightarrow> ((OperationResultNone, Some e), o2, w2)
           | (None, o2, w2) \<Rightarrow>
               if eq o1 o2 then ((OperationResultNone, None), o2, w2)
               else (case k_Update api o2 w2 of
                       (Some e, o3, w3) \<Rightarrow> ((OperationResultNone, Some e), o3, w3)
                     | (None, o3, w3) \<Rightarrow> ((OperationResultUpdated, None), o3, w3))))"

lemmas kube_defs [go_defs] = Exists_def write_if_exists_def UpdateIfExists_def PatchIfExists_def
  EnsureObjectDeleted_def mutate_def CreateOrUpdate_def

section \<open>What the clients of these helpers rely on\<close>

text \<open>A pure mutation, as an operation.\<close>

definition pure_op :: "('o \<Rightarrow> 'o) \<Rightarrow> ('o, 'w) op" where
  "pure_op g obj w = (None, g obj, w)"

lemma pure_op_apply [simp]: "pure_op g obj w = (None, g obj, w)"
  by (simp add: pure_op_def)

text \<open>
  A server that stores what it is sent: a write that succeeds is what the next get, of any object
  with the same key, reads; what a get reads depends on the key alone, and it changes nothing.
\<close>

definition reads_by_key :: "('o, 'w) kind_api \<Rightarrow> bool" where
  "reads_by_key api \<longleftrightarrow>
     (\<forall>obj w e o1 w1. k_Get api obj w = (e, o1, w1) \<longrightarrow> w1 = w \<and>
        (if e = None then k_Key api o1 = k_Key api obj \<and>
           (\<forall>q. k_Key api q = k_Key api obj \<longrightarrow> k_Get api q w = (None, o1, w))
         else o1 = obj))"

definition write_read :: "('o, 'w) kind_api \<Rightarrow> ('o, 'w) op \<Rightarrow> bool" where
  "write_read api write \<longleftrightarrow>
     (\<forall>obj w o1 w1. write obj w = (None, o1, w1) \<longrightarrow> o1 = obj \<and>
        (\<forall>q. k_Key api q = k_Key api obj \<longrightarrow> k_Get api q w1 = (None, obj, w1)))"

definition stores :: "('o, 'w) kind_api \<Rightarrow> bool" where
  "stores api \<longleftrightarrow> reads_by_key api \<and> write_read api (k_Create api) \<and> write_read api (k_Update api)"

lemma stores_get:
  assumes "stores api" and "k_Get api obj w = (e, o1, w1)"
  shows "w1 = w" and "k_Key api o1 = k_Key api obj"
    and "e = None \<Longrightarrow> k_Key api q = k_Key api obj \<Longrightarrow> k_Get api q w = (None, o1, w)"
proof -
  have r: "w1 = w \<and>
        (if e = None then k_Key api o1 = k_Key api obj \<and>
           (\<forall>q. k_Key api q = k_Key api obj \<longrightarrow> k_Get api q w = (None, o1, w))
         else o1 = obj)"
    using assms unfolding stores_def reads_by_key_def by blast
  from r show "w1 = w" by simp
  from r show "k_Key api o1 = k_Key api obj" by (cases "e = None") simp_all
  from r show "k_Get api q w = (None, o1, w)" if "e = None" "k_Key api q = k_Key api obj"
    using that by simp
qed

lemma stores_write:
  assumes "stores api" and "(if c then k_Update api else k_Create api) obj w = (None, o1, w1)"
  shows "o1 = obj" and "k_Key api q = k_Key api obj \<Longrightarrow> k_Get api q w1 = (None, obj, w1)"
proof -
  have "write_read api (if c then k_Update api else k_Create api)"
    using assms(1) by (simp add: stores_def)
  with assms(2) show "o1 = obj" and "k_Key api q = k_Key api obj \<Longrightarrow> k_Get api q w1 = (None, obj, w1)"
    unfolding write_read_def by blast+
qed

lemma stores_update:
  assumes "stores api" and "k_Update api obj w = (None, x, w')"
  shows "x = obj" and "k_Key api q = k_Key api obj \<Longrightarrow> k_Get api q w' = (None, obj, w')"
  using stores_write [OF assms(1), where c = True] assms(2) by simp_all

text \<open>With a pure mutation there is one write at most, of the mutated object.\<close>

lemma CreateOrUpdate_pure:
  "CreateOrUpdate api eq (pure_op g) obj w =
     (case k_Get api obj w of (e, x, u) \<Rightarrow>
        if e \<noteq> None \<and> \<not> IsNotFound e then ((OperationResultNone, e), x, u)
        else if k_Key api (g x) \<noteq> k_Key api obj then
          ((OperationResultNone, Some (Msg ''MutateFn cannot mutate object name and/or object namespace'')), g x, u)
        else if e = None \<and> eq x (g x) then ((OperationResultNone, None), g x, u)
        else (case (if e = None then k_Update api else k_Create api) (g x) u of (e', o3, w3) \<Rightarrow>
                ((if e' \<noteq> None then OperationResultNone
                  else if e = None then OperationResultUpdated else OperationResultCreated, e'), o3, w3)))"
proof -
  obtain e x u where get: "k_Get api obj w = (e, x, u)" by (cases "k_Get api obj w")
  obtain ec oc wc where c: "k_Create api (g x) u = (ec, oc, wc)" by (cases "k_Create api (g x) u")
  obtain eu ou wu where u: "k_Update api (g x) u = (eu, ou, wu)" by (cases "k_Update api (g x) u")
  show ?thesis
    by (cases e; cases ec; cases eu) (simp_all add: CreateOrUpdate_def mutate_def Let_def get c u)
qed

text \<open>
  The contract the reconcilers rely on: with an idempotent pure mutation that keeps the key, a
  run that succeeds leaves an object on the server that the mutation no longer changes, so
  that the next run, from any state of the local variable, makes no write.
\<close>

lemma CreateOrUpdate_settles:
  assumes srv: "stores api"
    and run: "CreateOrUpdate api (=) (pure_op g) obj w = ((r, None), o1, w1)"
    and idem: "\<And>x. g (g x) = g x"
    and key: "k_Key api q = k_Key api obj"
  shows "CreateOrUpdate api (=) (pure_op g) q w1 = ((OperationResultNone, None), o1, w1) \<and>
     g o1 = o1"
proof -
  obtain e x u where get: "k_Get api obj w = (e, x, u)" by (cases "k_Get api obj w")
  note u = stores_get(1) [OF srv get] and kx = stores_get(2) [OF srv get]
  have fin: "k_Get api q w1 = (None, o1, w1) \<and> g o1 = o1 \<and> k_Key api o1 = k_Key api q"
  proof (cases "e = None \<and> x = g x")
    case True
    then have "o1 = x" and "w1 = w"
      using run get u by (simp_all add: CreateOrUpdate_pure split: if_splits)
    then show ?thesis using stores_get(3) [OF srv get _ key] True kx key by simp
  next
    case False
    then have kg: "k_Key api (g x) = k_Key api obj" and
      wr: "(if e = None then k_Update api else k_Create api) (g x) w = (None, o1, w1)"
      using run get u by (simp_all add: CreateOrUpdate_pure split: if_splits prod.splits)
    then show ?thesis using stores_write [OF srv wr] key idem by simp
  qed
  then show ?thesis by (simp add: CreateOrUpdate_pure)
qed

text \<open>A run that succeeds ran the mutation on what the server has, and left its result there.\<close>

lemma CreateOrUpdate_succeeds:
  assumes srv: "stores api"
    and run: "CreateOrUpdate api eq f obj w = ((r, None), o1, w1)"
    and pure: "\<And>x e y u. f x w = (e, y, u) \<Longrightarrow> u = w"
  shows "\<exists>e x. k_Get api obj w = (e, x, w) \<and> (e = None \<or> IsNotFound e) \<and> f x w = (None, o1, w) \<and>
     (e = None \<and> eq x o1 \<and> w1 = w \<or> k_Get api obj w1 = (None, o1, w1))"
proof -
  obtain e x u where get: "k_Get api obj w = (e, x, u)" by (cases "k_Get api obj w")
  note u = stores_get(1) [OF srv get]
  obtain e2 y u2 where f: "f x w = (e2, y, u2)" by (cases "f x w")
  note u2 = pure [OF f]
  have ok: "e = None \<or> IsNotFound e" and e2: "e2 = None" and key: "k_Key api y = k_Key api obj" and
    wr: "(if e = None \<and> eq x y then (None, y, w) else (if e = None then k_Update api else k_Create api) y w) = (None, o1, w1)"
    using run get f u u2
    by (auto simp: CreateOrUpdate_def mutate_def Let_def split: option.splits if_splits prod.splits)
  show ?thesis
  proof (cases "e = None \<and> eq x y")
    case True
    then show ?thesis using wr get u f e2 u2 by auto
  next
    case False
    have w: "(if e = None then k_Update api else k_Create api) y w = (None, o1, w1)"
      using wr by (simp only: False if_False)
    have "o1 = y" and "k_Get api obj w1 = (None, y, w1)"
      using stores_write(1) [OF srv w] stores_write(2) [OF srv w, of obj] key by simp_all
    then show ?thesis using get u f e2 u2 ok by auto
  qed
qed

lemma CreateOrUpdate_written:
  assumes srv: "stores api"
    and run: "CreateOrUpdate api (=) f obj w = ((r, None), o1, w1)"
    and pure: "\<And>x e y u. f x w = (e, y, u) \<Longrightarrow> u = w"
  shows "\<exists>x e y. k_Key api x = k_Key api obj \<and> k_Get api x w = (e, y, w) \<and> f x w = (None, o1, w) \<and>
     k_Get api obj w1 = (None, o1, w1)"
proof -
  have "\<exists>e x. k_Get api obj w = (e, x, w) \<and> (e = None \<or> IsNotFound e) \<and> f x w = (None, o1, w) \<and>
     (e = None \<and> x = o1 \<and> w1 = w \<or> k_Get api obj w1 = (None, o1, w1))"
    by (rule CreateOrUpdate_succeeds [OF srv run]) (rule pure)
  then obtain e x where g: "k_Get api obj w = (e, x, w)" and "f x w = (None, o1, w)"
    and "k_Get api obj w1 = (None, o1, w1)" by auto
  moreover obtain e1 y u where "k_Get api x w = (e1, y, u)" by (metis prod.exhaust)
  ultimately show ?thesis using stores_get(2) [OF srv g] stores_get(1) [OF srv] by blast
qed

section \<open>\<^verbatim>\<open>wait.PollUntilContextTimeout\<close>\<close>

text \<open>
  The condition is called at every tick of a timer until it answers, it fails or the deadline has
  passed (\<^verbatim>\<open>immediate\<close> is false in every call here). The deadline and the clock are outside the model:
  \<open>ticks\<close> is how often the timer comes first, so that a statement about every number of ticks is one
  about every clock.
\<close>

definition DeadlineExceeded :: err where
  "DeadlineExceeded = Msg ''context deadline exceeded''"

fun PollUntilContextTimeout :: "nat \<Rightarrow> ('s \<Rightarrow> (bool \<times> err option) \<times> 's) \<Rightarrow> 's \<Rightarrow> err option \<times> 's" where
  "PollUntilContextTimeout 0 condition s = (Some DeadlineExceeded, s)"
| "PollUntilContextTimeout (Suc ticks) condition s =
     (case condition s of
        ((ok, Some e), s') \<Rightarrow> (Some e, s')
      | ((True, None), s') \<Rightarrow> (None, s')
      | ((False, None), s') \<Rightarrow> PollUntilContextTimeout ticks condition s')"

text \<open>A poll that succeeds ended with a call of the condition that answered yes.\<close>

lemma Poll_answered:
  assumes "PollUntilContextTimeout ticks condition s = (None, t)"
  obtains u where "condition u = ((True, None), t)"
  using assms
proof (induction ticks arbitrary: s)
  case 0
  then show ?case by simp
next
  case (Suc ticks)
  then show ?case by (auto split: prod.splits option.splits bool.splits)
qed

text \<open>Where the condition never fails, only the deadline ends a poll without an answer.\<close>

lemma Poll_deadline:
  assumes "PollUntilContextTimeout ticks condition s = (Some e, t)"
    and "\<And>u ok e' v. condition u \<noteq> ((ok, Some e'), v)"
  shows "e = DeadlineExceeded"
  using assms(1)
proof (induction ticks arbitrary: s)
  case 0
  then show ?case by simp
next
  case (Suc ticks)
  then show ?case using assms(2) by (auto split: prod.splits option.splits bool.splits)
qed

text \<open>What every call of the condition keeps, the poll keeps.\<close>

lemma Poll_invariant:
  assumes "PollUntilContextTimeout ticks condition s = (e, t)" and "P s"
    and "\<And>u r v. P u \<Longrightarrow> condition u = (r, v) \<Longrightarrow> P v"
  shows "P t"
  using assms(1,2)
proof (induction ticks arbitrary: s)
  case 0
  then show ?case by simp
next
  case (Suc ticks)
  then show ?case using assms(3) by (auto split: prod.splits option.splits bool.splits)
qed

text \<open>A server that keeps its objects apart: writing one of them changes no other.\<close>

definition seen :: "('o, 'w) kind_api \<Rightarrow> 'o \<Rightarrow> 'w \<Rightarrow> err option \<times> 'o" where
  "seen api q w = (case k_Get api q w of (e, x, u) \<Rightarrow> (e, x))"

definition frames :: "('o, 'w) kind_api \<Rightarrow> bool" where
  "frames api \<longleftrightarrow>
     (\<forall>obj q w e o1 w1. (k_Create api obj w = (e, o1, w1) \<or> k_Update api obj w = (e, o1, w1)) \<longrightarrow>
        k_Key api q \<noteq> k_Key api obj \<longrightarrow> seen api q w1 = seen api q w)"

section \<open>Servers to evaluate the definitions on\<close>

text \<open>A server that holds one object of a kind.\<close>

definition sample_api :: "('o \<Rightarrow> string \<times> string) \<Rightarrow> ('o, 'o option) kind_api" where
  "sample_api key = \<lparr>
     k_Get = (\<lambda>obj w. case w of Some x \<Rightarrow> if key x = key obj then (None, x, w) else (Some (ApiErr NotFound ''''), obj, w)
                     | None \<Rightarrow> (Some (ApiErr NotFound ''''), obj, w)),
     k_Create = (\<lambda>obj w. (None, obj, Some obj)), k_Update = (\<lambda>obj w. (None, obj, Some obj)),
     k_Patch = (\<lambda>obj w. (None, obj, Some obj)), k_Delete = (\<lambda>obj w. (None, None)), k_Key = key\<rparr>"

lemma stores_sample_api: "stores (sample_api key)"
  by (auto simp: stores_def reads_by_key_def write_read_def sample_api_def split: option.splits if_splits)

definition no_api :: "('o, 'w) kind_api" where
  "no_api = \<lparr>k_Get = (\<lambda>obj w. (Some (Msg ''unavailable''), obj, w)), k_Create = (\<lambda>obj w. (None, obj, w)),
     k_Update = (\<lambda>obj w. (None, obj, w)), k_Patch = (\<lambda>obj w. (None, obj, w)),
     k_Delete = (\<lambda>obj w. (None, w)), k_Key = (\<lambda>obj. ('''', ''''))\<rparr>"

definition empty_api :: "('o, 'w) kind_api" where
  "empty_api = no_api\<lparr>k_Get := (\<lambda>obj w. (Some (ApiErr NotFound ''''), obj, w))\<rparr>"

text \<open>A server that has every object asked for, as \<open>f\<close> makes it, and accepts every write.\<close>

definition found_api :: "('o \<Rightarrow> 'o) \<Rightarrow> ('o, 'w) kind_api" where
  "found_api f = \<lparr>k_Get = (\<lambda>obj w. (None, f obj, w)), k_Create = (\<lambda>obj w. (None, obj, w)), k_Update = (\<lambda>obj w. (None, obj, w)),
     k_Patch = (\<lambda>obj w. (None, obj, w)), k_Delete = (\<lambda>obj w. (None, w)), k_Key = (\<lambda>obj. ('''', ''''))\<rparr>"

lemma CreateOrUpdate_found:
  "CreateOrUpdate (found_api f) eq (pure_op g) obj w = ((if eq (f obj) (g (f obj)) then OperationResultNone else OperationResultUpdated, None), g (f obj), w)"
  by (simp add: CreateOrUpdate_pure found_api_def)

lemma found_api_simps [simp]: "k_Get (found_api f) obj w = (None, f obj, w)" "k_Update (found_api f) obj w = (None, obj, w)"
  "k_Patch (found_api f) obj w = (None, obj, w)" "k_Delete (found_api f) obj w = (None, w)"
  by (simp_all add: found_api_def)

text \<open>A server that holds objects by their keys.\<close>

definition table_api :: "('o \<Rightarrow> string \<times> string) \<Rightarrow> ('o, string \<times> string \<Rightarrow> 'o option) kind_api" where
  "table_api key = \<lparr>
     k_Get = (\<lambda>obj w. case w (key obj) of Some x \<Rightarrow> if key x = key obj then (None, x, w) else (Some (ApiErr NotFound ''''), obj, w)
                     | None \<Rightarrow> (Some (ApiErr NotFound ''''), obj, w)),
     k_Create = (\<lambda>obj w. (None, obj, w(key obj \<mapsto> obj))), k_Update = (\<lambda>obj w. (None, obj, w(key obj \<mapsto> obj))),
     k_Patch = (\<lambda>obj w. (None, obj, w(key obj \<mapsto> obj))), k_Delete = (\<lambda>obj w. (None, w(key obj := None))), k_Key = key\<rparr>"

lemma stores_table_api: "stores (table_api key)"
  by (auto simp: stores_def reads_by_key_def write_read_def table_api_def split: option.splits if_splits)

lemma frames_table_api: "frames (table_api key)"
  by (auto simp: frames_def seen_def table_api_def split: option.splits)

end
