(* ===== verification/Addon.thy ===== *)
theory Addon
  imports Kube
begin

text \<open>
  How the operator reads its add-on (\<^verbatim>\<open>pkg/addon\<close>): the parameters secret
  (\<^verbatim>\<open>parameters.go\<close>), the subscription that installed the operator and the way it is run
  (\<^verbatim>\<open>operator_run.go\<close>), the removal of the operator itself (\<^verbatim>\<open>uninstall.go\<close>), and the custom SMTP
  values that come with the add-on parameters (\<^verbatim>\<open>pkg/resources/custom-smtp\<close>).
  The Kubernetes client is a record of its calls; reading is a function of the server's
  state \<open>'w\<close>, writing gives the new state.
\<close>

section \<open>The client calls\<close>

record Subscription =
  sub_Name :: string
  sub_Labels :: "(string, string) gomap"
  sub_InstalledCSV :: string
  sub_CatalogSource :: string
  sub_CatalogSourceNamespace :: string

type_synonym secret_data = "(string, string) gomap"

record 'w addon_client =
  ListSubscriptions :: "string \<Rightarrow> 'w \<Rightarrow> err + Subscription list"
  GetSubscriptionObj :: "string \<Rightarrow> string \<Rightarrow> 'w \<Rightarrow> err + Subscription"
  GetSecretData :: "string \<Rightarrow> string \<Rightarrow> 'w \<Rightarrow> err + secret_data"
  GetCSV :: "string \<Rightarrow> string \<Rightarrow> 'w \<Rightarrow> err + string"
  DeleteCSV :: "string \<Rightarrow> string \<Rightarrow> 'w \<Rightarrow> err option \<times> 'w"
  GetNamespaceLabels :: "string \<Rightarrow> 'w \<Rightarrow> err + (string, string) gomap"
  GetDeployment :: "string \<Rightarrow> string \<Rightarrow> 'w \<Rightarrow> err option"
  GetCatalogSourceObj :: "string \<Rightarrow> string \<Rightarrow> 'w \<Rightarrow> err + string"

section \<open>Parameters (\<^verbatim>\<open>parameters.go\<close>)\<close>

abbreviation QuotaParamName :: string where "QuotaParamName \<equiv> ''addon-managed-api-service''"
abbreviation TrialQuotaParamName :: string where "TrialQuotaParamName \<equiv> ''trial-quota''"
abbreviation ManagedAPIService :: string where "ManagedAPIService \<equiv> ''managed-api-service''"
abbreviation DefaultSecretName :: string where "DefaultSecretName \<equiv> ''addon-managed-api-service-parameters''"

text \<open>
  The regular expression \<^verbatim>\<open>^addon-*\<close>: the star applies to the hyphen, so every name that begins
  with \<open>addon\<close> matches.
\<close>

definition hasAddonPrefix :: "string \<Rightarrow> bool" where
  "hasAddonPrefix s \<longleftrightarrow> HasPrefix s ''addon''"

definition parametersSecretName :: "Subscription list \<Rightarrow> string" where
  "parametersSecretName subs =
     (case subs of
        [s] \<Rightarrow> (let n = sub_Name s @ ''-parameters'' in
                if \<not> hasAddonPrefix n then ''addon-'' @ n else n)
      | _ \<Rightarrow> DefaultSecretName)"

definition GetAddonParametersSecret :: "'w addon_client \<Rightarrow> string \<Rightarrow> 'w \<Rightarrow> err + secret_data" where
  "GetAddonParametersSecret cl namespace w =
     (case ListSubscriptions cl namespace w of
        Inl e \<Rightarrow> Inl e
      | Inr subs \<Rightarrow>
          if length subs > 1 then
            Inl (Msg (''received '' @ Itoa (int (length subs)) @ '' subscriptions in '' @ namespace
                   @ '' namespace. Expected one''))
          else GetSecretData cl namespace (parametersSecretName subs) w)"

text \<open>The value of a parameter: an error, or the value if the secret has the key.\<close>

definition GetParameter :: "'w addon_client \<Rightarrow> string \<Rightarrow> string \<Rightarrow> 'w \<Rightarrow> err + string option" where
  "GetParameter cl namespace parameter w =
     (case GetAddonParametersSecret cl namespace w of
        Inl e \<Rightarrow> Inl e
      | Inr d \<Rightarrow> Inr (map_of d parameter))"

definition GetStringParameter :: "'w addon_client \<Rightarrow> string \<Rightarrow> string \<Rightarrow> 'w \<Rightarrow> string \<times> bool \<times> err option" where
  "GetStringParameter cl namespace parameter w =
     (case GetParameter cl namespace parameter w of
        Inl e \<Rightarrow> ('''', False, Some e)
      | Inr None \<Rightarrow> ('''', False, None)
      | Inr (Some v) \<Rightarrow> (v, True, None))"

definition GetIntParameter :: "'w addon_client \<Rightarrow> string \<Rightarrow> string \<Rightarrow> 'w \<Rightarrow> int \<times> bool \<times> err option" where
  "GetIntParameter cl namespace parameter w =
     (case GetStringParameter cl namespace parameter w of
        (value, ok, e) \<Rightarrow>
          if e \<noteq> None \<or> \<not> ok then (0, ok, e)
          else (case Atoi value of
                  Some i \<Rightarrow> (i, ok, None)
                | None \<Rightarrow> (0, ok, Some (Msg (''strconv.Atoi: parsing '' @ value)))))"

definition GetBoolParameter :: "'w addon_client \<Rightarrow> string \<Rightarrow> string \<Rightarrow> 'w \<Rightarrow> bool \<times> bool \<times> err option" where
  "GetBoolParameter cl namespace parameter w =
     (case GetStringParameter cl namespace parameter w of
        (value, ok, e) \<Rightarrow>
          if e \<noteq> None \<or> \<not> ok then (False, ok, e)
          else (case ParseBool value of
                  Some b \<Rightarrow> (b, ok, None)
                | None \<Rightarrow> (False, ok, Some (Msg (''strconv.ParseBool: parsing '' @ value)))))"

definition ExistsParameterByInstallation :: "'w addon_client \<Rightarrow> RHMI \<Rightarrow> string \<Rightarrow> 'w \<Rightarrow> err + bool" where
  "ExistsParameterByInstallation cl install parameter w =
     map_sum id (\<lambda>v. v \<noteq> None) (GetParameter cl (Namespace install) parameter w)"

section \<open>How the operator is run (\<^verbatim>\<open>operator_run.go\<close>)\<close>

type_synonym OperatorRunType = string

abbreviation AddonRunType :: OperatorRunType where "AddonRunType \<equiv> ''Addon''"
abbreviation OLMRunType :: OperatorRunType where "OLMRunType \<equiv> ''OLM''"
abbreviation ClusterRunType :: OperatorRunType where "ClusterRunType \<equiv> ''Cluster''"
abbreviation LocalRunType :: OperatorRunType where "LocalRunType \<equiv> ''Local''"

definition runTypesBySubscription :: "(string, OperatorRunType) gomap" where
  "runTypesBySubscription =
     [(''addon-'' @ ManagedAPIService, AddonRunType), (ManagedAPIService, OLMRunType),
      (''integreatly'', OLMRunType)]"

abbreviation olm_label :: string where
  "olm_label \<equiv> ''operators.coreos.com/managed-api-service.redhat-rhoam-operator''"

definition GetRhoamOperatorSubscription :: "'w addon_client \<Rightarrow> string \<Rightarrow> 'w \<Rightarrow> err + Subscription option" where
  "GetRhoamOperatorSubscription cl ns w =
     map_sum id (List.find (\<lambda>s. map_of (sub_Labels s) olm_label \<noteq> None)) (ListSubscriptions cl ns w)"

text \<open>The lookup by the known names, in the order \<open>names\<close> the runtime ranges over the map in.\<close>

fun subscription_by_name :: "'w addon_client \<Rightarrow> string list \<Rightarrow> string \<Rightarrow> 'w \<Rightarrow> err + Subscription option" where
  "subscription_by_name cl [] ns w = Inr None"
| "subscription_by_name cl (n # names) ns w =
     (case GetSubscriptionObj cl ns n w of
        Inl e \<Rightarrow> if IsNotFound (Some e) then subscription_by_name cl names ns w else Inl e
      | Inr s \<Rightarrow> Inr (Some s))"

definition GetSubscription :: "'w addon_client \<Rightarrow> string list \<Rightarrow> RHMI \<Rightarrow> 'w \<Rightarrow> err + Subscription option" where
  "GetSubscription cl names installation w =
     (case subscription_by_name cl names (Namespace installation) w of
        Inl e \<Rightarrow> Inl e
      | Inr (Some s) \<Rightarrow> Inr (Some s)
      | Inr None \<Rightarrow> GetRhoamOperatorSubscription cl (Namespace installation) w)"

definition IsClusterRunType :: "'w addon_client \<Rightarrow> RHMI \<Rightarrow> 'w \<Rightarrow> err + bool" where
  "IsClusterRunType cl installation w =
     Exists (GetDeployment cl (Namespace installation) ''rhoam-operator'' w)"

definition InferOperatorRunType :: "'w addon_client \<Rightarrow> string list \<Rightarrow> RHMI \<Rightarrow> 'w \<Rightarrow> err + OperatorRunType" where
  "InferOperatorRunType cl names installation w =
     (case GetSubscription cl names installation w of
        Inl e \<Rightarrow> Inl e
      | Inr (Some s) \<Rightarrow> Inr (gget '''' runTypesBySubscription (sub_Name s))
      | Inr None \<Rightarrow>
          map_sum id (\<lambda>isCluster. if isCluster then ClusterRunType else LocalRunType)
            (IsClusterRunType cl installation w))"

definition OperatorInstalledViaOLM :: "'w addon_client \<Rightarrow> string list \<Rightarrow> RHMI \<Rightarrow> 'w \<Rightarrow> err + bool" where
  "OperatorInstalledViaOLM cl names installation w =
     map_sum id (\<lambda>t. t = OLMRunType) (InferOperatorRunType cl names installation w)"

definition OperatorIsHiveManaged :: "'w addon_client \<Rightarrow> RHMI \<Rightarrow> 'w \<Rightarrow> err + bool" where
  "OperatorIsHiveManaged cl installation w =
     (case GetNamespaceLabels cl (Namespace installation) w of
        Inl e \<Rightarrow> Inl (Wrap (''could not retrieve '' @ Namespace installation @ '' namespace'') e)
      | Inr labels \<Rightarrow> Inr (map_of labels ''rhoam.addon.install/managed'' = Some ''true''))"

definition GetCatalogSource :: "'w addon_client \<Rightarrow> string list \<Rightarrow> RHMI \<Rightarrow> 'w \<Rightarrow> err + string option" where
  "GetCatalogSource cl names installation w =
     (case GetSubscription cl names installation w of
        Inl e \<Rightarrow> Inl e
      | Inr None \<Rightarrow> Inr None
      | Inr (Some s) \<Rightarrow>
          map_sum id Some (GetCatalogSourceObj cl (sub_CatalogSourceNamespace s) (sub_CatalogSource s) w))"

section \<open>Removing the operator (\<^verbatim>\<open>uninstall.go\<close>)\<close>

definition UninstallOperator :: "'w addon_client \<Rightarrow> string list \<Rightarrow> RHMI \<Rightarrow> 'w \<Rightarrow> err option \<times> 'w" where
  "UninstallOperator cl names installation w =
     (case GetSubscription cl names installation w of
        Inl e \<Rightarrow> (Some e, w)
      | Inr None \<Rightarrow> (None, w)
      | Inr (Some s) \<Rightarrow>
          (case GetCSV cl (Namespace installation) (sub_InstalledCSV s) w of
             Inl e \<Rightarrow> if \<not> IsNotFound (Some e) then (Some e, w) else (None, w)
           | Inr csv \<Rightarrow> DeleteCSV cl (Namespace installation) csv w))"

datatype admission = Allowed string | Errored int err

text \<open>The deletion webhook: decoding the request and building the client can fail.\<close>

definition deleteRHMIHandler_Handle ::
  "'w addon_client \<Rightarrow> string list \<Rightarrow> err + RHMI \<Rightarrow> err option \<Rightarrow> 'w \<Rightarrow> admission \<times> 'w" where
  "deleteRHMIHandler_Handle cl names decoded client_err w =
     (case decoded of
        Inl e \<Rightarrow> (Errored 400 e, w)
      | Inr rhmi \<Rightarrow>
          if Finalizers rhmi \<noteq> [] then (Allowed ''RHMI CR has finalizers'', w)
          else (case client_err of
                  Some e \<Rightarrow> (Errored 500 e, w)
                | None \<Rightarrow>
                    (case UninstallOperator cl names rhmi w of
                       (Some e, w') \<Rightarrow> (Errored 500 e, w')
                     | (None, w') \<Rightarrow> (Allowed ''Operator Uninstalled'', w'))))"

section \<open>Custom SMTP (\<^verbatim>\<open>custom-smtp.go\<close>)\<close>

datatype ValidationResponse = Valid | Partial | Blank

record CustomSmtpValues =
  FromAddress :: string
  Address :: string
  Password :: string
  Port :: string
  Username :: string

definition GetCustomAddonValues :: "'w addon_client \<Rightarrow> string \<Rightarrow> 'w \<Rightarrow> err + CustomSmtpValues" where
  "GetCustomAddonValues cl namespace w =
     (case GetAddonParametersSecret cl namespace w of
        Inl e \<Rightarrow> Inl e
      | Inr d \<Rightarrow> Inr \<lparr>FromAddress = gget '''' d ''custom-smtp-from_address'',
                      Address = gget '''' d ''custom-smtp-address'',
                      Password = gget '''' d ''custom-smtp-password'',
                      Port = gget '''' d ''custom-smtp-port'',
                      Username = gget '''' d ''custom-smtp-username''\<rparr>)"

text \<open>The two flags the checks of the five fields set, one after the other.\<close>

definition check_field :: "string \<Rightarrow> bool \<times> bool \<Rightarrow> bool \<times> bool" where
  "check_field f = (\<lambda>(valid, partial). if f \<noteq> '''' then (True, partial) else (valid, True))"

definition ParameterValidation :: "CustomSmtpValues \<Rightarrow> ValidationResponse" where
  "ParameterValidation smtp =
     (let (valid, partial) =
        fold check_field [Port smtp, Address smtp, Username smtp, FromAddress smtp, Password smtp]
          (False, False)
      in if valid \<and> \<not> partial then Valid else if valid \<and> partial then Partial else Blank)"

definition ParameterErrors :: "CustomSmtpValues \<Rightarrow> string" where
  "ParameterErrors smtp =
     (if Port smtp = '''' then ''Port, '' else '''') @
     (if Address smtp = '''' then ''Address, '' else '''') @
     (if Username smtp = '''' then ''username, '' else '''') @
     (if FromAddress smtp = '''' then ''From_Address, '' else '''') @
     (if Password smtp = '''' then ''Password, '' else '''')"

text \<open>The data of the \<open>custom-smtp\<close> secret after the mutate function of \<^verbatim>\<open>CreateOrUpdateCustomSMTPSecret\<close>.\<close>

definition custom_smtp_data :: "CustomSmtpValues \<Rightarrow> secret_data option \<Rightarrow> secret_data" where
  "custom_smtp_data smtp data =
     gset ''username'' (Username smtp) (gset ''port'' (Port smtp)
       (gset ''password'' (Password smtp) (gset ''host'' (Address smtp)
         (gset ''from_address'' (FromAddress smtp) (case data of None \<Rightarrow> [] | Some d \<Rightarrow> d)))))"

lemmas addon_defs [go_defs] = hasAddonPrefix_def parametersSecretName_def
  GetAddonParametersSecret_def GetParameter_def GetStringParameter_def GetIntParameter_def
  GetBoolParameter_def ExistsParameterByInstallation_def

section \<open>Lemmas\<close>

lemma subscription_by_name_Some:
  assumes "subscription_by_name cl names ns w = Inr (Some s)"
  shows "\<exists>n \<in> set names. GetSubscriptionObj cl ns n w = Inr s"
  using assms by (induction names) (auto split: sum.splits if_splits)

lemma subscription_by_name_None:
  "subscription_by_name cl names ns w = Inr None \<longleftrightarrow>
     (\<forall>n \<in> set names. \<exists>e. GetSubscriptionObj cl ns n w = Inl e \<and> IsNotFound (Some e))"
  by (induction names) (auto split: sum.splits)

text \<open>Where one name is found and every other is missing, the order of the names is irrelevant.\<close>

lemma subscription_by_name_unique:
  assumes "n \<in> set names" and "GetSubscriptionObj cl ns n w = Inr s"
    and "\<And>m. m \<in> set names \<Longrightarrow> m \<noteq> n \<Longrightarrow> \<exists>e. GetSubscriptionObj cl ns m w = Inl e \<and> IsNotFound (Some e)"
  shows "subscription_by_name cl names ns w = Inr (Some s)"
  using assms
proof (induction names)
  case (Cons m names)
  show ?case
  proof (cases "m = n")
    case True
    then show ?thesis using Cons.prems by simp
  next
    case False
    then obtain e where "GetSubscriptionObj cl ns m w = Inl e" "IsNotFound (Some e)"
      using Cons.prems(3) [of m] by auto
    then show ?thesis using Cons False by auto
  qed
qed simp

lemma ParameterValidation_Valid:
  "ParameterValidation smtp = Valid \<longleftrightarrow> ParameterErrors smtp = ''''"
  by (auto simp: ParameterValidation_def ParameterErrors_def check_field_def)

section \<open>Properties\<close>

text \<open>
  A subscription that is found only by the label OLM puts on it, because it has none of the
  known names, has no run type: the operator then counts as not installed through OLM, and would
  create its own resource, although the subscription proves the contrary.
\<close>

theorem labelled_subscription_not_OLM:
  assumes names: "subscription_by_name cl names (Namespace inst) w = Inr None"
    and subs: "ListSubscriptions cl (Namespace inst) w = Inr [s]"
    and label: "map_of (sub_Labels s) olm_label \<noteq> None"
    and unknown: "map_of runTypesBySubscription (sub_Name s) = None"
  shows "GetSubscription cl names inst w = Inr (Some s) \<and> OperatorInstalledViaOLM cl names inst w = Inr False"
proof -
  have "GetSubscription cl names inst w = Inr (Some s)"
    using names subs label by (simp add: GetSubscription_def GetRhoamOperatorSubscription_def)
  then show ?thesis
    using unknown by (simp add: OperatorInstalledViaOLM_def InferOperatorRunType_def gget_def)
qed

definition labelled_client :: "unit addon_client" where
  "labelled_client = \<lparr>ListSubscriptions = (\<lambda>ns w. Inr [\<lparr>sub_Name = ''rhoam-sub'', sub_Labels = [(olm_label, '''')],
        sub_InstalledCSV = '''', sub_CatalogSource = '''', sub_CatalogSourceNamespace = ''''\<rparr>]),
     GetSubscriptionObj = (\<lambda>ns n w. Inl (ApiErr NotFound '''')),
     GetSecretData = (\<lambda>ns n w. Inr []), GetCSV = (\<lambda>ns n w. Inr n), DeleteCSV = (\<lambda>ns n w. (None, w)),
     GetNamespaceLabels = (\<lambda>ns w. Inr []), GetDeployment = (\<lambda>ns n w. None),
     GetCatalogSourceObj = (\<lambda>ns n w. Inr n)\<rparr>"

theorem labelled_subscription_not_OLM_witness:
  "OperatorInstalledViaOLM labelled_client (map fst runTypesBySubscription) zero_rhmi () = Inr False"
  by (rule labelled_subscription_not_OLM [where s = "\<lparr>sub_Name = ''rhoam-sub'', sub_Labels = [(olm_label, '''')],
        sub_InstalledCSV = '''', sub_CatalogSource = '''', sub_CatalogSourceNamespace = ''''\<rparr>", THEN conjunct2])
    (simp_all add: labelled_client_def subscription_by_name_None runTypesBySubscription_def)

end
