(* ===== verification/Finalizers.thy ===== *)
theory Finalizers
  imports RHMI_Types
begin

text \<open>
  Finalizers of the RHMI resource (\<^verbatim>\<open>pkg/resources/finalizers.go\<close>) and the string slice helpers
  they rest on. A Go slice is a window on a backing array: \<^verbatim>\<open>Remove\<close> shifts the array while it
  ranges over it, so its model keeps array and length apart, and a slice expression out of
  bounds (a run-time panic) is \<open>None\<close>. The API server is a parameter: an update takes the
  object and the server's state \<open>'w\<close> and gives the error, the object as the call leaves it in
  memory, and the server's state.
\<close>

section \<open>String slices\<close>

text \<open>\<^verbatim>\<open>Contains\<close>.\<close>

fun Contains :: "string list \<Rightarrow> string \<Rightarrow> bool" where
  "Contains [] s = False"
| "Contains (v # vs) s = (if v = s then True else Contains vs s)"

lemma Contains_iff [simp]: "Contains xs s \<longleftrightarrow> s \<in> set xs"
  by (induction xs) auto

text \<open>
  \<^verbatim>\<open>Remove\<close>: the loop runs over the indices of the slice as it was (\<open>n\<close> of them) and reads each
  element from the array as it is; \<^verbatim>\<open>append(list[:i], list[i+1:]...)\<close> moves the elements
  \<open>i + 1 .. len - 1\<close> one place down and leaves the rest of the array as it was.
\<close>

function Remove_loop :: "nat \<Rightarrow> nat \<Rightarrow> string \<Rightarrow> string list \<Rightarrow> nat \<Rightarrow> string list option" where
  "Remove_loop n i s arr len =
     (if i < n then
        (if arr ! i = s then
           (if i + 1 \<le> len then
              Remove_loop n (i + 1) s
                (take i arr @ take (len - (i + 1)) (drop (i + 1) arr) @ drop (len - 1) arr) (len - 1)
            else None)
         else Remove_loop n (i + 1) s arr len)
      else Some (take len arr))"
  by pat_completeness auto
termination
  by (relation "measure (\<lambda>(n, i, s, arr, len). n - i)") auto

declare Remove_loop.simps [simp del]

definition Remove :: "string list \<Rightarrow> string \<Rightarrow> string list option" where
  "Remove xs s = Remove_loop (length xs) 0 s xs (length xs)"

text \<open>\<^verbatim>\<open>Replace\<close> overwrites in place.\<close>

fun Replace :: "string list \<Rightarrow> string \<Rightarrow> string \<Rightarrow> string list" where
  "Replace [] old new = []"
| "Replace (v # vs) old new = (if v = old then new else v) # Replace vs old new"

lemma Replace_eq_map: "Replace xs old new = map (\<lambda>v. if v = old then new else v) xs"
  by (induction xs) auto

lemma length_Replace [simp]: "length (Replace xs old new) = length xs"
  by (simp add: Replace_eq_map)

lemma set_Replace:
  "set (Replace xs old new) = (if old \<in> set xs then insert new (set xs - {old}) else set xs)"
  by (induction xs) auto

lemma distinct_Replace: "distinct xs \<Longrightarrow> new \<notin> set xs \<Longrightarrow> distinct (Replace xs old new)"
  by (induction xs) (auto simp: set_Replace)

text \<open>Where the string does not occur at or after the index, the loop changes nothing.\<close>

lemma Remove_loop_absent:
  assumes "\<And>j. i \<le> j \<Longrightarrow> j < n \<Longrightarrow> arr ! j \<noteq> s"
  shows "Remove_loop n i s arr len = Some (take len arr)"
  using assms
proof (induction "n - i" arbitrary: i)
  case 0
  then show ?case by (simp add: Remove_loop.simps)
next
  case (Suc d)
  then have "i < n" by simp
  then have "Remove_loop n i s arr len = Remove_loop n (i + 1) s arr len"
    using Suc.prems [of i] by (simp add: Remove_loop.simps [of n i])
  also have "\<dots> = Some (take len arr)"
    using Suc.hyps(1) [of "i + 1"] Suc.hyps(2) Suc.prems by simp
  finally show ?case .
qed

text \<open>Indices before the first occurrence are skipped.\<close>

lemma Remove_loop_skip:
  assumes "\<And>j. i \<le> j \<Longrightarrow> j < k \<Longrightarrow> arr ! j \<noteq> s" and "i \<le> k" and "k \<le> n"
  shows "Remove_loop n i s arr len = Remove_loop n k s arr len"
  using assms
proof (induction "k - i" arbitrary: i)
  case 0
  then show ?case by simp
next
  case (Suc d)
  then have "i < k" by simp
  then have "Remove_loop n i s arr len = Remove_loop n (i + 1) s arr len"
    using Suc.prems by (simp add: Remove_loop.simps [of n i])
  also have "\<dots> = Remove_loop n k s arr len"
    using Suc.hyps(1) [of "i + 1"] Suc.hyps(2) Suc.prems \<open>i < k\<close> by simp
  finally show ?case .
qed

text \<open>
  The array after the first removal: the tail moved down by one, its last element kept twice.
\<close>

lemma Remove_first:
  assumes "s \<notin> set ys"
  shows "Remove (ys @ s # zs) s =
     Remove_loop (length ys + 1 + length zs) (length ys + 1) s
       (ys @ zs @ [last (s # zs)]) (length ys + length zs)"
proof -
  let ?xs = "ys @ s # zs" and ?n = "length ys + 1 + length zs"
  have "Remove ?xs s = Remove_loop ?n (length ys) s ?xs ?n"
    unfolding Remove_def using assms
    by (subst Remove_loop_skip [where k = "length ys"]) (auto simp: nth_append)
  also have "\<dots> = Remove_loop ?n (length ys + 1) s
       (ys @ zs @ drop (length zs) (s # zs)) (length ys + length zs)"
    by (subst Remove_loop.simps) simp
  also have "drop (length zs) (s # zs) = [last (s # zs)]"
    by (induction zs arbitrary: s) auto
  finally show ?thesis .
qed

lemma Remove_notin: "s \<notin> set xs \<Longrightarrow> Remove xs s = Some xs"
  unfolding Remove_def by (subst Remove_loop_absent) (auto simp: in_set_conv_nth)

lemma Remove_once:
  assumes "s \<notin> set ys" and "s \<notin> set zs"
  shows "Remove (ys @ s # zs) s = Some (ys @ zs)"
proof -
  have "(ys @ zs @ [last (s # zs)]) ! j \<noteq> s"
    if "length ys + 1 \<le> j" "j < length ys + 1 + length zs" for j
  proof -
    from that have "(ys @ zs @ [last (s # zs)]) ! j \<in> set zs"
    proof (cases "j - length ys < length zs")
      case True
      then show ?thesis using that by (simp add: nth_append)
    next
      case False
      with that have "j - length ys = length zs" and "zs \<noteq> []" by auto
      then show ?thesis using that by (simp add: nth_append)
    qed
    then show ?thesis using assms(2) by auto
  qed
  then show ?thesis using assms(1) by (simp add: Remove_first Remove_loop_absent)
qed

text \<open>On a list without repetitions \<^verbatim>\<open>Remove\<close> is deletion of the element.\<close>

lemma Remove_distinct:
  assumes "distinct xs"
  shows "Remove xs s = Some (filter (\<lambda>v. v \<noteq> s) xs)"
proof (cases "s \<in> set xs")
  case False
  then have "filter (\<lambda>v. v \<noteq> s) xs = xs" by (induction xs) auto
  then show ?thesis using False by (simp add: Remove_notin)
next
  case True
  then obtain ys zs where xs: "xs = ys @ s # zs" by (meson split_list)
  with assms have ys: "s \<notin> set ys" and zs: "s \<notin> set zs" by auto
  have "filter (\<lambda>v. v \<noteq> s) ys = ys" and "filter (\<lambda>v. v \<noteq> s) zs = zs"
    using ys zs by (auto intro!: filter_True)
  then have "filter (\<lambda>v. v \<noteq> s) xs = ys @ zs" by (simp add: xs)
  then show ?thesis using Remove_once [OF ys zs] xs by simp
qed

text \<open>The string repeated at the end: the second match slices past the shortened length.\<close>

lemma Remove_repeated_end:
  assumes "s \<notin> set ys"
  shows "Remove (ys @ [s, s]) s = None"
  using assms Remove_first [of s ys "[s]"] by (simp add: Remove_loop.simps nth_append)

section \<open>Slices as finite sets\<close>

text \<open>
  What the controllers use string slices for: sets of finalizers. The provider promises that
  membership, addition, removal and replacement act on the abstract set as long as the
  representation is well formed; the client's lemma is that what was added can be removed again.
\<close>

locale finalizer_store =
  fixes invar :: "'s \<Rightarrow> bool"
    and elems :: "'s \<Rightarrow> 'a set"
    and member :: "'s \<Rightarrow> 'a \<Rightarrow> bool"
    and add :: "'s \<Rightarrow> 'a \<Rightarrow> 's"
    and remove :: "'s \<Rightarrow> 'a \<Rightarrow> 's option"
    and rename :: "'s \<Rightarrow> 'a \<Rightarrow> 'a \<Rightarrow> 's"
  assumes member: "invar s \<Longrightarrow> member s x \<longleftrightarrow> x \<in> elems s"
    and add: "invar s \<Longrightarrow> \<not> member s x \<Longrightarrow> invar (add s x) \<and> elems (add s x) = insert x (elems s)"
    and remove: "invar s \<Longrightarrow> \<exists>t. remove s x = Some t \<and> invar t \<and> elems t = elems s - {x}"
    and rename: "invar s \<Longrightarrow> \<not> member s y \<Longrightarrow>
       invar (rename s x y) \<and>
       elems (rename s x y) = (if x \<in> elems s then insert y (elems s - {x}) else elems s)"
begin

lemma add_remove:
  assumes "invar s" and "\<not> member s x"
  shows "\<exists>t. remove (add s x) x = Some t \<and> invar t \<and> elems t = elems s"
proof -
  from add [OF assms] have "invar (add s x)" and e: "elems (add s x) = insert x (elems s)"
    by auto
  then obtain t where "remove (add s x) x = Some t" "invar t" "elems t = elems (add s x) - {x}"
    using remove by blast
  moreover have "x \<notin> elems s" using assms member by blast
  ultimately show ?thesis using e by auto
qed

lemma remove_then_absent:
  "invar s \<Longrightarrow> remove s x = Some t \<Longrightarrow> \<not> member t x"
  using remove [of s x] member by force

lemma rename_remove:
  assumes "invar s" and "x \<in> elems s" and "\<not> member s y"
  shows "\<exists>t. remove (rename s x y) y = Some t \<and> invar t \<and> elems t = elems s - {x}"
proof -
  from rename [OF assms(1,3)] assms(2)
  have "invar (rename s x y)" and "elems (rename s x y) = insert y (elems s - {x})" by auto
  with remove obtain t where "remove (rename s x y) y = Some t" "invar t"
    "elems t = insert y (elems s - {x}) - {y}" by metis
  moreover have "y \<notin> elems s" using assms member by blast
  ultimately show ?thesis by auto
qed

end

interpretation slice: finalizer_store distinct set Contains "\<lambda>xs x. xs @ [x]" Remove Replace
  by unfold_locales (auto simp: Remove_distinct distinct_Replace set_Replace)

section \<open>Finalizers on the resource\<close>

type_synonym 'w update_fn = "RHMI \<Rightarrow> 'w \<Rightarrow> err option \<times> RHMI \<times> 'w"

definition AddFinalizer :: "'w update_fn \<Rightarrow> RHMI \<Rightarrow> string \<Rightarrow> 'w \<Rightarrow> err option \<times> RHMI \<times> 'w" where
  "AddFinalizer upd inst finalizer w =
     (if \<not> Contains (Finalizers inst) finalizer \<and> DeletionTimestamp inst = None
      then upd (inst\<lparr>Finalizers := Finalizers inst @ [finalizer]\<rparr>) w
      else (None, inst, w))"

definition UpdateFinalizer ::
  "'w update_fn \<Rightarrow> RHMI \<Rightarrow> string \<Rightarrow> string \<Rightarrow> 'w \<Rightarrow> err option \<times> RHMI \<times> 'w" where
  "UpdateFinalizer upd inst productName finalizer w =
     (let previousFinalizer = ''finalizer.'' @ productName @ ''.integreatly.org'' in
      if Contains (Finalizers inst) previousFinalizer \<and> DeletionTimestamp inst = None
      then upd (inst\<lparr>Finalizers := Replace (Finalizers inst) previousFinalizer finalizer\<rparr>) w
      else (None, inst, w))"

text \<open>\<open>None\<close>: the slice helper panicked before the update was sent.\<close>

definition RemoveFinalizerAndUpdate ::
  "'w update_fn \<Rightarrow> RHMI \<Rightarrow> string \<Rightarrow> 'w \<Rightarrow> (err option \<times> RHMI \<times> 'w) option" where
  "RemoveFinalizerAndUpdate upd inst finalizer w =
     (case Remove (Finalizers inst) finalizer of
        None \<Rightarrow> None
      | Some fs \<Rightarrow> Some (upd (inst\<lparr>Finalizers := fs\<rparr>) w))"

definition RemoveProductFinalizer ::
  "'w update_fn \<Rightarrow> RHMI \<Rightarrow> string \<Rightarrow> 'w \<Rightarrow> (err option \<times> RHMI \<times> 'w) option" where
  "RemoveProductFinalizer upd inst product w =
     (let finalizer = product @ ''.integreatly.org'' @ ''/finalizer'' in
      case Remove (Finalizers inst) finalizer of
        None \<Rightarrow> None
      | Some fs \<Rightarrow> Some (upd (inst\<lparr>Finalizers := fs\<rparr>) w))"

text \<open>\<^verbatim>\<open>RemoveOauthClient\<close>: the deletion's error, unless the client is already gone.\<close>

definition RemoveOauthClient :: "(string \<Rightarrow> 'w \<Rightarrow> err option \<times> 'w) \<Rightarrow> string \<Rightarrow> 'w \<Rightarrow> err option \<times> 'w" where
  "RemoveOauthClient del name w =
     (let (e, w') = del name w in
      if e \<noteq> None \<and> \<not> IsNotFound e then (e, w') else (None, w'))"

text \<open>\<^verbatim>\<open>RemoveNamespace\<close>: \<open>getns\<close> answers an error or whether the namespace is terminating.\<close>

definition RemoveNamespace ::
  "(string \<Rightarrow> 'w \<Rightarrow> (err + bool) \<times> 'w) \<Rightarrow> (string \<Rightarrow> 'w \<Rightarrow> err option \<times> 'w) \<Rightarrow> string \<Rightarrow> 'w \<Rightarrow>
   (StatusPhase \<times> err option) \<times> 'w" where
  "RemoveNamespace getns del namespace w =
     (case getns namespace w of
        (Inl e, w1) \<Rightarrow>
          (if IsNotFound (Some e) \<or> IsForbidden (Some e) then ((PhaseCompleted, None), w1)
           else ((PhaseFailed, Some e), w1))
      | (Inr terminating, w1) \<Rightarrow>
          (if terminating then ((PhaseCompleted, None), w1)
           else (let (e, w2) = del namespace w1 in
                 if e \<noteq> None \<and> \<not> IsNotFound e then ((PhaseFailed, e), w2)
                 else ((PhaseInProgress, None), w2))))"

text \<open>
  The documented behaviour of an update the lemmas below rely on: the object the call leaves in
  memory carries the finalizers that were sent.
\<close>

definition update_keeps_finalizers :: "'w update_fn \<Rightarrow> bool" where
  "update_keeps_finalizers upd \<longleftrightarrow>
     (\<forall>i w. Finalizers (fst (snd (upd i w))) = Finalizers i)"

lemma update_keeps_finalizersD:
  "update_keeps_finalizers upd \<Longrightarrow> upd i w = (e, i', w') \<Longrightarrow> Finalizers i' = Finalizers i"
  unfolding update_keeps_finalizers_def by (metis fst_conv snd_conv)

lemma AddFinalizer_distinct:
  assumes "update_keeps_finalizers upd" and "distinct (Finalizers inst)"
    and "AddFinalizer upd inst f w = (e, inst', w')"
  shows "distinct (Finalizers inst')"
  using assms by (auto simp: AddFinalizer_def dest: update_keeps_finalizersD split: if_splits)

lemma AddFinalizer_member:
  assumes "update_keeps_finalizers upd" and "DeletionTimestamp inst = None"
    and "AddFinalizer upd inst f w = (e, inst', w')"
  shows "f \<in> set (Finalizers inst')"
  using assms by (auto simp: AddFinalizer_def dest: update_keeps_finalizersD split: if_splits)

lemma UpdateFinalizer_distinct:
  assumes "update_keeps_finalizers upd" and "distinct (Finalizers inst)"
    and "f \<notin> set (Finalizers inst)"
    and "UpdateFinalizer upd inst p f w = (e, inst', w')"
  shows "distinct (Finalizers inst')"
  using assms
  by (auto simp: UpdateFinalizer_def Let_def distinct_Replace dest: update_keeps_finalizersD
        split: if_splits)

section \<open>Properties\<close>

text \<open>
  On finalizer lists without repetitions \<^verbatim>\<open>Remove\<close> deletes exactly the given string, keeps
  the order of the others and never panics.
\<close>

theorem Remove_correct:
  "distinct xs \<Longrightarrow> Remove xs s = Some (filter (\<lambda>v. v \<noteq> s) xs)"
  by (rule Remove_distinct)

theorem Remove_correct_witness:
  "distinct [''a'', ''b'', ''c''] \<and> Remove [''a'', ''b'', ''c''] ''b'' = Some [''a'', ''c'']"
  using Remove_correct [of "[''a'', ''b'', ''c'']" "''b''"] by simp

text \<open>
  On lists with repetitions \<^verbatim>\<open>Remove\<close> is not deletion: a string repeated at the end of the
  slice makes it slice out of bounds and panic, and an occurrence that directly follows a
  removed one is skipped over and stays in the result.
\<close>

theorem Remove_repeated:
  "s \<notin> set ys \<Longrightarrow> s \<noteq> t \<Longrightarrow>
     Remove (ys @ [s, s]) s = None \<and> Remove (ys @ [s, s, t]) s = Some (ys @ [s, t])"
  using Remove_repeated_end [of s ys] Remove_first [of s ys "[s, t]"]
  by (simp add: Remove_loop.simps nth_append)

theorem Remove_repeated_witness:
  "''a'' \<notin> set [''x''] \<and> ''a'' \<noteq> ''b'' \<and>
   Remove [''x'', ''a'', ''a''] ''a'' = None \<and>
   Remove [''x'', ''a'', ''a'', ''b''] ''a'' = Some [''x'', ''a'', ''b'']"
  using Remove_repeated [of "''a''" "[''x'']" "''b''"] by simp

text \<open>
  A finalizer that \<^verbatim>\<open>AddFinalizer\<close> puts on an installation that is not being deleted is
  taken off again by \<^verbatim>\<open>RemoveFinalizerAndUpdate\<close>, without a panic, and the set of the other
  finalizers is what it was before.
\<close>

theorem AddFinalizer_RemoveFinalizer:
  assumes "update_keeps_finalizers upd" and "distinct (Finalizers inst)"
    and "f \<notin> set (Finalizers inst)" and "DeletionTimestamp inst = None"
    and "AddFinalizer upd inst f w = (e, inst', w')"
  shows "\<exists>e2 inst2 w2. RemoveFinalizerAndUpdate upd inst' f w' = Some (e2, inst2, w2) \<and>
     set (Finalizers inst2) = set (Finalizers inst)"
proof -
  have fs: "Finalizers inst' = Finalizers inst @ [f]"
    using assms by (auto simp: AddFinalizer_def dest: update_keeps_finalizersD)
  obtain t where t: "Remove (Finalizers inst') f = Some t" "set t = set (Finalizers inst)"
    using slice.add_remove [of "Finalizers inst" f] assms fs by auto
  obtain e2 inst2 w2 where u: "upd (inst'\<lparr>Finalizers := t\<rparr>) w' = (e2, inst2, w2)"
    by (metis prod_cases3)
  then have "Finalizers inst2 = t" using assms(1) update_keeps_finalizersD by fastforce
  then show ?thesis using t u by (simp add: RemoveFinalizerAndUpdate_def)
qed

theorem AddFinalizer_RemoveFinalizer_witness:
  "\<exists>e2 inst2 w2. RemoveFinalizerAndUpdate (\<lambda>i (n::nat). (None, i, Suc n))
      (zero_rhmi\<lparr>Finalizers := [''a'', ''f'']\<rparr>) ''f'' 1 = Some (e2, inst2, w2) \<and>
     set (Finalizers inst2) = set (Finalizers (zero_rhmi\<lparr>Finalizers := [''a'']\<rparr>))"
proof (rule AddFinalizer_RemoveFinalizer [where w = 0 and e = None])
  show "AddFinalizer (\<lambda>i (n::nat). (None, i, Suc n)) (zero_rhmi\<lparr>Finalizers := [''a'']\<rparr>) ''f'' 0 =
     (None, zero_rhmi\<lparr>Finalizers := [''a'', ''f'']\<rparr>, 1)"
    by (simp add: AddFinalizer_def zero_defs)
qed (simp_all add: update_keeps_finalizers_def zero_defs)

text \<open>
  \<^verbatim>\<open>RemoveNamespace\<close> reports completion exactly when the namespace is gone (not found, or
  not visible) or already terminating, and then it sends no deletion; it reports failure only
  together with an error; in every other case the deletion was accepted and it asks for another
  round.
\<close>

theorem RemoveNamespace_phase:
  "case RemoveNamespace getns del ns w of ((ph, e), w') \<Rightarrow>
     (ph = PhaseCompleted \<longleftrightarrow>
        (case fst (getns ns w) of Inl e' \<Rightarrow> IsNotFound (Some e') \<or> IsForbidden (Some e')
                                | Inr terminating \<Rightarrow> terminating)) \<and>
     (ph = PhaseCompleted \<longrightarrow> w' = snd (getns ns w)) \<and>
     (ph = PhaseFailed \<longleftrightarrow> e \<noteq> None) \<and>
     (ph \<in> {PhaseCompleted, PhaseInProgress, PhaseFailed})"
  by (auto simp: RemoveNamespace_def Let_def split: prod.splits sum.splits)

theorem RemoveNamespace_phase_witness:
  "RemoveNamespace (\<lambda>n w. (Inr False, w)) (\<lambda>n w. (None, w + 1)) ''ns'' (0::nat) =
     ((PhaseInProgress, None), 1) \<and>
   (PhaseInProgress = PhaseFailed \<longleftrightarrow> (None :: err option) \<noteq> None)"
  using RemoveNamespace_phase [where getns = "\<lambda>n w. (Inr False, w)" and del = "\<lambda>n w. (None, w + 1)"
     and ns = "''ns''" and w = "0::nat"]
  by (simp add: RemoveNamespace_def)

end
