(* ===== verification/Bootstrap.thy ===== *)
theory Bootstrap
  imports Quota Addon Finalizers
begin

text \<open>
  The bootstrap stage (\<^verbatim>\<open>internal/controller/rhmi/bootstrapReconciler.go\<close>, with
  \<^verbatim>\<open>pkg/resources/custom-domain\<close> and \<^verbatim>\<open>pkg/resources/custom-smtp\<close>): the quota parameter, the OAuth
  client secrets, the routing subdomain, custom SMTP, the priority class and the cloud resource
  configuration, and the sequence the stage runs them in. Event recording, metrics and logging
  leave no trace in the model.
\<close>

section \<open>Objects and environment\<close>

record Secret =
  sec_Name :: string
  sec_Namespace :: string
  sec_ResourceVersion :: string
  sec_Data :: "secret_data option"

record FConfigMap = ConfigMap +
  cm_Finalizers :: "string list"

record PriorityClass =
  pcl_Name :: string
  pcl_Value :: int
  pcl_GlobalDefault :: bool
  pcl_Description :: string

datatype PlatformType = AWSPlatformType | OtherPlatform string

record Infrastructure =
  APIServerURL :: string
  PlatformStatus :: "PlatformType option"

record MultiTenantUser =
  mt_Username :: string
  mt_TenantName :: string
  mt_Email :: string
  mt_UID :: string

text \<open>One ingress of a route: host and canonical host name of the router.\<close>

type_synonym route_ingress = "string \<times> string"

record 'w boot_env =
  be_client :: "'w addon_client"
  be_lookupEnv :: "string \<Rightarrow> string option"
  be_now :: int
  be_operatorNamespace :: string
  be_unmarshal :: "string \<Rightarrow> err + quotaConfigReceiver list"
  be_random :: "string \<Rightarrow> nat list"
  be_secrets :: "(Secret, 'w) kind_api"
  be_configMaps :: "(FConfigMap, 'w) kind_api"
  be_priorityClasses :: "(PriorityClass, 'w) kind_api"
  be_GetQuotaConfigMap :: "string \<Rightarrow> 'w \<Rightarrow> err + ConfigMap"
  be_GetInfrastructure :: "'w \<Rightarrow> err + Infrastructure"
  be_GetConsoleRoute :: "'w \<Rightarrow> err + route_ingress list"
  be_GetOAuthClient :: "string \<Rightarrow> 'w \<Rightarrow> err + string"
  be_GetMultiTenantUsers :: "'w \<Rightarrow> err + MultiTenantUser list"
  be_ipLiteral :: "string \<Rightarrow> bool"

section \<open>The quota parameter\<close>

abbreviation minute_ns :: int where "minute_ns \<equiv> 60 * second_ns"

definition isInstallationOlderThan1Minute :: "int \<Rightarrow> RHMI \<Rightarrow> bool" where
  "isInstallationOlderThan1Minute now inst \<longleftrightarrow> now - minute_ns > CreationTimestamp inst"

definition getSecretQuotaParam :: "'w boot_env \<Rightarrow> RHMI \<Rightarrow> string \<Rightarrow> 'w \<Rightarrow> err + string" where
  "getSecretQuotaParam env inst namespace w =
     (let waiting = Msg ''waiting for quota parameter for 1 minute after creation of cr'' in
      case GetStringParameter (be_client env) namespace QuotaParamName w of
        (quotaParam, found, Some e) \<Rightarrow> Inl (Wrap ''error checking for quota secret'' e)
      | (quotaParam, found, None) \<Rightarrow>
          if found \<and> quotaParam \<noteq> '''' then Inr quotaParam
          else if isInstallationOlderThan1Minute (be_now env) inst then
            (case GetStringParameter (be_client env) namespace TrialQuotaParamName w of
               (trialParam, tfound, Some e) \<Rightarrow> Inl (Wrap ''error checking for quota secret'' e)
             | (trialParam, tfound, None) \<Rightarrow>
                 if tfound \<and> trialParam \<noteq> '''' then Inr trialParam
                 else if \<not> tfound then
                   (case be_lookupEnv env ''QUOTA'' of
                      None \<Rightarrow> Inl (Msg ''no quota value provided by add on parameter or by env var'')
                    | Some v \<Rightarrow> if v = ''''
                        then Inl (Msg ''no quota value provided by add on parameter or by env var'')
                        else Inr v)
                 else Inl waiting)
          else Inl waiting)"

definition processQuota ::
  "'w boot_env \<Rightarrow> RHMI \<Rightarrow> string \<Rightarrow> Quota \<Rightarrow> 'w \<Rightarrow> err option \<times> RHMI \<times> Quota" where
  "processQuota env inst namespace q w =
     (case getSecretQuotaParam env inst namespace w of
        Inl e \<Rightarrow> (Some e, inst, q)
      | Inr quotaParam \<Rightarrow>
          (case be_GetQuotaConfigMap env namespace w of
             Inl e \<Rightarrow> (Some (Wrap ''error getting quota config map'' e), inst, q)
           | Inr cm \<Rightarrow>
               (case GetQuota (be_unmarshal env) quotaParam cm q of
                  (Some e, q') \<Rightarrow> (Some e, inst, q')
                | (None, q') \<Rightarrow>
                    (let st = Status inst;
                         isQuotaUpdated = ((ToQuota st = '''' \<and> QuotaF st = '''') \<or> q_name q' \<noteq> QuotaF st);
                         inst' = (if isQuotaUpdated then inst\<lparr>Status := st\<lparr>ToQuota := q_name q'\<rparr>\<rparr> else inst)
                     in (None, inst', SetIsUpdated q' isQuotaUpdated)))))"

section \<open>OAuth client secrets\<close>

abbreviation secret_chars :: string where
  "secret_chars \<equiv> ''ABCDEFGHIJKLMNOPQRSTUVWXYZabcdefghijklmnopqrstuvwxyz0123456789''"

text \<open>\<open>rnds\<close> are the numbers below 62 the random source yields.\<close>

definition generateSecret :: "nat list \<Rightarrow> nat \<Rightarrow> string" where
  "generateSecret rnds len = map (\<lambda>i. secret_chars ! (rnds ! i)) [0..<len]"

text \<open>
  One key of the secret. The OAuth client asked for is the one with the name of the secret, not
  the one of the product or tenant. Writing to a nil map panics.
\<close>

definition reconcileOauthSecretData ::
  "'w boot_env \<Rightarrow> 'w \<Rightarrow> string \<Rightarrow> string \<Rightarrow> secret_data option \<Rightarrow> err option \<times> secret_data option" where
  "reconcileOauthSecretData env w secretName key data =
     (if (case data of None \<Rightarrow> False | Some d \<Rightarrow> map_of d key \<noteq> None) then (None, data)
      else
        (let put = (\<lambda>v. case data of
                     None \<Rightarrow> (Some (GoPanic ''assignment to entry in nil map''), None)
                   | Some d \<Rightarrow> (None, Some (gset key v d)))
         in case be_GetOAuthClient env secretName w of
              Inl e \<Rightarrow> if \<not> IsNotFound (Some e) then (Some e, data)
                       else put (generateSecret (be_random env key) 32)
            | Inr secret \<Rightarrow> put secret))"

fun oauth_loop ::
  "'w boot_env \<Rightarrow> (string \<Rightarrow> err \<Rightarrow> err) \<Rightarrow> 'w \<Rightarrow> string \<Rightarrow> string list \<Rightarrow> secret_data option \<Rightarrow>
   err option \<times> secret_data option" where
  "oauth_loop env wrap w secretName [] data = (None, data)"
| "oauth_loop env wrap w secretName (k # ks) data =
     (case reconcileOauthSecretData env w secretName k data of
        (Some e, data') \<Rightarrow> (Some (wrap k e), data')
      | (None, data') \<Rightarrow> oauth_loop env wrap w secretName ks data')"

abbreviation oauth_products :: "ProductName list" where
  "oauth_products \<equiv> [ProductRHSSO, ProductRHSSOUser, Product3Scale]"

text \<open>The mutate function of \<^verbatim>\<open>reconcileOauthSecrets\<close>: it reads the secret once more.\<close>

definition oauth_mutate :: "'w boot_env \<Rightarrow> (Secret, 'w) op" where
  "oauth_mutate env s w =
     (case k_Get (be_secrets env) s w of (e, s1, w1) \<Rightarrow>
        if e \<noteq> None \<and> \<not> IsNotFound e then (e, s1, w1)
        else (let data = (if IsNotFound e then Some [] else sec_Data s1) in
              case oauth_loop env (\<lambda>k e. e) w1 (sec_Name s1) oauth_products data of
                (Some e, d) \<Rightarrow> (Some e, s1\<lparr>sec_Data := d\<rparr>, w1)
              | (None, d) \<Rightarrow> (None, s1\<lparr>sec_Data := d, sec_ResourceVersion := ''''\<rparr>, w1)))"

definition fresh_secret :: "string \<Rightarrow> string \<Rightarrow> Secret" where
  "fresh_secret n ns = \<lparr>sec_Name = n, sec_Namespace = ns, sec_ResourceVersion = '''', sec_Data = None\<rparr>"

definition reconcileOauthSecrets :: "'w boot_env \<Rightarrow> 'w \<Rightarrow> (StatusPhase \<times> err option) \<times> 'w" where
  "reconcileOauthSecrets env w =
     (case CreateOrUpdate (be_secrets env) (=) (oauth_mutate env)
             (fresh_secret ''oauth-client-secrets'' (be_operatorNamespace env)) w of
        ((r, Some e), s, w') \<Rightarrow> ((PhaseFailed, Some (Wrap ''error reconciling oauth clients secrets'' e)), w')
      | ((r, None), s, w') \<Rightarrow> ((PhaseCompleted, None), w'))"

definition tenantExists :: "string \<Rightarrow> MultiTenantUser list \<Rightarrow> bool" where
  "tenantExists user tenants \<longleftrightarrow> (\<exists>t \<in> set tenants. mt_TenantName t = user)"

definition tenant_oauth_mutate :: "'w boot_env \<Rightarrow> MultiTenantUser list \<Rightarrow> (Secret, 'w) op" where
  "tenant_oauth_mutate env tenants s w =
     (case k_Get (be_secrets env) s w of (e, s1, w1) \<Rightarrow>
        if e \<noteq> None \<and> \<not> IsNotFound e then (e, s1, w1)
        else (let data = (if IsNotFound e \<or> sec_Data s1 = None then Some [] else sec_Data s1) in
              case oauth_loop env (\<lambda>k e. Wrap (''error reconciling OAuth secret data for tenant '' @ k) e)
                     w1 (sec_Name s1) (map mt_TenantName tenants) data of
                (Some e, d) \<Rightarrow> (Some e, s1\<lparr>sec_Data := d\<rparr>, w1)
              | (None, d) \<Rightarrow>
                  (None, s1\<lparr>sec_Data := map_option (filter (\<lambda>(k, v). tenantExists k tenants)) d,
                           sec_ResourceVersion := ''''\<rparr>, w1)))"

definition reconcileTenantOauthSecrets :: "'w boot_env \<Rightarrow> 'w \<Rightarrow> (StatusPhase \<times> err option) \<times> 'w" where
  "reconcileTenantOauthSecrets env w =
     (case be_GetMultiTenantUsers env w of
        Inl e \<Rightarrow> ((PhaseFailed, Some (Wrap ''error getting teants for OAuth clients secrets'' e)), w)
      | Inr tenants \<Rightarrow>
          (case CreateOrUpdate (be_secrets env) (=) (tenant_oauth_mutate env tenants)
                  (fresh_secret ''tenant-oauth-client-secrets'' (be_operatorNamespace env)) w of
             ((r, Some e), s, w') \<Rightarrow>
               ((PhaseFailed, Some (Wrap ''error reconciling oauth clients secrets'' e)), w')
           | ((r, None), s, w') \<Rightarrow> ((PhaseCompleted, None), w')))"

section \<open>Routing (\<^verbatim>\<open>custom-domain.go\<close>, \<^verbatim>\<open>retrieveConsoleURLAndSubdomain\<close>)\<close>

text \<open>
  \<^verbatim>\<open>IsValidDomain\<close> asks whether \<^verbatim>\<open>url.ParseRequestURI\<close> reads the whole of the domain back as the
  host of \<^verbatim>\<open>https://<domain>/\<close>. The host of such a URL ends at the first slash or question mark and
  starts behind the last at sign; a percent sign is decoded; the bytes of a host below 128 are
  letters, digits and a fixed set of marks; what follows the last colon must be digits. A
  host with brackets is an IP literal, whose grammar is \<open>ipLiteral\<close>.
\<close>

definition is_alnum :: "char \<Rightarrow> bool" where
  "is_alnum c \<longleftrightarrow> (let n = (of_char c :: nat) in
     (48 \<le> n \<and> n \<le> 57) \<or> (65 \<le> n \<and> n \<le> 90) \<or> (97 \<le> n \<and> n \<le> 122))"

definition host_char :: "char \<Rightarrow> bool" where
  "host_char c \<longleftrightarrow> is_alnum c \<or> (of_char c :: nat) \<ge> 128 \<or>
     c \<in> set (CHR 0x27 # ''-_.~!$&()*+,;=:<>'' @ [CHR 0x22])"

definition port_ok :: "string \<Rightarrow> bool" where
  "port_ok host = (if CHR '':'' \<notin> set host then True
     else list_all (\<lambda>c. char_digit c \<noteq> None) (rev (takeWhile (\<lambda>c. c \<noteq> CHR '':'') (rev host))))"

definition IsValidDomain :: "(string \<Rightarrow> bool) \<Rightarrow> string \<Rightarrow> bool" where
  "IsValidDomain ipLiteral domain =
     (if domain = '''' then False
      else if CHR ''['' \<in> set domain \<or> CHR '']'' \<in> set domain then ipLiteral domain
      else list_all host_char domain \<and> port_ok domain)"

abbreviation CustomDomainDomain :: string where "CustomDomainDomain \<equiv> ''custom-domain_domain''"

definition GetDomain :: "'w boot_env \<Rightarrow> RHMI \<Rightarrow> 'w \<Rightarrow> bool \<times> string \<times> err option" where
  "GetDomain env inst w =
     (case GetStringParameter (be_client env) (Namespace inst) CustomDomainDomain w of
        (parameter, ok, Some e) \<Rightarrow> (False, '''', Some e)
      | (parameter, ok, None) \<Rightarrow>
          if ok then
            (let p = TrimSpace parameter in
             if IsValidDomain (be_ipLiteral env) p then (True, p, None)
             else (True, p, Some (Msg (''not valid domain '' @ [CHR 0x22] @ p @ [CHR 0x22]))))
          else (False, '''', None))"

definition IsCustomDomain :: "RHMI \<Rightarrow> bool" where
  "IsCustomDomain inst =
     (case CustomDomain (Status inst) of None \<Rightarrow> False | Some s \<Rightarrow> Enabled s)"

abbreviation zero_enabled :: EnabledStatus where
  "zero_enabled \<equiv> \<lparr>Enabled = False, EnabledError = ''''\<rparr>"

definition set_subdomain :: "string \<Rightarrow> RHMI \<Rightarrow> RHMI" where
  "set_subdomain d inst =
     (if RoutingSubdomain (Spec inst) = '''' then inst\<lparr>Spec := (Spec inst)\<lparr>RoutingSubdomain := d\<rparr>\<rparr> else inst)"

text \<open>The two ends of \<^verbatim>\<open>retrieveConsoleURLAndSubdomain\<close>: with a domain of the add-on, and without.\<close>

definition custom_domain :: "string \<Rightarrow> err option \<Rightarrow> RHMI \<Rightarrow> RHMI" where
  "custom_domain domain err inst =
     (let i2 = set_subdomain domain inst;
          cd = (case CustomDomain (Status i2) of None \<Rightarrow> zero_enabled | Some s \<Rightarrow> s)\<lparr>Enabled := True\<rparr>
      in i2\<lparr>Status :=
           (case err of
              None \<Rightarrow> (Status i2)\<lparr>CustomDomain := Some cd\<rparr>
            | Some e \<Rightarrow> (Status i2)\<lparr>CustomDomain := Some (cd\<lparr>EnabledError := err_string e\<rparr>),
                           LastError := err_string e\<rparr>)\<rparr>)"

definition default_domain :: "string \<Rightarrow> RHMI \<Rightarrow> RHMI" where
  "default_domain routerDefault inst =
     (let i2 = set_subdomain routerDefault inst;
          i3 = (if RoutingSubdomain (Spec i2) \<noteq> routerDefault \<and> CustomDomain (Status i2) = None
                then i2\<lparr>Status := (Status i2)\<lparr>CustomDomain := Some (zero_enabled\<lparr>Enabled := True\<rparr>)\<rparr>\<rparr>
                else i2)
      in if RoutingSubdomain (Spec i3) = routerDefault \<and> CustomDomain (Status i3) \<noteq> None
         then i3\<lparr>Status := (Status i3)\<lparr>CustomDomain := None\<rparr>\<rparr> else i3)"

definition retrieveConsoleURLAndSubdomain ::
  "'w boot_env \<Rightarrow> RHMI \<Rightarrow> 'w \<Rightarrow> (StatusPhase \<times> err option) \<times> RHMI" where
  "retrieveConsoleURLAndSubdomain env inst w =
     (case be_GetConsoleRoute env w of
        Inl e \<Rightarrow>
          ((PhaseFailed, Some (Wrap (if IsNotFound (Some e) then ''could not find CR route''
              else ''could not retrieve CR route'') e)), inst)
      | Inr [] \<Rightarrow> ((PhaseFailed, Some (GoPanic ''index out of range [0] with length 0'')), inst)
      | Inr ((host, canonical) # rest) \<Rightarrow>
          (let i1 = inst\<lparr>Spec := (Spec inst)\<lparr>MasterURL := host\<rparr>\<rparr>;
               routerDefault = TrimPrefix canonical ''router-default.'';
               (ok, domain, err) = GetDomain env i1 w
           in if err \<noteq> None \<and> \<not> ok then
                ((PhaseFailed, Some (Wrap ''customDomain.GetDomain() failure'' (the err))), i1)
              else if ok \<and> domain \<noteq> '''' then
                ((PhaseCompleted, None), custom_domain domain err i1)
              else
                ((PhaseCompleted, None), default_domain routerDefault i1)))"

definition retrieveAPIServerURL :: "'w boot_env \<Rightarrow> RHMI \<Rightarrow> 'w \<Rightarrow> (StatusPhase \<times> err option) \<times> RHMI" where
  "retrieveAPIServerURL env inst w =
     (case be_GetInfrastructure env w of
        Inl e \<Rightarrow> ((PhaseFailed, Some e), inst)
      | Inr infra \<Rightarrow>
          (let i1 = inst\<lparr>Spec := (Spec inst)\<lparr>APIServer := APIServerURL infra\<rparr>\<rparr> in
           if APIServer (Spec i1) \<noteq> '''' then ((PhaseCompleted, None), i1)
           else ((PhaseFailed, Some (Msg ''no Status.apiServerURL found in infrastricture CR'')), i1)))"

definition reconcileAddonManagedApiServiceParameters :: "'w boot_env \<Rightarrow> 'w \<Rightarrow> StatusPhase \<times> err option" where
  "reconcileAddonManagedApiServiceParameters env w =
     (case GetAddonParametersSecret (be_client env) (be_operatorNamespace env) w of
        Inl e \<Rightarrow> (PhaseFailed, Some e) | Inr d \<Rightarrow> (PhaseCompleted, None))"

section \<open>Priority class and cloud resource configuration\<close>

definition priority_class :: "RHMI \<Rightarrow> PriorityClass \<Rightarrow> PriorityClass" where
  "priority_class inst pc = pc\<lparr>
     pcl_Value := (if IsRHOAMMultitenant (Type (Spec inst)) then 0 else 1000000000),
     pcl_GlobalDefault := False, pcl_Description := ''Priority Class for managed-api''\<rparr>"

definition phase_of_result :: "(OperationResult \<times> err option) \<times> 'o \<times> 'w \<Rightarrow> (StatusPhase \<times> err option) \<times> 'w" where
  "phase_of_result res =
     (case res of ((r, e), obj, w) \<Rightarrow>
        (if e \<noteq> None then (PhaseInProgress, e) else (PhaseCompleted, None), w))"

definition reconcilePriorityClass :: "'w boot_env \<Rightarrow> RHMI \<Rightarrow> 'w \<Rightarrow> (StatusPhase \<times> err option) \<times> 'w" where
  "reconcilePriorityClass env inst w =
     phase_of_result (CreateOrUpdate (be_priorityClasses env) (=) (pure_op (priority_class inst))
       \<lparr>pcl_Name = PriorityClassName (Spec inst), pcl_Value = 0, pcl_GlobalDefault = False,
        pcl_Description = ''''\<rparr> w)"

definition GetPlatformType :: "'w boot_env \<Rightarrow> 'w \<Rightarrow> err + PlatformType" where
  "GetPlatformType env w =
     (case be_GetInfrastructure env w of
        Inl e \<Rightarrow> Inl (Wrap ''failed to retrieve cluster infrastructure'' e)
      | Inr infra \<Rightarrow>
          (case PlatformStatus infra of
             None \<Rightarrow> Inl (GoPanic ''nil pointer dereference'')
           | Some t \<Rightarrow> Inr t))"

text \<open>The JSON text of one deployment strategy for the four kinds of cloud resource.\<close>

definition strategy :: "string \<Rightarrow> string" where
  "strategy s =
     (let q = [CHR 0x22] in
      ''{'' @ q @ ''blobstorage'' @ q @ '':'' @ q @ s @ q @ '', '' @ q @ ''smtpcredentials'' @ q @ '':'' @ q @ s @ q
      @ '', '' @ q @ ''redis'' @ q @ '':'' @ q @ s @ q @ '', '' @ q @ ''postgres'' @ q @ '':'' @ q @ s @ q @ ''}'')"

abbreviation deletionFinalizer :: string where "deletionFinalizer \<equiv> ''configmaps/finalizer''"
abbreviation previousDeletionFinalizer :: string where "previousDeletionFinalizer \<equiv> ''finalizer/configmaps''"

text \<open>
  The mutate function: \<^verbatim>\<open>Replace\<close> overwrites the finalizers in place, so its discarded result is the
  slice of the object.
\<close>

definition set_strategies :: "string \<Rightarrow> secret_data \<Rightarrow> secret_data" where
  "set_strategies s d = gset ''multitenant-managed-api'' (strategy s) (gset ''managed-api'' (strategy s) d)"

definition cloud_config_mutate :: "'w boot_env \<Rightarrow> RHMI \<Rightarrow> (FConfigMap, 'w) op" where
  "cloud_config_mutate env inst cm w =
     (let cm1 = cm\<lparr>cm_Data := Some (case cm_Data cm of None \<Rightarrow> [] | Some d \<Rightarrow> d),
                   cm_Finalizers := (if Contains (cm_Finalizers cm) previousDeletionFinalizer
                      then Replace (cm_Finalizers cm) previousDeletionFinalizer deletionFinalizer
                      else cm_Finalizers cm)\<rparr>;
          d1 = the (cm_Data cm1);
          finish = (\<lambda>d. (None, cm1\<lparr>cm_Data := Some (gset ''workshop'' (strategy ''openshift'') d)\<rparr>, w))
      in if ToLower (UseClusterStorage (Spec inst)) = ''true'' then finish (set_strategies ''openshift'' d1)
         else (case GetPlatformType env w of
                 Inl e \<Rightarrow> (Some (Wrap ''failed to retrieve platform type'' e), cm1, w)
               | Inr t \<Rightarrow> finish (if t = AWSPlatformType then set_strategies ''aws'' d1 else d1)))"

definition checkCloudResourcesConfig :: "'w boot_env \<Rightarrow> RHMI \<Rightarrow> 'w \<Rightarrow> (StatusPhase \<times> err option) \<times> 'w" where
  "checkCloudResourcesConfig env inst w =
     phase_of_result (CreateOrUpdate (be_configMaps env) (=) (cloud_config_mutate env inst)
       \<lparr>cm_Name = ''cloud-resource-config'', cm_Namespace = Namespace inst, cm_Data = None, cm_Finalizers = []\<rparr> w)"

section \<open>Custom SMTP (\<^verbatim>\<open>reconcileCustomSMTP\<close>)\<close>

abbreviation CustomSecret :: string where "CustomSecret \<equiv> ''custom-smtp''"

definition CreateOrUpdateCustomSMTPSecret ::
  "'w boot_env \<Rightarrow> CustomSmtpValues \<Rightarrow> string \<Rightarrow> 'w \<Rightarrow> (StatusPhase \<times> err option) \<times> 'w" where
  "CreateOrUpdateCustomSMTPSecret env smtp namespace w =
     (case CreateOrUpdate (be_secrets env) (=)
             (pure_op (\<lambda>s. s\<lparr>sec_Data := Some (custom_smtp_data smtp (sec_Data s))\<rparr>))
             (fresh_secret CustomSecret namespace) w of
        ((r, e), s, w') \<Rightarrow> (if e \<noteq> None then (PhaseFailed, e) else (PhaseCompleted, None), w'))"

definition DeleteCustomSMTP :: "'w boot_env \<Rightarrow> string \<Rightarrow> 'w \<Rightarrow> (StatusPhase \<times> err option) \<times> 'w" where
  "DeleteCustomSMTP env namespace w =
     (case k_Get (be_secrets env) (fresh_secret CustomSecret namespace) w of
        (Some e, s, w1) \<Rightarrow>
          (if IsNotFound (Some e) then (PhaseCompleted, None) else (PhaseFailed, Some e), w1)
      | (None, s, w1) \<Rightarrow>
          (case k_Delete (be_secrets env) s w1 of
             (Some e, w2) \<Rightarrow> ((PhaseFailed, Some e), w2)
           | (None, w2) \<Rightarrow> ((PhaseCompleted, None), w2)))"

definition set_custom_smtp :: "EnabledStatus option \<Rightarrow> RHMI \<Rightarrow> RHMI" where
  "set_custom_smtp v inst = inst\<lparr>Status := (Status inst)\<lparr>CustomSmtp := v\<rparr>\<rparr>"

text \<open>In the blank case with a failing clean-up the status is written through a pointer that may be nil.\<close>

definition reconcileCustomSMTP ::
  "'w boot_env \<Rightarrow> RHMI \<Rightarrow> 'w \<Rightarrow> (StatusPhase \<times> err option) \<times> RHMI \<times> 'w" where
  "reconcileCustomSMTP env inst w =
     (case GetCustomAddonValues (be_client env) (Namespace inst) w of
        Inl e \<Rightarrow> ((PhaseFailed, Some e), inst, w)
      | Inr smtp \<Rightarrow>
          (case ParameterValidation smtp of
             Valid \<Rightarrow>
               (case CreateOrUpdateCustomSMTPSecret env smtp (Namespace inst) w of
                  ((phase, Some e), w') \<Rightarrow> ((phase, Some e), inst, w')
                | ((phase, None), w') \<Rightarrow>
                    ((PhaseCompleted, None),
                     set_custom_smtp (Some \<lparr>Enabled = True, EnabledError = ''''\<rparr>) inst, w'))
           | Partial \<Rightarrow>
               (case DeleteCustomSMTP env (Namespace inst) w of
                  ((phase, Some e), w') \<Rightarrow> ((phase, Some e), inst, w')
                | ((phase, None), w') \<Rightarrow>
                    ((PhaseCompleted, None),
                     set_custom_smtp (Some \<lparr>Enabled = False, EnabledError =
                       ''Custom SMTP partially configured, missing fields: '' @ ParameterErrors smtp\<rparr>) inst, w'))
           | Blank \<Rightarrow>
               (case DeleteCustomSMTP env (Namespace inst) w of
                  ((phase, Some e), w') \<Rightarrow>
                    (case CustomSmtp (Status inst) of
                       None \<Rightarrow> ((PhaseFailed, Some (GoPanic ''nil pointer dereference'')), inst, w')
                     | Some s \<Rightarrow> ((phase, Some e), set_custom_smtp (Some (s\<lparr>Enabled := False\<rparr>)) inst, w'))
                | ((phase, None), w') \<Rightarrow> ((PhaseCompleted, None), set_custom_smtp None inst, w'))))"

section \<open>The stage\<close>

type_synonym 'w step = "RHMI \<Rightarrow> Quota \<Rightarrow> 'w \<Rightarrow> (StatusPhase \<times> err option) \<times> RHMI \<times> Quota \<times> 'w"

text \<open>
  The steps that are only called here: limit range, tenant metrics, GitHub OAuth secret, rate
  limit alert configuration, the Alertmanager secrets and the alert rules.
\<close>

type_synonym 'w call = "RHMI \<Rightarrow> 'w \<Rightarrow> (StatusPhase \<times> err option) \<times> 'w"

record 'w boot_calls =
  ReconcileLimitRange :: "'w call"
  setTenantMetrics :: "'w \<Rightarrow> err option"
  reconcilerGithubOauthSecret :: "'w call"
  checkRateLimitAlertsConfig :: "'w call"
  ReconcileAlertManagerSecrets :: "'w call"
  CreateSmtpSecretExists :: "'w call"
  CreateDeadMansSnitchSecretExists :: "'w call"
  CreateAddonManagedApiServiceParametersExists :: "'w call"
  ReconcileAlerts :: "'w call"

text \<open>A step returns at once unless it completed without error; \<open>Some m\<close> wraps its error.\<close>

definition wrapped :: "string option \<Rightarrow> err option \<Rightarrow> err option" where
  "wrapped m e = (case m of None \<Rightarrow> e | Some s \<Rightarrow> map_option (Wrap s) e)"

fun run_steps :: "(string option \<times> 'w step) list \<Rightarrow> 'w step" where
  "run_steps [] inst q w = ((PhaseCompleted, None), inst, q, w)"
| "run_steps ((m, f) # steps) inst q w =
     (case f inst q w of
        ((phase, e), inst', q', w') \<Rightarrow>
          if e \<noteq> None \<or> phase \<noteq> PhaseCompleted then ((phase, wrapped m e), inst', q', w')
          else run_steps steps inst' q' w')"

definition on_world :: "'w call \<Rightarrow> 'w step" where
  "on_world f inst q w = (case f inst w of (r, w') \<Rightarrow> (r, inst, q, w'))"

definition on_inst :: "(RHMI \<Rightarrow> 'w \<Rightarrow> (StatusPhase \<times> err option) \<times> RHMI) \<Rightarrow> 'w step" where
  "on_inst f inst q w = (case f inst w of (r, inst') \<Rightarrow> (r, inst', q, w))"

definition quota_step :: "'w boot_env \<Rightarrow> string \<Rightarrow> 'w step" where
  "quota_step env namespace inst q w =
     (case processQuota env inst namespace q w of
        (Some e, inst', q') \<Rightarrow>
          ((PhaseFailed, Some e), inst'\<lparr>Status := (Status inst')\<lparr>LastError := err_string e\<rparr>\<rparr>, q', w)
      | (None, inst', q') \<Rightarrow> ((PhaseCompleted, None), inst', q', w))"

definition tenant_steps :: "'w boot_env \<Rightarrow> 'w boot_calls \<Rightarrow> (string option \<times> 'w step) list" where
  "tenant_steps env calls =
     [(Some ''failed to reconcile tenant oauth secrets'', on_world (\<lambda>i. reconcileTenantOauthSecrets env)),
      (Some ''failed to set tenant metrics'',
         on_world (\<lambda>i w. ((PhaseCompleted, setTenantMetrics calls w), w)))]"

definition prow_steps :: "'w boot_calls \<Rightarrow> (string option \<times> 'w step) list" where
  "prow_steps calls =
     [(None, on_world (ReconcileAlertManagerSecrets calls)), (None, on_world (CreateSmtpSecretExists calls)),
      (None, on_world (CreateDeadMansSnitchSecretExists calls)),
      (None, on_world (CreateAddonManagedApiServiceParametersExists calls)), (None, on_world (ReconcileAlerts calls))]"

definition early_steps :: "'w boot_env \<Rightarrow> 'w boot_calls \<Rightarrow> RHMI \<Rightarrow> (string option \<times> 'w step) list" where
  "early_steps env calls inst =
     [(None, on_world (ReconcileLimitRange calls)),
      (Some ''failed to reconcile oauth secrets'', on_world (\<lambda>i. reconcileOauthSecrets env))] @
     (if IsRHOAMMultitenant (Type (Spec inst)) then tenant_steps env calls else []) @
     [(Some ''failed to reconcile github oauth secrets'', on_world (reconcilerGithubOauthSecret calls)),
      (Some ''failed to reconcile addon parameters secret'',
         on_world (\<lambda>i w. (reconcileAddonManagedApiServiceParameters env w, w))),
      (Some ''failed to retrieve console url and subdomain'', on_inst (retrieveConsoleURLAndSubdomain env))]"

definition cluster_steps :: "'w boot_env \<Rightarrow> 'w boot_calls \<Rightarrow> (string option \<times> 'w step) list" where
  "cluster_steps env calls =
     [(Some ''failed to check cloud resources config settings'', on_world (checkCloudResourcesConfig env)),
      (Some ''failed to reconcile priority class'', on_world (reconcilePriorityClass env)),
      (Some ''failed to check rate limit alert config settings'', on_world (checkRateLimitAlertsConfig calls))]"

definition bootstrap_steps ::
  "'w boot_env \<Rightarrow> 'w boot_calls \<Rightarrow> string \<Rightarrow> RHMI \<Rightarrow> (string option \<times> 'w step) list" where
  "bootstrap_steps env calls namespace inst =
     early_steps env calls inst @
     [(Some ''failed to retrieve API server URL'', on_inst (retrieveAPIServerURL env))] @
     cluster_steps env calls @
     [(None, quota_step env namespace),
      (Some ''reconciling custom SMTP has failed '',
         (\<lambda>i q w. case reconcileCustomSMTP env i w of (r, i', w') \<Rightarrow> (r, i', q, w')))]"

text \<open>
  \<^verbatim>\<open>Reconcile\<close>. The steps before the test of the installation type do not write the resource, so the
  list can be built from the resource as it comes in; Prow is tested after the last common step.
\<close>

definition Bootstrap_Reconcile :: "'w boot_env \<Rightarrow> 'w boot_calls \<Rightarrow> string \<Rightarrow> 'w step" where
  "Bootstrap_Reconcile env calls namespace inst q w =
     (case run_steps (bootstrap_steps env calls namespace inst) inst q w of
        ((phase, e), inst', q', w') \<Rightarrow>
          if e \<noteq> None \<or> phase \<noteq> PhaseCompleted then ((phase, e), inst', q', w')
          else if \<not> IsInProw inst' then run_steps (prow_steps calls) inst' q' w'
          else ((PhaseCompleted, None), inst', q', w'))"

section \<open>Lemmas on the steps\<close>

lemma run_steps_append:
  assumes "run_steps (xs @ ys) inst q w = ((PhaseCompleted, None), inst', q', w')"
  shows "\<exists>i1 q1 w1. run_steps xs inst q w = ((PhaseCompleted, None), i1, q1, w1) \<and>
     run_steps ys i1 q1 w1 = ((PhaseCompleted, None), inst', q', w')"
  using assms by (induction xs inst q w rule: run_steps.induct)
    (auto split: prod.splits if_splits option.splits simp: wrapped_def)

text \<open>What every step keeps is kept by the sequence.\<close>

lemma run_steps_keeps:
  assumes "run_steps xs inst q w = (r, inst', q', w')" and "P inst q"
    and "\<And>m f i q w r i' q' w'. (m, f) \<in> set xs \<Longrightarrow> f i q w = (r, i', q', w') \<Longrightarrow> P i q \<Longrightarrow> P i' q'"
  shows "P inst' q'"
  using assms
proof (induction xs arbitrary: inst q w)
  case (Cons x xs)
  obtain m f where x: "x = (m, f)" by (cases x)
  obtain ph e i1 q1 w1 where f: "f inst q w = ((ph, e), i1, q1, w1)" by (metis prod.exhaust)
  have P: "P i1 q1" using Cons.prems(3) [of m f, OF _ f] Cons.prems(2) x by simp
  show ?case
  proof (cases "e \<noteq> None \<or> ph \<noteq> PhaseCompleted")
    case True
    then show ?thesis using Cons.prems(1) f P x by auto
  next
    case False
    then have "run_steps xs i1 q1 w1 = (r, inst', q', w')" using Cons.prems(1) f x by simp
    then show ?thesis by (rule Cons.IH [OF _ P]) (rule Cons.prems(3) [OF list.set_intros(2)])
  qed
qed simp

lemma on_world_eq: "on_world f i q w = (r, i', q', w') \<Longrightarrow> i' = i \<and> q' = q"
  by (auto simp: on_world_def split: prod.splits)

lemma GetQuota_named:
  assumes "GetQuota un p cm q = (None, q')"
  shows "q_name q' \<noteq> ''''"
  using assms by (auto simp: GetQuota_def split: sum.splits option.splits if_splits)

lemma GetStringParameter_secret:
  "GetStringParameter cl ns p w =
     (case GetAddonParametersSecret cl ns w of
        Inl e \<Rightarrow> ('''', False, Some e) | Inr d \<Rightarrow> (gget '''' d p, map_of d p \<noteq> None, None))"
  by (auto simp: GetStringParameter_def GetParameter_def gget_def split: sum.split option.split)

section \<open>Properties\<close>

lemma getSecretQuotaParam_iff:
  "getSecretQuotaParam env inst namespace w = Inr q \<longleftrightarrow>
     q \<noteq> '''' \<and>
     (\<exists>d. GetAddonParametersSecret (be_client env) namespace w = Inr d \<and>
        (map_of d QuotaParamName = Some q \<or>
         gget '''' d QuotaParamName = '''' \<and> isInstallationOlderThan1Minute (be_now env) inst \<and>
         (map_of d TrialQuotaParamName = Some q \<or>
          map_of d TrialQuotaParamName = None \<and> be_lookupEnv env ''QUOTA'' = Some q)))"
proof (cases "GetAddonParametersSecret (be_client env) namespace w")
  case (Inl e)
  then show ?thesis by (simp add: getSecretQuotaParam_def GetStringParameter_secret Let_def)
next
  case (Inr d)
  then show ?thesis
    by (auto simp: getSecretQuotaParam_def GetStringParameter_secret Let_def gget_def split: option.splits if_splits)
qed

text \<open>
  Where the quota comes from: the answer is never empty, it is the add-on's quota parameter
  if that is set; only once the resource is older than a minute the trial parameter, and the
  environment variable only where the add-on has no trial parameter at all.
\<close>

theorem getSecretQuotaParam_source:
  "getSecretQuotaParam env inst namespace w = Inr q \<longleftrightarrow>
     q \<noteq> '''' \<and>
     (\<exists>d. GetAddonParametersSecret (be_client env) namespace w = Inr d \<and>
        (map_of d QuotaParamName = Some q \<or>
         gget '''' d QuotaParamName = '''' \<and> isInstallationOlderThan1Minute (be_now env) inst \<and>
         (map_of d TrialQuotaParamName = Some q \<or>
          map_of d TrialQuotaParamName = None \<and> be_lookupEnv env ''QUOTA'' = Some q)))"
  by (rule getSecretQuotaParam_iff)

lemma processQuota_result:
  assumes "processQuota env inst namespace q w = (None, inst', q')"
  shows "q_name q' \<noteq> '''' \<and>
     (q_isUpdated q' \<longleftrightarrow> q_name q' \<noteq> QuotaF (Status inst)) \<and>
     inst' = (if q_isUpdated q' then inst\<lparr>Status := (Status inst)\<lparr>ToQuota := q_name q'\<rparr>\<rparr> else inst)"
proof -
  obtain p cm q1 where "be_GetQuotaConfigMap env namespace w = Inr cm"
    and g: "GetQuota (be_unmarshal env) p cm q = (None, q1)"
    and r: "inst' = (if (ToQuota (Status inst) = '''' \<and> QuotaF (Status inst) = '''') \<or> q_name q1 \<noteq> QuotaF (Status inst)
             then inst\<lparr>Status := (Status inst)\<lparr>ToQuota := q_name q1\<rparr>\<rparr> else inst)"
    and q': "q' = SetIsUpdated q1 ((ToQuota (Status inst) = '''' \<and> QuotaF (Status inst) = '''') \<or> q_name q1 \<noteq> QuotaF (Status inst))"
    using assms by (auto simp: processQuota_def Let_def split: sum.splits prod.splits option.splits)
  from GetQuota_named [OF g] r q' show ?thesis by (auto simp: SetIsUpdated_def)
qed

text \<open>
  A quota that could be read has a name; the change flag is set exactly when that name
  differs from the quota in the status, and then, and only then, the status announces it as the
  quota being installed. The quota in the status itself is not touched.
\<close>

theorem processQuota_change:
  assumes "processQuota env inst namespace q w = (None, inst', q')"
  shows "q_name q' \<noteq> '''' \<and>
     (q_isUpdated q' \<longleftrightarrow> q_name q' \<noteq> QuotaF (Status inst)) \<and>
     inst' = (if q_isUpdated q' then inst\<lparr>Status := (Status inst)\<lparr>ToQuota := q_name q'\<rparr>\<rparr> else inst)"
  by (rule processQuota_result [OF assms])

text \<open>A cluster to evaluate the definitions on: one secret of add-on parameters, one quota.\<close>

definition sample_client :: "secret_data \<Rightarrow> 'w addon_client" where
  "sample_client d = \<lparr>ListSubscriptions = (\<lambda>ns w. Inr []),
     GetSubscriptionObj = (\<lambda>ns n w. Inl (ApiErr NotFound '''')),
     GetSecretData = (\<lambda>ns n w. Inr d), GetCSV = (\<lambda>ns n w. Inr n), DeleteCSV = (\<lambda>ns n w. (None, w)),
     GetNamespaceLabels = (\<lambda>ns w. Inr []), GetDeployment = (\<lambda>ns n w. None),
     GetCatalogSourceObj = (\<lambda>ns n w. Inr n)\<rparr>"

abbreviation secret_key :: "Secret \<Rightarrow> string \<times> string" where
  "secret_key s \<equiv> (sec_Namespace s, sec_Name s)"

definition sample_tenants :: "MultiTenantUser list" where
  "sample_tenants = [\<lparr>mt_Username = ''u'', mt_TenantName = ''t'', mt_Email = '''', mt_UID = ''''\<rparr>]"

definition boot_env_with :: "(Secret, 'w) kind_api \<Rightarrow> secret_data \<Rightarrow> 'w boot_env" where
  "boot_env_with secrets d = \<lparr>be_client = sample_client d, be_lookupEnv = (\<lambda>n. None), be_now = 0,
     be_operatorNamespace = ''ns'', be_unmarshal = (\<lambda>s. Inr [sample_receiver]),
     be_random = (\<lambda>k. replicate 32 0), be_secrets = secrets,
     be_configMaps = empty_api, be_priorityClasses = empty_api,
     be_GetQuotaConfigMap = (\<lambda>ns w. Inr \<lparr>cm_Name = ''quota'', cm_Namespace = ns, cm_Data = None\<rparr>),
     be_GetInfrastructure = (\<lambda>w. Inr \<lparr>APIServerURL = ''api'', PlatformStatus = Some AWSPlatformType\<rparr>),
     be_GetConsoleRoute = (\<lambda>w. Inr [(''console'', ''router-default.apps'')]),
     be_GetOAuthClient = (\<lambda>n w. Inl (ApiErr NotFound '''')),
     be_GetMultiTenantUsers = (\<lambda>w. Inr sample_tenants),
     be_ipLiteral = (\<lambda>s. False)\<rparr>"

definition sample_boot_env :: "secret_data \<Rightarrow> Secret option boot_env" where
  "sample_boot_env = boot_env_with (sample_api secret_key)"

lemmas sample_boot_defs = sample_client_def sample_api_def no_api_def empty_api_def boot_env_with_def sample_boot_env_def fresh_secret_def

theorem processQuota_change_witness:
  "\<exists>inst' q'. processQuota (sample_boot_env [(QuotaParamName, ''1'')]) zero_rhmi ''ns'' zero_quota None =
       (None, inst', q') \<and> q_name q' \<noteq> '''' \<and> q_isUpdated q' \<and> ToQuota (Status inst') = q_name q'"
proof -
  let ?r = "processQuota (sample_boot_env [(QuotaParamName, ''1'')]) zero_rhmi ''ns'' zero_quota None"
  have "fst ?r = None" by code_simp
  then obtain i q where r: "?r = (None, i, q)" by (rule triple_eqE)
  from processQuota_change [OF r] have "q_name q \<noteq> '''' \<and> q_isUpdated q \<and> ToQuota (Status i) = q_name q"
    by (simp add: zero_rhmi_def zero_status_def)
  from conjI [OF r this] show ?thesis by (intro exI)
qed

section \<open>Properties of the secrets\<close>

text \<open>The loop over the keys keeps what is there and adds what is missing.\<close>

lemma reconcileOauthSecretData_keeps:
  assumes "reconcileOauthSecretData env w n k (Some d) = (None, r)"
  shows "\<exists>v. r = Some (if map_of d k = None then gset k v d else d)"
  using assms
  by (auto simp: reconcileOauthSecretData_def Let_def split: if_splits sum.splits option.splits)

lemma oauth_loop_data:
  assumes "oauth_loop env wrap w n ks (Some d) = (None, r)"
  shows "\<exists>d'. r = Some d' \<and> (\<forall>k v. map_of d k = Some v \<longrightarrow> map_of d' k = Some v) \<and>
     dom (map_of d') = dom (map_of d) \<union> set ks"
  using assms
proof (induction ks arbitrary: d)
  case (Cons k ks)
  obtain r1 where r1: "reconcileOauthSecretData env w n k (Some d) = (None, r1)"
    and rest: "oauth_loop env wrap w n ks r1 = (None, r)"
    using Cons.prems by (auto split: prod.splits option.splits)
  obtain v where v: "r1 = Some (if map_of d k = None then gset k v d else d)"
    using reconcileOauthSecretData_keeps [OF r1] by blast
  define d1 where "d1 = (if map_of d k = None then gset k v d else d)"
  have d1: "\<And>j u. map_of d j = Some u \<Longrightarrow> map_of d1 j = Some u"
    "dom (map_of d1) = insert k (dom (map_of d))"
    by (auto simp: d1_def dom_def)
  from Cons.IH [of d1] rest v d1_def
  obtain d' where "r = Some d'" "\<forall>j u. map_of d1 j = Some u \<longrightarrow> map_of d' j = Some u"
    "dom (map_of d') = dom (map_of d1) \<union> set ks" by auto
  then show ?case using d1 by auto
qed auto

lemma oauth_mutate_pure:
  assumes "stores (be_secrets env)"
  shows "oauth_mutate env x w = (e, y, u) \<Longrightarrow> u = w"
    and "tenant_oauth_mutate env ts x w = (e, y, u) \<Longrightarrow> u = w"
  using stores_get(1) [OF assms, of x w]
  by (auto simp: oauth_mutate_def tenant_oauth_mutate_def Let_def split: prod.splits if_splits option.splits)

lemma oauth_loop_nil_panics:
  "oauth_loop env wrap w n (k # ks) None = (None, r) \<Longrightarrow> False"
  by (auto simp: reconcileOauthSecretData_def Let_def split: option.splits prod.splits sum.splits if_splits)

text \<open>
  The OAuth client secrets, once generated, are never regenerated: after a successful run the
  secret on the server has a value for each of the three products, and every value it had before
  is still there.
\<close>

theorem reconcileOauthSecrets_stable:
  assumes srv: "stores (be_secrets env)"
    and run: "reconcileOauthSecrets env w = ((PhaseCompleted, None), w')"
  shows "\<exists>s d. k_Get (be_secrets env) (fresh_secret ''oauth-client-secrets'' (be_operatorNamespace env)) w' = (None, s, w') \<and>
     sec_Data s = Some d \<and> set oauth_products \<subseteq> dom (map_of d) \<and>
     (\<forall>s0 d0 k v. k_Get (be_secrets env) (fresh_secret ''oauth-client-secrets'' (be_operatorNamespace env)) w = (None, s0, w) \<and>
        sec_Data s0 = Some d0 \<and> map_of d0 k = Some v \<longrightarrow> map_of d k = Some v)"
proof -
  let ?api = "be_secrets env" and ?obj = "fresh_secret ''oauth-client-secrets'' (be_operatorNamespace env)"
  obtain r s where c: "CreateOrUpdate ?api (=) (oauth_mutate env) ?obj w = ((r, None), s, w')"
    using run by (auto simp: reconcileOauthSecrets_def split: prod.splits option.splits)
  obtain x e1 y where kx: "k_Key ?api x = k_Key ?api ?obj" and g1: "k_Get ?api x w = (e1, y, w)"
    and m: "oauth_mutate env x w = (None, s, w)" and get': "k_Get ?api ?obj w' = (None, s, w')"
    using CreateOrUpdate_written [OF srv c] oauth_mutate_pure(1) [OF srv] by blast
  define data where "data = (if IsNotFound e1 then Some [] else sec_Data y)"
  have loop: "oauth_loop env (\<lambda>k e. e) w (sec_Name y) oauth_products data = (None, sec_Data s)"
    using m g1 by (auto simp: oauth_mutate_def Let_def data_def split: if_splits prod.splits option.splits)
  then have "data \<noteq> None" using oauth_loop_nil_panics by metis
  then obtain d0 where d0: "data = Some d0" by auto
  obtain d where d: "sec_Data s = Some d" and keep: "\<forall>k v. map_of d0 k = Some v \<longrightarrow> map_of d k = Some v"
    and dom: "dom (map_of d) = dom (map_of d0) \<union> set oauth_products"
    using oauth_loop_data [OF loop [unfolded d0]] by blast
  have old: "map_of d k = Some v" if "k_Get ?api ?obj w = (None, s0, w)" "sec_Data s0 = Some dz" "map_of dz k = Some v"
    for s0 dz k v
  proof -
    have "k_Get ?api x w = (None, s0, w)" using stores_get(3) [OF srv that(1)] kx by simp
    then have "d0 = dz" using g1 d0 that(2) by (simp add: data_def)
    then show ?thesis using keep that(3) by simp
  qed
  show ?thesis using get' d dom old by blast
qed

definition old_secret :: Secret where
  "old_secret = \<lparr>sec_Name = ''oauth-client-secrets'', sec_Namespace = ''ns'', sec_ResourceVersion = ''7'',
     sec_Data = Some [(ProductRHSSO, ''keep'')]\<rparr>"

theorem reconcileOauthSecrets_stable_witness:
  "\<exists>w' s d. reconcileOauthSecrets (sample_boot_env []) (Some old_secret) = ((PhaseCompleted, None), w') \<and>
     k_Get (be_secrets (sample_boot_env [])) (fresh_secret ''oauth-client-secrets'' ''ns'') w' = (None, s, w') \<and>
     sec_Data s = Some d \<and> map_of d ProductRHSSO = Some ''keep''"
proof -
  let ?env = "sample_boot_env []"
  have st: "stores (be_secrets ?env)" by (simp add: sample_boot_env_def boot_env_with_def stores_sample_api)
  have ns: "be_operatorNamespace ?env = ''ns''" by (simp add: sample_boot_env_def boot_env_with_def)
  have "fst (reconcileOauthSecrets ?env (Some old_secret)) = (PhaseCompleted, None)" by code_simp
  then obtain w' where r: "reconcileOauthSecrets ?env (Some old_secret) = ((PhaseCompleted, None), w')"
    by (metis prod.collapse)
  have "k_Get (be_secrets ?env) (fresh_secret ''oauth-client-secrets'' ''ns'') (Some old_secret) = (None, old_secret, Some old_secret)"
    by (simp add: sample_boot_defs old_secret_def)
  with reconcileOauthSecrets_stable [OF st r] r show ?thesis
    unfolding ns by (fastforce simp: old_secret_def)
qed

text \<open>
  After a successful run the secret of the tenants has exactly one entry for each tenant: the
  missing ones are added, those of tenants that are gone are removed, the others keep their
  values.
\<close>

theorem reconcileTenantOauthSecrets_exact:
  assumes srv: "stores (be_secrets env)"
    and ten: "be_GetMultiTenantUsers env w = Inr tenants"
    and run: "reconcileTenantOauthSecrets env w = ((PhaseCompleted, None), w')"
  shows "\<exists>s d. k_Get (be_secrets env) (fresh_secret ''tenant-oauth-client-secrets'' (be_operatorNamespace env)) w' = (None, s, w') \<and>
     sec_Data s = Some d \<and> fst ` set d = set (map mt_TenantName tenants)"
proof -
  let ?api = "be_secrets env" and ?obj = "fresh_secret ''tenant-oauth-client-secrets'' (be_operatorNamespace env)"
  obtain r s where c: "CreateOrUpdate ?api (=) (tenant_oauth_mutate env tenants) ?obj w = ((r, None), s, w')"
    using run ten by (auto simp: reconcileTenantOauthSecrets_def split: prod.splits option.splits)
  obtain x e1 y where g1: "k_Get ?api x w = (e1, y, w)"
    and m: "tenant_oauth_mutate env tenants x w = (None, s, w)" and get': "k_Get ?api ?obj w' = (None, s, w')"
    using CreateOrUpdate_written [OF srv c] oauth_mutate_pure(2) [OF srv] by blast
  obtain d0 dd where loop: "oauth_loop env (\<lambda>k e. Wrap (''error reconciling OAuth secret data for tenant '' @ k) e)
       w (sec_Name y) (map mt_TenantName tenants) (Some d0) = (None, dd)"
    and s: "sec_Data s = map_option (filter (\<lambda>(k, v). tenantExists k tenants)) dd"
    using m g1 by (auto simp: tenant_oauth_mutate_def Let_def split: if_splits prod.splits option.splits)
  obtain d where d: "dd = Some d" and dom: "dom (map_of d) = dom (map_of d0) \<union> set (map mt_TenantName tenants)"
    using oauth_loop_data [OF loop] by blast
  have "fst ` set d = dom (map_of d)" by (simp add: dom_map_of_conv_image_fst)
  then have "fst ` set (filter (\<lambda>(k, v). tenantExists k tenants) d) = set (map mt_TenantName tenants)"
    using dom by (force simp: tenantExists_def image_iff)
  then show ?thesis using get' s d by auto
qed

theorem reconcileTenantOauthSecrets_exact_witness:
  "\<exists>w' (s :: Secret) d. reconcileTenantOauthSecrets (sample_boot_env []) None = ((PhaseCompleted, None), w') \<and>
     sec_Data s = Some d \<and> fst ` set d = set (map mt_TenantName sample_tenants)"
proof -
  let ?env = "sample_boot_env []"
  have st: "stores (be_secrets ?env)" by (simp add: sample_boot_env_def boot_env_with_def stores_sample_api)
  have t: "be_GetMultiTenantUsers ?env None = Inr sample_tenants" by (simp add: sample_boot_env_def boot_env_with_def)
  have "fst (reconcileTenantOauthSecrets ?env None) = (PhaseCompleted, None)" by code_simp
  then obtain w' where r: "reconcileTenantOauthSecrets ?env None = ((PhaseCompleted, None), w')"
    by (metis prod.collapse)
  from reconcileTenantOauthSecrets_exact [OF st t r] show ?thesis
    by (elim exE conjE) (intro exI conjI, rule r, assumption+)
qed

section \<open>Properties of the resource\<close>

lemma custom_domain_result:
  "RoutingSubdomain (Spec (custom_domain d e i)) =
     (if RoutingSubdomain (Spec i) = '''' then d else RoutingSubdomain (Spec i)) \<and>
   MasterURL (Spec (custom_domain d e i)) = MasterURL (Spec i) \<and> IsCustomDomain (custom_domain d e i)"
  by (simp add: custom_domain_def set_subdomain_def IsCustomDomain_def Let_def split: option.split)

lemma default_domain_result:
  "RoutingSubdomain (Spec (default_domain d i)) =
     (if RoutingSubdomain (Spec i) = '''' then d else RoutingSubdomain (Spec i)) \<and>
   MasterURL (Spec (default_domain d i)) = MasterURL (Spec i) \<and>
   (CustomDomain (Status (default_domain d i)) = None \<longleftrightarrow> RoutingSubdomain (Spec (default_domain d i)) = d)"
  by (cases "RoutingSubdomain (Spec i) = ''''"; cases "CustomDomain (Status i)";
      cases "RoutingSubdomain (Spec i) = d") (simp_all add: default_domain_def set_subdomain_def Let_def)

text \<open>
  The routing subdomain is set once: a run never changes one that is there. A run that
  completes marks the installation as having a custom domain if the add-on names one, valid or
  not, and otherwise exactly when the subdomain is not that of the cluster's default router.
\<close>

theorem routing_subdomain_set_once:
  assumes "retrieveConsoleURLAndSubdomain env inst w = ((phase, e), inst')"
  shows "(RoutingSubdomain (Spec inst) \<noteq> '''' \<longrightarrow> RoutingSubdomain (Spec inst') = RoutingSubdomain (Spec inst)) \<and>
     (phase = PhaseCompleted \<longrightarrow>
        (case be_GetConsoleRoute env w of
           Inr ((host, canonical) # rest) \<Rightarrow>
             MasterURL (Spec inst') = host \<and>
             (case GetDomain env inst w of (ok, domain, err) \<Rightarrow>
                if ok \<and> domain \<noteq> '''' then IsCustomDomain inst'
                else CustomDomain (Status inst') = None \<longleftrightarrow>
                     RoutingSubdomain (Spec inst') = TrimPrefix canonical ''router-default.'')
         | _ \<Rightarrow> False))"
proof (cases "be_GetConsoleRoute env w")
  case (Inl a)
  then show ?thesis using assms by (auto simp: retrieveConsoleURLAndSubdomain_def)
next
  case (Inr ings)
  show ?thesis
  proof (cases ings)
    case Nil
    then show ?thesis using assms Inr by (auto simp: retrieveConsoleURLAndSubdomain_def)
  next
    case (Cons x rest)
    obtain host canonical where x: "x = (host, canonical)" by (cases x)
    obtain ok domain err where gd: "GetDomain env inst w = (ok, domain, err)" by (metis prod.exhaust)
    have same: "GetDomain env (inst\<lparr>Spec := (Spec inst)\<lparr>MasterURL := host\<rparr>\<rparr>) w = GetDomain env inst w"
      by (simp add: GetDomain_def)
    note unf = assms [unfolded retrieveConsoleURLAndSubdomain_def Inr Cons x sum.case list.case prod.case Let_def same gd]
    show ?thesis
    proof (cases "err \<noteq> None \<and> \<not> ok")
      case True
      then show ?thesis using unf by auto
    next
      case False
      note r = unf [unfolded if_not_P [OF False]]
      show ?thesis
      proof (cases "ok \<and> domain \<noteq> ''''")
        case True
        with r show ?thesis by (auto simp: custom_domain_result Inr Cons x gd)
      next
        case custom: False
        from r [unfolded if_not_P [OF custom]]
        have "inst' = default_domain (TrimPrefix canonical ''router-default.'') (inst\<lparr>Spec := (Spec inst)\<lparr>MasterURL := host\<rparr>\<rparr>)"
          by simp
        with custom show ?thesis by (auto simp: default_domain_result Inr Cons x gd)
      qed
    qed
  qed
qed

theorem routing_subdomain_set_once_witness:
  "\<exists>inst'. retrieveConsoleURLAndSubdomain (sample_boot_env []) zero_rhmi None = ((PhaseCompleted, None), inst') \<and>
     CustomDomain (Status inst') = None \<and> RoutingSubdomain (Spec inst') = ''apps''"
proof -
  let ?r = "retrieveConsoleURLAndSubdomain (sample_boot_env []) zero_rhmi None"
  have "fst ?r = (PhaseCompleted, None)" and d: "CustomDomain (Status (snd ?r)) = None" by code_simp+
  then have r: "?r = ((PhaseCompleted, None), snd ?r)" by (metis prod.collapse)
  have "GetDomain (sample_boot_env []) zero_rhmi None = (False, '''', None)" by code_simp
  with routing_subdomain_set_once [OF r] d have "RoutingSubdomain (Spec (snd ?r)) = TrimPrefix ''router-default.apps'' ''router-default.''"
    by (simp add: sample_boot_env_def boot_env_with_def)
  also have "\<dots> = ''apps''" by (simp add: TrimPrefix_def)
  finally show ?thesis using r d by metis
qed

lemma ParameterValidation_fields:
  "ParameterValidation smtp = Valid \<longleftrightarrow>
     '''' \<notin> set [FromAddress smtp, Address smtp, Password smtp, Port smtp, Username smtp]"
  "ParameterValidation smtp = Blank \<longleftrightarrow>
     set [FromAddress smtp, Address smtp, Password smtp, Port smtp, Username smtp] = {''''}"
  by (auto simp: ParameterValidation_def check_field_def)

text \<open>
  Custom SMTP in the status after a run that completes: absent when none of the five add-on
  parameters is set, enabled when all are, present but disabled, with the missing ones named, in
  between.
\<close>

theorem reconcileCustomSMTP_status:
  assumes "reconcileCustomSMTP env inst w = ((PhaseCompleted, None), inst', w')"
  shows "\<exists>smtp. GetCustomAddonValues (be_client env) (Namespace inst) w = Inr smtp \<and>
     (let fields = set [FromAddress smtp, Address smtp, Password smtp, Port smtp, Username smtp] in
      CustomSmtp (Status inst') =
        (if fields = {''''} then None
         else Some \<lparr>Enabled = ('''' \<notin> fields), EnabledError = (if '''' \<notin> fields then ''''
           else ''Custom SMTP partially configured, missing fields: '' @ ParameterErrors smtp)\<rparr>))"
proof -
  obtain smtp where g: "GetCustomAddonValues (be_client env) (Namespace inst) w = Inr smtp"
    using assms by (auto simp: reconcileCustomSMTP_def split: sum.splits)
  let ?fs = "set [FromAddress smtp, Address smtp, Password smtp, Port smtp, Username smtp]"
  have "CustomSmtp (Status inst') =
        (if ?fs = {''''} then None
         else Some \<lparr>Enabled = ('''' \<notin> ?fs), EnabledError = (if '''' \<notin> ?fs then ''''
           else ''Custom SMTP partially configured, missing fields: '' @ ParameterErrors smtp)\<rparr>)"
    using assms g unfolding ParameterValidation_fields [symmetric]
    by (cases "ParameterValidation smtp")
      (auto simp: reconcileCustomSMTP_def set_custom_smtp_def split: prod.splits option.splits)
  then show ?thesis using g by (simp only: Let_def) blast
qed

theorem reconcileCustomSMTP_status_witness:
  "\<exists>inst' w'. reconcileCustomSMTP (sample_boot_env [(''custom-smtp-port'', ''25'')]) zero_rhmi None =
       ((PhaseCompleted, None), inst', w') \<and>
     CustomSmtp (Status inst') \<noteq> None"
proof -
  let ?env = "sample_boot_env [(''custom-smtp-port'', ''25'')]"
  let ?r = "reconcileCustomSMTP ?env zero_rhmi None"
  have "fst ?r = (PhaseCompleted, None)" by code_simp
  then obtain i w' where r: "?r = ((PhaseCompleted, None), i, w')" by (rule triple_eqE)
  have g: "GetCustomAddonValues (be_client ?env) (Namespace zero_rhmi) None = Inr smtp \<Longrightarrow> Port smtp = ''25''" for smtp
    by (auto simp: GetCustomAddonValues_def sample_boot_defs GetAddonParametersSecret_def zero_rhmi_def)
  have "CustomSmtp (Status i) \<noteq> None"
    using reconcileCustomSMTP_status [OF r] by (auto simp: Let_def dest: g)
  from conjI [OF r this] show ?thesis by (intro exI)
qed

text \<open>
  With no add-on parameter set and no custom SMTP in the status, a secret that cannot be
  removed makes the step dereference a nil pointer instead of reporting the error.
\<close>

theorem reconcileCustomSMTP_nil_dereference:
  assumes "GetCustomAddonValues (be_client env) (Namespace inst) w = Inr smtp"
    and "ParameterValidation smtp = Blank"
    and "DeleteCustomSMTP env (Namespace inst) w = ((phase, Some e), w')"
    and "CustomSmtp (Status inst) = None"
  shows "\<exists>ph pe. reconcileCustomSMTP env inst w = ((ph, Some pe), inst, w') \<and> is_panic pe"
  using assms by (simp add: reconcileCustomSMTP_def)

definition broken_secrets :: "Secret option boot_env \<Rightarrow> Secret option boot_env" where
  "broken_secrets env = env\<lparr>be_secrets := no_api\<rparr>"

theorem reconcileCustomSMTP_nil_dereference_witness:
  "\<exists>ph pe. reconcileCustomSMTP (broken_secrets (sample_boot_env [])) zero_rhmi None = ((ph, Some pe), zero_rhmi, None) \<and>
     is_panic pe"
  by (rule reconcileCustomSMTP_nil_dereference [where phase = PhaseFailed and e = "Msg ''unavailable''" and
        smtp = "\<lparr>FromAddress = '''', Address = '''', Password = '''', Port = '''', Username = ''''\<rparr>"])
    (simp_all add: broken_secrets_def sample_boot_defs GetCustomAddonValues_def GetAddonParametersSecret_def
      ParameterValidation_def check_field_def DeleteCustomSMTP_def zero_defs)

section \<open>The stage as a whole\<close>

lemma world_steps_keep:
  assumes "run_steps xs i q w = (r, i', q', w')" and "list_all (\<lambda>(m, f). \<exists>g. f = on_world g) xs"
  shows "i' = i \<and> q' = q"
  using assms
proof (induction xs arbitrary: i q w)
  case (Cons x xs)
  obtain m g where x: "x = (m, on_world g)" using Cons.prems(2) by auto
  obtain ph e i1 q1 w1 where f: "on_world g i q w = ((ph, e), i1, q1, w1)" by (metis prod.exhaust)
  with on_world_eq have "i1 = i" "q1 = q" by metis+
  then show ?case using Cons.IH [of i q w1] Cons.prems x f by (auto split: if_splits)
qed simp

lemma reconcileCustomSMTP_keeps:
  assumes "reconcileCustomSMTP env i w = (r, i', w')"
  shows "\<exists>v. i' = set_custom_smtp v i"
proof -
  have "i = set_custom_smtp (CustomSmtp (Status i)) i" by (simp add: set_custom_smtp_def)
  with assms show ?thesis
    by (auto simp: reconcileCustomSMTP_def split: sum.splits prod.splits option.splits ValidationResponse.splits)
qed

lemma Bootstrap_Reconcile_steps:
  assumes "Bootstrap_Reconcile env calls ns inst q w = ((PhaseCompleted, None), inst', q', w')"
  obtains w1 where "run_steps (bootstrap_steps env calls ns inst) inst q w = ((PhaseCompleted, None), inst', q', w1)"
proof -
  obtain ph e i1 q1 w1 where r: "run_steps (bootstrap_steps env calls ns inst) inst q w = ((ph, e), i1, q1, w1)"
    by (metis prod.exhaust)
  have prow: "list_all (\<lambda>(m, f). \<exists>g. f = on_world g) (prow_steps calls)"
    by (auto simp: prow_steps_def)
  have ok: "e = None" "ph = PhaseCompleted" using assms r by (auto simp: Bootstrap_Reconcile_def split: if_splits)
  have "i1 = inst' \<and> q1 = q'"
  proof (cases "IsInProw i1")
    case True
    then show ?thesis using assms r ok by (simp add: Bootstrap_Reconcile_def)
  next
    case False
    then have "run_steps (prow_steps calls) i1 q1 w1 = ((PhaseCompleted, None), inst', q', w')"
      using assms r ok by (simp add: Bootstrap_Reconcile_def)
    from world_steps_keep [OF this prow] show ?thesis by simp
  qed
  then show thesis using that r ok by simp
qed

text \<open>
  C3. A bootstrap stage that completes hands over to the products: the quota it read has a name
  and is either the one in the status or announced there as the next one, and the URL of the
  API server is known.
\<close>

theorem Bootstrap_Reconcile_completed:
  assumes "Bootstrap_Reconcile env calls ns inst q w = ((PhaseCompleted, None), inst', q', w')"
  shows "q_name q' \<noteq> '''' \<and> APIServer (Spec inst') \<noteq> '''' \<and>
     (if q_isUpdated q' then ToQuota (Status inst') else QuotaF (Status inst')) = q_name q'"
proof -
  obtain w1 where steps: "run_steps (bootstrap_steps env calls ns inst) inst q w = ((PhaseCompleted, None), inst', q', w1)"
    by (rule Bootstrap_Reconcile_steps [OF assms])
  then obtain i1 q1 u1 i2 q2 u2 i3 q3 u3 where
    api: "run_steps [(Some ''failed to retrieve API server URL'', on_inst (retrieveAPIServerURL env))] i1 q1 u1 = ((PhaseCompleted, None), i2, q2, u2)"
    and clus: "run_steps (cluster_steps env calls) i2 q2 u2 = ((PhaseCompleted, None), i3, q3, u3)"
    and last: "run_steps [(None, quota_step env ns),
      (Some ''reconciling custom SMTP has failed '', (\<lambda>i q w. case reconcileCustomSMTP env i w of (r, i', w') \<Rightarrow> (r, i', q, w')))]
      i3 q3 u3 = ((PhaseCompleted, None), inst', q', w1)"
    unfolding bootstrap_steps_def by (meson run_steps_append)
  have "APIServer (Spec i2) \<noteq> ''''"
    using api by (auto simp: on_inst_def retrieveAPIServerURL_def Let_def split: prod.splits sum.splits if_splits)
  moreover have "i3 = i2" using world_steps_keep [OF clus] by (auto simp: cluster_steps_def)
  moreover obtain i4 where pq: "processQuota env i3 ns q3 u3 = (None, i4, q')" and "\<exists>v. inst' = set_custom_smtp v i4"
    using last reconcileCustomSMTP_keeps [of env _ u3]
    by (auto simp: quota_step_def split: prod.splits option.splits if_splits)
  ultimately show ?thesis using processQuota_result [OF pq]
    by (auto simp: set_custom_smtp_def split: if_splits)
qed

definition sample_calls :: "'w boot_calls" where
  "sample_calls = (let ok = (\<lambda>i w. ((PhaseCompleted, None), w)) in
     \<lparr>ReconcileLimitRange = ok, setTenantMetrics = (\<lambda>w. None), reconcilerGithubOauthSecret = ok,
      checkRateLimitAlertsConfig = ok, ReconcileAlertManagerSecrets = ok, CreateSmtpSecretExists = ok,
      CreateDeadMansSnitchSecretExists = ok, CreateAddonManagedApiServiceParametersExists = ok,
      ReconcileAlerts = ok\<rparr>)"

theorem Bootstrap_Reconcile_completed_witness:
  "\<exists>inst' q' w'. Bootstrap_Reconcile (sample_boot_env [(QuotaParamName, ''1'')]) sample_calls ''ns'' zero_rhmi zero_quota None =
       ((PhaseCompleted, None), inst', q', w') \<and> q_name q' \<noteq> '''' \<and> APIServer (Spec inst') \<noteq> ''''"
proof -
  let ?r = "Bootstrap_Reconcile (sample_boot_env [(QuotaParamName, ''1'')]) sample_calls ''ns'' zero_rhmi zero_quota None"
  have "fst ?r = (PhaseCompleted, None)" by code_simp
  then obtain i qw where "?r = ((PhaseCompleted, None), i, qw)" by (rule triple_eqE)
  then obtain q w' where r: "?r = ((PhaseCompleted, None), i, q, w')" by (cases qw) simp
  from Bootstrap_Reconcile_completed [OF r] have "q_name q \<noteq> '''' \<and> APIServer (Spec i) \<noteq> ''''" by simp
  from conjI [OF r this] show ?thesis by (intro exI)
qed

end
