(* ===== verification/Uninstall.thy ===== *)
theory Uninstall
  imports Install_Stage Bootstrap
begin

text \<open>
  Deleting an installation: \<^verbatim>\<open>handleUninstall\<close>, \<^verbatim>\<open>handleUninstallProduct\<close>, \<^verbatim>\<open>handleUninstallBootstrap\<close>
  and \<^verbatim>\<open>handleCROConfigDeletion\<close> of \<^verbatim>\<open>rhmi_controller.go\<close>, and \<^verbatim>\<open>ReconcileFinalizer\<close> of
  \<^verbatim>\<open>pkg/resources/reconciler.go\<close>, which every product reconciler calls to register and to run its
  own clean-up. A run-time panic is the result \<open>None\<close>.
\<close>

section \<open>The finalizer of a product\<close>

abbreviation product_finalizer :: "ProductName \<Rightarrow> string" where
  "product_finalizer p \<equiv> p @ ''.integreatly.org'' @ ''/finalizer''"

text \<open>\<open>finalFunc\<close> is the product's clean-up.\<close>

definition ReconcileFinalizer ::
  "'w update_fn \<Rightarrow> (RHMI \<Rightarrow> 'w \<Rightarrow> (StatusPhase \<times> err option) \<times> RHMI \<times> 'w) \<Rightarrow> string \<Rightarrow> bool \<Rightarrow> RHMI \<Rightarrow> 'w \<Rightarrow>
   ((StatusPhase \<times> err option) \<times> RHMI \<times> 'w) option" where
  "ReconcileFinalizer upd finalFunc productName uninstall inst w =
     (let finalizer = product_finalizer productName in
      if uninstall then
        if Contains (Finalizers inst) finalizer then
          (case finalFunc inst w of
             ((phase, e), inst1, w1) \<Rightarrow>
               if e \<noteq> None \<or> phase \<noteq> PhaseCompleted then Some ((phase, e), inst1, w1)
               else (case Remove (Finalizers inst1) finalizer of
                       None \<Rightarrow> None
                     | Some fs \<Rightarrow> Some ((PhaseCompleted, None), inst1\<lparr>Finalizers := fs\<rparr>, w1)))
        else Some ((PhaseCompleted, None), inst, w)
      else
        (case UpdateFinalizer upd inst productName finalizer w of
           (Some e, inst1, w1) \<Rightarrow> Some ((PhaseFailed, Some e), inst1, w1)
         | (None, inst1, w1) \<Rightarrow>
             (case AddFinalizer upd inst1 finalizer w1 of
                (Some e, inst2, w2) \<Rightarrow> Some ((PhaseFailed, Some e), inst2, w2)
              | (None, inst2, w2) \<Rightarrow> Some ((PhaseCompleted, None), inst2, w2))))"

section \<open>Environment and state\<close>

record 'w uninstall_env =
  u_stage :: "'w stage_env"
  u_client :: "'w addon_client"
  u_subscriptionNames :: "string list"
  u_lookupEnv :: "string \<Rightarrow> string option"
  u_GetConfigMap :: "'w cm_op"
  u_ListAlerts :: "'w \<Rightarrow> err + string list"
  u_DeleteAlert :: "string \<Rightarrow> 'w \<Rightarrow> err option \<times> 'w"
  u_StatusUpdate :: "'w update_fn"
  u_Update :: "'w update_fn"
  u_DeleteConfigMap :: "string \<Rightarrow> string \<Rightarrow> 'w \<Rightarrow> err option \<times> 'w"
  u_CroConfig :: "(FConfigMap, 'w) kind_api"

record 'w ustate =
  u_inst :: RHMI
  u_merr :: MultiErr
  u_world :: 'w

definition add_err :: "err \<Rightarrow> 'w ustate \<Rightarrow> 'w ustate" where
  "add_err e s = s\<lparr>u_merr := u_merr s @ [err_string e]\<rparr>"

definition add_err_opt :: "string \<Rightarrow> err option \<Rightarrow> 'w ustate \<Rightarrow> 'w ustate" where
  "add_err_opt m e s = (case e of None \<Rightarrow> s | Some e \<Rightarrow> add_err (Wrap m e) s)"

section \<open>One product\<close>

text \<open>
  The loop over the finalizers as they were when the deletion started. A reconciler that cannot be
  built is nil and its call panics, except for an unknown product, whose stand-in reports no
  phase; without a server client the reconciler dereferences a nil interface.
\<close>

fun uninstall_product_loop ::
  "'w uninstall_env \<Rightarrow> ProductName \<Rightarrow> string list \<Rightarrow> RHMIProductStatus \<Rightarrow> 'w ustate \<Rightarrow> (bool \<times> 'w ustate) option" where
  "uninstall_product_loop env product [] ps s = Some (False, s)"
| "uninstall_product_loop env product (f # fs) ps s =
     (if \<not> StrContains f product then uninstall_product_loop env product fs ps s
      else
        (case NewReconciler (u_stage env) product (u_inst s) (u_world s) of
           Inl e \<Rightarrow>
             if product \<in> set known_products then None
             else Some (True, add_err_opt (''failed to create server client for '' @ product)
                          (NewClient (u_stage env) (u_world s))
                          (add_err (Wrap (''failed to build reconciler for product '' @ product) e) s))
         | Inr r \<Rightarrow>
             if NewClient (u_stage env) (u_world s) \<noteq> None then None
             else
               (case r_Reconcile r (u_inst s) ps zero_quota None
                       (p_Uninstall ps \<or> DeletionTimestamp (u_inst s) \<noteq> None) (u_world s) of
                  ((phase, e), inst', ps', w') \<Rightarrow>
                    (let s' = add_err_opt (''failed to reconcile product '' @ product) e
                                (s\<lparr>u_inst := inst', u_world := w'\<rparr>)
                     in if phase \<noteq> PhaseCompleted then Some (True, s')
                        else uninstall_product_loop env product fs ps' s'))))"

definition handleUninstallProduct ::
  "'w uninstall_env \<Rightarrow> string list \<Rightarrow> ProductName \<Rightarrow> 'w ustate \<Rightarrow> (bool \<times> 'w ustate) option" where
  "handleUninstallProduct env finalizers product s =
     uninstall_product_loop env product finalizers (GetProductStatusObject (u_inst s) product) s"

fun handleUninstallBootstrap ::
  "'w uninstall_env \<Rightarrow> string list \<Rightarrow> 'w ustate \<Rightarrow> (bool \<times> 'w ustate) option" where
  "handleUninstallBootstrap env [] s = Some (False, s)"
| "handleUninstallBootstrap env (f # fs) s =
     (if \<not> StrContains f ''observability'' then handleUninstallBootstrap env fs s
      else if NewBootstrap (u_stage env) (u_inst s) (u_world s) \<noteq> None \<or>
              NewClient (u_stage env) (u_world s) \<noteq> None then None
      else (case BootstrapReconcile (u_stage env) (u_inst s) zero_quota (u_world s) of
              ((phase, e), inst', q', w') \<Rightarrow>
                (let s' = add_err_opt ''failed to reconcile bootstrap'' e (s\<lparr>u_inst := inst', u_world := w'\<rparr>)
                 in if phase \<noteq> PhaseCompleted then Some (True, s')
                    else handleUninstallBootstrap env fs s')))"

section \<open>Stage after stage\<close>

text \<open>Every product of the stage is handled, whether or not one before it is still pending.\<close>

fun uninstall_products ::
  "'w uninstall_env \<Rightarrow> string list \<Rightarrow> ProductName list \<Rightarrow> bool \<Rightarrow> 'w ustate \<Rightarrow> (bool \<times> 'w ustate) option" where
  "uninstall_products env finalizers [] pending s = Some (pending, s)"
| "uninstall_products env finalizers (p # ps) pending s =
     (case handleUninstallProduct env finalizers p s of
        None \<Rightarrow> None
      | Some (productPending, s') \<Rightarrow>
          uninstall_products env finalizers ps (pending \<or> productPending) s')"

text \<open>One stage: whether it is done. A panic leaves no state.\<close>

definition uninstall_stage ::
  "'w uninstall_env \<Rightarrow> string list \<Rightarrow> Stage \<Rightarrow> 'w ustate option \<Rightarrow> bool \<times> Stage \<times> 'w ustate option" where
  "uninstall_stage env finalizers stage so =
     (case so of
        None \<Rightarrow> (False, stage, None)
      | Some s \<Rightarrow>
          (case (if st_Name stage = BootstrapStage then handleUninstallBootstrap env finalizers s
                 else uninstall_products env finalizers (map fst (st_Products stage)) False s) of
             None \<Rightarrow> (False, stage, None)
           | Some (pending, s') \<Rightarrow> (\<not> pending, stage, Some s')))"

fun uninstall_loop ::
  "'w uninstall_env \<Rightarrow> string list \<Rightarrow> Stage list \<Rightarrow> 'w ustate option \<Rightarrow> bool \<times> Stage list \<times> 'w ustate option" where
  "uninstall_loop env finalizers [] so = (True, [], so)"
| "uninstall_loop env finalizers (stage # stages) so =
     (case uninstall_stage env finalizers stage so of
        (False, stage', so') \<Rightarrow> (False, stage' # stages, so')
      | (True, stage', so') \<Rightarrow>
          (let (done, stages', so'') = uninstall_loop env finalizers stages so' in (done, stage' # stages', so'')))"

interpretation uninstall: staged "uninstall_stage env finalizers" "uninstall_loop env finalizers"
  by unfold_locales simp_all

section \<open>The cloud resource ConfigMap\<close>

definition handleCROConfigDeletion :: "'w uninstall_env \<Rightarrow> RHMI \<Rightarrow> 'w \<Rightarrow> (err option \<times> 'w) option" where
  "handleCROConfigDeletion env rhmi w =
     (case k_Get (u_CroConfig env)
             \<lparr>cm_Name = ''cloud-resource-config'', cm_Namespace = Namespace rhmi, cm_Data = None, cm_Finalizers = []\<rparr> w of
        (Some e, cm, w1) \<Rightarrow> Some (Some e, w1)
      | (None, cm, w1) \<Rightarrow>
          (let del = (\<lambda>c v. case k_Delete (u_CroConfig env) c v of
                      (Some e, v') \<Rightarrow> (if \<not> IsNotFound (Some e)
                         then Some (Wrap ''error occurred trying to delete cro config map,'' e) else None, v')
                    | (None, v') \<Rightarrow> (None, v'))
           in if Contains (cm_Finalizers cm) deletionFinalizer then
                (case Remove (cm_Finalizers cm) deletionFinalizer of
                   None \<Rightarrow> None
                 | Some fs \<Rightarrow>
                     (case k_Update (u_CroConfig env) (cm\<lparr>cm_Finalizers := fs\<rparr>) w1 of
                        (Some e, cm2, w2) \<Rightarrow> Some (Some (Wrap ''error occurred trying to update cro config map'' e), w2)
                      | (None, cm2, w2) \<Rightarrow> Some (del cm2 w2)))
              else Some (del cm w1)))"

section \<open>The handler\<close>

fun delete_alerts :: "'w uninstall_env \<Rightarrow> string list \<Rightarrow> 'w \<Rightarrow> err option \<times> 'w" where
  "delete_alerts env [] w = (None, w)"
| "delete_alerts env (a # as) w =
     (case u_DeleteAlert env a w of (Some e, w') \<Rightarrow> (Some e, w') | (None, w') \<Rightarrow> delete_alerts env as w')"

definition set_lastError :: "string \<Rightarrow> RHMI \<Rightarrow> RHMI" where
  "set_lastError m inst = inst\<lparr>Status := (Status inst)\<lparr>LastError := m\<rparr>\<rparr>"

text \<open>A failed clean-up: the error is put into the status of the object, which is sent, and returned.\<close>

definition fail_with :: "'w uninstall_env \<Rightarrow> err \<Rightarrow> 'w ustate \<Rightarrow> (ctrl_result \<times> err option) \<times> RHMI \<times> 'w" where
  "fail_with env e s =
     (let s1 = add_err e s;
          (e2, inst2, w2) = u_Update env (set_lastError (MultiErr_Error (u_merr s1)) (u_inst s1)) (u_world s1);
          merr = u_merr s1 @ (case e2 of None \<Rightarrow> [] | Some x \<Rightarrow> [err_string x])
      in ((no_requeue, Some (Msg (MultiErr_Error merr))), inst2, w2))"

text \<open>All product stages are done and only the operator's own finalizer is left.\<close>

definition finish_uninstall ::
  "'w uninstall_env \<Rightarrow> string \<Rightarrow> 'w ustate \<Rightarrow> ((ctrl_result \<times> err option) \<times> RHMI \<times> 'w) option" where
  "finish_uninstall env cfgMapName s =
     (case u_DeleteConfigMap env (Namespace (u_inst s)) cfgMapName (u_world s) of (e, w1) \<Rightarrow>
        if e \<noteq> None \<and> \<not> IsNotFound e then
          Some (fail_with env (Wrap ''failed to remove installation ConfigMap'' (the e)) (s\<lparr>u_world := w1\<rparr>))
        else
          (case handleCROConfigDeletion env (u_inst s) w1 of
             None \<Rightarrow> None
           | Some (e, w2) \<Rightarrow>
               if e \<noteq> None \<and> \<not> IsNotFound e then
                 Some (fail_with env (Wrap ''failed to remove Cloud Resource ConfigMap'' (the e)) (s\<lparr>u_world := w2\<rparr>))
               else
                 (case Remove (Finalizers (u_inst s)) deletionFinalizer of
                    None \<Rightarrow> None
                  | Some fs \<Rightarrow>
                      (case u_Update env ((u_inst s)\<lparr>Finalizers := fs\<rparr>) w2 of
                         (Some e, inst3, w3) \<Rightarrow>
                           Some ((no_requeue, Some (Msg (MultiErr_Error (u_merr s @ [err_string e])))), inst3, w3)
                       | (None, inst3, w3) \<Rightarrow>
                           (case UninstallOperator (u_client env) (u_subscriptionNames env) inst3 w3 of
                              (Some e, w4) \<Rightarrow>
                                Some ((no_requeue, Some (Msg (MultiErr_Error (u_merr s @ [err_string e])))), inst3, w4)
                            | (None, w4) \<Rightarrow> Some ((no_requeue, None), inst3, w4))))))"

text \<open>A stage is still pending: errors go to the status, the object is sent, the request comes back later.\<close>

definition pending_uninstall :: "'w uninstall_env \<Rightarrow> 'w ustate \<Rightarrow> (ctrl_result \<times> err option) \<times> RHMI \<times> 'w" where
  "pending_uninstall env s =
     (let (inst1, w1) =
            (if u_merr s \<noteq> [] then
               (case u_StatusUpdate env (set_lastError (MultiErr_Error (u_merr s)) (u_inst s)) (u_world s) of
                  (e, i, w) \<Rightarrow> (i, w))
             else (u_inst s, u_world s));
          (e2, inst2, w2) = u_Update env inst1 w1
      in ((retryRequeue, None), inst2, w2))"

definition cfg_map_name :: "(string \<Rightarrow> string option) \<Rightarrow> RHMI \<Rightarrow> string" where
  "cfg_map_name lookupEnv inst =
     (case lookupEnv ''INSTALLATION_CONFIG_MAP'' of
        None \<Rightarrow> NamespacePrefix (Spec inst) @ ''installation-config''
      | Some v \<Rightarrow> if v = '''' then NamespacePrefix (Spec inst) @ ''installation-config'' else v)"

definition handleUninstall ::
  "'w uninstall_env \<Rightarrow> InstallType \<Rightarrow> RHMI \<Rightarrow> 'w \<Rightarrow> ((ctrl_result \<times> err option) \<times> RHMI \<times> 'w) option" where
  "handleUninstall env ty inst w =
     (let name = cfg_map_name (u_lookupEnv env) inst in
      case NewManager (u_GetConfigMap env) (Namespace inst) name w of
        (Inl e, w1) \<Rightarrow> Some ((no_requeue, Some e), inst, w1)
      | (Inr m, w1) \<Rightarrow>
          (case u_ListAlerts env w1 of
             Inl e \<Rightarrow> Some ((no_requeue, Some e), inst, w1)
           | Inr alerts \<Rightarrow>
               (case delete_alerts env alerts w1 of
                  (Some e, w2) \<Rightarrow> Some ((no_requeue, Some e), inst, w2)
                | (None, w2) \<Rightarrow>
                    (let inst1 = inst\<lparr>Status := (Status inst)\<lparr>RHMIStatus.Stage := ''deletion'', LastError := ''''\<rparr>\<rparr>
                     in case uninstall_loop env (Finalizers inst) (UninstallStages ty)
                               (Some \<lparr>u_inst = inst1, u_merr = [], u_world = w2\<rparr>) of
                          (done, stages, None) \<Rightarrow> None
                        | (done, stages, Some s) \<Rightarrow>
                            if \<not> done then Some (pending_uninstall env s)
                            else if Finalizers (u_inst s) = [deletionFinalizer] then finish_uninstall env name s
                            else
                              (case u_Update env (u_inst s) (u_world s) of
                                 (Some e, inst2, w3) \<Rightarrow> Some ((no_requeue, Some e), inst2, w3)
                               | (None, inst2, w3) \<Rightarrow> Some ((retryRequeue, None), inst2, w3))))))"

section \<open>Properties\<close>

lemma uninstall_product_loop_skips:
  "\<forall>f \<in> set fs. \<not> StrContains f p \<Longrightarrow> uninstall_product_loop env p fs ps s = Some (False, s)"
  by (induction fs) auto

text \<open>
  C7. The finalizer of a product guards its clean-up: on installation it is registered; on
  removal, with a list without repetitions and a clean-up that leaves the list alone, the step
  never panics, the finalizer goes exactly when the clean-up itself answers that it is completed
  without an error, no other finalizer is touched, and while the finalizer is there the caller is
  told what the clean-up answered.
\<close>

theorem ReconcileFinalizer_guards:
  assumes upd: "update_keeps_finalizers upd"
    and del: "\<And>i w e i' w'. upd i w = (e, i', w') \<Longrightarrow> DeletionTimestamp i' = DeletionTimestamp i"
    and fin: "\<And>i w r i' w'. finalFunc i w = (r, i', w') \<Longrightarrow> Finalizers i' = Finalizers i"
    and dist: "distinct (Finalizers inst)"
  shows "\<exists>phase e inst' w'. ReconcileFinalizer upd finalFunc p uninstall inst w = Some ((phase, e), inst', w') \<and>
     (if uninstall then
        set (Finalizers inst') = set (Finalizers inst) -
          (if fst (finalFunc inst w) = (PhaseCompleted, None) then {product_finalizer p} else {}) \<and>
        (product_finalizer p \<in> set (Finalizers inst) \<longrightarrow> (phase, e) = fst (finalFunc inst w))
      else phase = PhaseCompleted \<and> DeletionTimestamp inst = None \<longrightarrow> product_finalizer p \<in> set (Finalizers inst'))"
proof (cases uninstall)
  case True
  obtain ph e i1 w1 where f: "finalFunc inst w = ((ph, e), i1, w1)" by (metis prod.exhaust)
  have fs: "Finalizers i1 = Finalizers inst" by (rule fin [OF f])
  then obtain gs where r: "Remove (Finalizers i1) (product_finalizer p) = Some gs"
    "set gs = set (Finalizers inst) - {product_finalizer p}"
    using slice.remove [OF dist, of "product_finalizer p"] by auto
  show ?thesis using True f fs r
    by (auto simp: ReconcileFinalizer_def Let_def)
next
  case False
  obtain e1 i1 w1 where u: "UpdateFinalizer upd inst p (product_finalizer p) w = (e1, i1, w1)" by (metis prod.exhaust)
  then have "DeletionTimestamp i1 = DeletionTimestamp inst"
    by (auto simp: UpdateFinalizer_def Let_def dest: del split: if_splits)
  moreover obtain e2 i2 w2 where a: "AddFinalizer upd i1 (product_finalizer p) w1 = (e2, i2, w2)" by (metis prod.exhaust)
  ultimately show ?thesis using False u AddFinalizer_member [OF upd _ a]
    by (cases e1; cases e2) (auto simp: ReconcileFinalizer_def Let_def)
qed

definition sample_deleted :: RHMI where
  "sample_deleted = zero_rhmi\<lparr>Finalizers := [product_finalizer ProductRHSSO, product_finalizer ProductRHSSOUser]\<rparr>"

theorem ReconcileFinalizer_guards_witness:
  "\<exists>phase e inst' w'. ReconcileFinalizer (\<lambda>i w. (None, i, w)) (\<lambda>i w. ((PhaseCompleted, None), i, w)) ProductRHSSO True
      sample_deleted () = Some ((phase, e), inst', w') \<and>
      set (Finalizers inst') = set (Finalizers sample_deleted) - {product_finalizer ProductRHSSO} \<and>
      phase = PhaseCompleted \<and> e = None"
proof -
  have u: "update_keeps_finalizers (\<lambda>i (w :: unit). (None, i, w))" by (simp add: update_keeps_finalizers_def)
  have d: "distinct (Finalizers sample_deleted)" by (simp add: sample_deleted_def)
  show ?thesis
    using ReconcileFinalizer_guards [OF u _ _ d, of "\<lambda>i w. ((PhaseCompleted, None), i, w)" ProductRHSSO True "()"]
    by (simp add: sample_deleted_def)
qed


definition sample_uninstall_env :: "nat uninstall_env" where
  "sample_uninstall_env = \<lparr>u_stage = sample_env, u_client = sample_client [], u_subscriptionNames = [],
     u_lookupEnv = (\<lambda>n. None), u_GetConfigMap = (\<lambda>c w. (None, c, w)), u_ListAlerts = (\<lambda>w. Inr []),
     u_DeleteAlert = (\<lambda>a w. (None, w)), u_StatusUpdate = (\<lambda>i w. (None, i, w)), u_Update = (\<lambda>i w. (None, i, w)),
     u_DeleteConfigMap = (\<lambda>ns n w. (None, w)), u_CroConfig = empty_api\<rparr>"

definition sample_ustate :: "nat ustate" where
  "sample_ustate = \<lparr>u_inst = zero_rhmi\<lparr>DeletionTimestamp := Some 0\<rparr>, u_merr = [], u_world = 0\<rparr>"


text \<open>
  Which product a finalizer selects: the handler looks for the product's name anywhere in the
  finalizer. Of the finalizers of the six products each selects its own product, and the one of
  the user SSO selects the cluster SSO as well.
\<close>

theorem finalizer_selects:
  "list_all (\<lambda>p. list_all (\<lambda>p'. StrContains (product_finalizer p) p' \<longleftrightarrow>
      p = p' \<or> (p = ProductRHSSOUser \<and> p' = ProductRHSSO)) known_products) known_products"
  by code_simp

lemma finish_uninstall_ok:
  assumes "finish_uninstall env name s = Some ((res, None), inst', w')"
    and "update_keeps_finalizers (u_Update env)"
    and "Finalizers (u_inst s) = [deletionFinalizer]"
  shows "res = no_requeue \<and> Finalizers inst' = []"
proof -
  have rm: "Remove [deletionFinalizer] deletionFinalizer = Some []"
    using Remove_once [of deletionFinalizer "[]" "[]"] by simp
  obtain w2 e3 i3 w3 where u: "u_Update env ((u_inst s)\<lparr>Finalizers := []\<rparr>) w2 = (e3, i3, w3)"
    and "res = no_requeue" and "inst' = i3"
    using assms(1) rm assms(3)
    by (auto simp: finish_uninstall_def fail_with_def Let_def split: prod.splits if_splits option.splits)
  then show ?thesis using update_keeps_finalizersD [OF assms(2) u] by simp
qed

text \<open>
  C5. An uninstall is reported as finished, with neither an error nor a new request, only when
  every uninstall stage is done and the operator's own finalizer was the only one left; the
  object that was then sent has no finalizer any more.
\<close>

theorem handleUninstall_finished:
  assumes "handleUninstall env ty inst w = Some ((no_requeue, None), inst', w')"
    and "update_keeps_finalizers (u_Update env)"
  shows "Finalizers inst' = [] \<and>
     (\<exists>s0 stages s. u_inst s0 = inst\<lparr>Status := (Status inst)\<lparr>RHMIStatus.Stage := ''deletion'', LastError := ''''\<rparr>\<rparr> \<and>
        uninstall_loop env (Finalizers inst) (UninstallStages ty) (Some s0) = (True, stages, Some s) \<and>
        Finalizers (u_inst s) = [deletionFinalizer])"
proof -
  obtain w2 stages so b where
    loop: "uninstall_loop env (Finalizers inst) (UninstallStages ty)
       (Some \<lparr>u_inst = inst\<lparr>Status := (Status inst)\<lparr>RHMIStatus.Stage := ''deletion'', LastError := ''''\<rparr>\<rparr>, u_merr = [], u_world = w2\<rparr>) =
       (b, stages, so)"
    and rest: "(case so of None \<Rightarrow> None | Some s \<Rightarrow>
        if \<not> b then Some (pending_uninstall env s)
        else if Finalizers (u_inst s) = [deletionFinalizer] then finish_uninstall env (cfg_map_name (u_lookupEnv env) inst) s
        else (case u_Update env (u_inst s) (u_world s) of
                (Some e, inst2, w3) \<Rightarrow> Some ((no_requeue, Some e), inst2, w3)
              | (None, inst2, w3) \<Rightarrow> Some ((retryRequeue, None), inst2, w3))) = Some ((no_requeue, None), inst', w')"
    using assms(1) by (auto simp: handleUninstall_def Let_def split: prod.splits sum.splits option.splits)
  then obtain s where so: "so = Some s" by (cases so) auto
  have "b" and f: "Finalizers (u_inst s) = [deletionFinalizer]"
    and fin: "finish_uninstall env (cfg_map_name (u_lookupEnv env) inst) s = Some ((no_requeue, None), inst', w')"
    using rest so by (auto simp: pending_uninstall_def Let_def split: if_splits prod.splits option.splits)
  from finish_uninstall_ok [OF fin assms(2) f] loop so \<open>b\<close> f show ?thesis
    by (intro conjI exI) auto
qed

theorem handleUninstall_finished_witness:
  "\<exists>inst' w'. handleUninstall sample_uninstall_env allManagedApiStages
       (zero_rhmi\<lparr>DeletionTimestamp := Some 0, Finalizers := [deletionFinalizer]\<rparr>) 0 = Some ((no_requeue, None), inst', w') \<and>
     Finalizers inst' = []"
proof -
  let ?r = "handleUninstall sample_uninstall_env allManagedApiStages
       (zero_rhmi\<lparr>DeletionTimestamp := Some 0, Finalizers := [deletionFinalizer]\<rparr>) 0"
  have ok: "map_option fst ?r = Some (no_requeue, None)" by code_simp
  then obtain x where x: "?r = Some x" "fst x = (no_requeue, None)" by (cases ?r) auto
  from x(2) obtain i w' where "x = ((no_requeue, None), i, w')" by (rule triple_eqE)
  with x have r: "?r = Some ((no_requeue, None), i, w')" by simp
  have u: "update_keeps_finalizers (u_Update sample_uninstall_env)"
    by (simp add: sample_uninstall_env_def update_keeps_finalizers_def)
  from handleUninstall_finished [OF r u] have "Finalizers i = []" by (rule conjunct1)
  from conjI [OF r this] show ?thesis by (intro exI)
qed

end
