(* ===== verification/Preflight.thy ===== *)
theory Preflight
  imports Uninstall
begin

text \<open>
  The preflight checks of \<^verbatim>\<open>rhmi_controller.go\<close>: environment variables, storage, required secrets,
  the quota parameter, products already present in the cluster, and the observability package.
\<close>

section \<open>Environment variables\<close>

type_synonym env_check = "string option \<Rightarrow> err option"

definition optionalEnvVar :: "(string \<Rightarrow> err option) \<Rightarrow> env_check" where
  "optionalEnvVar check v = (case v of None \<Rightarrow> None | Some s \<Rightarrow> check s)"

definition requiredEnvVar :: "(string \<Rightarrow> err option) \<Rightarrow> env_check" where
  "requiredEnvVar check v = (case v of None \<Rightarrow> Some (Msg ''required env var not present'') | Some s \<Rightarrow> check s)"

fun checkEnvVars :: "(string \<Rightarrow> string option) \<Rightarrow> (string \<times> env_check) list \<Rightarrow> err option" where
  "checkEnvVars lookupEnv [] = None"
| "checkEnvVars lookupEnv ((env, check) # checks) =
     (case check (lookupEnv env) of
        Some e \<Rightarrow> Some (Wrap (''validation failure for env var '' @ env) e)
      | None \<Rightarrow> checkEnvVars lookupEnv checks)"

abbreviation AntiAffinityRequiredEnvVar :: string where
  "AntiAffinityRequiredEnvVar \<equiv> ''FORCED_DISTRIBUTION''"

definition env_checks :: "(string \<times> env_check) list" where
  "env_checks =
     [(AntiAffinityRequiredEnvVar, optionalEnvVar (\<lambda>s. case ParseBool s of
         None \<Rightarrow> Some (Msg (''strconv.ParseBool: parsing '' @ s)) | Some b \<Rightarrow> None)),
      (''ALERT_SMTP_FROM'', requiredEnvVar (\<lambda>s. if s = '''' then Some (Msg '' env var ALERT_SMTP_FROM is required '') else None))]"

section \<open>The observability package\<close>

record ClusterPackage =
  pkg_Generation :: int
  pkg_Conditions :: "Condition list"

fun hasMatchingCondition :: "Condition list \<Rightarrow> string \<Rightarrow> ConditionStatus \<Rightarrow> int \<Rightarrow> bool" where
  "hasMatchingCondition [] t s g = False"
| "hasMatchingCondition (c # cs) t s g =
     (if c_Type c = t \<and> c_Status c = s \<and> c_ObservedGeneration c = g then True
      else hasMatchingCondition cs t s g)"

definition isPackageReady :: "ClusterPackage \<Rightarrow> bool" where
  "isPackageReady pkg \<longleftrightarrow>
     hasMatchingCondition (pkg_Conditions pkg) ''Available'' ConditionTrue (pkg_Generation pkg) \<and>
     hasMatchingCondition (pkg_Conditions pkg) ''Progressing'' ConditionFalse (pkg_Generation pkg)"

section \<open>Environment\<close>

record 'w preflight_env =
  pf_boot :: "'w boot_env"
  pf_stage :: "'w stage_env"
  pf_GetSecret :: "string \<Rightarrow> string \<Rightarrow> 'w \<Rightarrow> err option"
  pf_ListNamespaces :: "'w \<Rightarrow> err + string list"
  pf_GetObject :: "string \<Rightarrow> 'w \<Rightarrow> err option"
  pf_GetCredentialsMode :: "'w \<Rightarrow> err + string"
  pf_GetOboClusterPackage :: "'w \<Rightarrow> err + ClusterPackage"
  pf_StatusUpdate :: "'w update_fn"

definition checkClusterPackageAvailablity :: "'w preflight_env \<Rightarrow> 'w \<Rightarrow> err option" where
  "checkClusterPackageAvailablity env w =
     (case pf_GetOboClusterPackage env w of
        Inl e \<Rightarrow> Some (Wrap ''failed to get ClusterPackage'' e)
      | Inr pkg \<Rightarrow> if \<not> isPackageReady pkg
          then Some (Msg ''error: package is not ready (Available=True, Progressing=False required)'') else None)"

definition IsClusterSTS :: "'w preflight_env \<Rightarrow> 'w \<Rightarrow> err + bool" where
  "IsClusterSTS env w = map_sum id (\<lambda>mode. mode = ''Manual'') (pf_GetCredentialsMode env w)"

section \<open>Products already present\<close>

text \<open>The products of the stages, in order; the value of a product's entry carries its name.\<close>

fun found_products :: "'w preflight_env \<Rightarrow> string \<Rightarrow> RHMI \<Rightarrow> ProductName list \<Rightarrow> 'w \<Rightarrow> err + string list" where
  "found_products env ns inst [] w = Inr []"
| "found_products env ns inst (p # ps) w =
     (case NewReconciler (pf_stage env) p inst w of
        Inl e \<Rightarrow> Inl e
      | Inr r \<Rightarrow>
          (case r_GetPreflightObject r ns of
             None \<Rightarrow> found_products env ns inst ps w
           | Some obj \<Rightarrow>
               (case Exists (pf_GetObject env obj w) of
                  Inl e \<Rightarrow> Inl e
                | Inr found \<Rightarrow>
                    map_sum id (\<lambda>rest. if found then p # rest else rest) (found_products env ns inst ps w))))"

definition checkNamespaceForProducts ::
  "'w preflight_env \<Rightarrow> string \<Rightarrow> RHMI \<Rightarrow> InstallType \<Rightarrow> 'w \<Rightarrow> err + string list" where
  "checkNamespaceForProducts env ns inst ty w =
     (if HasPrefix ns ''openshift-'' then Inr []
      else if HasPrefix ns ''kube-'' then Inr []
      else (case NewClient (pf_stage env) w of
              Some e \<Rightarrow> Inl e
            | None \<Rightarrow> found_products env ns inst
                (concat (map (\<lambda>s. map (p_Name \<circ> snd) (st_Products s)) (InstallStages ty))) w))"

text \<open>\<open>Inr None\<close>: no conflict in any of the namespaces.\<close>

fun find_conflict ::
  "'w preflight_env \<Rightarrow> string list \<Rightarrow> RHMI \<Rightarrow> InstallType \<Rightarrow> 'w \<Rightarrow> err + (string list \<times> string) option" where
  "find_conflict env [] inst ty w = Inr None"
| "find_conflict env (ns # nss) inst ty w =
     (case checkNamespaceForProducts env ns inst ty w of
        Inl e \<Rightarrow> Inl e
      | Inr nsProducts \<Rightarrow>
          if nsProducts \<noteq> [] then Inr (Some (nsProducts, ns)) else find_conflict env nss inst ty w)"

section \<open>The quota check\<close>

text \<open>The message of the check; the empty message lets it pass.\<close>

definition quota_check :: "'w preflight_env \<Rightarrow> RHMI \<Rightarrow> 'w \<Rightarrow> err + string" where
  "quota_check env inst w =
     (let cl = be_client (pf_boot env) in
      case ExistsParameterByInstallation cl inst QuotaParamName w of
        Inl e \<Rightarrow> Inl e
      | Inr True \<Rightarrow> Inr ''''
      | Inr False \<Rightarrow>
          (case ExistsParameterByInstallation cl inst TrialQuotaParamName w of
             Inl e \<Rightarrow> Inl e
           | Inr True \<Rightarrow> Inr ''''
           | Inr False \<Rightarrow>
               Inr (if \<not> isInstallationOlderThan1Minute (be_now (pf_boot env)) inst
                    then ''quota parameter not found, waiting 1 minute before defaulting to env var''
                    else if be_lookupEnv (pf_boot env) ''QUOTA'' \<in> {None, Some ''''}
                    then ''quota parameter not found from add-on or env var''
                    else '''')))"

section \<open>The checks\<close>

text \<open>A failed check: status and message are recorded and sent; the error is that of the sending.\<close>

definition set_preflight :: "PreflightStatus \<Rightarrow> string \<Rightarrow> RHMI \<Rightarrow> RHMI" where
  "set_preflight st m inst =
     inst\<lparr>Status := (Status inst)\<lparr>PreflightStatusF := st, PreflightMessage := m\<rparr>\<rparr>"

definition preflight_fail ::
  "'w preflight_env \<Rightarrow> string \<Rightarrow> RHMI \<Rightarrow> 'w \<Rightarrow> (ctrl_result \<times> err option) \<times> RHMI \<times> 'w" where
  "preflight_fail env m inst w =
     (case pf_StatusUpdate env (set_preflight PreflightFail m inst) w of
        (e, inst', w') \<Rightarrow> ((retryRequeue, e), inst', w'))"

definition preflight_success ::
  "'w preflight_env \<Rightarrow> RHMI \<Rightarrow> 'w \<Rightarrow> (ctrl_result \<times> err option) \<times> RHMI \<times> 'w" where
  "preflight_success env inst w =
     (case pf_StatusUpdate env (set_preflight PreflightSuccess ''preflight checks passed'' inst) w of
        (e, inst', w') \<Rightarrow> ((retryRequeue, None), inst', w'))"

definition preflightChecks ::
  "'w preflight_env \<Rightarrow> (string \<times> env_check) list \<Rightarrow> InstallType \<Rightarrow> RHMI \<Rightarrow> 'w \<Rightarrow>
   (ctrl_result \<times> err option) \<times> RHMI \<times> 'w" where
  "preflightChecks env checks ty inst0 w =
     (let inst = inst0\<lparr>Status := (Status inst0)\<lparr>RHMIStatus.Stage := ''Preflight Checks''\<rparr>\<rparr>;
          ucs = ToLower (UseClusterStorage (Spec inst))
      in case checkEnvVars (be_lookupEnv (pf_boot env)) checks of
        Some e \<Rightarrow> ((retryRequeue, Some e), inst, w)
      | None \<Rightarrow>
        if ucs \<noteq> ''true'' \<and> ucs \<noteq> ''false'' then
          preflight_fail env ''Spec.useClusterStorage must be set to either 'true' or 'false' to continue'' inst w
        else (case Exists (pf_GetSecret env (Namespace inst) (PagerDutySecret (Spec inst)) w) of
          Inl e \<Rightarrow> ((no_requeue, Some e), inst, w)
        | Inr False \<Rightarrow>
            preflight_fail env (''Could not find '' @ PagerDutySecret (Spec inst) @ '' secret in ''
              @ Namespace inst @ '' namespace'') inst w
        | Inr True \<Rightarrow>
          (case quota_check env inst w of
            Inl e \<Rightarrow> ((retryRequeue, Some e), inst, w)
          | Inr message \<Rightarrow>
            if message \<noteq> '''' then preflight_fail env message inst w
            else (case pf_ListNamespaces env w of
              Inl e \<Rightarrow> ((retryRequeue, Some e), inst, w)
            | Inr namespaces \<Rightarrow>
              (case find_conflict env namespaces inst ty w of
                Inl e \<Rightarrow> ((retryRequeue, Some e), inst, w)
              | Inr (Some (nsProducts, ns)) \<Rightarrow>
                  preflight_fail env (''found conflicting packages: '' @ Join nsProducts '', '' @ '', in namespace: '' @ ns) inst w
              | Inr None \<Rightarrow>
                (case IsClusterSTS env w of
                  Inl e \<Rightarrow> ((retryRequeue, Some e), inst, w)
                | Inr isSTS \<Rightarrow>
                  if \<not> IsInProw inst \<and> checkClusterPackageAvailablity env w \<noteq> None then
                    preflight_fail env ''error validating cluster package availability'' inst w
                  else preflight_success env inst w))))))"

section \<open>Lemmas\<close>

abbreviation stage_product_names :: "InstallType \<Rightarrow> ProductName list" where
  "stage_product_names ty \<equiv> concat (map (\<lambda>s. map (p_Name \<circ> snd) (st_Products s)) (InstallStages ty))"

lemma found_products_Nil:
  assumes "found_products env ns inst ps w = Inr []" and "p \<in> set ps"
  shows "\<exists>r. NewReconciler (pf_stage env) p inst w = Inr r \<and>
     (\<forall>obj. r_GetPreflightObject r ns = Some obj \<longrightarrow> IsNotFound (pf_GetObject env obj w))"
  using assms
proof (induction ps)
  case (Cons q ps)
  obtain r where r: "NewReconciler (pf_stage env) q inst w = Inr r"
    using Cons.prems(1) by (auto split: sum.splits)
  have rest: "found_products env ns inst ps w = Inr []"
    and here: "\<forall>obj. r_GetPreflightObject r ns = Some obj \<longrightarrow> IsNotFound (pf_GetObject env obj w)"
    using Cons.prems(1) r
    by (auto simp: Exists_def map_sum_def split: sum.splits option.splits if_splits)
  show ?case using Cons.IH [OF rest] Cons.prems(2) r here by auto
qed simp

lemma find_conflict_None:
  assumes "find_conflict env nss inst ty w = Inr None" and "ns \<in> set nss"
  shows "checkNamespaceForProducts env ns inst ty w = Inr []"
  using assms by (induction nss) (auto split: sum.splits if_splits)

text \<open>A namespace of the platform is not searched; in any other no product may be present.\<close>

lemma no_conflict:
  assumes "find_conflict env nss inst ty w = Inr None" and "ns \<in> set nss"
    and "\<not> HasPrefix ns ''openshift-''" and "\<not> HasPrefix ns ''kube-''"
    and "p \<in> set (stage_product_names ty)"
  shows "\<exists>r. NewReconciler (pf_stage env) p inst w = Inr r \<and>
     (\<forall>obj. r_GetPreflightObject r ns = Some obj \<longrightarrow> IsNotFound (pf_GetObject env obj w))"
proof -
  have "found_products env ns inst (stage_product_names ty) w = Inr []"
    using find_conflict_None [OF assms(1,2)] assms(3,4)
    by (simp add: checkNamespaceForProducts_def split: option.splits)
  then show ?thesis using assms(5) by (rule found_products_Nil)
qed

lemma preflight_fail_status:
  assumes "\<And>i w e i' w'. pf_StatusUpdate env i w = (e, i', w') \<Longrightarrow> Status i' = Status i"
    and "preflight_fail env m inst w = (r, inst', w')"
  shows "PreflightStatusF (Status inst') = PreflightFail"
  using assms(2) by (auto simp: preflight_fail_def set_preflight_def dest: assms(1) split: prod.splits)

section \<open>Properties\<close>


definition preflight_env_with :: "'w boot_env \<Rightarrow> 'w preflight_env" where
  "preflight_env_with boot = \<lparr>pf_boot = boot\<lparr>be_lookupEnv := (\<lambda>n. if n = ''ALERT_SMTP_FROM'' then Some ''x'' else None)\<rparr>,
     pf_stage = \<lparr>NewReconciler = (\<lambda>p i w. Inr \<lparr>r_Reconcile = (\<lambda>i ps q pc u w. ((PhaseCompleted, None), i, ps, w)),
          r_VerifyVersion = (\<lambda>i. True), r_GetPreflightObject = (\<lambda>n. Some n)\<rparr>),
        NewClient = (\<lambda>w. None), ReadProductCfg = (\<lambda>p w. Inl (Msg '''')),
        PrepareInformer = (\<lambda>c n w. (None, w)), WaitForCacheSync = (\<lambda>c n w. (True, w)),
        HasSynced = (\<lambda>c n w. True), NewBootstrap = (\<lambda>i w. None),
        BootstrapReconcile = (\<lambda>i q w. ((PhaseCompleted, None), i, q, w))\<rparr>,
     pf_GetSecret = (\<lambda>ns n w. None), pf_ListNamespaces = (\<lambda>w. Inr [''kube-system'', ''shop'']),
     pf_GetObject = (\<lambda>n w. Some (ApiErr NotFound '''')), pf_GetCredentialsMode = (\<lambda>w. Inr ''Manual''),
     pf_GetOboClusterPackage = (\<lambda>w. Inr \<lparr>pkg_Generation = 0, pkg_Conditions =
        [mk_condition ''Available'' ConditionTrue '''' '''', mk_condition ''Progressing'' ConditionFalse '''' '''']\<rparr>),
     pf_StatusUpdate = (\<lambda>i w. (None, i, w))\<rparr>"

definition sample_preflight_env :: "secret_data \<Rightarrow> Secret option preflight_env" where
  "sample_preflight_env d = preflight_env_with (sample_boot_env d)"

definition sample_rhmi :: RHMI where
  "sample_rhmi = zero_rhmi\<lparr>Spec := zero_spec\<lparr>UseClusterStorage := ''True''\<rparr>\<rparr>"


lemma quota_check_cases:
  assumes "GetAddonParametersSecret (be_client (pf_boot env)) (Namespace inst) w = Inr d"
  shows "quota_check env inst w = Inr '''' \<longleftrightarrow>
     map_of d QuotaParamName \<noteq> None \<or> map_of d TrialQuotaParamName \<noteq> None \<or>
     (isInstallationOlderThan1Minute (be_now (pf_boot env)) inst \<and>
      be_lookupEnv (pf_boot env) ''QUOTA'' \<notin> {None, Some ''''})"
  using assms
  by (cases "map_of d QuotaParamName"; cases "map_of d TrialQuotaParamName")
    (simp_all add: quota_check_def Let_def ExistsParameterByInstallation_def GetParameter_def)

text \<open>
  Preflight and bootstrap agree on the quota wherever every quota parameter the add-on has is
  not empty: once the quota check passes, the bootstrap stage finds a quota, unless the add-on has
  only the trial parameter and the resource is not yet a minute old.
\<close>

theorem quota_check_then_quota:
  assumes "GetAddonParametersSecret (be_client (pf_boot env)) (Namespace inst) w = Inr d"
    and "map_of d QuotaParamName \<noteq> Some ''''" and "map_of d TrialQuotaParamName \<noteq> Some ''''"
    and "quota_check env inst w = Inr ''''"
  shows "(\<exists>q. getSecretQuotaParam (pf_boot env) inst (Namespace inst) w = Inr q) \<longleftrightarrow>
     \<not> (map_of d QuotaParamName = None \<and> \<not> isInstallationOlderThan1Minute (be_now (pf_boot env)) inst)"
proof (cases "map_of d QuotaParamName")
  case (Some q)
  then show ?thesis using assms(1,2) by (auto simp: getSecretQuotaParam_iff)
next
  case None
  then show ?thesis
    using assms(1,3) assms(4) [unfolded quota_check_cases [OF assms(1)]]
    by (cases "map_of d TrialQuotaParamName"; cases "be_lookupEnv (pf_boot env) ''QUOTA''")
      (auto simp: getSecretQuotaParam_iff gget_def)
qed

theorem quota_check_then_quota_witness:
  "\<exists>q. getSecretQuotaParam (pf_boot (sample_preflight_env [(QuotaParamName, ''1'')])) zero_rhmi (Namespace zero_rhmi) None = Inr q"
proof -
  let ?env = "sample_preflight_env [(QuotaParamName, ''1'')]"
  have d: "GetAddonParametersSecret (be_client (pf_boot ?env)) (Namespace zero_rhmi) None = Inr [(QuotaParamName, ''1'')]"
    by (simp add: sample_preflight_env_def preflight_env_with_def sample_boot_defs GetAddonParametersSecret_def)
  have "quota_check ?env zero_rhmi None = Inr ''''" by (simp add: quota_check_cases [OF d])
  with quota_check_then_quota [OF d] show ?thesis by simp
qed

text \<open>
  A parameter that is there but empty passes the preflight check and leaves the bootstrap
  stage without a quota for good: no later moment changes its answer.
\<close>

theorem quota_check_gap:
  assumes "GetAddonParametersSecret (be_client (pf_boot env)) (Namespace inst) w = Inr d"
    and "gget '''' d QuotaParamName = ''''" and "map_of d TrialQuotaParamName = Some ''''"
  shows "quota_check env inst w = Inr '''' \<and>
     (\<forall>now q. getSecretQuotaParam ((pf_boot env)\<lparr>be_now := now\<rparr>) inst (Namespace inst) w \<noteq> Inr q)"
  using assms by (auto simp: quota_check_cases getSecretQuotaParam_iff gget_def)

theorem quota_check_gap_witness:
  "quota_check (sample_preflight_env [(TrialQuotaParamName, '''')]) zero_rhmi None = Inr ''''"
proof -
  let ?env = "sample_preflight_env [(TrialQuotaParamName, '''')]"
  have d: "GetAddonParametersSecret (be_client (pf_boot ?env)) (Namespace zero_rhmi) None = Inr [(TrialQuotaParamName, '''')]"
    by (simp add: sample_preflight_env_def preflight_env_with_def sample_boot_defs GetAddonParametersSecret_def)
  show ?thesis using quota_check_gap [OF d] by simp
qed

end
