(* ===== verification/Quota_Table.thy ===== *)
theory Quota_Table
  imports Quota
begin

text \<open>
  The quota tables the add-on ships (\<^verbatim>\<open>pkg/addon/quota.go\<close>): the JSON literals as the values they
  decode to, one definition per entry in the order of the text. CPU is in thousandths, memory in
  mebibytes; \<open>sized\<close> turns them into quantities.
\<close>

definition sized :: "32 word \<Rightarrow> int \<Rightarrow> int \<Rightarrow> int \<Rightarrow> int \<Rightarrow> ResourceConfig" where
  "sized replicas req_cpu req_mem lim_cpu lim_mem =
     \<lparr>Replicas = replicas, Resources =
        \<lparr>Limits = Some [(''cpu'', lim_cpu * 1000000), (''memory'', lim_mem * 1048576 * nano)],
         Requests = Some [(''cpu'', req_cpu * 1000000), (''memory'', req_mem * 1048576 * nano)]\<rparr>\<rparr>"

definition per_minute :: "32 word \<Rightarrow> RateLimitConfig" where
  "per_minute n = \<lparr>Unit = ''minute'', RequestsPerUnit = n\<rparr>"

definition quota_100M :: quotaConfigReceiver where
  "quota_100M = \<lparr>qr_Name = ''100 Million'', qr_Param = ''1000'',
     qr_RateLimit = per_minute 69445,
     qr_Resources =
       [(''backend_listener'', sized 7 500 600 1000 700),
        (''backend_worker'', sized 5 400 100 600 100),
        (''apicast_production'', sized 8 600 275 1000 300),
        (''rhssouser'', sized 3 1000 2000 2000 2000),
        (''ratelimit'', sized 3 150 50 300 100)]\<rparr>"

definition quota_50M :: quotaConfigReceiver where
  "quota_50M = \<lparr>qr_Name = ''50 Million'', qr_Param = ''500'',
     qr_RateLimit = per_minute 34723,
     qr_Resources =
       [(''backend_listener'', sized 5 500 600 1000 700),
        (''backend_worker'', sized 4 400 100 600 100),
        (''apicast_production'', sized 3 600 275 1000 300),
        (''rhssouser'', sized 3 1000 2000 2000 2000),
        (''ratelimit'', sized 3 150 50 300 100)]\<rparr>"

definition quota_20M :: quotaConfigReceiver where
  "quota_20M = \<lparr>qr_Name = ''20 Million'', qr_Param = ''200'',
     qr_RateLimit = per_minute 13889,
     qr_Resources =
       [(''backend_listener'', sized 3 250 450 600 500),
        (''backend_worker'', sized 3 150 100 300 100),
        (''apicast_production'', sized 3 300 250 600 300),
        (''rhssouser'', sized 3 750 1500 1500 1500),
        (''ratelimit'', sized 3 100 50 200 100)]\<rparr>"

definition quota_10M :: quotaConfigReceiver where
  "quota_10M = \<lparr>qr_Name = ''10 Million'', qr_Param = ''100'',
     qr_RateLimit = per_minute 6945,
     qr_Resources =
       [(''backend_listener'', sized 3 150 450 500 500),
        (''backend_worker'', sized 3 100 100 250 100),
        (''apicast_production'', sized 3 200 250 500 300),
        (''rhssouser'', sized 3 750 1500 1500 1500),
        (''ratelimit'', sized 3 50 50 150 100)]\<rparr>"

definition quota_5M :: quotaConfigReceiver where
  "quota_5M = \<lparr>qr_Name = ''5 Million'', qr_Param = ''50'',
     qr_RateLimit = per_minute 3473,
     qr_Resources =
       [(''backend_listener'', sized 3 100 450 300 500),
        (''backend_worker'', sized 3 50 100 150 100),
        (''apicast_production'', sized 3 100 250 300 300),
        (''rhssouser'', sized 3 750 1500 1500 1500),
        (''ratelimit'', sized 3 50 50 150 100)]\<rparr>"

definition quota_1M :: quotaConfigReceiver where
  "quota_1M = \<lparr>qr_Name = ''1 Million'', qr_Param = ''10'',
     qr_RateLimit = per_minute 695,
     qr_Resources =
       [(''backend_listener'', sized 2 60 450 180 500),
        (''backend_worker'', sized 2 30 60 90 100),
        (''apicast_production'', sized 2 60 250 180 300),
        (''rhssouser'', sized 2 750 1500 1500 1500),
        (''ratelimit'', sized 2 20 40 60 80)]\<rparr>"

definition quota_100K_eval :: quotaConfigReceiver where
  "quota_100K_eval = \<lparr>qr_Name = ''100K - Evaluation'', qr_Param = ''0'',
     qr_RateLimit = per_minute 70,
     qr_Resources =
       [(''backend_listener'', sized 2 60 450 180 500),
        (''backend_worker'', sized 2 30 60 90 100),
        (''apicast_production'', sized 2 60 250 180 300),
        (''rhssouser'', sized 2 750 1500 1500 1500),
        (''ratelimit'', sized 2 20 40 60 80)]\<rparr>"

definition quota_100K :: quotaConfigReceiver where
  "quota_100K = \<lparr>qr_Name = ''100K'', qr_Param = ''1'',
     qr_RateLimit = per_minute 70,
     qr_Resources =
       [(''backend_listener'', sized 2 60 450 180 500),
        (''backend_worker'', sized 2 30 60 90 100),
        (''apicast_production'', sized 2 60 250 180 300),
        (''rhssouser'', sized 2 750 1500 1500 1500),
        (''ratelimit'', sized 2 20 40 60 80)]\<rparr>"

definition quotaConfig :: "quotaConfigReceiver list" where
  "quotaConfig = [quota_100M, quota_50M, quota_20M, quota_10M, quota_5M, quota_1M, quota_100K_eval, quota_100K]"

definition mt_quota_1M :: quotaConfigReceiver where
  "mt_quota_1M = \<lparr>qr_Name = ''1 Million'', qr_Param = ''10'',
     qr_RateLimit = per_minute 695,
     qr_Resources =
       [(''backend_listener'', sized 5 500 700 1000 1400),
        (''backend_worker'', sized 4 400 100 600 100),
        (''apicast_production'', sized 2 600 275 1000 300),
        (''ratelimit'', sized 2 150 50 300 100)]\<rparr>"

definition mt_quota_100K :: quotaConfigReceiver where
  "mt_quota_100K = \<lparr>qr_Name = ''100K'', qr_Param = ''1'',
     qr_RateLimit = per_minute 70,
     qr_Resources =
       [(''backend_listener'', sized 2 60 455 180 505),
        (''backend_worker'', sized 2 30 60 90 100),
        (''apicast_production'', sized 2 60 250 180 300),
        (''ratelimit'', sized 2 20 40 60 80)]\<rparr>"

definition mtQuotaConfig :: "quotaConfigReceiver list" where
  "mtQuotaConfig = [mt_quota_1M, mt_quota_100K]"

definition GetQuotaConfig :: "InstallationType \<Rightarrow> quotaConfigReceiver list" where
  "GetQuotaConfig installType = (if IsRHOAMMultitenant installType then mtQuotaConfig else quotaConfig)"

lemmas table_defs [go_defs] =
  sized_def per_minute_def quotaConfig_def mtQuotaConfig_def
  quota_100M_def quota_50M_def quota_20M_def quota_10M_def quota_5M_def quota_1M_def quota_100K_eval_def quota_100K_def mt_quota_1M_def mt_quota_100K_def

section \<open>Consistency checks\<close>

text \<open>An entry is sound: requests do not exceed limits and no workload has a count below two.\<close>

definition sound_entry :: "quotaConfigReceiver \<Rightarrow> bool" where
  "sound_entry r \<longleftrightarrow>
     list_all (\<lambda>(n, c). 2 \<le> sint (Replicas c) \<and>
        list_all (\<lambda>k. 0 < rl (Requests (Resources c)) k \<and>
           rl (Requests (Resources c)) k \<le> rl (Limits (Resources c)) k) [''cpu'', ''memory''])
       (qr_Resources r)"

text \<open>The parameter counts units of 100 000 requests a day; the rate limit is per minute.\<close>

definition daily_requests :: "quotaConfigReceiver \<Rightarrow> int" where
  "daily_requests r = (case Atoi (qr_Param r) of None \<Rightarrow> 0 | Some n \<Rightarrow> n * 100000)"

definition rate_matches :: "quotaConfigReceiver \<Rightarrow> bool" where
  "rate_matches r \<longleftrightarrow> Unit (qr_RateLimit r) = ''minute'' \<and>
     (let m = uint (RequestsPerUnit (qr_RateLimit r)) * 1440
      in daily_requests r \<le> m \<and> m < daily_requests r + 1440)"

definition table_replicas :: "quotaConfigReceiver \<Rightarrow> string \<Rightarrow> int" where
  "table_replicas r n = sint (Replicas (gget zero_resource_config (qr_Resources r) n))"

text \<open>The replica counts \<^verbatim>\<open>ThreeScale.GetReplicasConfig\<close> gives an installation on the entry's quota.\<close>

definition replicas_agree :: "quotaConfigReceiver \<Rightarrow> bool" where
  "replicas_agree r \<longleftrightarrow>
     (let m = ThreeScale_GetReplicasConfig (zero_rhmi\<lparr>Status := zero_status\<lparr>QuotaF := qr_Name r\<rparr>\<rparr>) in
      gget 0 m ''apicastProd'' = table_replicas r ApicastProductionName \<and>
      gget 0 m ''backendListener'' = table_replicas r BackendListenerName \<and>
      gget 0 m ''backendWorker'' = table_replicas r BackendWorkerName)"

definition scales_up :: "quotaConfigReceiver \<Rightarrow> quotaConfigReceiver \<Rightarrow> bool" where
  "scales_up small big \<longleftrightarrow>
     list_all (\<lambda>n. table_replicas small n \<le> table_replicas big n)
       [ApicastProductionName, BackendListenerName, BackendWorkerName, KeycloakName, RateLimitName]"

lemma sound_quotaConfig: "list_all sound_entry quotaConfig"
  by (simp add: table_defs sound_entry_def rl_def)

lemma sound_mtQuotaConfig: "list_all sound_entry mtQuotaConfig"
  by (simp add: table_defs sound_entry_def rl_def)

lemma distinct_params:
  "distinct (map qr_Param quotaConfig)" "distinct (map qr_Param mtQuotaConfig)"
  by (simp_all add: table_defs)

lemma distinct_names:
  "distinct (map qr_Name quotaConfig)" "distinct (map qr_Name mtQuotaConfig)"
  by (simp_all add: table_defs)

lemma rates_quotaConfig: "list_all (\<lambda>r. qr_Param r = ''0'' \<or> rate_matches r) quotaConfig"
  by (simp add: table_defs rate_matches_def daily_requests_def Atoi_def char_digit_def)

lemma rates_mtQuotaConfig: "list_all (\<lambda>r. qr_Param r = ''0'' \<or> rate_matches r) mtQuotaConfig"
  by (simp add: table_defs rate_matches_def daily_requests_def Atoi_def char_digit_def)

section \<open>Properties\<close>

text \<open>
  The shipped tables are sound: every entry of both tables has requests within its limits
  and at least two replicas of every workload, parameters and names identify an entry, and every
  numbered quota limits the rate to the least number of requests per minute that admits its
  daily volume.
\<close>

theorem quota_tables_sound:
  "list_all sound_entry (quotaConfig @ mtQuotaConfig) \<and>
   distinct (map qr_Param quotaConfig) \<and> distinct (map qr_Param mtQuotaConfig) \<and>
   distinct (map qr_Name quotaConfig) \<and> distinct (map qr_Name mtQuotaConfig) \<and>
   list_all (\<lambda>r. qr_Param r = ''0'' \<or> rate_matches r) (quotaConfig @ mtQuotaConfig)"
  by (simp only: list_all_append sound_quotaConfig sound_mtQuotaConfig distinct_params
        distinct_names rates_quotaConfig rates_mtQuotaConfig simp_thms)

text \<open>
  On a quota of the single-tenant table, other than the evaluation one, an installation
  outside Prow gets from \<^verbatim>\<open>GetReplicasConfig\<close> exactly the replica counts the table holds; the
  evaluation quota is not among the names it knows, and there it asks for three replicas where
  the table, and \<^verbatim>\<open>Configure\<close>, say two.
\<close>

theorem replicas_agree_except_evaluation:
  "list_all (\<lambda>r. replicas_agree r = (qr_Name r \<noteq> ''100K - Evaluation'')) quotaConfig"
  by (simp add: table_defs replicas_agree_def table_replicas_def ThreeScale_GetReplicasConfig_def
        RunningInProw_def zero_defs set_quota_replicas_def)

text \<open>
  Quotas of the single-tenant table are ordered: moving to an entry for more requests never
  reduces the replicas of a workload.
\<close>

theorem quotas_monotone:
  "sorted_wrt (\<lambda>big small. scales_up small big) quotaConfig"
  by (simp add: table_defs scales_up_def table_replicas_def)

lemma find_distinct_key:
  "distinct (map f xs) \<Longrightarrow> x \<in> set xs \<Longrightarrow> List.find (\<lambda>y. f y = f x) xs = Some x"
  by (induction xs) (auto simp: image_iff)

lemma GetQuotaConfig_distinct: "distinct (map qr_Param (GetQuotaConfig t))"
  by (simp add: GetQuotaConfig_def distinct_params)

lemma GetQuotaConfig_named: "list_all (\<lambda>r. qr_Name r \<noteq> '''') (GetQuotaConfig t)"
  by (simp add: GetQuotaConfig_def table_defs)

lemma GetQuota_of_table:
  assumes "r \<in> set (GetQuotaConfig t)" and "unmarshal (cm_entry cm QuotaConfigMapData) = Inr (GetQuotaConfig t)"
  shows "\<exists>q'. GetQuota unmarshal (qr_Param r) cm q = (None, q') \<and> q_name q' = qr_Name r \<and>
     q_rateLimitConfig q' = qr_RateLimit r \<and> quota_carries q' r"
proof -
  have "quota_receiver (qr_Param r) (GetQuotaConfig t) = Some r"
    unfolding quota_receiver_def
    by (rule find_distinct_key [OF GetQuotaConfig_distinct assms(1)])
  moreover have "qr_Name r \<noteq> ''''"
    using GetQuotaConfig_named [of t] assms(1) by (auto simp: list_all_iff)
  ultimately show ?thesis using assms(2) by (simp add: GetQuota_def quota_carries_update)
qed

text \<open>
  Choosing a quota of the table by its parameter gives that very entry, for both
  installation types, whatever the quota held before.
\<close>

theorem GetQuota_table:
  assumes "r \<in> set (GetQuotaConfig t)" and "unmarshal (cm_entry cm QuotaConfigMapData) = Inr (GetQuotaConfig t)"
  shows "\<exists>q'. GetQuota unmarshal (qr_Param r) cm q = (None, q') \<and> q_name q' = qr_Name r \<and>
     q_rateLimitConfig q' = qr_RateLimit r \<and> quota_carries q' r"
  using assms by (rule GetQuota_of_table)

theorem GetQuota_table_witness:
  "\<exists>q'. GetQuota (\<lambda>s. Inr (GetQuotaConfig ''managed-api'')) (qr_Param quota_20M)
      \<lparr>cm_Name = ''c'', cm_Namespace = ''n'', cm_Data = None\<rparr> zero_quota = (None, q') \<and>
     q_name q' = qr_Name quota_20M \<and> q_rateLimitConfig q' = qr_RateLimit quota_20M \<and>
     quota_carries q' quota_20M"
  by (rule GetQuota_table [where t = "''managed-api''"])
    (simp_all add: GetQuotaConfig_def IsRHOAMMultitenant_def IsRHOAM_def isMultitenant_def quotaConfig_def)

end
