(* ===== verification/Reconcile.thy ===== *)
theory Reconcile
  imports Preflight Quota_Table
begin

text \<open>
  The reconcile loop of the installation controller (\<^verbatim>\<open>RHMIReconciler.Reconcile\<close>,
  \<^verbatim>\<open>updateStatusAndObject\<close>, \<^verbatim>\<open>createInstallationCR\<close>, \<^verbatim>\<open>reconcileQuotaConfig\<close> of \<^verbatim>\<open>rhmi_controller.go\<close>,
  \<^verbatim>\<open>prometheusRules.go\<close>, \<^verbatim>\<open>version/version.go\<close>): it puts together the stages, the preflight checks, the
  uninstall and the bootstrap of the theories it imports. Metrics, events and logging leave no
  trace; a run-time panic is the result \<open>None\<close>.
\<close>

section \<open>Versions (\<^verbatim>\<open>version.go\<close>)\<close>

abbreviation managedAPIVersion :: string where "managedAPIVersion \<equiv> ''1.45.0''"

definition GetVersionByType :: "string \<Rightarrow> string" where
  "GetVersionByType installType = (if IsRHOAM installType then managedAPIVersion else managedAPIVersion)"

definition VerifyProductAndOperatorVersion :: "RHMIProductStatus \<Rightarrow> string \<Rightarrow> string \<Rightarrow> bool" where
  "VerifyProductAndOperatorVersion product expectedProductVersion expectedOpVersion =
     (if expectedOpVersion \<noteq> p_OperatorVersion product then False
      else if expectedProductVersion \<noteq> p_Version product then False else True)"

definition firstInstallFirstReconcile :: "RHMI \<Rightarrow> bool" where
  "firstInstallFirstReconcile inst \<longleftrightarrow> Version (Status inst) = '''' \<and> ToVersion (Status inst) = ''''"

definition upgradeFirstReconcile :: "RHMI \<Rightarrow> bool" where
  "upgradeFirstReconcile inst \<longleftrightarrow> Version (Status inst) \<noteq> '''' \<and> ToVersion (Status inst) = '''' \<and>
     Version (Status inst) \<noteq> GetVersionByType (Type (Spec inst))"

section \<open>Environment and state\<close>

record 'w rhmi_env =
  rc_Get :: "'w \<Rightarrow> err + RHMI"
  rc_requestNamespace :: string
  rc_NewAlertsClient :: "'w \<Rightarrow> err option"
  rc_DeleteRule :: "string \<Rightarrow> 'w \<Rightarrow> err option \<times> 'w"
  rc_uninstall :: "'w uninstall_env"
  rc_preflight :: "'w preflight_env"
  rc_envChecks :: "(string \<times> env_check) list"
  rc_bootCalls :: "'w boot_calls"
  rc_Webhooks :: "RHMI \<Rightarrow> 'w \<Rightarrow> err option \<times> 'w"
  rc_GetClusterVersion :: "'w \<Rightarrow> err + string"
  rc_NewPodClient :: "'w \<Rightarrow> err option"
  rc_PodDistribution :: "RHMI \<Rightarrow> 'w \<Rightarrow> MultiErr \<times> 'w"

text \<open>What survives from one reconcile to the next: the package variables, the informers, the cluster.\<close>

record 'w controller =
  ct_managed :: InstallType
  ct_multitenant :: InstallType
  ct_mismatch :: bool
  ct_informers :: informers
  ct_world :: 'w

definition TypeFactory_in :: "'w controller \<Rightarrow> string \<Rightarrow> err + InstallType" where
  "TypeFactory_in ct t =
     (if t = InstallationTypeManagedApi then Inr (ct_managed ct)
      else if t = InstallationTypeMultitenantManagedApi then Inr (ct_multitenant ct)
      else Inl (Msg (''unknown installation type: '' @ t)))"

definition store_stages :: "string \<Rightarrow> Stage list \<Rightarrow> 'w controller \<Rightarrow> 'w controller" where
  "store_stages t ss ct =
     (if t = InstallationTypeManagedApi then ct\<lparr>ct_managed := (ct_managed ct)\<lparr>InstallStages := ss\<rparr>\<rparr>
      else if t = InstallationTypeMultitenantManagedApi
      then ct\<lparr>ct_multitenant := (ct_multitenant ct)\<lparr>InstallStages := ss\<rparr>\<rparr> else ct)"

text \<open>The stage environment with the bootstrap reconciler of this development in it.\<close>

definition stage_env_of :: "'w rhmi_env \<Rightarrow> 'w stage_env" where
  "stage_env_of env = (u_stage (rc_uninstall env))\<lparr>BootstrapReconcile :=
     Bootstrap_Reconcile (pf_boot (rc_preflight env)) (rc_bootCalls env) (rc_requestNamespace env)\<rparr>"

section \<open>Steps before the stages\<close>

text \<open>\<^verbatim>\<open>removeInstallationRules\<close>: the first rule that cannot be deleted ends it.\<close>

fun delete_rules :: "'w rhmi_env \<Rightarrow> string list \<Rightarrow> 'w \<Rightarrow> err option \<times> 'w" where
  "delete_rules env [] w = (None, w)"
| "delete_rules env (r # rs) w =
     (case rc_DeleteRule env r w of (e, w') \<Rightarrow>
        if e \<noteq> None \<and> \<not> IsNotFound e then (e, w') else delete_rules env rs w')"

definition removeInstallationRules :: "'w rhmi_env \<Rightarrow> RHMI \<Rightarrow> 'w \<Rightarrow> err option \<times> 'w" where
  "removeInstallationRules env inst w =
     (let name = (if IsRHOAM (Type (Spec inst)) then ''rhoam'' else '''') in
      delete_rules env [name @ ''-installation-alerts'', name @ ''-upgrade-alerts'', name @ ''-missing-metrics''] w)"

text \<open>An update whose error is only logged.\<close>

definition update_logged :: "'w rhmi_env \<Rightarrow> RHMI \<Rightarrow> 'w \<Rightarrow> RHMI \<times> 'w" where
  "update_logged env inst w = (case u_Update (rc_uninstall env) inst w of (e, inst', w') \<Rightarrow> (inst', w'))"

definition getenv :: "(string \<Rightarrow> string option) \<Rightarrow> string \<Rightarrow> string" where
  "getenv lookupEnv n = (case lookupEnv n of None \<Rightarrow> '''' | Some v \<Rightarrow> v)"

definition set_emails :: "(AlertingEmailAddresses \<Rightarrow> AlertingEmailAddresses) \<Rightarrow> RHMI \<Rightarrow> RHMI" where
  "set_emails f inst = inst\<lparr>Spec := (Spec inst)\<lparr>AlertingEmails := f (AlertingEmails (Spec inst))\<rparr>\<rparr>"

definition alerting_emails :: "'w rhmi_env \<Rightarrow> RHMI \<Rightarrow> 'w \<Rightarrow> RHMI \<times> 'w" where
  "alerting_emails env inst w =
     (let lk = u_lookupEnv (rc_uninstall env);
          cssre = getenv lk ''ALERTING_EMAIL_ADDRESS'';
          (i1, w1) = (if CSSRE (AlertingEmails (Spec inst)) = '''' \<and> cssre \<noteq> ''''
                      then update_logged env (set_emails (\<lambda>a. a\<lparr>CSSRE := cssre\<rparr>) inst) w else (inst, w));
          bu = getenv lk ''BU_ALERTING_EMAIL_ADDRESS'';
          (i2, w2) = (if BusinessUnit (AlertingEmails (Spec i1)) = '''' \<and> bu \<noteq> ''''
                      then update_logged env (set_emails (\<lambda>a. a\<lparr>BusinessUnit := bu\<rparr>) i1) w1 else (i1, w1))
      in case GetStringParameter (u_client (rc_uninstall env)) (Namespace i2) ''notification-email'' w2 of
           (customer, ok, Some e) \<Rightarrow> (i2, w2)
         | (customer, ok, None) \<Rightarrow>
             if ok \<and> AlertingEmailAddress (Spec i2) \<noteq> customer
             then update_logged env (i2\<lparr>Spec := (Spec i2)\<lparr>AlertingEmailAddress := customer\<rparr>\<rparr>) w2
             else (i2, w2))"

text \<open>The operator's own finalizer; \<open>False\<close> asks for a retry.\<close>

definition finalizer_step :: "'w rhmi_env \<Rightarrow> RHMI \<Rightarrow> 'w \<Rightarrow> bool \<times> RHMI \<times> 'w" where
  "finalizer_step env inst w =
     (if \<not> Contains (Finalizers inst) deletionFinalizer \<and> DeletionTimestamp inst = None then
        if Contains (Finalizers inst) previousDeletionFinalizer then
          (case u_Update (rc_uninstall env)
                  (inst\<lparr>Finalizers := Replace (Finalizers inst) previousDeletionFinalizer deletionFinalizer\<rparr>) w of
             (e, inst', w') \<Rightarrow> (e = None, inst', w'))
        else (True, inst\<lparr>Finalizers := Finalizers inst @ [deletionFinalizer]\<rparr>, w)
      else (True, inst, w))"

definition init_stages :: "RHMI \<Rightarrow> RHMI" where
  "init_stages inst =
     (if Stages (Status inst) = None then inst\<lparr>Status := (Status inst)\<lparr>Stages := Some []\<rparr>\<rparr> else inst)"

definition version_step :: "'w rhmi_env \<Rightarrow> RHMI \<Rightarrow> 'w \<Rightarrow> bool \<times> RHMI \<times> 'w" where
  "version_step env inst w =
     (if upgradeFirstReconcile inst \<or> firstInstallFirstReconcile inst then
        (case u_StatusUpdate (rc_uninstall env)
                (inst\<lparr>Status := (Status inst)\<lparr>ToVersion := GetVersionByType (Type (Spec inst))\<rparr>\<rparr>) w of
           (e, inst', w') \<Rightarrow> (e = None, inst', w'))
      else (True, inst, w))"

section \<open>After the stages\<close>

definition record_version :: "bool \<Rightarrow> bool \<Rightarrow> Quota \<Rightarrow> RHMI \<Rightarrow> RHMI" where
  "record_version complete mismatch q inst =
     (let v = GetVersionByType (Type (Spec inst)) in
      if ToVersion (Status inst) = v \<and> complete \<and> \<not> mismatch
      then inst\<lparr>Status := (Status inst)\<lparr>Version := v, ToVersion := '''', QuotaF := q_name q, ToQuota := ''''\<rparr>\<rparr>
      else inst)"

definition reconcilePodDistribution :: "'w rhmi_env \<Rightarrow> RHMI \<Rightarrow> 'w \<Rightarrow> RHMI \<times> 'w" where
  "reconcilePodDistribution env inst w =
     (case rc_NewPodClient env w of
        Some e \<Rightarrow> (set_lastError (err_string e) inst, w)
      | None \<Rightarrow>
          (case rc_PodDistribution env inst w of (mErr, w') \<Rightarrow>
             (if mErr \<noteq> [] then set_lastError (MultiErr_Error mErr) inst else inst, w')))"

definition complete_step :: "'w rhmi_env \<Rightarrow> Quota \<Rightarrow> RHMI \<Rightarrow> 'w \<Rightarrow> RHMI \<times> 'w" where
  "complete_step env q inst w =
     (let i1 = inst\<lparr>Status := (Status inst)\<lparr>RHMIStatus.Stage := CompleteStage\<rparr>\<rparr>;
          (i2, w2) = (if RebalancePods (Spec i1) then reconcilePodDistribution env i1 w else (i1, w))
      in (if q_isUpdated q then i2\<lparr>Status := (Status i2)\<lparr>QuotaF := q_name q, ToQuota := ''''\<rparr>\<rparr> else i2, w2))"

definition updateStatusAndObject :: "'w rhmi_env \<Rightarrow> RHMI \<Rightarrow> RHMI \<Rightarrow> 'w \<Rightarrow> err option \<times> RHMI \<times> 'w" where
  "updateStatusAndObject env original inst w =
     (let (e1, i1, w1) = (if \<not> DeepEqual_status (Status original) (Status inst)
                          then u_StatusUpdate (rc_uninstall env) inst w else (None, inst, w))
      in if e1 \<noteq> None then (e1, i1, w1)
         else if \<not> DeepEqual_rhmi original i1 then u_Update (rc_uninstall env) i1 w1
         else (None, i1, w1))"

definition install_requeue :: "bool \<Rightarrow> RHMI \<Rightarrow> ctrl_result" where
  "install_requeue complete inst =
     (if \<not> complete then retryRequeue
      else if IsRHOAMMultitenant (Type (Spec inst)) then \<lparr>Requeue = True, RequeueAfter = 30 * second_ns\<rparr>
      else \<lparr>Requeue = True, RequeueAfter = 5 * 60 * second_ns\<rparr>)"

definition finish :: "'w rhmi_env \<Rightarrow> bool \<Rightarrow> bool \<Rightarrow> Quota \<Rightarrow> RHMI \<Rightarrow> 'w \<Rightarrow> RHMI \<times> 'w" where
  "finish env complete mismatch q inst w =
     (let i1 = record_version complete mismatch q inst in
      if complete then complete_step env q i1 w else (i1, w))"

text \<open>
  The stages and what follows them, for a resource that is neither deleted nor in preflight; \<open>t\<close>
  is the installation type, whose stages keep their product maps.
\<close>

definition install ::
  "'w rhmi_env \<Rightarrow> string \<Rightarrow> InstallType \<Rightarrow> RHMI \<Rightarrow> RHMI \<Rightarrow> 'w controller \<Rightarrow>
   ((ctrl_result \<times> err option) \<times> 'w controller) option" where
  "install env t ty original inst ct =
     (let c0 = \<lparr>c_inst = inst, c_quota = zero_quota, c_mismatch = ct_mismatch ct, c_informers = ct_informers ct,
                c_panic = False, c_world = ct_world ct\<rparr>;
          (complete, stages, c) = install_loop (stage_env_of env) (InstallStages ty) c0
      in if c_panic c then None
         else
           (let (i2, w2) = finish env complete (c_mismatch c) (c_quota c) (c_inst c) (c_world c);
                (e, i3, w3) = updateStatusAndObject env original i2 w2
            in Some ((install_requeue complete (c_inst c), e),
                 (store_stages t stages ct)\<lparr>ct_mismatch := c_mismatch c,
                    ct_informers := c_informers c, ct_world := w3\<rparr>)))"

section \<open>The loop\<close>

definition Reconcile :: "'w rhmi_env \<Rightarrow> 'w controller \<Rightarrow> ((ctrl_result \<times> err option) \<times> 'w controller) option" where
  "Reconcile env ct =
     (let stop = (\<lambda>r e w. Some ((r, e), ct\<lparr>ct_world := w\<rparr>)); w0 = ct_world ct in
      case rc_Get env w0 of
        Inl e \<Rightarrow> stop no_requeue (if IsNotFound (Some e) then None else Some e) w0
      | Inr original \<Rightarrow>
        (case rc_NewAlertsClient env w0 of
          Some e \<Rightarrow> stop no_requeue (Some (Msg (''error creating client for alerts: '' @ err_string e))) w0
        | None \<Rightarrow>
          (let (_, w1) = removeInstallationRules env original w0;
               (i1, w2) = alerting_emails env original w1
           in case TypeFactory_in ct (Type (Spec i1)) of
             Inl e \<Rightarrow> stop no_requeue (Some e) w2
           | Inr ty \<Rightarrow>
             (case NewManager (u_GetConfigMap (rc_uninstall env)) (rc_requestNamespace env)
                     (cfg_map_name (u_lookupEnv (rc_uninstall env)) original) w2 of
               (Inl e, w3) \<Rightarrow> stop no_requeue (Some e) w3
             | (Inr m, w3) \<Rightarrow>
               (case rc_Webhooks env i1 w3 of
                 (Some e, w4) \<Rightarrow> stop no_requeue (Some e) w4
               | (None, w4) \<Rightarrow>
                 (case finalizer_step env i1 w4 of
                   (False, i2, w5) \<Rightarrow> stop retryRequeue None w5
                 | (True, i2, w5) \<Rightarrow>
                   (let i3 = init_stages i2 in
                    if PreflightStatusF (Status i3) \<noteq> PreflightSuccess then
                      (case preflightChecks (rc_preflight env) (rc_envChecks env) ty i3 w5 of
                         ((r, e), i4, w6) \<Rightarrow> stop r e w6)
                    else if DeletionTimestamp i3 \<noteq> None then
                      map_option (\<lambda>((r, e), i4, w6). ((r, e), ct\<lparr>ct_world := w6\<rparr>))
                        (handleUninstall ((rc_uninstall env)\<lparr>u_stage := stage_env_of env\<rparr>) ty i3 w5)
                    else
                      (case rc_GetClusterVersion env w5 of
                        Inl e \<Rightarrow> stop no_requeue (Some (Wrap ''error getting cluster version information'' (Wrap ''failed to fetch version'' e))) w5
                      | Inr clusterID \<Rightarrow>
                        if clusterID = '''' then
                          stop no_requeue (Some (Msg ''error getting external cluster ID: external cluster ID not found'')) w5
                        else
                          (case version_step env i3 w5 of
                            (False, i4, w6) \<Rightarrow> stop retryRequeue None w6
                          | (True, i4, w6) \<Rightarrow> install env (Type (Spec i1)) ty original i4 (ct\<lparr>ct_world := w6\<rparr>))))))))))"

section \<open>Setting up: the resource and the quota ConfigMap\<close>

record 'w setup_env =
  su_client :: "'w addon_client"
  su_lookupEnv :: "string \<Rightarrow> string option"
  su_ListRHMIs :: "string \<Rightarrow> 'w \<Rightarrow> err + RHMI list"
  su_Create :: "'w update_fn"
  su_configMaps :: "(ConfigMap, 'w) kind_api"

definition getRebalancePods :: "(string \<Rightarrow> string option) \<Rightarrow> bool" where
  "getRebalancePods lookupEnv =
     (case lookupEnv ''REBALANCE_PODS'' of None \<Rightarrow> True | Some v \<Rightarrow> v = ''true'')"

definition new_installation :: "(string \<Rightarrow> string option) \<Rightarrow> string \<Rightarrow> string \<Rightarrow> string \<Rightarrow> RHMI" where
  "new_installation lk namespace nsPrefix customerEmail =
     (let installType = getenv lk ''INSTALLATION_TYPE''; priority = getenv lk ''PRIORITY_CLASS_NAME'' in
      zero_rhmi\<lparr>Name := ''rhoam'', Namespace := namespace,
        Spec := zero_spec\<lparr>
          Type := (if installType = '''' then InstallationTypeManagedApi else installType),
          NamespacePrefix := nsPrefix, RebalancePods := getRebalancePods lk, SelfSignedCerts := False,
          SMTPSecret := nsPrefix @ ''smtp'', DeadMansSnitchSecret := nsPrefix @ ''deadmanssnitch'',
          PagerDutySecret := nsPrefix @ ''pagerduty'', UseClusterStorage := getenv lk ''USE_CLUSTER_STORAGE'',
          AlertingEmailAddress := customerEmail,
          AlertingEmails := \<lparr>BusinessUnit = getenv lk ''BU_ALERTING_EMAIL_ADDRESS'',
                             CSSRE = getenv lk ''ALERTING_EMAIL_ADDRESS''\<rparr>,
          OperatorsInProductNamespace := False,
          PriorityClassName := (if priority = '''' then ''rhoam-pod-priority'' else priority)\<rparr>\<rparr>)"

definition createInstallationCR :: "'w setup_env \<Rightarrow> 'w \<Rightarrow> ((err + RHMI) \<times> 'w) option" where
  "createInstallationCR env w =
     (case su_lookupEnv env ''WATCH_NAMESPACE'' of
        None \<Rightarrow> Some (Inl (Msg ''WATCH_NAMESPACE must be set''), w)
      | Some namespace \<Rightarrow>
          (case su_ListRHMIs env namespace w of
             Inl e \<Rightarrow> Some (Inl (Wrap ''could not get a list of rhmi CR'' e), w)
           | Inr [] \<Rightarrow>
               (case GetStringParameter (su_client env) namespace ''notification-email'' w of
                  (_, _, Some e) \<Rightarrow> Some (Inl (Wrap ''failed while retrieving addon parameter'' e), w)
                | (email, _, None) \<Rightarrow>
                    (case namespace_prefix namespace of
                       None \<Rightarrow> None
                     | Some nsPrefix \<Rightarrow>
                         (case su_Create env (new_installation (su_lookupEnv env) namespace nsPrefix email) w of
                            (Some e, i, w') \<Rightarrow>
                              Some (Inl (Wrap (''could not create rhmi CR in '' @ namespace @ '' namespace'') e), w')
                          | (None, i, w') \<Rightarrow> Some (Inr i, w'))))
           | Inr [i] \<Rightarrow> Some (Inr i, w)
           | Inr is \<Rightarrow>
               Some (Inl (Msg (''too many rhmi resources found. Expecting 1, found '' @ Itoa (int (length is))
                 @ '' rhmi resources in '' @ namespace @ '' namespace'')), w)))"

text \<open>\<open>marshal\<close> gives the JSON text of a quota table.\<close>

definition reconcileQuotaConfig :: "'w setup_env \<Rightarrow> (quotaConfigReceiver list \<Rightarrow> string) \<Rightarrow> RHMI \<Rightarrow> 'w \<Rightarrow> err option \<times> 'w" where
  "reconcileQuotaConfig env marshal inst w =
     (if \<not> IsRHOAM (Type (Spec inst)) then (None, w)
      else (case CreateOrUpdate (su_configMaps env) (=)
                   (pure_op (\<lambda>cm. cm\<lparr>cm_Data := Some (gset QuotaConfigMapData (marshal (GetQuotaConfig (Type (Spec inst))))
                      (case cm_Data cm of None \<Rightarrow> [] | Some d \<Rightarrow> d))\<rparr>))
                   \<lparr>cm_Name = ''quota-config-managed-api-service'', cm_Namespace = Namespace inst, cm_Data = None\<rparr> w of
              ((r, e), cm, w') \<Rightarrow> (e, w')))"

section \<open>Properties\<close>

lemma reconcilePodDistribution_status:
  assumes "reconcilePodDistribution env inst w = (inst', w')"
  shows "\<exists>m. inst' = set_lastError m inst"
proof -
  have "inst = set_lastError (LastError (Status inst)) inst" by (simp add: set_lastError_def)
  then show ?thesis using assms
    by (auto simp: reconcilePodDistribution_def split: option.splits prod.splits if_splits)
qed

lemma complete_step_status:
  assumes "complete_step env q inst w = (inst', w')"
  shows "Version (Status inst') = Version (Status inst) \<and> ToVersion (Status inst') = ToVersion (Status inst) \<and>
     RHMIStatus.Stage (Status inst') = CompleteStage \<and> Spec inst' = Spec inst \<and>
     QuotaF (Status inst') = (if q_isUpdated q then q_name q else QuotaF (Status inst)) \<and>
     ToQuota (Status inst') = (if q_isUpdated q then '''' else ToQuota (Status inst))"
proof -
  let ?i1 = "inst\<lparr>Status := (Status inst)\<lparr>RHMIStatus.Stage := CompleteStage\<rparr>\<rparr>"
  obtain i2 w2 where r: "(if RebalancePods (Spec ?i1) then reconcilePodDistribution env ?i1 w else (?i1, w)) = (i2, w2)"
    by (metis prod.exhaust)
  obtain m where "i2 = set_lastError m ?i1 \<or> i2 = ?i1"
    using r reconcilePodDistribution_status [of env ?i1 w i2 w2] by (auto split: if_splits)
  moreover have "inst' = (if q_isUpdated q then i2\<lparr>Status := (Status i2)\<lparr>QuotaF := q_name q, ToQuota := ''''\<rparr>\<rparr> else i2)"
    using assms r by (simp add: complete_step_def Let_def split: prod.splits)
  ultimately show ?thesis by (auto simp: set_lastError_def)
qed


definition sample_rhmi_env :: "nat rhmi_env" where
  "sample_rhmi_env = \<lparr>rc_Get = (\<lambda>w. Inr zero_rhmi), rc_requestNamespace = ''ns'', rc_NewAlertsClient = (\<lambda>w. None),
     rc_DeleteRule = (\<lambda>r w. (None, w)), rc_uninstall = sample_uninstall_env, rc_preflight = preflight_env_with (boot_env_with empty_api []),
     rc_envChecks = env_checks, rc_bootCalls = sample_calls, rc_Webhooks = (\<lambda>i w. (None, w)),
     rc_GetClusterVersion = (\<lambda>w. Inr ''id''), rc_NewPodClient = (\<lambda>w. None), rc_PodDistribution = (\<lambda>i w. ([], w))\<rparr>"


text \<open>
  Once the version step lets the reconcile go on, the resource has a target version or is at
  the operator's version: neither a first install nor an upgrade is still unannounced when the
  stages run.
\<close>

theorem version_step_announced:
  assumes "\<And>i w e i' w'. u_StatusUpdate (rc_uninstall env) i w = (e, i', w') \<Longrightarrow> Status i' = Status i"
    and "version_step env inst w = (True, inst', w')"
  shows "\<not> firstInstallFirstReconcile inst' \<and> \<not> upgradeFirstReconcile inst'"
proof (cases "upgradeFirstReconcile inst \<or> firstInstallFirstReconcile inst")
  case True
  obtain e i v where u: "u_StatusUpdate (rc_uninstall env)
      (inst\<lparr>Status := (Status inst)\<lparr>ToVersion := GetVersionByType (Type (Spec inst))\<rparr>\<rparr>) w = (e, i, v)"
    by (metis prod.exhaust)
  have "Status i = (Status inst)\<lparr>ToVersion := GetVersionByType (Type (Spec inst))\<rparr>"
    using assms(1) [OF u] by simp
  moreover have "inst' = i" using assms(2) True u by (simp add: version_step_def)
  ultimately show ?thesis
    by (simp add: firstInstallFirstReconcile_def upgradeFirstReconcile_def GetVersionByType_def)
next
  case False
  then show ?thesis using assms(2) by (auto simp: version_step_def)
qed

theorem version_step_announced_witness:
  "\<exists>inst' w'. version_step sample_rhmi_env zero_rhmi 0 = (True, inst', w') \<and>
     \<not> firstInstallFirstReconcile inst' \<and> \<not> upgradeFirstReconcile inst'"
proof -
  obtain b i w' where r: "version_step sample_rhmi_env zero_rhmi 0 = (b, i, w')" by (rule prod_cases3)
  have b: "b" using r by (auto simp: version_step_def sample_rhmi_env_def sample_uninstall_env_def split: if_splits)
  have e: "Status i' = Status i" if "u_StatusUpdate (rc_uninstall sample_rhmi_env) i w = (e, i', w')" for i w e i' w'
    using that by (simp add: sample_rhmi_env_def sample_uninstall_env_def)
  from r b have r: "version_step sample_rhmi_env zero_rhmi 0 = (True, i, w')" by simp
  from conjI [OF r version_step_announced [OF e r]] show ?thesis by (intro exI)
qed

text \<open>
  The operator registers its own finalizer before anything else can be installed: after the
  step the resource, unless it is being deleted, carries the finalizer, the one of earlier
  releases is gone if it was the one there, nothing else is lost, and no name occurs twice.
\<close>

theorem finalizer_step_registers:
  assumes upd: "update_keeps_finalizers (u_Update (rc_uninstall env))"
    and dist: "distinct (Finalizers inst)" and live: "DeletionTimestamp inst = None"
    and run: "finalizer_step env inst w = (ok, inst', w')"
  shows "deletionFinalizer \<in> set (Finalizers inst') \<and> distinct (Finalizers inst') \<and>
     set (Finalizers inst) - {previousDeletionFinalizer} \<subseteq> set (Finalizers inst') \<and>
     (deletionFinalizer \<notin> set (Finalizers inst) \<longrightarrow> previousDeletionFinalizer \<notin> set (Finalizers inst'))"
proof (cases "deletionFinalizer \<in> set (Finalizers inst)")
  case True
  then show ?thesis using run dist by (auto simp: finalizer_step_def)
next
  case new: False
  show ?thesis
  proof (cases "previousDeletionFinalizer \<in> set (Finalizers inst)")
    case True
    obtain e i v where u: "u_Update (rc_uninstall env)
      (inst\<lparr>Finalizers := Replace (Finalizers inst) previousDeletionFinalizer deletionFinalizer\<rparr>) w = (e, i, v)"
      by (metis prod.exhaust)
    have "Finalizers inst' = Replace (Finalizers inst) previousDeletionFinalizer deletionFinalizer"
      using run new True live u update_keeps_finalizersD [OF upd u] by (simp add: finalizer_step_def)
    then show ?thesis
      using slice.rename [OF dist, of deletionFinalizer previousDeletionFinalizer] new True by auto
  next
    case False
    then have "Finalizers inst' = Finalizers inst @ [deletionFinalizer]"
      using run new live by (auto simp: finalizer_step_def)
    then show ?thesis using new False dist by auto
  qed
qed

theorem finalizer_step_registers_witness:
  "\<exists>ok inst' w'. finalizer_step sample_rhmi_env (zero_rhmi\<lparr>Finalizers := [previousDeletionFinalizer]\<rparr>) 0 = (ok, inst', w') \<and>
     deletionFinalizer \<in> set (Finalizers inst')"
proof -
  let ?i = "zero_rhmi\<lparr>Finalizers := [previousDeletionFinalizer]\<rparr>"
  obtain ok i w' where r: "finalizer_step sample_rhmi_env ?i 0 = (ok, i, w')" by (rule prod_cases3)
  have u: "update_keeps_finalizers (u_Update (rc_uninstall sample_rhmi_env))"
    by (simp add: sample_rhmi_env_def sample_uninstall_env_def update_keeps_finalizers_def)
  have d: "distinct (Finalizers ?i)" "DeletionTimestamp ?i = None" by (simp_all add: zero_rhmi_def)
  from finalizer_step_registers [OF u d r] have "deletionFinalizer \<in> set (Finalizers i)" by (rule conjunct1)
  from conjI [OF r this] show ?thesis by (intro exI)
qed

text \<open>
  From the table to the quota: after the quota ConfigMap has been written, reading it back and
  choosing by the parameter of any row of the installation type's table gives that row.
\<close>

theorem quota_config_round_trip:
  assumes srv: "stores (su_configMaps env)"
    and codec: "unmarshal (marshal (GetQuotaConfig (Type (Spec inst)))) = Inr (GetQuotaConfig (Type (Spec inst)))"
    and rhoam: "IsRHOAM (Type (Spec inst))"
    and run: "reconcileQuotaConfig env marshal inst w = (None, w')"
    and row: "r \<in> set (GetQuotaConfig (Type (Spec inst)))"
  shows "\<exists>cm q'. k_Get (su_configMaps env)
        \<lparr>cm_Name = ''quota-config-managed-api-service'', cm_Namespace = Namespace inst, cm_Data = None\<rparr> w' = (None, cm, w') \<and>
     GetQuota unmarshal (qr_Param r) cm q = (None, q') \<and> q_name q' = qr_Name r \<and> quota_carries q' r"
proof -
  let ?obj = "\<lparr>cm_Name = ''quota-config-managed-api-service'', cm_Namespace = Namespace inst, cm_Data = None\<rparr>"
  let ?f = "\<lambda>cm. cm\<lparr>cm_Data := Some (gset QuotaConfigMapData (marshal (GetQuotaConfig (Type (Spec inst))))
              (case cm_Data cm of None \<Rightarrow> [] | Some d \<Rightarrow> d))\<rparr> :: ConfigMap"
  obtain res cm where c: "CreateOrUpdate (su_configMaps env) (=) (pure_op ?f) ?obj w = ((res, None), cm, w')"
    using run rhoam by (auto simp: reconcileQuotaConfig_def split: prod.splits)
  obtain x where get: "k_Get (su_configMaps env) ?obj w' = (None, cm, w')" and x: "pure_op ?f x w = (None, cm, w)"
    using CreateOrUpdate_written [OF srv c] by auto
  from x have "unmarshal (cm_entry cm QuotaConfigMapData) = Inr (GetQuotaConfig (Type (Spec inst)))"
    by (auto simp: cm_entry_def gget_def codec)
  from GetQuota_of_table [of r "Type (Spec inst)" unmarshal, OF row this] get show ?thesis by blast
qed

definition sample_setup_env :: "ConfigMap option setup_env" where
  "sample_setup_env = \<lparr>su_client = sample_client [],
     su_lookupEnv = (\<lambda>n. if n = ''WATCH_NAMESPACE'' then Some ''redhat-rhoam-operator'' else None),
     su_ListRHMIs = (\<lambda>ns w. Inr []), su_Create = (\<lambda>i w. (None, i, w)),
     su_configMaps = sample_api (\<lambda>cm. (cm_Namespace cm, cm_Name cm))\<rparr>"

definition managed_rhmi :: RHMI where
  "managed_rhmi = zero_rhmi\<lparr>Spec := zero_spec\<lparr>Type := InstallationTypeManagedApi\<rparr>\<rparr>"

theorem quota_config_round_trip_witness:
  "\<exists>w' cm q'. reconcileQuotaConfig sample_setup_env (\<lambda>qs. ''json'') managed_rhmi None = (None, w') \<and>
     k_Get (su_configMaps sample_setup_env)
        \<lparr>cm_Name = ''quota-config-managed-api-service'', cm_Namespace = Namespace managed_rhmi, cm_Data = None\<rparr> w' = (None, cm, w') \<and>
     GetQuota (\<lambda>s. Inr (GetQuotaConfig InstallationTypeManagedApi)) (qr_Param quota_20M) cm zero_quota = (None, q') \<and>
     q_name q' = qr_Name quota_20M"
proof -
  have st: "stores (su_configMaps sample_setup_env)" by (simp add: sample_setup_env_def stores_sample_api)
  have t: "Type (Spec managed_rhmi) = InstallationTypeManagedApi" by (simp add: managed_rhmi_def)
  have rh: "IsRHOAM (Type (Spec managed_rhmi))" by (simp add: t IsRHOAM_def)
  have row: "quota_20M \<in> set (GetQuotaConfig (Type (Spec managed_rhmi)))"
    by (simp add: t GetQuotaConfig_def IsRHOAMMultitenant_def isMultitenant_def quotaConfig_def)
  obtain e w' where run: "reconcileQuotaConfig sample_setup_env (\<lambda>qs. ''json'') managed_rhmi None = (e, w')"
    by (rule prod.exhaust)
  have "e = None"
    using run rh by (simp add: reconcileQuotaConfig_def sample_setup_env_def sample_api_def CreateOrUpdate_pure)
  with run have run: "reconcileQuotaConfig sample_setup_env (\<lambda>qs. ''json'') managed_rhmi None = (None, w')" by simp
  from quota_config_round_trip [where unmarshal = "\<lambda>s. Inr (GetQuotaConfig InstallationTypeManagedApi)" and q = zero_quota,
      OF st _ rh run row] run
  show ?thesis by (simp only: t) blast
qed

text \<open>
  The resource the operator creates when there is none: in a namespace of at least three
  segments its products live under the first two, the secrets are named after them, and with no
  installation type in the environment it is of a type the factory knows.
\<close>

theorem createInstallationCR_new:
  assumes ns: "su_lookupEnv env ''WATCH_NAMESPACE'' = Some (x @ ''-'' @ y @ ''-'' @ z)"
    and x: "CHR ''-'' \<notin> set x" and y: "CHR ''-'' \<notin> set y"
    and none: "su_ListRHMIs env (x @ ''-'' @ y @ ''-'' @ z) w = Inr []"
    and param: "GetStringParameter (su_client env) (x @ ''-'' @ y @ ''-'' @ z) ''notification-email'' w = (email, ok, None)"
    and create: "\<And>i. su_Create env i w = (None, i, w')"
  shows "\<exists>i. createInstallationCR env w = Some (Inr i, w') \<and>
     NamespacePrefix (Spec i) = x @ ''-'' @ y @ ''-'' \<and>
     PagerDutySecret (Spec i) = NamespacePrefix (Spec i) @ ''pagerduty'' \<and>
     AlertingEmailAddress (Spec i) = email \<and> PriorityClassName (Spec i) \<noteq> '''' \<and>
     (su_lookupEnv env ''INSTALLATION_TYPE'' \<in> {None, Some ''''} \<longrightarrow> (\<exists>ty. TypeFactory (Type (Spec i)) = Inr ty))"
  unfolding createInstallationCR_def ns option.case none sum.case list.case param prod.case
    namespace_prefix_segments [OF x y] create
  by (auto simp: new_installation_def Let_def getenv_def split: option.splits)

theorem createInstallationCR_new_witness:
  "\<exists>i. createInstallationCR sample_setup_env None = Some (Inr i, None) \<and> NamespacePrefix (Spec i) = ''redhat-rhoam-''"
proof -
  have "\<exists>i. createInstallationCR sample_setup_env None = Some (Inr i, None) \<and>
     NamespacePrefix (Spec i) = ''redhat'' @ ''-'' @ ''rhoam'' @ ''-'' \<and>
     PagerDutySecret (Spec i) = NamespacePrefix (Spec i) @ ''pagerduty'' \<and>
     AlertingEmailAddress (Spec i) = '''' \<and> PriorityClassName (Spec i) \<noteq> '''' \<and>
     (su_lookupEnv sample_setup_env ''INSTALLATION_TYPE'' \<in> {None, Some ''''} \<longrightarrow> (\<exists>ty. TypeFactory (Type (Spec i)) = Inr ty))"
    by (rule createInstallationCR_new [where z = "''operator''" and ok = False])
      (simp_all add: sample_setup_env_def GetStringParameter_secret GetAddonParametersSecret_def sample_client_def)
  then show ?thesis by auto
qed

end
