(* ===== verification/Versions.thy ===== *)
theory Versions
  imports RHMI_Types
begin

text \<open>
  Operator versions (\<^verbatim>\<open>pkg/resources/version.go\<close>): the three numbers, parsing from the spellings the
  regular expression \<^verbatim>\<open>^[Vv]?([0-9]+)\.([0-9]+)(\.|\-)([0-9]+)$\<close> accepts, printing and comparing.
  The numbers are Go's 64-bit \<^verbatim>\<open>int\<close>: \<^verbatim>\<open>strconv.Atoi\<close> refuses what does not fit. The comparison of the
  source is the order of the type, an instance of \<open>linorder\<close>.
\<close>

datatype Version = MkVersion (Major: int) (Minor: int) (Patch: int)

section \<open>The operations of \<^verbatim>\<open>version.go\<close>\<close>

definition is_digit :: "char \<Rightarrow> bool" where
  "is_digit c \<longleftrightarrow> char_digit c \<noteq> None"

text \<open>
  The groups 1, 2 and 4 of the regular expression. No digit can match a separator and the three
  groups are of digits only, so the match, where there is one, is the one found by scanning.
\<close>

definition match_version :: "string \<Rightarrow> (string \<times> string \<times> string) option" where
  "match_version s =
     (let t = (case s of [] \<Rightarrow> [] | c # cs \<Rightarrow> if c = CHR ''V'' \<or> c = CHR ''v'' then cs else s);
          m1 = takeWhile is_digit t; r1 = dropWhile is_digit t
      in case r1 of
           [] \<Rightarrow> None
         | d # r2 \<Rightarrow>
             if m1 = [] \<or> d \<noteq> CHR ''.'' then None
             else (let m2 = takeWhile is_digit r2; r3 = dropWhile is_digit r2
                   in case r3 of
                        [] \<Rightarrow> None
                      | e # m4 \<Rightarrow>
                          if m2 = [] \<or> e \<noteq> CHR ''.'' \<and> e \<noteq> CHR ''-'' \<or> m4 = [] \<or> \<not> list_all is_digit m4
                          then None else Some (m1, m2, m4)))"

definition NewVersion :: "string \<Rightarrow> err + Version" where
  "NewVersion version =
     (case match_version version of
        None \<Rightarrow> Inl (Msg ''invalid version'')
      | Some (m1, m2, m4) \<Rightarrow>
          (case Atoi m1 of
             None \<Rightarrow> Inl (Msg ''value out of range'')
           | Some major \<Rightarrow>
               (case Atoi m2 of
                  None \<Rightarrow> Inl (Msg ''value out of range'')
                | Some minor \<Rightarrow>
                    (case Atoi m4 of
                       None \<Rightarrow> Inl (Msg ''value out of range'')
                     | Some patch \<Rightarrow> Inr (MkVersion major minor patch)))))"

definition Equals :: "Version \<Rightarrow> Version \<Rightarrow> bool" where
  "Equals v other \<longleftrightarrow> Major v = Major other \<and> Minor v = Minor other \<and> Patch v = Patch other"

definition IsNewerThan :: "Version \<Rightarrow> Version \<Rightarrow> bool" where
  "IsNewerThan v other \<longleftrightarrow> Major v > Major other \<or> (Major v = Major other \<and> Minor v > Minor other) \<or>
     (Major v = Major other \<and> Minor v = Minor other \<and> Patch v > Patch other)"

definition AsString :: "Version \<Rightarrow> string" where
  "AsString v = Itoa (Major v) @ ''.'' @ Itoa (Minor v) @ ''.'' @ Itoa (Patch v)"

lemmas version_defs [go_defs] = is_digit_def match_version_def NewVersion_def Equals_def IsNewerThan_def AsString_def

section \<open>The order of versions\<close>

text \<open>Lexicographic on the three numbers; that the code's comparison is this order is shown below.\<close>

instantiation Version :: linorder
begin

definition less_Version :: "Version \<Rightarrow> Version \<Rightarrow> bool" where
  "less_Version v w \<longleftrightarrow> ((Major v, Minor v, Patch v), (Major w, Minor w, Patch w)) \<in>
     {(a, b). a < b} <*lex*> {(a, b). a < b} <*lex*> {(a, b). a < b}"

definition less_eq_Version :: "Version \<Rightarrow> Version \<Rightarrow> bool" where
  "less_eq_Version v w \<longleftrightarrow> v < w \<or> v = w"

instance
  by standard (auto simp: less_Version_def less_eq_Version_def intro: Version.expand)

end

text \<open>What a successful parse or a released version satisfies.\<close>

definition version_ok :: "Version \<Rightarrow> bool" where
  "version_ok v \<longleftrightarrow> (\<forall>n \<in> {Major v, Minor v, Patch v}. 0 \<le> n \<and> n < 2 ^ 63)"

section \<open>Lemmas on digits\<close>

lemma is_digit_digit_char [simp]: "d < 10 \<Longrightarrow> is_digit (digit_char d)"
  by (simp add: is_digit_def)

lemma nat_digits_all_digits: "list_all is_digit (nat_digits n)"
proof (induction n rule: nat_digits.induct)
  case (1 n)
  then show ?case by (cases "n < 10") (auto simp: nat_digits.simps [of n])
qed

lemma Itoa_all_digits: "0 \<le> i \<Longrightarrow> list_all is_digit (Itoa i) \<and> Itoa i \<noteq> []"
  by (simp add: Itoa_def nat_digits_all_digits)

lemma not_digit [simp]: "\<not> is_digit (CHR ''.'')" "\<not> is_digit (CHR ''-'')" "\<not> is_digit (CHR ''V'')"
  "\<not> is_digit (CHR ''v'')" "\<not> is_digit (CHR ''+'')"
  by (simp_all add: is_digit_def char_digit_def)

lemma takeWhile_all_append: "list_all P xs \<Longrightarrow> \<not> P c \<Longrightarrow> takeWhile P (xs @ c # ys) = xs"
  by (induction xs) auto

lemma dropWhile_all_append: "list_all P xs \<Longrightarrow> \<not> P c \<Longrightarrow> dropWhile P (xs @ c # ys) = c # ys"
  by (induction xs) auto

lemma digits_val_Some_digits: "list_all is_digit s \<Longrightarrow> \<exists>n. digits_val acc s = Some n"
  by (induction s arbitrary: acc) (auto simp: is_digit_def)

lemma Atoi_digits_nonneg:
  assumes "list_all is_digit s" and "Atoi s = Some i"
  shows "0 \<le> i \<and> i < 2 ^ 63"
proof -
  have "\<not> (s \<noteq> [] \<and> hd s = CHR ''-'')" using assms(1) by (cases s) auto
  then show ?thesis using assms(2)
    by (auto simp: Atoi_def Let_def split: if_splits option.splits)
qed

text \<open>Every string of the shape the expression describes is matched, with its groups.\<close>

definition sep_ok :: "char \<Rightarrow> bool" where
  "sep_ok e \<longleftrightarrow> e = CHR ''.'' \<or> e = CHR ''-''"

lemma match_version_shape:
  assumes "p \<in> {'''', ''V'', ''v''}" and "sep_ok e"
    and "list_all is_digit a" "a \<noteq> []" and "list_all is_digit b" "b \<noteq> []" and "list_all is_digit c" "c \<noteq> []"
  shows "match_version (p @ a @ CHR ''.'' # b @ e # c) = Some (a, b, c)"
proof -
  have e: "\<not> is_digit e" "e = CHR ''.'' \<or> e = CHR ''-''" using assms(2) by (auto simp: sep_ok_def)
  obtain x xs where a: "a = x # xs" using assms(4) by (cases a) auto
  then have x: "x \<noteq> CHR ''V''" "x \<noteq> CHR ''v''" using assms(3) by auto
  let ?t = "a @ CHR ''.'' # b @ e # c"
  have "(case p @ ?t of [] \<Rightarrow> [] | c # cs \<Rightarrow> if c = CHR ''V'' \<or> c = CHR ''v'' then cs else p @ ?t) = ?t"
    using assms(1) a x by auto
  then show ?thesis using e assms(3-8)
    by (simp add: match_version_def Let_def takeWhile_all_append dropWhile_all_append)
qed

lemma match_version_groups:
  assumes "match_version s = Some (a, b, c)"
  shows "list_all is_digit a" and "list_all is_digit b" and "list_all is_digit c"
  using assms
  by (auto simp: match_version_def Let_def list_all_iff dest: set_takeWhileD split: list.splits if_splits)

section \<open>Properties\<close>

text \<open>
  Parsing inverts printing: a version whose numbers fit is read back from its string, also
  with the prefix \<^verbatim>\<open>v\<close> or \<^verbatim>\<open>V\<close> and with a hyphen before the patch number, and whatever is parsed
  successfully has numbers that fit, so that it is read back from its own string.
\<close>

theorem NewVersion_roundtrip:
  assumes "p \<in> {'''', ''V'', ''v''}" and "sep_ok e"
  shows "(version_ok v \<longrightarrow>
       NewVersion (p @ Itoa (Major v) @ ''.'' @ Itoa (Minor v) @ [e] @ Itoa (Patch v)) = Inr v) \<and>
     (NewVersion s = Inr w \<longrightarrow> version_ok w \<and> NewVersion (AsString w) = Inr w)"
proof -
  have parse: "NewVersion (q @ Itoa (Major u) @ ''.'' @ Itoa (Minor u) @ [f] @ Itoa (Patch u)) = Inr u"
    if u: "version_ok u" and q: "q \<in> {'''', ''V'', ''v''}" and f: "sep_ok f" for u q f
  proof -
    have "match_version (q @ Itoa (Major u) @ CHR ''.'' # Itoa (Minor u) @ f # Itoa (Patch u)) =
       Some (Itoa (Major u), Itoa (Minor u), Itoa (Patch u))"
      by (rule match_version_shape [OF q f]) (use u in \<open>simp_all add: version_ok_def Itoa_all_digits\<close>)
    then show ?thesis using u by (simp add: NewVersion_def Atoi_Itoa version_ok_def)
  qed
  have "version_ok w \<and> NewVersion (AsString w) = Inr w" if s: "NewVersion s = Inr w"
  proof -
    obtain a b c where m: "match_version s = Some (a, b, c)"
      and n: "Atoi a = Some (Major w)" "Atoi b = Some (Minor w)" "Atoi c = Some (Patch w)"
      using s by (auto simp: NewVersion_def split: option.splits)
    have ok: "version_ok w"
      using match_version_groups [OF m] n by (auto simp: version_ok_def dest: Atoi_digits_nonneg)
    then show ?thesis using parse [OF ok, of "''''" "CHR ''.''"] by (simp add: AsString_def sep_ok_def)
  qed
  with parse assms show ?thesis by blast
qed

theorem NewVersion_roundtrip_witness:
  "NewVersion (''v'' @ Itoa 1 @ ''.'' @ Itoa 40 @ ''-'' @ Itoa 0) = Inr (MkVersion 1 40 0)"
  using NewVersion_roundtrip [of "''v''" "CHR ''-''" "MkVersion 1 40 0" "''1.2.3''" "MkVersion 1 2 3"]
  by (simp add: version_ok_def sep_ok_def)

text \<open>
  \<^verbatim>\<open>IsNewerThan\<close> is the strict lexicographic order of the three numbers and \<^verbatim>\<open>Equals\<close> is equality, so
  of two versions exactly one of newer, equal and older holds.
\<close>

theorem IsNewerThan_order:
  "(IsNewerThan v w \<longleftrightarrow> w < v) \<and> (Equals v w \<longleftrightarrow> v = w) \<and>
   (IsNewerThan v w \<longleftrightarrow> \<not> Equals v w \<and> \<not> IsNewerThan w v)"
  by (cases v; cases w) (auto simp: IsNewerThan_def Equals_def less_Version_def)

end
