(* ===== verification/Pod_Distribution.thy ===== *)
theory Pod_Distribution
  imports Kube Install_Stage
begin

text \<open>
  Pod distribution (\<^verbatim>\<open>pkg/resources/poddistribution\<close>): on a cluster with several zones, find the
  controllers all of whose running pods are in one zone and delete a pod of each, so that it is
  scheduled anew, at most three times per controller; the attempts are counted in an annotation of
  the controller. The source keys its maps by pointers; every pointer used as a key has gone
  through \<^verbatim>\<open>getExisting\<close>, so that two keys with the same fields are the same pointer and the model
  keys by the fields.
\<close>

section \<open>Data\<close>

record Node =
  n_Labels :: "(string, string) gomap"
  n_Addresses :: "(string \<times> string) list"

record OwnerReference =
  o_Kind :: string
  o_Name :: string
  o_Controller :: "bool option"

record Pod =
  pod_Name :: string
  pod_Phase :: string
  pod_HostIP :: string
  pod_Annotations :: "(string, string) gomap"
  pod_OwnerReferences :: "OwnerReference list"

text \<open>What \<^verbatim>\<open>knn.Obj\<close> points to: an object of one of three kinds, or nil.\<close>

datatype ObjKind = DeploymentConfig | StatefulSet | ReplicaSet

record KindNameSpaceName =
  knn_Namespace :: string
  knn_Name :: string
  knn_Kind :: string
  knn_Obj :: "ObjKind option"

text \<open>The metadata of the object a \<open>KindNameSpaceName\<close> stands for.\<close>

record Workload =
  wl_Kind :: ObjKind
  wl_Namespace :: string
  wl_Name :: string
  wl_Annotations :: "(string, string) gomap option"

definition ZoneLabel :: string where "ZoneLabel = ''topology.kubernetes.io/zone''"
definition PodRebalanceAttempts :: string where "PodRebalanceAttempts = ''pod-rebalance-attempts''"
definition maxBalanceAttempts :: int where "maxBalanceAttempts = 3"

record 'w pd_env =
  pd_ListNodes :: "'w \<Rightarrow> err + Node list"
  pd_ListPods :: "string \<Rightarrow> 'w \<Rightarrow> err + Pod list"
  pd_Object :: "(Workload, 'w) kind_api"
  pd_GetPod :: "string \<Rightarrow> string \<Rightarrow> 'w \<Rightarrow> err option"
  pd_DeletePod :: "string \<Rightarrow> string \<Rightarrow> 'w \<Rightarrow> err option \<times> 'w"
  pd_ticks :: nat

section \<open>Counting attempts\<close>

definition verifyRebalanceCount :: "(string, string) gomap option \<Rightarrow> err + bool" where
  "verifyRebalanceCount ant =
     (case ant of
        None \<Rightarrow> Inr True
      | Some m \<Rightarrow>
          (case map_of m PodRebalanceAttempts of
             None \<Rightarrow> Inr True
           | Some val \<Rightarrow>
               (case Atoi val of
                  None \<Rightarrow> Inl (Msg (''Error converting string annotations '' @ val))
                | Some i \<Rightarrow> Inr (\<not> i \<ge> maxBalanceAttempts))))"

text \<open>Go's \<^verbatim>\<open>int\<close> wraps at 64 bits.\<close>

definition inc_int :: "int \<Rightarrow> int" where
  "inc_int i = (if i = 2 ^ 63 - 1 then - (2 ^ 63) else i + 1)"

definition getAnnotations ::
  "(string, string) gomap option \<Rightarrow> string \<Rightarrow> string \<Rightarrow> err + (string, string) gomap" where
  "getAnnotations ant name ns =
     (let m = (case ant of None \<Rightarrow> [] | Some m \<Rightarrow> m) in
      case map_of m PodRebalanceAttempts of
        Some val \<Rightarrow>
          (case Atoi val of
             None \<Rightarrow> Inl (Msg (''Error converting annotation to int '' @ PodRebalanceAttempts @ '', '' @ name @ '', '' @ ns))
           | Some i \<Rightarrow> Inr (gset PodRebalanceAttempts (Itoa (inc_int i)) m))
      | None \<Rightarrow> Inr (gset PodRebalanceAttempts ''1'' m))"

section \<open>Finding the unbalanced controllers\<close>

definition getNamespaces :: "string \<Rightarrow> string list" where
  "getNamespaces nsPrefix = [nsPrefix @ ''3scale'', nsPrefix @ ''rhsso'', nsPrefix @ ''user-sso'', nsPrefix @ ''marin3r'']"

definition IsMultiAZCluster :: "err + Node list \<Rightarrow> err + bool" where
  "IsMultiAZCluster listed =
     (case listed of
        Inl e \<Rightarrow> Inl e
      | Inr [] \<Rightarrow> Inl (Msg ''no nodes found'')
      | Inr [n] \<Rightarrow> Inr False
      | Inr (n # ns) \<Rightarrow> Inr (list_ex (\<lambda>m. gget '''' (n_Labels m) ZoneLabel \<noteq> gget '''' (n_Labels n) ZoneLabel) ns))"

fun zoneExists :: "string list \<Rightarrow> string \<Rightarrow> bool" where
  "zoneExists [] zone = False"
| "zoneExists (z # zs) zone = (z = zone \<or> zoneExists zs zone)"

fun getExisting :: "KindNameSpaceName \<Rightarrow> KindNameSpaceName list \<Rightarrow> KindNameSpaceName option" where
  "getExisting knn [] = None"
| "getExisting knn (val # vals) =
     (if knn_Namespace knn = knn_Namespace val \<and> knn_Name knn = knn_Name val \<and> knn_Kind knn = knn_Kind val
      then Some val else getExisting knn vals)"

definition node_zone :: "Node \<Rightarrow> (string, string) gomap \<Rightarrow> (string, string) gomap" where
  "node_zone n m =
     (case List.find (\<lambda>a. fst a = ''InternalIP'') (n_Addresses n) of
        None \<Rightarrow> m
      | Some a \<Rightarrow> gset (snd a) (gget '''' (n_Labels n) ZoneLabel) m)"

definition nodes_to_zone :: "Node list \<Rightarrow> (string, string) gomap" where
  "nodes_to_zone nodes = fold node_zone nodes []"

text \<open>The controller of a pod: its first owner reference that says it is one.\<close>

definition knn_of_owner :: "string \<Rightarrow> Pod \<Rightarrow> OwnerReference \<Rightarrow> KindNameSpaceName" where
  "knn_of_owner ns p ow =
     (let knn = \<lparr>knn_Namespace = ns, knn_Name = '''', knn_Kind = '''', knn_Obj = None\<rparr> in
      if o_Kind ow = ''ReplicationController'' then
        knn\<lparr>knn_Name := gget '''' (pod_Annotations p) ''openshift.io/deployment-config.name'',
            knn_Obj := Some DeploymentConfig, knn_Kind := ''dc''\<rparr>
      else if o_Kind ow = ''StatefulSet'' then
        knn\<lparr>knn_Name := o_Name ow, knn_Obj := Some StatefulSet, knn_Kind := ''ss''\<rparr>
      else if o_Kind ow = ''ReplicaSet'' then
        knn\<lparr>knn_Name := o_Name ow, knn_Obj := Some ReplicaSet, knn_Kind := ''rs''\<rparr>
      else knn)"

definition controller_of :: "string \<Rightarrow> Pod \<Rightarrow> KindNameSpaceName option" where
  "controller_of ns p =
     map_option (knn_of_owner ns p) (List.find (\<lambda>ow. o_Controller ow = Some True) (pod_OwnerReferences p))"

record scan =
  sc_allKnn :: "KindNameSpaceName list"
  sc_podCount :: "(KindNameSpaceName, int) gomap"
  sc_balance :: "(KindNameSpaceName, string list) gomap"
  sc_objPods :: "(KindNameSpaceName, string list) gomap"

definition empty_scan :: scan where
  "empty_scan = \<lparr>sc_allKnn = [], sc_podCount = [], sc_balance = [], sc_objPods = []\<rparr>"

text \<open>The body of the loop over the pods.\<close>

definition scan_pod :: "string \<Rightarrow> (string, string) gomap \<Rightarrow> Pod \<Rightarrow> scan \<Rightarrow> scan" where
  "scan_pod ns nodesToZone p s =
     (if pod_Phase p \<noteq> ''Running'' then s
      else case controller_of ns p of
        None \<Rightarrow> s
      | Some k \<Rightarrow>
          (let (knn, allKnn) = (case getExisting k (sc_allKnn s) of
                 Some val \<Rightarrow> (val, sc_allKnn s) | None \<Rightarrow> (k, sc_allKnn s @ [k]));
               count = (case map_of (sc_podCount s) knn of None \<Rightarrow> 1 | Some c \<Rightarrow> c + 1);
               zones = gget [] (sc_balance s) knn;
               zone = gget '''' nodesToZone (pod_HostIP p)
           in \<lparr>sc_allKnn = allKnn,
               sc_podCount = gset knn count (sc_podCount s),
               sc_balance = gset knn (if \<not> zoneExists zones zone then zones @ [zone] else zones) (sc_balance s),
               sc_objPods = gset knn (gget [] (sc_objPods s) knn @ [pod_Name p]) (sc_objPods s)\<rparr>))"

definition scan_pods :: "string \<Rightarrow> (string, string) gomap \<Rightarrow> Pod list \<Rightarrow> scan \<Rightarrow> scan" where
  "scan_pods ns nodesToZone pods s = fold (scan_pod ns nodesToZone) pods s"

definition unbalanced_of :: "scan \<Rightarrow> (KindNameSpaceName, string list) gomap" where
  "unbalanced_of s =
     map (\<lambda>(k, zones). (k, gget [] (sc_objPods s) k))
       (filter (\<lambda>(k, zones). length zones = 1 \<and> gget 0 (sc_podCount s) k > 1) (sc_balance s))"

definition findUnbalanced :: "'w pd_env \<Rightarrow> string \<Rightarrow> 'w \<Rightarrow> err + (KindNameSpaceName, string list) gomap" where
  "findUnbalanced env ns w =
     (case pd_ListNodes env w of
        Inl e \<Rightarrow> Inl e
      | Inr nodes \<Rightarrow>
          (case pd_ListPods env ns w of
             Inl e \<Rightarrow> Inl (Wrap ''Error getting pod lists'' e)
           | Inr pods \<Rightarrow> Inr (unbalanced_of (scan_pods ns (nodes_to_zone nodes) pods empty_scan))))"

section \<open>Rebalancing\<close>

text \<open>\<^verbatim>\<open>mErr.Add\<close> on an existing \<^verbatim>\<open>MultiErr\<close>.\<close>

definition MultiErr_append :: "MultiErr \<Rightarrow> err \<Rightarrow> MultiErr" where
  "MultiErr_append mErr e = mErr @ [err_string e]"

text \<open>The empty object \<^verbatim>\<open>knn.Obj\<close> starts as, with the key it is read under; nil has no such object.\<close>

definition knn_workload :: "KindNameSpaceName \<Rightarrow> Workload option" where
  "knn_workload knn = map_option (\<lambda>k. \<lparr>wl_Kind = k, wl_Namespace = knn_Namespace knn, wl_Name = knn_Name knn,
     wl_Annotations = None\<rparr>) (knn_Obj knn)"

text \<open>\<^verbatim>\<open>getObject\<close> asserts the type of the pointer: with nil the assertion panics (\<open>None\<close>).\<close>

definition getObject :: "'w pd_env \<Rightarrow> KindNameSpaceName \<Rightarrow> 'w \<Rightarrow> (err + Workload) option" where
  "getObject env knn w =
     map_option (\<lambda>obj. case k_Get (pd_Object env) obj w of
         (Some e, o1, w1) \<Rightarrow> Inl (Wrap (''Error getting object '' @ knn_Name knn @ '', on ns '' @ knn_Namespace knn) e)
       | (None, o1, w1) \<Rightarrow> Inr o1) (knn_workload knn)"

text \<open>A pod that cannot be read or deleted is only logged.\<close>

definition deletePod :: "'w pd_env \<Rightarrow> string \<Rightarrow> string \<Rightarrow> 'w \<Rightarrow> 'w" where
  "deletePod env podName ns w =
     (case pd_GetPod env ns podName w of Some e \<Rightarrow> w | None \<Rightarrow> snd (pd_DeletePod env ns podName w))"

definition updatePodBalanceAttemptsOnKNN :: "'w pd_env \<Rightarrow> KindNameSpaceName \<Rightarrow> Workload \<Rightarrow> 'w \<Rightarrow> err option \<times> 'w" where
  "updatePodBalanceAttemptsOnKNN env knn obj w =
     (let at = knn_Kind knn @ '' '' @ knn_Name knn in
      case k_Get (pd_Object env) obj w of
        (Some e, o1, w1) \<Rightarrow> (Some (Wrap (''Error getting '' @ at @ '' on namespace '' @ knn_Namespace knn @ ''. '') e), w1)
      | (None, o1, w1) \<Rightarrow>
          (case getAnnotations (wl_Annotations o1) (knn_Name knn) (knn_Namespace knn) of
             Inl e \<Rightarrow> (Some e, w1)
           | Inr ant \<Rightarrow>
               (case k_Update (pd_Object env) (o1\<lparr>wl_Annotations := Some ant\<rparr>) w1 of
                  (Some e, o2, w2) \<Rightarrow> (Some (Wrap (''Error Updating '' @ at @ '' on '' @ knn_Namespace knn @ ''. '') e), w2)
                | (None, o2, w2) \<Rightarrow> (None, w2))))"

text \<open>The list of pods is never empty; indexing an empty one would panic.\<close>

definition forceRebalance ::
  "'w pd_env \<Rightarrow> KindNameSpaceName \<Rightarrow> Workload \<Rightarrow> string list \<Rightarrow> 'w \<Rightarrow> (err option \<times> 'w) option" where
  "forceRebalance env knn obj pods w =
     (case pods of
        [] \<Rightarrow> None
      | p # ps \<Rightarrow> Some (PollUntilContextTimeout (pd_ticks env)
          (\<lambda>u. case updatePodBalanceAttemptsOnKNN env knn obj u of (e, u') \<Rightarrow> ((True, e), u'))
          (deletePod env p (knn_Namespace knn) w)))"

text \<open>One unbalanced controller; \<open>None\<close> is a panic.\<close>

definition rebalance_one ::
  "'w pd_env \<Rightarrow> KindNameSpaceName \<times> string list \<Rightarrow> MultiErr \<Rightarrow> 'w \<Rightarrow> (MultiErr \<times> 'w) option" where
  "rebalance_one env kp mErr w =
     (case getObject env (fst kp) w of
        None \<Rightarrow> None
      | Some (Inl e) \<Rightarrow> Some (MultiErr_append mErr e, w)
      | Some (Inr obj) \<Rightarrow>
          (case verifyRebalanceCount (wl_Annotations obj) of
             Inl e \<Rightarrow> Some (MultiErr_append mErr e, w)
           | Inr False \<Rightarrow> Some (mErr, w)
           | Inr True \<Rightarrow>
               map_option (\<lambda>(e, w'). (case e of None \<Rightarrow> mErr | Some e \<Rightarrow> MultiErr_append mErr e, w'))
                 (forceRebalance env (fst kp) obj (snd kp) w)))"

fun rebalance_all ::
  "'w pd_env \<Rightarrow> (KindNameSpaceName, string list) gomap \<Rightarrow> MultiErr \<Rightarrow> 'w \<Rightarrow> (MultiErr \<times> 'w) option" where
  "rebalance_all env [] mErr w = Some (mErr, w)"
| "rebalance_all env (kp # kps) mErr w =
     (case rebalance_one env kp mErr w of None \<Rightarrow> None | Some (mErr', w') \<Rightarrow> rebalance_all env kps mErr' w')"

fun distribute :: "'w pd_env \<Rightarrow> string list \<Rightarrow> MultiErr \<Rightarrow> 'w \<Rightarrow> (MultiErr \<times> 'w) option" where
  "distribute env [] mErr w = Some (mErr, w)"
| "distribute env (ns # nss) mErr w =
     (case findUnbalanced env ns w of
        Inl e \<Rightarrow> distribute env nss (MultiErr_append mErr (Wrap (''Error getting pods to balance on namespace '' @ ns @ ''. '') e)) w
      | Inr unbalanced \<Rightarrow>
          (case rebalance_all env unbalanced mErr w of
             None \<Rightarrow> None
           | Some (mErr', w') \<Rightarrow> distribute env nss mErr' w'))"

definition ReconcilePodDistribution :: "'w pd_env \<Rightarrow> string \<Rightarrow> 'w \<Rightarrow> (MultiErr \<times> 'w) option" where
  "ReconcilePodDistribution env nsPrefix w =
     (case IsMultiAZCluster (pd_ListNodes env w) of
        Inl e \<Rightarrow> Some (MultiErr_append [] e, w)
      | Inr False \<Rightarrow> Some ([], w)
      | Inr True \<Rightarrow> distribute env (getNamespaces nsPrefix) [] w)"

lemmas pod_defs [go_defs] = ZoneLabel_def PodRebalanceAttempts_def maxBalanceAttempts_def verifyRebalanceCount_def
  getAnnotations_def controller_of_def knn_of_owner_def node_zone_def nodes_to_zone_def scan_pod_def scan_pods_def

section \<open>What the scan finds\<close>

text \<open>The running pods of a controller, in the order they are listed, and the zones they run in.\<close>

definition members :: "string \<Rightarrow> Pod list \<Rightarrow> KindNameSpaceName \<Rightarrow> Pod list" where
  "members ns pods k = filter (\<lambda>p. pod_Phase p = ''Running'' \<and> controller_of ns p = Some k) pods"

definition zones_of :: "(string, string) gomap \<Rightarrow> Pod list \<Rightarrow> string set" where
  "zones_of nz ps = (\<lambda>p. gget '''' nz (pod_HostIP p)) ` set ps"

text \<open>The kind decides the pointer, so the fields that are compared decide all of them.\<close>

definition knn_wf :: "string \<Rightarrow> KindNameSpaceName \<Rightarrow> bool" where
  "knn_wf ns k \<longleftrightarrow> knn_Namespace k = ns \<and>
     knn_Obj k = (if knn_Kind k = ''dc'' then Some DeploymentConfig else if knn_Kind k = ''ss'' then Some StatefulSet
                  else if knn_Kind k = ''rs'' then Some ReplicaSet else None)"

lemma controller_of_wf: "controller_of ns p = Some k \<Longrightarrow> knn_wf ns k"
  by (auto simp: controller_of_def knn_of_owner_def knn_wf_def Let_def split: if_splits)

lemma getExisting_iff:
  assumes "knn_wf ns k" and "list_all (knn_wf ns) ks"
  shows "getExisting k ks = (if k \<in> set ks then Some k else None)"
  using assms by (induction ks) (auto simp: knn_wf_def)

lemma zoneExists_iff [simp]: "zoneExists zs z \<longleftrightarrow> z \<in> set zs"
  by (induction zs) auto

definition scan_inv :: "string \<Rightarrow> (string, string) gomap \<Rightarrow> Pod list \<Rightarrow> scan \<Rightarrow> bool" where
  "scan_inv ns nz pods s \<longleftrightarrow>
     list_all (knn_wf ns) (sc_allKnn s) \<and> gomap_wf (sc_balance s) \<and>
     (\<forall>k. (case map_of (sc_podCount s) k of
             None \<Rightarrow> members ns pods k = [] | Some c \<Rightarrow> c = int (length (members ns pods k)) \<and> c \<noteq> 0) \<and>
          (case map_of (sc_balance s) k of
             None \<Rightarrow> members ns pods k = []
           | Some zs \<Rightarrow> distinct zs \<and> set zs = zones_of nz (members ns pods k)) \<and>
          gget [] (sc_objPods s) k = map pod_Name (members ns pods k))"

lemma scan_inv_empty: "scan_inv ns nz [] empty_scan"
  by (simp add: scan_inv_def empty_scan_def members_def gomap_wf_def)

lemma members_snoc:
  "members ns (pods @ [p]) k =
     members ns pods k @ (if pod_Phase p = ''Running'' \<and> controller_of ns p = Some k then [p] else [])"
  by (simp add: members_def)

lemma scan_invD:
  assumes "scan_inv ns nz pods s"
  shows "list_all (knn_wf ns) (sc_allKnn s)" and "gomap_wf (sc_balance s)"
    and "case map_of (sc_podCount s) k of
           None \<Rightarrow> members ns pods k = [] | Some c \<Rightarrow> c = int (length (members ns pods k)) \<and> c \<noteq> 0"
    and "case map_of (sc_balance s) k of
           None \<Rightarrow> members ns pods k = [] | Some zs \<Rightarrow> distinct zs \<and> set zs = zones_of nz (members ns pods k)"
    and "gget [] (sc_objPods s) k = map pod_Name (members ns pods k)"
  using assms unfolding scan_inv_def by blast+

lemma scan_inv_step:
  assumes inv: "scan_inv ns nz pods s"
  shows "scan_inv ns nz (pods @ [p]) (scan_pod ns nz p s)"
proof (cases "pod_Phase p = ''Running'' \<and> controller_of ns p \<noteq> None")
  case False
  then have "members ns (pods @ [p]) k = members ns pods k" for k
    by (auto simp: members_snoc)
  moreover have "scan_pod ns nz p s = s" using False by (auto simp: scan_pod_def)
  ultimately show ?thesis using inv by (auto simp: scan_inv_def cong: option.case_cong)
next
  case True
  then obtain k where k: "controller_of ns p = Some k" by auto
  note wf = controller_of_wf [OF k] and inv = scan_invD [OF inv]
  let ?zs = "gget [] (sc_balance s) k" and ?z = "gget '''' nz (pod_HostIP p)"
  have s': "scan_pod ns nz p s =
     \<lparr>sc_allKnn = (if k \<in> set (sc_allKnn s) then sc_allKnn s else sc_allKnn s @ [k]),
      sc_podCount = gset k (case map_of (sc_podCount s) k of None \<Rightarrow> 1 | Some c \<Rightarrow> c + 1) (sc_podCount s),
      sc_balance = gset k (if ?z \<in> set ?zs then ?zs else ?zs @ [?z]) (sc_balance s),
      sc_objPods = gset k (gget [] (sc_objPods s) k @ [pod_Name p]) (sc_objPods s)\<rparr>"
    using True k by (simp add: scan_pod_def getExisting_iff [OF wf inv(1)] Let_def)
  have m: "members ns (pods @ [p]) j = members ns pods j @ (if j = k then [p] else [])" for j
    using True k by (auto simp: members_snoc)
  have zs: "case map_of (sc_balance (scan_pod ns nz p s)) j of
         None \<Rightarrow> members ns (pods @ [p]) j = []
       | Some zs \<Rightarrow> distinct zs \<and> set zs = zones_of nz (members ns (pods @ [p]) j)" for j
    using inv(4) [of j] by (cases "map_of (sc_balance s) j") (auto simp: s' m zones_of_def gget_def)
  have count: "case map_of (sc_podCount (scan_pod ns nz p s)) j of
      None \<Rightarrow> members ns (pods @ [p]) j = []
    | Some c \<Rightarrow> c = int (length (members ns (pods @ [p]) j)) \<and> c \<noteq> 0" for j
    using inv(3) [of j] by (cases "map_of (sc_podCount s) j") (auto simp: s' m)
  have names: "gget [] (sc_objPods (scan_pod ns nz p s)) j = map pod_Name (members ns (pods @ [p]) j)" for j
    using inv(5) [of j] inv(5) [of k] by (simp add: s' m)
  have "list_all (knn_wf ns) (sc_allKnn (scan_pod ns nz p s))" using inv(1) wf by (simp add: s')
  moreover have "gomap_wf (sc_balance (scan_pod ns nz p s))" using inv(2) by (simp add: s')
  ultimately show ?thesis using zs count names unfolding scan_inv_def by blast
qed

lemma scan_pods_inv: "scan_inv ns nz pods (scan_pods ns nz pods empty_scan)"
proof (induction pods rule: rev_induct)
  case Nil
  show ?case by (simp add: scan_pods_def scan_inv_empty)
next
  case (snoc p pods)
  then show ?case using scan_inv_step by (simp add: scan_pods_def)
qed

lemma map_of_map_filter:
  "distinct (map fst m) \<Longrightarrow> map_of (map (\<lambda>(k, v). (k, f k)) (filter (\<lambda>(k, v). P k v) m)) k =
     (case map_of m k of None \<Rightarrow> None | Some v \<Rightarrow> if P k v then Some (f k) else None)"
proof (induction m)
  case Nil
  show ?case by simp
next
  case (Cons a m)
  then show ?case
    by (cases a; cases "k \<in> fst ` set m") (auto simp: map_of_eq_None_iff map_of_eq_None_iff [THEN iffD2] split: option.splits)
qed

lemma unbalanced_exact:
  "map_of (unbalanced_of (scan_pods ns nz pods empty_scan)) k =
     (let ms = members ns pods k in
      if 1 < length ms \<and> card (zones_of nz ms) = 1 then Some (map pod_Name ms) else None)"
proof -
  let ?s = "scan_pods ns nz pods empty_scan"
  note inv = scan_invD [OF scan_pods_inv [of ns nz pods]]
  have wf: "distinct (map fst (sc_balance ?s))" using inv(2) by (simp add: gomap_wf_def)
  have count: "gget 0 (sc_podCount ?s) k = int (length (members ns pods k))"
    using inv(3) [of k] by (auto simp: gget_def split: option.splits)
  show ?thesis
  proof (cases "map_of (sc_balance ?s) k")
    case None
    then have "members ns pods k = []" using inv(4) [of k] by simp
    then show ?thesis using None by (simp add: unbalanced_of_def map_of_map_filter [OF wf])
  next
    case (Some zs)
    then have "distinct zs" and "set zs = zones_of nz (members ns pods k)" using inv(4) [of k] by simp_all
    then have "card (zones_of nz (members ns pods k)) = length zs" by (metis distinct_card)
    then show ?thesis using Some inv(5) [of k] count
      by (simp add: unbalanced_of_def map_of_map_filter [OF wf] Let_def)
  qed
qed

text \<open>
  C24. \<^verbatim>\<open>findUnbalanced\<close> reports exactly the controllers that have more than one running pod with all of
  them in the same zone, each with the names of those pods in the order they were listed; in
  particular the list of pods is never empty, so that \<^verbatim>\<open>forceRebalance\<close> can index it.
\<close>

theorem findUnbalanced_exact:
  assumes "findUnbalanced env ns w = Inr unbalanced"
  shows "\<exists>nodes pods. pd_ListNodes env w = Inr nodes \<and> pd_ListPods env ns w = Inr pods \<and>
     (\<forall>k. map_of unbalanced k =
        (let ms = members ns pods k in
         if 1 < length ms \<and> card (zones_of (nodes_to_zone nodes) ms) = 1 then Some (map pod_Name ms) else None))"
  using assms unbalanced_exact by (auto simp: findUnbalanced_def split: sum.splits)

definition sample_nodes :: "Node list" where
  "sample_nodes = [\<lparr>n_Labels = [(ZoneLabel, ''a'')], n_Addresses = [(''Hostname'', ''h''), (''InternalIP'', ''1'')]\<rparr>,
     \<lparr>n_Labels = [(ZoneLabel, ''b'')], n_Addresses = [(''InternalIP'', ''2'')]\<rparr>]"

definition sample_pod :: "string \<Rightarrow> string \<Rightarrow> Pod" where
  "sample_pod name kind = \<lparr>pod_Name = name, pod_Phase = ''Running'', pod_HostIP = ''1'', pod_Annotations = [],
     pod_OwnerReferences = [\<lparr>o_Kind = kind, o_Name = ''owner'', o_Controller = Some True\<rparr>]\<rparr>"

definition workload_key :: "Workload \<Rightarrow> string \<times> string" where
  "workload_key x = (wl_Namespace x, wl_Name x)"

definition sample_pd_env :: "string \<Rightarrow> nat \<Rightarrow> Workload option pd_env" where
  "sample_pd_env kind ticks = \<lparr>pd_ListNodes = (\<lambda>w. Inr sample_nodes),
     pd_ListPods = (\<lambda>ns w. Inr [sample_pod ''p'' kind, sample_pod ''q'' kind]),
     pd_Object = sample_api workload_key, pd_GetPod = (\<lambda>ns n w. None), pd_DeletePod = (\<lambda>ns n w. (None, w)), pd_ticks = ticks\<rparr>"

theorem findUnbalanced_exact_witness:
  "\<exists>unbalanced. findUnbalanced (sample_pd_env ''StatefulSet'' 1) ''ns'' None = Inr unbalanced \<and>
     (\<forall>k. map_of unbalanced k =
        (let ms = members ''ns'' [sample_pod ''p'' ''StatefulSet'', sample_pod ''q'' ''StatefulSet''] k in
         if 1 < length ms \<and> card (zones_of (nodes_to_zone sample_nodes) ms) = 1 then Some (map pod_Name ms) else None))"
proof -
  obtain u where u: "findUnbalanced (sample_pd_env ''StatefulSet'' 1) ''ns'' None = Inr u"
    by (simp add: findUnbalanced_def sample_pd_env_def)
  from findUnbalanced_exact [OF this] u show ?thesis by (auto simp: sample_pd_env_def)
qed

section \<open>Every controller is rebalanced at most three times\<close>

text \<open>The number of attempts an annotation stands for.\<close>

definition attempts_of :: "(string, string) gomap option \<Rightarrow> int option" where
  "attempts_of ant =
     (case ant of None \<Rightarrow> Some 0
      | Some m \<Rightarrow> (case map_of m PodRebalanceAttempts of None \<Rightarrow> Some 0 | Some val \<Rightarrow> Atoi val))"

lemma verifyRebalanceCount_attempts:
  "attempts_of ant = Some a \<Longrightarrow> verifyRebalanceCount ant = Inr (a < 3)"
  by (auto simp: attempts_of_def verifyRebalanceCount_def maxBalanceAttempts_def split: option.splits)

lemma getAnnotations_attempts:
  assumes "attempts_of ant = Some a" and "0 \<le> a" and "a < 3"
  shows "\<exists>m. getAnnotations ant name ns = Inr m \<and> attempts_of (Some m) = Some (a + 1)"
proof -
  have one: "Atoi ''1'' = Some 1" by code_simp
  have "Atoi (Itoa (a + 1)) = Some (a + 1)" using assms by (intro Atoi_Itoa) auto
  then show ?thesis using assms one
    by (auto simp: attempts_of_def getAnnotations_def inc_int_def Let_def split: option.splits)
qed

text \<open>Several reconciles of one controller whose pods stay in one zone.\<close>

fun rebalance_rounds ::
  "'w pd_env \<Rightarrow> KindNameSpaceName \<times> string list \<Rightarrow> nat \<Rightarrow> MultiErr \<Rightarrow> 'w \<Rightarrow> (MultiErr \<times> 'w) option" where
  "rebalance_rounds env kp 0 mErr w = Some (mErr, w)"
| "rebalance_rounds env kp (Suc n) mErr w =
     (case rebalance_one env kp mErr w of None \<Rightarrow> None | Some (mErr', w') \<Rightarrow> rebalance_rounds env kp n mErr' w')"

text \<open>Deleting a pod does not change the controllers.\<close>

definition delete_keeps_workloads :: "'w pd_env \<Rightarrow> bool" where
  "delete_keeps_workloads env \<longleftrightarrow> (\<forall>ns p obj w o1.
     k_Get (pd_Object env) obj w = (None, o1, w) \<longrightarrow>
       (let w' = snd (pd_DeletePod env ns p w) in k_Get (pd_Object env) obj w' = (None, o1, w')))"

lemma deletePod_keeps:
  assumes "delete_keeps_workloads env" and "k_Get (pd_Object env) obj w = (None, o1, w)"
  shows "k_Get (pd_Object env) obj (deletePod env p ns w) = (None, o1, deletePod env p ns w)"
  using assms by (auto simp: deletePod_def delete_keeps_workloads_def Let_def split: option.splits)

lemma rebalance_one_counts:
  assumes st: "stores (pd_Object env)" and up: "\<And>obj w. fst (k_Update (pd_Object env) obj w) = None"
    and key: "\<And>x ant. k_Key (pd_Object env) (x\<lparr>wl_Annotations := ant\<rparr>) = k_Key (pd_Object env) x"
    and del: "delete_keeps_workloads env" and ticks: "0 < pd_ticks env"
    and obj: "knn_workload k = Some obj" and get: "k_Get (pd_Object env) obj w = (None, o1, w)"
    and a: "attempts_of (wl_Annotations o1) = Some a" "0 \<le> a"
  shows "\<exists>w' o2. rebalance_one env (k, p # ps) mErr w = Some (mErr, w') \<and>
     k_Get (pd_Object env) obj w' = (None, o2, w') \<and>
     attempts_of (wl_Annotations o2) = Some (if a < 3 then a + 1 else a) \<and> (3 \<le> a \<longrightarrow> w' = w)"
proof (cases "a < 3")
  case False
  then show ?thesis using verifyRebalanceCount_attempts [OF a(1)] obj get a
    by (simp add: rebalance_one_def getObject_def)
next
  case True
  let ?api = "pd_Object env" and ?d = "deletePod env p (knn_Namespace k) w"
  have k1: "k_Key ?api o1 = k_Key ?api obj" by (rule stores_get(2) [OF st get])
  have gd: "k_Get ?api o1 ?d = (None, o1, ?d)"
    by (rule stores_get(3) [OF st deletePod_keeps [OF del get] _ k1]) simp
  obtain m where m: "getAnnotations (wl_Annotations o1) (knn_Name k) (knn_Namespace k) = Inr m"
    and am: "attempts_of (Some m) = Some (a + 1)"
    using getAnnotations_attempts [OF a True] by blast
  let ?o = "o1\<lparr>wl_Annotations := Some m\<rparr>"
  obtain y w' where u: "k_Update ?api ?o ?d = (None, y, w')" using up [of ?o ?d] by (cases "k_Update ?api ?o ?d") auto
  have "k_Get ?api obj w' = (None, ?o, w')"
    by (rule stores_write(2) [OF st, where c = True]) (use u key k1 in simp_all)
  moreover have "rebalance_one env (k, p # ps) mErr w = Some (mErr, w')"
    using verifyRebalanceCount_attempts [OF a(1)] True obj get ticks gd m u
    by (cases "pd_ticks env") (simp_all add: rebalance_one_def getObject_def forceRebalance_def
        updatePodBalanceAttemptsOnKNN_def Let_def)
  ultimately show ?thesis using am True by auto
qed

text \<open>
  C25. Rebalancing comes to rest: with a server that stores what it is sent, updates that succeed and
  a wait that lets its condition run, the attempts of a controller grow by one per reconcile up to
  three, and from then on a reconcile changes nothing in the cluster, however long its pods stay
  in one zone.
\<close>

theorem rebalance_settles:
  assumes "stores (pd_Object env)" and "\<And>obj w. fst (k_Update (pd_Object env) obj w) = None"
    and "\<And>x ant. k_Key (pd_Object env) (x\<lparr>wl_Annotations := ant\<rparr>) = k_Key (pd_Object env) x"
    and "delete_keeps_workloads env" and "0 < pd_ticks env" and "knn_workload k = Some obj"
    and "k_Get (pd_Object env) obj w = (None, o1, w)"
    and "attempts_of (wl_Annotations o1) = Some a" and "0 \<le> a" and "a \<le> 3"
  shows "\<exists>w' o2. rebalance_rounds env (k, p # ps) n mErr w = Some (mErr, w') \<and>
     k_Get (pd_Object env) obj w' = (None, o2, w') \<and>
     attempts_of (wl_Annotations o2) = Some (min 3 (a + int n)) \<and>
     (3 \<le> a + int n \<longrightarrow> rebalance_one env (k, p # ps) mErr w' = Some (mErr, w'))"
  using assms(7-10)
proof (induction n arbitrary: w o1 a)
  case 0
  then show ?case using rebalance_one_counts [OF assms(1-6) 0(1,2,3), of p ps mErr] by auto
next
  case (Suc n)
  obtain w1 o3 where r: "rebalance_one env (k, p # ps) mErr w = Some (mErr, w1)"
    and g: "k_Get (pd_Object env) obj w1 = (None, o3, w1)"
    and a3: "attempts_of (wl_Annotations o3) = Some (if a < 3 then a + 1 else a)"
    using rebalance_one_counts [OF assms(1-6) Suc.prems(1-3), of p ps mErr] by auto
  let ?b = "if a < 3 then a + 1 else a"
  have b: "0 \<le> ?b" "?b \<le> 3" using Suc.prems by auto
  have "min 3 (?b + int n) = min 3 (a + int (Suc n))" "(3 \<le> ?b + int n) = (3 \<le> a + int (Suc n))"
    using Suc.prems by auto
  with Suc.IH [OF g a3 b] r show ?case by simp
qed

definition sample_workload :: Workload where
  "sample_workload = \<lparr>wl_Kind = StatefulSet, wl_Namespace = ''ns'', wl_Name = ''owner'', wl_Annotations = None\<rparr>"

definition sample_knn :: KindNameSpaceName where
  "sample_knn = \<lparr>knn_Namespace = ''ns'', knn_Name = ''owner'', knn_Kind = ''ss'', knn_Obj = Some StatefulSet\<rparr>"

theorem rebalance_settles_witness:
  "\<exists>w' o2. rebalance_rounds (sample_pd_env ''StatefulSet'' 1) (sample_knn, [''p'', ''q'']) 5 [] (Some sample_workload) = Some ([], w') \<and>
     k_Get (pd_Object (sample_pd_env ''StatefulSet'' 1)) sample_workload w' = (None, o2, w') \<and>
     attempts_of (wl_Annotations o2) = Some 3 \<and>
     rebalance_one (sample_pd_env ''StatefulSet'' 1) (sample_knn, [''p'', ''q'']) [] w' = Some ([], w')"
proof -
  let ?env = "sample_pd_env ''StatefulSet'' 1"
  have 1: "stores (pd_Object ?env)" by (simp add: sample_pd_env_def stores_sample_api)
  have 2: "fst (k_Update (pd_Object ?env) obj w) = None" for obj w by (simp add: sample_pd_env_def sample_api_def)
  have 3: "k_Key (pd_Object ?env) (x\<lparr>wl_Annotations := ant\<rparr>) = k_Key (pd_Object ?env) x" for x ant
    by (simp add: sample_pd_env_def sample_api_def workload_key_def)
  have 4: "delete_keeps_workloads ?env" by (simp add: delete_keeps_workloads_def sample_pd_env_def)
  have 5: "0 < pd_ticks ?env" by (simp add: sample_pd_env_def)
  have 6: "knn_workload sample_knn = Some sample_workload" by (simp add: knn_workload_def sample_knn_def sample_workload_def)
  have 7: "k_Get (pd_Object ?env) sample_workload (Some sample_workload) = (None, sample_workload, Some sample_workload)"
    by (simp add: sample_pd_env_def sample_api_def)
  have 8: "attempts_of (wl_Annotations sample_workload) = Some 0" by (simp add: attempts_of_def sample_workload_def)
  from rebalance_settles [OF 1 2 3 4 5 6 7 8, of "''p''" "[''q'']" 5 "[]"] show ?thesis by simp
qed

section \<open>Where the code does less\<close>

text \<open>
  The wait of \<^verbatim>\<open>forceRebalance\<close> has an interval of five seconds and a deadline of five seconds, so that
  either can come first. When the deadline does, the pod is gone and the attempt is not counted.
\<close>

lemma rebalance_uncounted:
  assumes "pd_ticks env = 0" and "getObject env k w = Some (Inr obj)"
    and "verifyRebalanceCount (wl_Annotations obj) = Inr True"
  shows "rebalance_one env (k, p # ps) mErr w =
     Some (MultiErr_append mErr DeadlineExceeded, deletePod env p (knn_Namespace k) w)"
  using assms by (simp add: rebalance_one_def forceRebalance_def)

text \<open>
  A pod whose controller is of another kind, a job say, gets a nil \<^verbatim>\<open>Obj\<close>; two of them in one zone make
  \<^verbatim>\<open>getObject\<close> panic, and with it the reconcile of the installation.
\<close>

lemma distribution_panics_on_jobs: "ReconcilePodDistribution (sample_pd_env ''Job'' 1) ''p-'' None = None"
  by code_simp

end
