(* ===== verification/OLM.thy ===== *)
theory OLM
  imports Kube Quota
begin

text \<open>
  The objects of the Operator Lifecycle Manager the operator reads and writes (subscriptions, install
  plans, cluster service versions, catalogue sources), the lookup of the installation
  (\<^verbatim>\<open>pkg/resources/rhmi/rhmi.go\<close>) and the locators that find the ClusterServiceVersion an install plan
  is about (\<^verbatim>\<open>internal/controller/subscription/csvlocator\<close>). The JSON, YAML, base64 and gzip codecs are
  parameters.
\<close>

section \<open>Objects\<close>

record SubscriptionConfig =
  sc_Resources :: "ResourceRequirements option"
  sc_Env :: "(string \<times> string) list option"

record SubscriptionSpec =
  sp_CatalogSource :: string
  sp_CatalogSourceNamespace :: string
  sp_Package :: string
  sp_Channel :: string
  sp_InstallPlanApproval :: string
  sp_Config :: "SubscriptionConfig option"

text \<open>\<^verbatim>\<open>Spec\<close>, \<^verbatim>\<open>Status.Install\<close> and \<^verbatim>\<open>Status.InstallPlanRef\<close> are pointers; a reference is a namespace and a name.\<close>

record OLMSubscription =
  os_Name :: string
  os_Namespace :: string
  os_Spec :: "SubscriptionSpec option"
  os_CurrentCSV :: string
  os_InstalledCSV :: string
  os_Install :: "(string \<times> string) option"
  os_InstallPlanRef :: "(string \<times> string) option"

record Step =
  st_Kind :: string
  st_Manifest :: string

record InstallPlan =
  ip_Name :: string
  ip_Namespace :: string
  ip_Generation :: int
  ip_Approved :: bool
  ip_ClusterServiceVersionNames :: "string list"
  ip_Phase :: string
  ip_Plan :: "Step list"

record DeploymentSpec =
  ds_ContainerResources :: "ResourceRequirements list"
  ds_PriorityClassName :: string

record CSV =
  csv_Name :: string
  csv_Namespace :: string
  csv_Annotations :: "(string, string) gomap"
  csv_StrategyName :: string
  csv_DeploymentSpecs :: "DeploymentSpec list"

definition zero_csv :: CSV where
  "zero_csv = \<lparr>csv_Name = '''', csv_Namespace = '''', csv_Annotations = [], csv_StrategyName = '''', csv_DeploymentSpecs = []\<rparr>"

definition zero_plan :: InstallPlan where
  "zero_plan = \<lparr>ip_Name = '''', ip_Namespace = '''', ip_Generation = 0, ip_Approved = False,
     ip_ClusterServiceVersionNames = [], ip_Phase = '''', ip_Plan = []\<rparr>"

abbreviation ApprovalManual :: string where "ApprovalManual \<equiv> ''Manual''"
abbreviation ClusterServiceVersionKind :: string where "ClusterServiceVersionKind \<equiv> ''ClusterServiceVersion''"
abbreviation InstallPlanPhaseInstalling :: string where "InstallPlanPhaseInstalling \<equiv> ''Installing''"
abbreviation InstallPlanPhaseComplete :: string where "InstallPlanPhaseComplete \<equiv> ''Complete''"
abbreviation InstallPlanPhaseFailed :: string where "InstallPlanPhaseFailed \<equiv> ''Failed''"

text \<open>Reading the install plan a reference names, into a fresh object.\<close>

definition get_plan :: "(InstallPlan, 'w) kind_api \<Rightarrow> string \<times> string \<Rightarrow> 'w \<Rightarrow> err option \<times> InstallPlan \<times> 'w" where
  "get_plan api ref w = k_Get api (zero_plan\<lparr>ip_Namespace := fst ref, ip_Name := snd ref\<rparr>) w"

section \<open>\<^verbatim>\<open>GetRhmiCr\<close>\<close>

text \<open>Several installations are an error that wraps the nil error of the list.\<close>

definition GetRhmiCr :: "err + RHMI list \<Rightarrow> err + RHMI option" where
  "GetRhmiCr listed =
     (case listed of
        Inl e \<Rightarrow> Inl e
      | Inr items \<Rightarrow>
          if items = [] then Inr None
          else if length items \<noteq> 1 then Inl (Msg ''Unexpected number of rhmi CRs: %!w(<nil>)'')
          else Inr (Some (hd items)))"

section \<open>Locating the ClusterServiceVersion of an install plan\<close>

record unpackedBundleReference =
  ub_Name :: string
  ub_Namespace :: string

text \<open>
  The codecs. Decoding JSON into a pointer keeps what the document does not mention and sets the
  pointer to nil for the document \<^verbatim>\<open>null\<close>. \<open>cd_unpack\<close> is base64, then gzip, then reading all of it;
  \<open>cd_unstructured\<close> gives the kind and the JSON of a manifest.
\<close>

record 'w codec =
  cd_csv :: "string \<Rightarrow> CSV option \<Rightarrow> err + CSV option"
  cd_ref :: "string \<Rightarrow> err + unpackedBundleReference option"
  cd_unpack :: "string \<Rightarrow> err + string"
  cd_close :: "string \<Rightarrow> err option"
  cd_unstructured :: "string \<Rightarrow> err + string \<times> (err + string)"
  cd_BinaryData :: "string \<Rightarrow> string \<Rightarrow> 'w \<Rightarrow> err + (string, string) gomap"

text \<open>A \<^verbatim>\<open>CSVLocator\<close>: the result is a pointer, which may be nil.\<close>

type_synonym 'w CSVLocator = "InstallPlan \<Rightarrow> 'w \<Rightarrow> err + CSV option"

fun embedded_loop :: "'w codec \<Rightarrow> Step list \<Rightarrow> CSV option \<Rightarrow> err + CSV option" where
  "embedded_loop cd [] csv = Inr csv"
| "embedded_loop cd (step # steps) csv =
     (if st_Kind step = ClusterServiceVersionKind then
        (case cd_csv cd (st_Manifest step) csv of
           Inl e \<Rightarrow> Inl (Wrap ''failed to unmarshal json'' e)
         | Inr csv' \<Rightarrow> embedded_loop cd steps csv')
      else embedded_loop cd steps csv)"

definition EmbeddedCSVLocator :: "'w codec \<Rightarrow> 'w CSVLocator" where
  "EmbeddedCSVLocator cd ip w = embedded_loop cd (ip_Plan ip) (Some zero_csv)"

text \<open>A manifest of another kind is skipped (a nil pointer and no error).\<close>

definition getCSVfromCM :: "'w codec \<Rightarrow> string \<Rightarrow> err + CSV option" where
  "getCSVfromCM cd resourceStr =
     (case cd_unstructured cd resourceStr of
        Inl e \<Rightarrow> Inl e
      | Inr (kind, json) \<Rightarrow>
          if kind \<noteq> ClusterServiceVersionKind then Inr None
          else (case json of
                  Inl e \<Rightarrow> Inl e
                | Inr resourceJSON \<Rightarrow>
                    (case cd_csv cd resourceJSON (Some zero_csv) of
                       Inl e \<Rightarrow> Inl (Msg (''failed to unmarshall yaml: '' @ err_string e))
                     | Inr csv \<Rightarrow> Inr csv)))"

text \<open>The loop over the entries of the ConfigMap, in the order the map is ranged over.\<close>

fun binary_loop :: "'w codec \<Rightarrow> (string, string) gomap \<Rightarrow> CSV option \<Rightarrow> err + CSV option" where
  "binary_loop cd [] csv = Inr csv"
| "binary_loop cd ((k, bytes) # entries) csv =
     (case cd_unpack cd bytes of
        Inl e \<Rightarrow> Inl e
      | Inr resource \<Rightarrow>
          (case getCSVfromCM cd resource of
             Inl e \<Rightarrow> Inl e
           | Inr None \<Rightarrow> binary_loop cd entries csv
           | Inr (Some candidate) \<Rightarrow>
               (case cd_close cd bytes of
                  Some e \<Rightarrow> Inl e
                | None \<Rightarrow> binary_loop cd entries (Some candidate))))"

fun configmap_loop :: "'w codec \<Rightarrow> Step list \<Rightarrow> 'w \<Rightarrow> CSV option \<Rightarrow> err + CSV option" where
  "configmap_loop cd [] w csv = Inr csv"
| "configmap_loop cd (step # steps) w csv =
     (if st_Kind step \<noteq> ClusterServiceVersionKind then configmap_loop cd steps w csv
      else (case cd_ref cd (st_Manifest step) of
              Inl e \<Rightarrow> Inl (Wrap ''failed to unmarshal json'' e)
            | Inr None \<Rightarrow> Inl (GoPanic ''nil dereference'')
            | Inr (Some ref) \<Rightarrow>
                (case cd_BinaryData cd (ub_Namespace ref) (ub_Name ref) w of
                   Inl e \<Rightarrow> Inl (Msg (''error retrieving ConfigMap '' @ ub_Namespace ref @ ''/'' @ ub_Name ref @ '': '' @ err_string e))
                 | Inr data \<Rightarrow>
                     (case binary_loop cd data csv of
                        Inl e \<Rightarrow> Inl e
                      | Inr csv' \<Rightarrow> configmap_loop cd steps w csv'))))"

definition ConfigMapCSVLocator :: "'w codec \<Rightarrow> 'w CSVLocator" where
  "ConfigMapCSVLocator cd ip w = configmap_loop cd (ip_Plan ip) w (Some zero_csv)"

text \<open>The conditions look at the first step that is a ClusterServiceVersion; a nil reference panics.\<close>

fun first_csv_step :: "Step list \<Rightarrow> Step option" where
  "first_csv_step [] = None"
| "first_csv_step (step # steps) =
     (if st_Kind step = ClusterServiceVersionKind then Some step else first_csv_step steps)"

definition ForReference :: "'w codec \<Rightarrow> InstallPlan \<Rightarrow> err + 'w CSVLocator option" where
  "ForReference cd ip =
     (case first_csv_step (ip_Plan ip) of
        None \<Rightarrow> Inr None
      | Some step \<Rightarrow>
          (case cd_ref cd (st_Manifest step) of
             Inl e \<Rightarrow> Inr None
           | Inr None \<Rightarrow> Inl (GoPanic ''nil dereference'')
           | Inr (Some ref) \<Rightarrow>
               if ub_Name ref = '''' \<or> ub_Namespace ref = '''' then Inr None else Inr (Some (ConfigMapCSVLocator cd))))"

definition ForEmbedded :: "'w codec \<Rightarrow> InstallPlan \<Rightarrow> err + 'w CSVLocator option" where
  "ForEmbedded cd ip =
     (case first_csv_step (ip_Plan ip) of
        None \<Rightarrow> Inr None
      | Some step \<Rightarrow>
          (case cd_csv cd (st_Manifest step) (Some zero_csv) of
             Inl e \<Rightarrow> Inr None
           | Inr None \<Rightarrow> Inl (GoPanic ''nil dereference'')
           | Inr (Some csv) \<Rightarrow>
               if csv_Name csv = '''' \<or> csv_Namespace csv = '''' then Inr None else Inr (Some (EmbeddedCSVLocator cd))))"

fun SwitchLocators :: "(InstallPlan \<Rightarrow> err + 'w CSVLocator option) list \<Rightarrow> InstallPlan \<Rightarrow> err + 'w CSVLocator option" where
  "SwitchLocators [] ip = Inr None"
| "SwitchLocators (c # cs) ip =
     (case c ip of
        Inl e \<Rightarrow> Inl e
      | Inr (Some locator) \<Rightarrow> Inr (Some locator)
      | Inr None \<Rightarrow> SwitchLocators cs ip)"

definition ConditionalCSVLocator :: "(InstallPlan \<Rightarrow> err + 'w CSVLocator option) \<Rightarrow> 'w CSVLocator" where
  "ConditionalCSVLocator condition ip w =
     (case condition ip of
        Inl e \<Rightarrow> Inl e
      | Inr None \<Rightarrow> Inl (Msg (''no csvlocator found for installplan '' @ ip_Name ip))
      | Inr (Some locator) \<Rightarrow> locator ip w)"

text \<open>The cache is keyed by namespace and name and never emptied.\<close>

type_synonym csv_cache = "(string, CSV) gomap"

definition cache_key :: "InstallPlan \<Rightarrow> string" where
  "cache_key ip = ip_Namespace ip @ ''/'' @ ip_Name ip"

definition CachedCSVLocator :: "'w CSVLocator \<Rightarrow> InstallPlan \<Rightarrow> csv_cache \<Rightarrow> 'w \<Rightarrow> (err + CSV option) \<times> csv_cache" where
  "CachedCSVLocator locator ip cache w =
     (case map_of cache (cache_key ip) of
        Some found \<Rightarrow> (Inr (Some found), cache)
      | None \<Rightarrow>
          (case locator ip w of
             Inl e \<Rightarrow> (Inl e, cache)
           | Inr None \<Rightarrow> (Inr None, cache)
           | Inr (Some csv) \<Rightarrow> (Inr (Some csv), gset (cache_key ip) csv cache)))"

text \<open>The locator the subscription controller builds.\<close>

definition csv_locator :: "'w codec \<Rightarrow> 'w CSVLocator" where
  "csv_locator cd = ConditionalCSVLocator (SwitchLocators [ForReference cd, ForEmbedded cd])"

lemmas locator_defs [go_defs] = EmbeddedCSVLocator_def getCSVfromCM_def ConfigMapCSVLocator_def ForReference_def ForEmbedded_def
  ConditionalCSVLocator_def CachedCSVLocator_def csv_locator_def

section \<open>The cache refines the locator behind it\<close>

fun cached_run :: "'w CSVLocator \<Rightarrow> InstallPlan list \<Rightarrow> csv_cache \<Rightarrow> 'w \<Rightarrow> (err + CSV option) list \<times> csv_cache" where
  "cached_run locator [] cache w = ([], cache)"
| "cached_run locator (ip # ips) cache w =
     (let (r, cache1) = CachedCSVLocator locator ip cache w; (rs, cache2) = cached_run locator ips cache1 w
      in (r # rs, cache2))"

text \<open>Names of Kubernetes objects have no slash, so the key is injective on them.\<close>

definition plain_names :: "InstallPlan \<Rightarrow> bool" where
  "plain_names ip \<longleftrightarrow> CHR ''/'' \<notin> set (ip_Namespace ip) \<and> CHR ''/'' \<notin> set (ip_Name ip)"

lemma cache_key_inj:
  assumes "plain_names ip" and "plain_names jp" and "cache_key ip = cache_key jp"
  shows "ip_Namespace ip = ip_Namespace jp \<and> ip_Name ip = ip_Name jp"
proof -
  have "SplitC (CHR ''/'') (cache_key ip) = [ip_Namespace ip, ip_Name ip]" if "plain_names ip" for ip
    using that by (simp add: cache_key_def plain_names_def SplitC_segment SplitC_whole)
  from this [OF assms(1)] this [OF assms(2)] assms(3) show ?thesis by simp
qed

text \<open>A plan is settled once its name determines what is located for it.\<close>

definition settled_plans :: "'w CSVLocator \<Rightarrow> 'w \<Rightarrow> InstallPlan list \<Rightarrow> bool" where
  "settled_plans locator w ips \<longleftrightarrow>
     (\<forall>ip \<in> set ips. \<forall>jp \<in> set ips. ip_Namespace ip = ip_Namespace jp \<and> ip_Name ip = ip_Name jp \<longrightarrow>
        locator ip w = locator jp w)"

lemma cached_run_cache:
  assumes "settled_plans locator w all" and "list_all plain_names all" and "set ips \<subseteq> set all"
    and "\<And>ip csv. ip \<in> set all \<Longrightarrow> map_of cache (cache_key ip) = Some csv \<Longrightarrow> locator ip w = Inr (Some csv)"
  shows "fst (cached_run locator ips cache w) = map (\<lambda>ip. locator ip w) ips"
  using assms(3,4)
proof (induction ips arbitrary: cache)
  case Nil
  show ?case by simp
next
  case (Cons ip ips)
  obtain r cache1 where c: "CachedCSVLocator locator ip cache w = (r, cache1)" by fastforce
  have r: "r = locator ip w"
    using c Cons.prems by (auto simp: CachedCSVLocator_def split: option.splits sum.splits)
  have "locator jp w = Inr (Some csv)" if j: "jp \<in> set all" and m: "map_of cache1 (cache_key jp) = Some csv" for jp csv
  proof (cases "map_of cache (cache_key jp) = Some csv")
    case True
    then show ?thesis using Cons.prems(2) j by blast
  next
    case False
    then have "cache_key jp = cache_key ip" and l: "locator ip w = Inr (Some csv)"
      using c m by (auto simp: CachedCSVLocator_def split: option.splits sum.splits if_splits)
    moreover have "plain_names ip" "plain_names jp" using assms(2) Cons.prems(1) j by (auto simp: list_all_iff)
    ultimately have "ip_Namespace jp = ip_Namespace ip \<and> ip_Name jp = ip_Name ip" using cache_key_inj by blast
    then have "locator jp w = locator ip w"
      using assms(1) Cons.prems(1) j unfolding settled_plans_def by (metis list.set_intros(1) subsetD)
    then show ?thesis using l by simp
  qed
  then have "fst (cached_run locator ips cache1 w) = map (\<lambda>ip. locator ip w) ips"
    using Cons.IH Cons.prems(1) by auto
  then show ?case using c r by (simp add: case_prod_beta)
qed

text \<open>
  C22. The cached locator refines the one it wraps: for plans whose contents are settled, any sequence
  of requests, with repetitions, through an initially empty cache gives the answers the locator
  itself would give, errors and nil included.
\<close>

theorem CachedCSVLocator_refines:
  assumes "settled_plans locator w ips" and "list_all plain_names ips"
  shows "fst (cached_run locator ips [] w) = map (\<lambda>ip. locator ip w) ips"
  by (rule cached_run_cache [OF assms]) auto

definition sample_codec :: "'w codec" where
  "sample_codec = \<lparr>cd_csv = (\<lambda>s csv. if s = ''bad'' then Inl (Msg ''json'')
       else Inr (Some (zero_csv\<lparr>csv_Name := s, csv_Namespace := ''ns''\<rparr>))),
     cd_ref = (\<lambda>s. Inr (Some \<lparr>ub_Name = '''', ub_Namespace = ''''\<rparr>)), cd_unpack = Inr, cd_close = (\<lambda>s. None),
     cd_unstructured = (\<lambda>s. Inr (ClusterServiceVersionKind, Inr s)), cd_BinaryData = (\<lambda>ns n w. Inr [])\<rparr>"

definition sample_plan :: "string \<Rightarrow> string \<Rightarrow> InstallPlan" where
  "sample_plan name manifest = zero_plan\<lparr>ip_Name := name, ip_Namespace := ''ns'',
     ip_Plan := [\<lparr>st_Kind = ClusterServiceVersionKind, st_Manifest = manifest\<rparr>]\<rparr>"

theorem CachedCSVLocator_refines_witness:
  "fst (cached_run (csv_locator sample_codec) [sample_plan ''a'' ''x'', sample_plan ''b'' ''bad'', sample_plan ''a'' ''x''] [] ()) =
     map (\<lambda>ip. csv_locator sample_codec ip ()) [sample_plan ''a'' ''x'', sample_plan ''b'' ''bad'', sample_plan ''a'' ''x''] \<and>
   csv_locator sample_codec (sample_plan ''a'' ''x'') () \<noteq> csv_locator sample_codec (sample_plan ''b'' ''bad'') ()"
proof -
  let ?ips = "[sample_plan ''a'' ''x'', sample_plan ''b'' ''bad'', sample_plan ''a'' ''x'']"
  have st: "settled_plans (csv_locator sample_codec) () ?ips" by (simp add: settled_plans_def sample_plan_def)
  have pl: "list_all plain_names ?ips" by (simp add: plain_names_def sample_plan_def)
  have ne: "csv_locator sample_codec (sample_plan ''a'' ''x'') () \<noteq> csv_locator sample_codec (sample_plan ''b'' ''bad'') ()"
    by (simp add: locator_defs sample_codec_def sample_plan_def zero_csv_def zero_plan_def)
  show ?thesis by (rule conjI [OF CachedCSVLocator_refines [OF st pl] ne])
qed

end
