(* ===== verification/Upgrade.thy ===== *)
theory Upgrade
  imports OLM
begin

text \<open>
  The subscription controller (\<^verbatim>\<open>internal/controller/subscription\<close>): it keeps the operator's own
  subscription on manual approval and decides about upgrades of the operator: an upgrade that does
  not affect the service is approved at once, one that does is left to a person, and while such an
  upgrade is running the databases get their maintenance window. The locator of the
  ClusterServiceVersion is a field of the environment (\<open>OLM\<close> has the one that is used); its cache is
  part of the state \<open>'w\<close>.
\<close>

section \<open>Environment\<close>

text \<open>A Postgres or Redis resource of the cloud resource operator.\<close>

record CroInstance =
  ci_Name :: string
  ci_MaintenanceWindow :: bool

record 'w upgrade_env =
  up_operatorNamespace :: string
  up_subs :: "(OLMSubscription, 'w) kind_api"
  up_plans :: "(InstallPlan, 'w) kind_api"
  up_GetCSV :: "InstallPlan \<Rightarrow> 'w \<Rightarrow> (err + CSV option) \<times> 'w"
  up_ListRHMIs :: "string \<Rightarrow> 'w \<Rightarrow> err + RHMI list"
  up_ListPostgres :: "'w \<Rightarrow> err + CroInstance list"
  up_UpdatePostgres :: "CroInstance \<Rightarrow> 'w \<Rightarrow> err option \<times> 'w"
  up_ListRedis :: "'w \<Rightarrow> err + CroInstance list"
  up_UpdateRedis :: "CroInstance \<Rightarrow> 'w \<Rightarrow> err option \<times> 'w"
  up_Event :: "InstallPlan \<Rightarrow> 'w \<Rightarrow> 'w"
  up_version :: string
  up_manual_ticks :: nat
  up_ticks :: nat

section \<open>\<^verbatim>\<open>rhmiConfigs\<close>\<close>

definition IsUpgradeAvailable :: "OLMSubscription option \<Rightarrow> bool" where
  "IsUpgradeAvailable subscription =
     (case subscription of None \<Rightarrow> False | Some s \<Rightarrow> os_CurrentCSV s \<noteq> os_InstalledCSV s)"

definition GetLatestInstallPlan :: "'w upgrade_env \<Rightarrow> OLMSubscription \<Rightarrow> 'w \<Rightarrow> (err + InstallPlan) \<times> 'w" where
  "GetLatestInstallPlan env subscription w =
     (case os_InstallPlanRef subscription of
        None \<Rightarrow> (Inl (Msg ''installplan not found in the subscription status reference''), w)
      | Some ref \<Rightarrow>
          (case get_plan (up_plans env) ref w of
             (Some e, ip, w') \<Rightarrow> (Inl e, w')
           | (None, ip, w') \<Rightarrow> (Inr ip, w')))"

definition IsUpgradeServiceAffecting :: "CSV option \<Rightarrow> bool" where
  "IsUpgradeServiceAffecting csv =
     (case csv of None \<Rightarrow> True | Some c \<Rightarrow> map_of (csv_Annotations c) ''serviceAffecting'' \<noteq> Some ''false'')"

text \<open>The event names the first ClusterServiceVersion of the plan: with none, indexing panics.\<close>

definition ApproveUpgrade :: "'w upgrade_env \<Rightarrow> InstallPlan \<Rightarrow> 'w \<Rightarrow> err option \<times> 'w" where
  "ApproveUpgrade env installPlan w =
     (if ip_Phase installPlan = InstallPlanPhaseInstalling then (None, w)
      else if ip_ClusterServiceVersionNames installPlan = [] then (Some (GoPanic ''index out of range''), w)
      else (case k_Update (up_plans env) (installPlan\<lparr>ip_Approved := True\<rparr>) (up_Event env installPlan w) of
              (e, ip, w') \<Rightarrow> (e, w')))"

section \<open>The maintenance window of the databases\<close>

fun open_windows :: "(CroInstance \<Rightarrow> 'w \<Rightarrow> err option \<times> 'w) \<Rightarrow> CroInstance list \<Rightarrow> 'w \<Rightarrow> err option \<times> 'w" where
  "open_windows upd [] w = (None, w)"
| "open_windows upd (inst # insts) w =
     (case upd (inst\<lparr>ci_MaintenanceWindow := True\<rparr>) w of
        (Some e, w') \<Rightarrow> (Some (Wrap (''failed to update maintenance window for postgres '' @ ci_Name inst) e), w')
      | (None, w') \<Rightarrow> open_windows upd insts w')"

definition allowDatabaseUpdates :: "'w upgrade_env \<Rightarrow> RHMI \<Rightarrow> bool \<Rightarrow> 'w \<Rightarrow> err option \<times> 'w" where
  "allowDatabaseUpdates env installation isServiceAffecting w =
     (if Version (Status installation) \<noteq> '''' \<and> ToVersion (Status installation) \<noteq> '''' \<and> isServiceAffecting then
        (case up_ListPostgres env w of
           Inl e \<Rightarrow> (Some (Wrap ''failed to list postgres instances'' e), w)
         | Inr postgres \<Rightarrow>
             (case open_windows (up_UpdatePostgres env) postgres w of
                (Some e, w1) \<Rightarrow> (Some e, w1)
              | (None, w1) \<Rightarrow>
                  (case up_ListRedis env w1 of
                     Inl e \<Rightarrow> (Some (Wrap ''failed to list redis instances'' e), w1)
                   | Inr redis \<Rightarrow> open_windows (up_UpdateRedis env) redis w1)))
      else (None, w))"

section \<open>\<^verbatim>\<open>HandleUpgrades\<close>\<close>

text \<open>
  The poll reads the subscription again, then its install plan, until both succeed; the state is the
  subscription, the plan found last and the cluster.
\<close>

definition refresh_plan ::
  "'w upgrade_env \<Rightarrow> OLMSubscription \<times> InstallPlan option \<times> 'w \<Rightarrow> (bool \<times> err option) \<times> (OLMSubscription \<times> InstallPlan option \<times> 'w)" where
  "refresh_plan env s =
     (case s of (sub, ip, w) \<Rightarrow>
        (case k_Get (up_subs env) sub w of
           (Some e, sub1, w1) \<Rightarrow> ((False, None), (sub1, ip, w1))
         | (None, sub1, w1) \<Rightarrow>
             (case GetLatestInstallPlan env sub1 w1 of
                (Inl e, w2) \<Rightarrow> ((False, None), (sub1, None, w2))
              | (Inr ip1, w2) \<Rightarrow> ((True, None), (sub1, Some ip1, w2)))))"

definition decide_upgrade ::
  "'w upgrade_env \<Rightarrow> OLMSubscription \<Rightarrow> InstallPlan \<Rightarrow> bool \<Rightarrow> RHMI \<Rightarrow> 'w \<Rightarrow> (ctrl_result \<times> err option) \<times> 'w" where
  "decide_upgrade env sub ip isServiceAffecting installation w =
     (if \<not> IsUpgradeAvailable (Some sub) then
        if (ToVersion (Status installation) \<noteq> '''' \<or> Version (Status installation) \<noteq> up_version env) \<and> isServiceAffecting
        then ((retryRequeue, None), w)
        else ((no_requeue, None), w)
      else if \<not> isServiceAffecting \<and> \<not> ip_Approved ip then
        (case ApproveUpgrade env ip w of
           (Some e, w') \<Rightarrow> ((no_requeue, Some e), w')
         | (None, w') \<Rightarrow> ((retryRequeue, None), w'))
      else ((\<lparr>Requeue = True, RequeueAfter = 60 * second_ns\<rparr>, None), w))"

definition HandleUpgrades ::
  "'w upgrade_env \<Rightarrow> OLMSubscription option \<Rightarrow> RHMI option \<Rightarrow> 'w \<Rightarrow> (ctrl_result \<times> err option) \<times> 'w" where
  "HandleUpgrades env rhmiSubscription installation w =
     (case (rhmiSubscription, installation) of
        (Some sub, Some inst) \<Rightarrow>
          (case PollUntilContextTimeout (up_ticks env) (refresh_plan env) (sub, None, w) of
             (Some e, (sub1, ip, w1)) \<Rightarrow> ((no_requeue, Some e), w1)
           | (None, (sub1, ip, w1)) \<Rightarrow>
               (case ip of
                  None \<Rightarrow> ((no_requeue, Some (GoPanic ''nil dereference'')), w1)
                | Some latestInstallPlan \<Rightarrow>
                    (case up_GetCSV env latestInstallPlan w1 of
                       (Inl e, w2) \<Rightarrow> ((no_requeue, Some e), w2)
                     | (Inr csv, w2) \<Rightarrow>
                         (case allowDatabaseUpdates env inst (IsUpgradeServiceAffecting csv) w2 of
                            (Some e, w3) \<Rightarrow> ((no_requeue, Some e), w3)
                          | (None, w3) \<Rightarrow>
                              decide_upgrade env sub1 latestInstallPlan (IsUpgradeServiceAffecting csv) inst w3))))
      | _ \<Rightarrow> ((no_requeue, None), w))"

section \<open>\<^verbatim>\<open>Reconcile\<close>\<close>

definition subscriptionsToReconcile :: "string list" where
  "subscriptionsToReconcile = [''integreatly'', ''addon-managed-api-service'', ''addon-managed-api-service-internal'', ''managed-api-service'']"

definition shouldReconcileSubscription :: "'w upgrade_env \<Rightarrow> string \<Rightarrow> string \<Rightarrow> bool" where
  "shouldReconcileSubscription env namespace name \<longleftrightarrow>
     namespace = up_operatorNamespace env \<and> list_ex (\<lambda>r. name = r) subscriptionsToReconcile"

text \<open>The poll for the first install plan: it looks at the subscription it has, which it does not read again.\<close>

definition poll_plan ::
  "'w upgrade_env \<Rightarrow> OLMSubscription \<Rightarrow> InstallPlan \<times> 'w \<Rightarrow> (bool \<times> err option) \<times> (InstallPlan \<times> 'w)" where
  "poll_plan env sub s =
     (case s of (ip, w) \<Rightarrow>
        (case os_InstallPlanRef sub of
           None \<Rightarrow> ((False, None), (ip, w))
         | Some ref \<Rightarrow>
             (case k_Get (up_plans env) (ip\<lparr>ip_Namespace := fst ref, ip_Name := snd ref\<rparr>) w of
                (Some e, ip1, w1) \<Rightarrow> ((False, None), (ip1, w1))
              | (None, ip1, w1) \<Rightarrow> ((True, None), (ip1, w1)))))"

text \<open>The resources of the subscription are those of the first container of the first deployment.\<close>

definition with_resources :: "CSV \<Rightarrow> SubscriptionSpec \<Rightarrow> SubscriptionSpec" where
  "with_resources csv spec =
     (case csv_DeploymentSpecs csv of
        [] \<Rightarrow> spec
      | d # ds \<Rightarrow>
          (case ds_ContainerResources d of
             [] \<Rightarrow> spec
           | r # rs \<Rightarrow>
               spec\<lparr>sp_Config := Some ((case sp_Config spec of None \<Rightarrow> \<lparr>sc_Resources = None, sc_Env = None\<rparr> | Some c \<Rightarrow> c)
                 \<lparr>sc_Resources := Some r\<rparr>)\<rparr>))"

definition make_manual :: "'w upgrade_env \<Rightarrow> OLMSubscription \<Rightarrow> SubscriptionSpec \<Rightarrow> 'w \<Rightarrow> (err option \<times> OLMSubscription) \<times> 'w" where
  "make_manual env sub spec0 w =
     (let spec = spec0\<lparr>sp_InstallPlanApproval := ApprovalManual\<rparr> in
      case PollUntilContextTimeout (up_manual_ticks env) (poll_plan env sub) (zero_plan, w) of
        (Some e, (ip, w1)) \<Rightarrow> ((Some e, sub\<lparr>os_Spec := Some spec\<rparr>), w1)
      | (None, (ip, w1)) \<Rightarrow>
          (case up_GetCSV env ip w1 of
             (Inl e, w2) \<Rightarrow> ((Some e, sub\<lparr>os_Spec := Some spec\<rparr>), w2)
           | (Inr None, w2) \<Rightarrow> ((Some (GoPanic ''nil dereference''), sub\<lparr>os_Spec := Some spec\<rparr>), w2)
           | (Inr (Some csv), w2) \<Rightarrow>
               (case k_Update (up_subs env) (sub\<lparr>os_Spec := Some (with_resources csv spec)\<rparr>) w2 of
                  (e, sub1, w3) \<Rightarrow> ((e, sub1), w3))))"

definition Subscription_Reconcile ::
  "'w upgrade_env \<Rightarrow> OLMSubscription \<Rightarrow> 'w \<Rightarrow> (ctrl_result \<times> err option) \<times> 'w" where
  "Subscription_Reconcile env request w =
     (if \<not> shouldReconcileSubscription env (os_Namespace request) (os_Name request) then ((no_requeue, None), w)
      else case k_Get (up_subs env) request w of
        (Some e, sub, w1) \<Rightarrow> if IsNotFound (Some e) then ((no_requeue, None), w1) else ((no_requeue, Some e), w1)
      | (None, sub, w1) \<Rightarrow>
          (case os_Spec sub of
             None \<Rightarrow> ((no_requeue, Some (GoPanic ''nil dereference'')), w1)
           | Some spec \<Rightarrow>
               (case (if sp_InstallPlanApproval spec \<noteq> ApprovalManual then make_manual env sub spec w1
                      else ((None, sub), w1)) of
                  ((Some e, sub2), w2) \<Rightarrow> ((no_requeue, Some e), w2)
                | ((None, sub2), w2) \<Rightarrow>
                    (case GetRhmiCr (up_ListRHMIs env (os_Namespace request) w2) of
                       Inl e \<Rightarrow> ((no_requeue, Some e), w2)
                     | Inr None \<Rightarrow> ((no_requeue, None), w2)
                     | Inr (Some rhmiCr) \<Rightarrow> HandleUpgrades env (Some sub2) (Some rhmiCr) w2))))"

lemmas upgrade_defs [go_defs] = IsUpgradeAvailable_def GetLatestInstallPlan_def IsUpgradeServiceAffecting_def ApproveUpgrade_def
  allowDatabaseUpdates_def refresh_plan_def decide_upgrade_def HandleUpgrades_def subscriptionsToReconcile_def
  shouldReconcileSubscription_def poll_plan_def with_resources_def make_manual_def Subscription_Reconcile_def

section \<open>Who approves an upgrade\<close>

text \<open>The environment with another way of writing install plans: what does not depend on it makes no such write.\<close>

definition with_plan_update :: "(InstallPlan, 'w) op \<Rightarrow> 'w upgrade_env \<Rightarrow> 'w upgrade_env" where
  "with_plan_update f env = env\<lparr>up_plans := (up_plans env)\<lparr>k_Update := f\<rparr>\<rparr>"

lemma with_plan_update_simps [simp]:
  "k_Get (up_plans (with_plan_update f env)) = k_Get (up_plans env)" "up_subs (with_plan_update f env) = up_subs env"
  "up_GetCSV (with_plan_update f env) = up_GetCSV env" "up_ListRHMIs (with_plan_update f env) = up_ListRHMIs env"
  "up_ticks (with_plan_update f env) = up_ticks env" "up_manual_ticks (with_plan_update f env) = up_manual_ticks env"
  "up_version (with_plan_update f env) = up_version env"
  "up_operatorNamespace (with_plan_update f env) = up_operatorNamespace env"
  "up_ListPostgres (with_plan_update f env) = up_ListPostgres env" "up_ListRedis (with_plan_update f env) = up_ListRedis env"
  "up_UpdatePostgres (with_plan_update f env) = up_UpdatePostgres env" "up_UpdateRedis (with_plan_update f env) = up_UpdateRedis env"
  by (simp_all add: with_plan_update_def)

lemma allowDatabaseUpdates_no_write [simp]: "allowDatabaseUpdates (with_plan_update f env) = allowDatabaseUpdates env"
  by (intro ext) (unfold allowDatabaseUpdates_def with_plan_update_simps, rule refl)

lemma GetLatestInstallPlan_no_write [simp]: "GetLatestInstallPlan (with_plan_update f env) = GetLatestInstallPlan env"
  by (intro ext) (unfold GetLatestInstallPlan_def get_plan_def with_plan_update_simps, rule refl)

lemma refresh_plan_no_write [simp]: "refresh_plan (with_plan_update f env) = refresh_plan env"
  by (intro ext) (unfold refresh_plan_def GetLatestInstallPlan_no_write with_plan_update_simps, rule refl)

lemma poll_plan_no_write [simp]: "poll_plan (with_plan_update f env) = poll_plan env"
  by (intro ext) (unfold poll_plan_def with_plan_update_simps, rule refl)

lemma make_manual_no_write [simp]: "make_manual (with_plan_update f env) = make_manual env"
  by (intro ext) (unfold make_manual_def poll_plan_no_write with_plan_update_simps, rule refl)

lemma decide_upgrade_affecting:
  "decide_upgrade (with_plan_update f env) sub ip True inst w = decide_upgrade env sub ip True inst w"
  by (simp add: decide_upgrade_def)

lemma HandleUpgrades_affecting:
  assumes "\<And>ip w csv w'. up_GetCSV env ip w = (Inr csv, w') \<Longrightarrow> IsUpgradeServiceAffecting csv"
  shows "HandleUpgrades (with_plan_update f env) sub inst w = HandleUpgrades env sub inst w"
  using assms
  by (auto simp: HandleUpgrades_def decide_upgrade_affecting split: option.splits prod.splits sum.splits)

text \<open>
  C12. An upgrade that affects the service is never approved by the operator: when every
  ClusterServiceVersion that is located says so, or says nothing, a reconcile of the subscription
  makes no write to an install plan, whatever the state of the subscription and the installation
  (its outcome is the same whatever such a write would do).
\<close>

theorem service_affecting_not_approved:
  assumes "\<And>ip w csv w'. up_GetCSV env ip w = (Inr csv, w') \<Longrightarrow> IsUpgradeServiceAffecting csv"
  shows "Subscription_Reconcile (with_plan_update f env) request w = Subscription_Reconcile env request w"
proof -
  have h: "HandleUpgrades (with_plan_update f env) = HandleUpgrades env"
    by (intro ext HandleUpgrades_affecting) (rule assms)
  show ?thesis
    unfolding Subscription_Reconcile_def shouldReconcileSubscription_def h make_manual_no_write with_plan_update_simps
    by (rule refl)
qed

text \<open>
  C13. An upgrade that does not affect the service is approved: once the subscription and its install
  plan have been read, the plan is not approved or being installed yet and names a version, and the
  write succeeds, the reconcile asks to come back and the plan on the server is approved,
  unchanged otherwise.
\<close>

theorem upgrade_approved:
  assumes st: "stores (up_plans env)"
    and poll: "PollUntilContextTimeout (up_ticks env) (refresh_plan env) (sub, None, w) = (None, (sub1, Some ip, w1))"
    and csv: "up_GetCSV env ip w1 = (Inr csv, w2)" "\<not> IsUpgradeServiceAffecting csv"
    and avail: "os_CurrentCSV sub1 \<noteq> os_InstalledCSV sub1"
    and ip: "\<not> ip_Approved ip" "ip_Phase ip \<noteq> InstallPlanPhaseInstalling" "ip_ClusterServiceVersionNames ip \<noteq> []"
    and key: "k_Key (up_plans env) (ip\<lparr>ip_Approved := True\<rparr>) = k_Key (up_plans env) ip"
    and upd: "k_Update (up_plans env) (ip\<lparr>ip_Approved := True\<rparr>) (up_Event env ip w2) = (None, ip', w3)"
  shows "HandleUpgrades env (Some sub) (Some inst) w = ((retryRequeue, None), w3) \<and>
     k_Get (up_plans env) ip w3 = (None, ip\<lparr>ip_Approved := True\<rparr>, w3)"
proof -
  have "k_Get (up_plans env) ip w3 = (None, ip\<lparr>ip_Approved := True\<rparr>, w3)"
    by (rule stores_write(2) [OF st, where c = True]) (use upd key in simp_all)
  moreover have "allowDatabaseUpdates env inst (IsUpgradeServiceAffecting csv) w2 = (None, w2)"
    using csv(2) by (simp add: allowDatabaseUpdates_def)
  ultimately show ?thesis using poll csv avail ip upd
    by (simp add: HandleUpgrades_def decide_upgrade_def IsUpgradeAvailable_def ApproveUpgrade_def)
qed

definition sample_sub :: "string \<Rightarrow> (string \<times> string) option \<Rightarrow> OLMSubscription" where
  "sample_sub approval ref = \<lparr>os_Name = ''managed-api-service'', os_Namespace = ''o-p-operator'',
     os_Spec = Some \<lparr>sp_CatalogSource = '''', sp_CatalogSourceNamespace = '''', sp_Package = '''', sp_Channel = '''',
       sp_InstallPlanApproval = approval, sp_Config = None\<rparr>,
     os_CurrentCSV = ''v2'', os_InstalledCSV = ''v1'', os_Install = ref, os_InstallPlanRef = ref\<rparr>"

definition pending_plan :: InstallPlan where
  "pending_plan = zero_plan\<lparr>ip_Name := ''plan'', ip_Namespace := ''ns'', ip_ClusterServiceVersionNames := [''v2'']\<rparr>"

definition plan_key :: "InstallPlan \<Rightarrow> string \<times> string" where
  "plan_key ip = (ip_Namespace ip, ip_Name ip)"

definition sample_upgrade_env :: "string \<Rightarrow> InstallPlan option upgrade_env" where
  "sample_upgrade_env affecting = \<lparr>up_operatorNamespace = ''o-p-operator'',
     up_subs = no_api\<lparr>k_Get := (\<lambda>s w. (None, sample_sub ApprovalManual (Some (''ns'', ''plan'')), w))\<rparr>,
     up_plans = sample_api plan_key,
     up_GetCSV = (\<lambda>ip w. (Inr (Some (zero_csv\<lparr>csv_Annotations := [(''serviceAffecting'', affecting)]\<rparr>)), w)),
     up_ListRHMIs = (\<lambda>ns w. Inr [zero_rhmi]), up_ListPostgres = (\<lambda>w. Inr []), up_UpdatePostgres = (\<lambda>i w. (None, w)),
     up_ListRedis = (\<lambda>w. Inr []), up_UpdateRedis = (\<lambda>i w. (None, w)), up_Event = (\<lambda>ip w. w), up_version = ''1'',
     up_manual_ticks = 1, up_ticks = 1\<rparr>"

theorem service_affecting_not_approved_witness:
  "Subscription_Reconcile (with_plan_update (\<lambda>ip w. (None, ip, None)) (sample_upgrade_env ''true''))
     (sample_sub ApprovalManual None) (Some pending_plan) =
   Subscription_Reconcile (sample_upgrade_env ''true'') (sample_sub ApprovalManual None) (Some pending_plan)"
  by (rule service_affecting_not_approved)
    (auto simp: sample_upgrade_env_def IsUpgradeServiceAffecting_def)

theorem upgrade_approved_witness:
  "HandleUpgrades (sample_upgrade_env ''false'') (Some (sample_sub ApprovalManual None)) (Some zero_rhmi) (Some pending_plan) =
     ((retryRequeue, None), Some (pending_plan\<lparr>ip_Approved := True\<rparr>)) \<and>
   k_Get (up_plans (sample_upgrade_env ''false'')) pending_plan (Some (pending_plan\<lparr>ip_Approved := True\<rparr>)) =
     (None, pending_plan\<lparr>ip_Approved := True\<rparr>, Some (pending_plan\<lparr>ip_Approved := True\<rparr>))"
proof (rule upgrade_approved)
  let ?env = "sample_upgrade_env ''false''"
  show "PollUntilContextTimeout (up_ticks ?env) (refresh_plan ?env) (sample_sub ApprovalManual None, None, Some pending_plan) =
     (None, (sample_sub ApprovalManual (Some (''ns'', ''plan'')), Some pending_plan, Some pending_plan))"
    by (simp add: sample_upgrade_env_def no_api_def refresh_plan_def GetLatestInstallPlan_def get_plan_def sample_sub_def
        sample_api_def plan_key_def pending_plan_def zero_plan_def)
  show "up_GetCSV ?env pending_plan (Some pending_plan) =
     (Inr (Some (zero_csv\<lparr>csv_Annotations := [(''serviceAffecting'', ''false'')]\<rparr>)), Some pending_plan)"
    by (simp add: sample_upgrade_env_def)
  show "stores (up_plans ?env)" by (simp add: sample_upgrade_env_def stores_sample_api)
qed (simp_all add: sample_upgrade_env_def IsUpgradeServiceAffecting_def sample_sub_def pending_plan_def
       zero_plan_def sample_api_def plan_key_def)

section \<open>Manual approval\<close>

text \<open>A subscription that was not on manual approval is stored as one, with the rest of its spec but the resources.\<close>

lemma make_manual_stored:
  assumes "stores (up_subs env)" and "make_manual env sub spec w = ((None, sub'), w')"
    and "\<And>s sp. k_Key (up_subs env) (s\<lparr>os_Spec := sp\<rparr>) = k_Key (up_subs env) s"
  shows "\<exists>csv. k_Get (up_subs env) sub w' =
     (None, sub\<lparr>os_Spec := Some (with_resources csv (spec\<lparr>sp_InstallPlanApproval := ApprovalManual\<rparr>))\<rparr>, w')"
proof -
  obtain csv s w2 where "k_Update (up_subs env)
      (sub\<lparr>os_Spec := Some (with_resources csv (spec\<lparr>sp_InstallPlanApproval := ApprovalManual\<rparr>))\<rparr>) w2 = (None, s, w')"
    using assms(2) by (auto simp: make_manual_def Let_def split: prod.splits option.splits sum.splits)
  then have "k_Get (up_subs env) sub w' =
     (None, sub\<lparr>os_Spec := Some (with_resources csv (spec\<lparr>sp_InstallPlanApproval := ApprovalManual\<rparr>))\<rparr>, w')"
    by (intro stores_write(2) [OF assms(1), where c = True]) (use assms(3) in simp_all)
  then show ?thesis by (rule exI [where x = csv])
qed

text \<open>
  The poll that waits for the install plan of the subscription never reads the subscription again, so
  that a subscription without a reference is polled until the deadline, and the reconcile fails.
\<close>

lemma make_manual_without_plan:
  assumes "os_InstallPlanRef sub = None"
  shows "fst (make_manual env sub spec w) = (Some DeadlineExceeded, sub\<lparr>os_Spec := Some (spec\<lparr>sp_InstallPlanApproval := ApprovalManual\<rparr>)\<rparr>)"
proof -
  have "PollUntilContextTimeout n (poll_plan env sub) s = (Some DeadlineExceeded, s)" for n s
    by (induction n) (use assms in \<open>simp_all add: poll_plan_def split: prod.splits\<close>)
  then show ?thesis by (simp add: make_manual_def)
qed

end
