(* ===== verification/Namespace_Label.thy ===== *)
theory Namespace_Label
  imports OLM
begin

text \<open>
  The namespace label controller (\<^verbatim>\<open>internal/controller/namespacelabel\<close>): labels on the operator's
  namespace, or on the deletion ConfigMap of the add-on, ask the operator to remove the installation
  or to set the CIDR block of the network. The JSON of the network configuration is a parameter: a
  map from tiers to pointers, of which the code reads and writes the CIDR block only.
\<close>

section \<open>Environment\<close>

type_synonym labels = "(string, string) gomap"
type_synonym tiers = "(string, string option) gomap"

record 'w label_env =
  nl_operatorNamespace :: string
  nl_GetNS :: "string \<Rightarrow> 'w \<Rightarrow> err + labels"
  nl_ListRHMIs :: "string \<Rightarrow> 'w \<Rightarrow> err + RHMI list"
  nl_ConfigMapLabels :: "string \<Rightarrow> string \<Rightarrow> 'w \<Rightarrow> err + labels"
  nl_Network :: "string \<Rightarrow> 'w \<Rightarrow> err + string"
  nl_DeleteRHMI :: "RHMI \<Rightarrow> 'w \<Rightarrow> err option \<times> 'w"
  nl_decode :: "string \<Rightarrow> tiers option"
  nl_encode :: "tiers \<Rightarrow> err + string"
  nl_clientset :: "err option"
  nl_PatchNetwork :: "string \<Rightarrow> string \<Rightarrow> 'w \<Rightarrow> err option \<times> 'w"

text \<open>A request names an object; the requests for a namespace have no namespace themselves.\<close>

record Request =
  rq_Namespace :: string
  rq_Name :: string

abbreviation deletionConfigMap :: string where "deletionConfigMap \<equiv> ''managed-api-service''"

text \<open>\<^verbatim>\<open>EnqueueNamespaceFromObject\<close>: an event of an object asks for its namespace; an update for the old and the new.\<close>

definition namespace_request :: "string \<Rightarrow> Request" where
  "namespace_request ns = \<lparr>rq_Namespace = '''', rq_Name = ns\<rparr>"

definition EnqueueNamespace :: "string option \<Rightarrow> string option \<Rightarrow> Request list" where
  "EnqueueNamespace old new =
     (case old of None \<Rightarrow> [] | Some ns \<Rightarrow> [namespace_request ns]) @
     (case new of None \<Rightarrow> [] | Some ns \<Rightarrow> [namespace_request ns])"

section \<open>Actions\<close>

text \<open>A failed delete is only logged.\<close>

definition Uninstall_action :: "'w label_env \<Rightarrow> string \<Rightarrow> Request \<Rightarrow> 'w \<Rightarrow> err option \<times> 'w" where
  "Uninstall_action env v request w =
     (if v \<noteq> ''true'' then (None, w)
      else case GetRhmiCr (nl_ListRHMIs env (rq_Namespace request) w) of
        Inl e \<Rightarrow> (Some e, w)
      | Inr None \<Rightarrow> (None, w)
      | Inr (Some rhmiCr) \<Rightarrow>
          if DeletionTimestamp rhmiCr = None then (None, snd (nl_DeleteRHMI env rhmiCr w)) else (None, w))"

definition CheckCidrValueAndUpdate :: "'w label_env \<Rightarrow> string \<Rightarrow> Request \<Rightarrow> 'w \<Rightarrow> err option \<times> 'w" where
  "CheckCidrValueAndUpdate env val request w =
     (case nl_Network env (rq_Name request) w of
        Inl e \<Rightarrow> (Some e, w)
      | Inr data \<Rightarrow>
          (case nl_decode env data of
             None \<Rightarrow> (None, w)
           | Some tiers \<Rightarrow>
               (case map_of tiers ''production'' of
                  None \<Rightarrow> (None, w)
                | Some None \<Rightarrow> (None, w)
                | Some (Some cidr) \<Rightarrow>
                    if cidr \<noteq> '''' then (None, w)
                    else (case nl_clientset env of
                            Some e \<Rightarrow> (Some e, w)
                          | None \<Rightarrow>
                              (case nl_encode env (gset ''production'' (Some (ReplaceAllC val (CHR ''-'') (CHR ''/''))) tiers) of
                                 Inl e \<Rightarrow> (Some e, w)
                               | Inr dataValue \<Rightarrow> nl_PatchNetwork env (rq_Name request) dataValue w)))))"

datatype action = DoUninstall | DoCidr

definition run_action :: "'w label_env \<Rightarrow> action \<Rightarrow> string \<Rightarrow> Request \<Rightarrow> 'w \<Rightarrow> err option \<times> 'w" where
  "run_action env a v request w =
     (case a of DoUninstall \<Rightarrow> Uninstall_action env v request w | DoCidr \<Rightarrow> CheckCidrValueAndUpdate env v request w)"

definition namespaceLabelBasedActions :: "(string, action) gomap" where
  "namespaceLabelBasedActions =
     [(''api.openshift.com/addon-rhmi-operator-delete'', DoUninstall),
      (''api.openshift.com/addon-managed-api-service-delete'', DoUninstall), (''cidr'', DoCidr)]"

definition configMapLabelBasedActions :: "(string, action) gomap" where
  "configMapLabelBasedActions =
     [(''api.openshift.com/addon-rhmi-operator-delete'', DoUninstall),
      (''api.openshift.com/addon-managed-api-service-delete'', DoUninstall)]"

text \<open>The loop over the labels, in the order the map is ranged over; the first error ends it.\<close>

fun run_labels :: "'w label_env \<Rightarrow> (string, action) gomap \<Rightarrow> Request \<Rightarrow> labels \<Rightarrow> 'w \<Rightarrow> err option \<times> 'w" where
  "run_labels env actions request [] w = (None, w)"
| "run_labels env actions request ((k, v) # ls) w =
     (case map_of actions k of
        None \<Rightarrow> run_labels env actions request ls w
      | Some a \<Rightarrow>
          (case run_action env a v request w of
             (Some e, w') \<Rightarrow> (Some e, w')
           | (None, w') \<Rightarrow> run_labels env actions request ls w'))"

definition CheckLabel :: "'w label_env \<Rightarrow> labels \<Rightarrow> Request \<Rightarrow> 'w \<Rightarrow> err option \<times> 'w" where
  "CheckLabel env ls request w = run_labels env namespaceLabelBasedActions request ls w"

definition CheckConfigMap :: "'w label_env \<Rightarrow> Request \<Rightarrow> string \<Rightarrow> 'w \<Rightarrow> err option \<times> 'w" where
  "CheckConfigMap env request name w =
     (case nl_ConfigMapLabels env (rq_Name request) name w of
        Inl e \<Rightarrow> (Some e, w)
      | Inr ls \<Rightarrow> run_labels env configMapLabelBasedActions request ls w)"

section \<open>\<^verbatim>\<open>Reconcile\<close>\<close>

abbreviation one_minute :: ctrl_result where "one_minute \<equiv> \<lparr>Requeue = True, RequeueAfter = 60 * second_ns\<rparr>"

text \<open>A namespace that cannot be read is logged and taken as one without labels.\<close>

definition Label_Reconcile :: "'w label_env \<Rightarrow> Request \<Rightarrow> 'w \<Rightarrow> (ctrl_result \<times> err option) \<times> 'w" where
  "Label_Reconcile env request w =
     (if rq_Name request = nl_operatorNamespace env then
        (let ls = (case nl_GetNS env (nl_operatorNamespace env) w of Inl e \<Rightarrow> [] | Inr ls \<Rightarrow> ls) in
         case GetRhmiCr (nl_ListRHMIs env (rq_Namespace request) w) of
           Inl e \<Rightarrow> ((one_minute, None), w)
         | Inr None \<Rightarrow> ((one_minute, None), w)
         | Inr (Some rhmiCr) \<Rightarrow>
             (case CheckConfigMap env request deletionConfigMap w of
                (Some e, w1) \<Rightarrow> ((one_minute, None), w1)
              | (None, w1) \<Rightarrow>
                  (case CheckLabel env ls request w1 of
                     (Some e, w2) \<Rightarrow> ((no_requeue, Some e), w2)
                   | (None, w2) \<Rightarrow> ((one_minute, None), w2))))
      else ((one_minute, None), w))"

lemmas label_defs [go_defs] = Uninstall_action_def CheckCidrValueAndUpdate_def run_action_def namespaceLabelBasedActions_def
  configMapLabelBasedActions_def CheckLabel_def CheckConfigMap_def Label_Reconcile_def

section \<open>When the installation is deleted\<close>

definition delete_labels :: "string list" where
  "delete_labels = [''api.openshift.com/addon-rhmi-operator-delete'', ''api.openshift.com/addon-managed-api-service-delete'']"

text \<open>Whether a set of labels asks for the removal.\<close>

definition asks_delete :: "labels \<Rightarrow> bool" where
  "asks_delete ls \<longleftrightarrow> list_ex (\<lambda>(k, v). k \<in> set delete_labels \<and> v = ''true'') ls"

definition with_delete :: "(RHMI \<Rightarrow> 'w \<Rightarrow> err option \<times> 'w) \<Rightarrow> 'w label_env \<Rightarrow> 'w label_env" where
  "with_delete f env = env\<lparr>nl_DeleteRHMI := f\<rparr>"

lemma with_delete_simps [simp]:
  "nl_operatorNamespace (with_delete f env) = nl_operatorNamespace env" "nl_GetNS (with_delete f env) = nl_GetNS env"
  "nl_ListRHMIs (with_delete f env) = nl_ListRHMIs env" "nl_ConfigMapLabels (with_delete f env) = nl_ConfigMapLabels env"
  "nl_Network (with_delete f env) = nl_Network env" "nl_decode (with_delete f env) = nl_decode env"
  "nl_encode (with_delete f env) = nl_encode env" "nl_clientset (with_delete f env) = nl_clientset env"
  "nl_PatchNetwork (with_delete f env) = nl_PatchNetwork env"
  by (simp_all add: with_delete_def)

lemma actions_uninstall:
  "map_of namespaceLabelBasedActions k = Some DoUninstall \<longleftrightarrow> k \<in> set delete_labels"
  "map_of configMapLabelBasedActions k = Some DoUninstall \<longleftrightarrow> k \<in> set delete_labels"
  by (auto simp: namespaceLabelBasedActions_def configMapLabelBasedActions_def delete_labels_def)

lemma CheckCidr_no_delete: "CheckCidrValueAndUpdate (with_delete f env) = CheckCidrValueAndUpdate env"
  by (intro ext) (unfold CheckCidrValueAndUpdate_def with_delete_simps, rule refl)

lemma run_labels_no_delete:
  assumes "\<And>k v. (k, v) \<in> set ls \<Longrightarrow> map_of actions k = Some DoUninstall \<Longrightarrow> v \<noteq> ''true''"
  shows "run_labels (with_delete f env) actions request ls w = run_labels env actions request ls w"
  using assms
proof (induction ls arbitrary: w)
  case Nil
  show ?case by simp
next
  case (Cons kv ls)
  obtain k v where kv: "kv = (k, v)" by (cases kv)
  have IH: "run_labels (with_delete f env) actions request ls u = run_labels env actions request ls u" for u
    using Cons by auto
  show ?case
  proof (cases "map_of actions k")
    case None
    then show ?thesis using kv IH by simp
  next
    case (Some a)
    have "run_action (with_delete f env) a v request w = run_action env a v request w"
      using Some Cons.prems [of k v] kv by (cases a) (simp_all add: run_action_def CheckCidr_no_delete Uninstall_action_def)
    then show ?thesis using kv IH Some by (auto split: prod.splits option.splits)
  qed
qed


text \<open>The request is carried out: with the label on the ConfigMap and one installation, it is deleted.\<close>

lemma configmap_label_deletes:
  assumes "rq_Name request = nl_operatorNamespace env" and "nl_ListRHMIs env (rq_Namespace request) w = Inr [inst]"
    and "DeletionTimestamp inst = None"
    and "nl_ConfigMapLabels env (rq_Name request) deletionConfigMap w = Inr [(''api.openshift.com/addon-managed-api-service-delete'', ''true'')]"
    and "nl_GetNS env (nl_operatorNamespace env) w = Inr []"
  shows "Label_Reconcile env request w = ((one_minute, None), snd (nl_DeleteRHMI env inst w))"
  using assms
  by (simp add: Label_Reconcile_def CheckConfigMap_def CheckLabel_def configMapLabelBasedActions_def run_action_def
      Uninstall_action_def GetRhmiCr_def)

text \<open>
  The labels of the namespace are looked at only when the deletion ConfigMap exists: without it neither
  the deletion label nor the CIDR block on the namespace has an effect.
\<close>

lemma namespace_labels_need_configmap:
  assumes "nl_ConfigMapLabels env (rq_Name request) deletionConfigMap w = Inl e"
  shows "Label_Reconcile env request w = ((one_minute, None), w)"
  using assms by (auto simp: Label_Reconcile_def CheckConfigMap_def Let_def split: sum.splits option.splits)

text \<open>A CIDR block is written only over an empty one.\<close>

lemma cidr_set_once:
  assumes "nl_Network env (rq_Name request) w = Inr data" and "nl_decode env data = Some tiers"
    and "map_of tiers ''production'' = Some (Some cidr)" and "cidr \<noteq> ''''"
  shows "CheckCidrValueAndUpdate env val request w = (None, w)"
  using assms by (simp add: CheckCidrValueAndUpdate_def)

definition sample_label_env :: "labels \<Rightarrow> nat label_env" where
  "sample_label_env ls = \<lparr>nl_operatorNamespace = ''op'', nl_GetNS = (\<lambda>n w. Inr [(''cidr'', ''10.1.0.0-26'')]),
     nl_ListRHMIs = (\<lambda>n w. Inr [zero_rhmi]), nl_ConfigMapLabels = (\<lambda>ns n w. Inr ls), nl_Network = (\<lambda>n w. Inr ''''),
     nl_DeleteRHMI = (\<lambda>i w. (None, 0)), nl_decode = (\<lambda>s. None), nl_encode = (\<lambda>t. Inr ''''), nl_clientset = None,
     nl_PatchNetwork = (\<lambda>n d w. (None, w))\<rparr>"


end
