(* ===== verification/Users.thy ===== *)
theory Users
  imports Bootstrap
begin

text \<open>
  Users of the cluster: the helpers of \<^verbatim>\<open>pkg/resources/user/userHelper.go\<close> and the user controller
  (\<^verbatim>\<open>internal/controller/user/user_controller.go\<close>), which keeps the group of developers. The parser of
  \<^verbatim>\<open>net/mail\<close> is a parameter, of which the code uses only whether it accepts a string.
\<close>

section \<open>Data\<close>

record User =
  u_Name :: string
  u_UID :: string
  u_Annotations :: "(string, string) gomap option"
  u_Identities :: "string list"

record Identity =
  id_Name :: string
  id_ProviderName :: string
  id_UserName :: string
  id_Extra :: "(string, string) gomap"

record Group =
  gr_Name :: string
  gr_Users :: "string list"

record FederatedIdentity =
  fi_IdentityProvider :: string
  fi_UserID :: string
  fi_UserName :: string

record KeycloakAPIUser =
  ku_ID :: string
  ku_UserName :: string
  ku_FirstName :: string
  ku_LastName :: string
  ku_Email :: string
  ku_EmailVerified :: bool
  ku_Enabled :: bool
  ku_RealmRoles :: "string list"
  ku_ClientRoles :: "(string, string list) gomap option"
  ku_RequiredActions :: "string list"
  ku_Groups :: "string list"
  ku_FederatedIdentities :: "FederatedIdentity list"
  ku_Attributes :: "(string, string list) gomap option"

record 'w user_env =
  us_ListUsers :: "'w \<Rightarrow> err + User list"
  us_ListGroups :: "'w \<Rightarrow> err + Group list"
  us_ListIdentities :: "'w \<Rightarrow> err + Identity list"
  us_ListOAuths :: "'w \<Rightarrow> err + string list list"
  us_groups :: "(Group, 'w) kind_api"
  us_ParseAddress :: "string \<Rightarrow> bool"

definition exclusionGroups :: "string list" where
  "exclusionGroups = [''layered-cs-sre-admins'', ''osd-sre-admins'']"

abbreviation updateProfileAction :: string where "updateProfileAction \<equiv> ''UPDATE_PROFILE''"
abbreviation GeneratedNamePrefix :: string where "GeneratedNamePrefix \<equiv> ''generated-''"
abbreviation defaultEmailDomain :: string where "defaultEmailDomain \<equiv> ''@rhmi.io''"

section \<open>Names and e-mail addresses\<close>

definition alnum_char :: "char \<Rightarrow> bool" where
  "alnum_char c \<longleftrightarrow>
     (let n = of_char c :: nat in 48 \<le> n \<and> n \<le> 57 \<or> 65 \<le> n \<and> n \<le> 90 \<or> 97 \<le> n \<and> n \<le> 122)"

text \<open>
  \<^verbatim>\<open>ReplaceAllString\<close> of \<^verbatim>\<open>[^a-zA-Z0-9]+\<close> by a hyphen: every maximal run becomes one; the flag says that
  the character before is in the run.
\<close>

fun squash :: "bool \<Rightarrow> string \<Rightarrow> string" where
  "squash r [] = []"
| "squash r (c # s) =
     (if alnum_char c then c # squash False s
      else if r then squash True s else CHR ''-'' # squash True s)"

definition SanitiseTenantUserName :: "string \<Rightarrow> string" where
  "SanitiseTenantUserName username = TrimSuffix (squash False (ToLower username)) ''-''"

definition SetUserNameAsEmail :: "(string \<Rightarrow> bool) \<Rightarrow> string \<Rightarrow> string" where
  "SetUserNameAsEmail parse userName =
     (if parse userName then userName else SanitiseTenantUserName userName @ defaultEmailDomain)"

fun first_identity_id :: "FederatedIdentity list \<Rightarrow> string option" where
  "first_identity_id [] = None"
| "first_identity_id (f # fs) = (if fi_UserID f \<noteq> '''' then Some (fi_UserID f) else first_identity_id fs)"

definition GetValidGeneratedUserName :: "KeycloakAPIUser \<Rightarrow> string" where
  "GetValidGeneratedUserName user =
     (let processed = TrimSuffix (squash False (ToLower (ku_UserName user))) ''-''
      in GeneratedNamePrefix @
           (case first_identity_id (ku_FederatedIdentities user) of
              None \<Rightarrow> processed
            | Some i \<Rightarrow> processed @ ''-'' @ i))"

definition AppendUpdateProfileActionForUserWithoutEmail :: "KeycloakAPIUser \<Rightarrow> KeycloakAPIUser" where
  "AppendUpdateProfileActionForUserWithoutEmail user =
     (if ku_Email user = '''' then user\<lparr>ku_RequiredActions := [updateProfileAction]\<rparr> else user)"

section \<open>Identities\<close>

text \<open>The two nested loops of \<^verbatim>\<open>GetEmailFromIdentity\<close>: the first e-mail address that is not empty.\<close>

fun email_of_name :: "string \<Rightarrow> Identity list \<Rightarrow> string option" where
  "email_of_name n [] = None"
| "email_of_name n (i # is) =
     (if n = id_Name i \<and> gget '''' (id_Extra i) ''email'' \<noteq> '''' then Some (gget '''' (id_Extra i) ''email'')
      else email_of_name n is)"

fun email_of_names :: "string list \<Rightarrow> Identity list \<Rightarrow> string" where
  "email_of_names [] is = ''''"
| "email_of_names (n # ns) is = (case email_of_name n is of Some e \<Rightarrow> e | None \<Rightarrow> email_of_names ns is)"

definition GetEmailFromIdentity :: "User \<Rightarrow> Identity list \<Rightarrow> string" where
  "GetEmailFromIdentity user is = email_of_names (u_Identities user) is"

fun getIdentity :: "string \<Rightarrow> Identity list \<Rightarrow> Identity option" where
  "getIdentity n [] = None"
| "getIdentity n (i # is) = (if id_Name i = n then Some i else getIdentity n is)"

definition GetIdentities :: "User \<Rightarrow> Identity list \<Rightarrow> Identity list" where
  "GetIdentities user is = List.map_filter (\<lambda>n. getIdentity n is) (u_Identities user)"

definition IsInExclusionGroup :: "User \<Rightarrow> Group list \<Rightarrow> bool" where
  "IsInExclusionGroup user groups \<longleftrightarrow>
     list_ex (\<lambda>g. list_ex (\<lambda>x. gr_Name g = x \<and> list_ex (\<lambda>gu. gu = u_Name user) (gr_Users g)) exclusionGroups) groups"

text \<open>The body of the loop over the users: the first identity of an active provider appends the user.\<close>

fun provided :: "string list \<Rightarrow> Identity list \<Rightarrow> bool" where
  "provided idps [] = False"
| "provided idps (i # is) = (id_ProviderName i \<in> set idps \<or> provided idps is)"

fun active_loop :: "string list \<Rightarrow> Identity list \<Rightarrow> User list \<Rightarrow> User list \<Rightarrow> User list" where
  "active_loop idps is [] active = active"
| "active_loop idps is (u # us) active =
     (if u_Identities u = [] then active_loop idps is us active
      else if provided idps (GetIdentities u is) then active_loop idps is us (active @ [u])
      else active_loop idps is us active)"

definition GetUsersInActiveIDPs :: "'w user_env \<Rightarrow> 'w \<Rightarrow> err + User list" where
  "GetUsersInActiveIDPs env w =
     (case us_ListUsers env w of
        Inl e \<Rightarrow> Inl (Wrap ''could not list users'' e)
      | Inr users \<Rightarrow>
          (case us_ListOAuths env w of
             Inl e \<Rightarrow> Inl (Wrap ''could not list oAuths'' e)
           | Inr oAuths \<Rightarrow>
               (case us_ListIdentities env w of
                  Inl e \<Rightarrow> Inl (Wrap ''could not list cluster identities'' e)
                | Inr is \<Rightarrow> Inr (active_loop (concat oAuths) is users []))))"

definition GetIdentitiesByProviderName :: "'w user_env \<Rightarrow> string \<Rightarrow> 'w \<Rightarrow> err + Identity list" where
  "GetIdentitiesByProviderName env provider w =
     (case us_ListIdentities env w of
        Inl e \<Rightarrow> Inl (Wrap (''could not get identities by provider '' @ provider) e)
      | Inr is \<Rightarrow> Inr (filter (\<lambda>i. id_ProviderName i = provider) is))"

text \<open>A user is appended once for every identity of the provider.\<close>

definition GetUsersByProviderName :: "'w user_env \<Rightarrow> string \<Rightarrow> 'w \<Rightarrow> err + User list" where
  "GetUsersByProviderName env provider w =
     (case us_ListUsers env w of
        Inl e \<Rightarrow> Inl (Wrap (''could not get users by provider '' @ provider) e)
      | Inr users \<Rightarrow>
          Inr (concat (map (\<lambda>u. map (\<lambda>i. u) (filter (\<lambda>i. hd (SplitC (CHR '':'') i) = provider) (u_Identities u))) users)))"

section \<open>Tenants\<close>

definition hasTenantAnnotation :: "User \<Rightarrow> bool" where
  "hasTenantAnnotation user \<longleftrightarrow>
     (case u_Annotations user of None \<Rightarrow> False | Some a \<Rightarrow> map_of a ''tenant'' \<noteq> None)"

fun find_user_identity :: "string \<Rightarrow> Identity list \<Rightarrow> Identity option" where
  "find_user_identity n [] = None"
| "find_user_identity n (i # is) = (if id_UserName i = n then Some i else find_user_identity n is)"

definition getUserEmail :: "(string \<Rightarrow> bool) \<Rightarrow> User \<Rightarrow> Identity list \<Rightarrow> string" where
  "getUserEmail parse user is =
     (case find_user_identity (u_Name user) is of
        Some i \<Rightarrow> if gget '''' (id_Extra i) ''email'' \<noteq> '''' then gget '''' (id_Extra i) ''email''
                  else SetUserNameAsEmail parse (id_UserName i)
      | None \<Rightarrow> SetUserNameAsEmail parse (u_Name user))"

text \<open>An empty e-mail address ends the loop with the nil error: no users and no error.\<close>

fun tenant_loop :: "(string \<Rightarrow> bool) \<Rightarrow> Identity list \<Rightarrow> User list \<Rightarrow> MultiTenantUser list \<Rightarrow> MultiTenantUser list" where
  "tenant_loop parse is [] acc = acc"
| "tenant_loop parse is (u # us) acc =
     (if hasTenantAnnotation u then
        (let email = getUserEmail parse u is in
         if email = '''' then []
         else tenant_loop parse is us
                (acc @ [\<lparr>mt_Username = u_Name u, mt_TenantName = SanitiseTenantUserName (u_Name u), mt_Email = email, mt_UID = u_UID u\<rparr>]))
      else tenant_loop parse is us acc)"

definition GetMultiTenantUsers :: "'w user_env \<Rightarrow> 'w \<Rightarrow> err + MultiTenantUser list" where
  "GetMultiTenantUsers env w =
     (case us_ListIdentities env w of
        Inl e \<Rightarrow> Inl (Msg ''error getting identity list'')
      | Inr is \<Rightarrow>
          (case us_ListUsers env w of
             Inl e \<Rightarrow> Inl (Msg ''error getting users list'')
           | Inr users \<Rightarrow> Inr (tenant_loop (us_ParseAddress env) is users [])))"

section \<open>The user controller\<close>

fun mapUserNames :: "User list \<Rightarrow> Group list \<Rightarrow> string list" where
  "mapUserNames [] groups = []"
| "mapUserNames (u # us) groups =
     (if \<not> IsInExclusionGroup u groups then u_Name u # mapUserNames us groups else mapUserNames us groups)"

abbreviation developers_group :: Group where
  "developers_group \<equiv> \<lparr>gr_Name = ''rhmi-developers'', gr_Users = []\<rparr>"

definition User_Reconcile :: "'w user_env \<Rightarrow> 'w \<Rightarrow> (ctrl_result \<times> err option) \<times> 'w" where
  "User_Reconcile env w =
     (case us_ListUsers env w of
        Inl e \<Rightarrow> ((no_requeue, Some e), w)
      | Inr users \<Rightarrow>
          (case us_ListGroups env w of
             Inl e \<Rightarrow> ((no_requeue, Some e), w)
           | Inr groups \<Rightarrow>
               (case CreateOrUpdate (us_groups env) (=) (pure_op (\<lambda>g. g\<lparr>gr_Users := mapUserNames users groups\<rparr>)) developers_group w of
                  ((r, e), g, w') \<Rightarrow> ((no_requeue, e), w'))))"

lemmas user_defs [go_defs] = exclusionGroups_def SanitiseTenantUserName_def SetUserNameAsEmail_def GetIdentities_def
  IsInExclusionGroup_def GetUsersInActiveIDPs_def hasTenantAnnotation_def getUserEmail_def GetMultiTenantUsers_def
  User_Reconcile_def

section \<open>Tenant names\<close>

text \<open>What the name of a tenant looks like: lower-case letters and digits, in words joined by single hyphens, with no hyphen at the end.\<close>

definition name_char :: "char \<Rightarrow> bool" where
  "name_char c \<longleftrightarrow> alnum_char c \<and> lower_char c = c"

fun single_hyphens :: "bool \<Rightarrow> string \<Rightarrow> bool" where
  "single_hyphens r [] \<longleftrightarrow> \<not> r"
| "single_hyphens r (c # s) \<longleftrightarrow> (if c = CHR ''-'' then \<not> r \<and> single_hyphens True s else name_char c \<and> single_hyphens False s)"

abbreviation tenant_name_ok :: "string \<Rightarrow> bool" where
  "tenant_name_ok s \<equiv> single_hyphens False s"

lemma hyphen_chars [simp]: "\<not> alnum_char (CHR ''-'')" "lower_char (CHR ''-'') = CHR ''-''"
  by (simp_all add: alnum_char_def lower_char_def)

lemma name_char_hyphen [simp]: "\<not> name_char (CHR ''-'')"
  by (simp add: name_char_def)

lemma TrimSuffix_hyphen: "TrimSuffix s ''-'' = (if s \<noteq> [] \<and> last s = CHR ''-'' then butlast s else s)"
  by (cases s rule: rev_cases) (auto simp: TrimSuffix_def)

text \<open>After the replacement a hyphen can only be left over at the very end.\<close>

fun hyphen_runs :: "bool \<Rightarrow> string \<Rightarrow> bool" where
  "hyphen_runs r [] \<longleftrightarrow> True"
| "hyphen_runs r (c # s) \<longleftrightarrow> (if c = CHR ''-'' then \<not> r \<and> hyphen_runs True s else name_char c \<and> hyphen_runs False s)"

lemma squash_runs: "list_all (\<lambda>c. alnum_char c \<longrightarrow> lower_char c = c) s \<Longrightarrow> hyphen_runs r (squash r s)"
proof (induction s arbitrary: r)
  case (Cons c s)
  then have "c \<noteq> CHR ''-''" if "alnum_char c" using that by auto
  with Cons show ?case by (auto simp: name_char_def)
qed simp

lemma runs_trimmed:
  "hyphen_runs r s \<Longrightarrow> s \<noteq> [] \<Longrightarrow>
     (if last s = CHR ''-'' then single_hyphens r (butlast s) else single_hyphens r s)"
proof (induction s arbitrary: r)
  case (Cons c s)
  then show ?case by (cases s) (auto split: if_splits)
qed simp

lemma lower_char_idem: "lower_char (lower_char c) = lower_char c"
  by (simp add: lower_char_def)

lemma squash_fixed: "hyphen_runs r s \<Longrightarrow> squash r s = s"
  by (induction s arbitrary: r) (auto simp: name_char_def split: if_splits)

lemma single_runs: "single_hyphens r s \<Longrightarrow> hyphen_runs r s"
  by (induction s arbitrary: r) (auto split: if_splits)

lemma single_lower: "single_hyphens r s \<Longrightarrow> ToLower s = s"
  by (induction s arbitrary: r) (auto simp: ToLower_def name_char_def split: if_splits)

lemma single_last: "single_hyphens r s \<Longrightarrow> s \<noteq> [] \<Longrightarrow> last s \<noteq> CHR ''-''"
  by (induction s arbitrary: r) (auto split: if_splits)

lemma Sanitise_ok: "tenant_name_ok (SanitiseTenantUserName u)"
proof -
  have "list_all (\<lambda>c. alnum_char c \<longrightarrow> lower_char c = c) (ToLower u)"
    by (simp add: ToLower_def list_all_iff lower_char_idem)
  then have "hyphen_runs False (squash False (ToLower u))" by (rule squash_runs)
  with runs_trimmed [OF this] show ?thesis
    by (cases "squash False (ToLower u) = []")
      (auto simp: SanitiseTenantUserName_def TrimSuffix_hyphen split: if_splits)
qed

lemma Sanitise_fixed: "tenant_name_ok s \<Longrightarrow> SanitiseTenantUserName s = s"
  using single_last [of False s]
  by (auto simp: SanitiseTenantUserName_def single_lower squash_fixed single_runs TrimSuffix_hyphen)

text \<open>
  Sanitising gives the name of a tenant, and changes nothing exactly on strings that are one already:
  so it is idempotent.
\<close>

theorem SanitiseTenantUserName_normal:
  "(SanitiseTenantUserName s = s \<longleftrightarrow> tenant_name_ok s) \<and>
   SanitiseTenantUserName (SanitiseTenantUserName u) = SanitiseTenantUserName u"
  using Sanitise_ok [of s] Sanitise_fixed [OF Sanitise_ok [of u]] Sanitise_fixed [of s] by auto

text \<open>Users whose names differ only in what is replaced share one tenant.\<close>

lemma tenant_names_collide: "SanitiseTenantUserName ''ann.lee'' = SanitiseTenantUserName ''Ann-Lee''"
  by code_simp

section \<open>Who is a tenant, and who is a developer\<close>

lemma SetUserNameAsEmail_nonempty: "\<not> parse '''' \<Longrightarrow> SetUserNameAsEmail parse n \<noteq> ''''"
  by (auto simp: SetUserNameAsEmail_def)

lemma getUserEmail_nonempty: "\<not> parse '''' \<Longrightarrow> getUserEmail parse u is \<noteq> ''''"
  by (auto simp: getUserEmail_def SetUserNameAsEmail_nonempty split: option.splits)

definition tenant_of :: "(string \<Rightarrow> bool) \<Rightarrow> Identity list \<Rightarrow> User \<Rightarrow> MultiTenantUser" where
  "tenant_of parse is u = \<lparr>mt_Username = u_Name u, mt_TenantName = SanitiseTenantUserName (u_Name u),
     mt_Email = getUserEmail parse u is, mt_UID = u_UID u\<rparr>"

lemma tenant_loop_exact:
  "\<not> parse '''' \<Longrightarrow> tenant_loop parse is us acc = acc @ map (tenant_of parse is) (filter hasTenantAnnotation us)"
  by (induction us arbitrary: acc) (auto simp: getUserEmail_nonempty tenant_of_def Let_def)

text \<open>
  The tenants are exactly the users with the annotation, in the order they are listed, each with the
  name of a tenant and an e-mail address: the branch that would give up on an empty address is never
  taken, as long as the empty string is not an e-mail address.
\<close>

theorem GetMultiTenantUsers_exact:
  assumes "\<not> us_ParseAddress env ''''" and "us_ListIdentities env w = Inr is" and "us_ListUsers env w = Inr users"
  shows "GetMultiTenantUsers env w = Inr (map (tenant_of (us_ParseAddress env) is) (filter hasTenantAnnotation users)) \<and>
    (\<forall>u. tenant_name_ok (mt_TenantName (tenant_of (us_ParseAddress env) is u)) \<and> mt_Email (tenant_of (us_ParseAddress env) is u) \<noteq> '''')"
  using assms by (simp add: GetMultiTenantUsers_def tenant_loop_exact tenant_of_def Sanitise_ok getUserEmail_nonempty)

lemma provided_iff: "provided idps is \<longleftrightarrow> (\<exists>i \<in> set is. id_ProviderName i \<in> set idps)"
  by (induction "is") auto

lemma getIdentity_find: "getIdentity n is = find (\<lambda>i. id_Name i = n) is"
  by (induction "is") auto

lemma GetIdentities_set: "set (GetIdentities u is) = {i. \<exists>n \<in> set (u_Identities u). getIdentity n is = Some i}"
  by (force simp: GetIdentities_def List.map_filter_def)

definition active_user :: "string list \<Rightarrow> Identity list \<Rightarrow> User \<Rightarrow> bool" where
  "active_user idps is u \<longleftrightarrow>
     (\<exists>n i. n \<in> set (u_Identities u) \<and> find (\<lambda>i. id_Name i = n) is = Some i \<and> id_ProviderName i \<in> set idps)"

lemma active_loop_exact: "active_loop idps is us acc = acc @ filter (active_user idps is) us"
proof -
  have "provided idps (GetIdentities u is) = active_user idps is u" for u
    by (auto simp: provided_iff GetIdentities_set active_user_def getIdentity_find)
  moreover have "\<not> active_user idps is u" if "u_Identities u = []" for u
    using that by (simp add: active_user_def)
  ultimately show ?thesis by (induction us arbitrary: acc) auto
qed

text \<open>
  The users of an active identity provider: those, in the order they are listed and each once, with an
  identity that exists and whose provider one of the OAuth configurations names.
\<close>

lemma GetUsersInActiveIDPs_exact:
  assumes "us_ListUsers env w = Inr users" and "us_ListOAuths env w = Inr oAuths" and "us_ListIdentities env w = Inr is"
  shows "GetUsersInActiveIDPs env w = Inr (filter (active_user (concat oAuths) is) users)"
  using assms by (simp add: GetUsersInActiveIDPs_def active_loop_exact)

lemma mapUserNames_exact: "mapUserNames us groups = map u_Name (filter (\<lambda>u. \<not> IsInExclusionGroup u groups) us)"
  by (induction us) auto

lemma IsInExclusionGroup_iff:
  "IsInExclusionGroup u groups \<longleftrightarrow> (\<exists>g \<in> set groups. gr_Name g \<in> set exclusionGroups \<and> u_Name u \<in> set (gr_Users g))"
  by (auto simp: IsInExclusionGroup_def list_ex_iff)

text \<open>
  After a reconcile without an error the group of developers on the server has exactly the users that
  are in none of the excluded groups.
\<close>

theorem User_Reconcile_developers:
  assumes st: "stores (us_groups env)" and run: "User_Reconcile env w = ((r, None), w')"
    and users: "us_ListUsers env w = Inr users" and groups: "us_ListGroups env w = Inr groups"
  shows "\<exists>g. k_Get (us_groups env) developers_group w' = (None, g, w') \<and>
    set (gr_Users g) = {u_Name u | u. u \<in> set users \<and>
      \<not> (\<exists>x \<in> set groups. gr_Name x \<in> set exclusionGroups \<and> u_Name u \<in> set (gr_Users x))}"
proof -
  let ?f = "\<lambda>g. g\<lparr>gr_Users := mapUserNames users groups\<rparr>"
  obtain res g where run': "CreateOrUpdate (us_groups env) (=) (pure_op ?f) developers_group w = ((res, None), g, w')"
    using run users groups by (auto simp: User_Reconcile_def split: prod.splits)
  have "CreateOrUpdate (us_groups env) (=) (pure_op ?f) developers_group w' = ((OperationResultNone, None), g, w') \<and> ?f g = g"
    by (rule CreateOrUpdate_settles [OF st run']) simp_all
  moreover obtain e x where "k_Get (us_groups env) developers_group w' = (e, x, w')"
    using stores_get(1) [OF st] by (metis prod_cases3)
  ultimately have "k_Get (us_groups env) developers_group w' = (None, x, w')" and "?f x = g" and "?f g = g" and "x = g"
    by (auto simp: CreateOrUpdate_pure split: if_splits prod.splits)
  then have "k_Get (us_groups env) developers_group w' = (None, g, w')" and "gr_Users g = mapUserNames users groups"
    by (metis Group.select_convs(2) Group.surjective Group.update_convs(2))+
  then show ?thesis by (auto simp: mapUserNames_exact IsInExclusionGroup_iff)
qed

section \<open>Witnesses\<close>

definition group_key :: "Group \<Rightarrow> string \<times> string" where
  "group_key g = ('''', gr_Name g)"

definition sample_user :: "string \<Rightarrow> User" where
  "sample_user n = \<lparr>u_Name = n, u_UID = ''1'', u_Annotations = Some [(''tenant'', ''yes'')], u_Identities = [''google:'' @ n]\<rparr>"

definition sample_user_env :: "Group option user_env" where
  "sample_user_env =
     \<lparr>us_ListUsers = (\<lambda>w. Inr [sample_user ''ann.lee'', sample_user ''sre'']),
      us_ListGroups = (\<lambda>w. Inr [\<lparr>gr_Name = ''osd-sre-admins'', gr_Users = [''sre'']\<rparr>]),
      us_ListIdentities = (\<lambda>w. Inr []), us_ListOAuths = (\<lambda>w. Inr [[''google'']]),
      us_groups = sample_api group_key, us_ParseAddress = (\<lambda>s. CHR ''@'' \<in> set s)\<rparr>"

theorem GetMultiTenantUsers_exact_witness:
  "GetMultiTenantUsers sample_user_env None = Inr
     (map (tenant_of (us_ParseAddress sample_user_env) []) (filter hasTenantAnnotation [sample_user ''ann.lee'', sample_user ''sre''])) \<and>
   (\<forall>u. tenant_name_ok (mt_TenantName (tenant_of (us_ParseAddress sample_user_env) [] u)) \<and>
        mt_Email (tenant_of (us_ParseAddress sample_user_env) [] u) \<noteq> '''')"
  by (rule GetMultiTenantUsers_exact) (simp_all add: sample_user_env_def)

theorem User_Reconcile_developers_witness:
  "\<exists>g. k_Get (us_groups sample_user_env) developers_group (Some \<lparr>gr_Name = ''rhmi-developers'', gr_Users = [''ann.lee'']\<rparr>) =
      (None, g, Some \<lparr>gr_Name = ''rhmi-developers'', gr_Users = [''ann.lee'']\<rparr>) \<and>
    set (gr_Users g) = {u_Name u | u. u \<in> set [sample_user ''ann.lee'', sample_user ''sre''] \<and>
      \<not> (\<exists>x \<in> set [\<lparr>gr_Name = ''osd-sre-admins'', gr_Users = [''sre'']\<rparr>]. gr_Name x \<in> set exclusionGroups \<and> u_Name u \<in> set (gr_Users x))}"
  by (rule User_Reconcile_developers [of sample_user_env None no_requeue])
    (simp_all add: sample_user_env_def stores_sample_api, simp add: User_Reconcile_def CreateOrUpdate_pure sample_api_def
      group_key_def mapUserNames_exact IsInExclusionGroup_iff sample_user_def exclusionGroups_def)

end
