(* ===== verification/Tenant.thy ===== *)
theory Tenant
  imports Users
begin

text \<open>
  The tenant controller (\<^verbatim>\<open>internal/controller/tenant/apimanagementtenant_controller.go\<close>): it takes an
  \<^verbatim>\<open>APIManagementTenant\<close>, which a user creates in a namespace of their own, from its creation to a
  3scale account. The status is a small state machine, written through the status subresource; the
  operations that get a pointer to the tenant return the tenant it points to afterwards.
\<close>

section \<open>Data\<close>

abbreviation UserAnnotated :: string where "UserAnnotated \<equiv> ''user annotated''"
abbreviation WontProvisionTenant :: string where "WontProvisionTenant \<equiv> ''won't provision''"
abbreviation ThreeScaleAccountReady :: string where "ThreeScaleAccountReady \<equiv> ''3scale account ready''"
abbreviation ThreeScaleAccountRequested :: string where "ThreeScaleAccountRequested \<equiv> ''3scale account requested''"

record APIManagementTenant =
  tn_Name :: string
  tn_Namespace :: string
  tn_LastError :: string
  tn_ProvisioningStatus :: string
  tn_TenantUrl :: string

text \<open>\<open>te_ListRoutes\<close> are the hosts of the system-provider routes of 3scale.\<close>

record 'w tenant_env =
  te_GetTenant :: "(APIManagementTenant, 'w) op"
  te_StatusUpdate :: "(APIManagementTenant, 'w) op"
  te_ListTenants :: "string \<Rightarrow> 'w \<Rightarrow> err + APIManagementTenant list"
  te_ListRoutes :: "'w \<Rightarrow> err + string list"
  te_users :: "(User, 'w) kind_api"

abbreviation fifteen_seconds :: ctrl_result where
  "fifteen_seconds \<equiv> \<lparr>Requeue = True, RequeueAfter = 15 * second_ns\<rparr>"

section \<open>Operations\<close>

text \<open>The error of the client is printed into the message, not wrapped.\<close>

definition getAPIManagementTenant ::
  "'w tenant_env \<Rightarrow> string \<Rightarrow> string \<Rightarrow> 'w \<Rightarrow> (err + APIManagementTenant) \<times> 'w" where
  "getAPIManagementTenant env crName crNamespace w =
     (case te_GetTenant env \<lparr>tn_Name = crName, tn_Namespace = crNamespace, tn_LastError = '''', tn_ProvisioningStatus = '''', tn_TenantUrl = ''''\<rparr> w of
        (Some e, t, w') \<Rightarrow> (Inl (Msg (''error getting tenant '' @ crName @ '': '' @ err_string e)), w')
      | (None, t, w') \<Rightarrow> (Inr t, w'))"

definition tenant_user :: "string \<Rightarrow> string" where
  "tenant_user ns = TrimSuffix (TrimSuffix ns ''-dev'') ''-stage''"

definition getUserByTenantNamespace :: "'w tenant_env \<Rightarrow> string \<Rightarrow> 'w \<Rightarrow> (err + User) \<times> 'w" where
  "getUserByTenantNamespace env ns w =
     (case k_Get (te_users env) \<lparr>u_Name = tenant_user ns, u_UID = '''', u_Annotations = None, u_Identities = []\<rparr> w of
        (Some e, u, w') \<Rightarrow> (Inl e, w')
      | (None, u, w') \<Rightarrow> (Inr u, w'))"

definition updateLastError :: "'w tenant_env \<Rightarrow> string \<Rightarrow> (APIManagementTenant, 'w) op" where
  "updateLastError env message tenant w = te_StatusUpdate env (tenant\<lparr>tn_LastError := message\<rparr>) w"

definition updateProvisioningStatus :: "'w tenant_env \<Rightarrow> string \<Rightarrow> (APIManagementTenant, 'w) op" where
  "updateProvisioningStatus env status tenant w =
     (case te_StatusUpdate env (tenant\<lparr>tn_ProvisioningStatus := status\<rparr>) w of
        (Some e, t, w') \<Rightarrow>
          (Some (Msg (''error updating the provisioningStatus to '' @ status @ '' for tenant '' @ tn_Name t @ '': '' @ err_string e)), t, w')
      | (None, t, w') \<Rightarrow> (None, t, w'))"

definition updateTenantUrl :: "'w tenant_env \<Rightarrow> string \<Rightarrow> (APIManagementTenant, 'w) op" where
  "updateTenantUrl env url tenant w =
     (case te_StatusUpdate env (tenant\<lparr>tn_TenantUrl := url\<rparr>) w of
        (Some e, t, w') \<Rightarrow>
          (Some (Msg (''error updating the tenantUrl to '' @ url @ '' for tenant '' @ tn_Name t @ '': '' @ err_string e)), t, w')
      | (None, t, w') \<Rightarrow> (None, t, w'))"

text \<open>The three statuses of a tenant that has been verified.\<close>

definition in_progress :: "string \<Rightarrow> bool" where
  "in_progress status \<longleftrightarrow> status = ThreeScaleAccountReady \<or> status = ThreeScaleAccountRequested \<or> status = UserAnnotated"

fun check_namespaces :: "'w tenant_env \<Rightarrow> string list \<Rightarrow> 'w \<Rightarrow> bool \<times> string \<times> err option" where
  "check_namespaces env [] w = (True, '''', None)"
| "check_namespaces env (ns # nss) w =
     (case te_ListTenants env ns w of
        Inl e \<Rightarrow> (False, ''an error occurred while trying to check if another reconciled APIManagementTenant CR already exists'', Some e)
      | Inr tenants \<Rightarrow>
          if list_ex (\<lambda>t. in_progress (tn_ProvisioningStatus t)) tenants
          then (False, ''can't create more than 1 APIManagementTenant CR in -dev or -stage namespace'', None)
          else check_namespaces env nss w)"

definition verifyAPIManagementTenant ::
  "'w tenant_env \<Rightarrow> APIManagementTenant \<Rightarrow> 'w \<Rightarrow> (bool \<times> string \<times> err option) \<times> 'w" where
  "verifyAPIManagementTenant env tenant w =
     (if \<not> in_progress (tn_ProvisioningStatus tenant) then
        if \<not> HasSuffix (tn_Namespace tenant) ''-dev'' \<and> \<not> HasSuffix (tn_Namespace tenant) ''-stage'' then
          ((False, ''tenant not created in a namespace ending in {USERNAME}-dev or {USERNAME}-stage'', None), w)
        else
          (case getUserByTenantNamespace env (tn_Namespace tenant) w of
             (Inl e, w1) \<Rightarrow>
               (if IsNotFound (Some e)
                then (False, ''the user extracted by the APIManagementTenant's namespace does not exist'', None)
                else (False, ''an error occurred while trying to get the user by the APIManagementTenant's namespace'', Some e), w1)
           | (Inr user, w1) \<Rightarrow> (check_namespaces env [u_Name user @ ''-dev'', u_Name user @ ''-stage''] w1, w1))
      else ((True, '''', None), w))"

definition annotate_user :: "User \<Rightarrow> User" where
  "annotate_user user =
     user\<lparr>u_Annotations := Some (gset ''tenant'' ''yes'' (case u_Annotations user of None \<Rightarrow> [] | Some a \<Rightarrow> a))\<rparr>"

definition addAnnotationToUser :: "'w tenant_env \<Rightarrow> (APIManagementTenant, 'w) op" where
  "addAnnotationToUser env tenant w =
     (if tn_ProvisioningStatus tenant = '''' then
        (case getUserByTenantNamespace env (tn_Namespace tenant) w of
           (Inl e, w1) \<Rightarrow> (Some (Msg (''error getting user for tenant '' @ tn_Name tenant @ '': '' @ err_string e)), tenant, w1)
         | (Inr user, w1) \<Rightarrow>
             (case CreateOrUpdate (te_users env) (=) (pure_op annotate_user) user w1 of
                ((r, Some e), u, w2) \<Rightarrow> (Some (Msg (''failed to add tenant annotation to user '' @ u_Name u @ '': '' @ err_string e)), tenant, w2)
              | ((r, None), u, w2) \<Rightarrow> updateProvisioningStatus env UserAnnotated tenant w2))
      else (None, tenant, w))"

text \<open>The account is still being created: the status is requested and the last error says what is waited for.\<close>

definition still_requested ::
  "'w tenant_env \<Rightarrow> string \<Rightarrow> APIManagementTenant \<Rightarrow> 'w \<Rightarrow> (bool \<times> err option) \<times> APIManagementTenant \<times> 'w" where
  "still_requested env message tenant w =
     (case updateProvisioningStatus env ThreeScaleAccountRequested tenant w of
        (Some e, t, w1) \<Rightarrow> ((False, Some e), t, w1)
      | (None, t, w1) \<Rightarrow>
          (case updateLastError env message t w1 of
             (Some e, t2, w2) \<Rightarrow> ((False, Some e), t2, w2)
           | (None, t2, w2) \<Rightarrow> ((False, None), t2, w2)))"

definition reconcileTenantUrl ::
  "'w tenant_env \<Rightarrow> APIManagementTenant \<Rightarrow> 'w \<Rightarrow> (bool \<times> err option) \<times> APIManagementTenant \<times> 'w" where
  "reconcileTenantUrl env tenant w =
     (if tn_ProvisioningStatus tenant \<noteq> ThreeScaleAccountReady then
        (case te_ListRoutes env w of
           Inl e \<Rightarrow> ((False, Some e), tenant, w)
         | Inr hosts \<Rightarrow>
             if hosts = [] then
               ((False, Some (Msg ''failed to find any system-developer routes in namespace sandbox-rhoam-3scale'')), tenant, w)
             else
               (case getUserByTenantNamespace env (tn_Namespace tenant) w of
                  (Inl e, w1) \<Rightarrow> ((False, Some e), tenant, w1)
                | (Inr user, w1) \<Rightarrow>
                    (case find (\<lambda>host. StrContains host (u_Name user)) hosts of
                       None \<Rightarrow> still_requested env (''waiting for route creation for tenant '' @ tn_Name tenant) tenant w1
                     | Some host \<Rightarrow>
                         if gget '''' (case u_Annotations user of None \<Rightarrow> [] | Some a \<Rightarrow> a) ''ssoReady'' \<noteq> ''yes''
                         then still_requested env (''waiting for SSO for user '' @ u_Name user @ '' to be ready'') tenant w1
                         else (case updateTenantUrl env host tenant w1 of
                                 (Some e, t, w2) \<Rightarrow> ((False, Some e), t, w2)
                               | (None, t, w2) \<Rightarrow>
                                   (case updateProvisioningStatus env ThreeScaleAccountReady t w2 of
                                      (Some e, t2, w3) \<Rightarrow> ((False, Some e), t2, w3)
                                    | (None, t2, w3) \<Rightarrow> ((True, None), t2, w3))))))
      else ((True, None), tenant, w))"

section \<open>\<^verbatim>\<open>Reconcile\<close>\<close>

text \<open>An error is kept in the status; when that fails too, the error of the update is returned.\<close>

definition report_error ::
  "'w tenant_env \<Rightarrow> ctrl_result \<Rightarrow> err \<Rightarrow> APIManagementTenant \<Rightarrow> 'w \<Rightarrow> (ctrl_result \<times> err option) \<times> 'w" where
  "report_error env r e tenant w =
     (case updateLastError env (err_string e) tenant w of
        (Some e1, t, w1) \<Rightarrow> ((r, Some e1), w1)
      | (None, t, w1) \<Rightarrow> ((r, Some e), w1))"

definition reject_tenant ::
  "'w tenant_env \<Rightarrow> string \<Rightarrow> APIManagementTenant \<Rightarrow> 'w \<Rightarrow> (ctrl_result \<times> err option) \<times> 'w" where
  "reject_tenant env reason tenant w =
     (case updateProvisioningStatus env WontProvisionTenant tenant w of
        (Some e, t, w1) \<Rightarrow> ((no_requeue, Some e), w1)
      | (None, t, w1) \<Rightarrow>
          (case updateLastError env reason t w1 of
             (Some e, t2, w2) \<Rightarrow> ((no_requeue, Some e), w2)
           | (None, t2, w2) \<Rightarrow> ((no_requeue, None), w2)))"

definition provision ::
  "'w tenant_env \<Rightarrow> APIManagementTenant \<Rightarrow> 'w \<Rightarrow> (ctrl_result \<times> err option) \<times> 'w" where
  "provision env tenant w =
     (case addAnnotationToUser env tenant w of
        (Some e, t, w1) \<Rightarrow> report_error env fifteen_seconds e t w1
      | (None, t, w1) \<Rightarrow>
          (case reconcileTenantUrl env t w1 of
             ((ok, Some e), t2, w2) \<Rightarrow> report_error env fifteen_seconds e t2 w2
           | ((ok, None), t2, w2) \<Rightarrow>
               if \<not> ok then ((fifteen_seconds, None), w2)
               else (case updateLastError env '''' t2 w2 of
                       (e1, t3, w3) \<Rightarrow> ((no_requeue, e1), w3))))"

definition Tenant_Reconcile ::
  "'w tenant_env \<Rightarrow> string \<Rightarrow> string \<Rightarrow> 'w \<Rightarrow> (ctrl_result \<times> err option) \<times> 'w" where
  "Tenant_Reconcile env name ns w =
     (case getAPIManagementTenant env name ns w of
        (Inl e, w1) \<Rightarrow> if IsNotFound (Some e) then ((no_requeue, None), w1) else ((no_requeue, Some e), w1)
      | (Inr tenant, w1) \<Rightarrow>
          (case verifyAPIManagementTenant env tenant w1 of
             ((ok, reason, Some e), w2) \<Rightarrow> report_error env no_requeue e tenant w2
           | ((ok, reason, None), w2) \<Rightarrow>
               if \<not> ok then reject_tenant env reason tenant w2 else provision env tenant w2))"

lemmas tenant_defs [go_defs] = getAPIManagementTenant_def getUserByTenantNamespace_def updateLastError_def
  updateProvisioningStatus_def updateTenantUrl_def verifyAPIManagementTenant_def addAnnotationToUser_def still_requested_def
  reconcileTenantUrl_def report_error_def reject_tenant_def provision_def Tenant_Reconcile_def

section \<open>The server\<close>

text \<open>
  What the controller relies on: tenants are read and listed as they are stored (\<open>ts\<close>), a status update
  that succeeds replaces the stored tenant and nothing else, one that fails replaces nothing, users are
  read by name and live apart from the tenants.
\<close>

definition tn_key :: "APIManagementTenant \<Rightarrow> string \<times> string" where
  "tn_key t = (tn_Namespace t, tn_Name t)"

definition put_tenant :: "APIManagementTenant \<Rightarrow> APIManagementTenant list \<Rightarrow> APIManagementTenant list" where
  "put_tenant t ts = map (\<lambda>x. if tn_key x = tn_key t then t else x) ts"

definition reads_tenants :: "'w tenant_env \<Rightarrow> ('w \<Rightarrow> APIManagementTenant list) \<Rightarrow> bool" where
  "reads_tenants env ts \<longleftrightarrow>
     (\<forall>t w e t' w'. te_GetTenant env t w = (e, t', w') \<longrightarrow> w' = w \<and> (e = None \<longrightarrow> t' \<in> set (ts w) \<and> tn_key t' = tn_key t)) \<and>
     (\<forall>ns w l. te_ListTenants env ns w = Inr l \<longrightarrow> l = filter (\<lambda>t. tn_Namespace t = ns) (ts w))"

definition writes_tenants :: "'w tenant_env \<Rightarrow> ('w \<Rightarrow> APIManagementTenant list) \<Rightarrow> bool" where
  "writes_tenants env ts \<longleftrightarrow>
     (\<forall>t w e t' w'. te_StatusUpdate env t w = (e, t', w') \<longrightarrow>
        t' = t \<and> ts w' = (if e = None then put_tenant t (ts w) else ts w))"

definition users_apart :: "'w tenant_env \<Rightarrow> ('w \<Rightarrow> APIManagementTenant list) \<Rightarrow> bool" where
  "users_apart env ts \<longleftrightarrow>
     (\<forall>u w e u' w'. k_Get (te_users env) u w = (e, u', w') \<longrightarrow> w' = w \<and> (e = None \<longrightarrow> u_Name u' = u_Name u)) \<and>
     (\<forall>u w. ts (snd (snd (k_Create (te_users env) u w))) = ts w) \<and>
     (\<forall>u w. ts (snd (snd (k_Update (te_users env) u w))) = ts w)"

abbreviation faithful_server :: "'w tenant_env \<Rightarrow> ('w \<Rightarrow> APIManagementTenant list) \<Rightarrow> bool" where
  "faithful_server env ts \<equiv> reads_tenants env ts \<and> writes_tenants env ts \<and> users_apart env ts"

section \<open>The state machine of a tenant\<close>

inductive prov_step :: "string \<Rightarrow> string \<Rightarrow> bool" where
  reject: "\<not> in_progress s \<Longrightarrow> prov_step s WontProvisionTenant"
| annotate: "prov_step '''' UserAnnotated"
| request: "s \<noteq> '''' \<Longrightarrow> s \<noteq> ThreeScaleAccountReady \<Longrightarrow> prov_step s ThreeScaleAccountRequested"
| ready: "s \<noteq> '''' \<Longrightarrow> s \<noteq> ThreeScaleAccountReady \<Longrightarrow> prov_step s ThreeScaleAccountReady"

inductive_simps prov_step_from_ready: "prov_step ThreeScaleAccountReady s"

abbreviation prov_reach :: "string \<Rightarrow> string \<Rightarrow> bool" where
  "prov_reach \<equiv> prov_step\<^sup>*\<^sup>*"

lemma ready_absorbing: "prov_reach ThreeScaleAccountReady s \<Longrightarrow> s = ThreeScaleAccountReady"
  by (induction rule: rtranclp_induct) (auto simp: prov_step_from_ready in_progress_def)

text \<open>
  The tenants a reconcile may write for \<open>t0\<close>, the tenant it has read: it keeps the key and follows the machine, and a
  tenant becomes ready only with the host of a provider route that has the name of its user.
\<close>

definition route_host :: "'w tenant_env \<Rightarrow> string \<Rightarrow> string \<Rightarrow> bool" where
  "route_host env ns url \<longleftrightarrow> (\<exists>v hosts. te_ListRoutes env v = Inr hosts \<and> url \<in> set hosts \<and> StrContains url (tenant_user ns))"

definition may_write :: "'w tenant_env \<Rightarrow> APIManagementTenant \<Rightarrow> APIManagementTenant \<Rightarrow> bool" where
  "may_write env t0 t \<longleftrightarrow> tn_key t = tn_key t0 \<and> prov_reach (tn_ProvisioningStatus t0) (tn_ProvisioningStatus t) \<and>
     (tn_ProvisioningStatus t = ThreeScaleAccountReady \<longrightarrow>
        (if tn_ProvisioningStatus t0 = ThreeScaleAccountReady then tn_TenantUrl t = tn_TenantUrl t0
         else route_host env (tn_Namespace t0) (tn_TenantUrl t)))"

text \<open>The tenant in memory and the stored one may differ after an update that failed; both are tenants that may be written.\<close>

definition tracks :: "'w tenant_env \<Rightarrow> ('w \<Rightarrow> APIManagementTenant list) \<Rightarrow> APIManagementTenant list \<Rightarrow> APIManagementTenant \<Rightarrow>
    APIManagementTenant \<Rightarrow> 'w \<Rightarrow> bool" where
  "tracks env ts L t0 t w \<longleftrightarrow> may_write env t0 t \<and> (\<exists>s. may_write env t0 s \<and> ts w = put_tenant s L)"

lemma put_tenant_twice: "tn_key s = tn_key t \<Longrightarrow> put_tenant t (put_tenant s L) = put_tenant t L"
  by (simp add: put_tenant_def)

lemma put_tenant_same: "t \<in> set L \<Longrightarrow> distinct (map tn_key L) \<Longrightarrow> put_tenant t L = L"
  unfolding put_tenant_def by (rule map_idI) (auto simp: distinct_map inj_on_def)

lemma tracks_update:
  assumes wr: "writes_tenants env ts" and tr: "tracks env ts L t0 t w" and ok: "may_write env t0 t1"
    and upd: "te_StatusUpdate env t1 w = (e, t2, w2)"
  shows "t2 = t1 \<and> tracks env ts L t0 t1 w2"
proof -
  obtain s where s: "may_write env t0 s" "ts w = put_tenant s L" using tr by (auto simp: tracks_def)
  have key: "tn_key s = tn_key t1" using s(1) ok by (simp add: may_write_def)
  have "t2 = t1" and "ts w2 = (if e = None then put_tenant t1 (ts w) else ts w)"
    using wr upd by (auto simp: writes_tenants_def)
  then show ?thesis using s ok put_tenant_twice [OF key] by (cases "e = None") (auto simp: tracks_def)
qed

lemma may_write_LastError [simp]: "may_write env t0 (t\<lparr>tn_LastError := m\<rparr>) = may_write env t0 t"
  by (simp add: may_write_def tn_key_def)

lemma may_write_TenantUrl: "may_write env t0 t \<Longrightarrow> tn_ProvisioningStatus t \<noteq> ThreeScaleAccountReady \<Longrightarrow> may_write env t0 (t\<lparr>tn_TenantUrl := u\<rparr>)"
  by (simp add: may_write_def tn_key_def)

lemma may_write_status:
  "may_write env t0 t \<Longrightarrow> prov_step (tn_ProvisioningStatus t) st \<Longrightarrow>
     (st = ThreeScaleAccountReady \<Longrightarrow> route_host env (tn_Namespace t0) (tn_TenantUrl t)) \<Longrightarrow>
     may_write env t0 (t\<lparr>tn_ProvisioningStatus := st\<rparr>)"
  using ready_absorbing [of "tn_ProvisioningStatus t"]
  by (auto simp: may_write_def tn_key_def prov_step_from_ready in_progress_def intro: rtranclp.rtrancl_into_rtrancl)

lemma tracks_LastError:
  assumes "writes_tenants env ts" and "tracks env ts L t0 t w" and "updateLastError env m t w = (e, t2, w2)"
  shows "t2 = t\<lparr>tn_LastError := m\<rparr> \<and> tracks env ts L t0 t2 w2"
  using tracks_update [OF assms(1,2), of "t\<lparr>tn_LastError := m\<rparr>" e t2 w2] assms(2,3)
  by (auto simp: updateLastError_def tracks_def)

lemma tracks_status:
  assumes "writes_tenants env ts" and "tracks env ts L t0 t w" and "may_write env t0 (t\<lparr>tn_ProvisioningStatus := st\<rparr>)"
    and "updateProvisioningStatus env st t w = (e, t2, w2)"
  shows "t2 = t\<lparr>tn_ProvisioningStatus := st\<rparr> \<and> tracks env ts L t0 t2 w2"
proof -
  obtain e' where "te_StatusUpdate env (t\<lparr>tn_ProvisioningStatus := st\<rparr>) w = (e', t2, w2)"
    using assms(4) by (auto simp: updateProvisioningStatus_def split: prod.splits option.splits)
  from tracks_update [OF assms(1,2,3) this] show ?thesis by blast
qed

lemma tracks_url:
  assumes "writes_tenants env ts" and "tracks env ts L t0 t w" and "may_write env t0 (t\<lparr>tn_TenantUrl := u\<rparr>)"
    and "updateTenantUrl env u t w = (e, t2, w2)"
  shows "t2 = t\<lparr>tn_TenantUrl := u\<rparr> \<and> tracks env ts L t0 t2 w2"
proof -
  obtain e' where "te_StatusUpdate env (t\<lparr>tn_TenantUrl := u\<rparr>) w = (e', t2, w2)"
    using assms(4) by (auto simp: updateTenantUrl_def split: prod.splits option.splits)
  from tracks_update [OF assms(1,2,3) this] show ?thesis by blast
qed

lemma getUser_fixed:
  assumes "users_apart env ts" and "getUserByTenantNamespace env ns w = (r, w')"
  shows "w' = w" and "r = Inr u \<Longrightarrow> u_Name u = tenant_user ns"
  using assms by (auto simp: getUserByTenantNamespace_def users_apart_def split: prod.splits option.splits)

section \<open>Every operation follows the machine\<close>

lemma tracks_same_store: "tracks env ts L t0 t w \<Longrightarrow> ts w' = ts w \<Longrightarrow> tracks env ts L t0 t w'"
  by (simp add: tracks_def)

lemma users_CreateOrUpdate:
  assumes "users_apart env ts" and "CreateOrUpdate (te_users env) eq (pure_op f) u w = (r, u', w')"
  shows "ts w' = ts w"
proof -
  obtain e x v where get: "k_Get (te_users env) u w = (e, x, v)" by (cases "k_Get (te_users env) u w")
  then have "v = w" using assms(1) by (auto simp: users_apart_def)
  with get assms show ?thesis
    unfolding users_apart_def
    by (auto simp: CreateOrUpdate_pure split: if_splits prod.splits) (metis snd_conv)+
qed

lemma tracks_annotation:
  assumes srv: "writes_tenants env ts" "users_apart env ts" and tr: "tracks env ts L t0 t w"
    and run: "addAnnotationToUser env t w = (e, t', w')"
  shows "tracks env ts L t0 t' w'" and "e = None \<Longrightarrow> tn_ProvisioningStatus t' \<noteq> ''''"
proof -
  have mw: "may_write env t0 t" using tr by (simp add: tracks_def)
  have "tracks env ts L t0 t' w' \<and> (e = None \<longrightarrow> tn_ProvisioningStatus t' \<noteq> '''')"
  proof (cases "tn_ProvisioningStatus t = ''''")
    case False
    then show ?thesis using run tr by (auto simp: addAnnotationToUser_def)
  next
    case new: True
    obtain r w1 where get: "getUserByTenantNamespace env (tn_Namespace t) w = (r, w1)"
      by (cases "getUserByTenantNamespace env (tn_Namespace t) w")
    have w1: "w1 = w" by (rule getUser_fixed(1) [OF srv(2) get])
    show ?thesis
    proof (cases r)
      case (Inl er)
      then show ?thesis using run new get w1 tr by (auto simp: addAnnotationToUser_def)
    next
      case (Inr user)
      obtain res ec u w2 where cu: "CreateOrUpdate (te_users env) (=) (pure_op annotate_user) user w1 = ((res, ec), u, w2)"
        by (metis prod_cases3 surj_pair)
      have tr2: "tracks env ts L t0 t w2"
        using tracks_same_store [OF tr users_CreateOrUpdate [OF srv(2) cu [unfolded w1]]] .
      have step: "may_write env t0 (t\<lparr>tn_ProvisioningStatus := UserAnnotated\<rparr>)"
        by (rule may_write_status [OF mw]) (simp_all add: new prov_step.annotate)
      show ?thesis
        using run new get Inr cu tr2 tracks_status [OF srv(1) tr2 step]
        by (auto simp: addAnnotationToUser_def split: option.splits)
    qed
  qed
  then show "tracks env ts L t0 t' w'" and "e = None \<Longrightarrow> tn_ProvisioningStatus t' \<noteq> ''''" by blast+
qed

lemma tracks_requested:
  assumes wr: "writes_tenants env ts" and tr: "tracks env ts L t0 t w"
    and st: "tn_ProvisioningStatus t \<noteq> ''''" "tn_ProvisioningStatus t \<noteq> ThreeScaleAccountReady"
    and run: "still_requested env m t w = (r, t', w')"
  shows "tracks env ts L t0 t' w'"
proof -
  have "may_write env t0 (t\<lparr>tn_ProvisioningStatus := ThreeScaleAccountRequested\<rparr>)"
    by (rule may_write_status) (use tr st in \<open>auto simp: tracks_def intro: prov_step.request\<close>)
  from tracks_status [OF wr tr this] tracks_LastError [OF wr] run show ?thesis
    by (fastforce simp: still_requested_def split: prod.splits option.splits)
qed

lemma tracks_host:
  assumes wr: "writes_tenants env ts" and tr: "tracks env ts L t0 t w"
    and st: "tn_ProvisioningStatus t \<noteq> ''''" "tn_ProvisioningStatus t \<noteq> ThreeScaleAccountReady"
    and host: "route_host env (tn_Namespace t0) host"
    and url: "updateTenantUrl env host t w = (e1, t1, w1)"
  shows "tracks env ts L t0 t1 w1" and
    "updateProvisioningStatus env ThreeScaleAccountReady t1 w1 = (e2, t2, w2) \<Longrightarrow> tracks env ts L t0 t2 w2"
proof -
  have mw: "may_write env t0 t" using tr by (simp add: tracks_def)
  note t1 = tracks_url [OF wr tr may_write_TenantUrl [OF mw st(2)] url]
  then show tr1: "tracks env ts L t0 t1 w1" by blast
  have "may_write env t0 (t1\<lparr>tn_ProvisioningStatus := ThreeScaleAccountReady\<rparr>)"
    by (rule may_write_status) (use t1 st host in \<open>auto simp: tracks_def intro: prov_step.ready\<close>)
  from tracks_status [OF wr tr1 this] show "tracks env ts L t0 t2 w2"
    if "updateProvisioningStatus env ThreeScaleAccountReady t1 w1 = (e2, t2, w2)" using that by blast
qed

lemma tracks_reconcileUrl:
  assumes srv: "writes_tenants env ts" "users_apart env ts" and tr: "tracks env ts L t0 t w"
    and st: "tn_ProvisioningStatus t \<noteq> ''''" and run: "reconcileTenantUrl env t w = (r, t', w')"
  shows "tracks env ts L t0 t' w'"
proof (cases "tn_ProvisioningStatus t = ThreeScaleAccountReady")
  case True
  then show ?thesis using run tr by (simp add: reconcileTenantUrl_def)
next
  case nr: False
  obtain ru w1 where get: "getUserByTenantNamespace env (tn_Namespace t) w = (ru, w1)"
    by (cases "getUserByTenantNamespace env (tn_Namespace t) w")
  have w1: "w1 = w" by (rule getUser_fixed(1) [OF srv(2) get])
  have ns: "tn_Namespace t = tn_Namespace t0" using tr by (simp add: tracks_def may_write_def tn_key_def)
  have rh: "route_host env (tn_Namespace t0) host"
    if "te_ListRoutes env w = Inr hosts" "ru = Inr user" "find (\<lambda>host. StrContains host (u_Name user)) hosts = Some host" for hosts user host
    using that getUser_fixed(2) [OF srv(2) get that(2)] ns unfolding route_host_def find_Some_iff
    by (metis nth_mem)
  note req = tracks_requested [OF srv(1) tr st nr] and host = tracks_host [OF srv(1) tr st nr]
  from run nr get w1 tr show ?thesis
    unfolding reconcileTenantUrl_def
    by (auto split: sum.splits if_splits prod.splits option.splits dest: req host(1) [OF rh] host(2) [OF rh])
qed

lemma tracks_provision:
  assumes srv: "writes_tenants env ts" "users_apart env ts" and tr: "tracks env ts L t0 t w"
    and run: "provision env t w = (r, w')"
  shows "\<exists>t'. tracks env ts L t0 t' w'"
proof -
  obtain e t1 w1 where an: "addAnnotationToUser env t w = (e, t1, w1)" by (metis prod_cases3)
  obtain ok e2 t2 w2 where url: "reconcileTenantUrl env t1 w1 = ((ok, e2), t2, w2)" by (metis prod_cases3 surj_pair)
  note tr1 = tracks_annotation [OF srv tr an]
  have last: "\<exists>t'. tracks env ts L t0 t' v'" if "tracks env ts L t0 u v" "updateLastError env m u v = (x, u', v')" for m u v x u' v'
    using tracks_LastError [OF srv(1) that] by blast
  show ?thesis
  proof (cases e)
    case (Some er)
    then show ?thesis using run an last [OF tr1(1)]
      by (auto simp: provision_def report_error_def split: prod.splits option.splits)
  next
    case None
    have tr2: "tracks env ts L t0 t2 w2" by (rule tracks_reconcileUrl [OF srv tr1(1) tr1(2) [OF None] url])
    show ?thesis using run an url None tr2 last [OF tr2]
      by (auto simp: provision_def report_error_def split: prod.splits option.splits if_splits)
  qed
qed

text \<open>A tenant that is turned down keeps its status or becomes one that is not provisioned.\<close>

definition turned_down :: "APIManagementTenant \<Rightarrow> APIManagementTenant \<Rightarrow> bool" where
  "turned_down t0 s \<longleftrightarrow> tn_key s = tn_key t0 \<and> tn_TenantUrl s = tn_TenantUrl t0 \<and>
     tn_ProvisioningStatus s \<in> {tn_ProvisioningStatus t0, WontProvisionTenant}"

lemma turned_down_may_write:
  "turned_down t0 s \<Longrightarrow> \<not> in_progress (tn_ProvisioningStatus t0) \<Longrightarrow> may_write env t0 s \<and> \<not> in_progress (tn_ProvisioningStatus s)"
  using prov_step.reject [of "tn_ProvisioningStatus t0"]
  by (auto simp: turned_down_def may_write_def in_progress_def intro: r_into_rtranclp)

lemma turned_down_stores:
  assumes wr: "writes_tenants env ts" and mem: "t0 \<in> set (ts w)" "distinct (map tn_key (ts w))"
    and run: "report_error env res er t0 w = (r, w') \<or> reject_tenant env reason t0 w = (r, w')"
  shows "\<exists>s. turned_down t0 s \<and> ts w' = put_tenant s (ts w)"
proof -
  have upd: "u' = u \<and> (ts v' = put_tenant u (ts v) \<or> ts v' = ts v)" if "te_StatusUpdate env u v = (x, u', v')" for u v x u' v'
    using wr that by (auto simp: writes_tenants_def)
  have self: "put_tenant t0 (ts w) = ts w" by (rule put_tenant_same [OF mem])
  let ?r = "t0\<lparr>tn_ProvisioningStatus := WontProvisionTenant\<rparr>"
  have td: "turned_down t0 (t0\<lparr>tn_LastError := m\<rparr>)" "turned_down t0 ?r" "turned_down t0 (?r\<lparr>tn_LastError := m\<rparr>)" "turned_down t0 t0" for m
    by (simp_all add: turned_down_def tn_key_def)
  have tw: "put_tenant (?r\<lparr>tn_LastError := m\<rparr>) (put_tenant ?r L) = put_tenant (?r\<lparr>tn_LastError := m\<rparr>) L" for m L
    by (rule put_tenant_twice) (simp add: tn_key_def)
  from run show ?thesis
  proof
    assume "report_error env res er t0 w = (r, w')"
    then obtain x u where "te_StatusUpdate env (t0\<lparr>tn_LastError := err_string er\<rparr>) w = (x, u, w')"
      by (auto simp: report_error_def updateLastError_def split: prod.splits option.splits)
    then show ?thesis using upd td self by metis
  next
    assume "reject_tenant env reason t0 w = (r, w')"
    then obtain x u w1 where "te_StatusUpdate env ?r w = (x, u, w1)" and
      "w' = w1 \<or> (\<exists>y v. te_StatusUpdate env (u\<lparr>tn_LastError := reason\<rparr>) w1 = (y, v, w'))"
      by (auto simp: reject_tenant_def updateProvisioningStatus_def updateLastError_def split: prod.splits option.splits)
    then show ?thesis using upd td self tw by metis
  qed
qed

text \<open>What a reconcile leaves on the server.\<close>

definition verified_now :: "('w \<Rightarrow> APIManagementTenant list) \<Rightarrow> APIManagementTenant \<Rightarrow> 'w \<Rightarrow> bool" where
  "verified_now ts t w \<longleftrightarrow> (HasSuffix (tn_Namespace t) ''-dev'' \<or> HasSuffix (tn_Namespace t) ''-stage'') \<and>
     (\<forall>x \<in> set (ts w). in_progress (tn_ProvisioningStatus x) \<longrightarrow>
        tn_Namespace x \<notin> {tenant_user (tn_Namespace t) @ ''-dev'', tenant_user (tn_Namespace t) @ ''-stage''})"

lemma verify_sound:
  assumes srv: "faithful_server env ts" and run: "verifyAPIManagementTenant env t w = ((ok, reason, e), w')"
  shows "w' = w" and "ok \<Longrightarrow> e = None \<and> (in_progress (tn_ProvisioningStatus t) \<or> verified_now ts t w)"
    and "\<not> ok \<Longrightarrow> \<not> in_progress (tn_ProvisioningStatus t)"
proof -
  obtain ru w1 where get: "getUserByTenantNamespace env (tn_Namespace t) w = (ru, w1)"
    by (cases "getUserByTenantNamespace env (tn_Namespace t) w")
  have w1: "w1 = w" and nm: "\<And>u. ru = Inr u \<Longrightarrow> u_Name u = tenant_user (tn_Namespace t)"
    using getUser_fixed [OF _ get, of ts] srv by auto
  show "w' = w" using run get w1 by (auto simp: verifyAPIManagementTenant_def split: sum.splits if_splits)
  have cl: "check_namespaces env [a, b] w = (True, rr, ee) \<Longrightarrow> ee = None \<and>
      (\<forall>x \<in> set (ts w). in_progress (tn_ProvisioningStatus x) \<longrightarrow> tn_Namespace x \<notin> {a, b})" for a b rr ee
    using srv by (fastforce simp: reads_tenants_def list_ex_iff split: sum.splits if_splits)
  show "ok \<Longrightarrow> e = None \<and> (in_progress (tn_ProvisioningStatus t) \<or> verified_now ts t w)"
    using run get w1 nm cl
    by (cases ru; cases ok) (auto simp: verifyAPIManagementTenant_def verified_now_def split: if_splits)
  show "\<not> ok \<Longrightarrow> \<not> in_progress (tn_ProvisioningStatus t)"
    using run by (auto simp: verifyAPIManagementTenant_def split: if_splits)
qed

lemma reconcile_outcome:
  assumes srv: "faithful_server env ts" and dist: "distinct (map tn_key (ts w))"
    and run: "Tenant_Reconcile env name ns w = (r, w')"
  shows "ts w' = ts w \<or> (\<exists>t0 s. t0 \<in> set (ts w) \<and> tn_key t0 = (ns, name) \<and> may_write env t0 s \<and> ts w' = put_tenant s (ts w) \<and>
     (in_progress (tn_ProvisioningStatus s) \<longrightarrow> in_progress (tn_ProvisioningStatus t0) \<or> verified_now ts t0 w))"
proof -
  obtain g w1 where get: "getAPIManagementTenant env name ns w = (g, w1)" by fastforce
  have w1: "w1 = w" and read: "\<And>t. g = Inr t \<Longrightarrow> t \<in> set (ts w) \<and> tn_key t = (ns, name)"
    using get srv by (auto simp: getAPIManagementTenant_def reads_tenants_def tn_key_def split: prod.splits option.splits)
  show ?thesis
  proof (cases g)
    case (Inl e)
    then show ?thesis using run get w1 by (auto simp: Tenant_Reconcile_def split: if_splits)
  next
    case (Inr t0)
    obtain ok reason e w2 where ver: "verifyAPIManagementTenant env t0 w = ((ok, reason, e), w2)" by (metis surj_pair)
    note vs = verify_sound [OF srv ver] and t0 = read [OF Inr]
    have self: "may_write env t0 t0" by (simp add: may_write_def)
    show ?thesis
    proof (cases ok)
      case True
      then have "provision env t0 w = (r, w')" using run get Inr w1 ver vs by (simp add: Tenant_Reconcile_def)
      moreover have "tracks env ts (ts w) t0 t0 w"
        using put_tenant_same [OF conjunct1 [OF t0] dist] self by (auto simp: tracks_def intro!: exI [of _ t0])
      ultimately obtain t' where "tracks env ts (ts w) t0 t' w'" using tracks_provision [of env ts "ts w" t0 t0 w r w'] srv by blast
      then show ?thesis using t0 vs(2) [OF True] by (auto simp: tracks_def)
    next
      case False
      then have "report_error env no_requeue (the e) t0 w = (r, w') \<or> reject_tenant env reason t0 w = (r, w')"
        using run get Inr w1 ver vs(1) by (auto simp: Tenant_Reconcile_def split: option.splits)
      from turned_down_stores [where ts = ts, OF _ conjunct1 [OF t0] dist this] srv
      obtain s where "turned_down t0 s" "ts w' = put_tenant s (ts w)" by blast
      then show ?thesis using t0 turned_down_may_write [OF _ vs(3) [OF False], of s env] by blast
    qed
  qed
qed

section \<open>Properties\<close>

text \<open>
  C28. One reconcile changes no tenant but its own, which moves along the machine of statuses: a tenant that is ready
  stays ready with its URL, and one becomes ready only with the host of a provider route that has the name of
  its user. This holds whichever calls to the server fail.
\<close>

theorem tenant_status_machine:
  assumes "faithful_server env ts" and "distinct (map tn_key (ts w))" and "Tenant_Reconcile env name ns w = (r, w')"
    and "t0 \<in> set (ts w)" and "tn_key t0 = (ns, name)"
  shows "\<exists>s. ts w' = put_tenant s (ts w) \<and> tn_key s = tn_key t0 \<and>
    prov_reach (tn_ProvisioningStatus t0) (tn_ProvisioningStatus s) \<and>
    (tn_ProvisioningStatus t0 = ThreeScaleAccountReady \<longrightarrow>
       tn_ProvisioningStatus s = ThreeScaleAccountReady \<and> tn_TenantUrl s = tn_TenantUrl t0) \<and>
    (tn_ProvisioningStatus t0 \<noteq> ThreeScaleAccountReady \<longrightarrow> tn_ProvisioningStatus s = ThreeScaleAccountReady \<longrightarrow>
       route_host env ns (tn_TenantUrl s))"
proof -
  have one: "t = t0" if "t \<in> set (ts w)" "tn_key t = (ns, name)" for t
    using that assms(2,4,5) by (auto simp: distinct_map inj_on_def)
  have "\<exists>s. may_write env t0 s \<and> ts w' = put_tenant s (ts w)"
    using reconcile_outcome [OF assms(1,2,3)]
  proof
    assume "ts w' = ts w"
    then show ?thesis using put_tenant_same [OF assms(4,2)] by (auto simp: may_write_def intro!: exI [of _ t0])
  qed (use one in blast)
  then obtain s where s: "may_write env t0 s" "ts w' = put_tenant s (ts w)" by blast
  have "tn_Namespace t0 = ns" using assms(5) by (simp add: tn_key_def)
  with s show ?thesis
    using ready_absorbing [of "tn_ProvisioningStatus s"] by (intro exI [of _ s]) (auto simp: may_write_def)
qed

text \<open>A namespace that is one of the two the controller looks for tenants of the user in.\<close>

definition own_namespace :: "string \<Rightarrow> bool" where
  "own_namespace ns \<longleftrightarrow> ns \<in> {tenant_user ns @ ''-dev'', tenant_user ns @ ''-stage''}"

definition one_per_user :: "APIManagementTenant list \<Rightarrow> bool" where
  "one_per_user L \<longleftrightarrow> (\<forall>x \<in> set L. \<forall>y \<in> set L.
     in_progress (tn_ProvisioningStatus x) \<and> in_progress (tn_ProvisioningStatus y) \<and>
     own_namespace (tn_Namespace x) \<and> own_namespace (tn_Namespace y) \<and>
     tenant_user (tn_Namespace x) = tenant_user (tn_Namespace y) \<longrightarrow> tn_key x = tn_key y)"

text \<open>
  Runs of the controller: reconciles, in any order and of any tenant, between which users create tenants (without a
  status) and delete them.
\<close>

inductive tenant_run :: "'w tenant_env \<Rightarrow> ('w \<Rightarrow> APIManagementTenant list) \<Rightarrow> 'w \<Rightarrow> 'w \<Rightarrow> bool" for env ts w where
  start: "tenant_run env ts w w"
| reconcile: "tenant_run env ts w v \<Longrightarrow> Tenant_Reconcile env name ns v = (r, v') \<Longrightarrow> tenant_run env ts w v'"
| outside: "tenant_run env ts w v \<Longrightarrow> distinct (map tn_key (ts v')) \<Longrightarrow>
    (\<And>t. t \<in> set (ts v') \<Longrightarrow> t \<in> set (ts v) \<or> tn_ProvisioningStatus t = '''') \<Longrightarrow> tenant_run env ts w v'"

lemma put_tenant_keys [simp]: "map tn_key (put_tenant s L) = map tn_key L"
  by (simp add: put_tenant_def)

lemma put_tenant_set: "x \<in> set (put_tenant s L) \<Longrightarrow> x = s \<or> x \<in> set L \<and> tn_key x \<noteq> tn_key s"
  by (auto simp: put_tenant_def)

lemma one_per_user_put:
  assumes inv: "one_per_user L" and t0: "t0 \<in> set L" "tn_key s = tn_key t0"
    and new: "in_progress (tn_ProvisioningStatus s) \<Longrightarrow> in_progress (tn_ProvisioningStatus t0) \<or>
      (\<forall>x \<in> set L. in_progress (tn_ProvisioningStatus x) \<longrightarrow>
        tn_Namespace x \<notin> {tenant_user (tn_Namespace t0) @ ''-dev'', tenant_user (tn_Namespace t0) @ ''-stage''})"
  shows "one_per_user (put_tenant s L)"
proof -
  have ns: "tn_Namespace s = tn_Namespace t0" using t0(2) by (simp add: tn_key_def)
  have old: "tn_key y = tn_key s"
    if "y \<in> set L" "in_progress (tn_ProvisioningStatus y)" "in_progress (tn_ProvisioningStatus s)"
      "own_namespace (tn_Namespace y)" "own_namespace (tn_Namespace s)" "tenant_user (tn_Namespace y) = tenant_user (tn_Namespace s)" for y
    using new [OF that(3)]
  proof
    assume "in_progress (tn_ProvisioningStatus t0)"
    then show ?thesis using inv that t0 ns unfolding one_per_user_def by (metis (no_types))
  next
    assume "\<forall>x \<in> set L. in_progress (tn_ProvisioningStatus x) \<longrightarrow>
        tn_Namespace x \<notin> {tenant_user (tn_Namespace t0) @ ''-dev'', tenant_user (tn_Namespace t0) @ ''-stage''}"
    then show ?thesis using that ns by (auto simp: own_namespace_def)
  qed
  show ?thesis unfolding one_per_user_def
  proof (intro ballI impI)
    fix x y
    assume mem: "x \<in> set (put_tenant s L)" "y \<in> set (put_tenant s L)" and h: "in_progress (tn_ProvisioningStatus x) \<and>
      in_progress (tn_ProvisioningStatus y) \<and> own_namespace (tn_Namespace x) \<and> own_namespace (tn_Namespace y) \<and>
      tenant_user (tn_Namespace x) = tenant_user (tn_Namespace y)"
    then show "tn_key x = tn_key y"
      using put_tenant_set [OF mem(1)] put_tenant_set [OF mem(2)] old [of x] old [of y] inv
      unfolding one_per_user_def by metis
  qed
qed

text \<open>
  C29. A user has at most one tenant that is provisioned or on its way: in every state a run reaches, of the tenants in the
  two namespaces of a user at most one is past verification.
\<close>

theorem one_tenant_per_user:
  assumes "tenant_run env ts w w'" and "faithful_server env ts" and "distinct (map tn_key (ts w))" and "one_per_user (ts w)"
  shows "one_per_user (ts w')"
proof -
  from assms(1) have "one_per_user (ts w') \<and> distinct (map tn_key (ts w'))"
  proof induction
    case start
    then show ?case using assms by simp
  next
    case (reconcile v name ns r v')
    from reconcile_outcome [OF assms(2) conjunct2 [OF reconcile.IH] reconcile.hyps(2)] show ?case
    proof (elim disjE exE conjE)
      fix t0 s
      assume s: "t0 \<in> set (ts v)" "may_write env t0 s" "ts v' = put_tenant s (ts v)"
        and ver: "in_progress (tn_ProvisioningStatus s) \<longrightarrow> in_progress (tn_ProvisioningStatus t0) \<or> verified_now ts t0 v"
      have "one_per_user (put_tenant s (ts v))"
        by (rule one_per_user_put [OF conjunct1 [OF reconcile.IH] s(1)]) (use s(2) ver in \<open>auto simp: may_write_def verified_now_def\<close>)
      then show ?thesis using s(3) reconcile.IH by simp
    qed (use reconcile.IH in simp)
  next
    case (outside v v')
    then have "t \<in> set (ts v)" if "t \<in> set (ts v')" "in_progress (tn_ProvisioningStatus t)" for t
      using that by (fastforce simp: in_progress_def)
    then show ?case using outside unfolding one_per_user_def by blast
  qed
  then show ?thesis by blast
qed

section \<open>Witnesses and boundary cases\<close>

text \<open>A server that keeps the tenants, with one route, and one user who may sign in.\<close>

definition put_key :: "APIManagementTenant \<Rightarrow> APIManagementTenant list \<Rightarrow> err option \<times> APIManagementTenant \<times> APIManagementTenant list" where
  "put_key t w = (None, t, put_tenant t w)"

definition find_tenant :: "APIManagementTenant \<Rightarrow> APIManagementTenant list \<Rightarrow> err option \<times> APIManagementTenant \<times> APIManagementTenant list" where
  "find_tenant t w = (case find (\<lambda>x. tn_key x = tn_key t) w of None \<Rightarrow> (Some (ApiErr NotFound ''not found''), t, w) | Some x \<Rightarrow> (None, x, w))"

definition sso_users :: "(User, 'w) kind_api" where
  "sso_users = \<lparr>k_Get = (\<lambda>u w. (None, u\<lparr>u_Annotations := Some [(''ssoReady'', ''yes'')]\<rparr>, w)),
     k_Create = (\<lambda>u w. (None, u, w)), k_Update = (\<lambda>u w. (None, u, w)), k_Patch = (\<lambda>u w. (None, u, w)),
     k_Delete = (\<lambda>u w. (None, w)), k_Key = (\<lambda>u. ('''', u_Name u))\<rparr>"

definition sample_tenant_env :: "APIManagementTenant list tenant_env" where
  "sample_tenant_env =
     \<lparr>te_GetTenant = find_tenant, te_StatusUpdate = put_key,
      te_ListTenants = (\<lambda>ns w. Inr (filter (\<lambda>t. tn_Namespace t = ns) w)),
      te_ListRoutes = (\<lambda>w. Inr [''bob-admin.apps.example'']), te_users = sso_users\<rparr>"

definition new_tenant :: "string \<Rightarrow> APIManagementTenant" where
  "new_tenant ns = \<lparr>tn_Name = ''t'', tn_Namespace = ns, tn_LastError = '''', tn_ProvisioningStatus = '''', tn_TenantUrl = ''''\<rparr>"

lemma find_SomeD: "find P xs = Some x \<Longrightarrow> x \<in> set xs \<and> P x"
  by (auto simp: find_Some_iff)

lemma faithful_sample: "faithful_server sample_tenant_env (\<lambda>w. w)"
  by (auto simp: reads_tenants_def writes_tenants_def users_apart_def sample_tenant_env_def find_tenant_def put_key_def sso_users_def
      split: option.splits dest: find_SomeD)

definition ready_bob :: APIManagementTenant where
  "ready_bob = \<lparr>tn_Name = ''t'', tn_Namespace = ''bob-dev'', tn_LastError = '''', tn_ProvisioningStatus = ThreeScaleAccountReady,
     tn_TenantUrl = ''bob-admin.apps.example''\<rparr>"

lemma bob_reconciled: "Tenant_Reconcile sample_tenant_env ''t'' ''bob-dev'' [new_tenant ''bob-dev''] = ((no_requeue, None), [ready_bob])"
  by code_simp

theorem tenant_status_machine_witness:
  "\<exists>s. [ready_bob] = put_tenant s [new_tenant ''bob-dev''] \<and> tn_key s = (''bob-dev'', ''t'') \<and>
     prov_reach '''' (tn_ProvisioningStatus s) \<and>
     (tn_ProvisioningStatus s = ThreeScaleAccountReady \<longrightarrow> route_host sample_tenant_env ''bob-dev'' (tn_TenantUrl s))"
  using tenant_status_machine [OF faithful_sample _ bob_reconciled, of "new_tenant ''bob-dev''"]
  by (auto simp: new_tenant_def tn_key_def)

theorem one_tenant_per_user_witness: "one_per_user [ready_bob]"
proof -
  have "tenant_run sample_tenant_env (\<lambda>w. w) [new_tenant ''bob-dev''] [ready_bob]"
    by (rule tenant_run.reconcile [OF tenant_run.start bob_reconciled])
  from one_tenant_per_user [OF this faithful_sample] show ?thesis
    by (simp add: one_per_user_def new_tenant_def tn_key_def)
qed

text \<open>
  A tenant that is gone: the message hides the reason of the error, so the reconcile fails instead of ending, and is
  retried for ever.
\<close>

lemma deleted_tenant_fails:
  "te_GetTenant env \<lparr>tn_Name = name, tn_Namespace = ns, tn_LastError = '''', tn_ProvisioningStatus = '''', tn_TenantUrl = ''''\<rparr> w
     = (Some (ApiErr NotFound m), t, w') \<Longrightarrow>
   Tenant_Reconcile env name ns w = ((no_requeue, Some (Msg (''error getting tenant '' @ name @ '': '' @ err_string (ApiErr NotFound m)))), w')"
  by (simp add: Tenant_Reconcile_def getAPIManagementTenant_def)

text \<open>A tenant that was turned down before and is verified now goes on without the annotation of its user.\<close>

lemma rejected_tenant_not_annotated:
  "tn_ProvisioningStatus t = WontProvisionTenant \<Longrightarrow> addAnnotationToUser env t w = (None, t, w)"
  by (simp add: addAnnotationToUser_def)

text \<open>
  Both suffixes are taken off: the development namespace of a user whose name ends in \<^verbatim>\<open>-stage\<close> is taken for one of
  another user, and is none of the two namespaces that are searched for a tenant of that user.
\<close>

lemma two_suffixes: "tenant_user ''bob-stage-dev'' = ''bob'' \<and> \<not> own_namespace ''bob-stage-dev''"
  by code_simp

lemma second_tenant:
  "Tenant_Reconcile sample_tenant_env ''u'' ''bob-stage-dev''
     [ready_bob\<lparr>tn_Namespace := ''bob-stage-dev''\<rparr>, (new_tenant ''bob-stage-dev'')\<lparr>tn_Name := ''u''\<rparr>] =
   ((no_requeue, None), [ready_bob\<lparr>tn_Namespace := ''bob-stage-dev''\<rparr>, ready_bob\<lparr>tn_Namespace := ''bob-stage-dev'', tn_Name := ''u''\<rparr>])"
  by code_simp

end
