(* ===== verification/Status_Controller.thy ===== *)
theory Status_Controller
  imports OLM
begin

text \<open>
  The status controller (\<^verbatim>\<open>internal/controller/status\<close>): on every heartbeat it reports the state of the
  installation to the add-on operator as conditions, and removes the installation when the add-on instance
  is marked for deletion. The client that sends the conditions is a parameter.
\<close>

section \<open>Data\<close>

record ControllerOptions =
  co_AddonInstanceNamespace :: string
  co_AddonInstanceName :: string
  co_HeartBeatInterval :: int

record AddonInstance =
  ai_Name :: string
  ai_Namespace :: string
  ai_HeartbeatUpdatePeriod :: int
  ai_MarkedForDeletion :: bool

record 'w status_env =
  sc_cfg :: ControllerOptions
  sc_now :: int
  sc_instances :: "(AddonInstance, 'w) kind_api"
  sc_ListRHMIs :: "string \<Rightarrow> 'w \<Rightarrow> err + RHMI list"
  sc_DeleteRHMI :: "RHMI \<Rightarrow> 'w \<Rightarrow> err option \<times> 'w"
  sc_GetStack :: "string \<Rightarrow> string \<Rightarrow> 'w \<Rightarrow> err + Condition list"
  sc_SendPulse :: "AddonInstance \<Rightarrow> Condition list \<Rightarrow> 'w \<Rightarrow> err option \<times> 'w"

text \<open>The options of the controller: what each \<^verbatim>\<open>With\<close> option sets, and the default of the interval.\<close>

datatype ControllerConfig =
  WithAddonInstanceNamespace string | WithAddonInstanceName string | WithHeartbeatInterval int

fun ConfigureStatusController :: "ControllerConfig \<Rightarrow> ControllerOptions \<Rightarrow> ControllerOptions" where
  "ConfigureStatusController (WithAddonInstanceNamespace s) c = c\<lparr>co_AddonInstanceNamespace := s\<rparr>"
| "ConfigureStatusController (WithAddonInstanceName s) c = c\<lparr>co_AddonInstanceName := s\<rparr>"
| "ConfigureStatusController (WithHeartbeatInterval d) c = c\<lparr>co_HeartBeatInterval := d\<rparr>"

definition Option :: "ControllerConfig list \<Rightarrow> ControllerOptions \<Rightarrow> ControllerOptions" where
  "Option opts c = fold ConfigureStatusController opts c"

definition Default :: "ControllerOptions \<Rightarrow> ControllerOptions" where
  "Default c = (if co_HeartBeatInterval c = 0 then c\<lparr>co_HeartBeatInterval := 10 * second_ns\<rparr> else c)"

definition GetOboNamespace :: "string \<Rightarrow> string" where
  "GetOboNamespace installationNamespace = installationNamespace @ ''-observability''"

definition GetOboMonitoringStack :: "'w status_env \<Rightarrow> string \<Rightarrow> 'w \<Rightarrow> err + Condition list" where
  "GetOboMonitoringStack env ns w = sc_GetStack env ns ''rhoam'' w"

section \<open>Conditions\<close>

definition appendInstalledConditions :: "int \<Rightarrow> RHMI \<Rightarrow> Condition list" where
  "appendInstalledConditions now i =
     (if IsInstalled i then [InstalledCondition] else []) @
     (if IsInstallBlocked now i then [InstallBlockedCondition] else []) @
     (if IsUninstallBlocked now i then [UninstallBlockedCondition] else [])"

definition appendHealthConditions :: "RHMI \<Rightarrow> Condition list" where
  "appendHealthConditions i = (if IsCoreComponentsHealthy i then [HealthyCondition] else [UnHealthyCondition])"

definition appendDegradedConditions :: "RHMI \<Rightarrow> Condition list" where
  "appendDegradedConditions i = (if IsDegraded i then [DegradedCondition i] else [NonDegradedCondition])"

fun appendMonitoringStackConditions :: "Condition list \<Rightarrow> Condition list" where
  "appendMonitoringStackConditions [] = []"
| "appendMonitoringStackConditions (c # cs) =
     (if c_Type c = ''Available'' then c\<lparr>c_Type := ''MonitoringStackAvailable''\<rparr> # appendMonitoringStackConditions cs
      else appendMonitoringStackConditions cs)"

definition buildAddonInstanceConditions :: "int \<Rightarrow> RHMI option \<Rightarrow> Condition list \<Rightarrow> Condition list" where
  "buildAddonInstanceConditions now installation stack =
     (case installation of
        None \<Rightarrow> [UninstalledCondition, ReadyToBeDeletedCondition]
      | Some i \<Rightarrow> appendInstalledConditions now i @ appendHealthConditions i @ appendDegradedConditions i @
          appendMonitoringStackConditions stack)"

section \<open>\<^verbatim>\<open>Reconcile\<close>\<close>

definition getAddonInstance :: "'w status_env \<Rightarrow> string \<Rightarrow> 'w \<Rightarrow> (err + AddonInstance) \<times> 'w" where
  "getAddonInstance env ns w =
     (case k_Get (sc_instances env)
        \<lparr>ai_Name = co_AddonInstanceName (sc_cfg env), ai_Namespace = ns, ai_HeartbeatUpdatePeriod = 0, ai_MarkedForDeletion = False\<rparr> w of
        (Some e, a, w') \<Rightarrow> (Inl e, w')
      | (None, a, w') \<Rightarrow> (Inr a, w'))"

definition set_heartbeat :: "'w status_env \<Rightarrow> (AddonInstance, 'w) op" where
  "set_heartbeat env a w =
     (if ai_HeartbeatUpdatePeriod a \<noteq> co_HeartBeatInterval (sc_cfg env)
      then k_Patch (sc_instances env) (a\<lparr>ai_HeartbeatUpdatePeriod := co_HeartBeatInterval (sc_cfg env)\<rparr>) w
      else (None, a, w))"

text \<open>The stack is looked for only while there is an installation.\<close>

definition report ::
  "'w status_env \<Rightarrow> AddonInstance \<Rightarrow> RHMI option \<Rightarrow> 'w \<Rightarrow> (ctrl_result \<times> err option) \<times> 'w" where
  "report env a installation w =
     (case (case installation of
              None \<Rightarrow> Inr []
            | Some i \<Rightarrow> GetOboMonitoringStack env (GetOboNamespace (Namespace i)) w) of
        Inl e \<Rightarrow> ((no_requeue, Some e), w)
      | Inr stack \<Rightarrow>
          (case sc_SendPulse env a (buildAddonInstanceConditions (sc_now env) installation stack) w of
             (Some e, w') \<Rightarrow> ((no_requeue, Some e), w')
           | (None, w') \<Rightarrow> ((\<lparr>Requeue = False, RequeueAfter = co_HeartBeatInterval (sc_cfg env)\<rparr>, None), w')))"

definition Status_Reconcile :: "'w status_env \<Rightarrow> string \<Rightarrow> 'w \<Rightarrow> (ctrl_result \<times> err option) \<times> 'w" where
  "Status_Reconcile env ns w =
     (case getAddonInstance env ns w of
        (Inl e, w1) \<Rightarrow> ((no_requeue, Some e), w1)
      | (Inr a, w1) \<Rightarrow>
          (case set_heartbeat env a w1 of
             (Some e, a2, w2) \<Rightarrow> ((no_requeue, Some e), w2)
           | (None, a2, w2) \<Rightarrow>
               (case GetRhmiCr (sc_ListRHMIs env ns w2) of
                  Inl e \<Rightarrow> ((no_requeue, Some e), w2)
                | Inr installation \<Rightarrow>
                    (case (if ai_MarkedForDeletion a2 \<and> installation \<noteq> None then sc_DeleteRHMI env (the installation) w2 else (None, w2)) of
                       (Some e, w3) \<Rightarrow> ((no_requeue, Some e), w3)
                     | (None, w3) \<Rightarrow> report env a2 installation w3))))"

definition IsAddonOperatorInstalled :: "err option \<Rightarrow> err + bool" where
  "IsAddonOperatorInstalled got = Exists got"

lemmas status_defs [go_defs] = appendInstalledConditions_def appendHealthConditions_def appendDegradedConditions_def
  buildAddonInstanceConditions_def getAddonInstance_def set_heartbeat_def report_def Status_Reconcile_def

section \<open>Properties\<close>

lemma stack_types: "c \<in> set (appendMonitoringStackConditions cs) \<Longrightarrow> c_Type c = ''MonitoringStackAvailable''"
  by (induction cs) (auto split: if_splits)

lemma not_both_blocked: "\<not> (IsInstallBlocked now i \<and> IsUninstallBlocked now i)" "\<not> (IsInstalled i \<and> IsInstallBlocked now i)"
  by (auto simp: IsInstallBlocked_def IsUninstallBlocked_def IsUninstalling_def)

text \<open>The status each type of condition is reported with.\<close>

definition expected :: "int \<Rightarrow> RHMI option \<Rightarrow> string \<Rightarrow> ConditionStatus" where
  "expected now inst ty =
     (case inst of
        None \<Rightarrow> if ty = addon_group @ ''Installed'' then ConditionFalse else ConditionTrue
      | Some i \<Rightarrow>
          if ty = addon_group @ ''Installed'' then (if IsInstallBlocked now i then ConditionFalse else ConditionTrue)
          else if ty = addon_group @ ''Degraded'' then (if IsDegraded i then ConditionTrue else ConditionFalse)
          else (if IsCoreComponentsHealthy i then ConditionTrue else ConditionFalse))"

lemma condition_types [simp]:
  "c_Type InstalledCondition = addon_group @ ''Installed''" "c_Type InstallBlockedCondition = addon_group @ ''Installed''"
  "c_Type UninstallBlockedCondition = addon_group @ ''Installed''" "c_Type UninstalledCondition = addon_group @ ''Installed''"
  "c_Type HealthyCondition = ''integreatly.org/Healthy''" "c_Type UnHealthyCondition = ''integreatly.org/Healthy''"
  "c_Type (DegradedCondition i) = addon_group @ ''Degraded''" "c_Type NonDegradedCondition = addon_group @ ''Degraded''"
  "c_Type ReadyToBeDeletedCondition = addon_group @ ''ReadyToBeDeleted''"
  by (simp_all add: condition_defs)

lemma condition_statuses [simp]:
  "c_Status InstalledCondition = ConditionTrue" "c_Status InstallBlockedCondition = ConditionFalse"
  "c_Status UninstallBlockedCondition = ConditionTrue" "c_Status UninstalledCondition = ConditionFalse"
  "c_Status HealthyCondition = ConditionTrue" "c_Status UnHealthyCondition = ConditionFalse"
  "c_Status (DegradedCondition i) = ConditionTrue" "c_Status NonDegradedCondition = ConditionFalse"
  "c_Status ReadyToBeDeletedCondition = ConditionTrue"
  by (simp_all add: condition_defs)

lemma installed_expected:
  "c \<in> set (appendInstalledConditions now i) \<Longrightarrow> c_Type c = addon_group @ ''Installed'' \<and> c_Status c = expected now (Some i) (c_Type c)"
  using not_both_blocked(1) [of now i] not_both_blocked(2) [of i now]
  by (auto simp: appendInstalledConditions_def expected_def split: if_splits)

lemma health_expected:
  "c \<in> set (appendHealthConditions i) \<Longrightarrow> c_Type c = ''integreatly.org/Healthy'' \<and> c_Status c = expected now (Some i) (c_Type c)"
  by (auto simp: appendHealthConditions_def expected_def split: if_splits)

lemma degraded_expected:
  "c \<in> set (appendDegradedConditions i) \<Longrightarrow> c_Type c = addon_group @ ''Degraded'' \<and> c_Status c = expected now (Some i) (c_Type c)"
  by (auto simp: appendDegradedConditions_def expected_def split: if_splits)

lemma conditions_expected:
  assumes "c \<in> set (buildAddonInstanceConditions now inst stack)" and "c_Type c \<noteq> ''MonitoringStackAvailable''"
  shows "c_Status c = expected now inst (c_Type c)"
proof (cases inst)
  case None
  then show ?thesis using assms by (auto simp: buildAddonInstanceConditions_def expected_def)
next
  case (Some i)
  then consider "c \<in> set (appendInstalledConditions now i)" | "c \<in> set (appendHealthConditions i)" | "c \<in> set (appendDegradedConditions i)"
    using assms stack_types [of c stack] by (auto simp: buildAddonInstanceConditions_def)
  then show ?thesis using Some installed_expected health_expected degraded_expected by cases blast+
qed

text \<open>
  The report contradicts itself on no type of condition that is the operator's own: two conditions of one type have the
  same status. An installation that exists always has one condition each on its health and on its degradation.
\<close>

theorem addon_conditions_consistent:
  assumes "c \<in> set (buildAddonInstanceConditions now inst stack)" and "d \<in> set (buildAddonInstanceConditions now inst stack)"
    and "c_Type c = c_Type d" and "c_Type c \<noteq> ''MonitoringStackAvailable''"
  shows "c_Status c = c_Status d \<and>
    (inst \<noteq> None \<longrightarrow> length (filter (\<lambda>x. c_Type x = ''integreatly.org/Healthy'') (buildAddonInstanceConditions now inst stack)) = 1 \<and>
       length (filter (\<lambda>x. c_Type x = addon_group @ ''Degraded'') (buildAddonInstanceConditions now inst stack)) = 1)"
proof -
  have no: "filter (\<lambda>x. c_Type x = ty) (appendMonitoringStackConditions stack) = []" if "ty \<noteq> ''MonitoringStackAvailable''" for ty
    using that stack_types [of _ stack] by (auto simp: filter_empty_conv)
  have "length (filter (\<lambda>x. c_Type x = ''integreatly.org/Healthy'') (buildAddonInstanceConditions now (Some i) stack)) = 1" for i
    by (simp add: buildAddonInstanceConditions_def appendInstalledConditions_def appendHealthConditions_def appendDegradedConditions_def no)
  moreover have "length (filter (\<lambda>x. c_Type x = addon_group @ ''Degraded'') (buildAddonInstanceConditions now (Some i) stack)) = 1" for i
    by (simp add: buildAddonInstanceConditions_def appendInstalledConditions_def appendHealthConditions_def appendDegradedConditions_def no)
  moreover have "c_Status c = c_Status d" using conditions_expected [OF assms(1,4)] conditions_expected [OF assms(2)] assms(3,4) by simp
  ultimately show ?thesis by (cases inst) blast+
qed

text \<open>Reports that say the operator itself may be deleted.\<close>

definition releases_operator :: "Condition list \<Rightarrow> bool" where
  "releases_operator cs \<longleftrightarrow> (\<exists>c \<in> set cs. c_Type c = addon_group @ ''ReadyToBeDeleted'' \<and> c_Status c = ConditionTrue)"

lemma releases_iff: "releases_operator (buildAddonInstanceConditions now inst stack) \<longleftrightarrow> inst = None"
proof (cases inst)
  case None
  then show ?thesis by (simp add: releases_operator_def buildAddonInstanceConditions_def)
next
  case (Some i)
  have "c_Type c \<noteq> addon_group @ ''ReadyToBeDeleted''" if "c \<in> set (buildAddonInstanceConditions now inst stack)" for c
    using that Some stack_types [of c stack] installed_expected [of c now i] health_expected [of c i now] degraded_expected [of c i now]
    by (auto simp: buildAddonInstanceConditions_def)
  then show ?thesis using Some by (auto simp: releases_operator_def)
qed

definition only_pulse :: "(Condition list \<Rightarrow> bool) \<Rightarrow> 'w status_env \<Rightarrow> 'w status_env" where
  "only_pulse P env = env\<lparr>sc_SendPulse := (\<lambda>a cs w. if P cs then sc_SendPulse env a cs w else (None, w))\<rparr>"

lemma only_pulse_simps [simp]:
  "sc_cfg (only_pulse P env) = sc_cfg env" "sc_now (only_pulse P env) = sc_now env" "sc_instances (only_pulse P env) = sc_instances env"
  "sc_ListRHMIs (only_pulse P env) = sc_ListRHMIs env" "sc_DeleteRHMI (only_pulse P env) = sc_DeleteRHMI env"
  "sc_GetStack (only_pulse P env) = sc_GetStack env"
  by (simp_all add: only_pulse_def)

lemma report_existing:
  "report (only_pulse (\<lambda>cs. \<not> releases_operator cs) env) a (Some i) w = report env a (Some i) w"
proof -
  have "sc_SendPulse (only_pulse (\<lambda>cs. \<not> releases_operator cs) env) a (buildAddonInstanceConditions now (Some i) stack) =
      sc_SendPulse env a (buildAddonInstanceConditions now (Some i) stack)" for now stack
    by (rule ext) (simp add: only_pulse_def releases_iff)
  then show ?thesis unfolding report_def GetOboMonitoringStack_def only_pulse_simps by (simp only:)
qed

text \<open>
  C30. The add-on operator is told that it may delete the operator only when no installation is left: as long as the list
  of installations is not empty, a reconcile does the same as one whose client drops every such report.
\<close>

theorem operator_released_only_when_gone:
  assumes "\<And>w. sc_ListRHMIs env ns w \<noteq> Inr []"
  shows "Status_Reconcile (only_pulse (\<lambda>cs. \<not> releases_operator cs) env) ns w = Status_Reconcile env ns w"
proof -
  let ?env = "only_pulse (\<lambda>cs. \<not> releases_operator cs) env"
  have some: "\<exists>i. inst = Some i" if "GetRhmiCr (sc_ListRHMIs env ns v) = Inr inst" for inst v
    using that assms [of v] by (auto simp: GetRhmiCr_def split: sum.splits if_splits)
  have same: "getAddonInstance ?env = getAddonInstance env" "set_heartbeat ?env = set_heartbeat env"
    unfolding getAddonInstance_def [abs_def] set_heartbeat_def [abs_def] only_pulse_simps by (rule refl)+
  obtain g w1 where get: "getAddonInstance env ns w = (g, w1)" by fastforce
  show ?thesis
  proof (cases g)
    case (Inl e)
    then show ?thesis by (simp add: Status_Reconcile_def same get)
  next
    case (Inr a)
    obtain e a2 w2 where hb: "set_heartbeat env a w1 = (e, a2, w2)" by (metis prod_cases3)
    show ?thesis
    proof (cases "GetRhmiCr (sc_ListRHMIs env ns w2)")
      case (Inl x)
      then show ?thesis by (cases e) (simp_all add: Status_Reconcile_def same get Inr hb)
    next
      case inst: (Inr inst)
      then obtain i where "inst = Some i" using some by blast
      with inst show ?thesis
        by (cases e) (simp_all add: Status_Reconcile_def same get Inr hb report_existing split: prod.split option.split)
    qed
  qed
qed

text \<open>Without its monitoring stack an installation is not reported on at all.\<close>

lemma no_report_without_stack:
  "sc_GetStack env (Namespace i @ ''-observability'') ''rhoam'' w = Inl e \<Longrightarrow> report env a (Some i) w = ((no_requeue, Some e), w)"
  by (simp add: report_def GetOboMonitoringStack_def GetOboNamespace_def)

text \<open>The interval is never zero, so that the controller always asks to be called again.\<close>

lemma Default_interval: "co_HeartBeatInterval (Default c) \<noteq> 0"
  by (simp add: Default_def)

section \<open>Witnesses\<close>

text \<open>The world is the list of reports that were sent.\<close>

definition sample_status_env :: "Condition list list status_env" where
  "sample_status_env =
     \<lparr>sc_cfg = \<lparr>co_AddonInstanceNamespace = ''ns'', co_AddonInstanceName = ''addon-instance'', co_HeartBeatInterval = 10 * second_ns\<rparr>,
      sc_now = 0,
      sc_instances = \<lparr>k_Get = (\<lambda>a w. (None, a, w)), k_Create = (\<lambda>a w. (None, a, w)), k_Update = (\<lambda>a w. (None, a, w)),
        k_Patch = (\<lambda>a w. (None, a, w)), k_Delete = (\<lambda>a w. (None, w)), k_Key = (\<lambda>a. (ai_Namespace a, ai_Name a))\<rparr>,
      sc_ListRHMIs = (\<lambda>ns w. Inr [zero_rhmi]), sc_DeleteRHMI = (\<lambda>i w. (None, w)),
      sc_GetStack = (\<lambda>ns n w. Inr []), sc_SendPulse = (\<lambda>a cs w. (None, w @ [cs]))\<rparr>"

theorem operator_released_only_when_gone_witness:
  "Status_Reconcile (only_pulse (\<lambda>cs. \<not> releases_operator cs) sample_status_env) ''ns'' [] = Status_Reconcile sample_status_env ''ns'' [] \<and>
   snd (Status_Reconcile sample_status_env ''ns'' []) = [[UnHealthyCondition, DegradedCondition zero_rhmi]]"
proof
  show "Status_Reconcile (only_pulse (\<lambda>cs. \<not> releases_operator cs) sample_status_env) ''ns'' [] = Status_Reconcile sample_status_env ''ns'' []"
    by (rule operator_released_only_when_gone) (simp add: sample_status_env_def)
  show "snd (Status_Reconcile sample_status_env ''ns'' []) = [[UnHealthyCondition, DegradedCondition zero_rhmi]]"
    by code_simp
qed

theorem addon_conditions_consistent_witness:
  "c_Status UnHealthyCondition = c_Status UnHealthyCondition \<and>
   length (filter (\<lambda>x. c_Type x = ''integreatly.org/Healthy'') (buildAddonInstanceConditions 0 (Some zero_rhmi) [])) = 1"
proof -
  have "UnHealthyCondition \<in> set (buildAddonInstanceConditions 0 (Some zero_rhmi) [])"
    by (simp add: buildAddonInstanceConditions_def appendHealthConditions_def rhmi_method_defs zero_rhmi_def zero_status_def zero_stage_def
        gget_def zero_product_def)
  from addon_conditions_consistent [OF this this] show ?thesis by simp
qed

end
