(* ===== verification/Marketplace.thy ===== *)
theory Marketplace
  imports OLM Versions Config_Manager
begin

text \<open>
  Installing product operators through the Operator Lifecycle Manager (\<^verbatim>\<open>pkg/resources/marketplace\<close>): the
  declaration of a product says where its operator comes from, one of three catalogue source
  reconcilers makes that source available, and the manager keeps the operator group and the
  subscription. Generating registry data from a directory of manifests is a parameter; the parts of
  it that are not about files (line formatting, the current version, reversing a slice) are here.
\<close>

section \<open>Objects and environment\<close>

record CatalogSourceSpec =
  css_SourceType :: string
  css_Image :: string
  css_ConfigMap :: string
  css_DisplayName :: string
  css_Publisher :: string
  css_SecurityContextConfig :: "string option"

record CatalogSource =
  cs_Name :: string
  cs_Namespace :: string
  cs_Spec :: CatalogSourceSpec

record OperatorGroup =
  og_Name :: string
  og_Namespace :: string
  og_Labels :: "(string, string) gomap"
  og_TargetNamespaces :: "string list"

definition zero_css :: CatalogSourceSpec where
  "zero_css = \<lparr>css_SourceType = '''', css_Image = '''', css_ConfigMap = '''', css_DisplayName = '''', css_Publisher = '''',
     css_SecurityContextConfig = None\<rparr>"

definition zero_subscription :: OLMSubscription where
  "zero_subscription = \<lparr>os_Name = '''', os_Namespace = '''', os_Spec = None, os_CurrentCSV = '''', os_InstalledCSV = '''',
     os_Install = None, os_InstallPlanRef = None\<rparr>"

definition zero_spec_sub :: SubscriptionSpec where
  "zero_spec_sub = \<lparr>sp_CatalogSource = '''', sp_CatalogSourceNamespace = '''', sp_Package = '''', sp_Channel = '''',
     sp_InstallPlanApproval = '''', sp_Config = None\<rparr>"

definition zero_resource_requirements :: ResourceRequirements where
  "zero_resource_requirements = zero_resources"

abbreviation IntegreatlyChannel :: string where "IntegreatlyChannel \<equiv> ''rhmi''"
abbreviation OperatorGroupName :: string where "OperatorGroupName \<equiv> ''rhmi-registry-og''"
abbreviation Publisher :: string where "Publisher \<equiv> ''RHMI''"
abbreviation ThreeScaleSubscriptionName :: string where "ThreeScaleSubscriptionName \<equiv> ''rhmi-3scale''"

record 'w market_env =
  mk_subs :: "(OLMSubscription, 'w) kind_api"
  mk_plans :: "(InstallPlan, 'w) kind_api"
  mk_groups :: "(OperatorGroup, 'w) kind_api"
  mk_sources :: "(CatalogSource, 'w) kind_api"
  mk_configMaps :: "(ConfigMap, 'w) kind_api"
  mk_registry :: "string \<Rightarrow> err + (string, string) gomap"
  mk_lookupEnv :: "string \<Rightarrow> string option"
  mk_ListRHMIs :: "string \<Rightarrow> 'w \<Rightarrow> err + RHMI list"
  mk_GetCatalogSource :: "RHMI option \<Rightarrow> 'w \<Rightarrow> err + CatalogSource option"

section \<open>Declarations of products\<close>

record ProductDeclaration =
  pd_InstallFrom :: string
  pd_ManifestsDir :: "string option"
  pd_Index :: string
  pd_Channel :: string
  pd_Package :: string

record Target =
  t_Namespace :: string
  t_SubscriptionName :: string
  t_Package :: string
  t_Channel :: string

text \<open>The three implementations of \<^verbatim>\<open>CatalogSourceReconciler\<close>; the implicit one keeps the source it found.\<close>

datatype CatalogSourceReconciler =
    GRPCImage (gi_Image: string) (gi_Namespace: string) (gi_CSName: string)
  | ConfigMapCS (cmc_Dir: string) (cmc_Namespace: string) (cmc_CSName: string)
  | Implicit (im_self: "CatalogSource option")

definition ToCatalogSourceReconciler :: "ProductDeclaration \<Rightarrow> string \<Rightarrow> string \<Rightarrow> err + CatalogSourceReconciler" where
  "ToCatalogSourceReconciler p namespace catalogSourceName =
     (if pd_InstallFrom p = ''index'' then Inr (GRPCImage (pd_Index p) namespace catalogSourceName)
      else if pd_InstallFrom p = ''local'' then
        (case pd_ManifestsDir p of
           None \<Rightarrow> Inl (Msg (''installation source '' @ pd_InstallFrom p @ '' requires manifestsDir''))
         | Some dir \<Rightarrow> Inr (ConfigMapCS dir namespace catalogSourceName))
      else if pd_InstallFrom p = ''implicit'' then Inr (Implicit None)
      else Inl (Msg (''installation source '' @ pd_InstallFrom p @ '' not supported'')))"

definition GetChannel :: "ProductDeclaration \<Rightarrow> string" where
  "GetChannel p = (if pd_Channel p = '''' then IntegreatlyChannel else pd_Channel p)"

definition GetPackage :: "ProductDeclaration \<Rightarrow> string \<times> bool" where
  "GetPackage p = (pd_Package p, pd_Package p \<noteq> '''')"

definition PrepareTarget :: "ProductDeclaration \<Rightarrow> string \<Rightarrow> Target \<Rightarrow> err + CatalogSourceReconciler \<times> Target" where
  "PrepareTarget p catalogSourceName target =
     (case ToCatalogSourceReconciler p (t_Namespace target) catalogSourceName of
        Inl e \<Rightarrow> Inl e
      | Inr csr \<Rightarrow>
          (let (pkg, ok) = GetPackage p
           in Inr (csr, target\<lparr>t_Channel := GetChannel p, t_Package := (if ok then pkg else t_SubscriptionName target)\<rparr>)))"

definition LocalProductDeclaration :: "string \<Rightarrow> ProductDeclaration" where
  "LocalProductDeclaration manifestsPath = \<lparr>pd_InstallFrom = ''local'', pd_ManifestsDir = Some (''manifests/'' @ manifestsPath),
     pd_Index = '''', pd_Channel = '''', pd_Package = ''''\<rparr>"

section \<open>Catalogue sources\<close>

text \<open>The implicit reconciler has no name before it has found its source: a nil dereference.\<close>

fun CatalogSourceName :: "CatalogSourceReconciler \<Rightarrow> string option" where
  "CatalogSourceName (GRPCImage img ns cs) = Some cs"
| "CatalogSourceName (ConfigMapCS dir ns cs) = Some cs"
| "CatalogSourceName (Implicit self) = map_option cs_Name self"

fun CatalogSourceNamespace :: "CatalogSourceReconciler \<Rightarrow> string option" where
  "CatalogSourceNamespace (GRPCImage img ns cs) = Some ns"
| "CatalogSourceNamespace (ConfigMapCS dir ns cs) = Some ns"
| "CatalogSourceNamespace (Implicit self) = map_option cs_Namespace self"

definition put_source :: "'w market_env \<Rightarrow> string \<Rightarrow> string \<Rightarrow> CatalogSourceSpec \<Rightarrow> 'w \<Rightarrow> err option \<times> CatalogSource \<times> 'w" where
  "put_source env ns name spec w =
     (case CreateOrUpdate (mk_sources env) (=) (pure_op (\<lambda>cs. cs\<lparr>cs_Spec := spec\<rparr>))
             \<lparr>cs_Name = name, cs_Namespace = ns, cs_Spec = zero_css\<rparr> w of
        ((r, e), cs, w') \<Rightarrow> (e, cs, w'))"

definition GRPC_Reconcile :: "'w market_env \<Rightarrow> string \<Rightarrow> string \<Rightarrow> string \<Rightarrow> 'w \<Rightarrow> err option \<times> 'w" where
  "GRPC_Reconcile env img ns csName w =
     (case put_source env ns csName
             (zero_css\<lparr>css_SourceType := ''grpc'', css_Image := img, css_DisplayName := csName, css_Publisher := Publisher,
               css_SecurityContextConfig := Some ''restricted''\<rparr>) w of
        (Some e, cs, w') \<Rightarrow> (Some (Wrap (''failed to create/update registry catalog source for namespace '' @ ns) e), w')
      | (None, cs, w') \<Rightarrow> (None, w'))"

definition reconcileRegistryConfigMap :: "'w market_env \<Rightarrow> string \<Rightarrow> (string, string) gomap \<Rightarrow> 'w \<Rightarrow> (err + string) \<times> 'w" where
  "reconcileRegistryConfigMap env ns data w =
     (let name = ''registry-cm-'' @ ns in
      case k_Get (mk_configMaps env) \<lparr>cm_Name = name, cm_Namespace = ns, cm_Data = None\<rparr> w of
        (e, cm, w1) \<Rightarrow>
          if e \<noteq> None \<and> \<not> IsNotFound e then
            (Inl (Wrap (''Failed to get config map '' @ name @ '' from '' @ ns @ '' namespace'') (the e)), w1)
          else if IsNotFound e then
            (case k_Create (mk_configMaps env) (cm\<lparr>cm_Data := Some data\<rparr>) w1 of
               (Some e, cm2, w2) \<Rightarrow> (Inl (Wrap (''Failed to create configmap '' @ name @ '' in '' @ ns @ '' namespace'') e), w2)
             | (None, cm2, w2) \<Rightarrow> (Inr name, w2))
          else if (case cm_Data cm of None \<Rightarrow> False | Some d \<Rightarrow> gomap_eq (=) d data) then (Inr name, w1)
          else
            (case k_Update (mk_configMaps env) (cm\<lparr>cm_Data := Some data\<rparr>) w1 of
               (Some e, cm2, w2) \<Rightarrow> (Inl (Wrap (''Failed to update configmap '' @ name @ '' in '' @ ns @ '' namespace'') e), w2)
             | (None, cm2, w2) \<Rightarrow> (Inr name, w2)))"

definition reconcileCatalogSource :: "'w market_env \<Rightarrow> string \<Rightarrow> string \<Rightarrow> string \<Rightarrow> 'w \<Rightarrow> err option \<times> 'w" where
  "reconcileCatalogSource env ns csName configMapName w =
     (case put_source env ns csName
             (zero_css\<lparr>css_SourceType := ''configmap'', css_ConfigMap := configMapName, css_DisplayName := csName,
               css_Publisher := Publisher, css_SecurityContextConfig := Some ''restricted''\<rparr>) w of
        (Some e, cs, w') \<Rightarrow> (Some (Wrap (''failed to create/update registry catalog source for namespace '' @ ns) e), w')
      | (None, cs, w') \<Rightarrow> (None, w'))"

definition ConfigMap_Reconcile :: "'w market_env \<Rightarrow> string \<Rightarrow> string \<Rightarrow> string \<Rightarrow> 'w \<Rightarrow> err option \<times> 'w" where
  "ConfigMap_Reconcile env dir ns csName w =
     (case mk_registry env dir of
        Inl e \<Rightarrow> (Some (Wrap ''Failed to generated config map data from manifest'' e), w)
      | Inr data \<Rightarrow>
          (case reconcileRegistryConfigMap env ns data w of
             (Inl e, w1) \<Rightarrow> (Some (Wrap ''Failed to reconcile config map for registry'' e), w1)
           | (Inr name, w1) \<Rightarrow>
               (case reconcileCatalogSource env ns csName name w1 of
                  (Some e, w2) \<Rightarrow> (Some (Wrap ''Failed to reconcile catalog source for registry'' e), w2)
                | (None, w2) \<Rightarrow> (None, w2))))"

definition GetWatchNamespace :: "(string \<Rightarrow> string option) \<Rightarrow> err + string" where
  "GetWatchNamespace lk =
     (case lk ''WATCH_NAMESPACE'' of None \<Rightarrow> Inl (Msg ''WATCH_NAMESPACE must be set'') | Some ns \<Rightarrow> Inr ns)"

text \<open>The found source is cached, also when it is nil: then it is looked for again.\<close>

definition getSelfCatalogSource :: "'w market_env \<Rightarrow> CatalogSource option \<Rightarrow> 'w \<Rightarrow> err + CatalogSource option" where
  "getSelfCatalogSource env self w =
     (case self of
        Some cs \<Rightarrow> Inr (Some cs)
      | None \<Rightarrow>
          (case GetWatchNamespace (mk_lookupEnv env) of
             Inl e \<Rightarrow> Inl e
           | Inr ns \<Rightarrow>
               (case GetRhmiCr (mk_ListRHMIs env ns w) of
                  Inl e \<Rightarrow> Inl e
                | Inr installation \<Rightarrow> mk_GetCatalogSource env installation w)))"

definition Implicit_Reconcile ::
  "'w market_env \<Rightarrow> CatalogSource option \<Rightarrow> string \<Rightarrow> 'w \<Rightarrow> err option \<times> CatalogSource option \<times> 'w" where
  "Implicit_Reconcile env self subName w =
     (case getSelfCatalogSource env self w of
        Inl e \<Rightarrow> (Some e, self, w)
      | Inr None \<Rightarrow> (Some (Msg ''catalog source not found for implicit product installation type''), None, w)
      | Inr (Some cs) \<Rightarrow>
          (case GetWatchNamespace (mk_lookupEnv env) of
             Inl e \<Rightarrow> (Some (Wrap ''could not get watch namespace in ImplicitCatalogSourceReconciler'' e), Some cs, w)
           | Inr watchNS \<Rightarrow>
               (case namespace_prefix watchNS of
                  None \<Rightarrow> (Some (GoPanic ''slice bounds out of range''), Some cs, w)
                | Some nsPrefix \<Rightarrow>
                    if cs_Namespace cs = nsPrefix @ ''operator'' \<and> StrContains subName ''3scale'' then
                      (case put_source env (nsPrefix @ ''3scale-operator'') (cs_Name cs) (cs_Spec cs) w of
                         (Some e, cs', w') \<Rightarrow>
                           (Some (Wrap ''could not createOrUpdate catalogSource in ImplicitCatalogSourceReconciler'' e), Some cs, w')
                       | (None, cs', w') \<Rightarrow> (None, Some cs', w'))
                    else (None, Some cs, w))))"

fun csr_Reconcile ::
  "'w market_env \<Rightarrow> CatalogSourceReconciler \<Rightarrow> string \<Rightarrow> 'w \<Rightarrow> err option \<times> CatalogSourceReconciler \<times> 'w" where
  "csr_Reconcile env (GRPCImage img ns cs) subName w =
     (case GRPC_Reconcile env img ns cs w of (e, w') \<Rightarrow> (e, GRPCImage img ns cs, w'))"
| "csr_Reconcile env (ConfigMapCS dir ns cs) subName w =
     (case ConfigMap_Reconcile env dir ns cs w of (e, w') \<Rightarrow> (e, ConfigMapCS dir ns cs, w'))"
| "csr_Reconcile env (Implicit self) subName w =
     (case Implicit_Reconcile env self subName w of (e, self', w') \<Rightarrow> (e, Implicit self', w'))"

section \<open>The manager\<close>

definition reconcileOperatorGroup :: "'w market_env \<Rightarrow> Target \<Rightarrow> string list \<Rightarrow> 'w \<Rightarrow> err option \<times> 'w" where
  "reconcileOperatorGroup env t namespaces w =
     (case CreateOrUpdate (mk_groups env) (=) (pure_op (\<lambda>og. og\<lparr>og_TargetNamespaces := namespaces\<rparr>))
             \<lparr>og_Name = OperatorGroupName, og_Namespace = t_Namespace t,
              og_Labels = [(''integreatly'', t_SubscriptionName t)], og_TargetNamespaces = []\<rparr> w of
        ((r, e), og, w') \<Rightarrow> (e, w'))"

text \<open>The environment variable of the 3scale operator: the first entry of that name is set, or one is added.\<close>

fun set_env :: "string \<Rightarrow> string \<Rightarrow> (string \<times> string) list \<Rightarrow> (string \<times> string) list" where
  "set_env name val [] = [(name, val)]"
| "set_env name val ((n, v) # envs) = (if n = name then (n, val) # envs else (n, v) # set_env name val envs)"

definition mutate_sub :: "Target \<Rightarrow> string \<Rightarrow> string \<Rightarrow> string \<Rightarrow> OLMSubscription \<Rightarrow> OLMSubscription" where
  "mutate_sub t approvalStrategy csName csNamespace sub =
     (let spec = (case os_Spec sub of None \<Rightarrow> zero_spec_sub | Some s \<Rightarrow> s);
          config = (case sp_Config spec of None \<Rightarrow> \<lparr>sc_Resources = None, sc_Env = None\<rparr> | Some c \<Rightarrow> c);
          config1 = config\<lparr>sc_Resources := Some (case sc_Resources config of None \<Rightarrow> zero_resource_requirements | Some r \<Rightarrow> r)\<rparr>;
          config2 = (if t_SubscriptionName t = ThreeScaleSubscriptionName
                     then config1\<lparr>sc_Env := Some (set_env ''PREFLIGHT_CHECKS_BYPASS'' ''true''
                            (case sc_Env config1 of None \<Rightarrow> [] | Some e \<Rightarrow> e))\<rparr>
                     else config1)
      in sub\<lparr>os_Spec := Some (spec\<lparr>sp_InstallPlanApproval := approvalStrategy, sp_Channel := t_Channel t, sp_Package := t_Package t,
           sp_CatalogSource := csName, sp_CatalogSourceNamespace := csNamespace, sp_Config := Some config2\<rparr>)\<rparr>)"

text \<open>
  The get before \<^verbatim>\<open>CreateOrUpdate\<close> only fills the local object, which \<^verbatim>\<open>CreateOrUpdate\<close> reads again. No
  catalogue source reconciler asks to be called again, so the branch on \<^verbatim>\<open>RequeueAfter\<close> is not taken.
\<close>

definition InstallOperator ::
  "'w market_env \<Rightarrow> Target \<Rightarrow> string list \<Rightarrow> string \<Rightarrow> CatalogSourceReconciler \<Rightarrow> 'w \<Rightarrow>
   err option \<times> CatalogSourceReconciler \<times> 'w" where
  "InstallOperator env t namespaces approvalStrategy csr w =
     (case csr_Reconcile env csr (t_SubscriptionName t) w of
        (Some e, csr1, w1) \<Rightarrow> (Some e, csr1, w1)
      | (None, csr1, w1) \<Rightarrow>
          (case reconcileOperatorGroup env t namespaces w1 of
             (Some e, w2) \<Rightarrow> (Some e, csr1, w2)
           | (None, w2) \<Rightarrow>
               (case (CatalogSourceName csr1, CatalogSourceNamespace csr1) of
                  (Some csName, Some csNamespace) \<Rightarrow>
                    (case k_Get (mk_subs env) (zero_subscription\<lparr>os_Namespace := t_Namespace t, os_Name := t_SubscriptionName t\<rparr>) w2 of
                       (e, sub, w3) \<Rightarrow>
                         (case CreateOrUpdate (mk_subs env) (=) (pure_op (mutate_sub t approvalStrategy csName csNamespace)) sub w3 of
                            ((r, e2), sub2, w4) \<Rightarrow> (if IsAlreadyExists e2 then None else e2, csr1, w4)))
                | _ \<Rightarrow> (Some (GoPanic ''nil dereference''), csr1, w2))))"

definition getSubscription :: "'w market_env \<Rightarrow> string \<Rightarrow> string \<Rightarrow> 'w \<Rightarrow> (err + OLMSubscription) \<times> 'w" where
  "getSubscription env subName ns w =
     (case k_Get (mk_subs env) (zero_subscription\<lparr>os_Namespace := ns, os_Name := subName\<rparr>) w of
        (Some e, sub, w') \<Rightarrow> (Inl e, w') | (None, sub, w') \<Rightarrow> (Inr sub, w'))"

text \<open>A plan that does not exist is no error: all three results are nil.\<close>

definition GetSubscriptionInstallPlan ::
  "'w market_env \<Rightarrow> string \<Rightarrow> string \<Rightarrow> 'w \<Rightarrow> (InstallPlan option \<times> OLMSubscription option \<times> err option) \<times> 'w" where
  "GetSubscriptionInstallPlan env subName ns w =
     (case getSubscription env subName ns w of
        (Inl e, w1) \<Rightarrow> ((None, None, Some (Wrap ''GetSubscriptionInstallPlan'' e)), w1)
      | (Inr sub, w1) \<Rightarrow>
          (case (os_Install sub, os_InstallPlanRef sub) of
             (Some i, Some ref) \<Rightarrow>
               (case get_plan (mk_plans env) ref w1 of
                  (Some e, ip, w2) \<Rightarrow> (if IsNotFound (Some e) then (None, None, None) else (None, None, Some e), w2)
                | (None, ip, w2) \<Rightarrow> ((Some ip, Some sub, None), w2))
           | _ \<Rightarrow> ((None, Some sub, Some (ApiErr NotFound ''installplan not found'')), w1)))"

section \<open>Manifests\<close>

text \<open>
  \<^verbatim>\<open>ReverseSlice\<close> swaps by index up to and including \<^verbatim>\<open>(n-1)/2\<close>, which Go rounds towards zero; \<open>None\<close> is an
  index out of range.
\<close>

function reverse_loop :: "nat \<Rightarrow> 'a list \<Rightarrow> 'a list option" where
  "reverse_loop i xs =
     (if int i \<le> (if length xs = 0 then 0 else int ((length xs - 1) div 2)) then
        if length xs \<le> i then None
        else (let r = length xs - 1 - i in reverse_loop (Suc i) (xs[r := xs ! i, i := xs ! r]))
      else Some xs)"
  by pat_completeness auto
termination
  by (relation "measure (\<lambda>(i, xs). Suc (length xs) - i)") auto

declare reverse_loop.simps [simp del]

definition ReverseSlice :: "'a list \<Rightarrow> 'a list option" where
  "ReverseSlice data = reverse_loop 0 data"

text \<open>The lines of a manifest as an entry of a YAML list.\<close>

abbreviation newline :: char where "newline \<equiv> CHR 0x0A"

definition ReadAndFormatManifestYamlFile :: "err + string \<Rightarrow> err + string" where
  "ReadAndFormatManifestYamlFile content =
     (case content of
        Inl e \<Rightarrow> Inl e
      | Inr s \<Rightarrow>
          (let ls = SplitC newline s
           in Inr ((if HasPrefix (hd ls) ''- '' then '''' else ''- '') @ hd ls @ [newline] @
                concat (map (\<lambda>l. ''  '' @ l @ [newline]) (tl ls)))))"

text \<open>
  The version in a package manifest: the first place where
  \<^verbatim>\<open>[a-zA-Z]\.[Vv]?([0-9]+)\.([0-9]+)(\.|\-)([0-9]+)($|\n)\<close> matches; what follows the letter and the dot is then
  a version up to the end of the line.
\<close>

definition is_letter :: "char \<Rightarrow> bool" where
  "is_letter c \<longleftrightarrow> (let n = (of_char c :: nat) in 65 \<le> n \<and> n \<le> 90 \<or> 97 \<le> n \<and> n \<le> 122)"

fun scan_csv :: "string \<Rightarrow> (string \<times> string \<times> string) option" where
  "scan_csv [] = None"
| "scan_csv (c # s) =
     (if is_letter c \<and> s \<noteq> [] \<and> hd s = CHR ''.'' \<and> match_version (takeWhile (\<lambda>x. x \<noteq> newline) (tl s)) \<noteq> None
      then match_version (takeWhile (\<lambda>x. x \<noteq> newline) (tl s)) else scan_csv s)"

definition GetCurrentCSVFromManifest :: "string \<Rightarrow> err + string" where
  "GetCurrentCSVFromManifest packageYaml =
     (case scan_csv packageYaml of
        None \<Rightarrow> Inl (Msg ''invalid csv version from manifest package'')
      | Some (m1, m2, m4) \<Rightarrow>
          (case (Atoi m1, Atoi m2, Atoi m4) of
             (Some major, Some minor, Some patch) \<Rightarrow> Inr (Itoa major @ ''.'' @ Itoa minor @ ''.'' @ Itoa patch)
           | _ \<Rightarrow> Inl (Msg ''value out of range'')))"

lemmas market_defs [go_defs] = ToCatalogSourceReconciler_def GetChannel_def GetPackage_def PrepareTarget_def put_source_def
  GRPC_Reconcile_def reconcileRegistryConfigMap_def reconcileCatalogSource_def ConfigMap_Reconcile_def GetWatchNamespace_def
  getSelfCatalogSource_def Implicit_Reconcile_def reconcileOperatorGroup_def mutate_sub_def InstallOperator_def
  getSubscription_def GetSubscriptionInstallPlan_def

section \<open>Reversing\<close>

text \<open>After \<open>i\<close> turns the outer \<open>i\<close> places on both sides have their mirror image, the others are untouched.\<close>

definition half_reversed :: "'a list \<Rightarrow> nat \<Rightarrow> 'a list \<Rightarrow> bool" where
  "half_reversed xs i ys \<longleftrightarrow> length ys = length xs \<and>
     (\<forall>j < length xs. ys ! j = (if j < i \<or> length xs - i \<le> j then xs ! (length xs - 1 - j) else xs ! j))"

lemma half_reversed_step:
  assumes "half_reversed xs i ys" and "xs \<noteq> []" and "i \<le> (length xs - 1) div 2"
  shows "half_reversed xs (Suc i) (ys[length xs - 1 - i := ys ! i, i := ys ! (length xs - 1 - i)])"
proof -
  let ?n = "length xs" and ?r = "length xs - 1 - i"
  have n: "0 < ?n" using assms(2) by simp
  have i: "2 * i \<le> ?n - 1" using assms(3) by linarith
  have y: "ys ! j = (if j < i \<or> ?n - i \<le> j then xs ! (?n - 1 - j) else xs ! j)" if "j < ?n" for j
    using assms(1) that by (simp add: half_reversed_def)
  have "i < ?n - i" "i \<le> ?r" "?r < ?n - i" "i < ?n" "?r < ?n" using n i by linarith+
  then have yi: "ys ! i = xs ! i" and yr: "ys ! ?r = xs ! ?r" using y [of i] y [of ?r] by simp_all
  have len: "length ys = ?n" using assms(1) by (simp add: half_reversed_def)
  have "ys[?r := ys ! i, i := ys ! ?r] ! j = (if j < Suc i \<or> ?n - Suc i \<le> j then xs ! (?n - 1 - j) else xs ! j)"
    if j: "j < ?n" for j
  proof -
    consider "j = i" | "j \<noteq> i" "j = ?r" | "j \<noteq> i" "j \<noteq> ?r" by blast
    then show ?thesis
    proof cases
      case 1
      then show ?thesis using j yr len by simp
    next
      case 2
      then show ?thesis using j yi len n i by simp
    next
      case 3
      then have "(j < Suc i \<or> ?n - Suc i \<le> j) \<longleftrightarrow> (j < i \<or> ?n - i \<le> j)" using j by auto
      then show ?thesis using 3 j assms(1) by (simp add: half_reversed_def)
    qed
  qed
  then show ?thesis using len by (simp add: half_reversed_def)
qed

lemma reverse_loop_half:
  assumes "half_reversed xs i ys" and "xs \<noteq> []" and "i \<le> Suc ((length xs - 1) div 2)"
  shows "reverse_loop i ys = Some (rev xs)"
  using assms
proof (induction "Suc ((length xs - 1) div 2) - i" arbitrary: i ys)
  case 0
  have len: "length ys = length xs" using 0(2) by (simp add: half_reversed_def)
  have "ys = rev xs"
    by (rule nth_equalityI) (use 0 in \<open>auto simp: half_reversed_def rev_nth\<close>)
  moreover have "reverse_loop i ys = Some ys" using 0 len by (subst reverse_loop.simps) auto
  ultimately show ?case by simp
next
  case (Suc d)
  have len: "length ys = length xs" using Suc.prems(1) by (simp add: half_reversed_def)
  have i: "i \<le> (length xs - 1) div 2" using Suc.hyps(2) by simp
  then have "i < length xs" using Suc.prems(2) by (cases xs) auto
  then have "reverse_loop i ys = reverse_loop (Suc i) (ys[length xs - 1 - i := ys ! i, i := ys ! (length xs - 1 - i)])"
    using i len Suc.prems(2) by (subst reverse_loop.simps) (auto simp: Let_def)
  also have "\<dots> = Some (rev xs)"
    using Suc.hyps(1) [OF _ half_reversed_step [OF Suc.prems(1,2) i] Suc.prems(2)] Suc.hyps(2) i by simp
  finally show ?case .
qed

text \<open>
  The in-place loop of \<^verbatim>\<open>ReverseSlice\<close> ends for every slice and reverses every slice that is not empty;
  the empty one, for which the bound of the loop rounds to zero, makes it index out of range and
  panic.
\<close>

theorem ReverseSlice_correct: "ReverseSlice xs = (if xs = [] then None else Some (rev xs))"
proof (cases "xs = []")
  case True
  then show ?thesis by (simp add: ReverseSlice_def reverse_loop.simps)
next
  case False
  have "half_reversed xs 0 xs" by (simp add: half_reversed_def)
  from reverse_loop_half [OF this False] False show ?thesis by (simp add: ReverseSlice_def)
qed

section \<open>The version of a package\<close>

lemma scan_csv_digits:
  "scan_csv s = Some (a, b, c) \<Longrightarrow> list_all is_digit a \<and> list_all is_digit b \<and> list_all is_digit c"
proof (induction s)
  case (Cons x s)
  then show ?case using match_version_groups by (auto split: if_splits)
qed simp

text \<open>What is read from a package is the string of a version that can be parsed back.\<close>

lemma GetCurrentCSV_version:
  assumes "GetCurrentCSVFromManifest y = Inr s"
  shows "\<exists>v. version_ok v \<and> s = AsString v"
proof -
  obtain a b c i j k where g: "scan_csv y = Some (a, b, c)"
    and n: "Atoi a = Some i" "Atoi b = Some j" "Atoi c = Some k"
    and s: "s = Itoa i @ ''.'' @ Itoa j @ ''.'' @ Itoa k"
    using assms by (auto simp: GetCurrentCSVFromManifest_def split: option.splits)
  have "version_ok (MkVersion i j k)"
    using scan_csv_digits [OF g] n by (auto simp: version_ok_def dest: Atoi_digits_nonneg)
  then show ?thesis using s by (intro exI [of _ "MkVersion i j k"]) (simp add: AsString_def)
qed

section \<open>The subscription of a product\<close>

lemma set_env_idem [simp]: "set_env n v (set_env n v e) = set_env n v e"
  by (induction e) auto

lemma map_of_set_env [simp]: "map_of (set_env n v e) m = (if m = n then Some v else map_of e m)"
  by (induction e) auto

lemma mutate_sub_idem: "mutate_sub t a n ns (mutate_sub t a n ns s) = mutate_sub t a n ns s"
  by (simp add: mutate_sub_def Let_def)

text \<open>What the declaration of a product asks of its subscription.\<close>

definition subscribes :: "Target \<Rightarrow> string \<Rightarrow> string \<Rightarrow> string \<Rightarrow> OLMSubscription \<Rightarrow> bool" where
  "subscribes t approval csName csNamespace sub \<longleftrightarrow>
     (case os_Spec sub of
        None \<Rightarrow> False
      | Some spec \<Rightarrow>
          sp_InstallPlanApproval spec = approval \<and> sp_Channel spec = t_Channel t \<and> sp_Package spec = t_Package t \<and>
          sp_CatalogSource spec = csName \<and> sp_CatalogSourceNamespace spec = csNamespace \<and>
          (case sp_Config spec of
             None \<Rightarrow> False
           | Some c \<Rightarrow> sc_Resources c \<noteq> None \<and>
               (t_SubscriptionName t = ThreeScaleSubscriptionName \<longrightarrow>
                  (case sc_Env c of None \<Rightarrow> False | Some e \<Rightarrow> map_of e ''PREFLIGHT_CHECKS_BYPASS'' = Some ''true''))))"

lemma mutate_sub_subscribes: "subscribes t a n ns (mutate_sub t a n ns s)"
  by (simp add: subscribes_def mutate_sub_def Let_def)

text \<open>No other client creates the object between a read and the write after it.\<close>

definition no_race :: "('o, 'w) kind_api \<Rightarrow> bool" where
  "no_race api \<longleftrightarrow> (\<forall>f \<in> {k_Get api, k_Create api, k_Update api}. \<forall>s w. \<not> IsAlreadyExists (fst (f s w)))"

lemma CreateOrUpdate_no_race:
  assumes "no_race api" and "CreateOrUpdate api eq (pure_op g) obj w = ((r, e), x, w')"
  shows "\<not> IsAlreadyExists e"
proof -
  obtain e1 y u where get: "k_Get api obj w = (e1, y, u)" by (cases "k_Get api obj w")
  obtain e2 y2 u2 where c: "k_Create api (g y) u = (e2, y2, u2)" by (cases "k_Create api (g y) u")
  obtain e3 y3 u3 where u: "k_Update api (g y) u = (e3, y3, u3)" by (cases "k_Update api (g y) u")
  have f: "\<not> IsAlreadyExists (fst (f s w))" if "f \<in> {k_Get api, k_Create api, k_Update api}" for f s w
    using assms(1) that unfolding no_race_def by blast
  have "\<not> IsAlreadyExists e1" "\<not> IsAlreadyExists e2" "\<not> IsAlreadyExists e3"
    using f [of "k_Get api" obj w] f [of "k_Create api" "g y" u] f [of "k_Update api" "g y" u] get c u by simp_all
  moreover have "e = e1 \<or> e = e2 \<or> e = e3 \<or> e = None \<or>
     e = Some (Msg ''MutateFn cannot mutate object name and/or object namespace'')"
    using assms(2) get c u by (auto simp: CreateOrUpdate_pure split: if_splits)
  ultimately show ?thesis by (auto simp: IsAlreadyExists_def)
qed

text \<open>
  When the operator of a product is installed without an error, and no other client won the race to
  create the subscription, the subscription on the server is what the target and the catalogue source
  ask for, manual approval included, the 3scale operator has its preflight checks switched off, and
  the next pass has nothing to write to it.
\<close>

theorem InstallOperator_subscribes:
  assumes st: "stores (mk_subs env)" and race: "no_race (mk_subs env)"
    and run: "InstallOperator env t namespaces approval csr w = (None, csr', w')"
    and key: "k_Key (mk_subs env) q = k_Key (mk_subs env) (zero_subscription\<lparr>os_Namespace := t_Namespace t, os_Name := t_SubscriptionName t\<rparr>)"
  shows "\<exists>csName csNamespace sub. CatalogSourceName csr' = Some csName \<and> CatalogSourceNamespace csr' = Some csNamespace \<and>
     k_Get (mk_subs env) q w' = (None, sub, w') \<and> subscribes t approval csName csNamespace sub \<and>
     mutate_sub t approval csName csNamespace sub = sub"
proof -
  let ?z = "zero_subscription\<lparr>os_Namespace := t_Namespace t, os_Name := t_SubscriptionName t\<rparr>"
  obtain w2 n ns e sub w3 r e2 sub2 where names: "CatalogSourceName csr' = Some n" "CatalogSourceNamespace csr' = Some ns"
    and get: "k_Get (mk_subs env) ?z w2 = (e, sub, w3)"
    and cu: "CreateOrUpdate (mk_subs env) (=) (pure_op (mutate_sub t approval n ns)) sub w3 = ((r, e2), sub2, w')"
    and e2: "e2 = None \<or> IsAlreadyExists e2"
    using run by (auto simp: InstallOperator_def split: prod.splits option.splits if_splits)
  have e2: "e2 = None" using e2 CreateOrUpdate_no_race [OF race cu] by simp
  have k: "k_Key (mk_subs env) q = k_Key (mk_subs env) sub" using key stores_get(2) [OF st get] by simp
  have "CreateOrUpdate (mk_subs env) (=) (pure_op (mutate_sub t approval n ns)) q w' = ((OperationResultNone, None), sub2, w') \<and>
     mutate_sub t approval n ns sub2 = sub2"
    by (rule CreateOrUpdate_settles [OF st cu [unfolded e2] mutate_sub_idem k])
  then have m: "mutate_sub t approval n ns sub2 = sub2" and run2:
    "CreateOrUpdate (mk_subs env) (=) (pure_op (mutate_sub t approval n ns)) q w' = ((OperationResultNone, None), sub2, w')" by simp_all
  have "k_Get (mk_subs env) q w' = (None, sub2, w')"
  proof -
    obtain e' x u where g: "k_Get (mk_subs env) q w' = (e', x, u)" by (cases "k_Get (mk_subs env) q w'")
    have "u = w'" by (rule stores_get(1) [OF st g])
    then show ?thesis using run2 g by (auto simp: CreateOrUpdate_pure split: if_splits prod.splits)
  qed
  moreover have "subscribes t approval n ns sub2" using mutate_sub_subscribes [of t approval n ns sub2] m by simp
  ultimately show ?thesis using names m by blast
qed

definition sub_key :: "OLMSubscription \<Rightarrow> string \<times> string" where
  "sub_key s = (os_Namespace s, os_Name s)"

definition sample_market_env :: "OLMSubscription option market_env" where
  "sample_market_env = \<lparr>mk_subs = sample_api sub_key, mk_plans = empty_api, mk_groups = empty_api, mk_sources = empty_api,
     mk_configMaps = empty_api, mk_registry = (\<lambda>d. Inr []), mk_lookupEnv = (\<lambda>n. None), mk_ListRHMIs = (\<lambda>ns w. Inr []),
     mk_GetCatalogSource = (\<lambda>i w. Inr None)\<rparr>"

definition sample_target :: Target where
  "sample_target = \<lparr>t_Namespace = ''ns'', t_SubscriptionName = ThreeScaleSubscriptionName, t_Package = ''pkg'', t_Channel = ''ch''\<rparr>"

theorem InstallOperator_subscribes_witness:
  "\<exists>csName csNamespace sub w'. InstallOperator sample_market_env sample_target [''ns''] ApprovalManual
       (GRPCImage ''img'' ''ns'' ''cs'') None = (None, GRPCImage ''img'' ''ns'' ''cs'', w') \<and>
     k_Get (mk_subs sample_market_env) (zero_subscription\<lparr>os_Namespace := ''ns'', os_Name := ThreeScaleSubscriptionName\<rparr>) w' = (None, sub, w') \<and>
     subscribes sample_target ApprovalManual csName csNamespace sub"
proof -
  have st: "stores (mk_subs sample_market_env)" by (simp add: sample_market_env_def stores_sample_api)
  have nr: "no_race (mk_subs sample_market_env)"
    by (auto simp: no_race_def sample_market_env_def sample_api_def IsAlreadyExists_def split: option.splits)
  let ?r = "InstallOperator sample_market_env sample_target [''ns''] ApprovalManual (GRPCImage ''img'' ''ns'' ''cs'') None"
  have e: "fst ?r = None" and c: "fst (snd ?r) = GRPCImage ''img'' ''ns'' ''cs''"
    by (simp_all add: InstallOperator_def sample_market_env_def GRPC_Reconcile_def put_source_def reconcileOperatorGroup_def
        CreateOrUpdate_pure empty_api_def no_api_def sample_api_def mutate_sub_def Let_def zero_subscription_def sample_target_def sub_key_def)
  have r: "?r = (None, GRPCImage ''img'' ''ns'' ''cs'', snd (snd ?r))" using e c by (metis prod.collapse)
  let ?q = "zero_subscription\<lparr>os_Namespace := ''ns'', os_Name := ThreeScaleSubscriptionName\<rparr>"
  have k: "k_Key (mk_subs sample_market_env) ?q = k_Key (mk_subs sample_market_env)
      (zero_subscription\<lparr>os_Namespace := t_Namespace sample_target, os_Name := t_SubscriptionName sample_target\<rparr>)"
    by (simp add: sample_target_def)
  from InstallOperator_subscribes [OF st nr r k] r show ?thesis by blast
qed

end
