(* ===== verification/Backup.thy ===== *)
theory Backup
  imports Kube
begin

text \<open>
  Backups before an upgrade (\<^verbatim>\<open>pkg/resources/backup\<close>): an executor creates a snapshot resource, or a job
  from a cron job, and asks for it until it has ended or the time is over; the concurrent executor
  runs several of them in goroutines and waits for all. The clock is outside the model: \<open>polls\<close> is how
  often the loop comes round before the time is over. Besides the function of one executor there is
  a step relation for the goroutines, in which any of them may move next.
\<close>

section \<open>One executor\<close>

text \<open>
  The kinds \<^verbatim>\<open>AWSBackupExecutor\<close> (with its snapshot type), \<^verbatim>\<open>CronJobBackupExecutor\<close> and
  \<^verbatim>\<open>NoopBackupExecutor\<close>.
\<close>

datatype executor =
    AWSBackup (aws_Namespace: string) (aws_Resource: string) (aws_Type: string)
  | CronJobBackup (cj_Name: string) (cj_Namespace: string) (cj_JobName: string)
  | NoopBackup

abbreviation PostgresSnapshotType :: string where "PostgresSnapshotType \<equiv> ''PostgresSnapshot''"
abbreviation RedisSnapshotType :: string where "RedisSnapshotType \<equiv> ''RedisSnapshot''"

record JobStatus =
  js_CompletionTime :: "int option"
  js_Conditions :: "(string \<times> string \<times> string) list"

text \<open>\<open>bk_stamp\<close> is the formatted time that makes the names unique; a snapshot has a phase and a message.\<close>

record 'w backup_env =
  bk_stamp :: string
  bk_CreateSnapshot :: "string \<Rightarrow> string \<Rightarrow> string \<Rightarrow> string \<Rightarrow> 'w \<Rightarrow> err option \<times> 'w"
  bk_GetSnapshot :: "string \<Rightarrow> string \<Rightarrow> string \<Rightarrow> 'w \<Rightarrow> err + string \<times> string"
  bk_CreateJob :: "string \<Rightarrow> string \<Rightarrow> string \<Rightarrow> 'w \<Rightarrow> err option \<times> 'w"
  bk_GetCronJob :: "string \<Rightarrow> string \<Rightarrow> 'w \<Rightarrow> err + string"
  bk_GetJob :: "string \<Rightarrow> string \<Rightarrow> 'w \<Rightarrow> err + JobStatus"

definition snapshot_name :: "'w backup_env \<Rightarrow> string \<Rightarrow> string" where
  "snapshot_name env resource = resource @ ''-preupgrade-snapshot-'' @ bk_stamp env"

definition job_name :: "'w backup_env \<Rightarrow> string \<Rightarrow> string" where
  "job_name env base = base @ ''-'' @ bk_stamp env"

text \<open>The first half of \<^verbatim>\<open>PerformBackup\<close>: everything up to the loop.\<close>

definition begin_backup :: "'w backup_env \<Rightarrow> executor \<Rightarrow> 'w \<Rightarrow> err option \<times> 'w" where
  "begin_backup env ex w =
     (case ex of
        AWSBackup ns resource ty \<Rightarrow>
          if ty \<noteq> PostgresSnapshotType \<and> ty \<noteq> RedisSnapshotType then
            (Some (Msg (''Unsupported value for AWSShapshotType. Expected '' @ PostgresSnapshotType @ '' or ''
               @ RedisSnapshotType @ '', got '' @ ty)), w)
          else (case bk_CreateSnapshot env ty ns (snapshot_name env resource) resource w of
                  (Some e, w') \<Rightarrow> (Some (Msg (''Error creating '' @ ty @ '' for backup of resource '' @ resource @ '': '' @ err_string e)), w')
                | (None, w') \<Rightarrow> (None, w'))
      | CronJobBackup cronJob ns base \<Rightarrow>
          (case bk_GetCronJob env ns cronJob w of
             Inl e \<Rightarrow> (Some (Msg (''Error obtaining CronJob '' @ cronJob @ '' in namespace '' @ ns @ '': '' @ err_string e)), w)
           | Inr template \<Rightarrow>
               (case bk_CreateJob env ns (job_name env base) template w of
                  (Some e, w') \<Rightarrow> (Some (Msg (''Error creating Job from CronJob '' @ cronJob @ '' in namespace '' @ ns @ '': '' @ err_string e)), w')
                | (None, w') \<Rightarrow> (None, w')))
      | NoopBackup \<Rightarrow> (None, w))"

fun getJobError :: "(string \<times> string \<times> string) list \<Rightarrow> err option" where
  "getJobError [] = None"
| "getJobError ((ty, status, message) # cs) =
     (if ty = ''Failed'' \<and> status = ''True'' then Some (Msg (''job failed: '' @ message)) else getJobError cs)"

text \<open>One turn of the loop: \<open>None\<close> goes round again, \<open>Some\<close> returns.\<close>

definition query_backup :: "'w backup_env \<Rightarrow> executor \<Rightarrow> 'w \<Rightarrow> err option option" where
  "query_backup env ex w =
     (case ex of
        AWSBackup ns resource ty \<Rightarrow>
          (case bk_GetSnapshot env ty ns (snapshot_name env resource) w of
             Inl e \<Rightarrow> Some (Some (Msg (''Error occurred querying snapshot for backup '' @ resource)))
           | Inr (phase, message) \<Rightarrow>
               if phase = ''failed'' then Some (Some (Msg (''Snapshot failed: '' @ message)))
               else if phase = ''complete'' then Some None else None)
      | CronJobBackup cronJob ns base \<Rightarrow>
          (case bk_GetJob env ns (job_name env base) w of
             Inl e \<Rightarrow> Some (Some (Msg (''Error querying newly created Job  in namespace '' @ ns @ '': '' @ err_string e)))
           | Inr status \<Rightarrow>
               if js_CompletionTime status \<noteq> None then Some None
               else (case getJobError (js_Conditions status) of
                       Some e \<Rightarrow> Some (Some (Wrap ''Error performing backup job'' e))
                     | None \<Rightarrow> None))
      | NoopBackup \<Rightarrow> Some None)"

definition timed_out :: "executor \<Rightarrow> err" where
  "timed_out ex =
     (case ex of
        AWSBackup ns resource ty \<Rightarrow> Msg (''Snapshot of '' @ resource @ '' '' @ ty @ '' timed out'')
      | _ \<Rightarrow> Msg ''Timed out when waiting for Job  to finish'')"

text \<open>The loop; the cluster moves on between two turns, as \<open>drift\<close> says.\<close>

fun wait_backup :: "'w backup_env \<Rightarrow> ('w \<Rightarrow> 'w) \<Rightarrow> executor \<Rightarrow> nat \<Rightarrow> 'w \<Rightarrow> err option \<times> 'w" where
  "wait_backup env drift ex 0 w = (Some (timed_out ex), w)"
| "wait_backup env drift ex (Suc polls) w =
     (case query_backup env ex w of
        Some result \<Rightarrow> (result, w)
      | None \<Rightarrow> wait_backup env drift ex polls (drift w))"

definition PerformBackup :: "'w backup_env \<Rightarrow> ('w \<Rightarrow> 'w) \<Rightarrow> executor \<Rightarrow> nat \<Rightarrow> 'w \<Rightarrow> err option \<times> 'w" where
  "PerformBackup env drift ex polls w =
     (case begin_backup env ex w of
        (Some e, w') \<Rightarrow> (Some e, w')
      | (None, w') \<Rightarrow> if ex = NoopBackup then (None, w') else wait_backup env drift ex polls w')"

section \<open>Goroutines\<close>

text \<open>Where a goroutine is: not started, in its loop, or returned with its error.\<close>

datatype goroutine = Ready executor | Polling executor | Returned executor "err option"

text \<open>The group: its goroutines, the first error that was returned (\<^verbatim>\<open>errgroup\<close> keeps that one), the cluster.\<close>

record 'w group =
  g_tasks :: "goroutine list"
  g_err :: "err option"
  g_world :: 'w

definition ret :: "nat \<Rightarrow> executor \<Rightarrow> err option \<Rightarrow> 'w \<Rightarrow> 'w group \<Rightarrow> 'w group" where
  "ret i ex e w g = g\<lparr>g_tasks := (g_tasks g)[i := Returned ex e],
     g_err := (case g_err g of None \<Rightarrow> e | Some x \<Rightarrow> Some x), g_world := w\<rparr>"

inductive group_step :: "'w backup_env \<Rightarrow> 'w group \<Rightarrow> 'w group \<Rightarrow> bool" for env where
  begin_ok: "i < length (g_tasks g) \<Longrightarrow> g_tasks g ! i = Ready ex \<Longrightarrow> begin_backup env ex (g_world g) = (None, w) \<Longrightarrow>
     group_step env g (g\<lparr>g_tasks := (g_tasks g)[i := Polling ex], g_world := w\<rparr>)"
| begin_fails: "i < length (g_tasks g) \<Longrightarrow> g_tasks g ! i = Ready ex \<Longrightarrow> begin_backup env ex (g_world g) = (Some e, w) \<Longrightarrow>
     group_step env g (ret i ex (Some e) w g)"
| query_ends: "i < length (g_tasks g) \<Longrightarrow> g_tasks g ! i = Polling ex \<Longrightarrow> query_backup env ex (g_world g) = Some r \<Longrightarrow>
     group_step env g (ret i ex r (g_world g) g)"
| query_again: "i < length (g_tasks g) \<Longrightarrow> g_tasks g ! i = Polling ex \<Longrightarrow> query_backup env ex (g_world g) = None \<Longrightarrow>
     group_step env g g"
| time_over: "i < length (g_tasks g) \<Longrightarrow> g_tasks g ! i = Polling ex \<Longrightarrow>
     group_step env g (ret i ex (Some (timed_out ex)) (g_world g) g)"
| cluster: "group_step env g (g\<lparr>g_world := w\<rparr>)"

inductive group_reach :: "'w backup_env \<Rightarrow> executor list \<Rightarrow> 'w group \<Rightarrow> bool" for env exs where
  start: "group_reach env exs \<lparr>g_tasks = map Ready exs, g_err = None, g_world = w\<rparr>"
| move: "group_reach env exs g \<Longrightarrow> group_step env g g' \<Longrightarrow> group_reach env exs g'"

definition all_returned :: "'w group \<Rightarrow> bool" where
  "all_returned g \<longleftrightarrow> list_all (\<lambda>t. case t of Returned ex e \<Rightarrow> True | _ \<Rightarrow> False) (g_tasks g)"

text \<open>What \<^verbatim>\<open>ConcurrentBackupExecutor.PerformBackup\<close> returns once \<^verbatim>\<open>g.Wait\<close> does.\<close>

definition group_result :: "'w group \<Rightarrow> err option" where
  "group_result g = map_option (\<lambda>e. Msg (''Error occurred when performing concurrent backups: '' @ err_string e)) (g_err g)"

fun task_executor :: "goroutine \<Rightarrow> executor" where
  "task_executor (Ready ex) = ex"
| "task_executor (Polling ex) = ex"
| "task_executor (Returned ex e) = ex"

fun task_error :: "goroutine \<Rightarrow> err option" where
  "task_error (Returned ex e) = e"
| "task_error t = None"

lemmas backup_defs [go_defs] = snapshot_name_def job_name_def begin_backup_def query_backup_def timed_out_def PerformBackup_def
  group_result_def

section \<open>Properties\<close>

inductive_cases group_stepE: "group_step env g g'"

text \<open>
  The invariant of the group: the goroutines are those of the executors in order, and no error has
  been kept exactly while no goroutine has returned one.
\<close>

definition group_inv :: "executor list \<Rightarrow> 'w group \<Rightarrow> bool" where
  "group_inv exs g \<longleftrightarrow> map task_executor (g_tasks g) = exs \<and>
     (g_err g = None \<longleftrightarrow> list_all (\<lambda>t. task_error t = None) (g_tasks g))"

lemma list_all_update:
  "i < length xs \<Longrightarrow> list_all P (xs[i := x]) \<longleftrightarrow> P x \<and> (\<forall>j < length xs. j \<noteq> i \<longrightarrow> P (xs ! j))"
  by (auto simp: list_all_length nth_list_update)

lemma list_all_same: "i < length xs \<Longrightarrow> P (xs ! i) \<Longrightarrow> list_all P xs \<longleftrightarrow> (\<forall>j < length xs. j \<noteq> i \<longrightarrow> P (xs ! j))"
  by (auto simp: list_all_length)

lemma map_executor_update:
  assumes "i < length ts" and "task_executor t = task_executor (ts ! i)"
  shows "map task_executor (ts[i := t]) = map task_executor ts"
proof -
  have "map task_executor (ts[i := t]) = (map task_executor ts)[i := (map task_executor ts) ! i]"
    using assms by (simp add: map_update)
  then show ?thesis by (simp only: list_update_id)
qed

lemma group_inv_ret:
  assumes "group_inv exs g" and "i < length (g_tasks g)" and "task_executor (g_tasks g ! i) = ex"
    and "task_error (g_tasks g ! i) = None"
  shows "group_inv exs (ret i ex e w g)"
  using assms list_all_same [OF assms(2), of "\<lambda>t. task_error t = None"]
  by (auto simp: group_inv_def ret_def list_all_update map_executor_update split: option.splits)

lemma group_step_inv: "group_step env g g' \<Longrightarrow> group_inv exs g \<Longrightarrow> group_inv exs g'"
proof (induction rule: group_step.induct)
  case (begin_ok i g ex w)
  then show ?case using list_all_same [OF begin_ok(1), of "\<lambda>t. task_error t = None"]
    by (auto simp: group_inv_def list_all_update map_executor_update)
next
  case (cluster g w)
  then show ?case by (simp add: group_inv_def)
qed (simp_all add: group_inv_ret)

lemma group_reach_inv: "group_reach env exs g \<Longrightarrow> group_inv exs g"
proof (induction rule: group_reach.induct)
  case (start w)
  show ?case by (simp add: group_inv_def list_all_iff comp_def)
next
  case (move g g')
  then show ?case by (blast intro: group_step_inv)
qed

text \<open>A goroutine that returned without an error has seen its backup complete.\<close>

definition seen_complete :: "'w backup_env \<Rightarrow> executor list \<Rightarrow> executor \<Rightarrow> bool" where
  "seen_complete env exs ex \<longleftrightarrow> (\<exists>g. group_reach env exs g \<and> query_backup env ex (g_world g) = Some None)"

lemma group_step_seen:
  assumes "group_step env g g'" and "group_reach env exs g"
    and "\<And>ex. Returned ex None \<in> set (g_tasks g) \<Longrightarrow> seen_complete env exs ex"
    and "Returned ex None \<in> set (g_tasks g')"
  shows "seen_complete env exs ex"
  using assms
proof (induction rule: group_step.induct)
  case (query_ends i g ex' r)
  then show ?case
    by (auto simp: ret_def seen_complete_def dest!: set_update_subset_insert [THEN subsetD])
qed (auto simp: ret_def dest!: set_update_subset_insert [THEN subsetD])

lemma group_reach_seen: "group_reach env exs g \<Longrightarrow> Returned ex None \<in> set (g_tasks g) \<Longrightarrow> seen_complete env exs ex"
proof (induction arbitrary: ex rule: group_reach.induct)
  case (start w)
  then show ?case by auto
next
  case (move g g')
  then show ?case using group_step_seen by blast
qed

lemma group_success_iff:
  assumes "group_reach env exs g" and "all_returned g"
  shows "group_result g = None \<longleftrightarrow> g_tasks g = map (\<lambda>ex. Returned ex None) exs"
proof -
  have exs: "map task_executor (g_tasks g) = exs"
    and err: "g_err g = None \<longleftrightarrow> list_all (\<lambda>t. task_error t = None) (g_tasks g)"
    using group_reach_inv [OF assms(1)] by (simp_all add: group_inv_def)
  have "list_all (\<lambda>t. task_error t = None) ts \<longleftrightarrow> ts = map (\<lambda>ex. Returned ex None) (map task_executor ts)"
    if "list_all (\<lambda>t. case t of Returned ex e \<Rightarrow> True | _ \<Rightarrow> False) ts" for ts
    using that by (induction ts) (auto split: goroutine.splits)
  from this [of "g_tasks g"] assms(2) have "g_err g = None \<longleftrightarrow> g_tasks g = map (\<lambda>ex. Returned ex None) exs"
    unfolding all_returned_def exs err by blast
  then show ?thesis by (simp add: group_result_def)
qed

lemma group_success_seen:
  assumes "group_reach env exs g" and "all_returned g" and "group_result g = None"
  shows "list_all (seen_complete env exs) exs"
  using group_success_iff [OF assms(1,2)] group_reach_seen [OF assms(1)] assms(3) by (auto simp: list_all_iff)


section \<open>A run to evaluate\<close>

definition sample_backup_env :: "('w \<Rightarrow> bool) \<Rightarrow> 'w backup_env" where
  "sample_backup_env ready = \<lparr>bk_stamp = ''now'', bk_CreateSnapshot = (\<lambda>ty ns n r w. (None, w)),
     bk_GetSnapshot = (\<lambda>ty ns n w. Inr (if ready w then ''complete'' else ''in progress'', '''')),
     bk_CreateJob = (\<lambda>ns n t w. (None, w)), bk_GetCronJob = (\<lambda>ns n w. Inr ''''),
     bk_GetJob = (\<lambda>ns n w. Inr \<lparr>js_CompletionTime = Some 0, js_Conditions = []\<rparr>)\<rparr>"

abbreviation sample_aws :: executor where "sample_aws \<equiv> AWSBackup ''ns'' ''db'' PostgresSnapshotType"

definition sample_group :: "goroutine \<Rightarrow> 'w \<Rightarrow> 'w group" where
  "sample_group t w = \<lparr>g_tasks = [t], g_err = None, g_world = w\<rparr>"

lemma sample_group_reach:
  assumes "ready w"
  shows "group_reach (sample_backup_env ready) [sample_aws] (sample_group (Returned sample_aws None) w)"
proof -
  have "group_reach (sample_backup_env ready) [sample_aws] (sample_group (Ready sample_aws) w)"
    using group_reach.start [of "sample_backup_env ready" "[sample_aws]" w] by (simp add: sample_group_def)
  then have "group_reach (sample_backup_env ready) [sample_aws] (sample_group (Polling sample_aws) w)"
    by (rule group_reach.move)
      (use group_step.begin_ok [of 0 "sample_group (Ready sample_aws) w" sample_aws "sample_backup_env ready" w] in
        \<open>simp add: sample_group_def begin_backup_def sample_backup_env_def\<close>)
  then show ?thesis
    by (rule group_reach.move)
      (use assms group_step.query_ends [of 0 "sample_group (Polling sample_aws) w" sample_aws "sample_backup_env ready" None] in
        \<open>simp add: sample_group_def query_backup_def sample_backup_env_def ret_def\<close>)
qed

lemma sample_group_returned: "all_returned (sample_group (Returned sample_aws e) w)"
  by (simp add: all_returned_def sample_group_def)


text \<open>An executor on its own: success means that some turn of the loop saw the backup complete.\<close>

lemma wait_backup_complete:
  assumes "wait_backup env drift ex polls w = (None, w')"
  shows "query_backup env ex w' = Some None"
  using assms by (induction polls arbitrary: w) (auto split: option.splits)

text \<open>The loop ends with an answer, whatever the cluster does, once the time is over.\<close>

lemma wait_backup_times_out:
  assumes "\<And>n. query_backup env ex ((drift ^^ n) w) = None"
  shows "fst (wait_backup env drift ex polls w) = Some (timed_out ex)"
  using assms
proof (induction polls arbitrary: w)
  case 0
  show ?case by simp
next
  case (Suc polls)
  have "query_backup env ex ((drift ^^ n) (drift w)) = None" for n
    using Suc.prems [of "Suc n"] by (simp only: funpow_Suc_right comp_apply)
  then show ?case using Suc.IH Suc.prems [of 0] by simp
qed

end
