(* ===== verification/Base_Reconciler.thy ===== *)
theory Base_Reconciler
  imports Marketplace Backup
begin

text \<open>
  The reconciler every product reconciler extends (\<^verbatim>\<open>pkg/resources/reconciler.go\<close>, with
  \<^verbatim>\<open>installPlan.go\<close> and \<^verbatim>\<open>pullSecret.go\<close>): labels, OAuth clients, namespaces, pull secrets, and the
  subscription of a product up to its running operator. \<^verbatim>\<open>ReconcileFinalizer\<close>, of the same file, is in
  the theory of the uninstall.
\<close>

section \<open>Objects and environment\<close>

record NamespaceObject =
  ns_Name :: string
  ns_Labels :: "(string, string) gomap option"
  ns_Phase :: string

record OAuthClient =
  oc_Name :: string
  oc_Labels :: "(string, string) gomap option"
  oc_Secret :: string
  oc_GrantMethod :: string
  oc_RedirectURIs :: "string list"

record SecretObject =
  so_Name :: string
  so_Namespace :: string
  so_Type :: string
  so_Data :: "(string, string) gomap"

text \<open>\<open>br_Backup\<close> is the \<^verbatim>\<open>PerformBackup\<close> of the executor the product passes, with its time limit.\<close>

record 'w base_env =
  br_market :: "'w market_env"
  br_namespaces :: "(NamespaceObject, 'w) kind_api"
  br_CreateProjectRequest :: "string \<Rightarrow> 'w \<Rightarrow> err option \<times> 'w"
  br_oauth :: "(OAuthClient, 'w) kind_api"
  br_secrets :: "(SecretObject, 'w) kind_api"
  br_csvs :: "(CSV, 'w) kind_api"
  br_Backup :: "'w \<Rightarrow> err option \<times> 'w"

section \<open>Labels\<close>

definition OwnerLabelKey :: string where "OwnerLabelKey = ''integreatly.org/installation-uid''"

definition PrepareObjectLabels ::
  "(string, string) gomap option \<Rightarrow> string \<Rightarrow> bool \<Rightarrow> bool \<Rightarrow> bool \<Rightarrow> (string, string) gomap" where
  "PrepareObjectLabels labels0 uid addRHMIMonitoringLabels addClusterMonitoringLabel disableUserAlerting =
     (let labels = (case labels0 of None \<Rightarrow> [] | Some l \<Rightarrow> l);
          l1 = (if disableUserAlerting then gset ''openshift.io/user-monitoring'' ''false'' labels else labels);
          l2 = (if addRHMIMonitoringLabels then gset ''monitoring-key'' ''middleware'' l1 else AList.delete ''monitoring-key'' l1);
          l3 = (if addClusterMonitoringLabel then gset ''openshift.io/cluster-monitoring'' ''true'' l2
                else AList.delete ''openshift.io/cluster-monitoring'' l2)
      in gset OwnerLabelKey uid (gset ''integreatly'' ''true'' l3))"

definition IsOwnedBy :: "(string, string) gomap \<Rightarrow> string \<Rightarrow> bool" where
  "IsOwnedBy labels uid \<longleftrightarrow> list_ex (\<lambda>(k, v). k = OwnerLabelKey \<and> v = uid) labels"

section \<open>OAuth clients and namespaces\<close>

text \<open>The redirect URIs, the secret and the grant method are those the caller passed, not those read.\<close>

definition ReconcileOauthClient ::
  "'w base_env \<Rightarrow> string \<Rightarrow> OAuthClient \<Rightarrow> 'w \<Rightarrow> (StatusPhase \<times> err option) \<times> OAuthClient \<times> 'w" where
  "ReconcileOauthClient env uid client w =
     (case k_Get (br_oauth env) client w of
        (Some e, c1, w1) \<Rightarrow>
          if IsNotFound (Some e) then
            (case k_Create (br_oauth env) (c1\<lparr>oc_Labels := Some (PrepareObjectLabels (oc_Labels c1) uid True False False)\<rparr>) w1 of
               (Some e, c2, w2) \<Rightarrow> ((PhaseFailed, Some (Wrap (''failed to create oauth client: '' @ oc_Name c2 @ ''. '') e)), c2, w2)
             | (None, c2, w2) \<Rightarrow> ((PhaseCompleted, None), c2, w2))
          else ((PhaseFailed, Some (Wrap (''failed to get oauth client: '' @ oc_Name c1 @ ''. '') e)), c1, w1)
      | (None, c1, w1) \<Rightarrow>
          (case k_Update (br_oauth env) (c1\<lparr>oc_Labels := Some (PrepareObjectLabels (oc_Labels c1) uid True False False),
                   oc_RedirectURIs := oc_RedirectURIs client, oc_GrantMethod := oc_GrantMethod client, oc_Secret := oc_Secret client\<rparr>) w1 of
             (Some e, c2, w2) \<Rightarrow> ((PhaseFailed, Some (Wrap (''failed to update oauth client: '' @ oc_Name c2 @ ''. '') e)), c2, w2)
           | (None, c2, w2) \<Rightarrow> ((PhaseCompleted, None), c2, w2)))"

definition GetNS :: "'w base_env \<Rightarrow> string \<Rightarrow> 'w \<Rightarrow> err option \<times> NamespaceObject \<times> 'w" where
  "GetNS env namespace w = k_Get (br_namespaces env) \<lparr>ns_Name = namespace, ns_Labels = None, ns_Phase = ''''\<rparr> w"

definition CreateNSWithProjectRequest ::
  "'w base_env \<Rightarrow> string \<Rightarrow> string \<Rightarrow> bool \<Rightarrow> bool \<Rightarrow> bool \<Rightarrow> 'w \<Rightarrow> err option \<times> 'w" where
  "CreateNSWithProjectRequest env namespace uid a b c w =
     (case br_CreateProjectRequest env namespace w of
        (Some e, w1) \<Rightarrow> (Some (Msg (''could not create '' @ namespace @ '' Namespace: '' @ err_string e)), w1)
      | (None, w1) \<Rightarrow>
          (case GetNS env namespace w1 of
             (Some e, ns, w2) \<Rightarrow> (Some (Msg (''could not retrieve '' @ ns_Name ns @ '' namespace: '' @ err_string e)), w2)
           | (None, ns, w2) \<Rightarrow>
               (case k_Update (br_namespaces env) (ns\<lparr>ns_Labels := Some (PrepareObjectLabels (ns_Labels ns) uid a b c)\<rparr>) w2 of
                  (Some e, ns1, w3) \<Rightarrow>
                    (Some (Msg (''failed to update the '' @ ns_Name ns1 @ '' namespace definition: '' @ err_string e)), w3)
                | (None, ns1, w3) \<Rightarrow> (None, w3))))"

section \<open>Secrets\<close>

definition CopySecret :: "'w base_env \<Rightarrow> string \<Rightarrow> string \<Rightarrow> string \<Rightarrow> string \<Rightarrow> 'w \<Rightarrow> err option \<times> 'w" where
  "CopySecret env srcName srcNamespace destName destNamespace w =
     (case k_Get (br_secrets env) \<lparr>so_Name = srcName, so_Namespace = srcNamespace, so_Type = '''', so_Data = []\<rparr> w of
        (Some e, src, w1) \<Rightarrow> (Some e, w1)
      | (None, src, w1) \<Rightarrow>
          (case CreateOrUpdate (br_secrets env) (=) (pure_op (\<lambda>d. d\<lparr>so_Data := so_Data src, so_Type := so_Type src\<rparr>))
                  \<lparr>so_Name = destName, so_Namespace = destNamespace, so_Type = ''kubernetes.io/dockerconfigjson'', so_Data = []\<rparr> w1 of
             ((r, e), d, w2) \<Rightarrow> (e, w2)))"

definition CopyPullSecretToNameSpace :: "'w base_env \<Rightarrow> PullSecretSpec \<Rightarrow> string \<Rightarrow> string \<Rightarrow> 'w \<Rightarrow> err option \<times> 'w" where
  "CopyPullSecretToNameSpace env spec destNamespace destName w =
     CopySecret env (ps_Name spec) (ps_Namespace spec) destName destNamespace w"

text \<open>A source that does not exist yet does not hold a product up.\<close>

definition ReconcileSecretToProductNamespace ::
  "'w base_env \<Rightarrow> string \<Rightarrow> string \<Rightarrow> string \<Rightarrow> 'w \<Rightarrow> (StatusPhase \<times> err option) \<times> 'w" where
  "ReconcileSecretToProductNamespace env operatorNamespace secretName namespace w =
     (case CopySecret env secretName operatorNamespace secretName namespace w of
        (Some e, w') \<Rightarrow>
          (if IsNotFound (Some e) then (PhaseCompleted, None)
           else (PhaseFailed, Some (Wrap ''failed to seed copy secret to product namespace'' e)), w')
      | (None, w') \<Rightarrow> ((PhaseCompleted, None), w'))"

definition ReconcileSecretToRHMIOperatorNamespace ::
  "'w base_env \<Rightarrow> string \<Rightarrow> string \<Rightarrow> string \<Rightarrow> 'w \<Rightarrow> (StatusPhase \<times> err option) \<times> 'w" where
  "ReconcileSecretToRHMIOperatorNamespace env operatorNamespace secretName namespace w =
     (case CopySecret env secretName namespace secretName operatorNamespace w of
        (Some e, w') \<Rightarrow> ((PhaseFailed, Some (Wrap ''failed to copy secret to RHMI Operator namespace'' e)), w')
      | (None, w') \<Rightarrow> ((PhaseCompleted, None), w'))"

definition ReconcilePullSecret ::
  "'w base_env \<Rightarrow> string \<Rightarrow> string \<Rightarrow> RHMI \<Rightarrow> 'w \<Rightarrow> (StatusPhase \<times> err option) \<times> 'w" where
  "ReconcilePullSecret env destNamespace destName inst w =
     (case CopySecret env (ps_Name (PullSecret (Spec inst))) (ps_Namespace (PullSecret (Spec inst))) destName destNamespace w of
        (Some e, w') \<Rightarrow>
          ((PhaseFailed, Some (Wrap (''error creating/updating secret '' @ destName @ '' in namespace: '' @ destNamespace) e)), w')
      | (None, w') \<Rightarrow> ((PhaseCompleted, None), w'))"

definition ReconcileNamespace ::
  "'w base_env \<Rightarrow> string \<Rightarrow> string \<Rightarrow> RHMI \<Rightarrow> 'w \<Rightarrow> (StatusPhase \<times> err option) \<times> 'w" where
  "ReconcileNamespace env namespace uid inst w =
     (case GetNS env namespace w of
        (Some e, ns, w1) \<Rightarrow>
          if \<not> IsNotFound (Some e) \<and> \<not> IsForbidden (Some e) then
            ((PhaseFailed, Some (Wrap (''could not retrieve namespace: '' @ namespace @ ''. '') e)), w1)
          else (case CreateNSWithProjectRequest env namespace uid True False True w1 of
                  (Some e, w2) \<Rightarrow> ((PhaseFailed, Some (Msg (''failed to create '' @ namespace @ '' namespace: '' @ err_string e))), w2)
                | (None, w2) \<Rightarrow> ((PhaseCompleted, None), w2))
      | (None, ns, w1) \<Rightarrow>
          (case (if ps_Name (PullSecret (Spec inst)) \<noteq> ''''
                 then ReconcilePullSecret env namespace (ps_Name (PullSecret (Spec inst))) inst w1
                 else ((PhaseCompleted, None), w1)) of
             ((ph, Some e), w2) \<Rightarrow>
               ((PhaseFailed, Some (Msg (''Failed to reconcile '' @ ps_Name (PullSecret (Spec inst)) @ '' pull secret''))), w2)
           | ((ph, None), w2) \<Rightarrow>
               (case k_Update (br_namespaces env) (ns\<lparr>ns_Labels := Some (PrepareObjectLabels (ns_Labels ns) uid True False True)\<rparr>) w2 of
                  (Some e, ns1, w3) \<Rightarrow> ((PhaseFailed, Some (Wrap ''failed to update the ns definition'' e)), w3)
                | (None, ns1, w3) \<Rightarrow>
                    if ns_Phase ns1 = ''Terminating'' then ((PhaseInProgress, None), w3)
                    else if ns_Phase ns1 \<noteq> ''Active'' then ((PhaseInProgress, None), w3)
                    else ((PhaseCompleted, None), w3))))"

section \<open>Subscriptions\<close>

text \<open>An upgrade is approved only after the backup; a first installation has nothing to back up.\<close>

definition upgradeApproval :: "'w base_env \<Rightarrow> InstallPlan \<Rightarrow> 'w \<Rightarrow> err option \<times> InstallPlan \<times> 'w" where
  "upgradeApproval env ip w =
     (if \<not> ip_Approved ip \<and> length (ip_ClusterServiceVersionNames ip) > 0 then
        (let ip1 = ip\<lparr>ip_Approved := True\<rparr> in
         case (if ip_Generation ip > 1 then br_Backup env w else (None, w)) of
           (Some e, w1) \<Rightarrow> (Some (Wrap ''error performing pre-upgrade backup'' e), ip1, w1)
         | (None, w1) \<Rightarrow>
             (case k_Update (mk_plans (br_market env)) ip1 w1 of
                (Some e, ip2, w2) \<Rightarrow> (Some (Wrap ''error approving installplan'' e), ip2, w2)
              | (None, ip2, w2) \<Rightarrow> (None, ip2, w2)))
      else (None, ip, w))"

definition validateCSV :: "CSV \<Rightarrow> err option" where
  "validateCSV csv =
     (if csv_StrategyName csv = ''deployment'' \<and> length (csv_DeploymentSpecs csv) = 0
      then Some (Msg ''no Deployment found in install strategy'') else None)"

definition retryInstallation ::
  "'w base_env \<Rightarrow> CSV option \<Rightarrow> OLMSubscription \<Rightarrow> 'w \<Rightarrow> (StatusPhase \<times> err option) \<times> 'w" where
  "retryInstallation env csv sub w =
     (case (case csv of None \<Rightarrow> (None, w) | Some c \<Rightarrow> k_Delete (br_csvs env) c w) of
        (e, w1) \<Rightarrow>
          if e \<noteq> None \<and> \<not> IsNotFound e then
            ((PhaseFailed, Some (Msg (''failed to delete csv for re-install: '' @ err_string (the e)))), w1)
          else (case k_Delete (mk_subs (br_market env)) sub w1 of
                  (e2, w2) \<Rightarrow>
                    if e2 \<noteq> None \<and> \<not> IsNotFound e2 then
                      ((PhaseFailed, Some (Msg (''failed to delete subscription for re-intstall: '' @ err_string (the e2)))), w2)
                    else ((PhaseAwaitingOperator, None), w2)))"

fun check_csvs ::
  "'w base_env \<Rightarrow> string \<Rightarrow> OLMSubscription \<Rightarrow> string list \<Rightarrow> 'w \<Rightarrow> (StatusPhase \<times> err option) \<times> 'w" where
  "check_csvs env ns sub [] w = ((PhaseCompleted, None), w)"
| "check_csvs env ns sub (csvName # csvNames) w =
     (case k_Get (br_csvs env) (zero_csv\<lparr>csv_Name := csvName, csv_Namespace := ns\<rparr>) w of
        (Some e, csv, w1) \<Rightarrow>
          if IsNotFound (Some e) then ((PhaseInProgress, None), w1)
          else ((PhaseFailed, Some (Msg (''error retrieving CSV: '' @ err_string e))), w1)
      | (None, csv, w1) \<Rightarrow>
          if validateCSV csv \<noteq> None then retryInstallation env (Some csv) sub w1
          else check_csvs env ns sub csvNames w1)"

text \<open>\<^verbatim>\<open>sub\<close> and \<^verbatim>\<open>ip\<close> are nil together, except after an error.\<close>

definition ReconcileSubscription ::
  "'w base_env \<Rightarrow> Target \<Rightarrow> string list \<Rightarrow> CatalogSourceReconciler \<Rightarrow> 'w \<Rightarrow>
   (StatusPhase \<times> err option) \<times> CatalogSourceReconciler \<times> 'w" where
  "ReconcileSubscription env target operandNS csr w =
     (case InstallOperator (br_market env) target operandNS ApprovalManual csr w of
        (e, csr1, w1) \<Rightarrow>
          if e \<noteq> None \<and> \<not> IsAlreadyExists e then
            ((PhaseFailed, Some (Wrap (''could not create subscription in namespace: '' @ t_Namespace target) (the e))), csr1, w1)
          else (case GetSubscriptionInstallPlan (br_market env) (t_SubscriptionName target) (t_Namespace target) w1 of
            ((ipo, subo, Some e), w2) \<Rightarrow>
              (if IsNotFound (Some e) then (PhaseAwaitingOperator, None)
               else (PhaseFailed, Some (Wrap (''could not retrieve installplan and subscription in namespace: '' @ t_Namespace target) e)), csr1, w2)
          | ((ipo, subo, None), w2) \<Rightarrow>
              (case (ipo, subo) of
                 (Some ip, Some sub) \<Rightarrow>
                   (case upgradeApproval env ip w2 of
                      (Some e, ip1, w3) \<Rightarrow>
                        ((PhaseFailed, Some (Wrap (''error approving installplan for '' @ t_SubscriptionName target) e)), csr1, w3)
                    | (None, ip1, w3) \<Rightarrow>
                        if ip_Phase ip1 = InstallPlanPhaseFailed then
                          (case retryInstallation env
                                  (if os_InstalledCSV sub \<noteq> '''' then Some (zero_csv\<lparr>csv_Namespace := t_Namespace target, csv_Name := os_InstalledCSV sub\<rparr>)
                                   else None) sub w3 of (r, w4) \<Rightarrow> (r, csr1, w4))
                        else if ip_Phase ip1 \<noteq> InstallPlanPhaseComplete \<and> ip_Approved ip1 then ((PhaseInProgress, None), csr1, w3)
                        else (case check_csvs env (t_Namespace target) sub (ip_ClusterServiceVersionNames ip1) w3 of
                                (r, w4) \<Rightarrow> (r, csr1, w4)))
               | _ \<Rightarrow> ((PhaseInProgress, None), csr1, w2))))"

definition ReconcileCsvDeploymentsPriority ::
  "'w base_env \<Rightarrow> string \<Rightarrow> string \<Rightarrow> string \<Rightarrow> 'w \<Rightarrow> (StatusPhase \<times> err option) \<times> CSV \<times> 'w" where
  "ReconcileCsvDeploymentsPriority env csvName csvNamespace priorityClassName w =
     PatchIfExists (br_csvs env)
       (pure_op (\<lambda>csv. csv\<lparr>csv_DeploymentSpecs := map (\<lambda>d. d\<lparr>ds_PriorityClassName := priorityClassName\<rparr>) (csv_DeploymentSpecs csv)\<rparr>))
       (zero_csv\<lparr>csv_Name := csvName, csv_Namespace := csvNamespace\<rparr>) w"

lemmas base_defs [go_defs] = PrepareObjectLabels_def IsOwnedBy_def OwnerLabelKey_def ReconcileOauthClient_def GetNS_def
  CreateNSWithProjectRequest_def CopySecret_def ReconcilePullSecret_def ReconcileNamespace_def upgradeApproval_def validateCSV_def
  retryInstallation_def ReconcileSubscription_def

section \<open>Labels\<close>

text \<open>Every label after the call, given those before.\<close>

lemma PrepareObjectLabels_exact:
  "map_of (PrepareObjectLabels labels uid a b c) k =
     (if k = OwnerLabelKey then Some uid else if k = ''integreatly'' then Some ''true''
      else if k = ''openshift.io/cluster-monitoring'' then (if b then Some ''true'' else None)
      else if k = ''monitoring-key'' then (if a then Some ''middleware'' else None)
      else if c \<and> k = ''openshift.io/user-monitoring'' then Some ''false''
      else (case labels of None \<Rightarrow> None | Some l \<Rightarrow> map_of l k))"
  by (simp add: PrepareObjectLabels_def Let_def OwnerLabelKey_def delete_conv' split: option.split)

lemma IsOwnedBy_prepared: "IsOwnedBy (PrepareObjectLabels labels uid a b c) uid"
proof -
  have "map_of (PrepareObjectLabels labels uid a b c) OwnerLabelKey = Some uid" by (simp add: PrepareObjectLabels_exact)
  then show ?thesis by (auto simp: IsOwnedBy_def list_ex_iff dest!: map_of_SomeD intro!: bexI)
qed

section \<open>Namespaces\<close>

definition labelled :: "string \<Rightarrow> NamespaceObject \<Rightarrow> bool" where
  "labelled uid ns \<longleftrightarrow>
     (case ns_Labels ns of
        None \<Rightarrow> False
      | Some l \<Rightarrow> IsOwnedBy l uid \<and> map_of l ''integreatly'' = Some ''true'' \<and>
          map_of l ''monitoring-key'' = Some ''middleware'' \<and> map_of l ''openshift.io/user-monitoring'' = Some ''false'' \<and>
          map_of l ''openshift.io/cluster-monitoring'' = None)"

lemma labelled_prepared: "labelled uid (ns\<lparr>ns_Labels := Some (PrepareObjectLabels l uid True False True)\<rparr>)"
  by (simp add: labelled_def IsOwnedBy_prepared PrepareObjectLabels_exact OwnerLabelKey_def)

lemma labels_stored:
  assumes st: "stores (br_namespaces env)" and key: "\<And>n l. k_Key (br_namespaces env) (n\<lparr>ns_Labels := l\<rparr>) = k_Key (br_namespaces env) n"
    and get: "k_Get (br_namespaces env) q w = (None, ns, w1)"
    and upd: "k_Update (br_namespaces env) (ns\<lparr>ns_Labels := Some (PrepareObjectLabels (ns_Labels ns) uid True False True)\<rparr>) w2 = (None, ns', w')"
  shows "\<exists>n. k_Get (br_namespaces env) q w' = (None, n, w') \<and> labelled uid n \<and> ns' = n"
proof -
  let ?n = "ns\<lparr>ns_Labels := Some (PrepareObjectLabels (ns_Labels ns) uid True False True)\<rparr>"
  have k: "k_Key (br_namespaces env) q = k_Key (br_namespaces env) ?n"
    using stores_get(2) [OF st get] key by simp
  have "k_Get (br_namespaces env) q w' = (None, ?n, w')"
    by (rule stores_update(2) [OF st upd k])
  moreover have "ns' = ?n" by (rule stores_update(1) [OF st upd])
  ultimately show ?thesis using labelled_prepared by blast
qed

text \<open>
  A namespace that is reported as completed exists with the labels of the installation: it is
  owned by it, monitored by it and not by the cluster; one that existed before is also active.
\<close>

theorem ReconcileNamespace_completed:
  assumes st: "stores (br_namespaces env)"
    and key: "\<And>n l. k_Key (br_namespaces env) (n\<lparr>ns_Labels := l\<rparr>) = k_Key (br_namespaces env) n"
    and run: "ReconcileNamespace env namespace uid inst w = ((PhaseCompleted, None), w')"
  shows "\<exists>n. GetNS env namespace w' = (None, n, w') \<and> labelled uid n \<and>
     (fst (GetNS env namespace w) = None \<longrightarrow> ns_Phase n = ''Active'')"
proof -
  let ?q = "\<lparr>ns_Name = namespace, ns_Labels = None, ns_Phase = ''''\<rparr>"
  obtain e ns w1 where get: "k_Get (br_namespaces env) ?q w = (e, ns, w1)" by (cases "k_Get (br_namespaces env) ?q w")
  show ?thesis
  proof (cases e)
    case None
    then obtain w2 ns' where "k_Update (br_namespaces env)
        (ns\<lparr>ns_Labels := Some (PrepareObjectLabels (ns_Labels ns) uid True False True)\<rparr>) w2 = (None, ns', w')" and "ns_Phase ns' = ''Active''"
      using run get by (auto simp: ReconcileNamespace_def GetNS_def split: if_splits prod.splits option.splits)
    with labels_stored [OF st key, of ?q w ns w1 uid w2 ns' w'] get None show ?thesis by (auto simp: GetNS_def)
  next
    case (Some e')
    then obtain w2 ns2 w3 ns' where g: "k_Get (br_namespaces env) ?q w2 = (None, ns2, w3)" and
      u: "k_Update (br_namespaces env) (ns2\<lparr>ns_Labels := Some (PrepareObjectLabels (ns_Labels ns2) uid True False True)\<rparr>) w3 = (None, ns', w')"
      using run get
      by (auto simp: ReconcileNamespace_def GetNS_def CreateNSWithProjectRequest_def split: if_splits prod.splits option.splits)
    from labels_stored [OF st key g u] get Some show ?thesis by (auto simp: GetNS_def)
  qed
qed

section \<open>Approving and completing a subscription\<close>

lemma upgradeApproval_ok:
  assumes st: "stores (mk_plans (br_market env))" and run: "upgradeApproval env ip w = (None, ip', w')"
  shows "ip_ClusterServiceVersionNames ip' = ip_ClusterServiceVersionNames ip" and
    "ip_ClusterServiceVersionNames ip \<noteq> [] \<Longrightarrow> ip_Approved ip'"
proof -
  note w = stores_update(1) [OF st]
  show "ip_ClusterServiceVersionNames ip' = ip_ClusterServiceVersionNames ip"
    using run by (auto simp: upgradeApproval_def Let_def dest!: w split: if_splits prod.splits option.splits)
  show "ip_Approved ip'" if "ip_ClusterServiceVersionNames ip \<noteq> []"
    using run that by (auto simp: upgradeApproval_def Let_def dest!: w split: if_splits prod.splits option.splits)
qed

lemma check_csvs_completed:
  assumes "reads_by_key (br_csvs env)" and "check_csvs env ns sub names w = ((PhaseCompleted, None), w')"
  shows "w' = w \<and> (\<forall>n \<in> set names. \<exists>csv. k_Get (br_csvs env) (zero_csv\<lparr>csv_Name := n, csv_Namespace := ns\<rparr>) w' = (None, csv, w') \<and>
     validateCSV csv = None)"
  using assms(2)
proof (induction names arbitrary: w)
  case Nil
  then show ?case by simp
next
  case (Cons n names)
  obtain e csv w1 where g: "k_Get (br_csvs env) (zero_csv\<lparr>csv_Name := n, csv_Namespace := ns\<rparr>) w = (e, csv, w1)"
    by (cases "k_Get (br_csvs env) (zero_csv\<lparr>csv_Name := n, csv_Namespace := ns\<rparr>) w")
  have "w1 = w" using assms(1) g unfolding reads_by_key_def by blast
  moreover have "e = None" and "validateCSV csv = None" and "check_csvs env ns sub names w1 = ((PhaseCompleted, None), w')"
    using Cons.prems g by (auto simp: retryInstallation_def split: option.splits if_splits prod.splits)
  ultimately show ?case using Cons.IH g by auto
qed

text \<open>
  C14. A product's subscription is reported as completed only when its install plan was found and, if it
  names any version, is approved and complete, and every ClusterServiceVersion it names is in the
  cluster and has its deployments.
\<close>

theorem ReconcileSubscription_completed:
  assumes st: "stores (mk_plans (br_market env))" and rd: "reads_by_key (br_csvs env)"
    and run: "ReconcileSubscription env target operandNS csr w = ((PhaseCompleted, None), csr', w')"
  shows "\<exists>w1 w2 ip sub ip'. GetSubscriptionInstallPlan (br_market env) (t_SubscriptionName target) (t_Namespace target) w1 =
       ((Some ip, Some sub, None), w2) \<and>
     upgradeApproval env ip w2 = (None, ip', w') \<and> ip_Phase ip' \<noteq> InstallPlanPhaseFailed \<and>
     (ip_ClusterServiceVersionNames ip \<noteq> [] \<longrightarrow> ip_Approved ip' \<and> ip_Phase ip' = InstallPlanPhaseComplete) \<and>
     (\<forall>n \<in> set (ip_ClusterServiceVersionNames ip). \<exists>csv.
        k_Get (br_csvs env) (zero_csv\<lparr>csv_Name := n, csv_Namespace := t_Namespace target\<rparr>) w' = (None, csv, w') \<and> validateCSV csv = None)"
proof -
  obtain w1 w2 ip sub ip' w3 where
    g: "GetSubscriptionInstallPlan (br_market env) (t_SubscriptionName target) (t_Namespace target) w1 = ((Some ip, Some sub, None), w2)"
    and u: "upgradeApproval env ip w2 = (None, ip', w3)" and ph: "ip_Phase ip' \<noteq> InstallPlanPhaseFailed"
    and c: "ip_Phase ip' = InstallPlanPhaseComplete \<or> \<not> ip_Approved ip'"
    and k: "check_csvs env (t_Namespace target) sub (ip_ClusterServiceVersionNames ip') w3 = ((PhaseCompleted, None), w')"
    using run by (auto simp: ReconcileSubscription_def retryInstallation_def split: prod.splits option.splits if_splits)
  note a = upgradeApproval_ok [OF st u]
  from check_csvs_completed [OF rd k] g u ph c a show ?thesis by auto
qed


text \<open>A backup that fails keeps the plan as it is: the reconcile ends where the backup left the cluster.\<close>

lemma failed_backup_no_approval:
  assumes "\<not> ip_Approved ip" and "ip_Generation ip > 1" and "ip_ClusterServiceVersionNames ip \<noteq> []"
    and "br_Backup env w = (Some e, w1)"
  shows "upgradeApproval env ip w = (Some (Wrap ''error performing pre-upgrade backup'' e), ip\<lparr>ip_Approved := True\<rparr>, w1)"
  using assms by (simp add: upgradeApproval_def)

section \<open>Clusters to evaluate on\<close>

definition market_with :: "(OLMSubscription, 'w) kind_api \<Rightarrow> (InstallPlan, 'w) kind_api \<Rightarrow> 'w market_env" where
  "market_with subs plans = \<lparr>mk_subs = subs, mk_plans = plans, mk_groups = empty_api, mk_sources = empty_api,
     mk_configMaps = empty_api, mk_registry = (\<lambda>d. Inr []), mk_lookupEnv = (\<lambda>n. None), mk_ListRHMIs = (\<lambda>ns w. Inr []),
     mk_GetCatalogSource = (\<lambda>i w. Inr None)\<rparr>"

definition base_with :: "'w market_env \<Rightarrow> (NamespaceObject, 'w) kind_api \<Rightarrow> ('w \<Rightarrow> err option \<times> 'w) \<Rightarrow> 'w base_env" where
  "base_with market namespaces bk = \<lparr>br_market = market, br_namespaces = namespaces, br_CreateProjectRequest = (\<lambda>n w. (None, w)),
     br_oauth = empty_api, br_secrets = empty_api,
     br_csvs = no_api\<lparr>k_Get := (\<lambda>c w. (None, zero_csv\<lparr>csv_Name := csv_Name c, csv_Namespace := csv_Namespace c\<rparr>, w)),
       k_Key := (\<lambda>c. (csv_Namespace c, csv_Name c))\<rparr>, br_Backup = bk\<rparr>"

definition sample_namespace_env :: "NamespaceObject option base_env" where
  "sample_namespace_env = base_with (market_with empty_api empty_api) (sample_api (\<lambda>n. ('''', ns_Name n))) (\<lambda>w. (None, w))"

theorem ReconcileNamespace_completed_witness:
  "\<exists>n w'. ReconcileNamespace sample_namespace_env ''ns'' ''uid'' zero_rhmi
      (Some \<lparr>ns_Name = ''ns'', ns_Labels = None, ns_Phase = ''Active''\<rparr>) = ((PhaseCompleted, None), w') \<and>
     GetNS sample_namespace_env ''ns'' w' = (None, n, w') \<and> labelled ''uid'' n"
proof -
  have st: "stores (br_namespaces sample_namespace_env)"
    by (simp add: sample_namespace_env_def base_with_def stores_sample_api)
  have key: "k_Key (br_namespaces sample_namespace_env) (n\<lparr>ns_Labels := l\<rparr>) = k_Key (br_namespaces sample_namespace_env) n" for n l
    by (simp add: sample_namespace_env_def base_with_def sample_api_def)
  let ?r = "ReconcileNamespace sample_namespace_env ''ns'' ''uid'' zero_rhmi
      (Some \<lparr>ns_Name = ''ns'', ns_Labels = None, ns_Phase = ''Active''\<rparr>)"
  have "fst ?r = (PhaseCompleted, None)"
    by (simp add: ReconcileNamespace_def GetNS_def sample_namespace_env_def base_with_def sample_api_def zero_rhmi_def zero_spec_def)
  then have r: "?r = ((PhaseCompleted, None), snd ?r)" by (metis prod.collapse)
  from ReconcileNamespace_completed [OF st key r] r show ?thesis by blast
qed

definition ready_plan :: "bool \<Rightarrow> InstallPlan" where
  "ready_plan approved = zero_plan\<lparr>ip_Name := ''plan'', ip_Namespace := ''ns'', ip_Generation := 2, ip_Approved := approved,
     ip_ClusterServiceVersionNames := [''v2''], ip_Phase := InstallPlanPhaseComplete\<rparr>"

text \<open>A cluster on which the operator of a product is installed.\<close>

definition ready_base :: "'w base_env" where
  "ready_base = (base_with
     (market_with (found_api (\<lambda>s. zero_subscription\<lparr>os_Install := Some (''ns'', ''plan''), os_InstallPlanRef := Some (''ns'', ''plan'')\<rparr>))
        (found_api (\<lambda>p. ready_plan True)))
     (found_api (\<lambda>n. n\<lparr>ns_Phase := ''Active''\<rparr>)) (\<lambda>w. (None, w)))
     \<lparr>br_oauth := found_api id, br_secrets := found_api (\<lambda>s. s\<lparr>so_Data := [(''clientId'', ''dummy''), (''secret'', ''dummy'')]\<rparr>)\<rparr>"

definition sample_declaration :: ProductDeclaration where
  "sample_declaration = \<lparr>pd_InstallFrom = ''index'', pd_ManifestsDir = None, pd_Index = ''img'', pd_Channel = ''stable'', pd_Package = ''rhsso''\<rparr>"

definition sample_plan_env :: "InstallPlan option base_env" where
  "sample_plan_env = base_with
     (market_with (no_api\<lparr>k_Get := (\<lambda>s w. (None, zero_subscription\<lparr>os_Install := Some (''ns'', ''plan''), os_InstallPlanRef := Some (''ns'', ''plan'')\<rparr>, w))\<rparr>)
       (sample_api (\<lambda>p. (ip_Namespace p, ip_Name p)))) empty_api (\<lambda>w. (None, w))"

lemma sample_plan_env_stores: "stores (mk_plans (br_market sample_plan_env))"
  by (simp add: sample_plan_env_def base_with_def market_with_def stores_sample_api)

theorem ReconcileSubscription_completed_witness:
  "\<exists>csr' w'. ReconcileSubscription sample_plan_env sample_target [] (GRPCImage ''img'' ''ns'' ''cs'') (Some (ready_plan True)) =
       ((PhaseCompleted, None), csr', w') \<and>
     (\<exists>w1 w2 ip sub ip'. GetSubscriptionInstallPlan (br_market sample_plan_env) (t_SubscriptionName sample_target) (t_Namespace sample_target) w1 =
          ((Some ip, Some sub, None), w2) \<and> upgradeApproval sample_plan_env ip w2 = (None, ip', w'))"
proof -
  have rd: "reads_by_key (br_csvs sample_plan_env)"
    by (simp add: reads_by_key_def sample_plan_env_def base_with_def)
  let ?r = "ReconcileSubscription sample_plan_env sample_target [] (GRPCImage ''img'' ''ns'' ''cs'') (Some (ready_plan True))"
  have "fst ?r = (PhaseCompleted, None)"
    by (simp add: ReconcileSubscription_def InstallOperator_def sample_plan_env_def base_with_def market_with_def GRPC_Reconcile_def put_source_def
        reconcileOperatorGroup_def CreateOrUpdate_pure empty_api_def no_api_def sample_api_def GetSubscriptionInstallPlan_def getSubscription_def
        get_plan_def upgradeApproval_def ready_plan_def zero_subscription_def zero_plan_def validateCSV_def zero_csv_def)
  then obtain c w' where r: "?r = ((PhaseCompleted, None), c, w')" by (rule triple_eqE)
  from ReconcileSubscription_completed [OF sample_plan_env_stores rd r] r show ?thesis by blast
qed


end
