(* ===== verification/Resource_Helpers.thy ===== *)
theory Resource_Helpers
  imports Base_Reconciler Bootstrap
begin

text \<open>
  Helpers the product reconcilers share, of \<^verbatim>\<open>pkg/resources\<close>: mutations of pod templates (priority, spreading
  over zones, anti-affinity), limit ranges, the reconciler of alert rules, the engine of a Redis, waiting for
  a Postgres, owner annotations and the removal of Envoy configurations.
\<close>

section \<open>Pod templates\<close>

record Container =
  ct_Name :: string
  ct_Image :: string
  ct_VolumeMounts :: "(string \<times> string) list"
  ct_Ports :: "(string \<times> int) list"
  ct_Env :: "(string \<times> string) list"
  ct_LivenessProbe :: "(string \<times> int \<times> int \<times> int \<times> int \<times> int) option"
  ct_ReadinessProbe :: "(string \<times> int \<times> int \<times> int \<times> int \<times> int) option"
  ct_Resources :: ResourceRequirements

definition zero_container :: Container where
  "zero_container = \<lparr>ct_Name = '''', ct_Image = '''', ct_VolumeMounts = [], ct_Ports = [], ct_Env = [],
     ct_LivenessProbe = None, ct_ReadinessProbe = None, ct_Resources = zero_resources\<rparr>"

record TopologySpreadConstraint =
  ts_MaxSkew :: int
  ts_TopologyKey :: string
  ts_WhenUnsatisfiable :: string
  ts_MatchLabels :: "(string, string) gomap"

text \<open>A term: the labels it matches and the topology key; a preferred one has a weight.\<close>

datatype Affinity =
    PreferredAntiAffinity "((string, string) gomap \<times> string \<times> int) list"
  | RequiredAntiAffinity "((string, string) gomap \<times> string) list"

text \<open>A volume: its name, the ConfigMap it mounts, and the keys of it with the paths they get.\<close>

record PodTemplateSpec =
  pt_Labels :: "(string, string) gomap option"
  pt_Annotations :: "(string, string) gomap option"
  pt_PriorityClassName :: string
  pt_Volumes :: "(string \<times> string \<times> (string \<times> string) list) list"
  pt_Containers :: "Container list option"
  pt_TopologySpreadConstraints :: "TopologySpreadConstraint list"
  pt_Affinity :: "Affinity option"

definition zero_template :: PodTemplateSpec where
  "zero_template = \<lparr>pt_Labels = None, pt_Annotations = None, pt_PriorityClassName = '''', pt_Volumes = [], pt_Containers = None,
     pt_TopologySpreadConstraints = [], pt_Affinity = None\<rparr>"

text \<open>A mutation gets the labels of the object and changes the template it points to.\<close>

type_synonym PodTemplateMutation = "(string, string) gomap option \<Rightarrow> PodTemplateSpec \<Rightarrow> err option \<times> PodTemplateSpec"

abbreviation AZ_ZoneLabel :: string where "AZ_ZoneLabel \<equiv> ''topology.kubernetes.io/zone''"
abbreviation NodeLabel :: string where "NodeLabel \<equiv> ''kubernetes.io/hostname''"

definition MutatePodPriority :: "string \<Rightarrow> PodTemplateMutation" where
  "MutatePodPriority priorityClassName labels t = (None, t\<lparr>pt_PriorityClassName := priorityClassName\<rparr>)"

definition MutateZoneTopologySpreadConstraints :: "string \<Rightarrow> PodTemplateMutation" where
  "MutateZoneTopologySpreadConstraints labelMatch labels t =
     (case labels of
        None \<Rightarrow> (Some (Msg ''object has no labels''), t)
      | Some ls \<Rightarrow>
          (case map_of ls labelMatch of
             None \<Rightarrow> (Some (Msg (''label '' @ labelMatch @ '' not found in object'')), t)
           | Some v \<Rightarrow>
               (None, t\<lparr>pt_TopologySpreadConstraints :=
                  [\<lparr>ts_MaxSkew = 1, ts_TopologyKey = AZ_ZoneLabel, ts_WhenUnsatisfiable = ''ScheduleAnyway'', ts_MatchLabels = [(labelMatch, v)]\<rparr>]\<rparr>)))"

definition MultiAZAntiAffinityPreferred :: "(string, string) gomap \<Rightarrow> Affinity" where
  "MultiAZAntiAffinityPreferred matchLabels =
     PreferredAntiAffinity [(matchLabels, AZ_ZoneLabel, 100), (matchLabels, NodeLabel, 100)]"

definition MultiAZAntiAffinityRequired :: "(string, string) gomap \<Rightarrow> Affinity" where
  "MultiAZAntiAffinityRequired matchLabels = RequiredAntiAffinity [(matchLabels, AZ_ZoneLabel), (matchLabels, NodeLabel)]"

definition SelectAntiAffinityForCluster :: "bool \<Rightarrow> (string, string) gomap \<Rightarrow> Affinity" where
  "SelectAntiAffinityForCluster required matchLabels =
     (if required then MultiAZAntiAffinityRequired matchLabels else MultiAZAntiAffinityPreferred matchLabels)"

definition IsAntiAffinityRequired :: "(string \<Rightarrow> string option) \<Rightarrow> err + bool" where
  "IsAntiAffinityRequired lk =
     (case lk ''FORCED_DISTRIBUTION'' of
        None \<Rightarrow> Inr False
      | Some v \<Rightarrow> (case ParseBool v of None \<Rightarrow> Inl (Msg (''parsing '' @ v @ '': invalid syntax'')) | Some b \<Rightarrow> Inr b))"

definition MutateMultiAZAntiAffinity :: "(string \<Rightarrow> string option) \<Rightarrow> string \<Rightarrow> PodTemplateMutation" where
  "MutateMultiAZAntiAffinity lk labelMatch labels t =
     (let required = (case IsAntiAffinityRequired lk of Inl e \<Rightarrow> False | Inr b \<Rightarrow> b) in
      case (case labels of None \<Rightarrow> None | Some ls \<Rightarrow> map_of ls labelMatch) of
        None \<Rightarrow> (Some (Msg (''label '' @ labelMatch @ '' not found in object'')), t)
      | Some v \<Rightarrow> (None, t\<lparr>pt_Affinity := Some (SelectAntiAffinityForCluster required [(labelMatch, v)])\<rparr>))"

fun AllMutationsOf :: "PodTemplateMutation list \<Rightarrow> PodTemplateMutation" where
  "AllMutationsOf [] labels t = (None, t)"
| "AllMutationsOf (m # ms) labels t =
     (case m labels t of (Some e, t') \<Rightarrow> (Some e, t') | (None, t') \<Rightarrow> AllMutationsOf ms labels t')"

definition NoopMutate :: PodTemplateMutation where
  "NoopMutate labels t = (None, t)"

text \<open>How a kind of object gives access to its labels and its template: the selectors of \<^verbatim>\<open>podTemplate.go\<close>.\<close>

record 'o template_access =
  ta_labels :: "'o \<Rightarrow> (string, string) gomap option"
  ta_get :: "'o \<Rightarrow> PodTemplateSpec option"
  ta_set :: "PodTemplateSpec \<Rightarrow> 'o \<Rightarrow> 'o"

definition SetPodTemplate :: "'o template_access \<Rightarrow> PodTemplateMutation \<Rightarrow> ('o, 'w) op" where
  "SetPodTemplate acc m obj w =
     (case ta_get acc obj of
        None \<Rightarrow> (Some (GoPanic ''nil pointer dereference''), obj, w)
      | Some t \<Rightarrow> (case m (ta_labels acc obj) t of (e, t') \<Rightarrow> (e, ta_set acc t' obj, w)))"

definition UpdatePodTemplateIfExists ::
  "('o, 'w) kind_api \<Rightarrow> 'o template_access \<Rightarrow> PodTemplateMutation \<Rightarrow> 'o \<Rightarrow> 'w \<Rightarrow> (StatusPhase \<times> err option) \<times> 'o \<times> 'w" where
  "UpdatePodTemplateIfExists api acc m obj w = UpdateIfExists api (SetPodTemplate acc m) obj w"

section \<open>Limit ranges\<close>

record LimitRangeParams =
  lp_CpuRequest :: string
  lp_CpuLimit :: string
  lp_MemoryRequest :: string
  lp_MemoryLimit :: string
  lp_ResourceType :: string

record LimitRangeItem =
  li_Type :: string
  li_Default :: "ResourceList option"
  li_DefaultRequest :: "ResourceList option"

record LimitRange =
  lr_Name :: string
  lr_Namespace :: string
  lr_Limits :: "LimitRangeItem list"

definition DefaultLimitRangeParams :: LimitRangeParams where
  "DefaultLimitRangeParams = \<lparr>lp_CpuRequest = ''5m'', lp_CpuLimit = '''', lp_MemoryRequest = ''10Mi'', lp_MemoryLimit = '''',
     lp_ResourceType = ''Container''\<rparr>"

text \<open>An assignment to an entry of a map; \<open>None\<close> is the panic of a nil map.\<close>

definition put_quantity :: "(string \<Rightarrow> Quantity) \<Rightarrow> string \<Rightarrow> string \<Rightarrow> ResourceList option \<Rightarrow> ResourceList option option" where
  "put_quantity parse key s m =
     (if s = '''' then Some m else (case m of None \<Rightarrow> None | Some l \<Rightarrow> Some (Some (gset key (parse s) l))))"

definition limit_item :: "(string \<Rightarrow> Quantity) \<Rightarrow> LimitRangeParams \<Rightarrow> LimitRangeItem \<Rightarrow> LimitRangeItem option" where
  "limit_item parse params it =
     (case (Option.bind (put_quantity parse ''cpu'' (lp_CpuLimit params) (li_Default it)) (put_quantity parse ''memory'' (lp_MemoryLimit params)),
            Option.bind (put_quantity parse ''cpu'' (lp_CpuRequest params) (li_DefaultRequest it)) (put_quantity parse ''memory'' (lp_MemoryRequest params))) of
        (Some d, Some r) \<Rightarrow> Some (it\<lparr>li_Default := d, li_DefaultRequest := r\<rparr>)
      | _ \<Rightarrow> None)"

definition limit_mutate :: "(string \<Rightarrow> Quantity) \<Rightarrow> LimitRangeParams \<Rightarrow> (LimitRange, 'w) op" where
  "limit_mutate parse params lr w =
     (case lr_Limits lr of
        [] \<Rightarrow> (Some (GoPanic ''index out of range''), lr, w)
      | it # its \<Rightarrow>
          (case limit_item parse params it of
             None \<Rightarrow> (Some (GoPanic ''assignment to entry in nil map''), lr, w)
           | Some it' \<Rightarrow> (None, lr\<lparr>lr_Limits := it' # its\<rparr>, w)))"

definition ReconcileLimitRange ::
  "(LimitRange, 'w) kind_api \<Rightarrow> (string \<Rightarrow> Quantity) \<Rightarrow> string \<Rightarrow> LimitRangeParams \<Rightarrow> 'w \<Rightarrow> (StatusPhase \<times> err option) \<times> 'w" where
  "ReconcileLimitRange api parse namespace params w =
     (case CreateOrUpdate api (=) (limit_mutate parse params)
        \<lparr>lr_Name = ''limit-range'', lr_Namespace = namespace,
         lr_Limits = [\<lparr>li_Type = lp_ResourceType params, li_Default = Some [], li_DefaultRequest = Some []\<rparr>]\<rparr> w of
        ((r, Some e), lr, w') \<Rightarrow> ((PhaseFailed, Some e), w')
      | ((r, None), lr, w') \<Rightarrow> ((PhaseCompleted, None), w'))"

section \<open>Alert rules\<close>

record Rule =
  ru_Alert :: string
  ru_Expr :: string
  ru_For :: string
  ru_Labels :: "(string, string) gomap"
  ru_Annotations :: "(string, string) gomap"

text \<open>The rules of an alert belong to the API group of the observability operator, to the upstream one, or are of neither type.\<close>

datatype alert_rules = OboRules "Rule list" | UpstreamRules "Rule list" | UnknownRules

record AlertConfiguration =
  ac_AlertName :: string
  ac_GroupName :: string
  ac_Namespace :: string
  ac_Interval :: string
  ac_Rules :: alert_rules

record PrometheusRule =
  pr_Name :: string
  pr_Namespace :: string
  pr_Labels :: "(string, string) gomap"
  pr_Groups :: "(string \<times> Rule list \<times> string option) list"

record AlertReconcilerImpl =
  ar_deleting :: bool
  ar_Alerts :: "AlertConfiguration list"
  ar_RemovedAlerts :: "AlertConfiguration list"

record 'w alert_env =
  al_obo :: "(PrometheusRule, 'w) kind_api"
  al_upstream :: "(PrometheusRule, 'w) kind_api"

definition set_rule :: "AlertConfiguration \<Rightarrow> Rule list \<Rightarrow> PrometheusRule \<Rightarrow> PrometheusRule" where
  "set_rule alert rules rule =
     rule\<lparr>pr_Labels := [(''integreatly'', ''yes''), (''monitoring-key'', ''middleware'')],
          pr_Groups := [(ac_GroupName alert, rules, if ac_Interval alert \<noteq> '''' then Some (ac_Interval alert) else None)]\<rparr>"

definition empty_rule :: "AlertConfiguration \<Rightarrow> PrometheusRule" where
  "empty_rule alert = \<lparr>pr_Name = ac_AlertName alert, pr_Namespace = ac_Namespace alert, pr_Labels = [], pr_Groups = []\<rparr>"

definition reconcileRule :: "'w alert_env \<Rightarrow> AlertConfiguration \<Rightarrow> 'w \<Rightarrow> (OperationResult \<times> err option) \<times> 'w" where
  "reconcileRule env alert w =
     (case ac_Rules alert of
        OboRules rules \<Rightarrow>
          (case CreateOrUpdate (al_obo env) (=) (pure_op (set_rule alert rules)) (empty_rule alert) w of (r, rule, w') \<Rightarrow> (r, w'))
      | UpstreamRules rules \<Rightarrow>
          (case CreateOrUpdate (al_upstream env) (=) (pure_op (set_rule alert rules)) (empty_rule alert) w of (r, rule, w') \<Rightarrow> (r, w'))
      | UnknownRules \<Rightarrow> ((OperationResultNone, Some (Msg ''failed to find alert type'')), w))"

fun reconcile_rules :: "'w alert_env \<Rightarrow> AlertConfiguration list \<Rightarrow> 'w \<Rightarrow> err option \<times> 'w" where
  "reconcile_rules env [] w = (None, w)"
| "reconcile_rules env (alert # alerts) w =
     (case reconcileRule env alert w of
        ((r, Some e), w') \<Rightarrow> (Some e, w')
      | ((r, None), w') \<Rightarrow> reconcile_rules env alerts w')"

text \<open>The loop has one variable for all rules, of the upstream type; a get that finds a rule fills it.\<close>

fun deleteAlerts :: "'w alert_env \<Rightarrow> AlertConfiguration list \<Rightarrow> 'w \<Rightarrow> err option \<times> 'w" where
  "deleteAlerts env [] w = (None, w)"
| "deleteAlerts env (alert # alerts) w =
     (case k_Get (al_upstream env) (empty_rule alert) w of
        (Some e, rule, w1) \<Rightarrow>
          if IsNotFound (Some e) then deleteAlerts env alerts w1
          else (Some (Msg (''failed to retrieve alert '' @ ac_AlertName alert @ '': '' @ err_string e)), w1)
      | (None, rule, w1) \<Rightarrow>
          (case k_Delete (al_upstream env) rule w1 of
             (Some e, w2) \<Rightarrow> (Some (Msg (''failed to delete alert '' @ ac_AlertName alert @ '': '' @ err_string e)), w2)
           | (None, w2) \<Rightarrow> deleteAlerts env alerts w2))"

definition ReconcileAlerts :: "'w alert_env \<Rightarrow> AlertReconcilerImpl \<Rightarrow> 'w \<Rightarrow> (StatusPhase \<times> err option) \<times> 'w" where
  "ReconcileAlerts env r w =
     (if ar_deleting r then
        (case deleteAlerts env (ar_Alerts r @ ar_RemovedAlerts r) w of
           (Some e, w') \<Rightarrow> ((PhaseFailed, Some e), w')
         | (None, w') \<Rightarrow> ((PhaseCompleted, None), w'))
      else
        (case reconcile_rules env (ar_Alerts r) w of
           (Some e, w1) \<Rightarrow> ((PhaseFailed, Some e), w1)
         | (None, w1) \<Rightarrow>
             (case deleteAlerts env (ar_RemovedAlerts r) w1 of
                (Some e, w2) \<Rightarrow> ((PhaseFailed, Some e), w2)
              | (None, w2) \<Rightarrow> ((PhaseCompleted, None), w2))))"

section \<open>Cloud resources, owners, Envoy\<close>

text \<open>Engine and version for a Redis: those it has, or the new engine when there is none yet.\<close>

definition RedisEngineForReconcile :: "err + string \<times> string \<Rightarrow> err + string \<times> string" where
  "RedisEngineForReconcile existing =
     (case existing of
        Inl e \<Rightarrow> if IsNotFound (Some e) then Inr (''valkey'', '''') else Inl e
      | Inr (engine, version) \<Rightarrow> Inr (engine, version))"

definition WaitForRHSSOPostgresToBeComplete :: "(string \<Rightarrow> string \<Rightarrow> 'w \<Rightarrow> err + string) \<Rightarrow> string \<Rightarrow> string \<Rightarrow> 'w \<Rightarrow> StatusPhase \<times> err option" where
  "WaitForRHSSOPostgresToBeComplete get installName installNamespace w =
     (case get (''rhsso-postgres-'' @ installName) installNamespace w of
        Inl e \<Rightarrow> (PhaseAwaitingComponents, None)
      | Inr phase \<Rightarrow> if phase = ''complete'' then (PhaseCompleted, None) else (PhaseAwaitingComponents, None))"

definition AddIntegreatlyOwnerAnnotations :: "RHMI \<Rightarrow> (string, string) gomap option \<Rightarrow> (string, string) gomap" where
  "AddIntegreatlyOwnerAnnotations owner ant =
     gset ''integreatly-namespace'' (Namespace owner) (gset ''integreatly-name'' (Name owner) (case ant of None \<Rightarrow> [] | Some a \<Rightarrow> a))"

fun delete_all :: "('o \<Rightarrow> 'w \<Rightarrow> err option \<times> 'w) \<Rightarrow> 'o list \<Rightarrow> 'w \<Rightarrow> err option \<times> 'w" where
  "delete_all del [] w = (None, w)"
| "delete_all del (x # xs) w =
     (case del x w of
        (e, w') \<Rightarrow> if e \<noteq> None \<and> \<not> IsNotFound e then (e, w') else delete_all del xs w')"

definition DeleteEnvoyConfigsInNamespace ::
  "(string \<Rightarrow> 'w \<Rightarrow> err + 'o list) \<Rightarrow> ('o \<Rightarrow> 'w \<Rightarrow> err option \<times> 'w) \<Rightarrow> string \<Rightarrow> 'w \<Rightarrow> (StatusPhase \<times> err option) \<times> 'w" where
  "DeleteEnvoyConfigsInNamespace ls del namespace w =
     (case ls namespace w of
        Inl e \<Rightarrow> ((PhaseFailed, Some e), w)
      | Inr items \<Rightarrow>
          if items = [] then ((PhaseCompleted, None), w)
          else (case delete_all del items w of
                  (Some e, w') \<Rightarrow> ((PhaseFailed, Some (Msg (''failed to delete envoyconfig for namespace '' @ namespace @ '': '' @ err_string e))), w')
                | (None, w') \<Rightarrow> ((PhaseInProgress, None), w')))"

fun envoy_loop ::
  "(string \<Rightarrow> 'w \<Rightarrow> err + 'o list) \<Rightarrow> ('o \<Rightarrow> 'w \<Rightarrow> err option \<times> 'w) \<Rightarrow> string list \<Rightarrow> StatusPhase \<Rightarrow> 'w \<Rightarrow> (StatusPhase \<times> err option) \<times> 'w" where
  "envoy_loop ls del [] phase w = ((phase, None), w)"
| "envoy_loop ls del (ns # nss) phase w =
     (case DeleteEnvoyConfigsInNamespace ls del ns w of
        ((nsPhase, Some e), w') \<Rightarrow> ((PhaseFailed, Some e), w')
      | ((nsPhase, None), w') \<Rightarrow> envoy_loop ls del nss (if phase = PhaseCompleted then nsPhase else phase) w')"

definition DeleteEnvoyConfigsInNamespaces ::
  "(string \<Rightarrow> 'w \<Rightarrow> err + 'o list) \<Rightarrow> ('o \<Rightarrow> 'w \<Rightarrow> err option \<times> 'w) \<Rightarrow> string list \<Rightarrow> 'w \<Rightarrow> (StatusPhase \<times> err option) \<times> 'w" where
  "DeleteEnvoyConfigsInNamespaces ls del namespaces w = envoy_loop ls del namespaces PhaseCompleted w"

lemmas helper_defs [go_defs] = MutatePodPriority_def MutateZoneTopologySpreadConstraints_def SelectAntiAffinityForCluster_def
  IsAntiAffinityRequired_def MutateMultiAZAntiAffinity_def SetPodTemplate_def ReconcileLimitRange_def limit_mutate_def
  reconcileRule_def ReconcileAlerts_def RedisEngineForReconcile_def WaitForRHSSOPostgresToBeComplete_def
  DeleteEnvoyConfigsInNamespace_def DeleteEnvoyConfigsInNamespaces_def

section \<open>Properties\<close>

text \<open>
  The two multi-zone mutations together, on an object with the label: the pods are spread over zones, kept apart by zone
  and by node, both for the pods that carry the label with the object's value, and nothing else of the template changes.
\<close>

lemma multi_az_mutations:
  assumes "map_of ls l = Some v"
  shows "AllMutationsOf [MutateZoneTopologySpreadConstraints l, MutateMultiAZAntiAffinity lk l] (Some ls) t =
    (None, t\<lparr>pt_TopologySpreadConstraints :=
         [\<lparr>ts_MaxSkew = 1, ts_TopologyKey = AZ_ZoneLabel, ts_WhenUnsatisfiable = ''ScheduleAnyway'', ts_MatchLabels = [(l, v)]\<rparr>],
       pt_Affinity := Some (SelectAntiAffinityForCluster (IsAntiAffinityRequired lk = Inr True) [(l, v)])\<rparr>)"
  using assms
  by (auto simp: MutateZoneTopologySpreadConstraints_def MutateMultiAZAntiAffinity_def Let_def split: sum.split)

lemma multi_az_without_label:
  "map_of ls l = None \<Longrightarrow> AllMutationsOf (MutateZoneTopologySpreadConstraints l # ms) (Some ls) t =
     (Some (Msg (''label '' @ l @ '' not found in object'')), t)"
  by (simp add: MutateZoneTopologySpreadConstraints_def)

text \<open>Rules of the observability operator's API group are out of reach of the deletion, which looks in the upstream group only.\<close>

lemma deleteAlerts_upstream_only:
  assumes "\<And>rule w. \<exists>m. k_Get (al_upstream env) rule w = (Some (ApiErr NotFound m), rule, w)"
  shows "deleteAlerts env alerts w = (None, w)"
proof (induction alerts arbitrary: w)
  case (Cons a as)
  obtain m where "k_Get (al_upstream env) (empty_rule a) w = (Some (ApiErr NotFound m), empty_rule a, w)" using assms by blast
  then show ?case using Cons by simp
qed simp

lemma obo_rules_survive_removal:
  assumes "\<And>rule w. \<exists>m. k_Get (al_upstream env) rule w = (Some (ApiErr NotFound m), rule, w)" and "ar_deleting r"
  shows "ReconcileAlerts env r w = ((PhaseCompleted, None), w)"
  using assms by (simp add: ReconcileAlerts_def deleteAlerts_upstream_only)

text \<open>Envoy configurations count as gone only when every namespace was found without any.\<close>

lemma envoy_loop_completed:
  "envoy_loop ls del nss phase w = ((PhaseCompleted, None), w') \<Longrightarrow> phase = PhaseCompleted \<and> w' = w \<and> (\<forall>ns \<in> set nss. ls ns w = Inr [])"
proof (induction nss arbitrary: phase w)
  case (Cons ns nss)
  obtain p e w1 where d: "DeleteEnvoyConfigsInNamespace ls del ns w = ((p, e), w1)" by (metis surj_pair)
  with Cons.prems have e: "e = None" by (cases e) auto
  then have "envoy_loop ls del nss (if phase = PhaseCompleted then p else phase) w1 = ((PhaseCompleted, None), w')"
    using Cons.prems d by simp
  from Cons.IH [OF this] have ih: "(if phase = PhaseCompleted then p else phase) = PhaseCompleted" "w' = w1" "\<forall>ns \<in> set nss. ls ns w1 = Inr []"
    by auto
  then have "p = PhaseCompleted" and "phase = PhaseCompleted" by (auto split: if_splits)
  with d e have "w1 = w" and "ls ns w = Inr []"
    by (auto simp: DeleteEnvoyConfigsInNamespace_def split: sum.splits if_splits prod.splits option.splits)
  with ih \<open>phase = PhaseCompleted\<close> show ?case by simp
qed simp

lemma envoy_configs_gone:
  "DeleteEnvoyConfigsInNamespaces ls del nss w = ((PhaseCompleted, None), w') \<Longrightarrow> w' = w \<and> (\<forall>ns \<in> set nss. ls ns w = Inr [])"
  by (auto simp: DeleteEnvoyConfigsInNamespaces_def dest: envoy_loop_completed)

end
