(* ===== verification/Rate_Limit.thy ===== *)
theory Rate_Limit
  imports Resource_Helpers
begin

text \<open>
  The rate limit service of marin3r (\<^verbatim>\<open>pkg/products/marin3r/rateLimitService.go\<close>): the limits that follow from the
  quota, the ConfigMap that holds them, the deployment that reads them and the service in front of it. Limits are
  32-bit and seconds 64-bit words, as in the source. The YAML encoder and the hash are parameters.
\<close>

section \<open>Data\<close>

record limitadorLimit =
  ll_Namespace :: string
  ll_MaxValue :: "32 word"
  ll_Seconds :: "64 word"
  ll_Conditions :: "string list"
  ll_Variables :: "string list"

record RLConfigMap =
  rc_Name :: string
  rc_Namespace :: string
  rc_Labels :: "(string, string) gomap option"
  rc_Data :: "(string, string) gomap option"

record DeploymentObject =
  d_Name :: string
  d_Namespace :: string
  d_Labels :: "(string, string) gomap option"
  d_Replicas :: "32 word option"
  d_Selector :: "(string, string) gomap option"
  d_Strategy :: string
  d_Template :: PodTemplateSpec

text \<open>A port of a service: name, protocol, port and target port.\<close>

record ServiceObject =
  sv_Name :: string
  sv_Namespace :: string
  sv_Labels :: "(string, string) gomap option"
  sv_Ports :: "(string \<times> string \<times> int \<times> int) list"
  sv_Selector :: "(string, string) gomap"

record 'w rl_env =
  re_configMaps :: "(RLConfigMap, 'w) kind_api"
  re_secrets :: "(SecretObject, 'w) kind_api"
  re_deployments :: "(DeploymentObject, 'w) kind_api"
  re_services :: "(ServiceObject, 'w) kind_api"
  re_yaml :: "limitadorLimit list \<Rightarrow> err + string"
  re_sha256 :: "string \<Rightarrow> string"
  re_lookupEnv :: "string \<Rightarrow> string option"

record RateLimitServiceReconciler =
  rr_Namespace :: string
  rr_RedisSecretName :: string
  rr_Installation :: RHMI
  rr_Config :: RateLimitConfig

abbreviation multitenantLimitConfigMap :: string where "multitenantLimitConfigMap \<equiv> ''multitenant-config''"
abbreviation multitenantRateLimit :: string where "multitenantRateLimit \<equiv> ''mulitenantLimit''"
abbreviation RateLimitingConfigMapName :: string where "RateLimitingConfigMapName \<equiv> ''ratelimit-config''"
abbreviation RateLimitingConfigMapDataName :: string where "RateLimitingConfigMapDataName \<equiv> ''apicast-ratelimiting.yaml''"
abbreviation RateLimitDomain :: string where "RateLimitDomain \<equiv> ''apicast-ratelimit''"

definition rateLimitImage :: string where
  "rateLimitImage = ''registry.redhat.io/rhcl-1/limitador-rhel9@sha256:aff28d76f9cfeefafd6b652e055bb25e1a2bf250e062e3e9b5e54db873f9eeb7''"

definition slowpath_condition :: string where
  "slowpath_condition = ''descriptors[0]['' @ [CHR 39] @ ''generic_key'' @ [CHR 39] @ ''] == '' @ [CHR 34] @ ''slowpath'' @ [CHR 34]"

definition is_mt :: "RateLimitServiceReconciler \<Rightarrow> bool" where
  "is_mt r \<longleftrightarrow> IsRHOAMMultitenant (Type (Spec (rr_Installation r)))"

section \<open>Limits\<close>

definition getUnitInSeconds :: "string \<Rightarrow> err + 64 word" where
  "getUnitInSeconds u =
     (if u = ''second'' then Inr 1 else if u = ''minute'' then Inr 60 else if u = ''hour'' then Inr (60 * 60)
      else if u = ''day'' then Inr (60 * 60 * 24)
      else Inl (Msg (''unexpected Rate Limit Unit '' @ u @ '', while getting unit in seconds'')))"

definition GetSecondsInUnit :: "64 word \<Rightarrow> err + string" where
  "GetSecondsInUnit seconds =
     (if seconds = 1 then Inr ''second'' else if seconds = 60 then Inr ''minute'' else if seconds = 60 * 60 then Inr ''hour''
      else if seconds = 60 * 60 * 24 then Inr ''day''
      else Inl (Msg (''unexpected seconds value: '' @ Itoa (uint seconds) @ '', while getting seconds in Rate Limit Unit'')))"

definition getLimitPerTenant :: "RateLimitServiceReconciler \<Rightarrow> 32 word" where
  "getLimitPerTenant r =
     (let limitPerTenant = RequestsPerUnit (rr_Config r) div 200
      in if limitPerTenant < 200 then 200 else limitPerTenant)"

definition tenant_map :: "RateLimitServiceReconciler \<Rightarrow> RLConfigMap" where
  "tenant_map r = \<lparr>rc_Name = multitenantLimitConfigMap, rc_Namespace = rr_Namespace r, rc_Labels = None, rc_Data = None\<rparr>"

text \<open>Writing an entry of the data: with nil data it panics.\<close>

definition put_tenant_limit :: "RateLimitServiceReconciler \<Rightarrow> (RLConfigMap, 'w) op" where
  "put_tenant_limit r cm w =
     (case rc_Data cm of
        None \<Rightarrow> (Some (GoPanic ''assignment to entry in nil map''), cm, w)
      | Some d \<Rightarrow> (None, cm\<lparr>rc_Data := Some (gset multitenantRateLimit (Itoa (uint (getLimitPerTenant r))) d)\<rparr>, w))"

definition parse_limit :: "RLConfigMap \<Rightarrow> err + 32 word" where
  "parse_limit cm =
     (let s = gget '''' (case rc_Data cm of None \<Rightarrow> [] | Some d \<Rightarrow> d) multitenantRateLimit in
      case Atoi s of
        None \<Rightarrow> Inl (Msg (''error converting limit per tenant value strconv.ParseInt: parsing '' @ s))
      | Some n \<Rightarrow>
          if n < 0 \<or> n > 4294967295 then Inl (Msg (''rate limit value '' @ Itoa n @ '' is out of the valid range for uint32''))
          else Inr (word_of_int n))"

definition getLimitPerTenantFromConfigMap :: "'w rl_env \<Rightarrow> RateLimitServiceReconciler \<Rightarrow> 'w \<Rightarrow> (err + 32 word) \<times> 'w" where
  "getLimitPerTenantFromConfigMap env r w =
     (case k_Get (re_configMaps env) (tenant_map r) w of
        (Some e, cm, w1) \<Rightarrow>
          if \<not> IsNotFound (Some e) then (Inl (Wrap ''error when getting the config map'' e), w1)
          else (case CreateOrUpdate (re_configMaps env) (=) (put_tenant_limit r) (cm\<lparr>rc_Data := Some []\<rparr>) w1 of
                  ((res, Some e2), cm2, w2) \<Rightarrow> (Inl (Wrap ''error when creating config map'' e2), w2)
                | ((res, None), cm2, w2) \<Rightarrow> (parse_limit cm2, w2))
      | (None, cm, w1) \<Rightarrow> (parse_limit cm, w1))"

definition getCurrentLimitPerTenant :: "'w rl_env \<Rightarrow> RateLimitServiceReconciler \<Rightarrow> 'w \<Rightarrow> (err + string) \<times> 'w" where
  "getCurrentLimitPerTenant env r w =
     (case k_Get (re_configMaps env) (tenant_map r) w of
        (Some e, cm, w1) \<Rightarrow> (Inl (Wrap ''error when getting the config map'' e), w1)
      | (None, cm, w1) \<Rightarrow> (Inr (gget '''' (case rc_Data cm of None \<Rightarrow> [] | Some d \<Rightarrow> d) multitenantRateLimit), w1))"

definition service_limit :: "RateLimitServiceReconciler \<Rightarrow> 64 word \<Rightarrow> limitadorLimit" where
  "service_limit r seconds = \<lparr>ll_Namespace = RateLimitDomain, ll_MaxValue = RequestsPerUnit (rr_Config r), ll_Seconds = seconds,
     ll_Conditions = [slowpath_condition], ll_Variables = []\<rparr>"

definition getRHOAMLimitadorSetting :: "RateLimitServiceReconciler \<Rightarrow> err + limitadorLimit list" where
  "getRHOAMLimitadorSetting r =
     (case getUnitInSeconds (Unit (rr_Config r)) of
        Inl e \<Rightarrow> Inl e
      | Inr seconds \<Rightarrow> Inr [service_limit r seconds])"

definition getMultitenantRHOAMLimitadorSetting :: "'w rl_env \<Rightarrow> RateLimitServiceReconciler \<Rightarrow> 'w \<Rightarrow> (err + limitadorLimit list) \<times> 'w" where
  "getMultitenantRHOAMLimitadorSetting env r w =
     (case getLimitPerTenantFromConfigMap env r w of
        (Inl e, w1) \<Rightarrow> (Inl e, w1)
      | (Inr limit, w1) \<Rightarrow>
          (case getUnitInSeconds (Unit (rr_Config r)) of
             Inl e \<Rightarrow> (Inl e, w1)
           | Inr seconds \<Rightarrow>
               (Inr [service_limit r seconds,
                  \<lparr>ll_Namespace = RateLimitDomain, ll_MaxValue = limit, ll_Seconds = seconds,
                   ll_Conditions = [''header_match == per-mt-limit''], ll_Variables = [''tenant'']\<rparr>], w1)))"

definition getLimitadorSetting :: "'w rl_env \<Rightarrow> RateLimitServiceReconciler \<Rightarrow> 'w \<Rightarrow> (err + limitadorLimit list) \<times> 'w" where
  "getLimitadorSetting env r w =
     (case (if \<not> is_mt r then (getRHOAMLimitadorSetting r, w) else getMultitenantRHOAMLimitadorSetting env r w) of
        (Inl e, w1) \<Rightarrow> (Inl (Msg (''failed to marshall rate limit config: '' @ err_string e)), w1)
      | (Inr ls, w1) \<Rightarrow> (Inr ls, w1))"

section \<open>The ConfigMap\<close>

definition put_limits :: "'w rl_env \<Rightarrow> RateLimitServiceReconciler \<Rightarrow> (RLConfigMap, 'w) op" where
  "put_limits env r cm w =
     (case getLimitadorSetting env r w of
        (Inl e, w1) \<Rightarrow> (Some e, cm, w1)
      | (Inr ls, w1) \<Rightarrow>
          (case re_yaml env ls of
             Inl e \<Rightarrow> (Some (Msg (''failed to marshall rate limit config: '' @ err_string e)), cm, w1)
           | Inr y \<Rightarrow>
               (None, cm\<lparr>rc_Data := Some (gset RateLimitingConfigMapDataName y (case rc_Data cm of None \<Rightarrow> [] | Some d \<Rightarrow> d)),
                  rc_Labels := Some (gset ''part-of'' ''3scale-saas'' (gset ''app'' RateLimitName (case rc_Labels cm of None \<Rightarrow> [] | Some l \<Rightarrow> l)))\<rparr>, w1)))"

definition limits_map :: "RateLimitServiceReconciler \<Rightarrow> RLConfigMap" where
  "limits_map r = \<lparr>rc_Name = RateLimitingConfigMapName, rc_Namespace = rr_Namespace r, rc_Labels = None, rc_Data = None\<rparr>"

definition reconcileConfigMap :: "'w rl_env \<Rightarrow> RateLimitServiceReconciler \<Rightarrow> 'w \<Rightarrow> (StatusPhase \<times> err option) \<times> 'w" where
  "reconcileConfigMap env r w =
     (case CreateOrUpdate (re_configMaps env) (=) (put_limits env r) (limits_map r) w of
        ((res, Some e), cm, w') \<Rightarrow> ((PhaseFailed, Some e), w')
      | ((res, None), cm, w') \<Rightarrow> ((PhaseCompleted, None), w'))"

section \<open>The deployment\<close>

definition uniqueKey :: "'w rl_env \<Rightarrow> RateLimitServiceReconciler \<Rightarrow> string \<Rightarrow> string" where
  "uniqueKey env r currentRateLimit =
     (let base = Unit (rr_Config r) @ ''/'' @ Itoa (uint (RequestsPerUnit (rr_Config r)))
      in re_sha256 env (if \<not> is_mt r then base else base @ ''/'' @ currentRateLimit))"

definition limits_file :: "'w rl_env \<Rightarrow> RateLimitServiceReconciler \<Rightarrow> string \<Rightarrow> string" where
  "limits_file env r currentRateLimit = ''apicast-ratelimiting-'' @ uniqueKey env r currentRateLimit @ ''.yaml''"

definition rl_container :: "string \<Rightarrow> string \<Rightarrow> Container \<Rightarrow> Container" where
  "rl_container url limitsFile c =
     c\<lparr>ct_Name := RateLimitName, ct_Image := rateLimitImage,
       ct_VolumeMounts := [(''/srv/runtime_data/current/config'', ''runtime-config'')],
       ct_Ports := [(''http'', 8080), (''grpc'', 8081)],
       ct_Env := [(''RUST_LOG'', ''info''), (''REDIS_URL'', ''redis://'' @ url),
         (''LIMITS_FILE'', ''/srv/runtime_data/current/config/'' @ limitsFile)],
       ct_LivenessProbe := Some (''/status'', 5, 2, 10, 1, 3), ct_ReadinessProbe := Some (''/status'', 5, 5, 10, 1, 3)\<rparr>"

definition rl_template :: "string \<Rightarrow> string \<Rightarrow> string \<Rightarrow> Container list \<Rightarrow> PodTemplateSpec \<Rightarrow> PodTemplateSpec" where
  "rl_template priority url limitsFile cs t =
     t\<lparr>pt_Labels := Some [(''app'', RateLimitName)], pt_Annotations := None, pt_PriorityClassName := priority,
       pt_Volumes := [(''runtime-config'', RateLimitingConfigMapName, [(RateLimitingConfigMapDataName, limitsFile)])],
       pt_Containers := Some (rl_container url limitsFile (hd cs) # tl cs)\<rparr>"

definition deployment_access :: "DeploymentObject template_access" where
  "deployment_access = \<lparr>ta_labels = d_Labels, ta_get = (\<lambda>d. Some (d_Template d)), ta_set = (\<lambda>t d. d\<lparr>d_Template := t\<rparr>)\<rparr>"

text \<open>\<^verbatim>\<open>productConfig.Configure\<close> on a deployment: replicas and the resources of its containers.\<close>

definition configure_deployment :: "Quota option \<Rightarrow> QuotaProductConfig \<Rightarrow> (DeploymentObject, 'w) op" where
  "configure_deployment q p d w =
     (let cs = (case pt_Containers (d_Template d) of None \<Rightarrow> [] | Some cs \<Rightarrow> cs) in
      case Configure q p (Deployment (d_Name d) (d_Replicas d) (map ct_Resources cs)) of
        None \<Rightarrow> (Some (GoPanic ''nil pointer dereference''), d, w)
      | Some (Inl e) \<Rightarrow> (Some e, d, w)
      | Some (Inr (Deployment n reps rs)) \<Rightarrow>
          (None, d\<lparr>d_Replicas := reps,
             d_Template := (d_Template d)\<lparr>pt_Containers :=
               map_option (\<lambda>cs. map (\<lambda>(c, x). c\<lparr>ct_Resources := x\<rparr>) (zip cs rs)) (pt_Containers (d_Template d))\<rparr>\<rparr>, w)
      | Some (Inr obj) \<Rightarrow> (None, d, w))"

definition put_deployment ::
  "'w rl_env \<Rightarrow> RateLimitServiceReconciler \<Rightarrow> string \<Rightarrow> string \<Rightarrow> Quota option \<Rightarrow> QuotaProductConfig \<Rightarrow> (DeploymentObject, 'w) op" where
  "put_deployment env r currentRateLimit url q p d w =
     (let cs = (case pt_Containers (d_Template d) of None \<Rightarrow> [zero_container] | Some cs \<Rightarrow> cs);
          d1 = d\<lparr>d_Labels := Some (gset ''app'' RateLimitName (case d_Labels d of None \<Rightarrow> [] | Some l \<Rightarrow> l)),
                 d_Selector := Some [(''app'', RateLimitName)], d_Strategy := ''Recreate''\<rparr>
      in if cs = [] then (Some (GoPanic ''index out of range''), d1, w)
         else
           (let d2 = d1\<lparr>d_Template := rl_template (PriorityClassName (Spec (rr_Installation r))) url (limits_file env r currentRateLimit) cs (d_Template d)\<rparr>
            in case SetPodTemplate deployment_access
                      (AllMutationsOf [MutateZoneTopologySpreadConstraints ''app'', MutateMultiAZAntiAffinity (re_lookupEnv env) ''app'']) d2 w of
                 (Some e, d3, w3) \<Rightarrow> (Some (Wrap ''failed to set zone topology spread constraints'' e), d3, w3)
               | (None, d3, w3) \<Rightarrow> configure_deployment q p d3 w3))"

definition empty_deployment :: "RateLimitServiceReconciler \<Rightarrow> DeploymentObject" where
  "empty_deployment r = \<lparr>d_Name = RateLimitName, d_Namespace = rr_Namespace r, d_Labels = None, d_Replicas = None, d_Selector = None,
     d_Strategy = '''', d_Template = zero_template\<rparr>"

definition getRedisSecret :: "'w rl_env \<Rightarrow> RateLimitServiceReconciler \<Rightarrow> 'w \<Rightarrow> err option \<times> SecretObject \<times> 'w" where
  "getRedisSecret env r w =
     k_Get (re_secrets env) \<lparr>so_Name = rr_RedisSecretName r, so_Namespace = rr_Namespace r, so_Type = '''', so_Data = []\<rparr> w"

definition current_limit :: "'w rl_env \<Rightarrow> RateLimitServiceReconciler \<Rightarrow> 'w \<Rightarrow> (err + string) \<times> 'w" where
  "current_limit env r w =
     (if is_mt r then
        (case getCurrentLimitPerTenant env r w of
           (Inl e, w1) \<Rightarrow> if \<not> IsNotFound (Some e) then (Inl e, w1) else (Inr '''', w1)
         | (Inr l, w1) \<Rightarrow> (Inr l, w1))
      else (Inr '''', w))"

definition reconcileDeployment ::
  "'w rl_env \<Rightarrow> RateLimitServiceReconciler \<Rightarrow> Quota option \<Rightarrow> QuotaProductConfig \<Rightarrow> 'w \<Rightarrow> (StatusPhase \<times> err option) \<times> 'w" where
  "reconcileDeployment env r q p w =
     (case getRedisSecret env r w of
        (Some e, sec, w1) \<Rightarrow> (if IsNotFound (Some e) then (PhaseAwaitingComponents, None) else (PhaseFailed, Some e), w1)
      | (None, sec, w1) \<Rightarrow>
          (case k_Get (re_deployments env) (empty_deployment r) w1 of
             (e, d, w2) \<Rightarrow>
               if e \<noteq> None \<and> \<not> IsNotFound e then ((PhaseFailed, e), w2)
               else (case current_limit env r w2 of
                       (Inl e, w3) \<Rightarrow> ((PhaseFailed, Some e), w3)
                     | (Inr limit, w3) \<Rightarrow>
                         (case CreateOrUpdate (re_deployments env) (=) (put_deployment env r limit (gget '''' (so_Data sec) ''URL'') q p) d w3 of
                            ((res, Some e), d4, w4) \<Rightarrow> ((PhaseFailed, Some e), w4)
                          | ((res, None), d4, w4) \<Rightarrow> ((PhaseCompleted, None), w4)))))"

section \<open>The service\<close>

definition put_service :: "ServiceObject \<Rightarrow> ServiceObject" where
  "put_service s = s\<lparr>sv_Labels := Some (gset ''app'' RateLimitName (case sv_Labels s of None \<Rightarrow> [] | Some l \<Rightarrow> l)),
     sv_Ports := [(''http'', ''TCP'', 8080, 8080), (''grpc'', ''TCP'', 8081, 8081)], sv_Selector := [(''app'', RateLimitName)]\<rparr>"

definition reconcileService :: "'w rl_env \<Rightarrow> RateLimitServiceReconciler \<Rightarrow> 'w \<Rightarrow> (StatusPhase \<times> err option) \<times> 'w" where
  "reconcileService env r w =
     (case CreateOrUpdate (re_services env) (=) (pure_op put_service)
        \<lparr>sv_Name = RateLimitName, sv_Namespace = rr_Namespace r, sv_Labels = None, sv_Ports = [], sv_Selector = []\<rparr> w of
        ((res, Some e), s, w') \<Rightarrow> ((PhaseFailed, Some e), w')
      | ((res, None), s, w') \<Rightarrow> ((PhaseCompleted, None), w'))"

definition ReconcileRateLimitService ::
  "'w rl_env \<Rightarrow> RateLimitServiceReconciler \<Rightarrow> Quota option \<Rightarrow> QuotaProductConfig \<Rightarrow> 'w \<Rightarrow> (StatusPhase \<times> err option) \<times> 'w" where
  "ReconcileRateLimitService env r q p w =
     (case reconcileConfigMap env r w of
        ((phase, Some e), w1) \<Rightarrow> ((phase, Some e), w1)
      | ((phase, None), w1) \<Rightarrow>
          (case reconcileDeployment env r q p w1 of
             ((phase2, e2), w2) \<Rightarrow>
               if phase2 \<noteq> PhaseCompleted then ((phase2, e2), w2)
               else (case reconcileService env r w2 of
                       ((phase3, e3), w3) \<Rightarrow>
                         if phase3 \<noteq> PhaseCompleted then ((phase3, e3), w3) else ((PhaseCompleted, None), w3))))"

lemmas rate_limit_defs [go_defs] = getUnitInSeconds_def GetSecondsInUnit_def getLimitPerTenant_def parse_limit_def
  getLimitPerTenantFromConfigMap_def getRHOAMLimitadorSetting_def getMultitenantRHOAMLimitadorSetting_def getLimitadorSetting_def
  put_limits_def reconcileConfigMap_def uniqueKey_def put_deployment_def reconcileDeployment_def reconcileService_def
  ReconcileRateLimitService_def

section \<open>Properties of the limits\<close>

text \<open>The two conversions of the unit are inverse to each other.\<close>

lemma unit_seconds: "getUnitInSeconds u = Inr s \<longleftrightarrow> GetSecondsInUnit s = Inr u"
  by (auto simp: getUnitInSeconds_def GetSecondsInUnit_def)

text \<open>
  The limit of one tenant: at least 200 requests; from 40000 requests on it is the share of one of 200 tenants, so that
  all of them together stay within the limit of the service. Below, they do not: the floor of 200 wins.
\<close>

theorem getLimitPerTenant_bounds:
  shows "200 \<le> unat (getLimitPerTenant r) \<and>
    (40000 \<le> unat (RequestsPerUnit (rr_Config r)) \<longrightarrow>
       200 * unat (getLimitPerTenant r) \<le> unat (RequestsPerUnit (rr_Config r)) \<and>
       unat (RequestsPerUnit (rr_Config r)) < 200 * (unat (getLimitPerTenant r) + 1)) \<and>
    (unat (RequestsPerUnit (rr_Config r)) < 40000 \<longrightarrow> getLimitPerTenant r = 200)"
proof -
  let ?n = "RequestsPerUnit (rr_Config r)"
  have d: "unat (?n div 200) = unat ?n div 200" by (simp add: unat_div_distrib)
  show ?thesis
    by (auto simp: getLimitPerTenant_def Let_def word_less_nat_alt word_le_nat_alt d not_less)
qed

text \<open>A limit that is read back is what is stored: a number that fits, never a truncated one.\<close>

lemma parse_limit_exact:
  "parse_limit cm = Inr l \<Longrightarrow> Atoi (gget '''' (case rc_Data cm of None \<Rightarrow> [] | Some d \<Rightarrow> d) multitenantRateLimit) = Some (uint l)"
  by (auto simp: parse_limit_def Let_def uint_word_of_int split: option.splits if_splits)

lemma Atoi_Itoa_uint: "Atoi (Itoa (uint (l :: 32 word))) = Some (uint l)"
proof (rule Atoi_Itoa)
  show "- (2 ^ 63) \<le> uint l" by (rule order_trans [of _ 0]) simp_all
  show "uint l < 2 ^ 63" by (rule less_le_trans [OF uint_lt2p]) simp
qed

lemma parse_put_limit:
  "parse_limit (cm\<lparr>rc_Data := Some (gset multitenantRateLimit (Itoa (uint (l :: 32 word))) d)\<rparr>) = Inr l"
proof -
  show ?thesis using uint_lt2p [of l] by (simp add: parse_limit_def Atoi_Itoa_uint)
qed

text \<open>
  The limit of a tenant is fixed at its first use: a ConfigMap that is there decides, whatever the quota says; only without
  one is it computed from the quota and stored.
\<close>

lemma tenant_limit_set_once:
  assumes "k_Get (re_configMaps env) (tenant_map r) w = (None, cm, w1)"
  shows "getLimitPerTenantFromConfigMap env r w = (parse_limit cm, w1)"
  using assms by (simp add: getLimitPerTenantFromConfigMap_def)

lemma tenant_limit_created:
  assumes st: "stores (re_configMaps env)" and none: "k_Get (re_configMaps env) (tenant_map r) w = (Some (ApiErr NotFound m), cm, w1)"
    and key: "\<And>c d. k_Key (re_configMaps env) (c\<lparr>rc_Data := d\<rparr>) = k_Key (re_configMaps env) c"
    and run: "getLimitPerTenantFromConfigMap env r w = (Inr l, w')"
  shows "l = getLimitPerTenant r"
proof -
  have g: "k_Get (re_configMaps env) (cm\<lparr>rc_Data := Some []\<rparr>) w1 = (e, x, u) \<Longrightarrow> e \<noteq> None \<and> x = cm\<lparr>rc_Data := Some []\<rparr> \<and> u = w1" for e x u
    using none st key [where c = cm and d = "Some []"] stores_get(2) [OF st none] unfolding stores_def reads_by_key_def
    by (cases e) (metis option.distinct(1) prod.inject)+
  obtain res e2 cm2 w2 where cu:
    "CreateOrUpdate (re_configMaps env) (=) (put_tenant_limit r) (cm\<lparr>rc_Data := Some []\<rparr>) w1 = ((res, e2), cm2, w2)"
    by (metis surj_pair)
  then have e2: "e2 = None" and p: "parse_limit cm2 = Inr l"
    using run none by (auto simp: getLimitPerTenantFromConfigMap_def split: option.splits)
  have "\<exists>e x. k_Get (re_configMaps env) (cm\<lparr>rc_Data := Some []\<rparr>) w1 = (e, x, w1) \<and> (e = None \<or> IsNotFound e) \<and>
      put_tenant_limit r x w1 = (None, cm2, w1) \<and> (e = None \<and> x = cm2 \<and> w2 = w1 \<or>
      k_Get (re_configMaps env) (cm\<lparr>rc_Data := Some []\<rparr>) w2 = (None, cm2, w2))"
    by (rule CreateOrUpdate_succeeds [OF st cu [unfolded e2]]) (auto simp: put_tenant_limit_def split: option.splits)
  then have "put_tenant_limit r (cm\<lparr>rc_Data := Some []\<rparr>) w1 = (None, cm2, w1)" using g by blast
  then have "cm2 = cm\<lparr>rc_Data := Some (gset multitenantRateLimit (Itoa (uint (getLimitPerTenant r))) [])\<rparr>"
    by (simp add: put_tenant_limit_def)
  then show ?thesis using p parse_put_limit [of "getLimitPerTenant r" "[]" cm] by simp
qed

section \<open>What a completed run leaves\<close>

text \<open>
  The file the service reads its limits from is the entry of the ConfigMap the limits are written to, mounted where the
  service looks for it; the pods carry the label the deployment and the service select.
\<close>

definition wired :: "string \<Rightarrow> DeploymentObject \<Rightarrow> bool" where
  "wired file d \<longleftrightarrow>
     (\<exists>c cs mount vol. pt_Containers (d_Template d) = Some (c # cs) \<and>
        map_of (ct_Env c) ''LIMITS_FILE'' = Some (mount @ ''/'' @ file) \<and> (mount, vol) \<in> set (ct_VolumeMounts c) \<and>
        (vol, RateLimitingConfigMapName, [(RateLimitingConfigMapDataName, file)]) \<in> set (pt_Volumes (d_Template d)) \<and>
        d_Selector d = pt_Labels (d_Template d) \<and> pt_Labels (d_Template d) = Some (sv_Selector (put_service undefined)))"

lemma SetPodTemplate_deployment:
  "SetPodTemplate deployment_access m d w = (fst (m (d_Labels d) (d_Template d)), d\<lparr>d_Template := snd (m (d_Labels d) (d_Template d))\<rparr>, w)"
  by (simp add: SetPodTemplate_def deployment_access_def split: prod.split)

lemma put_deployment_world: "put_deployment env r l url q p d w = (e, d', w') \<Longrightarrow> w' = w"
  by (auto simp: put_deployment_def SetPodTemplate_deployment configure_deployment_def Let_def
      split: if_splits prod.splits option.splits sum.splits workload.splits)

lemma configure_deployment_wired:
  assumes "configure_deployment q p d w = (None, d', w')" and "wired file d"
  shows "wired file d'"
proof -
  obtain c cs where cs: "pt_Containers (d_Template d) = Some (c # cs)" using assms(2) by (auto simp: wired_def)
  from assms cs show ?thesis
    by (auto simp: configure_deployment_def Configure_def mutatePodTemplate_def Let_def wired_def split: option.splits) blast
qed

text \<open>The deployment as it is before the quota is applied.\<close>

definition prepared :: "'w rl_env \<Rightarrow> RateLimitServiceReconciler \<Rightarrow> string \<Rightarrow> string \<Rightarrow> DeploymentObject \<Rightarrow> DeploymentObject" where
  "prepared env r l url d =
     d\<lparr>d_Labels := Some (gset ''app'' RateLimitName (case d_Labels d of None \<Rightarrow> [] | Some ls \<Rightarrow> ls)),
       d_Selector := Some [(''app'', RateLimitName)], d_Strategy := ''Recreate'',
       d_Template := (rl_template (PriorityClassName (Spec (rr_Installation r))) url (limits_file env r l)
           (case pt_Containers (d_Template d) of None \<Rightarrow> [zero_container] | Some cs \<Rightarrow> cs) (d_Template d))
         \<lparr>pt_TopologySpreadConstraints :=
            [\<lparr>ts_MaxSkew = 1, ts_TopologyKey = AZ_ZoneLabel, ts_WhenUnsatisfiable = ''ScheduleAnyway'', ts_MatchLabels = [(''app'', RateLimitName)]\<rparr>],
          pt_Affinity := Some (SelectAntiAffinityForCluster (IsAntiAffinityRequired (re_lookupEnv env) = Inr True) [(''app'', RateLimitName)])\<rparr>\<rparr>"

lemma put_deployment_prepared:
  "put_deployment env r l url q p d w = (None, d', w') \<Longrightarrow> configure_deployment q p (prepared env r l url d) w = (None, d', w')"
  by (simp add: put_deployment_def SetPodTemplate_deployment multi_az_mutations prepared_def Let_def del: AllMutationsOf.simps split: if_splits)

lemma prepared_wired: "wired (limits_file env r l) (prepared env r l url d)"
  by (simp add: wired_def prepared_def rl_template_def rl_container_def put_service_def)

lemma put_deployment_wired: "put_deployment env r l url q p d w = (None, d', w') \<Longrightarrow> wired (limits_file env r l) d'"
  by (rule configure_deployment_wired [OF put_deployment_prepared prepared_wired])

lemma deployment_wired:
  assumes st: "stores (re_deployments env)"
    and run: "reconcileDeployment env r q p w = ((PhaseCompleted, None), w')"
  shows "\<exists>d limit. k_Get (re_deployments env) (empty_deployment r) w' = (None, d, w') \<and> wired (limits_file env r limit) d"
proof -
  obtain e sec w1 where sec: "getRedisSecret env r w = (e, sec, w1)" by (metis prod_cases3)
  obtain e2 d w2 where get: "k_Get (re_deployments env) (empty_deployment r) w1 = (e2, d, w2)" by (metis prod_cases3)
  obtain cl w3 where cl: "current_limit env r w2 = (cl, w3)" by fastforce
  obtain limit where lim: "cl = Inr limit"
    using run sec get cl by (cases cl) (auto simp: reconcileDeployment_def split: option.splits if_splits)
  let ?f = "put_deployment env r limit (gget '''' (so_Data sec) ''URL'') q p"
  obtain res d4 where cu: "CreateOrUpdate (re_deployments env) (=) ?f d w3 = ((res, None), d4, w')"
    using run sec get cl lim by (auto simp: reconcileDeployment_def split: option.splits if_splits prod.splits)
  have "\<exists>x e y. k_Key (re_deployments env) x = k_Key (re_deployments env) d \<and> k_Get (re_deployments env) x w3 = (e, y, w3) \<and>
      ?f x w3 = (None, d4, w3) \<and> k_Get (re_deployments env) d w' = (None, d4, w')"
    by (rule CreateOrUpdate_written [OF st cu]) (rule put_deployment_world)
  then obtain x where "?f x w3 = (None, d4, w3)" and g: "k_Get (re_deployments env) d w' = (None, d4, w')" by blast
  note w = put_deployment_wired [OF this(1)]
  have "k_Key (re_deployments env) (empty_deployment r) = k_Key (re_deployments env) d" using stores_get(2) [OF st get] by simp
  from stores_get(3) [OF st g refl this] w show ?thesis by blast
qed

text \<open>
  After a deployment of the rate limit service that completes, the deployment on the server reads the limits from the
  ConfigMap the limits are written to, under a name that depends on the limits.
\<close>

theorem reconcileDeployment_wired:
  assumes "stores (re_deployments env)"
    and "reconcileDeployment env r q p w = ((PhaseCompleted, None), w')"
  shows "\<exists>d limit. k_Get (re_deployments env) (empty_deployment r) w' = (None, d, w') \<and> wired (limits_file env r limit) d"
  using deployment_wired [OF assms] .

text \<open>The string that is hashed determines the limits it was made from.\<close>

lemma separated: "c \<notin> set a \<Longrightarrow> c \<notin> set b \<Longrightarrow> a @ c # s = b @ c # t \<Longrightarrow> a = b \<and> s = t"
  by (induction a arbitrary: b) (case_tac b; auto)+

lemma Itoa_no_slash: "CHR ''/'' \<notin> set (Itoa (uint (n :: 32 word)))"
proof -
  have "list_all is_digit (Itoa (uint n))" using Itoa_all_digits [of "uint n"] by simp
  moreover have "\<not> is_digit (CHR ''/'')" by code_simp
  ultimately show ?thesis by (auto simp: list_all_iff)
qed

lemma Itoa_inj: "Itoa (uint (m :: 32 word)) = Itoa (uint (n :: 32 word)) \<Longrightarrow> m = n"
  by (drule arg_cong [where f = Atoi]) (simp add: Atoi_Itoa_uint word_uint_eq_iff)

definition key_string :: "RateLimitServiceReconciler \<Rightarrow> string \<Rightarrow> string" where
  "key_string r limit = Unit (rr_Config r) @ ''/'' @ Itoa (uint (RequestsPerUnit (rr_Config r))) @ (if is_mt r then ''/'' @ limit else '''')"

lemma limits_file_key: "limits_file env r limit = ''apicast-ratelimiting-'' @ re_sha256 env (key_string r limit) @ ''.yaml''"
  by (simp add: limits_file_def uniqueKey_def key_string_def Let_def)

lemma key_string_inj:
  assumes "key_string r l = key_string r' l'" and "is_mt r = is_mt r'"
    and "CHR ''/'' \<notin> set (Unit (rr_Config r))" and "CHR ''/'' \<notin> set (Unit (rr_Config r'))"
  shows "rr_Config r = rr_Config r' \<and> (is_mt r \<longrightarrow> l = l')"
proof -
  let ?s = "\<lambda>r l. Itoa (uint (RequestsPerUnit (rr_Config r))) @ (if is_mt r then ''/'' @ l else '''')"
  have s: "Unit (rr_Config r) = Unit (rr_Config r') \<and> ?s r l = ?s r' l'"
    using assms(1) by (intro separated [OF assms(3,4)]) (simp add: key_string_def)
  then have "RequestsPerUnit (rr_Config r) = RequestsPerUnit (rr_Config r') \<and> (is_mt r \<longrightarrow> l = l')"
  proof (cases "is_mt r")
    case True
    with s assms(2) have "Itoa (uint (RequestsPerUnit (rr_Config r))) @ CHR ''/'' # l = Itoa (uint (RequestsPerUnit (rr_Config r'))) @ CHR ''/'' # l'"
      by simp
    from separated [OF Itoa_no_slash Itoa_no_slash this] show ?thesis using Itoa_inj by blast
  next
    case False
    with s assms(2) have "Itoa (uint (RequestsPerUnit (rr_Config r))) = Itoa (uint (RequestsPerUnit (rr_Config r')))" by simp
    then show ?thesis using Itoa_inj False by blast
  qed
  with s show ?thesis by (metis RateLimitConfig.equality old.unit.exhaust)
qed

text \<open>
  A change of the limits replaces the pods: unless the hash collides, deployments for different limits read files of
  different names, so that the template differs whenever the limits do.
\<close>

theorem limits_change_renames_file:
  assumes "re_sha256 env (key_string r l) = re_sha256 env (key_string r' l') \<Longrightarrow> key_string r l = key_string r' l'"
    and "is_mt r = is_mt r'" and "getUnitInSeconds (Unit (rr_Config r)) = Inr s" and "getUnitInSeconds (Unit (rr_Config r')) = Inr s'"
  shows "limits_file env r l = limits_file env r' l' \<longleftrightarrow> rr_Config r = rr_Config r' \<and> (is_mt r \<longrightarrow> l = l')"
proof -
  have u: "CHR ''/'' \<notin> set u" if "getUnitInSeconds u = Inr x" for u x
    using that by (auto simp: getUnitInSeconds_def split: if_splits)
  show ?thesis
    using assms key_string_inj [of r l r' l'] u [OF assms(3)] u [OF assms(4)]
    by (auto simp: limits_file_key key_string_def)
qed

section \<open>Witnesses\<close>

definition deployment_key :: "DeploymentObject \<Rightarrow> string \<times> string" where
  "deployment_key d = (d_Namespace d, d_Name d)"

definition sample_rl_env :: "DeploymentObject option rl_env" where
  "sample_rl_env = \<lparr>re_configMaps = empty_api,
     re_secrets = \<lparr>k_Get = (\<lambda>s w. (None, s\<lparr>so_Data := [(''URL'', ''redis:6379'')]\<rparr>, w)), k_Create = (\<lambda>s w. (None, s, w)),
       k_Update = (\<lambda>s w. (None, s, w)), k_Patch = (\<lambda>s w. (None, s, w)), k_Delete = (\<lambda>s w. (None, w)), k_Key = (\<lambda>s. (so_Namespace s, so_Name s))\<rparr>,
     re_deployments = sample_api deployment_key, re_services = empty_api, re_yaml = (\<lambda>l. Inr ''limits''), re_sha256 = (\<lambda>s. s),
     re_lookupEnv = (\<lambda>s. None)\<rparr>"

definition sample_rl :: "32 word \<Rightarrow> RateLimitServiceReconciler" where
  "sample_rl n = \<lparr>rr_Namespace = ''marin3r'', rr_RedisSecretName = ''redis'', rr_Installation = zero_rhmi,
     rr_Config = \<lparr>Unit = ''minute'', RequestsPerUnit = n\<rparr>\<rparr>"

theorem limits_change_renames_file_witness:
  "limits_file sample_rl_env (sample_rl 100) '''' \<noteq> limits_file sample_rl_env (sample_rl 200) ''''"
  using limits_change_renames_file [of sample_rl_env "sample_rl 100" "''''" "sample_rl 200" "''''" 60 60]
  by (simp add: sample_rl_def sample_rl_env_def getUnitInSeconds_def is_mt_def)

lemma sample_deployed:
  "fst (reconcileDeployment sample_rl_env (sample_rl 100) (Some zero_quota) \<lparr>pc_productName = ProductMarin3r, pc_resourceConfigs = []\<rparr> None) =
     (PhaseCompleted, None)"
  by code_simp

theorem reconcileDeployment_wired_witness:
  "\<exists>d limit. k_Get (re_deployments sample_rl_env) (empty_deployment (sample_rl 100))
       (snd (reconcileDeployment sample_rl_env (sample_rl 100) (Some zero_quota) \<lparr>pc_productName = ProductMarin3r, pc_resourceConfigs = []\<rparr> None)) =
     (None, d, snd (reconcileDeployment sample_rl_env (sample_rl 100) (Some zero_quota) \<lparr>pc_productName = ProductMarin3r, pc_resourceConfigs = []\<rparr> None)) \<and>
     wired (limits_file sample_rl_env (sample_rl 100) limit) d"
proof (rule reconcileDeployment_wired)
  show "stores (re_deployments sample_rl_env)" by (simp add: sample_rl_env_def stores_sample_api)
qed (rule prod_eqI, simp_all only: sample_deployed fst_conv snd_conv)

end
