(* ===== verification/Product_Steps.thy ===== *)
theory Product_Steps
  imports Resource_Helpers Uninstall
begin

text \<open>
  What the \<^verbatim>\<open>Reconcile\<close> methods of the products have in common: a sequence of steps, each of which answers a phase and an
  error, and of which the first that does not complete ends the reconcile.
\<close>

type_synonym 'w phase_op = "'w \<Rightarrow> (StatusPhase \<times> err option) \<times> 'w"

section \<open>Sequences of steps\<close>

text \<open>A step that does not complete, or fails, is the last one.\<close>

fun run_must :: "'w phase_op list \<Rightarrow> 'w phase_op" where
  "run_must [] w = ((PhaseCompleted, None), w)"
| "run_must (f # fs) w =
     (case f w of ((phase, e), w') \<Rightarrow> if e \<noteq> None \<or> phase \<noteq> PhaseCompleted then ((phase, e), w') else run_must fs w')"

text \<open>A step whose caller goes on unless it failed, or unless it waits for components.\<close>

definition unless_failed :: "'w phase_op \<Rightarrow> 'w phase_op" where
  "unless_failed f w =
     (case f w of ((phase, e), w') \<Rightarrow> (if e \<noteq> None \<or> phase = PhaseFailed then (phase, e) else (PhaseCompleted, None), w'))"

definition unless_awaiting :: "'w phase_op \<Rightarrow> 'w phase_op" where
  "unless_awaiting f w =
     (case f w of
        ((phase, Some e), w') \<Rightarrow> ((PhaseFailed, Some e), w')
      | ((phase, None), w') \<Rightarrow> ((if phase = PhaseAwaitingComponents then phase else PhaseCompleted, None), w'))"

definition with_alerts :: "'w alert_env \<Rightarrow> ('w \<Rightarrow> err + AlertReconcilerImpl) \<Rightarrow> 'w phase_op" where
  "with_alerts al mk w =
     (case mk w of Inl e \<Rightarrow> ((PhaseFailed, Some e), w) | Inr ar \<Rightarrow> ReconcileAlerts al ar w)"

text \<open>A call that answers an error only, as a step; and the loops of the clean-ups, which stop at the first error, of whatever reason.\<close>

definition or_fail :: "('w \<Rightarrow> err option \<times> 'w) \<Rightarrow> 'w phase_op" where
  "or_fail f w = (case f w of (Some e, w') \<Rightarrow> ((PhaseFailed, Some e), w') | (None, w') \<Rightarrow> ((PhaseCompleted, None), w'))"

fun delete_every :: "('o \<Rightarrow> 'w \<Rightarrow> err option \<times> 'w) \<Rightarrow> 'o list \<Rightarrow> 'w \<Rightarrow> err option \<times> 'w" where
  "delete_every del [] w = (None, w)"
| "delete_every del (x # xs) w = (case del x w of (Some e, w') \<Rightarrow> (Some e, w') | (None, w') \<Rightarrow> delete_every del xs w')"

definition delete_listed :: "('w \<Rightarrow> err + 'o list) \<Rightarrow> ('o \<Rightarrow> 'w \<Rightarrow> err option \<times> 'w) \<Rightarrow> 'w phase_op" where
  "delete_listed ls del w =
     (case ls w of Inl e \<Rightarrow> ((PhaseFailed, Some e), w) | Inr xs \<Rightarrow> or_fail (delete_every del xs) w)"

text \<open>The clean-up of a namespace, unless it is known to be gone.\<close>

definition unless_gone :: "(string \<Rightarrow> 'w \<Rightarrow> (err + bool) \<times> 'w) \<Rightarrow> string \<Rightarrow> 'w phase_op \<Rightarrow> 'w phase_op" where
  "unless_gone getns n f w =
     (case getns n w of
        (Inl e, w1) \<Rightarrow> if IsNotFound (Some e) then ((PhaseCompleted, None), w1) else f w1
      | (Inr t, w1) \<Rightarrow> f w1)"

lemmas step_defs [go_defs] = unless_failed_def unless_awaiting_def with_alerts_def

section \<open>Lemmas on sequences\<close>

lemma run_must_completed_iff:
  "run_must (f # fs) w = ((PhaseCompleted, None), w') \<longleftrightarrow>
     (\<exists>w1. f w = ((PhaseCompleted, None), w1) \<and> run_must fs w1 = ((PhaseCompleted, None), w'))"
  by (auto split: prod.splits if_splits)

lemma run_must_each:
  assumes "run_must fs w = ((PhaseCompleted, None), w')" and "f \<in> set fs"
  shows "\<exists>v v'. f v = ((PhaseCompleted, None), v')"
  using assms by (induction fs arbitrary: w) (auto split: prod.splits if_splits)

lemma run_must_append:
  "run_must (fs @ gs) w = (case run_must fs w of ((phase, e), w') \<Rightarrow>
     if e \<noteq> None \<or> phase \<noteq> PhaseCompleted then ((phase, e), w') else run_must gs w')"
  by (induction fs arbitrary: w) (auto split: prod.splits if_splits)

lemma RemoveNamespace_completed:
  "RemoveNamespace getns del n w = ((PhaseCompleted, None), w') \<Longrightarrow>
     (case getns n w of (Inl e, v) \<Rightarrow> IsNotFound (Some e) \<or> IsForbidden (Some e) | (Inr terminating, v) \<Rightarrow> terminating)"
  by (auto simp: RemoveNamespace_def Let_def split: prod.splits sum.splits if_splits)

end
