(* ===== verification/Marin3r_Reconciler.thy ===== *)
theory Marin3r_Reconciler
  imports Rate_Limit Product_Steps
begin

text \<open>
  A product reconciler in full: marin3r (\<^verbatim>\<open>pkg/products/marin3r/reconciler.go\<close>), on top of the base reconciler, the
  backup executors, the finalizers and the rate limit service. What it calls outside these (the client of the cloud
  resource operator, the alerts on Redis, the configuration of the alerts, the console of Grafana) is a parameter.
\<close>

section \<open>Environment\<close>

record DiscoveryService =
  ds_Name :: string
  ds_Namespace :: string
  ds_PodPriorityClass :: "string option"

record ServiceMonitor =
  sm_Name :: string
  sm_Namespace :: string
  sm_Labels :: "(string, string) gomap"
  sm_Ports :: "string list"
  sm_Selector :: "(string, string) gomap"

text \<open>A Redis as the cloud resource operator leaves it: its phase and the secret with its address.\<close>

record RedisStatus =
  rs_Phase :: string
  rs_SecretName :: string
  rs_SecretNamespace :: string

record ('o, 'w) marin3r_env =
  mn_base :: "'w base_env"
  mn_backup :: "'w backup_env"
  mn_drift :: "'w \<Rightarrow> 'w"
  mn_polls :: nat
  mn_rl :: "'w rl_env"
  mn_update :: "'w update_fn"
  mn_getns :: "string \<Rightarrow> 'w \<Rightarrow> (err + bool) \<times> 'w"
  mn_delns :: "string \<Rightarrow> 'w \<Rightarrow> err option \<times> 'w"
  mn_ListEnvoyConfigs :: "string \<Rightarrow> 'w \<Rightarrow> err + 'o list"
  mn_DeleteEnvoyConfig :: "'o \<Rightarrow> 'w \<Rightarrow> err option \<times> 'w"
  mn_discovery :: "(DiscoveryService, 'w) kind_api"
  mn_monitors :: "(ServiceMonitor, 'w) kind_api"
  mn_limitRanges :: "(LimitRange, 'w) kind_api"
  mn_quantity :: "string \<Rightarrow> Quantity"
  mn_ReadThreeScale :: "'w \<Rightarrow> err + ThreeScale"
  mn_GetAlertConfig :: "string \<Rightarrow> 'w \<Rightarrow> err option"
  mn_GetPostgres :: "string \<Rightarrow> string \<Rightarrow> 'w \<Rightarrow> err + string"
  mn_GetRedis :: "string \<Rightarrow> string \<Rightarrow> 'w \<Rightarrow> err + string \<times> string"
  mn_ReconcileRedis :: "string \<Rightarrow> string \<Rightarrow> string \<Rightarrow> string \<Rightarrow> 'w \<Rightarrow> (err + RedisStatus) \<times> 'w"
  mn_RedisAlerts :: "RHMI \<Rightarrow> RedisStatus \<Rightarrow> 'w \<Rightarrow> (StatusPhase \<times> err option) \<times> 'w"
  mn_RedisCpuAlerts :: "RHMI \<Rightarrow> RedisStatus \<Rightarrow> 'w \<Rightarrow> err option \<times> 'w"
  mn_alerts :: "'w alert_env"
  mn_productAlerts :: "RHMI \<Rightarrow> AlertReconcilerImpl"
  mn_usageAlerts :: "RHMI \<Rightarrow> string \<Rightarrow> 'w \<Rightarrow> err + AlertReconcilerImpl"
  mn_rejectedAlerts :: "RHMI \<Rightarrow> 'w \<Rightarrow> err + AlertReconcilerImpl"
  mn_GrafanaConsoleURL :: "RHMI \<Rightarrow> 'w \<Rightarrow> err + string"
  mn_uid :: string
  mn_operatorNamespace :: string

text \<open>The reconciler: its configuration and the declaration of the product.\<close>

record Marin3rReconciler =
  mx_Config :: Marin3r
  mx_Declaration :: ProductDeclaration

section \<open>Construction\<close>

definition marin3r_config :: "RHMI \<Rightarrow> Marin3r \<Rightarrow> Marin3r" where
  "marin3r_config inst c =
     (let c1 = Marin3r_SetNamespace c (NamespacePrefix (Spec inst) @ ''marin3r'') in
      Marin3r_SetOperatorNamespace c1
        (if OperatorsInProductNamespace (Spec inst) then Marin3r_GetNamespace c1 else Marin3r_GetNamespace c1 @ ''-operator''))"

definition NewMarin3rReconciler ::
  "(string \<Rightarrow> err + ProductConfig) \<Rightarrow> (ProductName \<Rightarrow> ProductConfig \<Rightarrow> Manager \<Rightarrow> 'w \<Rightarrow> err option \<times> Manager \<times> 'w) \<Rightarrow>
   RHMI \<Rightarrow> ProductDeclaration option \<Rightarrow> Manager \<Rightarrow> 'w \<Rightarrow> (err + Marin3rReconciler) \<times> Manager \<times> 'w" where
  "NewMarin3rReconciler decode write inst decl m w =
     (case decl of
        None \<Rightarrow> (Inl (Msg ''no product declaration found for marin3r''), m, w)
      | Some d \<Rightarrow>
          (case ReadMarin3r decode m of
             Inl e \<Rightarrow> (Inl (Wrap ''could not retrieve threescale config'' e), m, w)
           | Inr c \<Rightarrow>
               (let c' = marin3r_config inst c in
                case write ProductMarin3r (Marin3r_Read c') m w of
                  (Some e, m1, w1) \<Rightarrow> (Inl (Wrap ''error writing marin3r config '' e), m1, w1)
                | (None, m1, w1) \<Rightarrow> (Inr \<lparr>mx_Config = c', mx_Declaration = d\<rparr>, m1, w1))))"

definition Marin3r_VerifyVersion :: "RHMI \<Rightarrow> bool" where
  "Marin3r_VerifyVersion inst =
     (let p = gget zero_product (s_Products (GetInstallStage inst)) ProductMarin3r
      in OperatorVersionMarin3r = p_OperatorVersion p \<and> VersionMarin3r = p_Version p)"

section \<open>Steps\<close>

definition preUpgradeBackupExecutor :: "RHMI \<Rightarrow> executor" where
  "preUpgradeBackupExecutor inst =
     (if UseClusterStorage (Spec inst) \<noteq> ''false'' then NoopBackup
      else AWSBackup (Namespace inst) (''ratelimit-service-redis-'' @ Name inst) RedisSnapshotType)"

definition marin3r_subscription :: "('o, 'w) marin3r_env \<Rightarrow> Marin3rReconciler \<Rightarrow> RHMI \<Rightarrow> string \<Rightarrow> 'w phase_op" where
  "marin3r_subscription env r inst operatorNamespace w =
     (case PrepareTarget (mx_Declaration r) ''rhmi-registry-cs''
             \<lparr>t_Namespace = operatorNamespace, t_SubscriptionName = ''rhmi-marin3r'', t_Package = '''', t_Channel = ''''\<rparr> of
        Inl e \<Rightarrow> ((PhaseFailed, Some e), w)
      | Inr (csr, target) \<Rightarrow>
          (case ReconcileSubscription
                  ((mn_base env)\<lparr>br_Backup := PerformBackup (mn_backup env) (mn_drift env) (preUpgradeBackupExecutor inst) (mn_polls env)\<rparr>)
                  target [] csr w of
             (res, csr', w') \<Rightarrow> (res, w')))"

definition deleteDiscoveryService :: "('o, 'w) marin3r_env \<Rightarrow> 'w \<Rightarrow> err option \<times> 'w" where
  "deleteDiscoveryService env w =
     (case mn_ReadThreeScale env w of
        Inl e \<Rightarrow> (Some (Wrap ''could not read 3scale config from marin3r reconciler'' e), w)
      | Inr ts \<Rightarrow>
          (case k_Get (mn_discovery env) \<lparr>ds_Name = ''instance'', ds_Namespace = ThreeScale_GetNamespace ts, ds_PodPriorityClass = None\<rparr> w of
             (Some e, d, w1) \<Rightarrow> if IsNotFound (Some e) then (None, w1) else (Some e, w1)
           | (None, d, w1) \<Rightarrow> k_Delete (mn_discovery env) d w1))"

definition reconcileDiscoveryService :: "('o, 'w) marin3r_env \<Rightarrow> RHMI \<Rightarrow> 'w phase_op" where
  "reconcileDiscoveryService env inst w =
     (case mn_ReadThreeScale env w of
        Inl e \<Rightarrow> ((PhaseFailed, Some (Wrap ''could not read 3scale config from marin3r reconciler'' e)), w)
      | Inr ts \<Rightarrow>
          (case CreateOrUpdate (mn_discovery env) (=)
                  (pure_op (\<lambda>d. d\<lparr>ds_PodPriorityClass := Some (PriorityClassName (Spec inst))\<rparr>))
                  \<lparr>ds_Name = ''instance'', ds_Namespace = ThreeScale_GetNamespace ts, ds_PodPriorityClass = None\<rparr> w of
             ((res, e), d, w') \<Rightarrow>
               (if e \<noteq> None \<and> \<not> IsAlreadyExists e then (PhaseFailed, Some (Wrap ''error reconciling resource'' (the e)))
                else (PhaseCompleted, None), w')))"

text \<open>The secret with the address of the Redis; the source writes into its data unguarded, which is taken not to be nil.\<close>

definition put_url :: "string \<Rightarrow> SecretObject \<Rightarrow> SecretObject" where
  "put_url conn s = s\<lparr>so_Data := gset ''URL'' conn (so_Data s)\<rparr>"

definition reconcileRedis :: "('o, 'w) marin3r_env \<Rightarrow> Marin3rReconciler \<Rightarrow> RHMI \<Rightarrow> 'w phase_op" where
  "reconcileRedis env r inst w =
     (let ns = Namespace inst; redisName = ''ratelimit-service-redis-'' @ Name inst in
      case RedisEngineForReconcile (mn_GetRedis env redisName ns w) of
        Inl e \<Rightarrow> ((PhaseInProgress, Some (Wrap ''failed to read existing rate limit redis CR'' e)), w)
      | Inr (engine, version) \<Rightarrow>
          (case mn_ReconcileRedis env redisName ns engine version w of
             (Inl e, w1) \<Rightarrow> ((PhaseFailed, Some (Wrap ''failed to reconcile backend redis request'' e)), w1)
           | (Inr redis, w1) \<Rightarrow>
               if rs_Phase redis \<noteq> ''complete'' then ((PhaseAwaitingComponents, None), w1)
               else
                 (case k_Get (br_secrets (mn_base env)) \<lparr>so_Name = rs_SecretName redis, so_Namespace = rs_SecretNamespace redis, so_Type = '''', so_Data = []\<rparr> w1 of
                    (Some e, cred, w2) \<Rightarrow> ((PhaseFailed, Some (Wrap ''failed to get system redis credential secret'' e)), w2)
                  | (None, cred, w2) \<Rightarrow>
                      (case CreateOrUpdate (br_secrets (mn_base env)) (=)
                              (pure_op (put_url (gget '''' (so_Data cred) ''uri'' @ '':'' @ gget '''' (so_Data cred) ''port'')))
                              \<lparr>so_Name = ''redis'', so_Namespace = Marin3r_GetNamespace (mx_Config r), so_Type = '''', so_Data = []\<rparr> w2 of
                         ((res, Some e), s, w3) \<Rightarrow> ((PhaseFailed, Some (Wrap ''failed create or update redis secret'' e)), w3)
                       | ((res, None), s, w3) \<Rightarrow>
                           (case mn_RedisAlerts env inst redis w3 of
                              ((phase, Some e), w4) \<Rightarrow> ((PhaseFailed, Some (Wrap ''failed to reconcile redis alerts'' e)), w4)
                            | ((phase, None), w4) \<Rightarrow>
                                if phase \<noteq> PhaseCompleted then ((phase, None), w4)
                                else (case mn_RedisCpuAlerts env inst redis w4 of
                                        (Some e, w5) \<Rightarrow> ((PhaseFailed, Some (Msg (''failed to create rate limit redis prometheus Cpu usage high alerts for threescale: '' @ err_string e))), w5)
                                      | (None, w5) \<Rightarrow> ((phase, None), w5)))))))"

definition monitor_spec :: "ServiceMonitor \<Rightarrow> ServiceMonitor" where
  "monitor_spec m = m\<lparr>sm_Labels := [(''monitoring-key'', ''middleware'')], sm_Ports := [''http''], sm_Selector := [(''app'', RateLimitName)]\<rparr>"

definition reconcileServiceMonitor :: "('o, 'w) marin3r_env \<Rightarrow> string \<Rightarrow> 'w phase_op" where
  "reconcileServiceMonitor env namespace w =
     (case CreateOrUpdate (mn_monitors env) (=) (pure_op monitor_spec)
             \<lparr>sm_Name = RateLimitName, sm_Namespace = namespace, sm_Labels = [], sm_Ports = [], sm_Selector = []\<rparr> w of
        ((res, Some e), m, w') \<Rightarrow> ((PhaseFailed, Some e), w')
      | ((res, None), m, w') \<Rightarrow> ((PhaseCompleted, None), w'))"

text \<open>
  Grafana may not be there yet: without the product in the install stage, or while it is not completed and its route cannot
  be read. A stage without products is one whose map is nil.
\<close>

definition grafana_pending :: "RHMI \<Rightarrow> err \<Rightarrow> bool" where
  "grafana_pending inst e \<longleftrightarrow>
     (case map_of (stages_of inst) InstallStage of
        None \<Rightarrow> False
      | Some st \<Rightarrow>
          s_Products st \<noteq> [] \<and>
          (case map_of (s_Products st) ProductGrafana of
             None \<Rightarrow> True
           | Some p \<Rightarrow> p_Phase p \<noteq> PhaseCompleted \<and> (IsForbidden (Some e) \<or> IsNotFound (Some e))))"

definition marin3r_alerts :: "('o, 'w) marin3r_env \<Rightarrow> RHMI \<Rightarrow> 'w phase_op" where
  "marin3r_alerts env inst w =
     (if \<not> IsInProw inst then
        (case mn_GrafanaConsoleURL env inst w of
           Inl e \<Rightarrow> ((if grafana_pending inst e then (PhaseInProgress, None) else (PhaseFailed, Some e)), w)
         | Inr url \<Rightarrow>
             (case mn_usageAlerts env inst (url @ ''/d/66ab72e0d012aacf34f907be9d81cd9e/rate-limiting'') w of
                Inl e \<Rightarrow> ((PhaseFailed, Some e), w)
              | Inr ar \<Rightarrow> ReconcileAlerts (mn_alerts env) ar w))
      else ((PhaseCompleted, None), w))"

section \<open>\<^verbatim>\<open>Reconcile\<close>\<close>

text \<open>The clean-up: Envoy configurations first, then the discovery service, then the two namespaces.\<close>

definition marin3r_final :: "('o, 'w) marin3r_env \<Rightarrow> Marin3rReconciler \<Rightarrow> ThreeScale \<Rightarrow> 'w phase_op" where
  "marin3r_final env r ts =
     run_must
       [DeleteEnvoyConfigsInNamespaces (mn_ListEnvoyConfigs env) (mn_DeleteEnvoyConfig env) [ThreeScale_GetNamespace ts],
        (\<lambda>w. case deleteDiscoveryService env w of
               (Some e, w') \<Rightarrow> ((PhaseFailed, Some (Msg (''failed to delete discovery service: '' @ err_string e))), w')
             | (None, w') \<Rightarrow> ((PhaseCompleted, None), w')),
        RemoveNamespace (mn_getns env) (mn_delns env) (Marin3r_GetNamespace (mx_Config r)),
        RemoveNamespace (mn_getns env) (mn_delns env) (Marin3r_GetOperatorNamespace (mx_Config r))]"

definition rate_limit_reconciler :: "Marin3rReconciler \<Rightarrow> RHMI \<Rightarrow> RateLimitConfig \<Rightarrow> RateLimitServiceReconciler" where
  "rate_limit_reconciler r inst c =
     \<lparr>rr_Namespace = Marin3r_GetNamespace (mx_Config r), rr_RedisSecretName = ''redis'', rr_Installation = inst, rr_Config = c\<rparr>"

definition marin3r_steps ::
  "('o, 'w) marin3r_env \<Rightarrow> Marin3rReconciler \<Rightarrow> RHMI \<Rightarrow> Quota \<Rightarrow> QuotaProductConfig \<Rightarrow> 'w phase_op list" where
  "marin3r_steps env r inst q p =
     (let operatorNamespace = Marin3r_GetOperatorNamespace (mx_Config r); productNamespace = Marin3r_GetNamespace (mx_Config r) in
      [(\<lambda>w. case mn_GetAlertConfig env (Namespace inst) w of Some e \<Rightarrow> ((PhaseFailed, Some e), w) | None \<Rightarrow> ((PhaseCompleted, None), w)),
       ReconcileNamespace (mn_base env) operatorNamespace (mn_uid env) inst,
       ReconcileNamespace (mn_base env) productNamespace (mn_uid env) inst,
       ReconcileLimitRange (mn_limitRanges env) (mn_quantity env) operatorNamespace DefaultLimitRangeParams,
       ReconcileLimitRange (mn_limitRanges env) (mn_quantity env) productNamespace DefaultLimitRangeParams,
       marin3r_subscription env r inst operatorNamespace,
       reconcileDiscoveryService env inst,
       unless_failed (\<lambda>w. case ReconcileCsvDeploymentsPriority (mn_base env) (''marin3r.v'' @ OperatorVersionMarin3r)
         operatorNamespace (PriorityClassName (Spec inst)) w of (res, csv, w') \<Rightarrow> (res, w')),
       (\<lambda>w. (WaitForRHSSOPostgresToBeComplete (mn_GetPostgres env) (Name inst) (mn_operatorNamespace env) w, w)),
       unless_awaiting (reconcileRedis env r inst),
       ReconcileRateLimitService (mn_rl env) (rate_limit_reconciler r inst (q_rateLimitConfig q)) (Some q) p,
       reconcileServiceMonitor env productNamespace,
       with_alerts (mn_alerts env) (\<lambda>w. Inr (mn_productAlerts env inst)),
       marin3r_alerts env inst,
       with_alerts (mn_alerts env) (mn_rejectedAlerts env inst)])"

definition Marin3r_Reconcile ::
  "('o, 'w) marin3r_env \<Rightarrow> Marin3rReconciler \<Rightarrow> RHMI \<Rightarrow> RHMIProductStatus \<Rightarrow> Quota \<Rightarrow> QuotaProductConfig \<Rightarrow> bool \<Rightarrow> 'w \<Rightarrow>
   ((StatusPhase \<times> err option) \<times> RHMI \<times> RHMIProductStatus \<times> 'w) option" where
  "Marin3r_Reconcile env r inst st q p uninstall w =
     (case mn_ReadThreeScale env w of
        Inl e \<Rightarrow> Some ((PhaseFailed, Some (Wrap ''could not read 3scale config from marin3r reconciler'' e)), inst, st, w)
      | Inr ts \<Rightarrow>
          (case ReconcileFinalizer (mn_update env) (\<lambda>i w. case marin3r_final env r ts w of (res, w') \<Rightarrow> (res, i, w'))
                  ProductMarin3r uninstall inst w of
             None \<Rightarrow> None
           | Some ((phase, e), inst1, w1) \<Rightarrow>
               if e \<noteq> None \<or> phase = PhaseFailed then Some ((phase, e), inst1, st, w1)
               else if uninstall then Some ((phase, None), inst1, st, w1)
               else (case run_must (marin3r_steps env r inst1 q p) w1 of
                       ((phase2, e2), w2) \<Rightarrow>
                         if e2 \<noteq> None \<or> phase2 \<noteq> PhaseCompleted then Some ((phase2, e2), inst1, st, w2)
                         else Some ((PhaseCompleted, None), inst1,
                                st\<lparr>p_Host := Marin3r_GetHost (mx_Config r), p_Version := Marin3r_GetProductVersion (mx_Config r),
                                   p_OperatorVersion := Marin3r_GetOperatorVersion (mx_Config r)\<rparr>, w2))))"

lemmas marin3r_defs [go_defs] = marin3r_config_def NewMarin3rReconciler_def preUpgradeBackupExecutor_def marin3r_subscription_def
  deleteDiscoveryService_def reconcileDiscoveryService_def reconcileRedis_def reconcileServiceMonitor_def marin3r_alerts_def
  marin3r_final_def marin3r_steps_def Marin3r_Reconcile_def

section \<open>Properties\<close>

lemma marin3r_final_waits:
  assumes "mn_ListEnvoyConfigs env (ThreeScale_GetNamespace ts) w = Inr os" and "os \<noteq> []"
  shows "\<exists>phase e. marin3r_final env r ts w = ((phase, e), snd (delete_all (mn_DeleteEnvoyConfig env) os w)) \<and> phase \<noteq> PhaseCompleted"
  using assms
  by (cases "delete_all (mn_DeleteEnvoyConfig env) os w"; cases "fst (delete_all (mn_DeleteEnvoyConfig env) os w)")
     (auto simp: marin3r_final_def DeleteEnvoyConfigsInNamespaces_def DeleteEnvoyConfigsInNamespace_def)

text \<open>
  Uninstalling marin3r while Envoy configurations are left in the namespace of 3scale: the reconciler requests the deletion
  of each of them and does nothing else. The discovery service and the two namespaces stay, the finalizer stays, and the
  phase is not completed, so the stage waits.
\<close>

theorem marin3r_uninstall_waits:
  assumes "mn_ReadThreeScale env w = Inr ts" and "product_finalizer ProductMarin3r \<in> set (Finalizers inst)"
    and "mn_ListEnvoyConfigs env (ThreeScale_GetNamespace ts) w = Inr os" and "os \<noteq> []"
  shows "\<exists>phase e. Marin3r_Reconcile env r inst st q p True w =
       Some ((phase, e), inst, st, snd (delete_all (mn_DeleteEnvoyConfig env) os w)) \<and> phase \<noteq> PhaseCompleted"
proof -
  obtain phase e where "marin3r_final env r ts w = ((phase, e), snd (delete_all (mn_DeleteEnvoyConfig env) os w))" "phase \<noteq> PhaseCompleted"
    using marin3r_final_waits [OF assms(3,4)] by blast
  with assms(1,2) show ?thesis by (auto simp: Marin3r_Reconcile_def ReconcileFinalizer_def Contains_iff)
qed

text \<open>
  A completed clean-up leaves no Envoy configuration in the namespace of 3scale and found both namespaces gone or
  terminating.
\<close>

lemma marin3r_final_completed:
  assumes "marin3r_final env r ts w = ((PhaseCompleted, None), w')"
  shows "mn_ListEnvoyConfigs env (ThreeScale_GetNamespace ts) w = Inr []"
    and "n \<in> {Marin3r_GetNamespace (mx_Config r), Marin3r_GetOperatorNamespace (mx_Config r)} \<Longrightarrow>
      \<exists>v. case mn_getns env n v of (Inl e, _) \<Rightarrow> IsNotFound (Some e) \<or> IsForbidden (Some e) | (Inr terminating, _) \<Rightarrow> terminating"
proof -
  show "mn_ListEnvoyConfigs env (ThreeScale_GetNamespace ts) w = Inr []"
    using assms unfolding marin3r_final_def run_must_completed_iff by (auto dest!: envoy_configs_gone)
  assume "n \<in> {Marin3r_GetNamespace (mx_Config r), Marin3r_GetOperatorNamespace (mx_Config r)}"
  then obtain v v' where "RemoveNamespace (mn_getns env) (mn_delns env) n v = ((PhaseCompleted, None), v')"
    using run_must_each [OF assms [unfolded marin3r_final_def], of "RemoveNamespace (mn_getns env) (mn_delns env) n"] by auto
  from RemoveNamespace_completed [OF this] show
      "\<exists>v. case mn_getns env n v of (Inl e, _) \<Rightarrow> IsNotFound (Some e) \<or> IsForbidden (Some e) | (Inr terminating, _) \<Rightarrow> terminating"
    by (intro exI)
qed

lemma reconcileDeployment_completed:
  "reconcileDeployment env r q p w = ((PhaseCompleted, e), w') \<Longrightarrow> e = None"
  by (auto simp: reconcileDeployment_def split: prod.splits option.splits if_splits sum.splits)

lemma rate_limit_deployed:
  assumes "ReconcileRateLimitService env r q p w = ((PhaseCompleted, None), w')"
  obtains v v' where "reconcileDeployment env r q p v = ((PhaseCompleted, None), v')"
proof -
  obtain ph w1 where c: "reconcileConfigMap env r w = ((ph, None), w1)"
    using assms by (auto simp: ReconcileRateLimitService_def reconcileConfigMap_def split: prod.splits option.splits if_splits)
  obtain ph2 e2 w2 where d: "reconcileDeployment env r q p w1 = ((ph2, e2), w2)" by (metis surj_pair)
  with assms c have "ph2 = PhaseCompleted" by (auto simp: ReconcileRateLimitService_def split: if_splits)
  with d reconcileDeployment_completed [of env r q p w1 e2 w2] that show thesis by simp
qed

text \<open>
  A completed installation of marin3r: every step completed, the rate limit service among them, whose Deployment was left
  wired to the limits that are configured; the status has the host and the versions of the product.
\<close>

lemma marin3r_completed:
  assumes run: "Marin3r_Reconcile env r inst st q p False w = Some ((PhaseCompleted, None), inst', st', w')"
    and stores: "stores (re_deployments (mn_rl env))"
  shows "st' = st\<lparr>p_Host := Marin3r_GetHost (mx_Config r), p_Version := Marin3r_GetProductVersion (mx_Config r),
            p_OperatorVersion := Marin3r_GetOperatorVersion (mx_Config r)\<rparr>"
    and "\<exists>v. run_must (marin3r_steps env r inst' q p) v = ((PhaseCompleted, None), w')"
    and "\<exists>v d limit. let rr = rate_limit_reconciler r inst' (q_rateLimitConfig q) in
           k_Get (re_deployments (mn_rl env)) (empty_deployment rr) v = (None, d, v) \<and> wired (limits_file (mn_rl env) rr limit) d"
proof -
  show "st' = st\<lparr>p_Host := Marin3r_GetHost (mx_Config r), p_Version := Marin3r_GetProductVersion (mx_Config r),
            p_OperatorVersion := Marin3r_GetOperatorVersion (mx_Config r)\<rparr>"
    using run by (auto simp: Marin3r_Reconcile_def split: sum.splits option.splits prod.splits if_splits)
  from run show steps: "\<exists>v. run_must (marin3r_steps env r inst' q p) v = ((PhaseCompleted, None), w')"
    by (auto simp: Marin3r_Reconcile_def split: sum.splits option.splits prod.splits if_splits)
  let ?rr = "rate_limit_reconciler r inst' (q_rateLimitConfig q)"
  have "ReconcileRateLimitService (mn_rl env) ?rr (Some q) p \<in> set (marin3r_steps env r inst' q p)"
    by (simp add: marin3r_steps_def Let_def)
  with steps obtain v v' where "ReconcileRateLimitService (mn_rl env) ?rr (Some q) p v = ((PhaseCompleted, None), v')"
    using run_must_each by meson
  then obtain v1 v2 where "reconcileDeployment (mn_rl env) ?rr (Some q) p v1 = ((PhaseCompleted, None), v2)"
    by (rule rate_limit_deployed)
  from deployment_wired [OF stores this] show "\<exists>v d limit. let rr = rate_limit_reconciler r inst' (q_rateLimitConfig q) in
           k_Get (re_deployments (mn_rl env)) (empty_deployment rr) v = (None, d, v) \<and> wired (limits_file (mn_rl env) rr limit) d"
    unfolding Let_def by blast
qed

text \<open>
  The caller of \<^verbatim>\<open>reconcileRedis\<close> only waits for components: any other phase without an error, such as an alert rule still
  in progress, counts as done.
\<close>

lemma redis_phase_ignored:
  "reconcileRedis env r inst w = ((phase, None), w') \<Longrightarrow> phase \<noteq> PhaseAwaitingComponents \<Longrightarrow>
     unless_awaiting (reconcileRedis env r inst) w = ((PhaseCompleted, None), w')"
  by (simp add: unless_awaiting_def)

theorem marin3r_uninstall_waits_witness:
  "\<forall>(env :: (string, string list) marin3r_env) r st q p. let
     env' = env\<lparr>mn_ReadThreeScale := (\<lambda>w. Inr (NewThreeScale [(''NAMESPACE'', ''3scale'')])),
       mn_ListEnvoyConfigs := (\<lambda>ns w. Inr w), mn_DeleteEnvoyConfig := (\<lambda>c w. (None, remove1 c w))\<rparr>;
     inst = zero_rhmi\<lparr>Finalizers := [product_finalizer ProductMarin3r]\<rparr> in
     \<exists>phase e. Marin3r_Reconcile env' r inst st q p True [''gateway'', ''limits''] = Some ((phase, e), inst, st, []) \<and> phase \<noteq> PhaseCompleted"
proof (intro allI)
  fix env :: "(string, string list) marin3r_env" and r st q p
  let ?env = "env\<lparr>mn_ReadThreeScale := (\<lambda>w. Inr (NewThreeScale [(''NAMESPACE'', ''3scale'')])),
       mn_ListEnvoyConfigs := (\<lambda>ns w. Inr w), mn_DeleteEnvoyConfig := (\<lambda>c w. (None, remove1 c w))\<rparr>"
  have "\<exists>phase e. Marin3r_Reconcile ?env r (zero_rhmi\<lparr>Finalizers := [product_finalizer ProductMarin3r]\<rparr>) st q p True [''gateway'', ''limits''] =
      Some ((phase, e), zero_rhmi\<lparr>Finalizers := [product_finalizer ProductMarin3r]\<rparr>, st,
        snd (delete_all (mn_DeleteEnvoyConfig ?env) [''gateway'', ''limits''] [''gateway'', ''limits''])) \<and> phase \<noteq> PhaseCompleted"
    by (rule marin3r_uninstall_waits) simp_all
  then show "let env' = ?env; inst = zero_rhmi\<lparr>Finalizers := [product_finalizer ProductMarin3r]\<rparr> in
     \<exists>phase e. Marin3r_Reconcile env' r inst st q p True [''gateway'', ''limits''] = Some ((phase, e), inst, st, []) \<and> phase \<noteq> PhaseCompleted"
    by (simp add: Let_def)
qed

end
