(* ===== verification/SSO_Users.thy ===== *)
theory SSO_Users
  imports Users "HOL-Library.Multiset"
begin

text \<open>
  How the two single sign-on reconcilers keep the users of Keycloak in step with those of OpenShift: the differences they
  compute, the deletions, and what becomes of each user (\<^verbatim>\<open>pkg/products/rhsso/reconciler.go\<close>,
  \<^verbatim>\<open>pkg/products/rhssouser/reconciler.go\<close> and \<^verbatim>\<open>pkg/products/rhssocommon/reconciler.go\<close>). For the cluster's own
  instance the users are those of the active identity providers; for the instance of the customer only dedicated
  administrators get a user, and the theory shows that exactly they have the privileges of one.
\<close>

section \<open>Users as custom resources\<close>

record KeycloakUser =
  kcu_Name :: string
  kcu_Namespace :: string
  kcu_Labels :: "(string, string) gomap"
  kcu_RealmSelector :: "(string, string) gomap"
  kcu_User :: KeycloakAPIUser
  kcu_Phase :: string
  kcu_Message :: string

definition zero_api_user :: KeycloakAPIUser where
  "zero_api_user = \<lparr>ku_ID = '''', ku_UserName = '''', ku_FirstName = '''', ku_LastName = '''', ku_Email = '''',
     ku_EmailVerified = False, ku_Enabled = False, ku_RealmRoles = [], ku_ClientRoles = None, ku_RequiredActions = [],
     ku_Groups = [], ku_FederatedIdentities = [], ku_Attributes = None\<rparr>"

definition kc_user :: "string \<Rightarrow> string \<Rightarrow> KeycloakUser" where
  "kc_user name ns = \<lparr>kcu_Name = name, kcu_Namespace = ns, kcu_Labels = [], kcu_RealmSelector = [], kcu_User = zero_api_user,
     kcu_Phase = '''', kcu_Message = ''''\<rparr>"

record 'w sso_env =
  sx_users :: "'w user_env"
  sx_kcusers :: "(KeycloakUser, 'w) kind_api"
  sx_ListKeycloakUsers :: "(string, string) gomap \<Rightarrow> string \<Rightarrow> 'w \<Rightarrow> err + KeycloakUser list"

abbreviation sso_idpAlias :: string where "sso_idpAlias \<equiv> ''openshift-v4''"

section \<open>\<^verbatim>\<open>DeleteKeycloakUsers\<close>\<close>

fun index_of_user :: "string \<Rightarrow> KeycloakAPIUser list \<Rightarrow> nat option" where
  "index_of_user n [] = None"
| "index_of_user n (u # us) = (if n = ku_UserName u then Some 0 else map_option Suc (index_of_user n us))"

text \<open>The first user of the name is overwritten by the last one, and the slice is cut by one.\<close>

definition remove_user :: "string \<Rightarrow> KeycloakAPIUser list \<Rightarrow> KeycloakAPIUser list" where
  "remove_user n us = (case index_of_user n us of None \<Rightarrow> us | Some i \<Rightarrow> butlast (us[i := last us]))"

fun DeleteKeycloakUsers ::
  "(KeycloakUser, 'w) kind_api \<Rightarrow> string \<Rightarrow> KeycloakAPIUser list \<Rightarrow> KeycloakAPIUser list \<Rightarrow> 'w \<Rightarrow> (err + KeycloakAPIUser list) \<times> 'w" where
  "DeleteKeycloakUsers api ns allKcUsers [] w = (Inr allKcUsers, w)"
| "DeleteKeycloakUsers api ns allKcUsers (d # ds) w =
     (if ku_UserName d = '''' then DeleteKeycloakUsers api ns allKcUsers ds w
      else (let name = GetValidGeneratedUserName d in
            if name = '''' then (Inl (Msg ''failed to get valid generated username''), w)
            else (case k_Delete api (kc_user name ns) w of
                    (Some e, w') \<Rightarrow> (Inl (Wrap ''failed to delete keycloak user'' e), w')
                  | (None, w') \<Rightarrow> DeleteKeycloakUsers api ns (remove_user (ku_UserName d) allKcUsers) ds w')))"

definition OsUserInKc :: "User list \<Rightarrow> KeycloakAPIUser \<Rightarrow> bool" where
  "OsUserInKc osUsers kcUser \<longleftrightarrow> list_ex (\<lambda>u. u_Name u = ku_UserName kcUser) osUsers"

section \<open>The instance of the cluster\<close>

definition GetInstanceLabels :: "(string, string) gomap" where
  "GetInstanceLabels = [(''sso'', ''integreatly'')]"

definition getKeycloakRoles :: "InstallationType \<Rightarrow> (string, string list) gomap" where
  "getKeycloakRoles t =
     (if IsRHOAMMultitenant t then [(''account'', [''view-profile''])]
      else [(''account'', [''manage-account'', ''view-profile'']), (''broker'', [''read-token''])])"

definition kcContainsOsUser :: "KeycloakAPIUser list \<Rightarrow> User \<Rightarrow> bool" where
  "kcContainsOsUser kcUsers osUser \<longleftrightarrow> list_ex (\<lambda>k. ku_UserName k = u_Name osUser) kcUsers"

definition RHSSO_getUserDiff :: "KeycloakAPIUser list \<Rightarrow> User list \<Rightarrow> Group list \<Rightarrow> User list \<times> KeycloakAPIUser list" where
  "RHSSO_getUserDiff keycloakUsers openshiftUsers groups =
     (filter (\<lambda>u. \<not> kcContainsOsUser keycloakUsers u \<and> \<not> IsInExclusionGroup u groups) openshiftUsers,
      filter (\<lambda>k. \<not> OsUserInKc openshiftUsers k) keycloakUsers)"

definition federation :: "User \<Rightarrow> FederatedIdentity" where
  "federation u = \<lparr>fi_IdentityProvider = sso_idpAlias, fi_UserID = u_UID u, fi_UserName = u_Name u\<rparr>"

definition new_keycloak_user :: "(string \<Rightarrow> bool) \<Rightarrow> Identity list \<Rightarrow> User \<Rightarrow> KeycloakAPIUser" where
  "new_keycloak_user parse is u =
     (let email = (if GetEmailFromIdentity u is = '''' then SetUserNameAsEmail parse (u_Name u) else GetEmailFromIdentity u is) in
      AppendUpdateProfileActionForUserWithoutEmail
        (zero_api_user\<lparr>ku_Enabled := True, ku_UserName := u_Name u, ku_EmailVerified := True, ku_Email := email,
           ku_FederatedIdentities := [federation u]\<rparr>))"

definition syncronizeWithOpenshiftUsers ::
  "'w sso_env \<Rightarrow> InstallationType \<Rightarrow> KeycloakAPIUser list \<Rightarrow> string \<Rightarrow> 'w \<Rightarrow> (err + KeycloakAPIUser list) \<times> 'w" where
  "syncronizeWithOpenshiftUsers env t keycloakUsers ns w =
     (case GetUsersInActiveIDPs (sx_users env) w of
        Inl e \<Rightarrow> (Inl (Wrap ''could not get users in active IDPs'' e), w)
      | Inr openshiftUsers \<Rightarrow>
          (case us_ListGroups (sx_users env) w of
             Inl e \<Rightarrow> (Inl e, w)
           | Inr groups \<Rightarrow>
               (case RHSSO_getUserDiff keycloakUsers openshiftUsers groups of
                  (added, deletedUsers) \<Rightarrow>
                    (case DeleteKeycloakUsers (sx_kcusers env) ns keycloakUsers deletedUsers w of
                       (Inl e, w1) \<Rightarrow> (Inl e, w1)
                     | (Inr kept, w1) \<Rightarrow>
                         (case us_ListIdentities (sx_users env) w1 of
                            Inl e \<Rightarrow> (Inl e, w1)
                          | Inr is \<Rightarrow>
                              (Inr (map (\<lambda>k. k\<lparr>ku_ClientRoles := Some (getKeycloakRoles t)\<rparr>)
                                 (kept @ map (new_keycloak_user (us_ParseAddress (sx_users env)) is) added)), w1))))))"

text \<open>The flag is set by the mutation, on the object as it was read.\<close>

definition conflict_found :: "KeycloakUser \<Rightarrow> bool" where
  "conflict_found u \<longleftrightarrow> StrContains (kcu_Message u) ''409 Conflict'' \<and> kcu_Phase u \<noteq> ''reconciled''"

definition createOrUpdateKeycloakUser ::
  "'w sso_env \<Rightarrow> string \<Rightarrow> KeycloakAPIUser \<Rightarrow> 'w \<Rightarrow> (OperationResult \<times> bool \<times> err option) \<times> 'w" where
  "createOrUpdateKeycloakUser env ns user w =
     (let obj = kc_user (GetValidGeneratedUserName user) ns in
      if kcu_Name obj = '''' then ((OperationResultNone, False, Some (Msg ''failed to get valid generated username'')), w)
      else (let conflict = (case k_Get (sx_kcusers env) obj w of (e, u, w') \<Rightarrow> (e = None \<or> IsNotFound e) \<and> conflict_found u) in
            case CreateOrUpdate (sx_kcusers env) (=)
                   (pure_op (\<lambda>u. u\<lparr>kcu_RealmSelector := GetInstanceLabels, kcu_Labels := GetInstanceLabels, kcu_User := user\<rparr>)) obj w of
              ((op, e), u, w') \<Rightarrow> ((op, conflict, e), w')))"

definition RHSSO_GetKeycloakUsers :: "'w sso_env \<Rightarrow> string \<Rightarrow> 'w \<Rightarrow> err + KeycloakAPIUser list" where
  "RHSSO_GetKeycloakUsers env ns w = map_sum id (map kcu_User) (sx_ListKeycloakUsers env GetInstanceLabels ns w)"

section \<open>The instance of the customer\<close>

abbreviation dedicatedAdminsGroupName :: string where "dedicatedAdminsGroupName \<equiv> ''dedicated-admins''"
abbreviation realmManagersGroupName :: string where "realmManagersGroupName \<equiv> ''realm-managers''"
abbreviation fullRealmManagersGroupPath :: string where "fullRealmManagersGroupPath \<equiv> ''dedicated-admins/realm-managers''"
abbreviation masterRealmName :: string where "masterRealmName \<equiv> ''master''"

definition getMasterLabels :: "(string, string) gomap" where
  "getMasterLabels = [(''sso'', ''master'')]"

text \<open>Only the users this operator created: their resources have a generated name.\<close>

definition getUsers :: "'w sso_env \<Rightarrow> string \<Rightarrow> 'w \<Rightarrow> err + KeycloakAPIUser list" where
  "getUsers env ns w =
     map_sum id (\<lambda>us. map kcu_User (filter (\<lambda>u. HasPrefix (kcu_Name u) GeneratedNamePrefix) us))
       (sx_ListKeycloakUsers env getMasterLabels ns w)"

definition federated_to :: "KeycloakAPIUser \<Rightarrow> User \<Rightarrow> bool" where
  "federated_to k u \<longleftrightarrow> length (ku_FederatedIdentities k) \<ge> 1 \<and> fi_UserID (ku_FederatedIdentities k ! 0) = u_UID u"

definition kcUserInDedicatedAdmins :: "KeycloakAPIUser \<Rightarrow> User list \<Rightarrow> bool" where
  "kcUserInDedicatedAdmins k admins \<longleftrightarrow> list_ex (federated_to k) admins"

definition getOpenShiftUser :: "KeycloakAPIUser \<Rightarrow> User list \<Rightarrow> User option" where
  "getOpenShiftUser k osUsers = List.find (federated_to k) osUsers"

definition getKeyCloakUser :: "User \<Rightarrow> KeycloakAPIUser list \<Rightarrow> KeycloakAPIUser option" where
  "getKeyCloakUser admin kcUsers = List.find (\<lambda>k. federated_to k admin) kcUsers"

definition client_roles :: "KeycloakAPIUser \<Rightarrow> string \<Rightarrow> string list" where
  "client_roles k c = (case ku_ClientRoles k of None \<Rightarrow> [] | Some m \<Rightarrow> gget [] m c)"

definition hasAdminPrivileges :: "KeycloakAPIUser \<Rightarrow> bool" where
  "hasAdminPrivileges k \<longleftrightarrow>
     length (client_roles k ''master-realm'') \<ge> 1 \<and> Contains (client_roles k ''master-realm'') ''manage-users'' \<and>
     Contains (ku_RealmRoles k) ''create-realm''"

fun getOsUsersInAdminsGroup :: "Group list \<Rightarrow> string list" where
  "getOsUsersInAdminsGroup [] = []"
| "getOsUsersInAdminsGroup (g # gs) = (if gr_Name g = ''dedicated-admins'' then gr_Users g else getOsUsersInAdminsGroup gs)"

definition getDedicatedAdmins :: "User list \<Rightarrow> Group list \<Rightarrow> User list" where
  "getDedicatedAdmins osUsers groups = filter (\<lambda>u. Contains (getOsUsersInAdminsGroup groups) (u_Name u)) osUsers"

text \<open>\<^verbatim>\<open>getUserDiff\<close>: who is to be added, deleted, promoted and demoted.\<close>

definition unprivileged :: "KeycloakAPIUser list \<Rightarrow> User \<Rightarrow> KeycloakAPIUser option" where
  "unprivileged keycloakUsers admin =
     (case getKeyCloakUser admin keycloakUsers of
        None \<Rightarrow> None | Some k \<Rightarrow> if \<not> hasAdminPrivileges k then Some k else None)"

definition RHSSOUser_getUserDiff ::
  "KeycloakAPIUser list \<Rightarrow> User list \<Rightarrow> User list \<Rightarrow>
   User list \<times> KeycloakAPIUser list \<times> KeycloakAPIUser list \<times> KeycloakAPIUser list" where
  "RHSSOUser_getUserDiff keycloakUsers openshiftUsers dedicatedAdmins =
     (filter (\<lambda>a. getKeyCloakUser a keycloakUsers = None) dedicatedAdmins,
      filter (\<lambda>k. getOpenShiftUser k openshiftUsers = None) keycloakUsers,
      List.map_filter (unprivileged keycloakUsers) dedicatedAdmins,
      filter (\<lambda>k. getOpenShiftUser k openshiftUsers \<noteq> None \<and> \<not> kcUserInDedicatedAdmins k dedicatedAdmins \<and> hasAdminPrivileges k)
        keycloakUsers)"

definition adminRealmRoles :: "string list" where
  "adminRealmRoles = [''offline_access'', ''uma_authorization'', ''create-realm'']"

definition adminClientRoles :: "(string, string list) gomap" where
  "adminClientRoles = [(''account'', [''manage-account'', ''view-profile'']),
     (''master-realm'', [''view-clients'', ''view-realm'', ''manage-users''])]"

definition addKeycloakUsers :: "KeycloakAPIUser list \<Rightarrow> User list \<Rightarrow> KeycloakAPIUser list" where
  "addKeycloakUsers keycloakUsers added =
     keycloakUsers @ map (\<lambda>u. zero_api_user\<lparr>ku_Enabled := True, ku_UserName := u_Name u, ku_EmailVerified := True,
       ku_FederatedIdentities := [federation u], ku_RealmRoles := adminRealmRoles, ku_ClientRoles := Some adminClientRoles,
       ku_Groups := [dedicatedAdminsGroupName, fullRealmManagersGroupPath]\<rparr>) added"

definition promote_user :: "KeycloakAPIUser \<Rightarrow> KeycloakAPIUser" where
  "promote_user u =
     (let g = ku_Groups u;
          g1 = (if Contains g dedicatedAdminsGroupName then g else g @ [dedicatedAdminsGroupName]);
          g2 = (if Contains g fullRealmManagersGroupPath then g1 else g1 @ [fullRealmManagersGroupPath])
      in u\<lparr>ku_ClientRoles := Some adminClientRoles, ku_RealmRoles := adminRealmRoles, ku_Groups := g2\<rparr>)"

definition demote_user :: "KeycloakAPIUser \<Rightarrow> KeycloakAPIUser" where
  "demote_user u =
     u\<lparr>ku_ClientRoles := Some [(''account'', [''manage-account'', ''manage-account-links'', ''view-profile''])],
       ku_RealmRoles := [''offline_access'', ''uma_authorization''],
       ku_Groups := filter (\<lambda>g. g \<noteq> dedicatedAdminsGroupName \<and> g \<noteq> fullRealmManagersGroupPath) (ku_Groups u)\<rparr>"

text \<open>The inner loop of both: the first user of the name is changed, then the loop breaks.\<close>

fun change_first :: "(KeycloakAPIUser \<Rightarrow> KeycloakAPIUser) \<Rightarrow> string \<Rightarrow> KeycloakAPIUser list \<Rightarrow> KeycloakAPIUser list" where
  "change_first f n [] = []"
| "change_first f n (u # us) = (if n = ku_UserName u then f u # us else u # change_first f n us)"

definition promoteKeycloakUsers :: "KeycloakAPIUser list \<Rightarrow> KeycloakAPIUser list \<Rightarrow> KeycloakAPIUser list" where
  "promoteKeycloakUsers allUsers promoted = foldl (\<lambda>us p. change_first promote_user (ku_UserName p) us) allUsers promoted"

definition demoteKeycloakUsers :: "KeycloakAPIUser list \<Rightarrow> KeycloakAPIUser list \<Rightarrow> KeycloakAPIUser list" where
  "demoteKeycloakUsers allUsers demoted = foldl (\<lambda>us p. change_first demote_user (ku_UserName p) us) allUsers demoted"

definition syncAdminUsersInMasterRealm ::
  "'w sso_env \<Rightarrow> KeycloakAPIUser list \<Rightarrow> string \<Rightarrow> 'w \<Rightarrow> (err + KeycloakAPIUser list) \<times> 'w" where
  "syncAdminUsersInMasterRealm env keycloakUsers ns w =
     (case us_ListUsers (sx_users env) w of
        Inl e \<Rightarrow> (Inl e, w)
      | Inr openshiftUsers \<Rightarrow>
          (case us_ListGroups (sx_users env) w of
             Inl e \<Rightarrow> (Inl e, w)
           | Inr groups \<Rightarrow>
               (case RHSSOUser_getUserDiff keycloakUsers openshiftUsers (getDedicatedAdmins openshiftUsers groups) of
                  (added, deleted, promoted, demoted) \<Rightarrow>
                    (case DeleteKeycloakUsers (sx_kcusers env) ns keycloakUsers deleted w of
                       (Inl e, w') \<Rightarrow> (Inl e, w')
                     | (Inr kept, w') \<Rightarrow>
                         (Inr (demoteKeycloakUsers (promoteKeycloakUsers (addKeycloakUsers kept added) promoted) demoted), w')))))"

text \<open>A user the Keycloak operator has given up on is an error.\<close>

definition createOrUpdateKeycloakAdmin ::
  "'w sso_env \<Rightarrow> string \<Rightarrow> KeycloakAPIUser \<Rightarrow> 'w \<Rightarrow> (OperationResult \<times> err option) \<times> 'w" where
  "createOrUpdateKeycloakAdmin env ns user w =
     (let obj = kc_user (GetValidGeneratedUserName user) ns in
      if kcu_Name obj = '''' then ((OperationResultNone, Some (Msg ''failed to get valid generated username'')), w)
      else (case CreateOrUpdate (sx_kcusers env) (=)
                   (pure_op (\<lambda>u. u\<lparr>kcu_RealmSelector := getMasterLabels, kcu_Labels := getMasterLabels, kcu_User := user\<rparr>)) obj w of
              ((op, Some e), u, w') \<Rightarrow> ((op, Some e), w')
            | ((op, None), u, w') \<Rightarrow>
                if kcu_Phase u = ''failing''
                then ((op, Some (Msg (''keycloack operator failed to reconcile user: '' @ kcu_Message u))), w')
                else ((op, None), w')))"

definition OsUserInDedicatedAdmins :: "string list \<Rightarrow> KeycloakAPIUser \<Rightarrow> bool" where
  "OsUserInDedicatedAdmins admins k \<longleftrightarrow> list_ex (\<lambda>n. ku_UserName k = n) admins"

lemmas sso_user_defs [go_defs] = kc_user_def remove_user_def OsUserInKc_def kcContainsOsUser_def RHSSO_getUserDiff_def
  syncronizeWithOpenshiftUsers_def createOrUpdateKeycloakUser_def federated_to_def kcUserInDedicatedAdmins_def
  getOpenShiftUser_def getKeyCloakUser_def hasAdminPrivileges_def getDedicatedAdmins_def RHSSOUser_getUserDiff_def
  addKeycloakUsers_def promote_user_def demote_user_def promoteKeycloakUsers_def demoteKeycloakUsers_def
  syncAdminUsersInMasterRealm_def createOrUpdateKeycloakAdmin_def

section \<open>Lists of users\<close>

lemma index_of_user_None: "index_of_user n us = None \<longleftrightarrow> n \<notin> ku_UserName ` set us"
  by (induction us) auto

lemma index_of_user_Some:
  assumes "index_of_user n us = Some i"
  shows "i < length us" and "ku_UserName (us ! i) = n"
  using assms by (induction us arbitrary: i) (auto split: if_splits)

text \<open>Removing by swapping with the last takes one user of the name away and keeps the others.\<close>

lemma mset_remove_user:
  assumes "index_of_user n us = Some i"
  shows "mset us = add_mset (us ! i) (mset (remove_user n us))"
proof -
  have i: "i < length us" using index_of_user_Some(1) [OF assms] .
  then have ne: "us[i := last us] \<noteq> []" by auto
  from i have "us \<noteq> []" by auto
  then have "last (us[i := last us]) = last us" by (simp add: last_list_update)
  with ne have "mset (us[i := last us]) = add_mset (last us) (mset (butlast (us[i := last us])))"
    by (metis append_butlast_last_id mset_append add.commute mset_single_iff union_mset_add_mset_right mset.simps add_0_right)
  moreover have "mset (us[i := last us]) = add_mset (last us) (mset us - {#us ! i#})" using i by (simp add: mset_update)
  ultimately have "mset (butlast (us[i := last us])) = mset us - {#us ! i#}" by simp
  then show ?thesis using assms i by (simp add: remove_user_def nth_mem_mset)
qed

lemma remove_user_distinct:
  assumes "distinct (map ku_UserName us)"
  shows "set (remove_user n us) = {u \<in> set us. ku_UserName u \<noteq> n}" and "distinct (map ku_UserName (remove_user n us))"
proof -
  have *: "set (remove_user n us) = {u \<in> set us. ku_UserName u \<noteq> n} \<and> distinct (map ku_UserName (remove_user n us))"
  proof (cases "index_of_user n us")
    case None
    then have "remove_user n us = us" by (simp add: remove_user_def)
    with None show ?thesis using assms by (auto simp: index_of_user_None image_iff)
  next
    case (Some i)
    note m = mset_remove_user [OF this]
    from index_of_user_Some [OF Some] have n: "ku_UserName (us ! i) = n" by blast
    from m have "image_mset ku_UserName (mset us) = add_mset n (image_mset ku_UserName (mset (remove_user n us)))" using n by simp
    then have "distinct (n # map ku_UserName (remove_user n us))"
      using assms by (metis mset.simps(2) mset_map mset_eq_imp_distinct_iff)
    moreover from m have "set us = insert (us ! i) (set (remove_user n us))" by (metis set_mset_add_mset_insert set_mset_mset)
    ultimately show ?thesis using n by (auto simp: image_iff)
  qed
  then show "set (remove_user n us) = {u \<in> set us. ku_UserName u \<noteq> n}" and "distinct (map ku_UserName (remove_user n us))" by auto
qed

lemma change_first_distinct:
  "distinct (map ku_UserName us) \<Longrightarrow> change_first f n us = map (\<lambda>u. if ku_UserName u = n then f u else u) us"
proof (induction us)
  case (Cons u us)
  moreover have "map (\<lambda>v. if ku_UserName v = ku_UserName u then f v else v) us = us"
    using Cons.prems by (intro map_idI) (auto simp: image_iff)
  ultimately show ?case by auto
qed simp

lemma change_users:
  assumes "distinct (map ku_UserName us)" and name: "\<And>u. ku_UserName (f u) = ku_UserName u" and idem: "\<And>u. f (f u) = f u"
  shows "foldl (\<lambda>us p. change_first f (ku_UserName p) us) us ps =
    map (\<lambda>u. if ku_UserName u \<in> ku_UserName ` set ps then f u else u) us"
  using assms(1)
proof (induction ps arbitrary: us)
  case (Cons p ps)
  let ?us = "map (\<lambda>u. if ku_UserName u = ku_UserName p then f u else u) us"
  have "map ku_UserName ?us = map ku_UserName us" by (auto simp: name)
  with Cons.prems have "distinct (map ku_UserName ?us)" by metis
  from Cons.IH [OF this] show ?case by (auto simp: change_first_distinct [OF Cons.prems] name idem)
qed simp

lemma DeleteKeycloakUsers_distinct:
  assumes "DeleteKeycloakUsers api ns us ds w = (Inr us', w')" and "distinct (map ku_UserName us)"
    and "'''' \<notin> ku_UserName ` set ds"
  shows "set us' = {u \<in> set us. ku_UserName u \<notin> ku_UserName ` set ds}" and "distinct (map ku_UserName us')"
proof -
  have "set us' = {u \<in> set us. ku_UserName u \<notin> ku_UserName ` set ds} \<and> distinct (map ku_UserName us')"
    using assms
  proof (induction ds arbitrary: us w)
    case (Cons d ds)
    then obtain w1 where "DeleteKeycloakUsers api ns (remove_user (ku_UserName d) us) ds w1 = (Inr us', w')"
      by (auto simp: Let_def split: if_splits prod.splits option.splits)
    from Cons.IH [OF this] Cons.prems remove_user_distinct [OF Cons.prems(2), of "ku_UserName d"] show ?case by auto
  qed simp
  then show "set us' = {u \<in> set us. ku_UserName u \<notin> ku_UserName ` set ds}" and "distinct (map ku_UserName us')" by auto
qed

section \<open>Who is an administrator\<close>

text \<open>
  What the two sides have in common: user names are unique and not empty, user ids are unique, and a Keycloak user that
  refers to an OpenShift user has its name.
\<close>

definition users_match :: "KeycloakAPIUser list \<Rightarrow> User list \<Rightarrow> bool" where
  "users_match ks us \<longleftrightarrow>
     distinct (map ku_UserName ks) \<and> '''' \<notin> ku_UserName ` set ks \<and> distinct (map u_Name us) \<and> '''' \<notin> u_Name ` set us \<and>
     distinct (map u_UID us) \<and> (\<forall>k \<in> set ks. \<forall>u \<in> set us. federated_to k u \<longrightarrow> ku_UserName k = u_Name u)"

lemma distinct_inject: "distinct (map f xs) \<Longrightarrow> x \<in> set xs \<Longrightarrow> y \<in> set xs \<Longrightarrow> f x = f y \<Longrightarrow> x = y"
  by (simp add: distinct_map inj_on_def)

lemma federated_unique:
  "users_match ks us \<Longrightarrow> u \<in> set us \<Longrightarrow> v \<in> set us \<Longrightarrow> federated_to k u \<Longrightarrow> federated_to k v \<Longrightarrow> u = v"
  using distinct_inject [of u_UID us u v] by (simp add: users_match_def federated_to_def)

lemma federated_same_user:
  assumes m: "users_match ks us" and "k \<in> set ks" "l \<in> set ks" "u \<in> set us" "federated_to k u" "federated_to l u"
  shows "k = l"
proof -
  from assms have "ku_UserName k = ku_UserName l" by (auto simp: users_match_def)
  with m assms(2,3) distinct_inject [of ku_UserName ks k l] show ?thesis by (simp add: users_match_def)
qed

lemma getOpenShiftUser_None: "getOpenShiftUser k us = None \<longleftrightarrow> (\<forall>u \<in> set us. \<not> federated_to k u)"
  by (auto simp: getOpenShiftUser_def find_None_iff)

lemma getKeyCloakUser_None: "getKeyCloakUser a ks = None \<longleftrightarrow> (\<forall>k \<in> set ks. \<not> federated_to k a)"
  by (auto simp: getKeyCloakUser_def find_None_iff)

lemma getKeyCloakUser_Some: "getKeyCloakUser a ks = Some k \<Longrightarrow> k \<in> set ks \<and> federated_to k a"
  by (auto simp: getKeyCloakUser_def find_Some_iff)

lemma privileges [simp]:
  "hasAdminPrivileges (promote_user k)" "\<not> hasAdminPrivileges (demote_user k)"
  "ku_UserName (promote_user k) = ku_UserName k" "ku_UserName (demote_user k) = ku_UserName k"
  "federated_to (promote_user k) = federated_to k" "federated_to (demote_user k) = federated_to k"
  "promote_user (promote_user k) = promote_user k" "demote_user (demote_user k) = demote_user k"
  by (auto simp: hasAdminPrivileges_def promote_user_def demote_user_def client_roles_def adminClientRoles_def adminRealmRoles_def
      federated_to_def fun_eq_iff Let_def)

definition new_admin :: "User \<Rightarrow> KeycloakAPIUser" where
  "new_admin u = zero_api_user\<lparr>ku_Enabled := True, ku_UserName := u_Name u, ku_EmailVerified := True,
     ku_FederatedIdentities := [federation u], ku_RealmRoles := adminRealmRoles, ku_ClientRoles := Some adminClientRoles,
     ku_Groups := [dedicatedAdminsGroupName, fullRealmManagersGroupPath]\<rparr>"

lemma new_admin [simp]:
  "hasAdminPrivileges (new_admin u)" "ku_UserName (new_admin u) = u_Name u"
  "federated_to (new_admin u) v \<longleftrightarrow> u_UID u = u_UID v"
  by (auto simp: new_admin_def hasAdminPrivileges_def client_roles_def adminClientRoles_def adminRealmRoles_def federated_to_def
      federation_def zero_api_user_def)

lemma addKeycloakUsers_eq: "addKeycloakUsers ks us = ks @ map new_admin us"
  by (simp add: addKeycloakUsers_def new_admin_def)

text \<open>The two changes together, given the names of those to promote and of those to demote.\<close>

definition changed :: "string set \<Rightarrow> string set \<Rightarrow> KeycloakAPIUser \<Rightarrow> KeycloakAPIUser" where
  "changed P D k = (let k1 = (if ku_UserName k \<in> P then promote_user k else k) in if ku_UserName k \<in> D then demote_user k1 else k1)"

lemma changed_simps [simp]:
  "ku_UserName (changed P D k) = ku_UserName k" "federated_to (changed P D k) = federated_to k"
  by (auto simp: changed_def Let_def)

lemma promote_demote:
  assumes "distinct (map ku_UserName us)"
  shows "demoteKeycloakUsers (promoteKeycloakUsers us ps) ds = map (changed (ku_UserName ` set ps) (ku_UserName ` set ds)) us"
proof -
  let ?us = "map (\<lambda>u. if ku_UserName u \<in> ku_UserName ` set ps then promote_user u else u) us"
  have "map ku_UserName ?us = map ku_UserName us" by auto
  with assms have "distinct (map ku_UserName ?us)" by metis
  then show ?thesis
    unfolding promoteKeycloakUsers_def demoteKeycloakUsers_def
    by (subst change_users [OF assms]; simp) (subst change_users; simp add: changed_def Let_def)
qed

definition added_admins :: "KeycloakAPIUser list \<Rightarrow> User list \<Rightarrow> Group list \<Rightarrow> User list" where
  "added_admins ks us gs = filter (\<lambda>a. getKeyCloakUser a ks = None) (getDedicatedAdmins us gs)"

definition promoted_names :: "KeycloakAPIUser list \<Rightarrow> User list \<Rightarrow> Group list \<Rightarrow> string set" where
  "promoted_names ks us gs = ku_UserName ` set (List.map_filter (unprivileged ks) (getDedicatedAdmins us gs))"

definition demoted_names :: "KeycloakAPIUser list \<Rightarrow> User list \<Rightarrow> Group list \<Rightarrow> string set" where
  "demoted_names ks us gs = ku_UserName ` set
     (filter (\<lambda>k. getOpenShiftUser k us \<noteq> None \<and> \<not> kcUserInDedicatedAdmins k (getDedicatedAdmins us gs) \<and> hasAdminPrivileges k) ks)"

abbreviation synced :: "KeycloakAPIUser list \<Rightarrow> User list \<Rightarrow> Group list \<Rightarrow> KeycloakAPIUser \<Rightarrow> KeycloakAPIUser" where
  "synced ks us gs \<equiv> changed (promoted_names ks us gs) (demoted_names ks us gs)"

lemma dedicated_admin [simp]:
  "a \<in> set (getDedicatedAdmins us gs) \<longleftrightarrow> a \<in> set us \<and> u_Name a \<in> set (getOsUsersInAdminsGroup gs)"
  by (simp add: getDedicatedAdmins_def)

lemma added_admin:
  "a \<in> set (added_admins ks us gs) \<longleftrightarrow>
     a \<in> set us \<and> u_Name a \<in> set (getOsUsersInAdminsGroup gs) \<and> (\<forall>k \<in> set ks. \<not> federated_to k a)"
  by (auto simp: added_admins_def getKeyCloakUser_None)

text \<open>The name of a new user is not that of a user that is kept: such a user would stand for the same OpenShift user.\<close>

lemma added_name_new:
  assumes m: "users_match ks us" and k: "k \<in> set ks" "v \<in> set us" "federated_to k v" and a: "a \<in> set (added_admins ks us gs)"
  shows "ku_UserName k \<noteq> u_Name a"
proof
  assume "ku_UserName k = u_Name a"
  then have "u_Name v = u_Name a" using m k by (auto simp: users_match_def)
  then have "v = a" using m k a distinct_inject [of u_Name us v a] by (simp add: users_match_def added_admin)
  with k a show False by (auto simp: added_admin)
qed

text \<open>What a synchronisation leaves: the users that stand for one of OpenShift, and the new ones, changed.\<close>

lemma sync_result:
  assumes m: "users_match ks us"
    and users: "us_ListUsers (sx_users env) w = Inr us" and groups: "us_ListGroups (sx_users env) w = Inr gs"
    and run: "syncAdminUsersInMasterRealm env ks ns w = (Inr users, w')"
  shows "\<exists>kept. users = map (synced ks us gs) (kept @ map new_admin (added_admins ks us gs)) \<and>
      set kept = {k \<in> set ks. \<exists>u \<in> set us. federated_to k u} \<and> distinct (map ku_UserName users)"
proof -
  let ?del = "filter (\<lambda>k. getOpenShiftUser k us = None) ks"
  from run users groups obtain kept where d: "DeleteKeycloakUsers (sx_kcusers env) ns ks ?del w = (Inr kept, w')" and
    u: "users = demoteKeycloakUsers (promoteKeycloakUsers (kept @ map new_admin (added_admins ks us gs))
          (List.map_filter (unprivileged ks) (getDedicatedAdmins us gs)))
          (filter (\<lambda>k. getOpenShiftUser k us \<noteq> None \<and> \<not> kcUserInDedicatedAdmins k (getDedicatedAdmins us gs) \<and> hasAdminPrivileges k) ks)"
    by (auto simp: syncAdminUsersInMasterRealm_def RHSSOUser_getUserDiff_def addKeycloakUsers_eq added_admins_def
        split: prod.splits sum.splits)
  from m have dist: "distinct (map ku_UserName ks)" and ne: "'''' \<notin> ku_UserName ` set ?del"
    by (auto simp: users_match_def image_iff)
  note k = DeleteKeycloakUsers_distinct [OF d dist ne]
  have kept: "set kept = {k \<in> set ks. \<exists>u \<in> set us. federated_to k u}"
    using k(1) distinct_inject [OF dist] by (fastforce simp: getOpenShiftUser_None)
  have "distinct (map u_Name (added_admins ks us gs))"
    using m by (simp add: users_match_def added_admins_def getDedicatedAdmins_def distinct_map inj_on_def)
  then have dist: "distinct (map ku_UserName (kept @ map new_admin (added_admins ks us gs)))"
    using k(2) kept added_name_new [OF m] by (fastforce simp: comp_def)
  from u have u': "users = map (synced ks us gs) (kept @ map new_admin (added_admins ks us gs))"
    unfolding promote_demote [OF dist] promoted_names_def demoted_names_def .
  then have "map ku_UserName users = map ku_UserName (kept @ map new_admin (added_admins ks us gs))" by simp
  with u' kept dist show ?thesis by metis
qed

text \<open>A user the operator keeps: promoted when its OpenShift user has become an administrator, demoted when it is none.\<close>

lemma kept_privileges:
  assumes m: "users_match ks us" and k: "k \<in> set ks" and u: "u \<in> set us" "federated_to k u"
  shows "hasAdminPrivileges (synced ks us gs k) \<longleftrightarrow> u \<in> set (getDedicatedAdmins us gs)"
proof -
  let ?admins = "getDedicatedAdmins us gs"
  have name: "l \<in> set ks \<Longrightarrow> ku_UserName l = ku_UserName k \<Longrightarrow> l = k" for l
    using m k distinct_inject [of ku_UserName ks l k] by (simp add: users_match_def)
  have in_adm: "kcUserInDedicatedAdmins k ?admins \<longleftrightarrow> u \<in> set ?admins"
    unfolding kcUserInDedicatedAdmins_def list_ex_iff Bex_def dedicated_admin using federated_unique [OF m u(1) _ u(2)] u by metis
  have os: "getOpenShiftUser k us \<noteq> None" using u getOpenShiftUser_None by blast
  have D: "ku_UserName k \<in> demoted_names ks us gs \<longleftrightarrow> u \<notin> set ?admins \<and> hasAdminPrivileges k"
    using name k in_adm os by (auto simp: demoted_names_def image_iff)
  have find: "a \<in> set us \<Longrightarrow> getKeyCloakUser a ks = Some k \<Longrightarrow> a = u" for a
    using getKeyCloakUser_Some [of a ks k] federated_unique [OF m _ u(1) _ u(2)] by blast
  have found: "getKeyCloakUser u ks = Some k"
    using getKeyCloakUser_None [of u ks] getKeyCloakUser_Some [of u ks] federated_same_user [OF m k _ u(1,2)] k u(2)
    by (cases "getKeyCloakUser u ks") blast+
  have P: "ku_UserName k \<in> promoted_names ks us gs \<longleftrightarrow> u \<in> set ?admins \<and> \<not> hasAdminPrivileges k"
  proof
    assume "ku_UserName k \<in> promoted_names ks us gs"
    then obtain a l where a: "a \<in> set ?admins" "getKeyCloakUser a ks = Some l" "\<not> hasAdminPrivileges l" "ku_UserName l = ku_UserName k"
      by (auto simp: promoted_names_def List.map_filter_def unprivileged_def split: option.splits if_splits)
    then have "l = k" using name getKeyCloakUser_Some by blast
    with a find show "u \<in> set ?admins \<and> \<not> hasAdminPrivileges k" by auto
  next
    assume "u \<in> set ?admins \<and> \<not> hasAdminPrivileges k"
    then show "ku_UserName k \<in> promoted_names ks us gs"
      using found by (force simp: promoted_names_def List.map_filter_def unprivileged_def)
  qed
  from D P show ?thesis by (auto simp: changed_def Let_def)
qed

text \<open>A new user is nobody's to demote.\<close>

lemma added_privileges:
  assumes m: "users_match ks us" and a: "a \<in> set (added_admins ks us gs)"
  shows "hasAdminPrivileges (synced ks us gs (new_admin a))"
proof -
  have "u_Name a \<notin> demoted_names ks us gs"
    using added_name_new [OF m _ _ _ a] by (fastforce simp: demoted_names_def getOpenShiftUser_None)
  then show ?thesis by (simp add: changed_def Let_def)
qed

lemma synced_user:
  assumes m: "users_match ks us" and k: "k \<in> synced ks us gs ` set (kept @ map new_admin (added_admins ks us gs))"
    and kept: "set kept = {k \<in> set ks. \<exists>u \<in> set us. federated_to k u}"
  shows "\<exists>u \<in> set us. federated_to k u \<and> ku_UserName k = u_Name u \<and> (hasAdminPrivileges k \<longleftrightarrow> u_Name u \<in> set (getOsUsersInAdminsGroup gs))"
proof -
  from k consider l where "l \<in> set kept" "k = synced ks us gs l" |
    a where "a \<in> set (added_admins ks us gs)" "k = synced ks us gs (new_admin a)" by auto
  then show ?thesis
  proof cases
    case 1
    then obtain v where v: "l \<in> set ks" "v \<in> set us" "federated_to l v" using kept by blast
    with m 1 kept_privileges [OF m v, of gs] show ?thesis by (auto simp: users_match_def)
  next
    case 2
    with added_privileges [OF m 2(1)] show ?thesis by (auto simp: added_admin intro!: bexI [of _ a])
  qed
qed

text \<open>
  C16. After a synchronisation with the master realm every user this operator keeps there stands for an OpenShift user, and has the
  privileges of an administrator exactly when that user is in the group of dedicated administrators; every dedicated
  administrator has a user; and names and ids still match, so the next synchronisation starts from where this one began.
\<close>

theorem admin_privileges_exact:
  assumes m: "users_match ks us"
    and users: "us_ListUsers (sx_users env) w = Inr us" and groups: "us_ListGroups (sx_users env) w = Inr gs"
    and run: "syncAdminUsersInMasterRealm env ks ns w = (Inr users, w')"
  shows "users_match users us \<and>
    (\<forall>k \<in> set users. \<exists>u \<in> set us. federated_to k u \<and> (hasAdminPrivileges k \<longleftrightarrow> u_Name u \<in> set (getOsUsersInAdminsGroup gs))) \<and>
    (\<forall>u \<in> set us. u_Name u \<in> set (getOsUsersInAdminsGroup gs) \<longrightarrow> (\<exists>k \<in> set users. federated_to k u))"
proof -
  from sync_result [OF m users groups run] obtain kept where
    u: "users = map (synced ks us gs) (kept @ map new_admin (added_admins ks us gs))"
    and kept: "set kept = {k \<in> set ks. \<exists>u \<in> set us. federated_to k u}" and dist: "distinct (map ku_UserName users)" by blast
  have stands: "\<exists>u \<in> set us. federated_to k u \<and> ku_UserName k = u_Name u \<and> (hasAdminPrivileges k \<longleftrightarrow> u_Name u \<in> set (getOsUsersInAdminsGroup gs))"
    if "k \<in> set users" for k
    using synced_user [OF m _ kept] that unfolding u set_map by blast
  have "ku_UserName k = u_Name v" if "k \<in> set users" "v \<in> set us" "federated_to k v" for k v
    using stands [OF that(1)] federated_unique [OF m that(2) _ that(3)] by blast
  moreover have "'''' \<notin> ku_UserName ` set users" using stands m by (fastforce simp: users_match_def)
  ultimately have "users_match users us" using m dist by (simp add: users_match_def)
  moreover have "\<exists>k \<in> set users. federated_to k v" if v: "v \<in> set us" "u_Name v \<in> set (getOsUsersInAdminsGroup gs)" for v
  proof -
    consider k where "k \<in> set ks" "federated_to k v" | "v \<in> set (added_admins ks us gs)" using v by (auto simp: added_admin)
    then show ?thesis
    proof cases
      case (1 k)
      with v kept have "k \<in> set kept" by blast
      then have "synced ks us gs k \<in> set users" unfolding u by simp
      then show ?thesis by (rule bexI [rotated]) (simp add: 1)
    next
      case 2
      then have "synced ks us gs (new_admin v) \<in> set users" unfolding u by simp
      then show ?thesis by (rule bexI [rotated]) simp
    qed
  qed
  ultimately show ?thesis using stands by blast
qed

section \<open>The users of the cluster's instance\<close>

lemma new_keycloak_user [simp]: "ku_UserName (new_keycloak_user parse is u) = u_Name u"
  by (simp add: new_keycloak_user_def AppendUpdateProfileActionForUserWithoutEmail_def Let_def)

lemma kept_names:
  assumes dist: "distinct (map ku_UserName ks)"
  shows "n \<in> ku_UserName ` {k \<in> set ks. ku_UserName k \<notin> ku_UserName ` set (filter (\<lambda>k. \<not> OsUserInKc us k) ks)} \<longleftrightarrow>
    n \<in> ku_UserName ` set ks \<and> n \<in> u_Name ` set us"
proof -
  have "ku_UserName k \<in> ku_UserName ` set (filter (\<lambda>k. \<not> OsUserInKc us k) ks) \<longleftrightarrow> ku_UserName k \<notin> u_Name ` set us" if "k \<in> set ks" for k
    using that distinct_inject [OF dist] by (auto simp: OsUserInKc_def list_ex_iff image_iff) metis
  then show ?thesis by auto
qed

text \<open>
  C17. After a synchronisation the instance of the cluster has a user for exactly those users of the active identity providers that
  had one before or are in no excluded group; names stay unique, and every user has the roles of the installation type.
\<close>

theorem cluster_users_exact:
  assumes dist: "distinct (map ku_UserName ks)" and ne: "'''' \<notin> ku_UserName ` set ks"
    and active: "GetUsersInActiveIDPs (sx_users env) w = Inr us" and names: "distinct (map u_Name us)"
    and groups: "us_ListGroups (sx_users env) w = Inr gs"
    and run: "syncronizeWithOpenshiftUsers env t ks ns w = (Inr users, w')"
  shows "(\<forall>n. n \<in> ku_UserName ` set users \<longleftrightarrow>
        (\<exists>u \<in> set us. u_Name u = n \<and> (n \<in> ku_UserName ` set ks \<or> \<not> IsInExclusionGroup u gs))) \<and>
    distinct (map ku_UserName users) \<and> (\<forall>k \<in> set users. ku_ClientRoles k = Some (getKeycloakRoles t))"
proof -
  let ?del = "filter (\<lambda>k. \<not> OsUserInKc us k) ks"
  let ?add = "filter (\<lambda>u. \<not> kcContainsOsUser ks u \<and> \<not> IsInExclusionGroup u gs) us"
  from run active groups obtain kept ids where d: "DeleteKeycloakUsers (sx_kcusers env) ns ks ?del w = (Inr kept, w')" and
    u: "users = map (\<lambda>k. k\<lparr>ku_ClientRoles := Some (getKeycloakRoles t)\<rparr>)
          (kept @ map (new_keycloak_user (us_ParseAddress (sx_users env)) ids) ?add)"
    by (auto simp: syncronizeWithOpenshiftUsers_def RHSSO_getUserDiff_def split: prod.splits sum.splits)
  have nonempty: "'''' \<notin> ku_UserName ` set ?del" using ne by (auto simp: image_iff)
  note k = DeleteKeycloakUsers_distinct [OF d dist nonempty]
  have kept: "n \<in> ku_UserName ` set kept \<longleftrightarrow> n \<in> ku_UserName ` set ks \<and> n \<in> u_Name ` set us" for n
    unfolding k(1) by (rule kept_names [OF dist])
  have contained: "kcContainsOsUser ks u \<longleftrightarrow> u_Name u \<in> ku_UserName ` set ks" for u
    unfolding kcContainsOsUser_def list_ex_iff image_iff by (simp only: eq_commute)
  have map: "map ku_UserName users = map ku_UserName kept @ map u_Name ?add" by (simp add: u comp_def)
  have "n \<in> ku_UserName ` set users \<longleftrightarrow> n \<in> ku_UserName ` set kept \<or> n \<in> u_Name ` set ?add" for n
    using arg_cong [OF map, of set] by (simp del: set_filter)
  note names' = this
  have "n \<in> ku_UserName ` set users \<longleftrightarrow> (\<exists>u \<in> set us. u_Name u = n \<and> (n \<in> ku_UserName ` set ks \<or> \<not> IsInExclusionGroup u gs))" for n
    unfolding names' kept using contained by auto
  note have_names = this
  have "distinct (map u_Name ?add)" using names by (simp add: distinct_map inj_on_def)
  moreover have "set (map ku_UserName kept) \<inter> set (map u_Name ?add) = {}"
    unfolding set_map disjoint_iff kept using contained by (auto simp: image_iff) metis
  ultimately have "distinct (map ku_UserName users)" using k(2) unfolding map by simp
  moreover have "\<forall>k \<in> set users. ku_ClientRoles k = Some (getKeycloakRoles t)" by (auto simp: u)
  ultimately show ?thesis using have_names by blast
qed

text \<open>
  The exclusion groups are only looked at for new users: someone who joins one keeps the user they have.
\<close>

lemma excluded_user_kept:
  assumes "distinct (map ku_UserName ks)" and "'''' \<notin> ku_UserName ` set ks"
    and "GetUsersInActiveIDPs (sx_users env) w = Inr us" and "us_ListGroups (sx_users env) w = Inr gs"
    and "DeleteKeycloakUsers (sx_kcusers env) ns ks (snd (RHSSO_getUserDiff ks us gs)) w = (Inr kept, w')"
    and "u \<in> set us" and "u_Name u \<in> ku_UserName ` set ks" and "IsInExclusionGroup u gs"
  shows "u_Name u \<in> ku_UserName ` set kept"
proof -
  have "'''' \<notin> ku_UserName ` set (snd (RHSSO_getUserDiff ks us gs))"
    using assms(2) by (auto simp: RHSSO_getUserDiff_def image_iff)
  from DeleteKeycloakUsers_distinct(1) [OF assms(5,1) this] assms(6,7) distinct_inject [OF assms(1)] show ?thesis
    by (fastforce simp: RHSSO_getUserDiff_def OsUserInKc_def list_ex_iff)
qed

section \<open>Witnesses\<close>

definition sample_sso_env :: "unit sso_env" where
  "sample_sso_env = \<lparr>sx_users = \<lparr>us_ListUsers = (\<lambda>w. Inr [\<lparr>u_Name = ''ann'', u_UID = ''1'', u_Annotations = None, u_Identities = [''idp:ann'']\<rparr>,
        \<lparr>u_Name = ''bob'', u_UID = ''2'', u_Annotations = None, u_Identities = [''idp:bob'']\<rparr>]),
      us_ListGroups = (\<lambda>w. Inr [\<lparr>gr_Name = ''dedicated-admins'', gr_Users = [''ann'']\<rparr>]),
      us_ListIdentities = (\<lambda>w. Inr [\<lparr>id_Name = ''idp:ann'', id_ProviderName = ''idp'', id_UserName = ''ann'', id_Extra = []\<rparr>]),
      us_ListOAuths = (\<lambda>w. Inr [[''idp'']]), us_groups = empty_api, us_ParseAddress = (\<lambda>s. False)\<rparr>,
    sx_kcusers = empty_api, sx_ListKeycloakUsers = (\<lambda>l n w. Inr [])\<rparr>"

definition sample_admin :: "string \<Rightarrow> string \<Rightarrow> KeycloakAPIUser" where
  "sample_admin n i = new_admin \<lparr>u_Name = n, u_UID = i, u_Annotations = None, u_Identities = []\<rparr>"

theorem admin_privileges_exact_witness:
  "\<exists>users w'. syncAdminUsersInMasterRealm sample_sso_env [sample_admin ''bob'' ''2''] ''ns'' () = (Inr users, w') \<and>
     (\<forall>k \<in> set users. hasAdminPrivileges k \<longleftrightarrow> federated_to k \<lparr>u_Name = ''ann'', u_UID = ''1'', u_Annotations = None, u_Identities = [''idp:ann'']\<rparr>) \<and>
     length users = 2"
proof -
  let ?us = "[\<lparr>u_Name = ''ann'', u_UID = ''1'', u_Annotations = None, u_Identities = [''idp:ann'']\<rparr>,
        \<lparr>u_Name = ''bob'', u_UID = ''2'', u_Annotations = None, u_Identities = [''idp:bob'']\<rparr>]"
  have m: "users_match [sample_admin ''bob'' ''2''] ?us" by (auto simp: users_match_def sample_admin_def)
  have lists: "us_ListUsers (sx_users sample_sso_env) () = Inr ?us"
    "us_ListGroups (sx_users sample_sso_env) () = Inr [\<lparr>gr_Name = ''dedicated-admins'', gr_Users = [''ann'']\<rparr>]"
    by (simp_all add: sample_sso_env_def)
  obtain users where r: "syncAdminUsersInMasterRealm sample_sso_env [sample_admin ''bob'' ''2''] ''ns'' () = (Inr users, ())" and l: "length users = 2"
    unfolding syncAdminUsersInMasterRealm_def
    by (simp add: sample_sso_env_def RHSSOUser_getUserDiff_def getDedicatedAdmins_def getKeyCloakUser_def getOpenShiftUser_def
        kcUserInDedicatedAdmins_def sample_admin_def List.map_filter_def unprivileged_def addKeycloakUsers_eq
        promoteKeycloakUsers_def demoteKeycloakUsers_def)
  from admin_privileges_exact [OF m lists r] have "\<forall>k \<in> set users. \<exists>u \<in> set ?us. federated_to k u \<and> (hasAdminPrivileges k \<longleftrightarrow> u_Name u \<in> {''ann''})"
    by simp
  then have "\<forall>k \<in> set users. hasAdminPrivileges k \<longleftrightarrow> federated_to k \<lparr>u_Name = ''ann'', u_UID = ''1'', u_Annotations = None, u_Identities = [''idp:ann'']\<rparr>"
    by (auto simp: federated_to_def)
  with r l show ?thesis by blast
qed

theorem cluster_users_exact_witness:
  "\<exists>users w'. syncronizeWithOpenshiftUsers sample_sso_env ''managed-api'' [sample_admin ''bob'' ''2''] ''ns'' () = (Inr users, w') \<and>
     ku_UserName ` set users = {''ann''}"
proof -
  let ?ann = "\<lparr>u_Name = ''ann'', u_UID = ''1'', u_Annotations = None, u_Identities = [''idp:ann'']\<rparr>"
  have active: "GetUsersInActiveIDPs (sx_users sample_sso_env) () = Inr [?ann]"
    by (simp add: sample_sso_env_def GetUsersInActiveIDPs_def GetIdentities_def List.map_filter_def)
  have groups: "us_ListGroups (sx_users sample_sso_env) () = Inr [\<lparr>gr_Name = ''dedicated-admins'', gr_Users = [''ann'']\<rparr>]"
    by (simp add: sample_sso_env_def)
  obtain users where r: "syncronizeWithOpenshiftUsers sample_sso_env ''managed-api'' [sample_admin ''bob'' ''2''] ''ns'' () = (Inr users, ())"
    unfolding syncronizeWithOpenshiftUsers_def active sum.case groups
    by (simp add: sample_sso_env_def RHSSO_getUserDiff_def OsUserInKc_def sample_admin_def GetValidGeneratedUserName_def empty_api_def no_api_def Let_def)
  have p: "distinct (map ku_UserName [sample_admin ''bob'' ''2''])" "'''' \<notin> ku_UserName ` set [sample_admin ''bob'' ''2'']"
    "distinct (map u_Name [?ann])" by (simp_all add: sample_admin_def)
  have "\<forall>n. n \<in> ku_UserName ` set users \<longleftrightarrow> (\<exists>u \<in> set [?ann]. u_Name u = n \<and> (n \<in> ku_UserName ` set [sample_admin ''bob'' ''2''] \<or>
      \<not> IsInExclusionGroup u [\<lparr>gr_Name = ''dedicated-admins'', gr_Users = [''ann'']\<rparr>]))"
    by (rule conjunct1 [OF cluster_users_exact [OF p(1,2) active p(3) groups r]])
  moreover have "\<not> IsInExclusionGroup ?ann [\<lparr>gr_Name = ''dedicated-admins'', gr_Users = [''ann'']\<rparr>]"
    by (simp add: IsInExclusionGroup_def exclusionGroups_def)
  ultimately have "n \<in> ku_UserName ` set users \<longleftrightarrow> n \<in> {''ann''}" for n by auto
  then have "ku_UserName ` set users = {''ann''}" by (rule set_eqI)
  with r show ?thesis by blast
qed

end
