(* ===== verification/SSO_Groups.thy ===== *)
theory SSO_Groups
  imports SSO_Users Product_Steps
begin

text \<open>
  The groups, roles and authentication flows the operator sets up in Keycloak through its HTTP interface
  (\<^verbatim>\<open>pkg/products/rhssouser/reconciler.go\<close> from \<^verbatim>\<open>reconcileBrowserAuthFlow\<close> on, and \<^verbatim>\<open>createAuthDelayAuthenticationFlow\<close>
  of \<^verbatim>\<open>pkg/products/rhsso/reconciler.go\<close>). The client of that interface is a record of its calls; a call that changes
  Keycloak returns the new state of the cluster.
\<close>

section \<open>The client of Keycloak\<close>

record KeycloakUserRole =
  kr_ID :: string
  kr_Name :: string

record ExecutionInfo =
  ex_ID :: string
  ex_Alias :: string
  ex_ProviderID :: string
  ex_Requirement :: string
  ex_AuthenticationConfig :: string

record IdentityProvider =
  idp_Alias :: string
  idp_ProviderID :: string
  idp_Enabled :: bool
  idp_TrustEmail :: bool
  idp_StoreToken :: bool
  idp_AddReadTokenRoleOnCreate :: bool
  idp_FirstBrokerLoginFlowAlias :: string
  idp_LinkOnly :: bool
  idp_Config :: "(string, string) gomap option"

record 'w keycloak_api =
  kc_FindGroupByName :: "string \<Rightarrow> string \<Rightarrow> 'w \<Rightarrow> err + string option"
  kc_CreateGroup :: "string \<Rightarrow> string \<Rightarrow> 'w \<Rightarrow> (err + string) \<times> 'w"
  kc_MakeGroupDefault :: "string \<Rightarrow> string \<Rightarrow> 'w \<Rightarrow> err option \<times> 'w"
  kc_SetGroupChild :: "string \<Rightarrow> string \<Rightarrow> string \<Rightarrow> string \<Rightarrow> 'w \<Rightarrow> err option \<times> 'w"
  kc_ListClients :: "string \<Rightarrow> 'w \<Rightarrow> err + (string \<times> string) list"
  kc_ListGroupClientRoles :: "string \<Rightarrow> string \<Rightarrow> string \<Rightarrow> 'w \<Rightarrow> err + KeycloakUserRole list"
  kc_ListAvailableGroupClientRoles :: "string \<Rightarrow> string \<Rightarrow> string \<Rightarrow> 'w \<Rightarrow> err + KeycloakUserRole list"
  kc_CreateGroupClientRole :: "KeycloakUserRole \<Rightarrow> string \<Rightarrow> string \<Rightarrow> string \<Rightarrow> 'w \<Rightarrow> err option \<times> 'w"
  kc_ListGroupRealmRoles :: "string \<Rightarrow> string \<Rightarrow> 'w \<Rightarrow> err + KeycloakUserRole list"
  kc_ListAvailableGroupRealmRoles :: "string \<Rightarrow> string \<Rightarrow> 'w \<Rightarrow> err + KeycloakUserRole list"
  kc_CreateGroupRealmRole :: "KeycloakUserRole \<Rightarrow> string \<Rightarrow> string \<Rightarrow> 'w \<Rightarrow> err option \<times> 'w"
  kc_ListRealms :: "'w \<Rightarrow> err + string list"
  kc_FindGroupByPath :: "string \<Rightarrow> string \<Rightarrow> 'w \<Rightarrow> err + string option"
  kc_AddUserToGroup :: "string \<Rightarrow> string \<Rightarrow> string \<Rightarrow> 'w \<Rightarrow> err option \<times> 'w"
  kc_FindUserByUsername :: "string \<Rightarrow> string \<Rightarrow> 'w \<Rightarrow> err + string"
  kc_DeleteUser :: "string \<Rightarrow> string \<Rightarrow> 'w \<Rightarrow> err option \<times> 'w"
  kc_ListExecutions :: "string \<Rightarrow> string \<Rightarrow> 'w \<Rightarrow> err + ExecutionInfo list"
  kc_FindExecution :: "string \<Rightarrow> string \<Rightarrow> (ExecutionInfo \<Rightarrow> bool) \<Rightarrow> 'w \<Rightarrow> err + ExecutionInfo option"
  kc_UpdateExecution :: "string \<Rightarrow> string \<Rightarrow> ExecutionInfo \<Rightarrow> 'w \<Rightarrow> err option \<times> 'w"
  kc_CreateAuthenticatorConfig :: "string \<Rightarrow> (string, string) gomap \<Rightarrow> string \<Rightarrow> string \<Rightarrow> 'w \<Rightarrow> err option \<times> 'w"
  kc_FindFlow :: "string \<Rightarrow> string \<Rightarrow> 'w \<Rightarrow> err + string option"
  kc_CreateFlow :: "string \<Rightarrow> string \<Rightarrow> bool \<Rightarrow> bool \<Rightarrow> string \<Rightarrow> 'w \<Rightarrow> err option \<times> 'w"
  kc_AddExecution :: "string \<Rightarrow> string \<Rightarrow> string \<Rightarrow> string \<Rightarrow> 'w \<Rightarrow> err option \<times> 'w"
  kc_GetIdentityProvider :: "string \<Rightarrow> string \<Rightarrow> 'w \<Rightarrow> err + IdentityProvider option"
  kc_CreateIdentityProvider :: "IdentityProvider \<Rightarrow> string \<Rightarrow> 'w \<Rightarrow> err option \<times> 'w"
  kc_UpdateIdentityProvider :: "IdentityProvider \<Rightarrow> string \<Rightarrow> 'w \<Rightarrow> err option \<times> 'w"

text \<open>Each of the steps below gets its client by authenticating as the administrator of the instance.\<close>

type_synonym 'w authenticator = "'w \<Rightarrow> err + 'w keycloak_api"

definition with_client :: "'w authenticator \<Rightarrow> ('w keycloak_api \<Rightarrow> 'w phase_op) \<Rightarrow> 'w phase_op" where
  "with_client auth f w = (case auth w of Inl e \<Rightarrow> ((PhaseFailed, Some e), w) | Inr kc \<Rightarrow> f kc w)"

section \<open>Roles of a group\<close>

definition find_role :: "string \<Rightarrow> KeycloakUserRole list \<Rightarrow> KeycloakUserRole option" where
  "find_role roleName roles = List.find (\<lambda>r. kr_Name r = roleName) roles"

definition mapRoleToGroupByName ::
  "string \<Rightarrow> ('w \<Rightarrow> err + KeycloakUserRole list) \<Rightarrow> ('w \<Rightarrow> err + KeycloakUserRole list) \<Rightarrow>
   (KeycloakUserRole \<Rightarrow> 'w \<Rightarrow> err option \<times> 'w) \<Rightarrow> 'w \<Rightarrow> err option \<times> 'w" where
  "mapRoleToGroupByName roleName listMappedRoles listAvailableRoles mapRoleToGroup w =
     (case listMappedRoles w of
        Inl e \<Rightarrow> (Some e, w)
      | Inr existing \<Rightarrow>
          if find_role roleName existing \<noteq> None then (None, w)
          else (case listAvailableRoles w of
                  Inl e \<Rightarrow> (Some e, w)
                | Inr available \<Rightarrow>
                    (case find_role roleName available of
                       None \<Rightarrow> (Some (Msg (roleName @ '' role not found as available role for group'')), w)
                     | Some role \<Rightarrow> mapRoleToGroup role w)))"

definition mapClientRoleToGroup :: "'w keycloak_api \<Rightarrow> string \<Rightarrow> string \<Rightarrow> string \<Rightarrow> string \<Rightarrow> 'w \<Rightarrow> err option \<times> 'w" where
  "mapClientRoleToGroup kc realmName groupID clientID roleName w =
     mapRoleToGroupByName roleName (kc_ListGroupClientRoles kc realmName clientID groupID)
       (kc_ListAvailableGroupClientRoles kc realmName clientID groupID)
       (\<lambda>role. kc_CreateGroupClientRole kc role realmName clientID groupID) w"

definition mapRealmRoleToGroup :: "'w keycloak_api \<Rightarrow> string \<Rightarrow> string \<Rightarrow> string \<Rightarrow> 'w \<Rightarrow> err option \<times> 'w" where
  "mapRealmRoleToGroup kc realmName groupID roleName w =
     mapRoleToGroupByName roleName (kc_ListGroupRealmRoles kc realmName groupID)
       (kc_ListAvailableGroupRealmRoles kc realmName groupID)
       (\<lambda>role. kc_CreateGroupRealmRole kc role realmName groupID) w"

text \<open>Clients by their name; of two clients with one name the later one stays in the map.\<close>

definition listClientsByName :: "'w keycloak_api \<Rightarrow> string \<Rightarrow> 'w \<Rightarrow> err + (string, string) gomap" where
  "listClientsByName kc realmName w =
     (case kc_ListClients kc realmName w of
        Inl e \<Rightarrow> Inl e
      | Inr clients \<Rightarrow> Inr (foldl (\<lambda>m (clientID, i). gset clientID i m) [] clients))"

section \<open>Groups\<close>

record keycloakClientRole =
  cr_ClientName :: string
  cr_RoleName :: string

datatype keycloakGroupSpec = GroupSpec
  (g_Name: string) (g_RealmName: string) (g_IsDefault: bool)
  (g_RealmRoles: "string list") (g_ClientRoles: "keycloakClientRole list") (g_ChildGroups: "keycloakGroupSpec list")

fun client_roles_loop ::
  "'w keycloak_api \<Rightarrow> (string, string) gomap \<Rightarrow> string \<Rightarrow> string \<Rightarrow> keycloakClientRole list \<Rightarrow> 'w \<Rightarrow> err option \<times> 'w" where
  "client_roles_loop kc clients realm groupID [] w = (None, w)"
| "client_roles_loop kc clients realm groupID (role # roles) w =
     (case map_of clients (cr_ClientName role) of
        None \<Rightarrow> (Some (Msg (''Client '' @ cr_ClientName role @ '' required for role '' @ cr_RoleName role @ '' not found in realm '' @ realm)), w)
      | Some clientID \<Rightarrow>
          (case mapClientRoleToGroup kc realm groupID clientID (cr_RoleName role) w of
             (Some e, w') \<Rightarrow> (Some e, w')
           | (None, w') \<Rightarrow> client_roles_loop kc clients realm groupID roles w'))"

definition reconcileGroupClientRoles :: "'w keycloak_api \<Rightarrow> string \<Rightarrow> keycloakGroupSpec \<Rightarrow> 'w \<Rightarrow> err option \<times> 'w" where
  "reconcileGroupClientRoles kc groupID grp w =
     (if length (g_ClientRoles grp) = 0 then (None, w)
      else (case listClientsByName kc (g_RealmName grp) w of
              Inl e \<Rightarrow> (Some e, w)
            | Inr clients \<Rightarrow> client_roles_loop kc clients (g_RealmName grp) groupID (g_ClientRoles grp) w))"

fun realm_roles_loop :: "'w keycloak_api \<Rightarrow> string \<Rightarrow> string \<Rightarrow> string list \<Rightarrow> 'w \<Rightarrow> err option \<times> 'w" where
  "realm_roles_loop kc realm groupID [] w = (None, w)"
| "realm_roles_loop kc realm groupID (role # roles) w =
     (case mapRealmRoleToGroup kc realm groupID role w of
        (Some e, w') \<Rightarrow> (Some e, w')
      | (None, w') \<Rightarrow> realm_roles_loop kc realm groupID roles w')"

definition reconcileGroupRealmRoles :: "'w keycloak_api \<Rightarrow> string \<Rightarrow> keycloakGroupSpec \<Rightarrow> 'w \<Rightarrow> err option \<times> 'w" where
  "reconcileGroupRealmRoles kc groupID grp w = realm_roles_loop kc (g_RealmName grp) groupID (g_RealmRoles grp) w"

text \<open>The part of \<^verbatim>\<open>reconcileGroup\<close> before the children: the group, its default flag and its roles.\<close>

definition group_id :: "'w keycloak_api \<Rightarrow> keycloakGroupSpec \<Rightarrow> 'w \<Rightarrow> (err + string) \<times> 'w" where
  "group_id kc grp w =
     (case kc_FindGroupByName kc (g_Name grp) (g_RealmName grp) w of
        Inl e \<Rightarrow> (Inl (Msg (''Error querying groups in realm '' @ g_RealmName grp @ '': '' @ err_string e)), w)
      | Inr (Some i) \<Rightarrow> (Inr i, w)
      | Inr None \<Rightarrow>
          (case kc_CreateGroup kc (g_Name grp) (g_RealmName grp) w of
             (Inl e, w') \<Rightarrow> (Inl (Msg (''Error creating new group '' @ g_Name grp @ '': '' @ err_string e)), w')
           | (Inr i, w') \<Rightarrow> (Inr i, w')))"

definition group_itself :: "'w keycloak_api \<Rightarrow> keycloakGroupSpec \<Rightarrow> 'w \<Rightarrow> (err + string) \<times> 'w" where
  "group_itself kc grp w =
     (case group_id kc grp w of
        (Inl e, w1) \<Rightarrow> (Inl e, w1)
      | (Inr groupID, w1) \<Rightarrow>
          (case (if g_IsDefault grp then kc_MakeGroupDefault kc groupID (g_RealmName grp) w1 else (None, w1)) of
             (Some e, w2) \<Rightarrow> (Inl (Msg (''Error making group '' @ g_Name grp @ '' default: '' @ err_string e)), w2)
           | (None, w2) \<Rightarrow>
               (case reconcileGroupClientRoles kc groupID grp w2 of
                  (Some e, w3) \<Rightarrow> (Inl e, w3)
                | (None, w3) \<Rightarrow>
                    (case reconcileGroupRealmRoles kc groupID grp w3 of
                       (Some e, w4) \<Rightarrow> (Inl e, w4)
                     | (None, w4) \<Rightarrow> (Inr groupID, w4)))))"

fun reconcileGroup :: "'w keycloak_api \<Rightarrow> keycloakGroupSpec \<Rightarrow> 'w \<Rightarrow> (err + string) \<times> 'w"
and reconcile_children :: "'w keycloak_api \<Rightarrow> string \<Rightarrow> keycloakGroupSpec \<Rightarrow> keycloakGroupSpec list \<Rightarrow> 'w \<Rightarrow> err option \<times> 'w" where
  "reconcileGroup kc (GroupSpec n r d rr cr children) w =
     (case group_itself kc (GroupSpec n r d rr cr children) w of
        (Inl e, w1) \<Rightarrow> (Inl e, w1)
      | (Inr groupID, w1) \<Rightarrow>
          (case reconcile_children kc groupID (GroupSpec n r d rr cr []) children w1 of
             (Some e, w2) \<Rightarrow> (Inl e, w2)
           | (None, w2) \<Rightarrow> (Inr groupID, w2)))"
| "reconcile_children kc groupID grp [] w = (None, w)"
| "reconcile_children kc groupID grp (child # children) w =
     (case reconcileGroup kc child w of
        (Inl e, w1) \<Rightarrow> (Some (Msg (''Error creating child group '' @ g_Name child @ '' for group '' @ g_Name grp @ '': '' @ err_string e)), w1)
      | (Inr childID, w1) \<Rightarrow>
          (case kc_SetGroupChild kc groupID (g_RealmName grp) childID (g_Name child) w1 of
             (Some e, w2) \<Rightarrow>
               (Some (Msg (''Error assigning child group '' @ g_Name child @ '' to parent group '' @ g_Name grp @ '': '' @ err_string e)), w2)
           | (None, w2) \<Rightarrow> reconcile_children kc groupID grp children w2))"

definition reconcileDevelopersGroup :: "'w authenticator \<Rightarrow> 'w phase_op" where
  "reconcileDevelopersGroup auth = with_client auth (\<lambda>kc w.
     (case reconcileGroup kc (GroupSpec ''rhmi-developers'' masterRealmName True [''create-realm'']
             [\<lparr>cr_ClientName = ''master-realm'', cr_RoleName = ''view-realm''\<rparr>] []) w of
        (Inl e, w') \<Rightarrow> ((PhaseFailed, Some e), w')
      | (Inr i, w') \<Rightarrow> ((PhaseCompleted, None), w')))"

definition realmManagersClientRoles :: "string list" where
  "realmManagersClientRoles = [''create-client'', ''manage-authorization'', ''manage-clients'', ''manage-events'',
     ''manage-identity-providers'', ''manage-realm'', ''manage-users'', ''query-clients'', ''query-groups'', ''query-realms'',
     ''query-users'', ''view-authorization'', ''view-clients'', ''view-events'', ''view-identity-providers'', ''view-realm'',
     ''view-users'']"

definition dedicatedAdminsSpec :: keycloakGroupSpec where
  "dedicatedAdminsSpec = GroupSpec dedicatedAdminsGroupName masterRealmName False []
     [\<lparr>cr_ClientName = ''master-realm'', cr_RoleName = ''manage-users''\<rparr>, \<lparr>cr_ClientName = ''master-realm'', cr_RoleName = ''view-realm''\<rparr>]
     [GroupSpec realmManagersGroupName masterRealmName False [] [] []]"

definition realmManagersSpec :: "string list \<Rightarrow> keycloakGroupSpec" where
  "realmManagersSpec realms = GroupSpec realmManagersGroupName masterRealmName False []
     (concat (map (\<lambda>realm. map (\<lambda>role. \<lparr>cr_ClientName = realm @ ''-realm'', cr_RoleName = role\<rparr>) realmManagersClientRoles)
        (filter (\<lambda>realm. realm \<noteq> masterRealmName) realms))) []"

definition reconcileDedicatedAdminsGroup :: "'w authenticator \<Rightarrow> 'w phase_op" where
  "reconcileDedicatedAdminsGroup auth = with_client auth (\<lambda>kc w.
     (case reconcileGroup kc dedicatedAdminsSpec w of
        (Inl e, w1) \<Rightarrow> ((PhaseFailed, Some e), w1)
      | (Inr i, w1) \<Rightarrow>
          (case kc_ListRealms kc w1 of
             Inl e \<Rightarrow> ((PhaseFailed, Some e), w1)
           | Inr realms \<Rightarrow>
               (case reconcileGroup kc (realmManagersSpec realms) w1 of
                  (Inl e, w2) \<Rightarrow> ((PhaseFailed, Some e), w2)
                | (Inr j, w2) \<Rightarrow> ((PhaseCompleted, None), w2)))))"

section \<open>Members of groups\<close>

text \<open>The ids found are kept in a map over all users; a group that does not exist is skipped and looked for again.\<close>

fun membership_groups ::
  "'w keycloak_api \<Rightarrow> string \<Rightarrow> string \<Rightarrow> string list \<Rightarrow> (string, string) gomap \<Rightarrow> 'w \<Rightarrow> (err + (string, string) gomap) \<times> 'w" where
  "membership_groups kc realm userID [] pool w = (Inr pool, w)"
| "membership_groups kc realm userID (g # gs) pool w =
     (case (case map_of pool g of
              Some i \<Rightarrow> Inr (Some i)
            | None \<Rightarrow> kc_FindGroupByPath kc g realm w) of
        Inl e \<Rightarrow> (Inl e, w)
      | Inr None \<Rightarrow> membership_groups kc realm userID gs pool w
      | Inr (Some i) \<Rightarrow>
          (case kc_AddUserToGroup kc realm userID i w of
             (Some e, w') \<Rightarrow> (Inl e, w')
           | (None, w') \<Rightarrow> membership_groups kc realm userID gs (gset g i pool) w'))"

fun membership_loop ::
  "'w keycloak_api \<Rightarrow> string \<Rightarrow> KeycloakAPIUser list \<Rightarrow> (string, string) gomap \<Rightarrow> 'w \<Rightarrow> err option \<times> 'w" where
  "membership_loop kc realm [] pool w = (None, w)"
| "membership_loop kc realm (u # us) pool w =
     (case membership_groups kc realm (ku_ID u) (ku_Groups u) pool w of
        (Inl e, w') \<Rightarrow> (Some e, w')
      | (Inr pool', w') \<Rightarrow> membership_loop kc realm us pool' w')"

definition reconcileGroupMembership :: "'w keycloak_api \<Rightarrow> KeycloakAPIUser list \<Rightarrow> string \<Rightarrow> 'w \<Rightarrow> err option \<times> 'w" where
  "reconcileGroupMembership kc users realm w = membership_loop kc realm users [] w"

section \<open>Authentication flows\<close>

fun find_redirector :: "ExecutionInfo list \<Rightarrow> ExecutionInfo option" where
  "find_redirector [] = None"
| "find_redirector (x # xs) = (if ex_ProviderID x = ''identity-provider-redirector'' then Some x else find_redirector xs)"

definition reconcileBrowserAuthFlow :: "'w authenticator \<Rightarrow> 'w phase_op" where
  "reconcileBrowserAuthFlow auth = with_client auth (\<lambda>kc w.
     (case kc_ListExecutions kc ''browser'' masterRealmName w of
        Inl e \<Rightarrow> ((PhaseFailed, Some (Wrap ''Failed to retrieve execution flows on master realm'' e)), w)
      | Inr executions \<Rightarrow>
          (let found = find_redirector executions; executionID = (case found of None \<Rightarrow> '''' | Some x \<Rightarrow> ex_ID x) in
           if (case found of None \<Rightarrow> False | Some x \<Rightarrow> ex_AuthenticationConfig x \<noteq> '''') then ((PhaseCompleted, None), w)
           else if executionID = '''' then
             ((PhaseFailed, Some (Msg ''Failed to find relevant ProviderID in Authentication Executions: %!w(<nil>)'')), w)
           else (case kc_CreateAuthenticatorConfig kc sso_idpAlias [(''defaultProvider'', sso_idpAlias)] masterRealmName executionID w of
                   (Some e, w') \<Rightarrow> ((PhaseFailed, Some (Wrap ''Failed to create Authenticator Config'' e)), w')
                 | (None, w') \<Rightarrow> ((PhaseCompleted, None), w')))))"

definition reconcileFirstLoginAuthFlow :: "'w authenticator \<Rightarrow> 'w phase_op" where
  "reconcileFirstLoginAuthFlow auth = with_client auth (\<lambda>kc w.
     (case kc_FindExecution kc ''first broker login'' masterRealmName (\<lambda>x. ex_Alias x = ''review profile config'') w of
        Inl e \<Rightarrow> ((PhaseFailed, Some e), w)
      | Inr None \<Rightarrow> ((PhaseCompleted, None), w)
      | Inr (Some x) \<Rightarrow>
          if ToUpper (ex_Requirement x) = ''DISABLED'' then ((PhaseCompleted, None), w)
          else (case kc_UpdateExecution kc ''first broker login'' masterRealmName (x\<lparr>ex_Requirement := ''DISABLED''\<rparr>) w of
                  (None, w') \<Rightarrow> ((PhaseCompleted, None), w')
                | (Some e, w') \<Rightarrow> ((PhaseFailed, Some e), w'))))"

abbreviation authFlowAlias :: string where "authFlowAlias \<equiv> ''authdelay''"
abbreviation openshiftRealm :: string where "openshiftRealm \<equiv> ''openshift''"

text \<open>
  The delay before a first login: the flow, its execution, and the identity provider that points to it, each only when it is
  not there yet. A provider that is not found is nil and its field is read.
\<close>

definition ensure_flow :: "'w keycloak_api \<Rightarrow> 'w \<Rightarrow> err option \<times> 'w" where
  "ensure_flow kc w =
     (case kc_FindFlow kc authFlowAlias openshiftRealm w of
        Inl e \<Rightarrow> (Some (Wrap ''failed to find authentication flow by alias via keycloak api'' e), w)
      | Inr (Some i) \<Rightarrow> (None, w)
      | Inr None \<Rightarrow>
          (case kc_CreateFlow kc authFlowAlias ''basic-flow'' True False openshiftRealm w of
             (Some e, w') \<Rightarrow> (Some (Wrap ''failed to create authentication flow via keycloak api'' e), w')
           | (None, w') \<Rightarrow> (None, w')))"

definition ensure_execution :: "'w keycloak_api \<Rightarrow> 'w \<Rightarrow> err option \<times> 'w" where
  "ensure_execution kc w =
     (case kc_FindExecution kc authFlowAlias openshiftRealm (\<lambda>x. ex_ProviderID x = ''delay-authentication'') w of
        Inl e \<Rightarrow> (Some (Wrap ''failed to find authentication execution flow via keycloak api'' e), w)
      | Inr (Some x) \<Rightarrow> (None, w)
      | Inr None \<Rightarrow>
          (case kc_AddExecution kc authFlowAlias openshiftRealm ''delay-authentication'' ''REQUIRED'' w of
             (Some e, w') \<Rightarrow> (Some (Wrap ''failed to add execution to authentication flow via keycloak api'' e), w')
           | (None, w') \<Rightarrow> (None, w')))"

definition point_to_flow :: "'w keycloak_api \<Rightarrow> 'w \<Rightarrow> err option \<times> 'w" where
  "point_to_flow kc w =
     (case kc_GetIdentityProvider kc sso_idpAlias openshiftRealm w of
        Inl e \<Rightarrow> (Some (Wrap ''failed to get identity provider via keycloak api'' e), w)
      | Inr None \<Rightarrow> (Some (GoPanic ''nil pointer dereference''), w)
      | Inr (Some idp) \<Rightarrow>
          if idp_FirstBrokerLoginFlowAlias idp \<noteq> authFlowAlias then
            (case kc_UpdateIdentityProvider kc (idp\<lparr>idp_FirstBrokerLoginFlowAlias := authFlowAlias\<rparr>) openshiftRealm w of
               (Some e, w') \<Rightarrow> (Some (Wrap ''failed to update identity provider via keycloak api'' e), w')
             | (None, w') \<Rightarrow> (None, w'))
          else (None, w))"

definition createAuthDelayAuthenticationFlow :: "'w keycloak_api \<Rightarrow> 'w \<Rightarrow> err option \<times> 'w" where
  "createAuthDelayAuthenticationFlow kc w =
     (case ensure_flow kc w of
        (Some e, w1) \<Rightarrow> (Some e, w1)
      | (None, w1) \<Rightarrow>
          (case ensure_execution kc w1 of
             (Some e, w2) \<Rightarrow> (Some e, w2)
           | (None, w2) \<Rightarrow> point_to_flow kc w2))"

lemmas sso_group_defs [go_defs] = with_client_def mapRoleToGroupByName_def mapClientRoleToGroup_def mapRealmRoleToGroup_def
  listClientsByName_def reconcileGroupClientRoles_def reconcileGroupRealmRoles_def group_id_def group_itself_def
  reconcileDevelopersGroup_def reconcileDedicatedAdminsGroup_def reconcileGroupMembership_def reconcileBrowserAuthFlow_def
  reconcileFirstLoginAuthFlow_def ensure_flow_def ensure_execution_def point_to_flow_def createAuthDelayAuthenticationFlow_def

section \<open>What is granted stays granted\<close>

text \<open>A role of a client that is mapped to a group.\<close>

definition granted :: "'w keycloak_api \<Rightarrow> string \<Rightarrow> string \<Rightarrow> string \<Rightarrow> string \<Rightarrow> 'w \<Rightarrow> bool" where
  "granted kc realm client g role w \<longleftrightarrow>
     (\<exists>rs. kc_ListGroupClientRoles kc realm client g w = Inr rs \<and> role \<in> kr_Name ` set rs)"

definition keeps_grants :: "'w keycloak_api \<Rightarrow> ('w \<Rightarrow> 'a \<times> 'w) \<Rightarrow> bool" where
  "keeps_grants kc f \<longleftrightarrow> (\<forall>w realm client g role. granted kc realm client g role w \<longrightarrow> granted kc realm client g role (snd (f w)))"

text \<open>
  What is assumed of Keycloak: a mapping that was created is listed, and none of the calls that create groups or map roles
  removes a mapping.
\<close>

definition keycloak_grants :: "'w keycloak_api \<Rightarrow> bool" where
  "keycloak_grants kc \<longleftrightarrow>
     (\<forall>role realm client g w w'. kc_CreateGroupClientRole kc role realm client g w = (None, w') \<longrightarrow> granted kc realm client g (kr_Name role) w') \<and>
     (\<forall>role realm client g. keeps_grants kc (kc_CreateGroupClientRole kc role realm client g)) \<and>
     (\<forall>role realm g. keeps_grants kc (kc_CreateGroupRealmRole kc role realm g)) \<and>
     (\<forall>n realm. keeps_grants kc (kc_CreateGroup kc n realm)) \<and>
     (\<forall>g realm. keeps_grants kc (kc_MakeGroupDefault kc g realm)) \<and>
     (\<forall>g realm c n. keeps_grants kc (kc_SetGroupChild kc g realm c n))"

lemma keeps_grantsD: "keeps_grants kc f \<Longrightarrow> granted kc realm client g role w \<Longrightarrow> f w = (r, w') \<Longrightarrow> granted kc realm client g role w'"
  unfolding keeps_grants_def by (metis snd_conv)

lemma keeps_grantsI:
  "(\<And>w r w' realm client g role. f w = (r, w') \<Longrightarrow> granted kc realm client g role w \<Longrightarrow> granted kc realm client g role w') \<Longrightarrow> keeps_grants kc f"
  unfolding keeps_grants_def by (metis prod.collapse)

lemma mapRole_keeps:
  "(\<And>role. keeps_grants kc (mapRole role)) \<Longrightarrow> keeps_grants kc (mapRoleToGroupByName n ls av mapRole)"
  by (rule keeps_grantsI) (auto simp: mapRoleToGroupByName_def split: sum.splits option.splits if_splits dest: keeps_grantsD)

lemma map_roles_keep:
  assumes "keycloak_grants kc"
  shows "keeps_grants kc (mapClientRoleToGroup kc realm g client role)" and "keeps_grants kc (mapRealmRoleToGroup kc realm g role)"
proof -
  have "keeps_grants kc (mapRoleToGroupByName role (kc_ListGroupClientRoles kc realm client g)
      (kc_ListAvailableGroupClientRoles kc realm client g) (\<lambda>r. kc_CreateGroupClientRole kc r realm client g))"
    by (rule mapRole_keeps) (use assms in \<open>simp add: keycloak_grants_def\<close>)
  moreover have "keeps_grants kc (mapRoleToGroupByName role (kc_ListGroupRealmRoles kc realm g)
      (kc_ListAvailableGroupRealmRoles kc realm g) (\<lambda>r. kc_CreateGroupRealmRole kc r realm g))"
    by (rule mapRole_keeps) (use assms in \<open>simp add: keycloak_grants_def\<close>)
  ultimately show "keeps_grants kc (mapClientRoleToGroup kc realm g client role)" and "keeps_grants kc (mapRealmRoleToGroup kc realm g role)"
    by (simp_all add: keeps_grants_def mapClientRoleToGroup_def mapRealmRoleToGroup_def)
qed

lemma find_role_in: "find_role n rs = Some r \<Longrightarrow> r \<in> set rs \<and> kr_Name r = n"
  by (auto simp: find_role_def find_Some_iff)

lemma mapClientRole_grants:
  assumes kc: "keycloak_grants kc" and run: "mapClientRoleToGroup kc realm g client role w = (None, w')"
  shows "granted kc realm client g role w'"
proof -
  note run = run [unfolded mapClientRoleToGroup_def mapRoleToGroupByName_def]
  obtain rs where rs: "kc_ListGroupClientRoles kc realm client g w = Inr rs"
    using run by (cases "kc_ListGroupClientRoles kc realm client g w") auto
  show ?thesis
  proof (cases "find_role role rs")
    case None
    with run rs obtain av where av: "kc_ListAvailableGroupClientRoles kc realm client g w = Inr av"
      by (cases "kc_ListAvailableGroupClientRoles kc realm client g w") auto
    with run rs None obtain r where r: "find_role role av = Some r" by (cases "find_role role av") auto
    with run rs None av have "kc_CreateGroupClientRole kc r realm client g w = (None, w')" by simp
    with kc find_role_in [OF r] show ?thesis unfolding keycloak_grants_def by metis
  next
    case (Some r)
    with run rs have "w' = w" by simp
    with rs find_role_in [OF Some] show ?thesis unfolding granted_def by blast
  qed
qed

lemma client_loop_keeps:
  assumes "keycloak_grants kc"
  shows "keeps_grants kc (client_roles_loop kc clients realm g roles)"
proof (induction roles)
  case Nil
  show ?case by (simp add: keeps_grants_def)
next
  case (Cons r rs)
  note m = map_roles_keep(1) [OF assms]
  show ?case
    by (rule keeps_grantsI)
       (auto split: option.splits prod.splits dest: keeps_grantsD [OF m] keeps_grantsD [OF Cons.IH])
qed

lemma realm_loop_keeps:
  assumes "keycloak_grants kc"
  shows "keeps_grants kc (realm_roles_loop kc realm g roles)"
proof (induction roles)
  case Nil
  show ?case by (simp add: keeps_grants_def)
next
  case (Cons r rs)
  note m = map_roles_keep(2) [OF assms]
  show ?case
    by (rule keeps_grantsI)
       (auto split: option.splits prod.splits dest: keeps_grantsD [OF m] keeps_grantsD [OF Cons.IH])
qed

lemma client_loop_grants:
  assumes kc: "keycloak_grants kc" and "client_roles_loop kc clients realm g roles w = (None, w')" and "r \<in> set roles"
  shows "\<exists>c. map_of clients (cr_ClientName r) = Some c \<and> granted kc realm c g (cr_RoleName r) w'"
  using assms(2,3)
proof (induction roles arbitrary: w)
  case (Cons x xs)
  then obtain c w1 where c: "map_of clients (cr_ClientName x) = Some c" "mapClientRoleToGroup kc realm g c (cr_RoleName x) w = (None, w1)"
    and rest: "client_roles_loop kc clients realm g xs w1 = (None, w')" by (auto split: option.splits prod.splits)
  show ?case
  proof (cases "r \<in> set xs")
    case True
    then show ?thesis using Cons.IH rest by blast
  next
    case False
    with Cons.prems have "r = x" by simp
    with c keeps_grantsD [OF client_loop_keeps [OF kc] mapClientRole_grants [OF kc c(2)] rest] show ?thesis by blast
  qed
qed simp

lemma group_itself_grants:
  assumes kc: "keycloak_grants kc" and run: "group_itself kc spec w = (Inr g, w')" and ne: "g_ClientRoles spec \<noteq> []"
  shows "\<exists>v clients. listClientsByName kc (g_RealmName spec) v = Inr clients \<and>
    (\<forall>r \<in> set (g_ClientRoles spec). \<exists>c. map_of clients (cr_ClientName r) = Some c \<and> granted kc (g_RealmName spec) c g (cr_RoleName r) w')"
proof -
  from run ne obtain w2 w3 clients where cl: "listClientsByName kc (g_RealmName spec) w2 = Inr clients"
    and loop: "client_roles_loop kc clients (g_RealmName spec) g (g_ClientRoles spec) w2 = (None, w3)"
    and realm: "realm_roles_loop kc (g_RealmName spec) g (g_RealmRoles spec) w3 = (None, w')"
    by (auto simp: group_itself_def reconcileGroupClientRoles_def reconcileGroupRealmRoles_def split: prod.splits sum.splits option.splits)
  from client_loop_grants [OF kc loop] keeps_grantsD [OF realm_loop_keeps [OF kc] _ realm]
  have "\<forall>r \<in> set (g_ClientRoles spec). \<exists>c. map_of clients (cr_ClientName r) = Some c \<and> granted kc (g_RealmName spec) c g (cr_RoleName r) w'"
    by blast
  with cl show ?thesis by blast
qed

text \<open>
  When the groups of the dedicated administrators are reconciled, the group of the realm managers has every one of the
  seventeen management roles on the client of every realm that was listed, but for the master realm.
\<close>

theorem realm_managers_granted:
  assumes kc: "auth w = Inr kc" "keycloak_grants kc"
    and run: "reconcileDedicatedAdminsGroup auth w = ((PhaseCompleted, None), w')"
  shows "\<exists>v realms g. kc_ListRealms kc v = Inr realms \<and>
    (\<forall>realm \<in> set realms. realm \<noteq> masterRealmName \<longrightarrow>
       (\<exists>u clients c. listClientsByName kc masterRealmName u = Inr clients \<and> map_of clients (realm @ ''-realm'') = Some c \<and>
          (\<forall>role \<in> set realmManagersClientRoles. granted kc masterRealmName c g role w')))"
proof -
  from run kc obtain v realms g where r: "kc_ListRealms kc v = Inr realms" "group_itself kc (realmManagersSpec realms) v = (Inr g, w')"
    by (auto simp: reconcileDedicatedAdminsGroup_def with_client_def realmManagersSpec_def split: prod.splits sum.splits)
  have "\<exists>u clients c. listClientsByName kc masterRealmName u = Inr clients \<and> map_of clients (realm @ ''-realm'') = Some c \<and>
          (\<forall>role \<in> set realmManagersClientRoles. granted kc masterRealmName c g role w')"
    if realm: "realm \<in> set realms" "realm \<noteq> masterRealmName" for realm
  proof -
    let ?spec = "realmManagersSpec realms"
    have in_spec: "\<lparr>cr_ClientName = realm @ ''-realm'', cr_RoleName = role\<rparr> \<in> set (g_ClientRoles ?spec)"
      if "role \<in> set realmManagersClientRoles" for role
      using realm that by (auto simp: realmManagersSpec_def)
    have some: "''create-client'' \<in> set realmManagersClientRoles" by (simp add: realmManagersClientRoles_def)
    from in_spec [OF some] have ne: "g_ClientRoles ?spec \<noteq> []" by auto
    obtain u clients where cl: "listClientsByName kc (g_RealmName ?spec) u = Inr clients"
      and g: "\<forall>r \<in> set (g_ClientRoles ?spec). \<exists>c. map_of clients (cr_ClientName r) = Some c \<and> granted kc (g_RealmName ?spec) c g (cr_RoleName r) w'"
      using group_itself_grants [OF kc(2) r(2) ne] by blast
    have name: "g_RealmName ?spec = masterRealmName" by (simp add: realmManagersSpec_def)
    from g in_spec have "\<exists>c. map_of clients (realm @ ''-realm'') = Some c \<and> granted kc masterRealmName c g role w'"
      if "role \<in> set realmManagersClientRoles" for role
      using that unfolding name by fastforce
    with some cl name show ?thesis by (metis option.inject)
  qed
  with r(1) show ?thesis by blast
qed

section \<open>Witness\<close>

text \<open>A Keycloak that keeps the triples of client, group and role it was given, with one realm beside the master realm.\<close>

type_synonym grants = "(string \<times> string \<times> string) list"

definition roles_in :: "string \<Rightarrow> string \<Rightarrow> grants \<Rightarrow> KeycloakUserRole list" where
  "roles_in c g w = map (\<lambda>(c, g, r). \<lparr>kr_ID = r, kr_Name = r\<rparr>) (filter (\<lambda>(c', g', r). c' = c \<and> g' = g) w)"

definition sample_keycloak :: "grants keycloak_api" where
  "sample_keycloak = \<lparr>kc_FindGroupByName = (\<lambda>n r w. Inr (Some n)), kc_CreateGroup = (\<lambda>n r w. (Inr n, w)),
     kc_MakeGroupDefault = (\<lambda>g r w. (None, w)), kc_SetGroupChild = (\<lambda>g r c n w. (None, w)),
     kc_ListClients = (\<lambda>r w. Inr [(''master-realm'', ''m''), (''app-realm'', ''a'')]),
     kc_ListGroupClientRoles = (\<lambda>r c g w. Inr (roles_in c g w)),
     kc_ListAvailableGroupClientRoles = (\<lambda>r c g w. Inr (map (\<lambda>n. \<lparr>kr_ID = n, kr_Name = n\<rparr>) realmManagersClientRoles)),
     kc_CreateGroupClientRole = (\<lambda>role r c g w. (None, (c, g, kr_Name role) # w)),
     kc_ListGroupRealmRoles = (\<lambda>r g w. Inr []), kc_ListAvailableGroupRealmRoles = (\<lambda>r g w. Inr []),
     kc_CreateGroupRealmRole = (\<lambda>role r g w. (None, w)), kc_ListRealms = (\<lambda>w. Inr [''master'', ''app'']),
     kc_FindGroupByPath = (\<lambda>p r w. Inr (Some p)), kc_AddUserToGroup = (\<lambda>r u g w. (None, w)),
     kc_FindUserByUsername = (\<lambda>n r w. Inr n), kc_DeleteUser = (\<lambda>n r w. (None, w)), kc_ListExecutions = (\<lambda>f r w. Inr []),
     kc_FindExecution = (\<lambda>f r p w. Inr None), kc_UpdateExecution = (\<lambda>f r x w. (None, w)),
     kc_CreateAuthenticatorConfig = (\<lambda>a c r i w. (None, w)), kc_FindFlow = (\<lambda>a r w. Inr None),
     kc_CreateFlow = (\<lambda>a p t b r w. (None, w)), kc_AddExecution = (\<lambda>a r p q w. (None, w)),
     kc_GetIdentityProvider = (\<lambda>a r w. Inr None), kc_CreateIdentityProvider = (\<lambda>i r w. (None, w)),
     kc_UpdateIdentityProvider = (\<lambda>i r w. (None, w))\<rparr>"

lemma granted_sample [simp]: "granted sample_keycloak realm c g role w \<longleftrightarrow> (c, g, role) \<in> set w"
  by (force simp: granted_def sample_keycloak_def roles_in_def)

lemma sample_keycloak_grants: "keycloak_grants sample_keycloak"
  by (simp add: keycloak_grants_def keeps_grants_def) (simp add: sample_keycloak_def)

lemma sample_groups_completed: "fst (reconcileDedicatedAdminsGroup (\<lambda>w. Inr sample_keycloak) []) = (PhaseCompleted, None)"
  by code_simp

theorem realm_managers_granted_witness:
  "\<exists>g c. \<forall>role \<in> set realmManagersClientRoles. (c, g, role) \<in> set (snd (reconcileDedicatedAdminsGroup (\<lambda>w. Inr sample_keycloak) []))"
proof -
  let ?r = "reconcileDedicatedAdminsGroup (\<lambda>w. Inr sample_keycloak) []"
  have "?r = ((PhaseCompleted, None), snd ?r)" using sample_groups_completed by (metis prod.collapse)
  from realm_managers_granted [OF refl sample_keycloak_grants this]
  obtain v realms g where r: "kc_ListRealms sample_keycloak v = Inr realms" and
    all: "\<forall>realm \<in> set realms. realm \<noteq> masterRealmName \<longrightarrow>
       (\<exists>u clients c. listClientsByName sample_keycloak masterRealmName u = Inr clients \<and> map_of clients (realm @ ''-realm'') = Some c \<and>
          (\<forall>role \<in> set realmManagersClientRoles. granted sample_keycloak masterRealmName c g role (snd ?r)))" by blast
  from r have "''app'' \<in> set realms" by (auto simp: sample_keycloak_def)
  with all obtain c where "\<forall>role \<in> set realmManagersClientRoles. granted sample_keycloak masterRealmName c g role (snd ?r)" by fastforce
  then show ?thesis unfolding granted_sample by blast
qed

end
