(* ===== verification/Cloud_Alerts.thy ===== *)
theory Cloud_Alerts
  imports Resource_Helpers Status_Controller
begin

text \<open>
  The alerts on the databases and caches the operator asks the cloud resource operator for (\<^verbatim>\<open>pkg/resources/metrics.go\<close>).
  Each alert is one \<^verbatim>\<open>PrometheusRule\<close> in the namespace of the monitoring stack. The title caser of \<^verbatim>\<open>golang.org/x/text\<close>
  and the API server are parameters.
\<close>

section \<open>Data\<close>

text \<open>What the alerts read of a \<^verbatim>\<open>Postgres\<close> or a \<^verbatim>\<open>Redis\<close>.\<close>

record CloudResource =
  cr_Name :: string
  cr_Namespace :: string
  cr_Labels :: "(string, string) gomap"
  cr_Phase :: string
  cr_Strategy :: string
  cr_SecretName :: string
  cr_SecretNamespace :: string

record 'w calert_env =
  ca_rules :: "(PrometheusRule, 'w) kind_api"
  ca_title :: "string \<Rightarrow> string"

text \<open>The arguments of one call of \<^verbatim>\<open>reconcilePrometheusRule\<close>.\<close>

record alert_spec =
  as_Rule :: string
  as_Alert :: string
  as_Desc :: string
  as_SopURL :: string
  as_For :: string
  as_Expr :: string
  as_Labels :: "(string, string) gomap"

definition InstallationNames :: "string \<Rightarrow> string" where
  "InstallationNames t =
     gget '''' [(InstallationTypeManagedApi, ''rhoam''), (InstallationTypeMultitenantManagedApi, ''rhoam'')] t"

text \<open>\<^verbatim>\<open>strings.Replace(s, old, "", -1)\<close>.\<close>

function remove_all :: "string \<Rightarrow> string \<Rightarrow> string" where
  "remove_all old [] = []"
| "remove_all old (c # cs) =
     (if old \<noteq> [] \<and> prefix old (c # cs) then remove_all old (drop (length old) (c # cs)) else c # remove_all old cs)"
  by pat_completeness auto
termination
  by (relation "measure (length \<circ> snd)") auto

definition quoted :: "string \<Rightarrow> string" where
  "quoted s = CHR 0x27 # s @ [CHR 0x27]"

definition productName_of :: "CloudResource \<Rightarrow> string" where
  "productName_of cr = gget '''' (cr_Labels cr) ''productName''"

definition metric_of :: "string \<Rightarrow> CloudResource \<Rightarrow> string \<Rightarrow> string" where
  "metric_of metric cr labels =
     metric @ ''{exported_namespace='' @ quoted (cr_Namespace cr) @ '',resourceID='' @ quoted (cr_Name cr) @
     '',productName='' @ quoted (productName_of cr) @ labels @ ''}''"

section \<open>One rule\<close>

definition groups_of :: "alert_spec \<Rightarrow> (string \<times> Rule list \<times> string option) list" where
  "groups_of s =
     [(as_Alert s @ ''Group'',
       [\<lparr>ru_Alert = as_Alert s, ru_Expr = as_Expr s, ru_For = as_For s, ru_Labels = as_Labels s,
         ru_Annotations = [(''description'', as_Desc s), (''sop_url'', as_SopURL s)]\<rparr>], None)]"

definition new_rule :: "string \<Rightarrow> alert_spec \<Rightarrow> PrometheusRule" where
  "new_rule ns s = \<lparr>pr_Name = as_Rule s, pr_Namespace = ns, pr_Labels = [(''monitoring-key'', ''middleware'')], pr_Groups = groups_of s\<rparr>"

definition put_alert :: "string \<Rightarrow> alert_spec \<Rightarrow> PrometheusRule \<Rightarrow> PrometheusRule" where
  "put_alert ns s r = r\<lparr>pr_Name := as_Rule s, pr_Namespace := ns, pr_Groups := groups_of s\<rparr>"

definition reconcilePrometheusRule :: "'w calert_env \<Rightarrow> string \<Rightarrow> alert_spec \<Rightarrow> 'w \<Rightarrow> err option \<times> 'w" where
  "reconcilePrometheusRule env ns s w =
     (case CreateOrUpdate (ca_rules env) (=) (pure_op (put_alert ns s)) (new_rule ns s) w of
        ((r, Some e), rule, w') \<Rightarrow> (Some (Wrap (''failed to reconcile prometheus rule request for '' @ as_Rule s) e), w')
      | ((r, None), rule, w') \<Rightarrow> (None, w'))"

text \<open>The functions that create several rules stop at the first that fails; none is created for storage in the cluster.\<close>

fun reconcile_specs :: "'w calert_env \<Rightarrow> string \<Rightarrow> alert_spec list \<Rightarrow> 'w \<Rightarrow> err option \<times> 'w" where
  "reconcile_specs env ns [] w = (None, w)"
| "reconcile_specs env ns (s # ss) w =
     (case reconcilePrometheusRule env ns s w of (Some e, w') \<Rightarrow> (Some e, w') | (None, w') \<Rightarrow> reconcile_specs env ns ss w')"

definition in_cluster :: "RHMI \<Rightarrow> bool" where
  "in_cluster inst \<longleftrightarrow> ToLower (UseClusterStorage (Spec inst)) = ''true''"

definition create_alerts :: "'w calert_env \<Rightarrow> RHMI \<Rightarrow> alert_spec list \<Rightarrow> 'w \<Rightarrow> err option \<times> 'w" where
  "create_alerts env inst ss w = (if in_cluster inst then (None, w) else reconcile_specs env (GetOboNamespace (Namespace inst)) ss w)"

section \<open>Postgres\<close>

text \<open>
  Every function of the source that creates alerts ends in \<open>create_alerts\<close> on the rules it builds; the definitions below, under
  the names of the functions, are these rules, and \<open>alert_steps\<close> makes the calls.
\<close>

definition sopUrlRhoamBase :: string where
  "sopUrlRhoamBase = ''https://gitlab.cee.redhat.com/rhcloudservices/integreatly-help/blob/master/sops/rhoam/alerts/''"

definition sopUrlCloudResourceDeletionStatusFailed :: string where
  "sopUrlCloudResourceDeletionStatusFailed =
     ''https://gitlab.cee.redhat.com/rhcloudservices/integreatly-help/tree/master/sops/rhoam/alerts/clean_up_cloud_resources_failed_teardown.asciidoc''"

definition postgresCRName :: "'w calert_env \<Rightarrow> CloudResource \<Rightarrow> string" where
  "postgresCRName env cr = ca_title env (remove_all ''postgres-example-rhmi'' (cr_Name cr))"

definition postgres_labels :: "string \<Rightarrow> RHMI \<Rightarrow> CloudResource \<Rightarrow> (string, string) gomap" where
  "postgres_labels severity inst cr =
     [(''severity'', severity), (''productName'', productName_of cr), (''product'', InstallationNames (Type (Spec inst)))]"

definition instance_labels :: "RHMI \<Rightarrow> (string, string) gomap" where
  "instance_labels inst = [(''severity'', ''critical''), (''product'', InstallationNames (Type (Spec inst)))]"

definition where_is :: "CloudResource \<Rightarrow> string" where
  "where_is cr = cr_Name cr @ '' in namespace '' @ cr_Namespace cr @ '' (strategy: '' @ cr_Strategy cr @ '')''"

definition createPostgresAvailabilityAlert :: "'w calert_env \<Rightarrow> RHMI \<Rightarrow> CloudResource \<Rightarrow> alert_spec list" where
  "createPostgresAvailabilityAlert env inst cr =
     (let alertName = postgresCRName env cr @ ''PostgresInstanceUnavailable'' in
      [\<lparr>as_Rule = ''availability-rule-'' @ cr_Name cr, as_Alert = alertName,
        as_Desc = ''Postgres instance: '' @ quoted (cr_Name cr) @ '' (strategy: '' @ cr_Strategy cr @ '') for product: '' @ productName_of cr @ '' is unavailable'',
        as_SopURL = (if StrContains (productName_of cr) ''sso'' then sopUrlRhoamBase @ ''postgres_instance_unavailable.asciidoc''
                     else sopUrlRhoamBase @ alertName @ ''.asciidoc''),
        as_For = ''5m'', as_Expr = metric_of ''cro_postgres_available'' cr '''' @ '' == 0'', as_Labels = postgres_labels ''critical'' inst cr\<rparr>])"

definition createPostgresConnectivityAlert :: "'w calert_env \<Rightarrow> RHMI \<Rightarrow> CloudResource \<Rightarrow> alert_spec list" where
  "createPostgresConnectivityAlert env inst cr =
     (let alertName = postgresCRName env cr @ ''PostgresConnectionFailed'' in
      [\<lparr>as_Rule = ''connectivity-rule-'' @ cr_Name cr, as_Alert = alertName,
        as_Desc = ''Unable to connect to Postgres instance. Postgres Custom Resource: '' @ where_is cr @ '' for product: '' @ productName_of cr,
        as_SopURL = (if StrContains (productName_of cr) ''sso'' then sopUrlRhoamBase @ ''postgres_connection_failed.asciidoc''
                     else sopUrlRhoamBase @ alertName @ ''.asciidoc''),
        as_For = ''5m'', as_Expr = metric_of ''cro_postgres_connection'' cr '''' @ '' == 0'', as_Labels = postgres_labels ''critical'' inst cr\<rparr>])"

definition createPostgresResourceStatusPhasePendingAlert :: "'w calert_env \<Rightarrow> RHMI \<Rightarrow> CloudResource \<Rightarrow> alert_spec list" where
  "createPostgresResourceStatusPhasePendingAlert env inst cr =
     [\<lparr>as_Rule = ''resource-status-phase-pending-rule-'' @ cr_Name cr, as_Alert = postgresCRName env cr @ ''PostgresResourceStatusPhasePending'',
       as_Desc = ''The creation of the Postgres instance has take longer that 20m. Postgres Custom Resource: '' @ where_is cr @ '' for product: '' @ productName_of cr,
       as_SopURL = sopUrlRhoamBase @ ''postgres_resource_status_phase_pending.asciidoc'',
       as_For = ''20m'', as_Expr = metric_of ''cro_postgres_status_phase'' cr ('',statusPhase='' @ quoted ''complete'') @ '' == 0'',
       as_Labels = postgres_labels ''warning'' inst cr\<rparr>]"

definition createPostgresResourceStatusPhaseFailedAlert :: "'w calert_env \<Rightarrow> RHMI \<Rightarrow> CloudResource \<Rightarrow> alert_spec list" where
  "createPostgresResourceStatusPhaseFailedAlert env inst cr =
     [\<lparr>as_Rule = ''resource-status-phase-failed-rule-'' @ cr_Name cr, as_Alert = postgresCRName env cr @ ''PostgresResourceStatusPhaseFailed'',
       as_Desc = ''The creation of the Postgres instance has been failing longer that 5m. Postgres Custom Resource: '' @ where_is cr @ '' for product: '' @ productName_of cr,
       as_SopURL = sopUrlRhoamBase @ ''postgres_resource_status_phase_failed.asciidoc'',
       as_For = ''5m'', as_Expr = ''('' @ metric_of ''cro_postgres_status_phase'' cr ('',statusPhase='' @ quoted ''failed'') @ '') == 1 '',
       as_Labels = postgres_labels ''warning'' inst cr\<rparr>]"

definition createPostgresResourceDeletionStatusFailedAlert :: "'w calert_env \<Rightarrow> RHMI \<Rightarrow> CloudResource \<Rightarrow> alert_spec list" where
  "createPostgresResourceDeletionStatusFailedAlert env inst cr =
     [\<lparr>as_Rule = ''resource-deletion-status-phase-failed-rule-'' @ cr_Name cr, as_Alert = postgresCRName env cr @ ''PostgresResourceDeletionStatusPhaseFailed'',
       as_Desc = ''The deletion of the Postgres instance has been failing longer than 5m. Postgres Custom Resource: '' @ where_is cr @ '' for product: '' @ productName_of cr,
       as_SopURL = sopUrlCloudResourceDeletionStatusFailed,
       as_For = ''5m'', as_Expr = metric_of ''cro_postgres_deletion_timestamp'' cr ('',statusPhase='' @ quoted ''failed''),
       as_Labels = postgres_labels ''warning'' inst cr\<rparr>]"

abbreviation metrics_job :: string where "metrics_job \<equiv> ''{job='' @ quoted ''operator-metrics-service'' @ ''}''"

definition reconcilePostgresFreeStorageAlerts :: "RHMI \<Rightarrow> alert_spec list" where
  "reconcilePostgresFreeStorageAlerts inst =
     [\<lparr>as_Rule = ''postgres-storage-will-fill-in-4-hours'', as_Alert = ''PostgresStorageWillFillIn4Hours'',
       as_Desc = ''The postgres instance {{ $labels.instanceID }} for product {{  $labels.productName  }} will run of disk space in the next 4 hours'',
       as_SopURL = sopUrlRhoamBase @ ''PostgresStorageWillFillIn4Hours.asciidoc'', as_For = ''30m'',
       as_Expr = ''(predict_linear(sum by (instanceID) (cro_postgres_free_storage_average'' @ metrics_job @
         '')[1h:1m], 5 * 3600) <= 0 and on (instanceID) (cro_postgres_free_storage_average < ((cro_postgres_current_allocated_storage / 100) * 25)))'',
       as_Labels = instance_labels inst\<rparr>,
      \<lparr>as_Rule = ''postgres-storage-will-fill-in-4-days'', as_Alert = ''PostgresStorageWillFillIn4Days'',
       as_Desc = ''The postgres instance {{ $labels.instanceID }} for product {{  $labels.productName  }} will run of disk space in the next 4 days'',
       as_SopURL = sopUrlRhoamBase @ ''postgres_storage_alerts.asciidoc'', as_For = ''30m'',
       as_Expr = ''(predict_linear(sum by (instanceID) (cro_postgres_free_storage_average'' @ metrics_job @
         '')[6h:1m], 4 * 24 * 3600) <= 0) and on (instanceID) (cro_postgres_free_storage_average < ((cro_postgres_current_allocated_storage / 100) * 25))'',
       as_Labels = instance_labels inst\<rparr>,
      \<lparr>as_Rule = ''postgres-storage-low'', as_Alert = ''PostgresStorageLow'',
       as_Desc = ''The postgres instance {{ $labels.instanceID }} for product {{  $labels.productName  }}, storage is currently under 20 percent of its capacity'',
       as_SopURL = sopUrlRhoamBase @ ''postgres_storage_alerts.asciidoc'', as_For = ''30m'',
       as_Expr = ''cro_postgres_free_storage_average < ((cro_postgres_current_allocated_storage / 100 ) * 20)'',
       as_Labels = instance_labels inst\<rparr>]"

definition reconcilePostgresFreeableMemoryAlert :: "RHMI \<Rightarrow> alert_spec list" where
  "reconcilePostgresFreeableMemoryAlert inst =
     [\<lparr>as_Rule = ''postgres-freeable-memory-low'', as_Alert = ''PostgresFreeableMemoryLow'',
       as_Desc = ''The postgres instance {{ $labels.instanceID }} for product {{  $labels.productName  }}, freeable memory is currently under 5 percent of its capacity'',
       as_SopURL = sopUrlRhoamBase @ ''postgres_freeable_memory_low.asciidoc'', as_For = ''5m'',
       as_Expr = ''(cro_postgres_freeable_memory_average) < ((cro_postgres_max_memory / 100 ) * 5)'', as_Labels = instance_labels inst\<rparr>]"

definition reconcilePostgresCPUUtilizationAlerts :: "RHMI \<Rightarrow> alert_spec list" where
  "reconcilePostgresCPUUtilizationAlerts inst =
     [\<lparr>as_Rule = ''postgres-cpu-high'', as_Alert = ''PostgresCPUHigh'',
       as_Desc = ''the postgres instance {{ $labels.instanceID }} for product {{ $labels.productName }} has been using {{ $value }}% of available CPU for 60 minutes or more'',
       as_SopURL = sopUrlRhoamBase @ ''postgres_cpu_usage_high.asciidoc'', as_For = ''30m'',
       as_Expr = ''cro_postgres_cpu_utilization_average > 80'', as_Labels = instance_labels inst\<rparr>]"

text \<open>The calls one after the other, each with the text its error is wrapped in.\<close>

fun alert_steps :: "'w calert_env \<Rightarrow> RHMI \<Rightarrow> (string \<times> alert_spec list) list \<Rightarrow> 'w \<Rightarrow> err option \<times> 'w" where
  "alert_steps env inst [] w = (None, w)"
| "alert_steps env inst ((msg, ss) # steps) w =
     (case create_alerts env inst ss w of (Some e, w') \<Rightarrow> (Some (Wrap msg e), w') | (None, w') \<Rightarrow> alert_steps env inst steps w')"

definition resource_alerts ::
  "'w calert_env \<Rightarrow> RHMI \<Rightarrow> string \<Rightarrow> (string \<times> alert_spec list) list \<Rightarrow> (string \<times> alert_spec list) list \<Rightarrow> 'w \<Rightarrow>
   (StatusPhase \<times> err option) \<times> 'w" where
  "resource_alerts env inst phase early late w =
     (case alert_steps env inst early w of
        (Some e, w1) \<Rightarrow> ((PhaseFailed, Some e), w1)
      | (None, w1) \<Rightarrow>
          if phase \<noteq> ''complete'' then ((PhaseAwaitingComponents, None), w1)
          else (case alert_steps env inst late w1 of
                  (Some e, w2) \<Rightarrow> ((PhaseFailed, Some e), w2)
                | (None, w2) \<Rightarrow> ((PhaseCompleted, None), w2)))"

definition postgres_early :: "'w calert_env \<Rightarrow> RHMI \<Rightarrow> CloudResource \<Rightarrow> (string \<times> alert_spec list) list" where
  "postgres_early env inst cr =
     [(''failed to create postgres failure alert for '' @ cr_Name cr, createPostgresResourceStatusPhaseFailedAlert env inst cr),
      (''failed to create postgres deletion prometheus alert for '' @ cr_Name cr, createPostgresResourceDeletionStatusFailedAlert env inst cr)]"

definition postgres_late :: "'w calert_env \<Rightarrow> RHMI \<Rightarrow> CloudResource \<Rightarrow> (string \<times> alert_spec list) list" where
  "postgres_late env inst cr =
     [(''failed to create postgres pending alert for '' @ cr_Name cr, createPostgresResourceStatusPhasePendingAlert env inst cr),
      (''failed to create postgres prometheus alert for '' @ cr_Name cr, createPostgresAvailabilityAlert env inst cr),
      (''failed to create postgres connectivity prometheus alert for '' @ cr_Name cr, createPostgresConnectivityAlert env inst cr),
      (''failed to create postgres deletion prometheus alert for '' @ cr_Name cr, createPostgresResourceDeletionStatusFailedAlert env inst cr),
      (''failed to create postgres free storage prometheus alerts for '' @ cr_Name cr, reconcilePostgresFreeStorageAlerts inst),
      (''failed to create postgres freeable memory alert for '' @ cr_Name cr, reconcilePostgresFreeableMemoryAlert inst),
      (''failed to create postgres cpu utilization prometheus alerts for '' @ cr_Name cr, reconcilePostgresCPUUtilizationAlerts inst)]"

definition ReconcilePostgresAlerts :: "'w calert_env \<Rightarrow> RHMI \<Rightarrow> CloudResource \<Rightarrow> 'w \<Rightarrow> (StatusPhase \<times> err option) \<times> 'w" where
  "ReconcilePostgresAlerts env inst cr = resource_alerts env inst (cr_Phase cr) (postgres_early env inst cr) (postgres_late env inst cr)"

section \<open>Redis\<close>

definition redisCRName :: "'w calert_env \<Rightarrow> CloudResource \<Rightarrow> string" where
  "redisCRName env cr = ca_title env (remove_all ''redis-example-rhmi'' (cr_Name cr))"

definition redis_labels :: "string \<Rightarrow> CloudResource \<Rightarrow> (string, string) gomap" where
  "redis_labels severity cr = [(''severity'', severity), (''productName'', productName_of cr)]"

definition createRedisResourceStatusPhasePendingAlert :: "'w calert_env \<Rightarrow> CloudResource \<Rightarrow> alert_spec list" where
  "createRedisResourceStatusPhasePendingAlert env cr =
     [\<lparr>as_Rule = ''resource-status-phase-pending-rule-'' @ cr_Name cr, as_Alert = redisCRName env cr @ ''RedisResourceStatusPhasePending'',
       as_Desc = ''The creation of the Redis cache has take longer that 20m. Redis Custom Resource: '' @ where_is cr @ '' for product: '' @ productName_of cr,
       as_SopURL = sopUrlRhoamBase @ ''redis_resource_status_phase_pending.asciidoc'',
       as_For = ''20m'', as_Expr = metric_of ''cro_redis_status_phase'' cr ('',statusPhase='' @ quoted ''complete'') @ '' == 0'',
       as_Labels = redis_labels ''warning'' cr\<rparr>]"

abbreviation redis_details :: string where
  "redis_details \<equiv> ''. Redis Custom Resource: {{ $labels.resourceID }} in namespace {{ $labels.namespace }} for the product: {{ $labels.productName }}''"

definition createRedisMemoryUsageAlerts :: "CloudResource \<Rightarrow> alert_spec list" where
  "createRedisMemoryUsageAlerts cr =
     [\<lparr>as_Rule = ''redis-memory-usage-high'', as_Alert = ''RedisMemoryUsageHigh'',
       as_Desc = ''Redis Memory for instance {{ $labels.instanceID }} is 80 percent or higher for the last hour'' @ redis_details,
       as_SopURL = sopUrlRhoamBase @ ''redis_memory_usage_high.asciidoc'', as_For = ''30m'',
       as_Expr = ''cro_redis_memory_usage_percentage_average > 80'', as_Labels = redis_labels ''critical'' cr\<rparr>,
      \<lparr>as_Rule = ''redis-memory-usage-will-max-in-4-hours'', as_Alert = ''RedisMemoryUsageMaxIn4Hours'',
       as_Desc = ''Redis Memory Usage is predicted to max with in four hours for instance {{ $labels.instanceID }}'' @ redis_details,
       as_SopURL = sopUrlRhoamBase @ ''redis_memory_usage_high.asciidoc'', as_For = ''30m'',
       as_Expr = ''(predict_linear(sum by (instanceID) (cro_redis_memory_usage_percentage_average'' @ metrics_job @
         '')[1h:1m], 5 * 3600) >= 100) and on (instanceID) (cro_redis_memory_usage_percentage_average'' @ metrics_job @ '' > 75)'',
       as_Labels = redis_labels ''critical'' cr\<rparr>,
      \<lparr>as_Rule = ''redis-memory-usage-max-fill-in-4-days'', as_Alert = ''RedisMemoryUsageMaxIn4Days'',
       as_Desc = ''Redis Memory Usage is predicted to max in four days for instance {{ $labels.instanceID }}'' @ redis_details,
       as_SopURL = sopUrlRhoamBase @ ''redis_memory_usage_high.asciidoc'', as_For = ''30m'',
       as_Expr = ''(predict_linear(sum by (instanceID) (cro_redis_memory_usage_percentage_average'' @ metrics_job @
         '')[6h:1m], 4 * 24 * 3600) >= 100) and on (instanceID) (cro_redis_memory_usage_percentage_average'' @ metrics_job @ '' > 75)'',
       as_Labels = redis_labels ''critical'' cr\<rparr>]"

definition createRedisResourceStatusPhaseFailedAlert :: "'w calert_env \<Rightarrow> CloudResource \<Rightarrow> alert_spec list" where
  "createRedisResourceStatusPhaseFailedAlert env cr =
     [\<lparr>as_Rule = ''resource-status-phase-failed-rule-'' @ cr_Name cr, as_Alert = redisCRName env cr @ ''RedisResourceStatusPhaseFailed'',
       as_Desc = ''The creation of the Redis cache is Failing longer that 5m. Redis Custom Resource: '' @ where_is cr @ '' for product: '' @ productName_of cr,
       as_SopURL = sopUrlRhoamBase @ ''redis_resource_status_phase_failed.asciidoc'',
       as_For = ''5m'', as_Expr = ''('' @ metric_of ''cro_redis_status_phase'' cr ('',statusPhase='' @ quoted ''failed'') @ '') == 1 '',
       as_Labels = redis_labels ''warning'' cr\<rparr>]"

definition createRedisResourceDeletionStatusFailedAlert :: "'w calert_env \<Rightarrow> CloudResource \<Rightarrow> alert_spec list" where
  "createRedisResourceDeletionStatusFailedAlert env cr =
     [\<lparr>as_Rule = ''resource-deletion-status-phase-failed-rule-'' @ cr_Name cr, as_Alert = redisCRName env cr @ ''RedisResourceDeletionStatusPhaseFailed'',
       as_Desc = ''The deletion of the Redis instance has been failing longer than 5m. Redis Custom Resource: '' @ where_is cr @ '' for product: '' @ productName_of cr,
       as_SopURL = sopUrlCloudResourceDeletionStatusFailed,
       as_For = ''5m'', as_Expr = metric_of ''cro_redis_deletion_timestamp'' cr ('',statusPhase='' @ quoted ''failed''),
       as_Labels = redis_labels ''warning'' cr\<rparr>]"

text \<open>The rate limit cache does not page anybody.\<close>

definition redis_severity :: "CloudResource \<Rightarrow> string" where
  "redis_severity cr = (if productName_of cr = ''marin3r'' then ''warning'' else ''critical'')"

definition createRedisAvailabilityAlert :: "'w calert_env \<Rightarrow> CloudResource \<Rightarrow> alert_spec list" where
  "createRedisAvailabilityAlert env cr =
     (let alertName = redisCRName env cr @ ''RedisCacheUnavailable'' in
      [\<lparr>as_Rule = ''availability-rule-'' @ cr_Name cr, as_Alert = alertName,
        as_Desc = ''Redis instance: '' @ quoted (cr_Name cr) @ '' (strategy: '' @ cr_Strategy cr @ '') for the product: '' @ productName_of cr @ '' is unavailable'',
        as_SopURL = (if productName_of cr = ''marin3r'' then sopUrlRhoamBase @ ''redis_cache_unavailable.asciidoc''
                     else sopUrlRhoamBase @ alertName @ ''.asciidoc''),
        as_For = ''5m'', as_Expr = metric_of ''cro_redis_available'' cr '''' @ '' == 0'', as_Labels = redis_labels (redis_severity cr) cr\<rparr>])"

definition createRedisConnectivityAlert :: "'w calert_env \<Rightarrow> CloudResource \<Rightarrow> alert_spec list" where
  "createRedisConnectivityAlert env cr =
     (let alertName = redisCRName env cr @ ''RedisCacheConnectionFailed'' in
      [\<lparr>as_Rule = ''connectivity-rule-'' @ cr_Name cr, as_Alert = alertName,
        as_Desc = ''Unable to connect to Redis instance. Redis Custom Resource: '' @ where_is cr @ '' for the product: '' @ productName_of cr,
        as_SopURL = (if productName_of cr = ''marin3r'' then sopUrlRhoamBase @ ''redis_connection_failed.asciidoc''
                     else sopUrlRhoamBase @ alertName @ ''.asciidoc''),
        as_For = ''30m'', as_Expr = metric_of ''cro_redis_connection'' cr '''' @ '' == 0'', as_Labels = redis_labels (redis_severity cr) cr\<rparr>])"

definition CreateRedisCpuUsageAlerts :: "CloudResource \<Rightarrow> alert_spec list" where
  "CreateRedisCpuUsageAlerts cr =
     [\<lparr>as_Rule = ''redis-cpu-usage-high'', as_Alert = ''RedisCpuUsageHigh'',
       as_Desc = ''Redis Cpu for instance {{ $labels.instanceID }} is 80 percent or higher for the last hour'' @ redis_details,
       as_SopURL = sopUrlRhoamBase @ ''redis_cpu_usage_high.asciidoc'', as_For = ''30m'',
       as_Expr = ''cro_redis_engine_cpu_utilization_average > 80'', as_Labels = redis_labels ''critical'' cr\<rparr>]"

definition CreateRedisServiceMaintenanceAlerts :: "CloudResource \<Rightarrow> alert_spec list" where
  "CreateRedisServiceMaintenanceAlerts cr =
     [\<lparr>as_Rule = ''redis-service-maintenance-critical'', as_Alert = ''RedisServiceMaintenanceCritical'',
       as_Desc = ''Redis service maintenance update is available, this is a critical security update for instance {{ $labels.instanceID }}'' @ redis_details,
       as_SopURL = sopUrlRhoamBase @ ''RedisServiceMaintenanceCritical.asciidoc'', as_For = ''15m'',
       as_Expr = ''cro_redis_service_maintenance{ServiceUpdateType='' @ quoted ''security-update'' @ '',UpdateActionStatus!~'' @
         quoted ''complete|waiting-to-start|in-progress|scheduled|stopping'' @ '',ServiceUpdateSeverity='' @ quoted ''critical'' @ ''}'',
       as_Labels = redis_labels ''warning'' cr\<rparr>]"

definition redis_early :: "'w calert_env \<Rightarrow> CloudResource \<Rightarrow> (string \<times> alert_spec list) list" where
  "redis_early env cr =
     [(''failed to create redis failure alert '' @ cr_Name cr, createRedisResourceStatusPhaseFailedAlert env cr),
      (''failed to create redis deletion failure alert for '' @ cr_Name cr, createRedisResourceDeletionStatusFailedAlert env cr)]"

definition redis_late :: "'w calert_env \<Rightarrow> CloudResource \<Rightarrow> (string \<times> alert_spec list) list" where
  "redis_late env cr =
     [(''failed to create redis pending alert '' @ cr_Name cr, createRedisResourceStatusPhasePendingAlert env cr),
      (''failed to create redis prometheus alert for '' @ cr_Name cr, createRedisAvailabilityAlert env cr),
      (''failed to create redis prometheus connectivity alert for '' @ cr_Name cr, createRedisConnectivityAlert env cr),
      (''failed to create redis prometheus memory usage high alerts for '' @ cr_Name cr, createRedisMemoryUsageAlerts cr),
      (''failed to create redis prometheus cpu usage high alerts for '' @ cr_Name cr, CreateRedisCpuUsageAlerts cr),
      (''failed to create redis prometheus service maintenance critical alerts for '' @ cr_Name cr, CreateRedisServiceMaintenanceAlerts cr)]"

definition ReconcileRedisAlerts :: "'w calert_env \<Rightarrow> RHMI \<Rightarrow> CloudResource \<Rightarrow> 'w \<Rightarrow> (StatusPhase \<times> err option) \<times> 'w" where
  "ReconcileRedisAlerts env inst cr = resource_alerts env inst (cr_Phase cr) (redis_early env cr) (redis_late env cr)"

section \<open>Secrets that must exist\<close>

definition secret_labels :: "string \<Rightarrow> RHMI \<Rightarrow> (string, string) gomap" where
  "secret_labels severity inst = [(''severity'', severity), (''product'', InstallationNames (Type (Spec inst)))]"

definition absent_secret :: "RHMI \<Rightarrow> string \<Rightarrow> string" where
  "absent_secret inst secret = ''absent(kube_secret_info{namespace='' @ quoted (Namespace inst) @ '',secret='' @ quoted secret @ ''} == 1)''"

definition secret_alert :: "'w calert_env \<Rightarrow> RHMI \<Rightarrow> string \<Rightarrow> alert_spec \<Rightarrow> 'w \<Rightarrow> (StatusPhase \<times> err option) \<times> 'w" where
  "secret_alert env inst what s w =
     (case reconcilePrometheusRule env (GetOboNamespace (Namespace inst)) s w of
        (Some e, w') \<Rightarrow> ((PhaseFailed, Some (Msg (''failed to create '' @ what @ '' rule err: '' @ err_string e))), w')
      | (None, w') \<Rightarrow> ((PhaseCompleted, None), w'))"

definition CreateSmtpSecretExists :: "'w calert_env \<Rightarrow> RHMI \<Rightarrow> 'w \<Rightarrow> (StatusPhase \<times> err option) \<times> 'w" where
  "CreateSmtpSecretExists env inst =
     secret_alert env inst ''sendgrid smtp exists''
       \<lparr>as_Rule = ''sendgrid-smtp-secret-exists-rule'', as_Alert = ''SendgridSmtpSecretExists'',
        as_Desc = ''The Sendgrid SMTP secret has not been created in the '' @ Namespace inst @ '' namespace and may need to be created manualy'',
        as_SopURL = sopUrlRhoamBase @ ''sendgrid_smtp_secret_not_present.asciidoc'', as_For = ''10m'',
        as_Expr = absent_secret inst (NamespacePrefix (Spec inst) @ ''smtp''), as_Labels = secret_labels ''critical'' inst\<rparr>"

definition CreateAddonManagedApiServiceParametersExists ::
  "'w addon_client \<Rightarrow> 'w calert_env \<Rightarrow> RHMI \<Rightarrow> 'w \<Rightarrow> (StatusPhase \<times> err option) \<times> 'w" where
  "CreateAddonManagedApiServiceParametersExists cl env inst w =
     (case (GetAddonParametersSecret cl (Namespace inst) w, ListSubscriptions cl (Namespace inst) w) of
        (Inr d, Inr subs) \<Rightarrow>
          (let secret = parametersSecretName subs in
           secret_alert env inst ''addon-managed-api-service-parameters secret exists''
             \<lparr>as_Rule = ''addon-managed-api-service-parameters-secret-exists-rule'', as_Alert = ''AddonManagedApiServiceParametersExists'',
              as_Desc = ''The '' @ secret @ '' secret has been removed from the '' @ Namespace inst @ '' namespace, this secret should be generated and managed by Hive'',
              as_SopURL = sopUrlRhoamBase @ ''AddonManagedApiServiceParameters.asciidoc'', as_For = ''5m'',
              as_Expr = absent_secret inst secret, as_Labels = secret_labels ''critical'' inst\<rparr> w)
      | (Inl e, _) \<Rightarrow> ((PhaseFailed, Some (Msg (''failed to create addon-managed-api-service-parameters secret exists rule err: '' @ err_string e))), w)
      | (_, Inl e) \<Rightarrow> ((PhaseFailed, Some (Msg (''failed to create addon-managed-api-service-parameters secret exists rule err: '' @ err_string e))), w))"

text \<open>A new installation gets an hour before the alert on the snitch fires.\<close>

definition snitch_for :: "RHMI \<Rightarrow> string" where
  "snitch_for inst = (if Version (Status inst) = '''' \<and> ToVersion (Status inst) \<noteq> '''' then ''60m'' else ''10m'')"

definition CreateDeadMansSnitchSecretExists :: "'w calert_env \<Rightarrow> RHMI \<Rightarrow> 'w \<Rightarrow> (StatusPhase \<times> err option) \<times> 'w" where
  "CreateDeadMansSnitchSecretExists env inst =
     secret_alert env inst ''deadmanssnitch exists''
       \<lparr>as_Rule = ''deadmanssnitch-secret-exists-rule'', as_Alert = ''DeadMansSnitchSecretExists'',
        as_Desc = ''The DeadMansSnitch secret has not been created in the '' @ Namespace inst @ '' namespace and may need to be created manualy'',
        as_SopURL = sopUrlRhoamBase @ ''DeadMansSnitchSecretNotPresent.asciidoc'', as_For = snitch_for inst,
        as_Expr = absent_secret inst (NamespacePrefix (Spec inst) @ ''deadmanssnitch''), as_Labels = secret_labels ''warning'' inst\<rparr>"

definition InstallationState :: "string \<Rightarrow> string \<Rightarrow> string" where
  "InstallationState version toVersion =
     (if length version = 0 \<and> 0 < length toVersion then ''Installing''
      else if 0 < length version \<and> 0 < length toVersion then ''Upgrading''
      else if 0 < length version \<and> length toVersion = 0 then ''Installed''
      else ''Unknown State'')"

lemmas alert_defs [go_defs] = groups_of_def new_rule_def put_alert_def reconcilePrometheusRule_def create_alerts_def
  in_cluster_def resource_alerts_def secret_alert_def

section \<open>Properties\<close>

text \<open>A server for rules: it stores what it is sent, by namespace and name.\<close>

definition rule_server :: "(PrometheusRule, 'w) kind_api \<Rightarrow> bool" where
  "rule_server api \<longleftrightarrow> stores api \<and> frames api \<and> (\<forall>r. k_Key api r = (pr_Namespace r, pr_Name r))"

definition has_rule :: "(PrometheusRule, 'w) kind_api \<Rightarrow> string \<Rightarrow> alert_spec \<Rightarrow> 'w \<Rightarrow> bool" where
  "has_rule api ns s w \<longleftrightarrow> (case seen api (new_rule ns s) w of (e, r) \<Rightarrow> e = None \<and> pr_Groups r = groups_of s)"

lemma put_alert_idem: "put_alert ns s (put_alert ns s r) = put_alert ns s r"
  by (simp add: put_alert_def)

lemma reconcilePrometheusRule_has:
  assumes "rule_server (ca_rules env)" and "reconcilePrometheusRule env ns s w = (None, w')"
  shows "has_rule (ca_rules env) ns s w'"
proof -
  have srv: "stores (ca_rules env)" using assms(1) by (simp add: rule_server_def)
  obtain r rule where run: "CreateOrUpdate (ca_rules env) (=) (pure_op (put_alert ns s)) (new_rule ns s) w = ((r, None), rule, w')"
    using assms(2) by (auto simp: reconcilePrometheusRule_def split: prod.splits option.splits)
  obtain e x u where get: "k_Get (ca_rules env) (new_rule ns s) w' = (e, x, u)" by (metis surj_pair)
  have "CreateOrUpdate (ca_rules env) (=) (pure_op (put_alert ns s)) (new_rule ns s) w' = ((OperationResultNone, None), rule, w')"
    using CreateOrUpdate_settles [OF srv run put_alert_idem refl] by simp
  with get stores_get(1) [OF srv get] have "e = None \<and> x = put_alert ns s x"
    by (auto simp: CreateOrUpdate_pure split: if_splits prod.splits)
  then have "e = None" and "pr_Groups x = groups_of s" by (auto simp: put_alert_def dest!: arg_cong [where f = pr_Groups])
  with get show ?thesis by (simp add: has_rule_def seen_def)
qed

lemma reconcilePrometheusRule_keeps:
  assumes srv: "rule_server (ca_rules env)" and run: "reconcilePrometheusRule env ns s w = (None, w')"
    and has: "has_rule (ca_rules env) ns t w" and other: "as_Rule s \<noteq> as_Rule t"
  shows "has_rule (ca_rules env) ns t w'"
proof -
  let ?api = "ca_rules env"
  have st: "stores ?api" and fr: "frames ?api" and key: "\<And>r. k_Key ?api r = (pr_Namespace r, pr_Name r)"
    using srv by (simp_all add: rule_server_def)
  obtain e x u where get: "k_Get ?api (new_rule ns s) w = (e, x, u)" by (metis surj_pair)
  note u = stores_get(1) [OF st get]
  have "w' = w \<or> (\<exists>o1. k_Create ?api (put_alert ns s x) w = (None, o1, w') \<or> k_Update ?api (put_alert ns s x) w = (None, o1, w'))"
    using run get u by (auto simp: reconcilePrometheusRule_def CreateOrUpdate_pure split: prod.splits option.splits if_splits)
  moreover have "k_Key ?api (new_rule ns t) \<noteq> k_Key ?api (put_alert ns s x)"
    using other by (simp add: key new_rule_def put_alert_def)
  ultimately have "seen ?api (new_rule ns t) w' = seen ?api (new_rule ns t) w"
    using fr unfolding frames_def by metis
  with has show ?thesis by (simp add: has_rule_def)
qed

lemma reconcile_specs_keeps:
  assumes srv: "rule_server (ca_rules env)" and "reconcile_specs env ns ss w = (None, w')"
    and "has_rule (ca_rules env) ns t w" and "inj_on as_Rule (insert t (set ss))"
  shows "has_rule (ca_rules env) ns t w'"
  using assms(2-4)
proof (induction ss arbitrary: w)
  case Nil
  then show ?case by simp
next
  case (Cons s ss)
  then obtain w1 where r: "reconcilePrometheusRule env ns s w = (None, w1)" and rs: "reconcile_specs env ns ss w1 = (None, w')"
    by (auto split: prod.splits option.splits)
  have "has_rule (ca_rules env) ns t w1"
  proof (cases "as_Rule s = as_Rule t")
    case True
    have "s = t" by (rule inj_onD [OF Cons.prems(3) True]) simp_all
    then show ?thesis using reconcilePrometheusRule_has [OF srv r] by simp
  next
    case False
    then show ?thesis by (rule reconcilePrometheusRule_keeps [OF srv r Cons.prems(2)])
  qed
  then show ?case using Cons.IH [OF rs] Cons.prems(3) by (auto intro: inj_on_subset)
qed

lemma reconcile_specs_has:
  assumes srv: "rule_server (ca_rules env)" and "reconcile_specs env ns ss w = (None, w')"
    and "inj_on as_Rule (set ss)" and "t \<in> set ss"
  shows "has_rule (ca_rules env) ns t w'"
  using assms(2-4)
proof (induction ss arbitrary: w)
  case Nil
  then show ?case by simp
next
  case (Cons s ss)
  then obtain w1 where r: "reconcilePrometheusRule env ns s w = (None, w1)" and rs: "reconcile_specs env ns ss w1 = (None, w')"
    by (auto split: prod.splits option.splits)
  show ?case
  proof (cases "t \<in> set ss")
    case True
    then show ?thesis using Cons.IH [OF rs] Cons.prems(2) by (auto intro: inj_on_subset)
  next
    case False
    with Cons.prems(3) have "t = s" by simp
    then show ?thesis using reconcile_specs_keeps [OF srv rs reconcilePrometheusRule_has [OF srv r]] Cons.prems(2) by simp
  qed
qed

lemma reconcile_specs_append:
  "reconcile_specs env ns (ss @ ts) w =
     (case reconcile_specs env ns ss w of (Some e, w') \<Rightarrow> (Some e, w') | (None, w') \<Rightarrow> reconcile_specs env ns ts w')"
  by (induction ss arbitrary: w) (auto split: prod.splits option.splits)

lemma alert_steps_specs:
  assumes "\<not> in_cluster inst" and "alert_steps env inst steps w = (None, w')"
  shows "reconcile_specs env (GetOboNamespace (Namespace inst)) (concat (map snd steps)) w = (None, w')"
  using assms(2)
  by (induction steps arbitrary: w)
     (auto simp: create_alerts_def assms(1) reconcile_specs_append split: prod.splits option.splits)

text \<open>When the alerts on a resource are complete, every one of its rules is on the server.\<close>

lemma resource_alerts_complete:
  assumes "\<not> in_cluster inst" and srv: "rule_server (ca_rules env)"
    and run: "resource_alerts env inst phase early late w = ((PhaseCompleted, None), w')"
    and inj: "inj_on as_Rule (set (concat (map snd (early @ late))))"
    and "s \<in> set (concat (map snd (early @ late)))"
  shows "has_rule (ca_rules env) (GetOboNamespace (Namespace inst)) s w'"
proof -
  obtain w1 where "alert_steps env inst early w = (None, w1)" and "alert_steps env inst late w1 = (None, w')"
    using run by (auto simp: resource_alerts_def split: prod.splits option.splits if_splits)
  then have "reconcile_specs env (GetOboNamespace (Namespace inst)) (concat (map snd (early @ late))) w = (None, w')"
    using assms(1) by (simp add: alert_steps_specs reconcile_specs_append)
  from reconcile_specs_has [OF srv this inj] assms(5) show ?thesis by simp
qed

text \<open>The rules of one Postgres and of one Redis have names of their own.\<close>

lemmas rule_defs = createPostgresResourceStatusPhaseFailedAlert_def createPostgresResourceDeletionStatusFailedAlert_def
  createPostgresResourceStatusPhasePendingAlert_def createPostgresAvailabilityAlert_def createPostgresConnectivityAlert_def
  reconcilePostgresFreeStorageAlerts_def reconcilePostgresFreeableMemoryAlert_def reconcilePostgresCPUUtilizationAlerts_def
  createRedisResourceStatusPhaseFailedAlert_def createRedisResourceDeletionStatusFailedAlert_def
  createRedisResourceStatusPhasePendingAlert_def createRedisAvailabilityAlert_def createRedisConnectivityAlert_def
  createRedisMemoryUsageAlerts_def CreateRedisCpuUsageAlerts_def CreateRedisServiceMaintenanceAlerts_def

definition postgres_rules :: "'w calert_env \<Rightarrow> RHMI \<Rightarrow> CloudResource \<Rightarrow> alert_spec list" where
  "postgres_rules env inst cr = concat (map snd (postgres_early env inst cr @ postgres_late env inst cr))"

definition redis_rules :: "'w calert_env \<Rightarrow> CloudResource \<Rightarrow> alert_spec list" where
  "redis_rules env cr = concat (map snd (redis_early env cr @ redis_late env cr))"

lemma inj_on_distinct: "distinct (map f xs) \<Longrightarrow> inj_on f (set xs)"
  by (simp add: distinct_map)

lemma postgres_rule_names: "inj_on as_Rule (set (postgres_rules env inst cr))"
proof -
  let ?d = "createPostgresResourceStatusPhaseFailedAlert env inst cr @ concat (map snd (postgres_late env inst cr))"
  have "set (postgres_rules env inst cr) = set ?d"
    by (auto simp: postgres_rules_def postgres_early_def postgres_late_def)
  moreover have "distinct (map as_Rule ?d)"
    by (simp add: postgres_late_def rule_defs Let_def)
  ultimately show ?thesis using inj_on_distinct by metis
qed

lemma redis_rule_names: "inj_on as_Rule (set (redis_rules env cr))"
proof -
  have "distinct (map as_Rule (redis_rules env cr))"
    by (simp add: redis_rules_def redis_early_def redis_late_def rule_defs Let_def)
  then show ?thesis by (rule inj_on_distinct)
qed

text \<open>
  The alerts of a Postgres outside the cluster: when the step completes, the Postgres is complete, and every one of its rules,
  the ones about its own state and the ones about all instances, is on the server with the expression, the labels and the
  duration the operator builds for it.
\<close>

theorem postgres_alerts_complete:
  assumes "\<not> in_cluster inst" and "rule_server (ca_rules env)"
    and "ReconcilePostgresAlerts env inst cr w = ((PhaseCompleted, None), w')"
  shows "cr_Phase cr = ''complete'' \<and>
     (\<forall>s \<in> set (postgres_rules env inst cr). has_rule (ca_rules env) (GetOboNamespace (Namespace inst)) s w')"
proof
  show "cr_Phase cr = ''complete''"
    using assms(3) by (auto simp: ReconcilePostgresAlerts_def resource_alerts_def split: prod.splits option.splits if_splits)
  show "\<forall>s \<in> set (postgres_rules env inst cr). has_rule (ca_rules env) (GetOboNamespace (Namespace inst)) s w'"
    using resource_alerts_complete [OF assms(1,2) assms(3) [unfolded ReconcilePostgresAlerts_def]
      postgres_rule_names [unfolded postgres_rules_def]]
    unfolding postgres_rules_def by blast
qed

lemma redis_alerts_complete:
  assumes "\<not> in_cluster inst" and "rule_server (ca_rules env)"
    and "ReconcileRedisAlerts env inst cr w = ((PhaseCompleted, None), w')" and "s \<in> set (redis_rules env cr)"
  shows "has_rule (ca_rules env) (GetOboNamespace (Namespace inst)) s w'"
  using resource_alerts_complete [OF assms(1,2) assms(3) [unfolded ReconcileRedisAlerts_def]
      redis_rule_names [unfolded redis_rules_def]] assms(4)
  unfolding redis_rules_def by blast

lemma alerts_in_cluster:
  assumes "in_cluster inst"
  shows "snd (ReconcilePostgresAlerts env inst cr w) = w" and "snd (ReconcileRedisAlerts env inst cr w) = w"
proof -
  have "alert_steps env inst steps w = (None, w)" for steps
    by (induction steps arbitrary: w) (auto simp: create_alerts_def assms)
  then show "snd (ReconcilePostgresAlerts env inst cr w) = w" and "snd (ReconcileRedisAlerts env inst cr w) = w"
    by (simp_all add: ReconcilePostgresAlerts_def ReconcileRedisAlerts_def resource_alerts_def)
qed

text \<open>
  The rules on the load of the caches have one name for all of them and the label of the product: after the cache of one product
  the rule no longer is that of another, so with two products every reconcile rewrites them.
\<close>

lemma redis_rules_overwritten:
  assumes "rule_server (ca_rules env)" and "reconcile_specs env ns (CreateRedisCpuUsageAlerts cr2) w = (None, w')"
    and "productName_of cr1 \<noteq> productName_of cr2" and "s \<in> set (CreateRedisCpuUsageAlerts cr1)"
  shows "\<not> has_rule (ca_rules env) ns s w'"
proof -
  obtain t where t: "CreateRedisCpuUsageAlerts cr2 = [t]" and lt: "as_Labels t = redis_labels ''critical'' cr2" and nt: "as_Rule t = as_Rule s"
    and ls: "as_Labels s = redis_labels ''critical'' cr1"
    using assms(4) by (auto simp: CreateRedisCpuUsageAlerts_def)
  have "has_rule (ca_rules env) ns t w'"
    using reconcile_specs_has [OF assms(1,2)] t by simp
  moreover have "seen (ca_rules env) (new_rule ns s) w' = seen (ca_rules env) (new_rule ns t) w' \<or> \<not> has_rule (ca_rules env) ns s w'"
  proof -
    have st: "stores (ca_rules env)" and key: "k_Key (ca_rules env) (new_rule ns s) = k_Key (ca_rules env) (new_rule ns t)"
      using assms(1) nt by (simp_all add: rule_server_def new_rule_def)
    obtain e x u where g: "k_Get (ca_rules env) (new_rule ns s) w' = (e, x, u)" by (metis surj_pair)
    show ?thesis
      using stores_get(1) [OF st g] stores_get(3) [OF st g, of "new_rule ns t"] key g by (auto simp: seen_def has_rule_def)
  qed
  moreover have "groups_of s \<noteq> groups_of t" using lt ls assms(3) by (simp add: groups_of_def redis_labels_def)
  ultimately show ?thesis by (auto simp: has_rule_def split: prod.splits)
qed

definition sample_calerts :: "(string \<times> string \<Rightarrow> PrometheusRule option) calert_env" where
  "sample_calerts = \<lparr>ca_rules = table_api (\<lambda>r. (pr_Namespace r, pr_Name r)), ca_title = id\<rparr>"

lemma sample_calerts_server: "rule_server (ca_rules sample_calerts)"
  unfolding rule_server_def sample_calerts_def
  by (simp add: stores_table_api frames_table_api) (simp add: table_api_def)

lemma sample_calerts_succeed: "fst (alert_steps sample_calerts inst steps w) = None"
proof -
  have one: "fst (reconcilePrometheusRule sample_calerts ns s w) = None" for ns s w
    by (auto simp: reconcilePrometheusRule_def CreateOrUpdate_pure sample_calerts_def table_api_def put_alert_def new_rule_def
        split: option.splits if_splits)
  have "fst (reconcile_specs sample_calerts ns ss w) = None" for ns ss w
    by (induction ss arbitrary: w) (use one in \<open>auto split: prod.splits option.splits simp: prod_eq_iff\<close>)
  then have "fst (create_alerts sample_calerts inst ss w) = None" for ss w by (simp add: create_alerts_def)
  then show ?thesis
    by (induction steps arbitrary: w) (auto split: prod.splits option.splits simp: prod_eq_iff)
qed

definition sample_postgres :: CloudResource where
  "sample_postgres = \<lparr>cr_Name = ''rhsso-postgres'', cr_Namespace = ''rhoam'', cr_Labels = [(''productName'', ''rhsso'')], cr_Phase = ''complete'',
     cr_Strategy = ''aws'', cr_SecretName = ''s'', cr_SecretNamespace = ''rhoam''\<rparr>"

theorem postgres_alerts_complete_witness:
  "\<not> in_cluster zero_rhmi \<and> rule_server (ca_rules sample_calerts) \<and>
   fst (ReconcilePostgresAlerts sample_calerts zero_rhmi sample_postgres (\<lambda>k. None)) = (PhaseCompleted, None) \<and>
   list_all (\<lambda>s. has_rule (ca_rules sample_calerts) (GetOboNamespace (Namespace zero_rhmi)) s
      (snd (ReconcilePostgresAlerts sample_calerts zero_rhmi sample_postgres (\<lambda>k. None)))) (postgres_rules sample_calerts zero_rhmi sample_postgres)"
proof -
  have ext: "\<not> in_cluster zero_rhmi" by (simp add: in_cluster_def go_defs ToLower_def)
  have run: "ReconcilePostgresAlerts sample_calerts zero_rhmi sample_postgres (\<lambda>k. None) =
      ((PhaseCompleted, None), snd (ReconcilePostgresAlerts sample_calerts zero_rhmi sample_postgres (\<lambda>k. None)))"
    using sample_calerts_succeed
    by (auto simp: ReconcilePostgresAlerts_def resource_alerts_def sample_postgres_def split: prod.splits option.splits) (metis fst_conv option.distinct(1))+
  have fin: "fst (ReconcilePostgresAlerts sample_calerts zero_rhmi sample_postgres (\<lambda>k. None)) = (PhaseCompleted, None)"
    by (subst run) simp
  show ?thesis using postgres_alerts_complete [OF ext sample_calerts_server run] ext sample_calerts_server fin unfolding list_all_iff by blast
qed

end
