(* ===== verification/SSO_Common.thy ===== *)
theory SSO_Common
  imports SSO_Groups Cloud_Alerts
begin

text \<open>
  What the two single sign-on products share (\<^verbatim>\<open>pkg/products/rhssocommon\<close>): the clean-up of Keycloak resources, the route, the
  identity provider, the database, the export of alerts and the small objects around a Keycloak. A reconciler holds its
  configuration in memory and the configuration manager; both are part of the state its steps thread, next to the cluster.
  The cloud resource operator and the HTTP client of Keycloak are parameters.
\<close>

section \<open>Data\<close>

record KeycloakAPIRealm =
  ra_ID :: string
  ra_Realm :: string
  ra_Enabled :: bool
  ra_DisplayName :: string
  ra_EventsListeners :: "string list"
  ra_IdentityProviders :: "IdentityProvider list"

text \<open>A realm override: the identity provider and the flow it is for. The phase is that of the status.\<close>

record KeycloakRealm =
  rm_Name :: string
  rm_Namespace :: string
  rm_Labels :: "(string, string) gomap"
  rm_Finalizers :: "string list"
  rm_RealmOverrides :: "(string \<times> string) list"
  rm_InstanceSelector :: "(string, string) gomap"
  rm_Realm :: "KeycloakAPIRealm option"
  rm_Phase :: string

definition kc_realm :: "string \<Rightarrow> string \<Rightarrow> KeycloakRealm" where
  "kc_realm name ns = \<lparr>rm_Name = name, rm_Namespace = ns, rm_Labels = [], rm_Finalizers = [], rm_RealmOverrides = [],
     rm_InstanceSelector = [], rm_Realm = None, rm_Phase = ''''\<rparr>"

record KeycloakCR =
  kk_Name :: string
  kk_Namespace :: string
  kk_UID :: string
  kk_Labels :: "(string, string) gomap"
  kk_Annotations :: "(string, string) gomap option"
  kk_Env :: "(string \<times> string) list"
  kk_Extensions :: "string list"
  kk_ExternalDatabase :: bool
  kk_ExternalAccess :: bool
  kk_Profile :: string
  kk_PodDisruptionBudget :: bool
  kk_Resources :: ResourceRequirements
  kk_MigrationStrategy :: string
  kk_Instances :: int

definition keycloak_cr :: "string \<Rightarrow> string \<Rightarrow> KeycloakCR" where
  "keycloak_cr name ns = \<lparr>kk_Name = name, kk_Namespace = ns, kk_UID = '''', kk_Labels = [], kk_Annotations = None,
     kk_Env = [(''DISABLE_EXTERNAL_ACCESS'', ''TRUE'')], kk_Extensions = [], kk_ExternalDatabase = False, kk_ExternalAccess = False,
     kk_Profile = '''', kk_PodDisruptionBudget = False, kk_Resources = zero_resources, kk_MigrationStrategy = '''', kk_Instances = 0\<rparr>"

record Route =
  ro_Name :: string
  ro_Namespace :: string
  ro_Host :: string
  ro_To :: "string \<times> string"
  ro_TargetPort :: string
  ro_Termination :: string
  ro_WildcardPolicy :: string

text \<open>Secrets with what the helpers below set beside the data: annotations and owners (kind, name and UID).\<close>

record OwnedSecret = SecretObject +
  sw_Annotations :: "(string, string) gomap option"
  sw_OwnerReferences :: "(string \<times> string \<times> string) list option"

definition owned_secret :: "string \<Rightarrow> string \<Rightarrow> OwnedSecret" where
  "owned_secret name ns = \<lparr>so_Name = name, so_Namespace = ns, so_Type = '''', so_Data = [], sw_Annotations = None, sw_OwnerReferences = None\<rparr>"

record StatefulSet =
  sf_Name :: string
  sf_Namespace :: string
  sf_Labels :: "(string, string) gomap option"
  sf_Template :: PodTemplateSpec
  sf_Replicas :: int
  sf_ReadyReplicas :: int

definition statefulset_access :: "StatefulSet template_access" where
  "statefulset_access = \<lparr>ta_labels = sf_Labels, ta_get = (\<lambda>s. Some (sf_Template s)), ta_set = (\<lambda>t s. s\<lparr>sf_Template := t\<rparr>)\<rparr>"

record PodDisruptionBudget =
  pb_Name :: string
  pb_Namespace :: string
  pb_Labels :: "(string, string) gomap"
  pb_Selector :: "(string, string) gomap"
  pb_MaxUnavailable :: int

record MetricsService =
  mv_Name :: string
  mv_Namespace :: string
  mv_Annotations :: "(string, string) gomap option"
  mv_Labels :: "(string, string) gomap option"
  mv_Selector :: "(string, string) gomap"
  mv_Type :: string
  mv_Ports :: "(string \<times> string \<times> int \<times> int) list"

text \<open>The rules the Keycloak operator ships, in full.\<close>

record KeycloakRule =
  kl_Alert :: string
  kl_Expr :: string
  kl_For :: "string option"
  kl_Record :: string
  kl_Labels :: "(string, string) gomap"
  kl_Annotations :: "(string, string) gomap"

record RuleGroup =
  rg_Name :: string
  rg_PartialResponseStrategy :: string
  rg_Interval :: "string option"
  rg_Rules :: "KeycloakRule list"

record GroupedRules =
  gp_Name :: string
  gp_Namespace :: string
  gp_Labels :: "(string, string) gomap"
  gp_Groups :: "RuleGroup list option"

record 'w sso_common_env =
  sc_base :: "'w base_env"
  sc_backup :: "'w backup_env"
  sc_drift :: "'w \<Rightarrow> 'w"
  sc_polls :: nat
  sc_write :: "ProductName \<Rightarrow> ProductConfig \<Rightarrow> Manager \<Rightarrow> 'w \<Rightarrow> err option \<times> Manager \<times> 'w"
  sc_update :: "'w update_fn"
  sc_getns :: "string \<Rightarrow> 'w \<Rightarrow> (err + bool) \<times> 'w"
  sc_delns :: "string \<Rightarrow> 'w \<Rightarrow> err option \<times> 'w"
  sc_DeleteOAuthClient :: "string \<Rightarrow> 'w \<Rightarrow> err option \<times> 'w"
  sc_GetCRD :: "string \<Rightarrow> 'w \<Rightarrow> err option"
  sc_ListUsers :: "string \<Rightarrow> 'w \<Rightarrow> err + KeycloakUser list"
  sc_DeleteUser :: "KeycloakUser \<Rightarrow> 'w \<Rightarrow> err option \<times> 'w"
  sc_ListClients :: "string \<Rightarrow> 'w \<Rightarrow> err + (string \<times> string) list"
  sc_DeleteClient :: "string \<times> string \<Rightarrow> 'w \<Rightarrow> err option \<times> 'w"
  sc_ListRealms :: "string \<Rightarrow> 'w \<Rightarrow> err + KeycloakRealm list"
  sc_realms :: "(KeycloakRealm, 'w) kind_api"
  sc_keycloaks :: "(KeycloakCR, 'w) kind_api"
  sc_routes :: "(Route, 'w) kind_api"
  sc_secrets :: "(OwnedSecret, 'w) kind_api"
  sc_statefulsets :: "(StatefulSet, 'w) kind_api"
  sc_budgets :: "(PodDisruptionBudget, 'w) kind_api"
  sc_services :: "(MetricsService, 'w) kind_api"
  sc_podMonitors :: "(string \<times> string, 'w) kind_api"
  sc_sourceRules :: "(GroupedRules, 'w) kind_api"
  sc_exportedRules :: "(GroupedRules, 'w) kind_api"
  sc_ReconcilePostgres :: "string \<Rightarrow> string \<Rightarrow> string \<Rightarrow> string \<Rightarrow> 'w \<Rightarrow> (err + CloudResource) \<times> 'w"
  sc_calerts :: "'w calert_env"
  sc_lookupEnv :: "string \<Rightarrow> string option"
  sc_limitRanges :: "(LimitRange, 'w) kind_api"
  sc_quantity :: "string \<Rightarrow> Quantity"
  sc_alerts :: "'w alert_env"
  sc_productAlerts :: "RHMI \<Rightarrow> AlertReconcilerImpl"
  sc_auth :: "KeycloakCR \<Rightarrow> 'w authenticator"
  sc_sso :: "'w sso_env"
  sc_GetPostgres :: "string \<Rightarrow> string \<Rightarrow> 'w \<Rightarrow> err + string"
  sc_uid :: string

text \<open>
  The state of a reconcile: the configuration in memory, the manager, the installation as far as the steps write its status, the
  time of the last restart of a pod (a variable of the package), and the cluster.
\<close>

record 'w sso_state =
  ss_common :: RHSSOCommon
  ss_manager :: Manager
  ss_inst :: RHMI
  ss_lastPodRestart :: int
  ss_world :: 'w

definition on_cluster :: "'w phase_op \<Rightarrow> 'w sso_state phase_op" where
  "on_cluster f s = (case f (ss_world s) of (res, w') \<Rightarrow> (res, s\<lparr>ss_world := w'\<rparr>))"

definition write_config :: "'w sso_common_env \<Rightarrow> ProductName \<Rightarrow> 'w sso_state \<Rightarrow> err option \<times> 'w sso_state" where
  "write_config env name s =
     (case sc_write env name (RHSSOCommon_Read (ss_common s)) (ss_manager s) (ss_world s) of
        (e, m, w) \<Rightarrow> (e, s\<lparr>ss_manager := m, ss_world := w\<rparr>))"

section \<open>Namespaces and clean-up\<close>

definition SetNameSpaces :: "RHMI \<Rightarrow> string \<Rightarrow> RHSSOCommon \<Rightarrow> RHSSOCommon" where
  "SetNameSpaces inst namespace c =
     (let c1 = (if RHSSOCommon_GetNamespace c = '''' then RHSSOCommon_SetNamespace c (NamespacePrefix (Spec inst) @ namespace) else c) in
      if RHSSOCommon_GetOperatorNamespace c1 = '''' then
        RHSSOCommon_SetOperatorNamespace c1
          (if OperatorsInProductNamespace (Spec inst) then RHSSOCommon_GetNamespace c1 else RHSSOCommon_GetNamespace c1 @ ''-operator'')
      else c1)"

text \<open>The name and the namespace of the object that shows a single sign-on is already there.\<close>

definition GetPreflightObject :: "string \<Rightarrow> string \<times> string" where
  "GetPreflightObject ns = (ns, ''sso'')"

text \<open>What is left of a kind after the deletions.\<close>

definition all_gone :: "('w \<Rightarrow> err + 'o list) \<Rightarrow> 'w phase_op" where
  "all_gone ls w =
     (case ls w of
        Inl e \<Rightarrow> ((PhaseFailed, Some e), w)
      | Inr xs \<Rightarrow> ((if 0 < length xs then PhaseInProgress else PhaseCompleted, None), w))"

text \<open>A failing list of the realms is answered with the phase alone.\<close>

definition delete_realms :: "'w sso_common_env \<Rightarrow> string \<Rightarrow> 'w phase_op" where
  "delete_realms env ns w =
     (case sc_ListRealms env ns w of
        Inl e \<Rightarrow> ((PhaseFailed, None), w)
      | Inr realms \<Rightarrow> or_fail (delete_every (k_Delete (sc_realms env)) realms) w)"

fun drop_finalizers :: "(KeycloakRealm, 'w) kind_api \<Rightarrow> KeycloakRealm list \<Rightarrow> 'w \<Rightarrow> err option \<times> 'w" where
  "drop_finalizers api [] w = (None, w)"
| "drop_finalizers api (r # rs) w =
     (case k_Update api (r\<lparr>rm_Finalizers := []\<rparr>) w of
        (e, r', w') \<Rightarrow> if e \<noteq> None \<and> \<not> IsNotFound e then (e, w') else drop_finalizers api rs w')"

definition release_realms :: "'w sso_common_env \<Rightarrow> string \<Rightarrow> 'w phase_op" where
  "release_realms env ns w =
     (case sc_ListRealms env ns w of
        Inl e \<Rightarrow> ((PhaseFailed, Some e), w)
      | Inr realms \<Rightarrow> or_fail (drop_finalizers (sc_realms env) realms) w)"

definition cleanup_steps :: "'w sso_common_env \<Rightarrow> string \<Rightarrow> 'w phase_op list" where
  "cleanup_steps env ns =
     [delete_listed (sc_ListUsers env ns) (sc_DeleteUser env),
      delete_listed (sc_ListClients env ns) (sc_DeleteClient env),
      all_gone (sc_ListUsers env ns),
      all_gone (sc_ListClients env ns),
      delete_realms env ns,
      release_realms env ns,
      all_gone (sc_ListRealms env ns)]"

definition CleanupKeycloakResources :: "'w sso_common_env \<Rightarrow> RHMI \<Rightarrow> string \<Rightarrow> 'w phase_op" where
  "CleanupKeycloakResources env inst ns w =
     (if DeletionTimestamp inst = None then ((PhaseCompleted, None), w)
      else (case Exists (sc_GetCRD env ''keycloaks.keycloak.org'' w) of
              Inl e \<Rightarrow> ((PhaseFailed, Some e), w)
            | Inr crdExists \<Rightarrow> if \<not> crdExists then ((PhaseCompleted, None), w) else run_must (cleanup_steps env ns) w))"

section \<open>The route\<close>

definition edge_route :: "Route \<Rightarrow> Route" where
  "edge_route r = r\<lparr>ro_To := (''Service'', ''keycloak''), ro_TargetPort := ''keycloak'', ro_Termination := ''reencrypt'', ro_WildcardPolicy := ''None''\<rparr>"

definition CreateKeycloakRoute :: "'w sso_common_env \<Rightarrow> ProductName \<Rightarrow> string \<Rightarrow> 'w sso_state phase_op" where
  "CreateKeycloakRoute env name routeName s =
     (case CreateOrUpdate (sc_routes env) (=) (pure_op edge_route)
             \<lparr>ro_Name = routeName, ro_Namespace = RHSSOCommon_GetNamespace (ss_common s), ro_Host = '''', ro_To = ('''', ''''),
              ro_TargetPort = '''', ro_Termination = '''', ro_WildcardPolicy = ''''\<rparr> (ss_world s) of
        ((r, Some e), route, w1) \<Rightarrow> ((PhaseFailed, Some (Wrap ''error creating keycloak edge route'' e)), s\<lparr>ss_world := w1\<rparr>)
      | ((r, None), route, w1) \<Rightarrow>
          if ro_Host route = '''' then ((PhaseInProgress, None), s\<lparr>ss_world := w1\<rparr>)
          else (case write_config env name (s\<lparr>ss_world := w1, ss_common := RHSSOCommon_SetHost (ss_common s) (''https://'' @ ro_Host route)\<rparr>) of
                  (Some e, s2) \<Rightarrow> ((PhaseFailed, Some (Wrap ''error writing to config in rhsso reconciler'' e)), s2)
                | (None, s2) \<Rightarrow> ((PhaseCompleted, None), s2)))"

section \<open>The OpenShift identity provider\<close>

definition client_secret_of :: "'w sso_common_env \<Rightarrow> Manager \<Rightarrow> string \<Rightarrow> string \<Rightarrow> 'w \<Rightarrow> (err + string) \<times> 'w" where
  "client_secret_of env m secretName key w =
     (case k_Get (sc_secrets env) (owned_secret secretName (m_Namespace m)) w of
        (Some e, sec, w1) \<Rightarrow> (Inl (Wrap (''Could not find '' @ secretName @ '' Secret'') e), w1)
      | (None, sec, w1) \<Rightarrow>
          (case map_of (so_Data sec) key of
             None \<Rightarrow> (Inl (Msg (''Could not find '' @ key @ '' key in '' @ so_Name sec @ '' Secret: %!w(<nil>)'')), w1)
           | Some v \<Rightarrow> (Inr v, w1)))"

definition getTenantClientSecret :: "'w sso_common_env \<Rightarrow> Manager \<Rightarrow> string \<Rightarrow> 'w \<Rightarrow> (err + string) \<times> 'w" where
  "getTenantClientSecret env m tenant = client_secret_of env m ''tenant-oauth-client-secrets'' tenant"

definition getClientSecret :: "'w sso_common_env \<Rightarrow> Manager \<Rightarrow> ProductName \<Rightarrow> 'w \<Rightarrow> (err + string) \<times> 'w" where
  "getClientSecret env m name = client_secret_of env m ''oauth-client-secrets'' name"

definition GetOAuthClientName :: "RHMI \<Rightarrow> ProductName \<Rightarrow> string" where
  "GetOAuthClientName inst name = NamespacePrefix (Spec inst) @ name"

definition ContainsIdentityProvider :: "IdentityProvider list \<Rightarrow> string \<Rightarrow> bool" where
  "ContainsIdentityProvider providers alias \<longleftrightarrow> list_ex (\<lambda>p. idp_Alias p = alias) providers"

definition openshift_provider :: "RHMI \<Rightarrow> string \<Rightarrow> string \<Rightarrow> IdentityProvider" where
  "openshift_provider inst clientId clientSecret =
     \<lparr>idp_Alias = sso_idpAlias, idp_ProviderID = ''openshift-v4'', idp_Enabled = True, idp_TrustEmail = True, idp_StoreToken = True,
      idp_AddReadTokenRoleOnCreate = True, idp_FirstBrokerLoginFlowAlias = ''first broker login'', idp_LinkOnly = False,
      idp_Config = Some [(''hideOnLoginPage'', ''''), (''baseUrl'', APIServer (Spec inst)), (''clientId'', clientId), (''disableUserInfo'', ''''),
        (''clientSecret'', clientSecret), (''defaultScope'', ''user:full''), (''useJwksUrl'', ''true'')]\<rparr>"

definition add_provider :: "IdentityProvider \<Rightarrow> KeycloakRealm \<Rightarrow> KeycloakRealm option" where
  "add_provider p kcr =
     (case rm_Realm kcr of
        None \<Rightarrow> None
      | Some r \<Rightarrow>
          Some (if ContainsIdentityProvider (ra_IdentityProviders r) (idp_Alias p) then kcr
                else kcr\<lparr>rm_Realm := Some (r\<lparr>ra_IdentityProviders := ra_IdentityProviders r @ [p]\<rparr>)\<rparr>))"

definition SetupOpenshiftIDP ::
  "'w sso_common_env \<Rightarrow> RHMI \<Rightarrow> Manager \<Rightarrow> ProductName \<Rightarrow> string list \<Rightarrow> string \<Rightarrow> (KeycloakRealm, 'w) op" where
  "SetupOpenshiftIDP env inst m name redirectUris tenant kcr w =
     (case (if tenant \<noteq> '''' then getTenantClientSecret env m tenant w else getClientSecret env m name w) of
        (Inl e, w1) \<Rightarrow> (Some e, kcr, w1)
      | (Inr clientSecret, w1) \<Rightarrow>
          (let clientId = (if tenant \<noteq> '''' then tenant else GetOAuthClientName inst name) in
           case ReconcileOauthClient (sc_base env) (sc_uid env)
                  \<lparr>oc_Name = clientId, oc_Labels = None, oc_Secret = clientSecret, oc_GrantMethod = ''auto'', oc_RedirectURIs = redirectUris\<rparr> w1 of
             ((ph, Some e), oc, w2) \<Rightarrow> (Some e, kcr, w2)
           | ((ph, None), oc, w2) \<Rightarrow>
               (case add_provider (openshift_provider inst clientId clientSecret) kcr of
                  None \<Rightarrow> (Some (GoPanic ''nil pointer dereference''), kcr, w2)
                | Some kcr' \<Rightarrow> (None, kcr', w2))))"

definition SyncOpenshiftIDPClientSecret ::
  "'w sso_common_env \<Rightarrow> Manager \<Rightarrow> ProductName \<Rightarrow> 'w keycloak_api \<Rightarrow> string \<Rightarrow> 'w \<Rightarrow> err option \<times> 'w" where
  "SyncOpenshiftIDPClientSecret env m name kc realm w =
     (case getClientSecret env m name w of
        (Inl e, w1) \<Rightarrow> (Some e, w1)
      | (Inr clientSecret, w1) \<Rightarrow>
          (case kc_GetIdentityProvider kc sso_idpAlias realm w1 of
             Inl e \<Rightarrow> (Some (Wrap ''failed to get identity provider via keycloak api'' e), w1)
           | Inr None \<Rightarrow> (Some (GoPanic ''nil pointer dereference''), w1)
           | Inr (Some idp) \<Rightarrow>
               (let config = (case idp_Config idp of None \<Rightarrow> [] | Some c \<Rightarrow> c) in
                case kc_UpdateIdentityProvider kc (idp\<lparr>idp_Config := Some (gset ''clientSecret'' clientSecret config)\<rparr>) realm w1 of
                  (Some e, w2) \<Rightarrow> (Some (Wrap ''Unable to update Identity Provider'' e), w2)
                | (None, w2) \<Rightarrow> (None, w2))))"

section \<open>The database\<close>

definition put_credentials :: "RHMI \<Rightarrow> SecretObject \<Rightarrow> OwnedSecret \<Rightarrow> OwnedSecret" where
  "put_credentials inst pg s =
     (let v = (\<lambda>k. gget '''' (so_Data pg) k) in
      s\<lparr>sw_Annotations := Some (AddIntegreatlyOwnerAnnotations inst (sw_Annotations s)),
        so_Data := gset ''POSTGRES_SUPERUSER'' ''false'' (gset ''POSTGRES_USERNAME'' (v ''username'') (gset ''POSTGRES_PASSWORD'' (v ''password'')
          (gset ''POSTGRES_EXTERNAL_ADDRESS'' (v ''host'') (gset ''POSTGRES_EXTERNAL_PORT'' (v ''port'') (gset ''POSTGRES_DATABASE'' (v ''database'') (so_Data s))))))\<rparr>)"

text \<open>No Postgres while it is being provisioned.\<close>

definition ReconcileRHSSOPostgresCredentials ::
  "'w sso_common_env \<Rightarrow> RHMI \<Rightarrow> string \<Rightarrow> string \<Rightarrow> string \<Rightarrow> 'w \<Rightarrow> (err + CloudResource option) \<times> 'w" where
  "ReconcileRHSSOPostgresCredentials env inst name ns nsPostfix w =
     (case sc_ReconcilePostgres env nsPostfix (Type (Spec inst)) name (Namespace inst) w of
        (Inl e, w1) \<Rightarrow> (Inl (Wrap (''failed to provision postgres instance while reconciling rhsso postgres credentials, '' @ name) e), w1)
      | (Inr postgres, w1) \<Rightarrow>
          if cr_Phase postgres \<noteq> ''complete'' then (Inr None, w1)
          else (case k_Get (br_secrets (sc_base env)) \<lparr>so_Name = cr_SecretName postgres, so_Namespace = cr_SecretNamespace postgres, so_Type = '''', so_Data = []\<rparr> w1 of
                  (Some e, pg, w2) \<Rightarrow> (Inl (Wrap (''failed to get postgres credential secret while reconciling rhsso postgres credentials, '' @ name) e), w2)
                | (None, pg, w2) \<Rightarrow>
                    (case CreateOrUpdate (sc_secrets env) (=) (pure_op (put_credentials inst pg)) (owned_secret ''keycloak-db-secret'' ns) w2 of
                       ((r, Some e), sec, w3) \<Rightarrow> (Inl (Wrap (''failed to create keycloak external database secret, '' @ name) e), w3)
                     | ((r, None), sec, w3) \<Rightarrow> (Inr (Some postgres), w3))))"

definition ReconcileCloudResources :: "'w sso_common_env \<Rightarrow> RHMI \<Rightarrow> string \<Rightarrow> string \<Rightarrow> string \<Rightarrow> string \<Rightarrow> 'w phase_op" where
  "ReconcileCloudResources env inst dbPrefix defaultNamespace ssoType ns w =
     (case ReconcileRHSSOPostgresCredentials env inst (dbPrefix @ Name inst) ns defaultNamespace w of
        (Inl e, w1) \<Rightarrow> ((PhaseFailed, Some (Wrap (''failed to reconcile database credentials secret while provisioning '' @ ssoType) e)), w1)
      | (Inr None, w1) \<Rightarrow> ((PhaseAwaitingCloudResources, None), w1)
      | (Inr (Some postgres), w1) \<Rightarrow>
          (case ReconcilePostgresAlerts (sc_calerts env) inst postgres w1 of
             ((phase, Some e), w2) \<Rightarrow> ((PhaseFailed, Some (Wrap (''failed to reconcile postgres alerts for '' @ productName_of postgres) e)), w2)
           | ((phase, None), w2) \<Rightarrow> ((if phase \<noteq> PhaseCompleted then phase else PhaseCompleted, None), w2)))"

section \<open>The operator and its deployment\<close>

definition PreUpgradeBackupsExecutor :: "RHMI \<Rightarrow> string \<Rightarrow> executor" where
  "PreUpgradeBackupsExecutor inst resourceName =
     (if UseClusterStorage (Spec inst) \<noteq> ''false'' then NoopBackup
      else AWSBackup (Namespace inst) resourceName PostgresSnapshotType)"

definition SSO_ReconcileSubscription ::
  "'w sso_common_env \<Rightarrow> ProductDeclaration \<Rightarrow> RHMI \<Rightarrow> string \<Rightarrow> string \<Rightarrow> string \<Rightarrow> 'w phase_op" where
  "SSO_ReconcileSubscription env decl inst productNamespace operatorNamespace resourceName w =
     (case PrepareTarget decl ''rhmi-registry-cs''
             \<lparr>t_Namespace = operatorNamespace, t_SubscriptionName = ''rhmi-rhsso'', t_Package = '''', t_Channel = ''''\<rparr> of
        Inl e \<Rightarrow> ((PhaseFailed, Some e), w)
      | Inr (csr, target) \<Rightarrow>
          (case ReconcileSubscription
                  ((sc_base env)\<lparr>br_Backup := PerformBackup (sc_backup env) (sc_drift env) (PreUpgradeBackupsExecutor inst resourceName) (sc_polls env)\<rparr>)
                  target [productNamespace] csr w of
             (res, csr', w') \<Rightarrow> (res, w')))"

definition ReconcileStatefulSet :: "'w sso_common_env \<Rightarrow> RHMI \<Rightarrow> string \<Rightarrow> 'w phase_op" where
  "ReconcileStatefulSet env inst ns w =
     (case UpdatePodTemplateIfExists (sc_statefulsets env) statefulset_access
             (AllMutationsOf [MutateMultiAZAntiAffinity (sc_lookupEnv env) ''app'', MutateZoneTopologySpreadConstraints ''app'',
                              MutatePodPriority (PriorityClassName (Spec inst))])
             \<lparr>sf_Name = ''keycloak'', sf_Namespace = ns, sf_Labels = None, sf_Template = zero_template, sf_Replicas = 0, sf_ReadyReplicas = 0\<rparr> w of
        (res, ss, w') \<Rightarrow> (res, w'))"

definition metrics_service :: "RHMI \<Rightarrow> MetricsService \<Rightarrow> MetricsService" where
  "metrics_service inst svc =
     svc\<lparr>mv_Annotations := Some (AddIntegreatlyOwnerAnnotations inst (mv_Annotations svc)),
         mv_Labels := Some (gset ''name'' ''rhsso-operator'' (case mv_Labels svc of None \<Rightarrow> [] | Some l \<Rightarrow> l)),
         mv_Selector := [(''name'', ''rhsso-operator'')], mv_Type := ''ClusterIP'',
         mv_Ports := [(''rhsso-operator-metrics'', ''TCP'', 8383, 8383)]\<rparr>"

definition ReconcileOperatorMetricsService :: "'w sso_common_env \<Rightarrow> RHMI \<Rightarrow> string \<Rightarrow> 'w phase_op" where
  "ReconcileOperatorMetricsService env inst operatorNamespace w =
     (if operatorNamespace = '''' then ((PhaseFailed, Some (Msg ''operator namespace is empty'')), w)
      else (case CreateOrUpdate (sc_services env) (=) (pure_op (metrics_service inst))
                   \<lparr>mv_Name = ''rhsso-operator-metrics'', mv_Namespace = operatorNamespace, mv_Annotations = None, mv_Labels = None,
                    mv_Selector = [], mv_Type = '''', mv_Ports = []\<rparr> w of
              ((r, Some e), svc, w') \<Rightarrow> ((PhaseFailed, Some (Wrap (''failed to reconcile '' @ operatorNamespace @ ''/rhsso-operator-metrics Service'') e)), w')
            | ((r, None), svc, w') \<Rightarrow> ((PhaseCompleted, None), w')))"

definition keycloak_budget :: "PodDisruptionBudget \<Rightarrow> PodDisruptionBudget" where
  "keycloak_budget p = p\<lparr>pb_Selector := [(''component'', ''keycloak'')], pb_MaxUnavailable := 1, pb_Labels := [(''app'', ''keycloak'')]\<rparr>"

definition ReconcilePodDisruptionBudget :: "'w sso_common_env \<Rightarrow> string \<Rightarrow> 'w phase_op" where
  "ReconcilePodDisruptionBudget env ns =
     or_fail (\<lambda>w. case CreateOrUpdate (sc_budgets env) (=) (pure_op keycloak_budget)
       \<lparr>pb_Name = ''keycloak'', pb_Namespace = ns, pb_Labels = [], pb_Selector = [], pb_MaxUnavailable = 0\<rparr> w of ((r, e), p, w') \<Rightarrow> (e, w'))"

definition RemovePodMonitors :: "'w sso_common_env \<Rightarrow> string \<Rightarrow> 'w phase_op" where
  "RemovePodMonitors env ns w =
     (case k_Get (sc_podMonitors env) (ns, ''keycloak-pod-monitor'') w of
        (Some e, pm, w1) \<Rightarrow> (if IsNotFound (Some e) then (PhaseCompleted, None) else (PhaseFailed, Some e), w1)
      | (None, pm, w1) \<Rightarrow> or_fail (k_Delete (sc_podMonitors env) pm) w1)"

definition AddOwnerRefToSSOSecret :: "'w sso_common_env \<Rightarrow> string \<Rightarrow> string \<Rightarrow> KeycloakCR \<Rightarrow> 'w \<Rightarrow> err option \<times> 'w" where
  "AddOwnerRefToSSOSecret env secretName ns kc w =
     (case k_Get (sc_secrets env) (owned_secret secretName ns) w of
        (Some e, s, w1) \<Rightarrow> (Some e, w1)
      | (None, s, w1) \<Rightarrow>
          (case CreateOrUpdate (sc_secrets env) (=)
                  (pure_op (\<lambda>s. if sw_OwnerReferences s = None then s\<lparr>sw_OwnerReferences := Some [(''Keycloak'', kk_Name kc, kk_UID kc)]\<rparr> else s)) s w1 of
             ((r, e), s', w2) \<Rightarrow> (e, w2)))"

section \<open>Progress\<close>

definition exportConfig :: "'w sso_common_env \<Rightarrow> string \<Rightarrow> string \<Rightarrow> 'w sso_state \<Rightarrow> err option \<times> 'w sso_state" where
  "exportConfig env keycloakName realmName s =
     (case k_Get (sc_keycloaks env) (keycloak_cr keycloakName (RHSSOCommon_GetNamespace (ss_common s))) (ss_world s) of
        (Some e, kc, w1) \<Rightarrow> (Some (Wrap ''Could not retrieve keycloak custom resource for keycloak config'' e), s\<lparr>ss_world := w1\<rparr>)
      | (None, kc, w1) \<Rightarrow> (None, s\<lparr>ss_world := w1, ss_common := RHSSOCommon_SetRealm (ss_common s) realmName\<rparr>))"

definition HandleProgressPhase :: "'w sso_common_env \<Rightarrow> ProductName \<Rightarrow> string \<Rightarrow> string \<Rightarrow> string \<Rightarrow> string \<Rightarrow> 'w sso_state phase_op" where
  "HandleProgressPhase env name keycloakName realmName version operatorVersion s =
     (case k_Get (sc_keycloaks env) (keycloak_cr keycloakName (RHSSOCommon_GetNamespace (ss_common s))) (ss_world s) of
        (Some e, kc, w1) \<Rightarrow> ((PhaseFailed, Some e), s\<lparr>ss_world := w1\<rparr>)
      | (None, kc, w1) \<Rightarrow>
          (case write_config env name (s\<lparr>ss_world := w1, ss_common :=
                  RHSSOCommon_SetOperatorVersion (RHSSOCommon_SetProductVersion (ss_common s) version) operatorVersion\<rparr>) of
             (Some e, s2) \<Rightarrow> ((PhaseFailed, Some e), s2)
           | (None, s2) \<Rightarrow>
               (case k_Get (sc_realms env) (kc_realm realmName (RHSSOCommon_GetNamespace (ss_common s2))) (ss_world s2) of
                  (Some e, kcr, w3) \<Rightarrow> ((PhaseFailed, Some (Wrap ''failed to get keycloak realm custom resource'' e)), s2\<lparr>ss_world := w3\<rparr>)
                | (None, kcr, w3) \<Rightarrow>
                    if rm_Phase kcr = ''reconciling'' then
                      (case exportConfig env keycloakName realmName (s2\<lparr>ss_world := w3\<rparr>) of
                         (Some e, s4) \<Rightarrow> ((PhaseFailed, Some (Wrap ''failed to write rhsso config'' e)), s4)
                       | (None, s4) \<Rightarrow> ((PhaseCompleted, None), s4))
                    else ((PhaseInProgress, None), s2\<lparr>ss_world := w3\<rparr>))))"

section \<open>The export of the alerts\<close>

text \<open>
  \<^verbatim>\<open>removeRule\<close> is \<^verbatim>\<open>append\<close> on a prefix: it shifts the tail of the slice to the left inside its array, so the array keeps its
  length and its last cell. The loop over the rules of a group reads the cells as they are when it gets to them, up to the
  length the group had at first, and always shifts the rules of the first group. The state is the array of the first group,
  the length of its slice, and for every group that was assigned, the length of its new slice, which lies in that array too.
\<close>

record export_state =
  xs_array :: "KeycloakRule list"
  xs_first :: nat
  xs_views :: "(nat \<times> nat) list"

definition removeRule :: "KeycloakRule list \<Rightarrow> nat \<Rightarrow> nat \<Rightarrow> KeycloakRule list option" where
  "removeRule array len s =
     (if len < Suc s then None else Some (take s array @ drop (Suc s) (take len array) @ drop (len - 1) array))"

abbreviation dropped_alert :: string where "dropped_alert \<equiv> ''KeycloakInstanceNotAvailable''"

fun scan_rules :: "nat \<Rightarrow> KeycloakRule list \<Rightarrow> nat list \<Rightarrow> export_state \<Rightarrow> export_state option" where
  "scan_rules g own [] st = Some st"
| "scan_rules g own (i # idxs) st =
     (let r = (if g = 0 then xs_array st else own) ! i in
      if kl_Alert r \<noteq> dropped_alert then scan_rules g own idxs st
      else (case removeRule (xs_array st) (xs_first st) i of
              None \<Rightarrow> None
            | Some a \<Rightarrow>
                scan_rules g own idxs
                  (if g = 0 then st\<lparr>xs_array := a, xs_first := xs_first st - 1\<rparr>
                   else st\<lparr>xs_array := a, xs_views := gset g (xs_first st - 1) (xs_views st)\<rparr>)))"

fun scan_groups :: "nat \<Rightarrow> RuleGroup list \<Rightarrow> export_state \<Rightarrow> export_state option" where
  "scan_groups g [] st = Some st"
| "scan_groups g (rg # rgs) st =
     (if rg_Name rg = ''general.rules'' then
        (case scan_rules g (rg_Rules rg) [0..<length (rg_Rules rg)] st of None \<Rightarrow> None | Some st' \<Rightarrow> scan_groups (Suc g) rgs st')
      else scan_groups (Suc g) rgs st)"

text \<open>The groups as they are after the loops; an index out of range is a panic.\<close>

definition group_after :: "export_state \<Rightarrow> nat \<Rightarrow> RuleGroup \<Rightarrow> RuleGroup" where
  "group_after st g rg =
     (if g = 0 then rg\<lparr>rg_Rules := take (xs_first st) (xs_array st)\<rparr>
      else (case map_of (xs_views st) g of None \<Rightarrow> rg | Some n \<Rightarrow> rg\<lparr>rg_Rules := take n (xs_array st)\<rparr>))"

definition drop_alert :: "RuleGroup list \<Rightarrow> RuleGroup list option" where
  "drop_alert groups =
     (case groups of
        [] \<Rightarrow> Some []
      | g0 # gs \<Rightarrow>
          map_option (\<lambda>st. map (\<lambda>(i, g). group_after st i g) (enumerate 0 groups))
            (scan_groups 0 groups \<lparr>xs_array = rg_Rules g0, xs_first = length (rg_Rules g0), xs_views = []\<rparr>))"

text \<open>The copy into the API group of the observability operator: every field of the groups and of their rules.\<close>

definition ExportAlerts :: "'w sso_common_env \<Rightarrow> RHMI \<Rightarrow> ProductName \<Rightarrow> string \<Rightarrow> 'w phase_op" where
  "ExportAlerts env inst name ns w =
     (case k_Get (sc_sourceRules env) \<lparr>gp_Name = ''keycloak'', gp_Namespace = ns, gp_Labels = [], gp_Groups = None\<rparr> w of
        (Some e, src, w1) \<Rightarrow> ((PhaseFailed, Some e), w1)
      | (None, src, w1) \<Rightarrow>
          (case gp_Groups src of
             None \<Rightarrow> ((PhaseInProgress, None), w1)
           | Some groups \<Rightarrow>
               (case drop_alert groups of
                  None \<Rightarrow> ((PhaseFailed, Some (GoPanic ''slice bounds out of range'')), w1)
                | Some groups' \<Rightarrow>
                    or_fail (\<lambda>w. case CreateOrUpdate (sc_exportedRules env) (=)
                      (pure_op (\<lambda>r. r\<lparr>gp_Labels := gp_Labels src, gp_Groups := Some groups'\<rparr>))
                      \<lparr>gp_Name = name, gp_Namespace = GetOboNamespace (Namespace inst), gp_Labels = [], gp_Groups = None\<rparr> w of
                        ((r, e), rule, w') \<Rightarrow> (e, w')) w1)))"

lemmas sso_common_defs [go_defs] = on_cluster_def or_fail_def write_config_def SetNameSpaces_def delete_listed_def all_gone_def
  delete_realms_def release_realms_def cleanup_steps_def CleanupKeycloakResources_def CreateKeycloakRoute_def client_secret_of_def
  SetupOpenshiftIDP_def ReconcileRHSSOPostgresCredentials_def ReconcileCloudResources_def SSO_ReconcileSubscription_def
  ReconcileStatefulSet_def ReconcileOperatorMetricsService_def ReconcilePodDisruptionBudget_def RemovePodMonitors_def
  AddOwnerRefToSSOSecret_def exportConfig_def HandleProgressPhase_def removeRule_def group_after_def drop_alert_def ExportAlerts_def

section \<open>Properties\<close>

subsection \<open>The export\<close>

lemma scan_rules_append:
  "scan_rules g own (idxs @ js) st = (case scan_rules g own idxs st of None \<Rightarrow> None | Some st' \<Rightarrow> scan_rules g own js st')"
  by (induction idxs arbitrary: st) (auto simp: Let_def split: option.splits)

lemma scan_rules_none:
  assumes "\<And>i. i \<in> set idxs \<Longrightarrow> kl_Alert ((if g = 0 then xs_array st else own) ! i) \<noteq> dropped_alert"
  shows "scan_rules g own idxs st = Some st"
  using assms
proof (induction idxs)
  case Nil
  show ?case by simp
next
  case (Cons i idxs)
  have "kl_Alert ((if g = 0 then xs_array st else own) ! i) \<noteq> dropped_alert" using Cons.prems by (metis list.set_intros(1))
  moreover have "scan_rules g own idxs st = Some st" using Cons by (metis list.set_intros(2))
  ultimately show ?case unfolding scan_rules.simps Let_def by (simp only: if_True simp_thms)
qed

lemma scan_groups_none:
  assumes "\<And>rg. rg \<in> set rgs \<Longrightarrow> rg_Name rg \<noteq> ''general.rules''"
  shows "scan_groups g rgs st = Some st"
  using assms
proof (induction rgs arbitrary: g)
  case Nil
  show ?case by simp
next
  case (Cons rg rgs)
  have "rg_Name rg \<noteq> ''general.rules''" using Cons.prems by (metis list.set_intros(1))
  moreover have "scan_groups (Suc g) rgs st = Some st" using Cons by (metis list.set_intros(2))
  ultimately show ?case unfolding scan_groups.simps by (simp only: if_False)
qed

text \<open>The pass over the first group: the rules before the alert, the alert, and the rest one cell to the left.\<close>

lemma scan_first_group:
  assumes "\<And>r. r \<in> set xs \<union> set ys \<Longrightarrow> kl_Alert r \<noteq> dropped_alert" and "kl_Alert a = dropped_alert"
  shows "\<exists>arr. scan_rules 0 (xs @ a # ys) [0..<length (xs @ a # ys)]
       \<lparr>xs_array = xs @ a # ys, xs_first = length (xs @ a # ys), xs_views = []\<rparr> =
     Some \<lparr>xs_array = arr, xs_first = length xs + length ys, xs_views = []\<rparr> \<and> take (length xs + length ys) arr = xs @ ys"
proof -
  let ?st = "\<lparr>xs_array = xs @ a # ys, xs_first = length (xs @ a # ys), xs_views = []\<rparr>"
  let ?arr = "xs @ ys @ drop (length xs + length ys) (xs @ a # ys)"
  let ?st' = "\<lparr>xs_array = ?arr, xs_first = length xs + length ys, xs_views = []\<rparr>"
  have idx: "[0..<length (xs @ a # ys)] = [0..<length xs] @ length xs # [Suc (length xs)..<length (xs @ a # ys)]"
  proof -
    have "[0..<length xs + Suc (length ys)] = [0..<length xs] @ [length xs..<length xs + Suc (length ys)]"
      by (rule upt_add_eq_append) simp
    also have "[length xs..<length xs + Suc (length ys)] = length xs # [Suc (length xs)..<length xs + Suc (length ys)]"
      by (rule upt_conv_Cons) simp
    finally show ?thesis by (simp only: length_append list.size add_Suc_right add_0_right)
  qed
  have before: "scan_rules 0 (xs @ a # ys) [0..<length xs] ?st = Some ?st"
  proof (rule scan_rules_none)
    fix i assume "i \<in> set [0..<length xs]"
    then have "(if (0::nat) = 0 then xs_array ?st else xs @ a # ys) ! i = xs ! i" and "xs ! i \<in> set xs" by (auto simp: nth_append)
    then show "kl_Alert ((if (0::nat) = 0 then xs_array ?st else xs @ a # ys) ! i) \<noteq> dropped_alert" using assms(1) by (metis UnI1)
  qed
  have rem: "removeRule (xs @ a # ys) (length (xs @ a # ys)) (length xs) = Some ?arr" by (simp add: removeRule_def)
  have after: "scan_rules 0 (xs @ a # ys) [Suc (length xs)..<length (xs @ a # ys)] ?st' = Some ?st'"
  proof (rule scan_rules_none)
    fix i assume i: "i \<in> set [Suc (length xs)..<length (xs @ a # ys)]"
    then have "?arr ! i \<in> set ys"
    proof (cases "i < length xs + length ys")
      case True
      from i have le: "length xs \<le> i" by auto
      with True have lt: "i - length xs < length ys" by arith
      with le have "?arr ! i = ys ! (i - length xs)" by (simp add: nth_append)
      with lt show ?thesis by simp
    next
      case False
      with i have "i = length xs + length ys" and "ys \<noteq> []" by (auto simp: not_less)
      then have "?arr ! i = last ys" by (auto simp: nth_append last_conv_nth)
      with \<open>ys \<noteq> []\<close> show ?thesis by simp
    qed
    then show "kl_Alert ((if (0::nat) = 0 then xs_array ?st' else xs @ a # ys) ! i) \<noteq> dropped_alert" using assms(1) by simp
  qed
  have "scan_rules 0 (xs @ a # ys) (length xs # [Suc (length xs)..<length (xs @ a # ys)]) ?st = Some ?st'"
    using rem after assms(2) by (simp add: Let_def)
  with before have "scan_rules 0 (xs @ a # ys) [0..<length (xs @ a # ys)] ?st = Some ?st'"
    unfolding idx by (simp only: scan_rules_append option.case)
  then show ?thesis by (intro exI [of _ ?arr]) simp
qed

lemma split_once:
  assumes "length (filter P rs) = 1"
  shows "\<exists>xs a ys. rs = xs @ a # ys \<and> P a \<and> (\<forall>r \<in> set xs \<union> set ys. \<not> P r)"
proof -
  obtain a where "filter P rs = [a]" using assms by (cases "filter P rs") auto
  then obtain xs ys where "rs = xs @ a # ys" and "\<forall>r \<in> set xs. \<not> P r" and "P a" and "filter P ys = []"
    by (auto simp: filter_eq_Cons_iff)
  then show ?thesis by (intro exI [of _ xs] exI [of _ a] exI [of _ ys]) (auto simp: filter_empty_conv)
qed

text \<open>
  Rules as the Keycloak operator ships them, the general group first and the alert on the instance in it once: the loops take
  that alert out and leave every other rule of every group as it is.
\<close>

theorem drop_alert_exact:
  assumes "rg_Name g0 = ''general.rules''" and "\<forall>g \<in> set gs. rg_Name g \<noteq> ''general.rules''"
    and "length (filter (\<lambda>r. kl_Alert r = dropped_alert) (rg_Rules g0)) \<le> 1"
  shows "drop_alert (g0 # gs) = Some (g0\<lparr>rg_Rules := filter (\<lambda>r. kl_Alert r \<noteq> dropped_alert) (rg_Rules g0)\<rparr> # gs)"
proof -
  let ?P = "\<lambda>r. kl_Alert r = dropped_alert"
  let ?st = "\<lparr>xs_array = rg_Rules g0, xs_first = length (rg_Rules g0), xs_views = []\<rparr>"
  have "\<exists>arr n. scan_rules 0 (rg_Rules g0) [0..<length (rg_Rules g0)] ?st = Some \<lparr>xs_array = arr, xs_first = n, xs_views = []\<rparr> \<and>
      take n arr = filter (\<lambda>r. \<not> ?P r) (rg_Rules g0)"
  proof (cases "filter ?P (rg_Rules g0) = []")
    case True
    then have no: "\<not> ?P r" if "r \<in> set (rg_Rules g0)" for r using that by (simp add: filter_empty_conv)
    have "scan_rules 0 (rg_Rules g0) [0..<length (rg_Rules g0)] ?st = Some ?st"
    proof (rule scan_rules_none)
      fix i assume "i \<in> set [0..<length (rg_Rules g0)]"
      then have "rg_Rules g0 ! i \<in> set (rg_Rules g0)" by simp
      with no show "kl_Alert ((if (0::nat) = 0 then xs_array ?st else rg_Rules g0) ! i) \<noteq> dropped_alert" by simp
    qed
    moreover have "filter (\<lambda>r. \<not> ?P r) (rg_Rules g0) = rg_Rules g0" using no by (rule filter_True [OF ballI])
    ultimately show ?thesis by (intro exI [of _ "rg_Rules g0"] exI [of _ "length (rg_Rules g0)"]) simp
  next
    case False
    then have "length (filter ?P (rg_Rules g0)) = 1" using assms(3) by (cases "filter ?P (rg_Rules g0)") auto
    from split_once [OF this] obtain xs a ys where rs: "rg_Rules g0 = xs @ a # ys" and a: "?P a"
      and out: "\<forall>r \<in> set xs \<union> set ys. \<not> ?P r" by (elim exE conjE)
    from out have no: "\<And>r. r \<in> set xs \<union> set ys \<Longrightarrow> \<not> ?P r" by (rule bspec)
    have "filter (\<lambda>r. \<not> ?P r) xs = xs" "filter (\<lambda>r. \<not> ?P r) ys = ys" using no by (auto intro: filter_True)
    then have "filter (\<lambda>r. \<not> ?P r) (rg_Rules g0) = xs @ ys" using a unfolding rs by simp
    with scan_first_group [OF no a] show ?thesis unfolding rs by metis
  qed
  then obtain arr n where scan: "scan_rules 0 (rg_Rules g0) [0..<length (rg_Rules g0)] ?st = Some \<lparr>xs_array = arr, xs_first = n, xs_views = []\<rparr>"
    and arr: "take n arr = filter (\<lambda>r. \<not> ?P r) (rg_Rules g0)" by blast
  have rest: "scan_groups (Suc 0) gs st = Some st" for st by (rule scan_groups_none) (use assms(2) in blast)
  have keep: "map (\<lambda>(i, g). group_after \<lparr>xs_array = arr, xs_first = n, xs_views = []\<rparr> i g) (enumerate (Suc 0) gs) = gs"
    by (rule nth_equalityI) (simp_all add: nth_enumerate_eq group_after_def)
  have first: "group_after \<lparr>xs_array = arr, xs_first = n, xs_views = []\<rparr> 0 g0 = g0\<lparr>rg_Rules := filter (\<lambda>r. \<not> ?P r) (rg_Rules g0)\<rparr>"
    using arr by (simp add: group_after_def)
  show ?thesis
    using scan rest keep first assms(1) by (simp add: drop_alert_def)
qed

text \<open>
  With the general group in second place the loops shift the rules of the first one: the general group gets those in place of
  its own, the first group loses one, or the index is out of range.
\<close>

definition sample_rule :: "string \<Rightarrow> KeycloakRule" where
  "sample_rule alert = \<lparr>kl_Alert = alert, kl_Expr = '''', kl_For = None, kl_Record = '''', kl_Labels = [], kl_Annotations = []\<rparr>"

definition rules_group :: "string \<Rightarrow> string list \<Rightarrow> RuleGroup" where
  "rules_group name alerts = \<lparr>rg_Name = name, rg_PartialResponseStrategy = '''', rg_Interval = None, rg_Rules = map sample_rule alerts\<rparr>"

lemma drop_alert_second_group:
  "map_option (map (\<lambda>g. (rg_Name g, map kl_Alert (rg_Rules g))))
     (drop_alert [rules_group ''a'' [''x'', ''y''], rules_group ''general.rules'' [dropped_alert, ''z'']]) =
   Some [(''a'', [''y'', ''y'']), (''general.rules'', [''y''])]"
  by code_simp

lemma drop_alert_panics:
  "drop_alert [rules_group ''a'' [''x''], rules_group ''general.rules'' [''z'', dropped_alert]] = None"
  by code_simp

theorem drop_alert_exact_witness:
  "drop_alert [rules_group ''general.rules'' [''x'', dropped_alert, ''y''], rules_group ''b'' [dropped_alert]] =
   Some [rules_group ''general.rules'' [''x'', ''y''], rules_group ''b'' [dropped_alert]]"
  using drop_alert_exact [of "rules_group ''general.rules'' [''x'', dropped_alert, ''y'']" "[rules_group ''b'' [dropped_alert]]"]
  by (simp add: rules_group_def sample_rule_def)

subsection \<open>The clean-up\<close>

lemma all_gone_completed [simp]: "all_gone ls w = ((PhaseCompleted, None), w') \<longleftrightarrow> ls w = Inr [] \<and> w' = w"
  by (auto simp: all_gone_def split: sum.splits)

definition deletes :: "'w sso_common_env \<Rightarrow> string \<Rightarrow> 'w phase_op" where
  "deletes env ns = run_must (take 2 (cleanup_steps env ns))"

lemma cleanup_split:
  "run_must (cleanup_steps env ns) w =
     (case deletes env ns w of ((phase, e), w1) \<Rightarrow>
        if e \<noteq> None \<or> phase \<noteq> PhaseCompleted then ((phase, e), w1) else run_must (drop 2 (cleanup_steps env ns)) w1)"
  unfolding deletes_def by (rule run_must_append [of "take 2 (cleanup_steps env ns)" "drop 2 (cleanup_steps env ns)", unfolded append_take_drop_id])

text \<open>While users or clients are left, no realm is touched.\<close>

lemma cleanup_waits:
  assumes "DeletionTimestamp inst \<noteq> None" and "sc_GetCRD env ''keycloaks.keycloak.org'' w = None"
    and "deletes env ns w = ((PhaseCompleted, None), w1)"
    and "sc_ListUsers env ns w1 = Inr us" and "sc_ListClients env ns w1 = Inr cs" and "us \<noteq> [] \<or> cs \<noteq> []"
  shows "CleanupKeycloakResources env inst ns w = ((PhaseInProgress, None), w1)"
  using assms by (auto simp: CleanupKeycloakResources_def Exists_def cleanup_split) (auto simp: cleanup_steps_def all_gone_def)

text \<open>A completed clean-up saw no user and no client before it deleted the realms, and leaves no realm.\<close>

lemma cleanup_completed:
  assumes "DeletionTimestamp inst \<noteq> None" and "sc_GetCRD env ''keycloaks.keycloak.org'' w = None"
    and "CleanupKeycloakResources env inst ns w = ((PhaseCompleted, None), w')"
  shows "\<exists>w1. deletes env ns w = ((PhaseCompleted, None), w1) \<and> sc_ListUsers env ns w1 = Inr [] \<and> sc_ListClients env ns w1 = Inr [] \<and>
     sc_ListRealms env ns w' = Inr []"
proof -
  have "run_must (cleanup_steps env ns) w = ((PhaseCompleted, None), w')"
    using assms by (cases "DeletionTimestamp inst") (simp_all add: CleanupKeycloakResources_def Exists_def)
  then obtain w1 where d: "deletes env ns w = ((PhaseCompleted, None), w1)"
    and r: "run_must (drop 2 (cleanup_steps env ns)) w1 = ((PhaseCompleted, None), w')"
    by (auto simp: cleanup_split split: prod.splits if_splits)
  have "drop 2 (cleanup_steps env ns) = [all_gone (sc_ListUsers env ns), all_gone (sc_ListClients env ns), delete_realms env ns,
      release_realms env ns, all_gone (sc_ListRealms env ns)]"
    by (simp add: cleanup_steps_def)
  with r have "sc_ListUsers env ns w1 = Inr [] \<and> sc_ListClients env ns w1 = Inr [] \<and> sc_ListRealms env ns w' = Inr []"
    by (simp only: run_must_completed_iff all_gone_completed) auto
  with d show ?thesis by blast
qed

subsection \<open>The identity provider\<close>

lemma ReconcileOauthClient_stored:
  assumes srv: "stores (br_oauth env)" and "ReconcileOauthClient env uid client w = ((ph, None), oc, w')"
    and "\<And>a b. oc_Name a = oc_Name b \<Longrightarrow> k_Key (br_oauth env) a = k_Key (br_oauth env) b"
    and name: "\<And>a b. k_Key (br_oauth env) a = k_Key (br_oauth env) b \<Longrightarrow> oc_Name a = oc_Name b"
  shows "\<exists>c. k_Get (br_oauth env) client w' = (None, c, w') \<and> oc_Secret c = oc_Secret client \<and> oc_RedirectURIs c = oc_RedirectURIs client \<and>
     oc_GrantMethod c = oc_GrantMethod client"
proof -
  let ?api = "br_oauth env"
  obtain e c1 w1 where g: "k_Get ?api client w = (e, c1, w1)" by (metis surj_pair)
  note key = stores_get(2) [OF srv g]
  show ?thesis
  proof (cases e)
    case None
    let ?c = "c1\<lparr>oc_Labels := Some (PrepareObjectLabels (oc_Labels c1) uid True False False),
       oc_RedirectURIs := oc_RedirectURIs client, oc_GrantMethod := oc_GrantMethod client, oc_Secret := oc_Secret client\<rparr>"
    have u: "k_Update ?api ?c w1 = (None, oc, w')"
      using assms(2) g None by (auto simp: ReconcileOauthClient_def split: prod.splits option.splits)
    have "k_Key ?api client = k_Key ?api ?c" by (rule assms(3)) (simp add: name [OF key])
    from stores_update(2) [OF srv u this] show ?thesis by simp
  next
    case (Some x)
    have "c1 = client" using srv g Some unfolding stores_def reads_by_key_def by fastforce
    let ?c = "c1\<lparr>oc_Labels := Some (PrepareObjectLabels (oc_Labels c1) uid True False False)\<rparr>"
    have u: "k_Create ?api ?c w1 = (None, oc, w')"
      using assms(2) g Some by (auto simp: ReconcileOauthClient_def split: prod.splits option.splits if_splits)
    have "k_Key ?api client = k_Key ?api ?c" by (rule assms(3)) (simp add: \<open>c1 = client\<close>)
    from stores_write(2) [OF srv, where c = False, simplified, OF u this] show ?thesis using \<open>c1 = client\<close> by simp
  qed
qed

definition oauth_server :: "(OAuthClient, 'w) kind_api \<Rightarrow> bool" where
  "oauth_server api \<longleftrightarrow> stores api \<and> (\<forall>a b. k_Key api a = k_Key api b \<longleftrightarrow> oc_Name a = oc_Name b)"


section \<open>Witnesses\<close>

text \<open>A cluster without anything, for the witnesses to change.\<close>

definition blank_sso_env :: "'w sso_common_env" where
  "blank_sso_env = \<lparr>sc_base = base_with (market_with empty_api empty_api) empty_api (\<lambda>w. (None, w)), sc_backup = sample_backup_env (\<lambda>w. True),
     sc_drift = (\<lambda>w. w), sc_polls = 1, sc_write = (\<lambda>n c m w. (None, m, w)), sc_update = (\<lambda>i w. (None, i, w)),
     sc_getns = (\<lambda>n w. (Inl (ApiErr NotFound ''''), w)), sc_delns = (\<lambda>n w. (None, w)), sc_DeleteOAuthClient = (\<lambda>n w. (None, w)),
     sc_GetCRD = (\<lambda>n w. None), sc_ListUsers = (\<lambda>n w. Inr []), sc_DeleteUser = (\<lambda>u w. (None, w)), sc_ListClients = (\<lambda>n w. Inr []),
     sc_DeleteClient = (\<lambda>c w. (None, w)), sc_ListRealms = (\<lambda>n w. Inr []), sc_realms = empty_api, sc_keycloaks = empty_api, sc_routes = empty_api,
     sc_secrets = empty_api, sc_statefulsets = empty_api, sc_budgets = empty_api, sc_services = empty_api, sc_podMonitors = empty_api,
     sc_sourceRules = empty_api, sc_exportedRules = empty_api, sc_ReconcilePostgres = (\<lambda>p t n ns w. (Inl (Msg ''unavailable''), w)),
     sc_calerts = \<lparr>ca_rules = empty_api, ca_title = id\<rparr>, sc_lookupEnv = (\<lambda>n. None), sc_limitRanges = empty_api, sc_quantity = (\<lambda>s. 0),
     sc_alerts = \<lparr>al_obo = empty_api, al_upstream = empty_api\<rparr>, sc_productAlerts = (\<lambda>i. \<lparr>ar_deleting = False, ar_Alerts = [], ar_RemovedAlerts = []\<rparr>),
     sc_auth = (\<lambda>k w. Inl (Msg ''unavailable'')),
     sc_sso = \<lparr>sx_users = \<lparr>us_ListUsers = (\<lambda>w. Inr []), us_ListGroups = (\<lambda>w. Inr []), us_ListIdentities = (\<lambda>w. Inr []), us_ListOAuths = (\<lambda>w. Inr []),
       us_groups = empty_api, us_ParseAddress = (\<lambda>s. False)\<rparr>, sx_kcusers = empty_api, sx_ListKeycloakUsers = (\<lambda>l n w. Inr [])\<rparr>,
     sc_GetPostgres = (\<lambda>n ns w. Inr ''complete''), sc_uid = ''uid''\<rparr>"

definition sample_oauth_env :: "OAuthClient option sso_common_env" where
  "sample_oauth_env = blank_sso_env\<lparr>
     sc_base := (base_with (market_with empty_api empty_api) empty_api (\<lambda>w. (None, w)))\<lparr>br_oauth := sample_api (\<lambda>c. ('''', oc_Name c))\<rparr>,
     sc_secrets := empty_api\<lparr>k_Get := (\<lambda>s w. (None, s\<lparr>so_Data := [(''rhsso'', ''pw'')]\<rparr>, w))\<rparr>\<rparr>"

definition sample_manager :: Manager where
  "sample_manager = \<lparr>m_Namespace = ''op'', cfgmap = \<lparr>cm_Name = '''', cm_Namespace = '''', cm_Data = None\<rparr>\<rparr>"

definition sample_realm :: KeycloakRealm where
  "sample_realm = (kc_realm ''openshift'' ''rhsso'')\<lparr>rm_Realm := Some \<lparr>ra_ID = ''openshift'', ra_Realm = ''openshift'', ra_Enabled = True,
     ra_DisplayName = ''openshift'', ra_EventsListeners = [], ra_IdentityProviders = []\<rparr>\<rparr>"


end
