(* ===== verification/SSO_Reconcilers.thy ===== *)
theory SSO_Reconcilers
  imports SSO_Common
begin

text \<open>
  The reconcilers of the two single sign-on products, the one of the cluster (\<^verbatim>\<open>pkg/products/rhsso/reconciler.go\<close>) and the one of
  the customer (\<^verbatim>\<open>pkg/products/rhssouser/reconciler.go\<close>): construction, components, and the whole of \<^verbatim>\<open>Reconcile\<close> with the
  clean-up it registers as a finalizer.
\<close>

section \<open>Environment\<close>

text \<open>
  The pod metrics of a namespace: for every pod its name and, for every container with a CPU usage, the quantity as text; no
  list is a nil answer. The client for the GitHub provider is made by a factory of its own.
\<close>

record ConsoleLink =
  co_Name :: string
  co_ImageURL :: string
  co_Section :: string
  co_Location :: string
  co_Href :: string
  co_Text :: string

record 'w rhsso_env =
  rx_common :: "'w sso_common_env"
  rx_localAuth :: "KeycloakCR \<Rightarrow> 'w authenticator"
  rx_now :: "'w \<Rightarrow> int"
  rx_PodMetrics :: "string \<Rightarrow> 'w \<Rightarrow> err + (string \<times> string option list) list option"
  rx_DeletePod :: "string \<Rightarrow> string \<Rightarrow> 'w \<Rightarrow> err option \<times> 'w"
  rx_links :: "(ConsoleLink, 'w) kind_api"

section \<open>Construction and versions\<close>

definition sso_NewReconciler ::
  "string \<Rightarrow> string \<Rightarrow> err + RHSSOCommon \<Rightarrow> RHMI \<Rightarrow> ProductDeclaration option \<Rightarrow> err + RHSSOCommon \<times> ProductDeclaration" where
  "sso_NewReconciler what defaultNamespace config inst decl =
     (case decl of
        None \<Rightarrow> Inl (Msg (''no product declaration found for '' @ what))
      | Some d \<Rightarrow> map_sum id (\<lambda>c. (SetNameSpaces inst defaultNamespace c, d)) config)"

definition RHSSO_NewReconciler ::
  "(string \<Rightarrow> err + ProductConfig) \<Rightarrow> Manager \<Rightarrow> RHMI \<Rightarrow> ProductDeclaration option \<Rightarrow> err + RHSSOCommon \<times> ProductDeclaration" where
  "RHSSO_NewReconciler decode m inst = sso_NewReconciler ''RHSSO'' ''rhsso'' (map_sum id rhsso_common (ReadRHSSO decode m)) inst"

definition RHSSOUser_NewReconciler ::
  "(string \<Rightarrow> err + ProductConfig) \<Rightarrow> Manager \<Rightarrow> RHMI \<Rightarrow> ProductDeclaration option \<Rightarrow> err + RHSSOCommon \<times> ProductDeclaration" where
  "RHSSOUser_NewReconciler decode m inst = sso_NewReconciler ''user SSO'' ''user-sso'' (map_sum id rhssouser_common (ReadRHSSOUser decode m)) inst"

definition RHSSO_VerifyVersion :: "RHMI \<Rightarrow> bool" where
  "RHSSO_VerifyVersion inst =
     (let p = gget zero_product (s_Products (GetInstallStage inst)) ProductRHSSO
      in OperatorVersionRHSSO = p_OperatorVersion p \<and> VersionRHSSO = p_Version p)"

definition RHSSOUser_VerifyVersion :: "RHMI \<Rightarrow> bool" where
  "RHSSOUser_VerifyVersion inst =
     (let p = gget zero_product (s_Products (GetInstallStage inst)) ProductRHSSOUser
      in OperatorVersionRHSSOUser = p_OperatorVersion p \<and> VersionRHSSOUser = p_Version p)"

section \<open>Keycloak of the cluster\<close>

text \<open>A server of the cluster alone, seen from a state that carries the installation too.\<close>

definition with_inst :: "('o, 'w) kind_api \<Rightarrow> ('o, RHMI \<times> 'w) kind_api" where
  "with_inst api =
     (let lift = (\<lambda>f obj (i, w). case f obj w of (e, o', w') \<Rightarrow> (e, o', i, w')) in
      \<lparr>k_Get = lift (k_Get api), k_Create = lift (k_Create api), k_Update = lift (k_Update api), k_Patch = lift (k_Patch api),
       k_Delete = (\<lambda>obj (i, w). case k_Delete api obj w of (e, w') \<Rightarrow> (e, i, w')), k_Key = k_Key api\<rparr>)"

definition sso_resources :: "(string \<Rightarrow> Quantity) \<Rightarrow> RHMI \<Rightarrow> ResourceRequirements" where
  "sso_resources quantity inst =
     (let l = [(''cpu'', quantity (if IsRHOAMMultitenant (Type (Spec inst)) then ''2000m'' else ''650m'')), (''memory'', quantity ''2G'')] in
      \<lparr>Limits = Some l, Requests = Some l\<rparr>)"

definition rhsso_keycloak :: "(string \<Rightarrow> Quantity) \<Rightarrow> RHMI \<Rightarrow> KeycloakCR \<Rightarrow> KeycloakCR" where
  "rhsso_keycloak quantity inst kc =
     kc\<lparr>kk_Extensions := [''https://github.com/integr8ly/keycloak-metrics-spi/releases/download/2.5.3/keycloak-metrics-spi.jar'',
          ''https://github.com/integr8ly/authentication-delay-plugin/releases/download/1.0.2/authdelay.jar''],
        kk_Labels := GetInstanceLabels, kk_ExternalDatabase := True, kk_ExternalAccess := True, kk_Profile := ''RHSSO'',
        kk_PodDisruptionBudget := True, kk_Resources := sso_resources quantity inst, kk_MigrationStrategy := ''rolling'',
        kk_Instances := (if kk_Instances kc < RHSSO_GetReplicasConfig inst then RHSSO_GetReplicasConfig inst else kk_Instances kc)\<rparr>"

definition github_provider :: "SecretObject \<Rightarrow> IdentityProvider" where
  "github_provider creds =
     \<lparr>idp_Alias = ''github'', idp_ProviderID = ''github'', idp_Enabled = True, idp_TrustEmail = False, idp_StoreToken = True,
      idp_AddReadTokenRoleOnCreate = True, idp_FirstBrokerLoginFlowAlias = ''first broker login'', idp_LinkOnly = True,
      idp_Config = Some [(''hideOnLoginPage'', ''true''), (''clientId'', gget '''' (so_Data creds) ''clientId''), (''disableUserInfo'', ''''),
        (''clientSecret'', gget '''' (so_Data creds) ''secret''),
        (''defaultScope'', ''repo,user,write:public_key,admin:repo_hook,read:org,public_repo,user:email''), (''useJwksUrl'', ''true'')]\<rparr>"

text \<open>The secret Keycloak has for GitHub, once credentials other than the dummy ones are there.\<close>

definition sync_github :: "'w rhsso_env \<Rightarrow> KeycloakCR \<Rightarrow> string \<Rightarrow> SecretObject \<Rightarrow> RHMI \<Rightarrow> 'w \<Rightarrow> err option \<times> RHMI \<times> 'w" where
  "sync_github env kc realm creds inst w =
     (let clientId = gget '''' (so_Data creds) ''clientId''; secret = gget '''' (so_Data creds) ''secret'' in
      if clientId = ''dummy'' \<or> secret = ''dummy'' then (None, inst, w)
      else (case rx_localAuth env kc w of
              Inl e \<Rightarrow> (Some (Msg (''Unable to authenticate to the Keycloak API: '' @ err_string e)), inst, w)
            | Inr c \<Rightarrow>
                (case kc_GetIdentityProvider c ''github'' realm w of
                   Inl e \<Rightarrow> (Some (Msg (''Unable to get Identity Provider from Keycloak API: '' @ err_string e)), inst, w)
                 | Inr None \<Rightarrow> (Some (GoPanic ''nil pointer dereference''), inst, w)
                 | Inr (Some idp) \<Rightarrow>
                     (case idp_Config idp of
                        None \<Rightarrow> (Some (GoPanic ''assignment to entry in nil map''), inst, w)
                      | Some config \<Rightarrow>
                          (case kc_UpdateIdentityProvider c
                                  (idp\<lparr>idp_Config := Some (gset ''clientSecret'' secret (gset ''clientId'' clientId config))\<rparr>) realm w of
                             (Some e, w1) \<Rightarrow> (Some (Msg (''Unable to update Identity Provider to Keycloak API: '' @ err_string e)), inst, w1)
                           | (None, w1) \<Rightarrow> (None, inst\<lparr>Status := (Status inst)\<lparr>GitHubOAuthEnabled := True\<rparr>\<rparr>, w1))))))"

definition setupGithubIDP :: "'w rhsso_env \<Rightarrow> Manager \<Rightarrow> KeycloakCR \<Rightarrow> (KeycloakRealm, RHMI \<times> 'w) op" where
  "setupGithubIDP env m kc kcr iw =
     (case iw of (inst, w) \<Rightarrow>
        (case k_Get (br_secrets (sc_base (rx_common env))) \<lparr>so_Name = ''github-oauth-secret'', so_Namespace = m_Namespace m, so_Type = '''', so_Data = []\<rparr> w of
           (Some e, creds, w1) \<Rightarrow> (Some e, kcr, inst, w1)
         | (None, creds, w1) \<Rightarrow>
             (case add_provider (github_provider creds) kcr of
                None \<Rightarrow> (Some (GoPanic ''nil pointer dereference''), kcr, inst, w1)
              | Some kcr1 \<Rightarrow>
                  (case sync_github env kc (ra_DisplayName (the (rm_Realm kcr1))) creds inst w1 of (e, inst1, w2) \<Rightarrow> (e, kcr1, inst1, w2)))))"

text \<open>The fields of a realm that are set on every reconcile; its providers start empty.\<close>

definition realm_base :: "string \<Rightarrow> string list \<Rightarrow> (string, string) gomap \<Rightarrow> KeycloakRealm \<Rightarrow> KeycloakRealm" where
  "realm_base name listeners labels kcr =
     kcr\<lparr>rm_RealmOverrides := [(sso_idpAlias, ''browser'')], rm_InstanceSelector := labels, rm_Labels := labels,
         rm_Realm := Some \<lparr>ra_ID = name, ra_Realm = name, ra_Enabled = True, ra_DisplayName = name, ra_EventsListeners = listeners,
           ra_IdentityProviders = []\<rparr>\<rparr>"

definition rhsso_realm :: "'w rhsso_env \<Rightarrow> Manager \<Rightarrow> string \<Rightarrow> KeycloakCR \<Rightarrow> (KeycloakRealm, RHMI \<times> 'w) op" where
  "rhsso_realm env m host kc kcr iw =
     (case iw of (inst, w) \<Rightarrow>
        (case SetupOpenshiftIDP (rx_common env) inst m ProductRHSSO [host @ ''/auth/realms/openshift/broker/openshift-v4/endpoint''] ''''
                (realm_base openshiftRealm [''metrics-listener''] GetInstanceLabels kcr) w of
           (Some e, kcr1, w1) \<Rightarrow> (Some (Wrap ''failed to setup Openshift IDP'' e), kcr1, inst, w1)
         | (None, kcr1, w1) \<Rightarrow>
             if IsRHOAMMultitenant (Type (Spec inst)) then (None, kcr1, inst, w1)
             else (case setupGithubIDP env m kc kcr1 (inst, w1) of
                     (Some e, kcr2, iw2) \<Rightarrow> (Some (Wrap ''failed to setup Github IDP'' e), kcr2, iw2)
                   | (None, kcr2, iw2) \<Rightarrow> (None, kcr2, iw2))))"

text \<open>A failing deletion of a conflicting user is logged only.\<close>

fun write_users :: "'w rhsso_env \<Rightarrow> 'w keycloak_api \<Rightarrow> bool \<Rightarrow> string \<Rightarrow> KeycloakAPIUser list \<Rightarrow> 'w \<Rightarrow> err option \<times> 'w" where
  "write_users env kc multitenant ns [] w = (None, w)"
| "write_users env kc multitenant ns (u # us) w =
     (case createOrUpdateKeycloakUser (sc_sso (rx_common env)) ns u w of
        ((r, conflictFound, Some e), w1) \<Rightarrow> (Some (Wrap ''failed to create/update the customer admin user'' e), w1)
      | ((r, conflictFound, None), w1) \<Rightarrow>
          write_users env kc multitenant ns us
            (if conflictFound \<and> multitenant then snd (kc_DeleteUser kc (ku_UserName u) openshiftRealm w1) else w1))"

subsection \<open>The restart of busy pods\<close>

text \<open>The limit is 75 percent of 2000; the suffix for thousandths is taken off the quantity.\<close>

definition over_limit :: "string option \<Rightarrow> bool" where
  "over_limit usage =
     (case usage of
        None \<Rightarrow> False
      | Some cpu \<Rightarrow> (case Atoi (TrimSuffix cpu ''m'') of None \<Rightarrow> False | Some n \<Rightarrow> 1500 < n))"

definition CheckCPUUsage :: "'w rhsso_env \<Rightarrow> 'w sso_state \<Rightarrow> 'w sso_state" where
  "CheckCPUUsage env s =
     (let ns = RHSSOCommon_GetNamespace (ss_common s) in
      case k_Get (sc_statefulsets (rx_common env))
             \<lparr>sf_Name = ''keycloak'', sf_Namespace = ns, sf_Labels = None, sf_Template = zero_template, sf_Replicas = 0, sf_ReadyReplicas = 0\<rparr> (ss_world s) of
        (Some e, ss, w1) \<Rightarrow> s\<lparr>ss_world := w1\<rparr>
      | (None, ss, w1) \<Rightarrow>
          if sf_ReadyReplicas ss \<noteq> sf_Replicas ss then s\<lparr>ss_world := w1\<rparr>
          else if rx_now env w1 < ss_lastPodRestart s + 30 * 60 * second_ns then s\<lparr>ss_world := w1\<rparr>
          else (case rx_PodMetrics env ns w1 of
                  Inl e \<Rightarrow> s\<lparr>ss_world := w1\<rparr>
                | Inr None \<Rightarrow> s\<lparr>ss_world := w1\<rparr>
                | Inr (Some pods) \<Rightarrow>
                    (case find (\<lambda>(pod, usages). list_ex over_limit usages) pods of
                       None \<Rightarrow> s\<lparr>ss_world := w1\<rparr>
                     | Some (pod, usages) \<Rightarrow>
                         s\<lparr>ss_world := snd (rx_DeletePod env pod ns w1), ss_lastPodRestart := rx_now env (snd (rx_DeletePod env pod ns w1))\<rparr>)))"

subsection \<open>Components\<close>

definition rhsso_clients :: "'w rhsso_env \<Rightarrow> RHMI \<Rightarrow> KeycloakCR \<Rightarrow> 'w sso_state phase_op" where
  "rhsso_clients env inst kc s =
     (let cm = rx_common env; ns = RHSSOCommon_GetNamespace (ss_common s); w = ss_world s in
      case sc_auth cm kc w of
        Inl e \<Rightarrow> ((PhaseFailed, Some (Wrap ''failed to authenticate client in keycloak api'' e)), s)
      | Inr authenticated \<Rightarrow>
          (case createAuthDelayAuthenticationFlow authenticated w of
             (Some e, w1) \<Rightarrow> ((PhaseFailed, Some (Wrap ''failed to create and add keycloak authentication flow'' e)), s\<lparr>ss_world := w1\<rparr>)
           | (None, w1) \<Rightarrow>
               (case SyncOpenshiftIDPClientSecret cm (ss_manager s) ProductRHSSO authenticated openshiftRealm w1 of
                  (Some e, w2) \<Rightarrow> ((PhaseFailed, Some (Wrap ''failed to sync openshift idp client secret'' e)), s\<lparr>ss_world := w2\<rparr>)
                | (None, w2) \<Rightarrow>
                    (case RHSSO_GetKeycloakUsers (sc_sso cm) ns w2 of
                       Inl e \<Rightarrow> ((PhaseFailed, Some (Wrap ''failed to list the keycloak users'' e)), s\<lparr>ss_world := w2\<rparr>)
                     | Inr keycloakUsers \<Rightarrow>
                         (case syncronizeWithOpenshiftUsers (sc_sso cm) (Type (Spec inst)) keycloakUsers ns w2 of
                            (Inl e, w3) \<Rightarrow> ((PhaseFailed, Some (Wrap ''failed to synchronize the users'' e)), s\<lparr>ss_world := w3\<rparr>)
                          | (Inr users, w3) \<Rightarrow>
                              (case write_users env authenticated (IsRHOAMMultitenant (Type (Spec inst))) ns users w3 of
                                 (Some e, w4) \<Rightarrow> ((PhaseFailed, Some e), s\<lparr>ss_world := w4\<rparr>)
                               | (None, w4) \<Rightarrow>
                                   (let s4 = s\<lparr>ss_world := w4\<rparr> in
                                    ((PhaseCompleted, None), if IsRHOAMMultitenant (Type (Spec inst)) then CheckCPUUsage env s4 else s4))))))))"

definition budget_step :: "'w sso_common_env \<Rightarrow> 'w sso_state phase_op" where
  "budget_step cm s = on_cluster (ReconcilePodDisruptionBudget cm (RHSSOCommon_GetNamespace (ss_common s))) s"

definition rhsso_components :: "'w rhsso_env \<Rightarrow> RHMI \<Rightarrow> 'w sso_state phase_op" where
  "rhsso_components env inst s =
     (let cm = rx_common env; ns = RHSSOCommon_GetNamespace (ss_common s) in
      case CreateOrUpdate (sc_keycloaks cm) (=) (pure_op (rhsso_keycloak (sc_quantity cm) inst)) (keycloak_cr ''rhsso'' ns) (ss_world s) of
        ((r, Some e), kc, w1) \<Rightarrow> ((PhaseFailed, Some (Wrap ''failed to create/update keycloak custom resource'' e)), s\<lparr>ss_world := w1\<rparr>)
      | ((r, None), kc, w1) \<Rightarrow>
          (case AddOwnerRefToSSOSecret cm ''credential-rhsso'' ns kc w1 of
             (Some e, w2) \<Rightarrow> ((PhaseFailed, Some e), s\<lparr>ss_world := w2\<rparr>)
           | (None, w2) \<Rightarrow>
               if RHSSOCommon_GetHost (ss_common s) = '''' then ((PhaseAwaitingComponents, None), s\<lparr>ss_world := w2\<rparr>)
               else (case CreateOrUpdate (with_inst (sc_realms cm)) (=)
                            (rhsso_realm env (ss_manager s) (RHSSOCommon_GetHost (ss_common s)) kc) (kc_realm openshiftRealm ns) (ss_inst s, w2) of
                       ((r2, Some e), kcr, inst3, w3) \<Rightarrow>
                         ((PhaseFailed, Some (Wrap ''failed to create/update keycloak realm'' e)), s\<lparr>ss_world := w3, ss_inst := inst3\<rparr>)
                     | ((r2, None), kcr, inst3, w3) \<Rightarrow>
                         run_must [rhsso_clients env inst kc, budget_step cm] (s\<lparr>ss_world := w3, ss_inst := inst3\<rparr>))))"

section \<open>Reconcile, cluster\<close>

definition sso_final :: "'w sso_common_env \<Rightarrow> RHMI \<Rightarrow> ProductName \<Rightarrow> string \<Rightarrow> string \<Rightarrow> 'w phase_op list" where
  "sso_final cm inst name productNamespace operatorNamespace =
     [unless_gone (sc_getns cm) productNamespace
        (run_must [CleanupKeycloakResources cm inst productNamespace, RemoveNamespace (sc_getns cm) (sc_delns cm) productNamespace]),
      unless_gone (sc_getns cm) operatorNamespace (RemoveNamespace (sc_getns cm) (sc_delns cm) operatorNamespace),
      or_fail (RemoveOauthClient (sc_DeleteOAuthClient cm) (GetOAuthClientName inst name))]"

definition namespaces_gone :: "'w sso_common_env \<Rightarrow> string \<Rightarrow> string \<Rightarrow> 'w phase_op" where
  "namespaces_gone cm productNamespace operatorNamespace w =
     (case sc_getns cm operatorNamespace w of
        (r1, w1) \<Rightarrow>
          (case sc_getns cm productNamespace w1 of
             (r2, w2) \<Rightarrow>
               ((if (case r1 of Inl e \<Rightarrow> IsNotFound (Some e) | Inr t \<Rightarrow> False) \<and> (case r2 of Inl e \<Rightarrow> IsNotFound (Some e) | Inr t \<Rightarrow> False)
                 then PhaseCompleted else PhaseInProgress, None), w2)))"

definition rhsso_final :: "'w rhsso_env \<Rightarrow> RHMI \<Rightarrow> string \<Rightarrow> string \<Rightarrow> 'w phase_op" where
  "rhsso_final env inst productNamespace operatorNamespace =
     run_must (sso_final (rx_common env) inst ProductRHSSO productNamespace operatorNamespace @ [namespaces_gone (rx_common env) productNamespace operatorNamespace])"

text \<open>The steps both products begin with, up to the route, in the order of the namespaces each has.\<close>

definition sso_setup ::
  "'w sso_common_env \<Rightarrow> RHMI \<Rightarrow> ProductDeclaration \<Rightarrow> ProductName \<Rightarrow> string list \<Rightarrow> string \<Rightarrow> string \<Rightarrow> string \<Rightarrow> string \<Rightarrow> string \<Rightarrow> 'w sso_state phase_op list" where
  "sso_setup cm inst decl name nss productNamespace operatorNamespace secretName resourceName routeName =
     map (\<lambda>n. on_cluster (ReconcileNamespace (sc_base cm) n (sc_uid cm) inst)) nss @
     [on_cluster (ReconcileLimitRange (sc_limitRanges cm) (sc_quantity cm) operatorNamespace DefaultLimitRangeParams),
      on_cluster (ReconcileLimitRange (sc_limitRanges cm) (sc_quantity cm) productNamespace DefaultLimitRangeParams),
      (\<lambda>s. on_cluster (ReconcileSecretToProductNamespace (sc_base cm) (m_Namespace (ss_manager s)) secretName productNamespace) s),
      on_cluster (SSO_ReconcileSubscription cm decl inst productNamespace operatorNamespace resourceName),
      (\<lambda>s. on_cluster (unless_failed (\<lambda>w. case ReconcileCsvDeploymentsPriority (sc_base cm) ''rhsso-operator.7.6.12-opr-005''
         (RHSSOCommon_GetOperatorNamespace (ss_common s)) (PriorityClassName (Spec inst)) w of (res, csv, w') \<Rightarrow> (res, w'))) s),
      on_cluster (ReconcileOperatorMetricsService cm inst operatorNamespace),
      CreateKeycloakRoute cm name routeName]"

definition cloud_step :: "'w sso_common_env \<Rightarrow> RHMI \<Rightarrow> string \<Rightarrow> string \<Rightarrow> string \<Rightarrow> 'w sso_state phase_op" where
  "cloud_step cm inst dbPrefix defaultNamespace ssoType s =
     on_cluster (ReconcileCloudResources cm inst dbPrefix defaultNamespace ssoType (RHSSOCommon_GetNamespace (ss_common s))) s"

definition statefulset_step :: "'w sso_common_env \<Rightarrow> RHMI \<Rightarrow> 'w sso_state phase_op" where
  "statefulset_step cm inst s = on_cluster (ReconcileStatefulSet cm inst (RHSSOCommon_GetNamespace (ss_common s))) s"

definition config_step :: "'w sso_common_env \<Rightarrow> ProductName \<Rightarrow> string \<Rightarrow> 'w sso_state phase_op" where
  "config_step cm name msg s =
     (case write_config cm name s of (Some e, s') \<Rightarrow> ((PhaseFailed, Some (Wrap msg e)), s') | (None, s') \<Rightarrow> ((PhaseCompleted, None), s'))"

definition monitors_step :: "'w sso_common_env \<Rightarrow> 'w sso_state phase_op" where
  "monitors_step cm s = on_cluster (RemovePodMonitors cm (RHSSOCommon_GetNamespace (ss_common s))) s"

definition credential_step :: "'w sso_common_env \<Rightarrow> string \<Rightarrow> string \<Rightarrow> 'w sso_state phase_op" where
  "credential_step cm secretName productNamespace s =
     on_cluster (ReconcileSecretToRHMIOperatorNamespace (sc_base cm) (m_Namespace (ss_manager s)) secretName productNamespace) s"

definition export_step :: "'w sso_common_env \<Rightarrow> RHMI \<Rightarrow> ProductName \<Rightarrow> 'w sso_state phase_op" where
  "export_step cm inst name s = on_cluster (ExportAlerts cm inst name (RHSSOCommon_GetNamespace (ss_common s))) s"

definition rhsso_steps :: "'w rhsso_env \<Rightarrow> RHMI \<Rightarrow> ProductDeclaration \<Rightarrow> string \<Rightarrow> string \<Rightarrow> 'w sso_state phase_op list" where
  "rhsso_steps env inst decl productNamespace operatorNamespace =
     (let cm = rx_common env in
      sso_setup cm inst decl ProductRHSSO [productNamespace, operatorNamespace] productNamespace operatorNamespace
        ''credential-rhsso'' ''rhsso-postgres-rhmi'' ''keycloak-edge'' @
      [cloud_step cm inst ''rhsso-postgres-'' ''rhsso'' ''rhsso'',
       rhsso_components env inst,
       statefulset_step cm inst,
       HandleProgressPhase cm ProductRHSSO ''rhsso'' openshiftRealm VersionRHSSO OperatorVersionRHSSO,
       config_step cm ProductRHSSO ''error writing to config in rhsso cluster reconciler'',
       monitors_step cm,
       credential_step cm ''credential-rhsso'' productNamespace,
       on_cluster (with_alerts (sc_alerts cm) (\<lambda>w. Inr (sc_productAlerts cm inst))),
       export_step cm inst ProductRHSSO])"

text \<open>
  What both \<^verbatim>\<open>Reconcile\<close> methods do around their clean-up and their steps: the finalizer first; on uninstall nothing else; at the
  end the host and the versions go into the status of the product. A panic of \<^verbatim>\<open>Remove\<close> is no result.
\<close>

definition sso_reconcile ::
  "'w sso_common_env \<Rightarrow> ProductName \<Rightarrow> OperatorVersion \<Rightarrow> (RHMI \<Rightarrow> 'w phase_op) \<Rightarrow> (RHMI \<Rightarrow> 'w sso_state phase_op list) \<Rightarrow>
   RHMIProductStatus \<Rightarrow> bool \<Rightarrow> 'w sso_state \<Rightarrow> ((StatusPhase \<times> err option) \<times> RHMIProductStatus \<times> 'w sso_state) option" where
  "sso_reconcile cm name operatorVersion final steps st uninstall s =
     (case ReconcileFinalizer (sc_update cm) (\<lambda>i w. case final i w of (res, w') \<Rightarrow> (res, i, w')) name uninstall (ss_inst s) (ss_world s) of
        None \<Rightarrow> None
      | Some ((phase, e), inst1, w1) \<Rightarrow>
          (let s1 = s\<lparr>ss_inst := inst1, ss_world := w1\<rparr> in
           if e \<noteq> None \<or> phase = PhaseFailed then Some ((phase, e), st, s1)
           else if uninstall then Some ((phase, None), st, s1)
           else (case run_must (steps inst1) s1 of
                   ((phase2, e2), s2) \<Rightarrow>
                     if e2 \<noteq> None \<or> phase2 \<noteq> PhaseCompleted then Some ((phase2, e2), st, s2)
                     else Some ((PhaseCompleted, None),
                            st\<lparr>p_Host := RHSSOCommon_GetHost (ss_common s2), p_Version := RHSSOCommon_GetProductVersion (ss_common s2),
                               p_OperatorVersion := operatorVersion\<rparr>, s2))))"

definition RHSSO_Reconcile ::
  "'w rhsso_env \<Rightarrow> ProductDeclaration \<Rightarrow> RHMIProductStatus \<Rightarrow> bool \<Rightarrow> 'w sso_state \<Rightarrow>
   ((StatusPhase \<times> err option) \<times> RHMIProductStatus \<times> 'w sso_state) option" where
  "RHSSO_Reconcile env decl st uninstall s =
     (let operatorNamespace = RHSSOCommon_GetOperatorNamespace (ss_common s); productNamespace = RHSSOCommon_GetNamespace (ss_common s) in
      sso_reconcile (rx_common env) ProductRHSSO OperatorVersionRHSSO (\<lambda>i. rhsso_final env i productNamespace operatorNamespace)
        (\<lambda>i. rhsso_steps env i decl productNamespace operatorNamespace) st uninstall s)"

section \<open>Keycloak of the customer\<close>

definition user_keycloak :: "RHMI \<Rightarrow> KeycloakCR \<Rightarrow> KeycloakCR" where
  "user_keycloak inst kc =
     kc\<lparr>kk_Annotations := Some (AddIntegreatlyOwnerAnnotations inst (kk_Annotations kc)),
        kk_Extensions := [''https://github.com/integr8ly/keycloak-metrics-spi/releases/download/2.5.3/keycloak-metrics-spi.jar''],
        kk_ExternalDatabase := True, kk_Labels := getMasterLabels, kk_ExternalAccess := False, kk_Profile := ''RHSSO'',
        kk_PodDisruptionBudget := True, kk_MigrationStrategy := ''rolling''\<rparr>"

text \<open>\<^verbatim>\<open>productConfig.Configure\<close> on the Keycloak: its instances and its resources come from the quota.\<close>

definition configure_keycloak :: "Quota option \<Rightarrow> QuotaProductConfig \<Rightarrow> RHMI \<Rightarrow> (KeycloakCR, 'w) op" where
  "configure_keycloak q p inst kc w =
     (let kc1 = user_keycloak inst kc in
      case Configure q p (Keycloak (kk_Name kc1) (kk_Instances kc1) (kk_Resources kc1)) of
        None \<Rightarrow> (Some (GoPanic ''nil pointer dereference''), kc1, w)
      | Some (Inl e) \<Rightarrow> (Some e, kc1, w)
      | Some (Inr wl) \<Rightarrow>
          (None, (case wl of Keycloak n i r \<Rightarrow> kc1\<lparr>kk_Instances := i, kk_Resources := r\<rparr> | _ \<Rightarrow> kc1), w))"

definition identityProviderExists :: "'w keycloak_api \<Rightarrow> 'w \<Rightarrow> err + bool" where
  "identityProviderExists kc w = map_sum id (\<lambda>p. p \<noteq> None) (kc_GetIdentityProvider kc sso_idpAlias masterRealmName w)"

definition master_realm :: "'w sso_common_env \<Rightarrow> RHMI \<Rightarrow> Manager \<Rightarrow> string \<Rightarrow> (KeycloakRealm, 'w) op" where
  "master_realm cm inst m host kcr w =
     (case SetupOpenshiftIDP cm inst m ProductRHSSOUser [host @ ''/auth/realms/master/broker/openshift-v4/endpoint''] ''''
             (realm_base masterRealmName [] getMasterLabels kcr) w of
        (Some e, kcr1, w1) \<Rightarrow> (Some (Wrap ''failed to setup Openshift IDP for user-sso'' e), kcr1, w1)
      | (None, kcr1, w1) \<Rightarrow> (None, kcr1, w1))"

definition updateMasterRealm :: "'w sso_common_env \<Rightarrow> RHMI \<Rightarrow> Manager \<Rightarrow> RHSSOCommon \<Rightarrow> 'w \<Rightarrow> (err + KeycloakRealm) \<times> 'w" where
  "updateMasterRealm cm inst m c w =
     (case CreateOrUpdate (sc_realms cm) (=) (master_realm cm inst m (RHSSOCommon_GetHost c)) (kc_realm masterRealmName (RHSSOCommon_GetNamespace c)) w of
        ((r, Some e), kcr, w1) \<Rightarrow> (Inl (Wrap ''failed to create/update keycloak realm'' e), w1)
      | ((r, None), kcr, w1) \<Rightarrow> (Inr kcr, w1))"

text \<open>
  The provider is created through the client, since Keycloak does not take it from the resource of the master realm. A realm
  without providers is indexed all the same: the guard of the source asks for both conditions.
\<close>

definition ensure_provider :: "'w keycloak_api \<Rightarrow> KeycloakRealm \<Rightarrow> 'w phase_op" where
  "ensure_provider kc kcr w =
     (case rm_Realm kcr of
        None \<Rightarrow> ((PhaseFailed, Some (GoPanic ''nil pointer dereference'')), w)
      | Some r \<Rightarrow>
          (case ra_IdentityProviders r of
             [] \<Rightarrow> ((PhaseFailed, Some (GoPanic ''index out of range'')), w)
           | p # ps \<Rightarrow>
               (case identityProviderExists kc w of
                  Inl e \<Rightarrow> ((PhaseFailed, Some (Wrap ''Error attempting to get existing idp on user sso, master realm'' e)), w)
                | Inr True \<Rightarrow> ((PhaseCompleted, None), w)
                | Inr False \<Rightarrow>
                    (case kc_CreateIdentityProvider kc p (ra_Realm r) w of
                       (Some e, w1) \<Rightarrow> ((PhaseFailed, Some (Wrap ''Error creating idp on master realm, user sso'' e)), w1)
                     | (None, w1) \<Rightarrow> ((PhaseCompleted, None), w1)))))"

text \<open>Of some steps only the error counts.\<close>

definition error_only :: "(err \<Rightarrow> err) \<Rightarrow> 'w phase_op \<Rightarrow> 'w phase_op" where
  "error_only wrap f w =
     (case f w of ((phase, Some e), w') \<Rightarrow> ((PhaseFailed, Some (wrap e)), w') | ((phase, None), w') \<Rightarrow> ((PhaseCompleted, None), w'))"

definition reconcileGroups :: "'w sso_common_env \<Rightarrow> KeycloakCR \<Rightarrow> 'w sso_state phase_op" where
  "reconcileGroups cm kc s =
     (let c = \<lparr>rhssouser_common = ss_common s\<rparr>;
          dedicated = on_cluster (error_only (\<lambda>e. Msg (''failed to reconcile dedicated-admins group: '' @ err_string e)) (reconcileDedicatedAdminsGroup (sc_auth cm kc))) in
      case RHSSOUser_GetDevelopersGroupConfigured c of
        (b, Some e) \<Rightarrow> ((PhaseFailed, Some e), s)
      | (True, None) \<Rightarrow> dedicated s
      | (False, None) \<Rightarrow>
          run_must
            [on_cluster (error_only (Wrap ''failed to reconcile rhmi-developers group'') (reconcileDevelopersGroup (sc_auth cm kc))),
             (\<lambda>s. config_step cm ProductRHSSOUser ''could not update keycloak config for user-sso''
                (s\<lparr>ss_common := rhssouser_common (RHSSOUser_SetDevelopersGroupConfigured \<lparr>rhssouser_common = ss_common s\<rparr> True)\<rparr>)),
             dedicated] s)"

text \<open>The identifier of a user Keycloak has already goes into a copy of the user.\<close>

fun write_admins :: "'w sso_common_env \<Rightarrow> 'w keycloak_api \<Rightarrow> string \<Rightarrow> KeycloakAPIUser list \<Rightarrow> 'w \<Rightarrow> err option \<times> 'w" where
  "write_admins cm kc ns [] w = (None, w)"
| "write_admins cm kc ns (u # us) w =
     (if ku_UserName u = '''' then write_admins cm kc ns us w
      else (case (if ku_ID u \<noteq> '''' then Inr u
                  else (case kc_FindUserByUsername kc (ku_UserName u) masterRealmName w of
                          Inl e \<Rightarrow> if err_string e \<noteq> ''not found'' then Inl e else Inr u
                        | Inr i \<Rightarrow> Inr (u\<lparr>ku_ID := i\<rparr>))) of
              Inl e \<Rightarrow> (Some (Wrap ''error attempting to retrieve user'' e), w)
            | Inr u' \<Rightarrow>
                (case createOrUpdateKeycloakAdmin (sc_sso cm) ns u' w of
                   ((r, Some e), w1) \<Rightarrow> (Some (Wrap ''failed to create/update the customer admin user'' e), w1)
                 | ((r, None), w1) \<Rightarrow> write_admins cm kc ns us w1)))"

definition reconcileAdminUsers :: "'w sso_common_env \<Rightarrow> 'w keycloak_api \<Rightarrow> KeycloakAPIUser list \<Rightarrow> string \<Rightarrow> 'w phase_op" where
  "reconcileAdminUsers cm kc keycloakUsers ns w =
     (case syncAdminUsersInMasterRealm (sc_sso cm) keycloakUsers ns w of
        (Inl e, w1) \<Rightarrow> ((PhaseFailed, Some (Wrap ''failed to synchronize the users'' e)), w1)
      | (Inr users, w1) \<Rightarrow>
          (case write_admins cm kc ns users w1 of
             (Some e, w2) \<Rightarrow> ((PhaseFailed, Some e), w2)
           | (None, w2) \<Rightarrow> or_fail (reconcileGroupMembership kc users masterRealmName) w2))"

definition user_clients :: "'w sso_common_env \<Rightarrow> KeycloakCR \<Rightarrow> KeycloakRealm \<Rightarrow> 'w sso_state phase_op" where
  "user_clients cm kc kcr s =
     (case sc_auth cm kc (ss_world s) of
        Inl e \<Rightarrow> ((PhaseFailed, Some e), s)
      | Inr kcClient \<Rightarrow>
          (case run_must
                  [ensure_provider kcClient kcr,
                   reconcileBrowserAuthFlow (sc_auth cm kc),
                   error_only (Wrap ''Failed to reconcile first broker login authentication flow'') (reconcileFirstLoginAuthFlow (sc_auth cm kc))] (ss_world s) of
             ((phase, e), w1) \<Rightarrow>
               if e \<noteq> None \<or> phase \<noteq> PhaseCompleted then ((phase, e), s\<lparr>ss_world := w1\<rparr>)
               else (case getUsers (sc_sso cm) (RHSSOCommon_GetNamespace (ss_common s)) w1 of
                       Inl e \<Rightarrow> ((PhaseFailed, Some (Wrap ''failed to list the keycloak users'' e)), s\<lparr>ss_world := w1\<rparr>)
                     | Inr keycloakUsers \<Rightarrow>
                         run_must
                           [reconcileGroups cm kc,
                            (\<lambda>s. on_cluster (reconcileAdminUsers cm kcClient keycloakUsers (RHSSOCommon_GetNamespace (ss_common s))) s),
                            budget_step cm] (s\<lparr>ss_world := w1\<rparr>))))"

definition rhssouser_components :: "'w rhsso_env \<Rightarrow> RHMI \<Rightarrow> Quota option \<Rightarrow> QuotaProductConfig \<Rightarrow> 'w sso_state phase_op" where
  "rhssouser_components env inst q p s =
     (let cm = rx_common env; ns = RHSSOCommon_GetNamespace (ss_common s) in
      case k_Get (sc_keycloaks cm) (keycloak_cr ''rhssouser'' ns) (ss_world s) of
        (e0, kc0, w0) \<Rightarrow>
          if e0 \<noteq> None \<and> \<not> IsNotFound e0 then ((PhaseFailed, e0), s\<lparr>ss_world := w0\<rparr>)
          else (case CreateOrUpdate (sc_keycloaks cm) (=) (configure_keycloak q p inst) kc0 w0 of
             ((r, Some e), kc, w1) \<Rightarrow> ((PhaseFailed, Some (Wrap ''failed to create/update keycloak custom resource'' e)), s\<lparr>ss_world := w1\<rparr>)
           | ((r, None), kc, w1) \<Rightarrow>
               (case AddOwnerRefToSSOSecret cm ''credential-rhssouser'' ns kc w1 of
                  (Some e, w2) \<Rightarrow> ((PhaseFailed, Some e), s\<lparr>ss_world := w2\<rparr>)
                | (None, w2) \<Rightarrow>
                    if RHSSOCommon_GetHost (ss_common s) = '''' then
                      ((PhaseFailed, Some (Msg ''failed to create/update keycloak master realm, host not available'')), s\<lparr>ss_world := w2\<rparr>)
                    else (case updateMasterRealm cm inst (ss_manager s) (ss_common s) w2 of
                            (Inl e, w3) \<Rightarrow> ((PhaseFailed, Some e), s\<lparr>ss_world := w3\<rparr>)
                          | (Inr kcr, w3) \<Rightarrow> user_clients cm kc kcr (s\<lparr>ss_world := w3\<rparr>)))))"

section \<open>Reconcile, customer\<close>

definition console_link :: "string \<Rightarrow> string \<Rightarrow> ConsoleLink \<Rightarrow> ConsoleLink" where
  "console_link icon host cl =
     cl\<lparr>co_ImageURL := icon, co_Section := ''OpenShift Managed Services'', co_Location := ''ApplicationMenu'', co_Href := host, co_Text := ''API Management SSO''\<rparr>"

abbreviation userSsoConsoleLink :: string where "userSsoConsoleLink \<equiv> ''rhoam-user-sso-console-link''"

definition link_named :: "string \<Rightarrow> ConsoleLink" where
  "link_named name = \<lparr>co_Name = name, co_ImageURL = '''', co_Section = '''', co_Location = '''', co_Href = '''', co_Text = ''''\<rparr>"

definition reconcileConsoleLink :: "'w rhsso_env \<Rightarrow> string \<Rightarrow> string \<Rightarrow> 'w \<Rightarrow> err option \<times> 'w" where
  "reconcileConsoleLink env icon host w =
     (case CreateOrUpdate (rx_links env) (=) (pure_op (console_link icon host)) (link_named userSsoConsoleLink) w of
        ((r, Some e), cl, w') \<Rightarrow> (Some (Msg (''error reconciling console link: '' @ err_string e)), w')
      | ((r, None), cl, w') \<Rightarrow> (None, w'))"

definition deleteConsoleLink :: "'w rhsso_env \<Rightarrow> string \<Rightarrow> 'w \<Rightarrow> err option \<times> 'w" where
  "deleteConsoleLink env name w =
     (case k_Delete (rx_links env) (link_named name) w of
        (e, w') \<Rightarrow> if e \<noteq> None \<and> \<not> IsNotFound e then (Some (Msg (''error removing console link: '' @ err_string (the e))), w') else (None, w'))"

definition rhssouser_final :: "'w rhsso_env \<Rightarrow> RHMI \<Rightarrow> string \<Rightarrow> string \<Rightarrow> 'w phase_op" where
  "rhssouser_final env inst productNamespace operatorNamespace =
     run_must (sso_final (rx_common env) inst ProductRHSSOUser productNamespace operatorNamespace @ [or_fail (deleteConsoleLink env userSsoConsoleLink)])"

definition rhssouser_steps ::
  "'w rhsso_env \<Rightarrow> string \<Rightarrow> RHMI \<Rightarrow> ProductDeclaration \<Rightarrow> Quota option \<Rightarrow> QuotaProductConfig \<Rightarrow> string \<Rightarrow> string \<Rightarrow> 'w sso_state phase_op list" where
  "rhssouser_steps env icon inst decl q p productNamespace operatorNamespace =
     (let cm = rx_common env in
      sso_setup cm inst decl ProductRHSSOUser [operatorNamespace, productNamespace] productNamespace operatorNamespace
        ''credential-rhssouser'' ''rhssouser-postgres-rhmi'' ''keycloak'' @
      [(\<lambda>s. on_cluster (\<lambda>w. (WaitForRHSSOPostgresToBeComplete (sc_GetPostgres cm) (Name inst) (m_Namespace (ss_manager s)) w, w)) s),
       cloud_step cm inst ''rhssouser-postgres-'' ''user-sso'' ''user sso'',
       rhssouser_components env inst q p,
       statefulset_step cm inst,
       HandleProgressPhase cm ProductRHSSOUser ''rhssouser'' masterRealmName VersionRHSSOUser OperatorVersionRHSSOUser,
       config_step cm ProductRHSSOUser ''error writing to config in rhssouser reconciler'',
       credential_step cm ''credential-rhssouser'' productNamespace,
       on_cluster (with_alerts (sc_alerts cm) (\<lambda>w. Inr (sc_productAlerts cm inst))),
       monitors_step cm,
       (\<lambda>s. on_cluster (or_fail (reconcileConsoleLink env icon (RHSSOCommon_GetHost (ss_common s)))) s),
       export_step cm inst ProductRHSSOUser])"

definition RHSSOUser_Reconcile ::
  "'w rhsso_env \<Rightarrow> string \<Rightarrow> ProductDeclaration \<Rightarrow> Quota option \<Rightarrow> QuotaProductConfig \<Rightarrow> RHMIProductStatus \<Rightarrow> bool \<Rightarrow> 'w sso_state \<Rightarrow>
   ((StatusPhase \<times> err option) \<times> RHMIProductStatus \<times> 'w sso_state) option" where
  "RHSSOUser_Reconcile env icon decl q p st uninstall s =
     (let operatorNamespace = RHSSOCommon_GetOperatorNamespace (ss_common s); productNamespace = RHSSOCommon_GetNamespace (ss_common s) in
      sso_reconcile (rx_common env) ProductRHSSOUser OperatorVersionRHSSOUser (\<lambda>i. rhssouser_final env i productNamespace operatorNamespace)
        (\<lambda>i. rhssouser_steps env icon i decl q p productNamespace operatorNamespace) st uninstall s)"

lemmas sso_reconciler_defs [go_defs] = sso_NewReconciler_def RHSSO_NewReconciler_def RHSSOUser_NewReconciler_def rhsso_realm_def
  setupGithubIDP_def sync_github_def over_limit_def CheckCPUUsage_def rhsso_clients_def rhsso_components_def unless_gone_def sso_final_def
  namespaces_gone_def rhsso_final_def sso_reconcile_def RHSSO_Reconcile_def configure_keycloak_def ensure_provider_def reconcileGroups_def
  reconcileAdminUsers_def user_clients_def rhssouser_components_def rhssouser_final_def RHSSOUser_Reconcile_def

section \<open>Properties\<close>

subsection \<open>Uninstall\<close>

lemma namespaces_gone_completed:
  assumes "namespaces_gone cm p o1 w = ((PhaseCompleted, None), w')"
  obtains e1 e2 v where "sc_getns cm o1 w = (Inl e1, v)" and "IsNotFound (Some e1)" and "sc_getns cm p v = (Inl e2, w')" and "IsNotFound (Some e2)"
  using assms by (auto simp: namespaces_gone_def split: prod.splits sum.splits if_splits)

lemma sso_reconcile_uninstalled:
  assumes "sso_reconcile cm name v final steps st True s = Some ((PhaseCompleted, None), st', s')"
    and "product_finalizer name \<in> set (Finalizers (ss_inst s))"
  shows "\<exists>fs. final (ss_inst s) (ss_world s) = ((PhaseCompleted, None), ss_world s') \<and> st' = st \<and>
     Remove (Finalizers (ss_inst s)) (product_finalizer name) = Some fs \<and> s' = s\<lparr>ss_inst := (ss_inst s)\<lparr>Finalizers := fs\<rparr>, ss_world := ss_world s'\<rparr>"
  using assms
  by (auto simp: sso_reconcile_def ReconcileFinalizer_def Contains_iff Let_def split: prod.splits option.splits if_splits)

text \<open>
  C20. The single sign-on of the cluster is uninstalled, and its finalizer given back, only after its OAuth client was removed and
  both of its namespaces were found to be gone, not only terminating.
\<close>

theorem rhsso_uninstall_complete:
  assumes "RHSSO_Reconcile env decl st True s = Some ((PhaseCompleted, None), st', s')"
    and "product_finalizer ProductRHSSO \<in> set (Finalizers (ss_inst s))"
  shows "(\<exists>v v'. RemoveOauthClient (sc_DeleteOAuthClient (rx_common env)) (GetOAuthClientName (ss_inst s) ProductRHSSO) v = (None, v')) \<and>
     (\<exists>e1 e2 v v'. sc_getns (rx_common env) (RHSSOCommon_GetOperatorNamespace (ss_common s)) v = (Inl e1, v') \<and> IsNotFound (Some e1) \<and>
        sc_getns (rx_common env) (RHSSOCommon_GetNamespace (ss_common s)) v' = (Inl e2, ss_world s') \<and> IsNotFound (Some e2)) \<and>
     Some (Finalizers (ss_inst s')) = Remove (Finalizers (ss_inst s)) (product_finalizer ProductRHSSO)"
proof -
  let ?cm = "rx_common env" and ?p = "RHSSOCommon_GetNamespace (ss_common s)" and ?o = "RHSSOCommon_GetOperatorNamespace (ss_common s)"
  obtain fs where fin: "rhsso_final env (ss_inst s) ?p ?o (ss_world s) = ((PhaseCompleted, None), ss_world s')"
    and fs: "Remove (Finalizers (ss_inst s)) (product_finalizer ProductRHSSO) = Some fs" "Finalizers (ss_inst s') = fs"
    using sso_reconcile_uninstalled [OF assms(1) [unfolded RHSSO_Reconcile_def Let_def] assms(2)]
    by (metis RHMI.select_convs(5) RHMI.surjective RHMI.update_convs(5) sso_state.select_convs(3) sso_state.surjective sso_state.update_convs(3,5))
  obtain v v1 where "or_fail (RemoveOauthClient (sc_DeleteOAuthClient ?cm) (GetOAuthClientName (ss_inst s) ProductRHSSO)) v = ((PhaseCompleted, None), v1)"
    using run_must_each [OF fin [unfolded rhsso_final_def], of "or_fail (RemoveOauthClient (sc_DeleteOAuthClient ?cm) (GetOAuthClientName (ss_inst s) ProductRHSSO))"]
    by (auto simp: sso_final_def)
  then have "\<exists>v v'. RemoveOauthClient (sc_DeleteOAuthClient ?cm) (GetOAuthClientName (ss_inst s) ProductRHSSO) v = (None, v')"
    by (auto simp: or_fail_def split: prod.splits option.splits)
  moreover obtain u where "namespaces_gone ?cm ?p ?o u = ((PhaseCompleted, None), ss_world s')"
    using fin unfolding rhsso_final_def run_must_append by (auto split: prod.splits if_splits)
  then have "\<exists>e1 e2 v v'. sc_getns ?cm ?o v = (Inl e1, v') \<and> IsNotFound (Some e1) \<and> sc_getns ?cm ?p v' = (Inl e2, ss_world s') \<and> IsNotFound (Some e2)"
    by (rule namespaces_gone_completed) blast
  ultimately show ?thesis using fs by simp
qed

text \<open>
  Uninstalling the single sign-on of the customer while users or clients of Keycloak are left: their deletion was requested and
  nothing else happens. The realms, the namespaces, the OAuth client and the console link are not touched, the finalizer stays, and
  the phase says in progress.
\<close>

theorem rhssouser_uninstall_waits:
  assumes "product_finalizer ProductRHSSOUser \<in> set (Finalizers (ss_inst s))" and "DeletionTimestamp (ss_inst s) \<noteq> None"
    and "sc_getns (rx_common env) (RHSSOCommon_GetNamespace (ss_common s)) (ss_world s) = (Inr t, w0)"
    and "sc_GetCRD (rx_common env) ''keycloaks.keycloak.org'' w0 = None"
    and "deletes (rx_common env) (RHSSOCommon_GetNamespace (ss_common s)) w0 = ((PhaseCompleted, None), w1)"
    and "sc_ListUsers (rx_common env) (RHSSOCommon_GetNamespace (ss_common s)) w1 = Inr us"
    and "sc_ListClients (rx_common env) (RHSSOCommon_GetNamespace (ss_common s)) w1 = Inr cs" and "us \<noteq> [] \<or> cs \<noteq> []"
  shows "RHSSOUser_Reconcile env icon decl q p st True s = Some ((PhaseInProgress, None), st, s\<lparr>ss_world := w1\<rparr>)"
proof -
  let ?cm = "rx_common env" and ?p = "RHSSOCommon_GetNamespace (ss_common s)" and ?o = "RHSSOCommon_GetOperatorNamespace (ss_common s)"
  have "CleanupKeycloakResources ?cm (ss_inst s) ?p w0 = ((PhaseInProgress, None), w1)"
    by (rule cleanup_waits [OF assms(2,4-8)])
  then have "rhssouser_final env (ss_inst s) ?p ?o (ss_world s) = ((PhaseInProgress, None), w1)"
    by (simp add: rhssouser_final_def sso_final_def unless_gone_def assms(3))
  then show ?thesis
    using assms(1) by (simp add: RHSSOUser_Reconcile_def sso_reconcile_def ReconcileFinalizer_def Contains_iff)
qed

text \<open>
  The customer's single sign-on, unlike the one of the cluster, counts as uninstalled while its namespaces are still terminating.
\<close>

lemma rhssouser_uninstalled_terminating:
  assumes "product_finalizer ProductRHSSOUser \<in> set (Finalizers (ss_inst s))" and "DeletionTimestamp (ss_inst s) = None"
    and "\<And>n w. sc_getns (rx_common env) n w = (Inr True, w)" and "\<And>n w. sc_DeleteOAuthClient (rx_common env) n w = (None, w)"
    and "\<And>l w. k_Delete (rx_links env) l w = (None, w)"
  shows "fst (rhssouser_final env (ss_inst s) p o1 w) = (PhaseCompleted, None) \<and> fst (rhsso_final env (ss_inst s) p o1 w) = (PhaseInProgress, None)"
  by (simp add: rhssouser_final_def rhsso_final_def sso_final_def unless_gone_def namespaces_gone_def CleanupKeycloakResources_def
      RemoveNamespace_def or_fail_def RemoveOauthClient_def deleteConsoleLink_def assms)

subsection \<open>A completed installation\<close>

lemma run_must_keeps:
  assumes "\<And>f s. f \<in> set fs \<Longrightarrow> g (snd (f s)) = g s"
  shows "g (snd (run_must fs s)) = g s"
  using assms
proof (induction fs arbitrary: s)
  case Nil
  show ?case by simp
next
  case (Cons f fs)
  obtain phase e s1 where f: "f s = ((phase, e), s1)" by (metis surj_pair)
  have "g s1 = g s" using Cons.prems [of f s] f by simp
  moreover have "g (snd (run_must fs s1)) = g s1" using Cons.IH Cons.prems by simp
  ultimately show ?case by (simp add: f)
qed

lemma on_cluster_keeps [simp]: "ss_common (snd (on_cluster f s)) = ss_common s"
  by (simp add: on_cluster_def split: prod.splits)

lemma step_keeps [simp]:
  "ss_common (snd (config_step cm name msg s)) = ss_common s" "ss_common (snd (monitors_step cm s)) = ss_common s"
  "ss_common (snd (credential_step cm n ns s)) = ss_common s" "ss_common (snd (export_step cm inst name s)) = ss_common s"
  by (simp_all add: config_step_def write_config_def monitors_step_def credential_step_def export_step_def split: prod.splits option.splits)

lemma HandleProgressPhase_completed:
  assumes "HandleProgressPhase cm name kname realm v ov s = ((PhaseCompleted, None), s')"
  shows "RHSSOCommon_GetProductVersion (ss_common s') = v \<and> RHSSOCommon_GetRealm (ss_common s') = realm \<and>
     RHSSOCommon_GetHost (ss_common s') = RHSSOCommon_GetHost (ss_common s)"
  using assms
  by (auto simp: HandleProgressPhase_def exportConfig_def write_config_def RHSSOCommon_GetProductVersion_def RHSSOCommon_GetRealm_def
      RHSSOCommon_GetHost_def RHSSOCommon_SetRealm_def RHSSOCommon_SetProductVersion_def RHSSOCommon_SetOperatorVersion_def map_simps
      split: prod.splits option.splits if_splits)

lemma CheckCPUUsage_keeps [simp]: "ss_common (CheckCPUUsage env s) = ss_common s" "ss_inst (CheckCPUUsage env s) = ss_inst s"
  by (simp_all add: CheckCPUUsage_def Let_def split: prod.splits option.splits sum.splits)

lemma rhsso_clients_keeps [simp]: "ss_common (snd (rhsso_clients env inst kc s)) = ss_common s"
  by (simp add: rhsso_clients_def Let_def split: prod.splits option.splits sum.splits)

lemma budget_step_keeps [simp]: "ss_common (snd (budget_step cm s)) = ss_common s"
  by (simp add: budget_step_def)

lemma rhsso_components_completed:
  assumes "rhsso_components env inst s = ((PhaseCompleted, None), s')"
  shows "RHSSOCommon_GetHost (ss_common s) \<noteq> '''' \<and> ss_common s' = ss_common s"
proof -
  obtain kc w3 inst3 where host: "RHSSOCommon_GetHost (ss_common s) \<noteq> ''''"
    and r: "run_must [rhsso_clients env inst kc, budget_step (rx_common env)] (s\<lparr>ss_world := w3, ss_inst := inst3\<rparr>) = ((PhaseCompleted, None), s')"
    using assms unfolding rhsso_components_def Let_def by (auto split: prod.splits option.splits if_splits)
  have "ss_common (snd (run_must [rhsso_clients env inst kc, budget_step (rx_common env)] (s\<lparr>ss_world := w3, ss_inst := inst3\<rparr>))) = ss_common s"
    by (subst run_must_keeps [where g = ss_common]) auto
  with r host show ?thesis by simp
qed

lemma statefulset_step_keeps [simp]: "ss_common (snd (statefulset_step cm inst s)) = ss_common s"
  by (simp add: statefulset_step_def)


subsection \<open>Realms, restarts and users\<close>

lemma SetupOpenshiftIDP_providers:
  assumes "SetupOpenshiftIDP cm inst m name uris tenant kcr w = (None, kcr', w')" and "rm_Realm kcr = Some r" and "ra_IdentityProviders r = []"
  shows "\<exists>i s. rm_Realm kcr' = Some (r\<lparr>ra_IdentityProviders := [openshift_provider inst i s]\<rparr>)"
  using assms unfolding SetupOpenshiftIDP_def Let_def
  by (auto simp: add_provider_def ContainsIdentityProvider_def split: prod.splits sum.splits option.splits) ((rule exI)+, rule refl)+

text \<open>On every reconcile the realm of the cluster gets exactly its providers: OpenShift, and GitHub unless there are many tenants.\<close>

lemma rhsso_realm_providers:
  assumes "rhsso_realm env m host kc kcr (inst, w) = (None, kcr', iw')"
  shows "map idp_Alias (ra_IdentityProviders (the (rm_Realm kcr'))) =
     (if IsRHOAMMultitenant (Type (Spec inst)) then [sso_idpAlias] else [sso_idpAlias, ''github''])"
proof -
  let ?base = "realm_base openshiftRealm [''metrics-listener''] GetInstanceLabels kcr"
  obtain kcr1 w1 where s: "SetupOpenshiftIDP (rx_common env) inst m ProductRHSSO [host @ ''/auth/realms/openshift/broker/openshift-v4/endpoint''] '''' ?base w = (None, kcr1, w1)"
    using assms unfolding rhsso_realm_def by (auto split: prod.splits option.splits)
  have "rm_Realm ?base = Some (the (rm_Realm ?base))" and "ra_IdentityProviders (the (rm_Realm ?base)) = []" by (simp_all add: realm_base_def)
  from SetupOpenshiftIDP_providers [OF s this]
  obtain r i k where r: "rm_Realm kcr1 = Some (r\<lparr>ra_IdentityProviders := [openshift_provider inst i k]\<rparr>)" by metis
  show ?thesis
  proof (cases "IsRHOAMMultitenant (Type (Spec inst))")
    case True
    then have "kcr' = kcr1" using assms s unfolding rhsso_realm_def by simp
    then show ?thesis using True r by (simp add: openshift_provider_def)
  next
    case False
    then obtain iw where g: "setupGithubIDP env m kc kcr1 (inst, w1) = (None, kcr', iw)"
      using assms s unfolding rhsso_realm_def by (auto split: prod.splits option.splits)
    then obtain creds where "add_provider (github_provider creds) kcr1 = Some kcr'"
      unfolding setupGithubIDP_def by (auto split: prod.splits option.splits)
    then show ?thesis using False r
      by (auto simp: add_provider_def ContainsIdentityProvider_def openshift_provider_def github_provider_def)
  qed
qed

text \<open>
  A pod of Keycloak is deleted for its load only when every replica is ready, half an hour has passed since the last such
  deletion, and one of its containers reports more than three quarters of its limit; it is the only one, and the time
  is recorded.
\<close>

theorem CheckCPUUsage_restart:
  assumes "k_Get (sc_statefulsets (rx_common env)) \<lparr>sf_Name = ''keycloak'', sf_Namespace = RHSSOCommon_GetNamespace (ss_common s), sf_Labels = None,
       sf_Template = zero_template, sf_Replicas = 0, sf_ReadyReplicas = 0\<rparr> (ss_world s) = (e, ss, w1)"
    and "CheckCPUUsage env s \<noteq> s\<lparr>ss_world := w1\<rparr>"
  shows "e = None \<and> sf_ReadyReplicas ss = sf_Replicas ss \<and> ss_lastPodRestart s + 30 * 60 * second_ns \<le> rx_now env w1 \<and>
     (\<exists>pods pod usages cpu n. rx_PodMetrics env (RHSSOCommon_GetNamespace (ss_common s)) w1 = Inr (Some pods) \<and> (pod, usages) \<in> set pods \<and>
        Some cpu \<in> set usages \<and> Atoi (TrimSuffix cpu ''m'') = Some n \<and> 1500 < n \<and>
        (let w2 = snd (rx_DeletePod env pod (RHSSOCommon_GetNamespace (ss_common s)) w1) in
         CheckCPUUsage env s = s\<lparr>ss_world := w2, ss_lastPodRestart := rx_now env w2\<rparr>))"
proof -
  let ?ns = "RHSSOCommon_GetNamespace (ss_common s)"
  have e: "e = None" and ready: "sf_ReadyReplicas ss = sf_Replicas ss" and time: "ss_lastPodRestart s + 30 * 60 * second_ns \<le> rx_now env w1"
    using assms unfolding CheckCPUUsage_def Let_def by (auto split: option.splits if_splits)
  obtain pods pod usages where p: "rx_PodMetrics env ?ns w1 = Inr (Some pods)"
    and f: "find (\<lambda>(pod, usages). list_ex over_limit usages) pods = Some (pod, usages)"
    using assms e ready time unfolding CheckCPUUsage_def Let_def by (auto split: option.splits if_splits sum.splits)
  from f obtain i where i: "i < length pods" "(pod, usages) = pods ! i" and ex: "list_ex over_limit usages" by (auto simp: find_Some_iff)
  from i have mem: "(pod, usages) \<in> set pods" by simp
  from ex obtain cpu n where "Some cpu \<in> set usages" "Atoi (TrimSuffix cpu ''m'') = Some n" "1500 < n"
    by (auto simp: list_ex_iff over_limit_def split: option.splits)
  moreover have "CheckCPUUsage env s = s\<lparr>ss_world := snd (rx_DeletePod env pod ?ns w1), ss_lastPodRestart := rx_now env (snd (rx_DeletePod env pod ?ns w1))\<rparr>"
    using assms(1) e ready time p f unfolding CheckCPUUsage_def Let_def by simp
  ultimately show ?thesis using e ready time p mem unfolding Let_def by blast
qed

text \<open>The text of a quantity is read as thousandths: whole cores and smaller units never count as too much.\<close>

lemma over_limit_units: "over_limit (Some ''1501m'') \<and> \<not> over_limit (Some ''2'') \<and> \<not> over_limit (Some ''1900000000n'')"
  by (simp add: over_limit_def TrimSuffix_def Atoi_def char_digit_def Let_def)

section \<open>Witnesses\<close>

text \<open>A cluster where all goes well.\<close>

definition ready_common :: "grants sso_common_env" where
  "ready_common = blank_sso_env\<lparr>sc_base := ready_base, sc_limitRanges := found_api (\<lambda>l. l), sc_services := found_api id,
     sc_routes := found_api (\<lambda>r. r\<lparr>ro_Host := ''sso.example''\<rparr>),
     sc_ReconcilePostgres := (\<lambda>p t n ns w. (Inr sample_postgres, w)), sc_calerts := \<lparr>ca_rules = found_api id, ca_title = id\<rparr>,
     sc_keycloaks := found_api id, sc_realms := found_api (\<lambda>r. r\<lparr>rm_Phase := ''reconciling''\<rparr>),
     sc_secrets := found_api (\<lambda>s. s\<lparr>so_Data := [(''rhsso'', ''pw'')]\<rparr>),
     sc_statefulsets := found_api (\<lambda>s. s\<lparr>sf_Labels := Some [(''app'', ''keycloak'')]\<rparr>), sc_budgets := found_api id,
     sc_sourceRules := found_api (\<lambda>r. r\<lparr>gp_Groups := Some []\<rparr>), sc_exportedRules := found_api id,
     sc_auth := (\<lambda>k w. Inr (sample_keycloak\<lparr>kc_GetIdentityProvider := (\<lambda>a r w. Inr (Some (openshift_provider zero_rhmi '''' '''')))\<rparr>))\<rparr>"

definition ready_rhsso :: "grants rhsso_env" where
  "ready_rhsso = \<lparr>rx_common = ready_common, rx_localAuth = sc_auth ready_common, rx_now = (\<lambda>w. 0), rx_PodMetrics = (\<lambda>n w. Inr None),
     rx_DeletePod = (\<lambda>p n w. (None, w)), rx_links = found_api id\<rparr>"

definition done_step :: "'w sso_state phase_op \<Rightarrow> bool" where
  "done_step f \<longleftrightarrow> (\<forall>s. RHSSOCommon_GetHost (ss_common s) \<noteq> '''' \<longrightarrow>
     fst (f s) = (PhaseCompleted, None) \<and> RHSSOCommon_GetHost (ss_common (snd (f s))) \<noteq> '''')"

lemma run_must_done:
  assumes "list_all done_step fs" and "RHSSOCommon_GetHost (ss_common s) \<noteq> ''''"
  shows "fst (run_must fs s) = (PhaseCompleted, None)"
  using assms
proof (induction fs arbitrary: s)
  case Nil
  show ?case by simp
next
  case (Cons f fs)
  from Cons.prems have "fst (f s) = (PhaseCompleted, None)" and "RHSSOCommon_GetHost (ss_common (snd (f s))) \<noteq> ''''"
    by (simp_all add: done_step_def)
  then show ?case using Cons by (cases "f s") simp
qed

lemma done_on_cluster: "(\<And>w. fst (f w) = (PhaseCompleted, None)) \<Longrightarrow> done_step (on_cluster f)"
  by (simp add: done_step_def on_cluster_def case_prod_beta)

abbreviation ready_inst :: "string list \<Rightarrow> RHMI" where "ready_inst fs \<equiv> zero_rhmi\<lparr>Finalizers := fs\<rparr>"

lemmas ready_defs = ready_common_def ready_base_def base_with_def market_with_def

lemma ready_simps:
  "sc_ReconcilePostgres ready_common p t n m w = (Inr sample_postgres, w)" "cr_Phase sample_postgres = ''complete''"
  "CreateOrUpdate (sc_secrets ready_common) eq (pure_op g) o1 w =
     ((if eq (o1\<lparr>so_Data := [(''rhsso'', ''pw'')]\<rparr>) (g (o1\<lparr>so_Data := [(''rhsso'', ''pw'')]\<rparr>)) then OperationResultNone else OperationResultUpdated, None),
      g (o1\<lparr>so_Data := [(''rhsso'', ''pw'')]\<rparr>), w)"
  "k_Get (sc_secrets ready_common) o1 w = (None, o1\<lparr>so_Data := [(''rhsso'', ''pw'')]\<rparr>, w)"
  "k_Get (br_secrets (sc_base ready_common)) o2 w = (None, o2\<lparr>so_Data := [(''clientId'', ''dummy''), (''secret'', ''dummy'')]\<rparr>, w)"
  by (simp_all add: ready_defs CreateOrUpdate_found sample_postgres_def)

lemma ready_namespace: "fst (ReconcileNamespace (sc_base ready_common) n u (ready_inst fs) w) = (PhaseCompleted, None)"
  by (simp add: ReconcileNamespace_def GetNS_def ready_defs zero_rhmi_def zero_spec_def)

lemma ready_limits: "fst (ReconcileLimitRange (sc_limitRanges ready_common) (sc_quantity ready_common) n DefaultLimitRangeParams w) = (PhaseCompleted, None)"
  by (simp add: ReconcileLimitRange_def ready_common_def CreateOrUpdate_def mutate_def limit_mutate_def limit_item_def DefaultLimitRangeParams_def put_quantity_def found_api_def Let_def
      blank_sso_env_def split: option.splits if_splits)

lemma ready_copy: "fst (CopySecret (sc_base ready_common) a b c d w) = None"
  by (simp add: CopySecret_def ready_defs CreateOrUpdate_found)

lemma ready_subscription:
  "fst (SSO_ReconcileSubscription ready_common sample_declaration (ready_inst fs) p n r w) = (PhaseCompleted, None)"
  by (simp add: SSO_ReconcileSubscription_def PrepareTarget_def ToCatalogSourceReconciler_def sample_declaration_def GetPackage_def ReconcileSubscription_def
      InstallOperator_def GRPC_Reconcile_def put_source_def reconcileOperatorGroup_def ready_defs empty_api_def no_api_def CreateOrUpdate_pure [of "found_api f" for f] found_api_def
      CreateOrUpdate_pure GetSubscriptionInstallPlan_def getSubscription_def get_plan_def upgradeApproval_def ready_plan_def zero_subscription_def zero_plan_def validateCSV_def zero_csv_def)

lemma ready_priority:
  "fst (unless_failed (\<lambda>w. case ReconcileCsvDeploymentsPriority (sc_base ready_common) c n p w of (res, csv, w') \<Rightarrow> (res, w')) w) = (PhaseCompleted, None)"
  by (simp add: unless_failed_def ReconcileCsvDeploymentsPriority_def PatchIfExists_def write_if_exists_def ready_defs no_api_def)

lemma ready_alerts: "fst (ReconcilePostgresAlerts (sc_calerts ready_common) inst sample_postgres w) = (PhaseCompleted, None)"
proof -
  have one: "reconcilePrometheusRule (sc_calerts ready_common) ns s w = (None, w)" for ns s w
    by (simp add: reconcilePrometheusRule_def ready_common_def CreateOrUpdate_found)
  have "reconcile_specs (sc_calerts ready_common) ns ss w = (None, w)" for ns ss w
    by (induction ss) (simp_all add: one)
  then have "alert_steps (sc_calerts ready_common) inst steps w = (None, w)" for steps w
    by (induction steps) (auto simp: create_alerts_def)
  then show ?thesis by (simp add: ReconcilePostgresAlerts_def resource_alerts_def sample_postgres_def)
qed

lemma ready_cloud: "fst (ReconcileCloudResources ready_common inst a b c ns w) = (PhaseCompleted, None)"
proof -
  have cred: "ReconcileRHSSOPostgresCredentials ready_common inst n ns p w = (Inr (Some sample_postgres), w)" for n p
    by (simp add: ReconcileRHSSOPostgresCredentials_def ready_simps)
  obtain w' where "ReconcilePostgresAlerts (sc_calerts ready_common) inst sample_postgres w = ((PhaseCompleted, None), w')"
    using ready_alerts [of inst w] by (metis prod.collapse)
  then show ?thesis by (simp add: ReconcileCloudResources_def cred)
qed

lemma ready_statefulset: "fst (ReconcileStatefulSet ready_common inst ns w) = (PhaseCompleted, None)"
  by (simp add: ReconcileStatefulSet_def UpdatePodTemplateIfExists_def UpdateIfExists_def write_if_exists_def SetPodTemplate_def
      statefulset_access_def MutateMultiAZAntiAffinity_def MutateZoneTopologySpreadConstraints_def MutatePodPriority_def ready_common_def Let_def)

lemma ready_export: "fst (ExportAlerts ready_common inst name ns w) = (PhaseCompleted, None)"
  by (simp add: ExportAlerts_def ready_common_def CreateOrUpdate_found drop_alert_def or_fail_def)

lemma ready_route: "done_step (CreateKeycloakRoute ready_common name r)"
  by (simp add: done_step_def CreateKeycloakRoute_def ready_common_def CreateOrUpdate_found edge_route_def write_config_def blank_sso_env_def
      RHSSOCommon_GetHost_def RHSSOCommon_SetHost_def map_simps)

lemma ready_progress: "done_step (HandleProgressPhase ready_common name k r v ov)"
  by (simp add: done_step_def HandleProgressPhase_def exportConfig_def ready_common_def write_config_def blank_sso_env_def
      RHSSOCommon_GetHost_def RHSSOCommon_SetRealm_def RHSSOCommon_SetProductVersion_def RHSSOCommon_SetOperatorVersion_def map_simps)

lemma ready_write: "write_config ready_common name s = (None, s)"
  by (simp add: write_config_def ready_common_def blank_sso_env_def)

lemma ready_idp: "\<exists>r'. SetupOpenshiftIDP ready_common inst m ProductRHSSO uris '''' (realm_base n ls lb kcr) w = (None, r', w) \<and> rm_Realm r' \<noteq> None"
  by (simp add: SetupOpenshiftIDP_def getClientSecret_def client_secret_of_def ready_simps ReconcileOauthClient_def realm_base_def add_provider_def Let_def)
     (simp add: ready_defs)

lemma ready_realm: "\<exists>kcr'. rhsso_realm ready_rhsso m host kc kcr (inst, w) = (None, kcr', inst, w)"
proof -
  have cm: "rx_common ready_rhsso = ready_common" by (simp add: ready_rhsso_def)
  obtain r' where r: "SetupOpenshiftIDP ready_common inst m ProductRHSSO [host @ ''/auth/realms/openshift/broker/openshift-v4/endpoint''] ''''
      (realm_base openshiftRealm [''metrics-listener''] GetInstanceLabels kcr) w = (None, r', w)" and some: "rm_Realm r' \<noteq> None"
    using ready_idp by blast
  from some obtain x where x: "rm_Realm r' = Some x" by blast
  have "\<exists>kcr'. setupGithubIDP ready_rhsso m kc r' (inst, w) = (None, kcr', inst, w)"
    by (simp add: setupGithubIDP_def cm ready_simps add_provider_def x sync_github_def)
  then show ?thesis by (auto simp: rhsso_realm_def cm r)
qed

lemma ready_clients: "fst (rhsso_clients ready_rhsso (ready_inst fs) kc s) = (PhaseCompleted, None)"
proof -
  have cm: "rx_common ready_rhsso = ready_common" by (simp add: ready_rhsso_def)
  have sync: "SyncOpenshiftIDPClientSecret ready_common m ProductRHSSO (sample_keycloak\<lparr>kc_GetIdentityProvider := (\<lambda>a r w. Inr (Some (openshift_provider zero_rhmi '''' '''')))\<rparr>) r w = (None, w)" for m r w
    by (simp add: SyncOpenshiftIDPClientSecret_def getClientSecret_def client_secret_of_def ready_simps Let_def) (simp add: sample_keycloak_def)
  have auth: "sc_auth ready_common kc w = Inr (sample_keycloak\<lparr>kc_GetIdentityProvider := (\<lambda>a r w. Inr (Some (openshift_provider zero_rhmi '''' '''')))\<rparr>)" for w
    by (simp add: ready_common_def)
  have flow: "createAuthDelayAuthenticationFlow (sample_keycloak\<lparr>kc_GetIdentityProvider := (\<lambda>a r w. Inr (Some (openshift_provider zero_rhmi '''' '''')))\<rparr>) w = (None, w)" for w
    by (simp add: createAuthDelayAuthenticationFlow_def ensure_flow_def ensure_execution_def point_to_flow_def sample_keycloak_def)
  have users: "RHSSO_GetKeycloakUsers (sc_sso ready_common) ns w = Inr []" "syncronizeWithOpenshiftUsers (sc_sso ready_common) t [] ns w = (Inr [], w)" for ns t w
    by (simp_all add: RHSSO_GetKeycloakUsers_def syncronizeWithOpenshiftUsers_def ready_common_def blank_sso_env_def GetUsersInActiveIDPs_def GetIdentities_def
        RHSSO_getUserDiff_def)
  show ?thesis by (simp add: rhsso_clients_def cm auth flow sync users Let_def)
qed

lemma ready_components: "done_step (rhsso_components ready_rhsso (ready_inst fs))"
proof -
  have cm: "rx_common ready_rhsso = ready_common" by (simp add: ready_rhsso_def)
  have kc: "CreateOrUpdate (sc_keycloaks ready_common) (=) (pure_op g) obj w = ((if obj = g obj then OperationResultNone else OperationResultUpdated, None), g obj, w)" for g obj w
    by (simp add: ready_common_def CreateOrUpdate_found)
  have own: "AddOwnerRefToSSOSecret ready_common n ns k w = (None, w)" for n ns k w
    by (simp add: AddOwnerRefToSSOSecret_def ready_simps)
  have realm: "\<exists>r kcr'. CreateOrUpdate (with_inst (sc_realms ready_common)) (=) (rhsso_realm ready_rhsso m host k) obj (inst, w) = ((r, None), kcr', inst, w)" for m host k obj inst w
    using ready_realm [of m host k _ inst w]
    by (auto simp: CreateOrUpdate_def mutate_def with_inst_def ready_common_def found_api_def Let_def split: prod.splits option.splits) (metis option.distinct(1) prod.inject)+
  have budget: "fst (budget_step ready_common s) = (PhaseCompleted, None)" for s
    by (simp add: budget_step_def on_cluster_def ReconcilePodDisruptionBudget_def or_fail_def ready_common_def CreateOrUpdate_found)
  have run: "fst (run_must [rhsso_clients ready_rhsso (ready_inst fs) k, budget_step ready_common] s) = (PhaseCompleted, None)" for k s
    using ready_clients [of fs k s] budget by (cases "rhsso_clients ready_rhsso (ready_inst fs) k s") (simp add: prod_eq_iff split: prod.splits)
  have "fst (rhsso_components ready_rhsso (ready_inst fs) s) = (PhaseCompleted, None)" if "RHSSOCommon_GetHost (ss_common s) \<noteq> ''''" for s
  proof -
    let ?k = "rhsso_keycloak (sc_quantity ready_common) (ready_inst fs) (keycloak_cr ''rhsso'' (RHSSOCommon_GetNamespace (ss_common s)))"
    obtain r kcr' where "CreateOrUpdate (with_inst (sc_realms ready_common)) (=)
      (rhsso_realm ready_rhsso (ss_manager s) (RHSSOCommon_GetHost (ss_common s)) ?k) (kc_realm openshiftRealm (RHSSOCommon_GetNamespace (ss_common s))) (ss_inst s, ss_world s) =
        ((r, None), kcr', ss_inst s, ss_world s)" using realm by blast
    then show ?thesis using that run by (simp add: rhsso_components_def Let_def cm kc own del: run_must.simps)
  qed
  then show ?thesis using rhsso_components_completed unfolding done_step_def by (metis prod.collapse)
qed

lemma ready_setup:
  assumes "o1 \<noteq> ''''"
  shows "list_all done_step (sso_setup ready_common (ready_inst fs) sample_declaration ProductRHSSO [p, o1] p o1 c r k)"
proof -
  have secret: "fst (ReconcileSecretToProductNamespace (sc_base ready_common) a b d w) = (PhaseCompleted, None)" for a b d w
    using ready_copy by (simp add: ReconcileSecretToProductNamespace_def split: prod.splits option.splits) (metis fst_conv option.distinct(1))
  have metrics: "fst (ReconcileOperatorMetricsService ready_common (ready_inst fs) o1 w) = (PhaseCompleted, None)" for w
    using assms by (simp add: ReconcileOperatorMetricsService_def ready_common_def CreateOrUpdate_found)
  have prod: "done_step (\<lambda>s. on_cluster (ReconcileSecretToProductNamespace (sc_base ready_common) (m_Namespace (ss_manager s)) c p) s)"
    unfolding done_step_def using secret by (simp add: on_cluster_def case_prod_beta)
  have prio: "done_step (\<lambda>s. on_cluster (unless_failed (\<lambda>w. case ReconcileCsvDeploymentsPriority (sc_base ready_common) v
      (RHSSOCommon_GetOperatorNamespace (ss_common s)) pr w of (res, csv, w') \<Rightarrow> (res, w'))) s)" for v pr
    unfolding done_step_def on_cluster_def using ready_priority [of v _ pr] by (simp add: case_prod_beta)
  show ?thesis
    unfolding sso_setup_def
    by (simp add: done_on_cluster ready_namespace ready_limits secret ready_subscription metrics ready_route prod prio)
qed

lemma ready_steps:
  assumes "o1 \<noteq> ''''"
  shows "list_all done_step (rhsso_steps ready_rhsso (ready_inst fs) sample_declaration p o1)"
proof -
  have cm: "rx_common ready_rhsso = ready_common" by (simp add: ready_rhsso_def)
  have cloud: "done_step (cloud_step ready_common (ready_inst fs) a b d)" for a b d
    unfolding done_step_def cloud_step_def using ready_cloud by (simp add: on_cluster_def case_prod_beta)
  have set: "done_step (statefulset_step ready_common (ready_inst fs))"
    unfolding done_step_def statefulset_step_def using ready_statefulset by (simp add: on_cluster_def case_prod_beta)
  have cfg: "done_step (config_step ready_common n m)" for n m by (simp add: done_step_def config_step_def ready_write)
  have mon: "done_step (monitors_step ready_common)"
    by (simp add: done_step_def monitors_step_def on_cluster_def RemovePodMonitors_def ready_common_def blank_sso_env_def empty_api_def)
  have cred: "done_step (credential_step ready_common n ns)" for n ns
  proof -
    have "fst (ReconcileSecretToRHMIOperatorNamespace (sc_base ready_common) a n ns w) = (PhaseCompleted, None)" for a w
      using ready_copy by (simp add: ReconcileSecretToRHMIOperatorNamespace_def split: prod.splits option.splits) (metis fst_conv option.distinct(1))
    then show ?thesis by (simp add: done_step_def credential_step_def on_cluster_def case_prod_beta)
  qed
  have al: "done_step (on_cluster (with_alerts (sc_alerts ready_common) (\<lambda>w. Inr (sc_productAlerts ready_common (ready_inst fs)))))"
    by (rule done_on_cluster) (simp add: with_alerts_def ReconcileAlerts_def ready_common_def blank_sso_env_def)
  have ex: "done_step (export_step ready_common (ready_inst fs) n)" for n
    unfolding done_step_def export_step_def using ready_export by (simp add: on_cluster_def case_prod_beta)
  show ?thesis
    unfolding rhsso_steps_def Let_def cm
    by (simp add: ready_setup [OF assms] cloud ready_components set ready_progress cfg mon cred al ex)
qed

definition sample_sso :: "RHMI \<Rightarrow> 'w \<Rightarrow> 'w sso_state" where
  "sample_sso i w = \<lparr>ss_common = NewRHSSOCommon [(''NAMESPACE'', ''sso''), (''OPERATOR_NAMESPACE'', ''sso-operator''), (''HOST'', ''https://sso'')],
     ss_manager = sample_manager, ss_inst = i, ss_lastPodRestart = 0, ss_world = w\<rparr>"

definition blank_rhsso :: "'w sso_common_env \<Rightarrow> 'w rhsso_env" where
  "blank_rhsso cm = \<lparr>rx_common = cm, rx_localAuth = sc_auth cm, rx_now = (\<lambda>w. 2000 * second_ns), rx_PodMetrics = (\<lambda>n w. Inr (Some [(''keycloak-0'', [Some ''1501m''])])),
     rx_DeletePod = (\<lambda>p n w. (None, w)), rx_links = empty_api\<rparr>"

lemmas sample_sso_simps = sample_sso_def NewRHSSOCommon_def RHSSOCommon_GetNamespace_def RHSSOCommon_GetOperatorNamespace_def RHSSOCommon_GetHost_def

theorem rhsso_uninstall_complete_witness:
  "RHSSO_Reconcile (blank_rhsso blank_sso_env) sample_declaration zero_product True (sample_sso (ready_inst [product_finalizer ProductRHSSO]) ()) =
     Some ((PhaseCompleted, None), zero_product, sample_sso (ready_inst []) ()) \<and>
   (\<exists>e1 v v'. sc_getns (blank_sso_env :: unit sso_common_env) ''sso-operator'' v = (Inl e1, v') \<and> IsNotFound (Some e1))"
proof -
  have run: "RHSSO_Reconcile (blank_rhsso blank_sso_env) sample_declaration zero_product True (sample_sso (ready_inst [product_finalizer ProductRHSSO]) ()) =
     Some ((PhaseCompleted, None), zero_product, sample_sso (ready_inst []) ())"
    by (simp add: RHSSO_Reconcile_def sso_reconcile_def ReconcileFinalizer_def Contains_iff blank_rhsso_def blank_sso_env_def sample_sso_def
        rhsso_final_def sso_final_def unless_gone_def namespaces_gone_def or_fail_def RemoveOauthClient_def Remove_def Remove_loop.simps zero_rhmi_def)
  have fin: "product_finalizer ProductRHSSO \<in> set (Finalizers (ss_inst (sample_sso (ready_inst [product_finalizer ProductRHSSO]) ())))"
    by (simp add: sample_sso_def)
  from rhsso_uninstall_complete [OF run fin] have "\<exists>e1 v v'. sc_getns (blank_sso_env :: unit sso_common_env) ''sso-operator'' v = (Inl e1, v') \<and> IsNotFound (Some e1)"
    unfolding blank_rhsso_def by (simp add: sample_sso_simps) blast
  with run show ?thesis by (rule conjI)
qed

definition busy_sso :: "unit sso_common_env" where
  "busy_sso = blank_sso_env\<lparr>sc_getns := (\<lambda>n w. (Inr False, w)), sc_ListUsers := (\<lambda>n w. Inr [kc_user ''a'' n])\<rparr>"

theorem rhssouser_uninstall_waits_witness:
  "(let s = sample_sso (zero_rhmi\<lparr>Finalizers := [product_finalizer ProductRHSSOUser], DeletionTimestamp := Some 1\<rparr>) () in
    RHSSOUser_Reconcile (blank_rhsso busy_sso) ''icon'' sample_declaration None sample_config zero_product True s = Some ((PhaseInProgress, None), zero_product, s))"
proof -
  let ?s = "sample_sso (zero_rhmi\<lparr>Finalizers := [product_finalizer ProductRHSSOUser], DeletionTimestamp := Some 1\<rparr>) ()"
  have cm: "rx_common (blank_rhsso busy_sso) = busy_sso" by (simp add: blank_rhsso_def)
  have ns: "RHSSOCommon_GetNamespace (ss_common ?s) = ''sso''" by (simp add: sample_sso_simps)
  have d: "deletes busy_sso ''sso'' () = ((PhaseCompleted, None), ())"
    by (simp add: deletes_def cleanup_steps_def busy_sso_def blank_sso_env_def delete_listed_def or_fail_def)
  have f: "product_finalizer ProductRHSSOUser \<in> set (Finalizers (ss_inst ?s))" "DeletionTimestamp (ss_inst ?s) \<noteq> None" by (simp_all add: sample_sso_def)
  have g: "sc_getns busy_sso ''sso'' (ss_world ?s) = (Inr False, ())" "sc_GetCRD busy_sso ''keycloaks.keycloak.org'' () = None"
    "sc_ListUsers busy_sso ''sso'' () = Inr [kc_user ''a'' ''sso'']" "sc_ListClients busy_sso ''sso'' () = Inr []"
    by (simp_all add: busy_sso_def blank_sso_env_def)
  have "[kc_user ''a'' ''sso''] \<noteq> [] \<or> ([] :: (string \<times> string) list) \<noteq> []" by simp
  from rhssouser_uninstall_waits [of ?s "blank_rhsso busy_sso", unfolded cm ns, OF f g(1,2) d g(3,4) this]
  show ?thesis by (simp add: Let_def sample_sso_def)
qed

theorem CheckCPUUsage_restart_witness:
  "(let env = blank_rhsso (blank_sso_env\<lparr>sc_statefulsets := found_api id\<rparr>); s = sample_sso zero_rhmi () in
    CheckCPUUsage env s \<noteq> s \<and> CheckCPUUsage env s = s\<lparr>ss_lastPodRestart := 2000 * second_ns\<rparr>)"
proof -
  let ?env = "blank_rhsso (blank_sso_env\<lparr>sc_statefulsets := found_api id\<rparr>)" and ?s = "sample_sso zero_rhmi ()"
  have over: "over_limit (Some ''1501m'')" using over_limit_units by blast
  have ne: "CheckCPUUsage ?env ?s \<noteq> ?s\<lparr>ss_world := ()\<rparr>"
    using over by (simp add: CheckCPUUsage_def blank_rhsso_def sample_sso_def)
  have "\<exists>e ss. k_Get (sc_statefulsets (rx_common ?env)) \<lparr>sf_Name = ''keycloak'', sf_Namespace = RHSSOCommon_GetNamespace (ss_common ?s), sf_Labels = None,
       sf_Template = zero_template, sf_Replicas = 0, sf_ReadyReplicas = 0\<rparr> (ss_world ?s) = (e, ss, ())" by (simp add: blank_rhsso_def sample_sso_def)
  then obtain e ss where "k_Get (sc_statefulsets (rx_common ?env)) \<lparr>sf_Name = ''keycloak'', sf_Namespace = RHSSOCommon_GetNamespace (ss_common ?s), sf_Labels = None,
       sf_Template = zero_template, sf_Replicas = 0, sf_ReadyReplicas = 0\<rparr> (ss_world ?s) = (e, ss, ())" by blast
  from CheckCPUUsage_restart [OF this ne] have "CheckCPUUsage ?env ?s = ?s\<lparr>ss_world := (), ss_lastPodRestart := 2000 * second_ns\<rparr>"
    unfolding Let_def by (simp add: blank_rhsso_def) metis
  with ne show ?thesis by (simp add: Let_def sample_sso_def)
qed

lemma sso_reconcile_completes:
  assumes "\<And>u f. ReconcileFinalizer u f name False (ss_inst s) (ss_world s) = Some ((PhaseCompleted, None), ss_inst s, ss_world s)"
    and "run_must (steps (ss_inst s)) s = ((PhaseCompleted, None), s')"
  shows "\<exists>st'. sso_reconcile cm name v final steps st False s = Some ((PhaseCompleted, None), st', s')"
  using assms by (simp add: sso_reconcile_def Let_def)


end
