(* ===== verification/Cloud_Resources.thy ===== *)
theory Cloud_Resources
  imports Preflight Product_Steps Base_Reconciler Cloud_Alerts "HOL-Library.Multiset"
begin

text \<open>
  The reconciler of the cloud resource operator (\<^verbatim>\<open>pkg/products/cloudresources\<close>): its strategies ConfigMap (service updates, the
  address range of the network, what is deleted with a resource), the removal of snapshots and resources, its alerts, and
  \<^verbatim>\<open>Reconcile\<close> as a whole.
\<close>

section \<open>Strategies and environment\<close>

text \<open>
  The JSON texts in the ConfigMap are read and written by the parameters \<open>cl_decode\<close> \<dots>, at the types the source gives to
  \<^verbatim>\<open>json.Unmarshal\<close>: maps from tiers to pointers, nil where the text says so. Of a network only the address block is read.
\<close>

record StrategyConfig =
  sg_Region :: string
  sg_CreateStrategy :: string
  sg_DeleteStrategy :: string
  sg_ServiceUpdates :: string

type_synonym strategies = "(string, StrategyConfig option) gomap option"
type_synonym networks = "(string, string option) gomap option"

datatype delete_strategy = S3DeleteStrat bool | DeleteDBClusterInput bool | DeleteCacheClusterInput string

abbreviation cro_strategies :: string where "cro_strategies \<equiv> ''cloud-resources-aws-strategies''"
abbreviation TierProduction :: string where "TierProduction \<equiv> ''production''"

record 'w cloud_env =
  cl_preflight :: "'w preflight_env"
  cl_base :: "'w base_env"
  cl_backup :: "'w backup_env"
  cl_drift :: "'w \<Rightarrow> 'w"
  cl_polls :: nat
  cl_write :: "ProductName \<Rightarrow> ProductConfig \<Rightarrow> Manager \<Rightarrow> 'w \<Rightarrow> err option \<times> Manager \<times> 'w"
  cl_update :: "'w update_fn"
  cl_getns :: "string \<Rightarrow> 'w \<Rightarrow> (err + bool) \<times> 'w"
  cl_delns :: "string \<Rightarrow> 'w \<Rightarrow> err option \<times> 'w"
  cl_GetCRD :: "string \<Rightarrow> 'w \<Rightarrow> err option"
  cl_ListSnapshots :: "string \<Rightarrow> string \<Rightarrow> 'w \<Rightarrow> err + string list"
  cl_DeleteSnapshot :: "string \<Rightarrow> string \<Rightarrow> 'w \<Rightarrow> err option \<times> 'w"
  cl_ListResources :: "string \<Rightarrow> string \<Rightarrow> 'w \<Rightarrow> err + string list"
  cl_DeleteResource :: "string \<Rightarrow> string \<Rightarrow> 'w \<Rightarrow> err option \<times> 'w"
  cl_configMaps :: "(ConfigMap, 'w) kind_api"
  cl_limitRanges :: "(LimitRange, 'w) kind_api"
  cl_quantity :: "string \<Rightarrow> Quantity"
  cl_alerts :: "'w alert_env"
  cl_decode :: "string \<Rightarrow> err + strategies"
  cl_encode :: "strategies \<Rightarrow> err + string"
  cl_decodeUpdates :: "string \<Rightarrow> err + string list"
  cl_encodeUpdates :: "string list \<Rightarrow> string"
  cl_decodeNetwork :: "string \<Rightarrow> err + networks"
  cl_encodeNetwork :: "networks \<Rightarrow> err + string"
  cl_deleteJSON :: "delete_strategy \<Rightarrow> string"
  cl_order :: "(string \<times> delete_strategy) list \<Rightarrow> (string \<times> delete_strategy) list"
  cl_ReconcileStrategyMaps :: "int \<Rightarrow> int \<Rightarrow> string \<Rightarrow> string \<Rightarrow> 'w \<Rightarrow> err option \<times> 'w"
  cl_uid :: string

abbreviation cl_client :: "'w cloud_env \<Rightarrow> 'w addon_client" where "cl_client env \<equiv> be_client (pf_boot (cl_preflight env))"

record 'w cloud_state =
  cs_config :: CloudResources
  cs_manager :: Manager
  cs_inst :: RHMI
  cs_world :: 'w

definition on_cloud :: "'w phase_op \<Rightarrow> 'w cloud_state phase_op" where
  "on_cloud f s = (case f (cs_world s) of (res, w') \<Rightarrow> (res, s\<lparr>cs_world := w'\<rparr>))"

definition strategies_map :: "string \<Rightarrow> RHMI \<Rightarrow> ConfigMap" where
  "strategies_map name inst = \<lparr>cm_Name = name, cm_Namespace = Namespace inst, cm_Data = None\<rparr>"

text \<open>Reading and writing an entry of the data: a nil map has no entry, and writing to it panics.\<close>

definition data_of :: "ConfigMap \<Rightarrow> string \<Rightarrow> string" where
  "data_of cm k = gget '''' (case cm_Data cm of None \<Rightarrow> [] | Some d \<Rightarrow> d) k"

definition put_data :: "string \<Rightarrow> string \<Rightarrow> (ConfigMap, 'w) op" where
  "put_data k v cm w =
     (case cm_Data cm of
        None \<Rightarrow> (Some (GoPanic ''assignment to entry in nil map''), cm, w)
      | Some d \<Rightarrow> (None, cm\<lparr>cm_Data := Some (gset k v d)\<rparr>, w))"

section \<open>Construction\<close>

definition cloud_config :: "RHMI \<Rightarrow> CloudResources \<Rightarrow> CloudResources" where
  "cloud_config inst c =
     (let c1 = CloudResources_SetNamespace c (NamespacePrefix (Spec inst) @ ''cloud-resources'') in
      CloudResources_SetOperatorNamespace c1
        (if OperatorsInProductNamespace (Spec inst) then CloudResources_GetNamespace c1 else CloudResources_GetNamespace c1 @ ''-operator''))"

definition Cloud_NewReconciler ::
  "'w cloud_env \<Rightarrow> (string \<Rightarrow> err + ProductConfig) \<Rightarrow> RHMI \<Rightarrow> ProductDeclaration option \<Rightarrow> Manager \<Rightarrow> 'w \<Rightarrow>
   (err + CloudResources \<times> ProductDeclaration) \<times> Manager \<times> 'w" where
  "Cloud_NewReconciler env decode inst decl m w =
     (case decl of
        None \<Rightarrow> (Inl (Msg ''no product declaration found for cloud resources''), m, w)
      | Some d \<Rightarrow>
          (case ReadCloudResources decode m of
             Inl e \<Rightarrow> (Inl (Wrap ''could not read cloud resources config'' e), m, w)
           | Inr c \<Rightarrow>
               (case cl_write env ProductCloudResources (CloudResources_Read (cloud_config inst c)) m w of
                  (Some e, m1, w1) \<Rightarrow> (Inl (Wrap ''error writing cloudresources config '' e), m1, w1)
                | (None, m1, w1) \<Rightarrow> (Inr (cloud_config inst c, d), m1, w1))))"

definition Cloud_VerifyVersion :: "RHMI \<Rightarrow> bool" where
  "Cloud_VerifyVersion inst =
     (let p = gget zero_product (s_Products (GetInstallStage inst)) ProductCloudResources
      in OperatorVersionCloudResources = p_OperatorVersion p \<and> VersionCloudResources = p_Version p)"

section \<open>Removal\<close>

definition listed :: "string \<Rightarrow> ('w \<Rightarrow> err + 'o list) \<Rightarrow> 'w \<Rightarrow> err + 'o list" where
  "listed msg ls w = map_sum (Wrap msg) id (ls w)"

definition removeSnapshots :: "'w cloud_env \<Rightarrow> RHMI \<Rightarrow> 'w phase_op" where
  "removeSnapshots env inst w =
     (case Exists (cl_GetCRD env ''postgressnapshots.integreatly.org'' w) of
        Inl e \<Rightarrow> ((PhaseFailed, Some e), w)
      | Inr False \<Rightarrow> ((PhaseCompleted, None), w)
      | Inr True \<Rightarrow>
          run_must [delete_listed (listed ''failed to list postgres snapshots'' (cl_ListSnapshots env ''postgres'' (Namespace inst))) (cl_DeleteSnapshot env ''postgres''),
                    delete_listed (listed ''failed to list redis snapshots'' (cl_ListSnapshots env ''redis'' (Namespace inst))) (cl_DeleteSnapshot env ''redis'')] w)"

definition overrideStrategyConfig :: "'w cloud_env \<Rightarrow> string \<Rightarrow> delete_strategy \<Rightarrow> (ConfigMap, 'w) op" where
  "overrideStrategyConfig env resourceType strat cm w =
     (case cl_decode env (data_of cm resourceType) of
        Inl e \<Rightarrow> (Some (Wrap (''failed to unmarshal strategy mapping for resource type '' @ resourceType) e), cm, w)
      | Inr tiers \<Rightarrow>
          if list_ex (\<lambda>(tier, c). c = None) (case tiers of None \<Rightarrow> [] | Some l \<Rightarrow> l)
          then (Some (GoPanic ''nil pointer dereference''), cm, w)
          else (case cl_encode env (map_option (map (map_prod id (map_option (sg_DeleteStrategy_update (\<lambda>_. cl_deleteJSON env strat))))) tiers) of
                  Inl e \<Rightarrow> (Some e, cm, w)
                | Inr text \<Rightarrow> put_data resourceType text cm w))"

fun override_all :: "'w cloud_env \<Rightarrow> (string \<times> delete_strategy) list \<Rightarrow> (ConfigMap, 'w) op" where
  "override_all env [] cm w = (None, cm, w)"
| "override_all env ((r, s) # rest) cm w =
     (case overrideStrategyConfig env r s cm w of
        (Some e, cm1, w1) \<Rightarrow> (Some e, cm1, w1)
      | (None, cm1, w1) \<Rightarrow> override_all env rest cm1 w1)"

text \<open>The strategies by resource; the loop over this map visits it in an order of the runtime's choice.\<close>

definition resourcesConfig :: "RHMI \<Rightarrow> (string \<times> delete_strategy) list" where
  "resourcesConfig inst =
     (if IsSkipFinalDBSnapshots inst
      then [(''blobstorage'', S3DeleteStrat True), (''postgres'', DeleteDBClusterInput True), (''redis'', DeleteCacheClusterInput '''')]
      else [(''blobstorage'', S3DeleteStrat False)])"

definition createDeletionStrategy :: "'w cloud_env \<Rightarrow> CloudResources \<Rightarrow> RHMI \<Rightarrow> 'w phase_op" where
  "createDeletionStrategy env c inst w =
     (if ToLower (UseClusterStorage (Spec inst)) = ''false'' \<and> CloudResources_GetStrategiesConfigMapName c = cro_strategies
      then (case CreateOrUpdate (cl_configMaps env) (=) (override_all env (cl_order env (resourcesConfig inst)))
                   (strategies_map (CloudResources_GetStrategiesConfigMapName c) inst) w of
              ((r, Some e), cm, w1) \<Rightarrow> ((PhaseFailed, Some e), w1)
            | ((r, None), cm, w1) \<Rightarrow> ((PhaseCompleted, None), w1))
      else ((PhaseCompleted, None), w))"

text \<open>All resources of a kind: how many there were, after each has been deleted.\<close>

definition delete_kind :: "'w cloud_env \<Rightarrow> string \<Rightarrow> string \<Rightarrow> string \<Rightarrow> 'w \<Rightarrow> (err + nat) \<times> 'w" where
  "delete_kind env kind what ns w =
     (case listed (''failed to list '' @ what @ '' instances'') (cl_ListResources env kind ns) w of
        Inl e \<Rightarrow> (Inl e, w)
      | Inr xs \<Rightarrow> (case delete_every (cl_DeleteResource env kind) xs w of (Some e, w1) \<Rightarrow> (Inl e, w1) | (None, w1) \<Rightarrow> (Inr (length xs), w1)))"

definition cleanupResources :: "'w cloud_env \<Rightarrow> RHMI \<Rightarrow> 'w phase_op" where
  "cleanupResources env inst w =
     (case Exists (cl_GetCRD env ''postgres.integreatly.org'' w) of
        Inl e \<Rightarrow> ((PhaseFailed, Some e), w)
      | Inr False \<Rightarrow> ((PhaseCompleted, None), w)
      | Inr True \<Rightarrow>
          (case delete_kind env ''postgres'' ''postgres'' (Namespace inst) w of
             (Inl e, w1) \<Rightarrow> ((PhaseFailed, Some e), w1)
           | (Inr n1, w1) \<Rightarrow>
               (case delete_kind env ''redis'' ''redis'' (Namespace inst) w1 of
                  (Inl e, w2) \<Rightarrow> ((PhaseFailed, Some e), w2)
                | (Inr n2, w2) \<Rightarrow>
                    (case delete_kind env ''blobstorage'' ''blobStorage'' (Namespace inst) w2 of
                       (Inl e, w3) \<Rightarrow> ((PhaseFailed, Some e), w3)
                     | (Inr n3, w3) \<Rightarrow>
                         ((if 0 < n1 \<or> 0 < n2 \<or> 0 < n3 then PhaseInProgress else PhaseCompleted, None), w3)))))"

definition remove_unless_hive :: "'w cloud_env \<Rightarrow> RHMI \<Rightarrow> string \<Rightarrow> 'w phase_op" where
  "remove_unless_hive env inst operatorNamespace w =
     (case OperatorIsHiveManaged (cl_client env) inst w of
        Inl e \<Rightarrow> ((PhaseFailed, Some e), w)
      | Inr True \<Rightarrow> ((PhaseCompleted, None), w)
      | Inr False \<Rightarrow> RemoveNamespace (cl_getns env) (cl_delns env) operatorNamespace w)"

abbreviation cloud_csv :: string where "cloud_csv \<equiv> ''cloud-resources.v'' @ OperatorVersionCloudResources"

definition cloud_removal :: "'w cloud_env \<Rightarrow> CloudResources \<Rightarrow> RHMI \<Rightarrow> string \<Rightarrow> 'w phase_op list" where
  "cloud_removal env c inst operatorNamespace =
     [removeSnapshots env inst,
      createDeletionStrategy env c inst,
      cleanupResources env inst,
      EnsureObjectDeleted (mk_subs (br_market (cl_base env))) (zero_subscription\<lparr>os_Name := ''rhmi-cloud-resources'', os_Namespace := operatorNamespace\<rparr>),
      EnsureObjectDeleted (br_csvs (cl_base env)) (zero_csv\<lparr>csv_Name := cloud_csv, csv_Namespace := operatorNamespace\<rparr>),
      remove_unless_hive env inst operatorNamespace]"

definition cloud_final :: "'w cloud_env \<Rightarrow> CloudResources \<Rightarrow> RHMI \<Rightarrow> string \<Rightarrow> 'w phase_op" where
  "cloud_final env c inst operatorNamespace =
     unless_gone (cl_getns env) operatorNamespace (run_must (cloud_removal env c inst operatorNamespace))"

section \<open>Numbers of add-on parameters\<close>

text \<open>
  \<^verbatim>\<open>strconv.ParseInt(s, 0, 64)\<close>: the prefix of the digits gives the base, and underscores may stand between digits;
  \<open>None\<close> is the error return.
\<close>

definition digit_value :: "char \<Rightarrow> nat option" where
  "digit_value c =
     (let n = (of_char (lower_char c) :: nat) in
      if 48 \<le> n \<and> n \<le> 57 then Some (n - 48) else if 97 \<le> n \<and> n \<le> 122 then Some (n - 87) else None)"

fun base_value :: "nat \<Rightarrow> nat \<Rightarrow> string \<Rightarrow> nat option" where
  "base_value base acc [] = Some acc"
| "base_value base acc (c # cs) =
     (case digit_value c of
        None \<Rightarrow> None
      | Some d \<Rightarrow> if d < base then base_value base (base * acc + d) cs else None)"

datatype last_char = Start | Digit | Underscore | Other

fun underscore_scan :: "bool \<Rightarrow> last_char \<Rightarrow> string \<Rightarrow> bool" where
  "underscore_scan hex l [] \<longleftrightarrow> l \<noteq> Underscore"
| "underscore_scan hex l (c # cs) \<longleftrightarrow>
     (case digit_value c of
        Some d \<Rightarrow> if d < 10 \<or> hex \<and> d < 16 then underscore_scan hex Digit cs else l \<noteq> Underscore \<and> underscore_scan hex Other cs
      | None \<Rightarrow> if c = CHR ''_'' then l = Digit \<and> underscore_scan hex Underscore cs else l \<noteq> Underscore \<and> underscore_scan hex Other cs)"

definition has_prefix0 :: "string \<Rightarrow> string \<Rightarrow> bool" where
  "has_prefix0 letters s \<longleftrightarrow> 2 \<le> length s \<and> hd s = CHR ''0'' \<and> lower_char (s ! 1) \<in> set letters"

definition underscoreOK :: "string \<Rightarrow> bool" where
  "underscoreOK s =
     (if has_prefix0 ''box'' s then underscore_scan (has_prefix0 ''x'' s) Digit (drop 2 s) else underscore_scan False Start s)"

definition ParseUint0 :: "string \<Rightarrow> nat option" where
  "ParseUint0 s =
     (if s = '''' then None
      else let (base, ds) =
          (if hd s = CHR ''0'' then
             (if 3 \<le> length s \<and> has_prefix0 ''b'' s then (2, drop 2 s)
              else if 3 \<le> length s \<and> has_prefix0 ''o'' s then (8, drop 2 s)
              else if 3 \<le> length s \<and> has_prefix0 ''x'' s then (16, drop 2 s)
              else (8, tl s))
           else (10, s)) in
        if CHR ''_'' \<in> set ds \<and> \<not> underscoreOK s then None else base_value base 0 (filter (\<lambda>c. c \<noteq> CHR ''_'') ds))"

definition ParseInt0 :: "string \<Rightarrow> int option" where
  "ParseInt0 s =
     (let neg = (s \<noteq> '''' \<and> hd s = CHR ''-'');
          ds = (if s \<noteq> '''' \<and> (hd s = CHR ''-'' \<or> hd s = CHR ''+'') then tl s else s)
      in case ParseUint0 ds of
           None \<Rightarrow> None
         | Some n \<Rightarrow> (let v = (if neg then - int n else int n) in if - (2 ^ 63) \<le> v \<and> v < 2 ^ 63 then Some v else None))"

section \<open>Installation\<close>

text \<open>The day and the hour of maintenance: a parameter of the add-on, or the default.\<close>

definition maintenance :: "'w cloud_env \<Rightarrow> string \<Rightarrow> string \<Rightarrow> string \<Rightarrow> int \<Rightarrow> 'w \<Rightarrow> err + int" where
  "maintenance env ns what parameter dflt w =
     (case GetStringParameter (cl_client env) ns parameter w of
        (v, ok, Some e) \<Rightarrow> Inl (Msg (''failure to get maintenance '' @ what @ '' parameter: '' @ err_string e))
      | (v, ok, None) \<Rightarrow>
          if v = '''' then Inr dflt
          else (case ParseInt0 v of
                  None \<Rightarrow> Inl (Msg (''failure to parse maintenance '' @ what @ '' parameter: strconv.ParseInt: parsing '' @ v))
                | Some n \<Rightarrow> Inr n))"

definition reconcileCloudResourceStrategies :: "'w cloud_env \<Rightarrow> string \<Rightarrow> 'w phase_op" where
  "reconcileCloudResourceStrategies env ns w =
     (case maintenance env ns ''day'' ''maintenance-day'' 4 w of
        Inl e \<Rightarrow> ((PhaseFailed, Some e), w)
      | Inr day \<Rightarrow>
          (case maintenance env ns ''hour'' ''maintenance-hour'' 2 w of
             Inl e \<Rightarrow> ((PhaseFailed, Some e), w)
           | Inr hour \<Rightarrow>
               (case cl_ReconcileStrategyMaps env day hour TierProduction ns w of
                  (Some e, w1) \<Rightarrow> ((PhaseFailed, Some (Msg (''failure to reconcile strategy map: '' @ err_string e))), w1)
                | (None, w1) \<Rightarrow> ((PhaseCompleted, None), w1))))"

definition platform_string :: "PlatformType \<Rightarrow> string" where
  "platform_string t = (case t of AWSPlatformType \<Rightarrow> ''AWS'' | OtherPlatform s \<Rightarrow> s)"

definition setPlatformStrategyName :: "'w cloud_env \<Rightarrow> 'w cloud_state phase_op" where
  "setPlatformStrategyName env s =
     (if CloudResources_GetStrategiesConfigMapName (cs_config s) \<noteq> '''' then ((PhaseCompleted, None), s)
      else (case GetPlatformType (pf_boot (cl_preflight env)) (cs_world s) of
              Inl e \<Rightarrow> ((PhaseFailed, Some e), s)
            | Inr t \<Rightarrow>
                if t = AWSPlatformType
                then ((PhaseCompleted, None), s\<lparr>cs_config := CloudResources_SetStrategiesConfigMapName (cs_config s) cro_strategies\<rparr>)
                else ((PhaseFailed, Some (Msg (''unsupported platform type '' @ platform_string t))), s)))"

definition checkStsCredentialsPresent :: "'w cloud_env \<Rightarrow> string \<Rightarrow> 'w phase_op" where
  "checkStsCredentialsPresent env operatorNamespace w =
     (case IsClusterSTS (cl_preflight env) w of
        Inl e \<Rightarrow> ((PhaseFailed, Some e), w)
      | Inr False \<Rightarrow> ((PhaseCompleted, None), w)
      | Inr True \<Rightarrow>
          (if pf_GetSecret (cl_preflight env) operatorNamespace ''sts-credentials'' w = None then (PhaseCompleted, None)
           else (PhaseFailed, Some (Msg (''failed to get sts-credentials secret in '' @ operatorNamespace @ '' namespace''))), w))"

text \<open>The mutation of the strategies for service updates; the updates that are there are read, and replaced.\<close>

definition put_updates :: "'w cloud_env \<Rightarrow> string \<Rightarrow> string list \<Rightarrow> (ConfigMap, 'w) op" where
  "put_updates env resourceType updates cm w =
     (case cl_decode env (data_of cm resourceType) of
        Inl e \<Rightarrow> (Some e, cm, w)
      | Inr tiers \<Rightarrow>
          (case Option.bind tiers (\<lambda>l. Option.bind (map_of l TierProduction) id) of
             None \<Rightarrow> (Some (GoPanic ''nil pointer dereference''), cm, w)
           | Some c \<Rightarrow>
               (case cl_decodeUpdates env (sg_ServiceUpdates c) of
                  Inl e \<Rightarrow> (Some e, cm, w)
                | Inr old \<Rightarrow>
                    (case cl_encode env (map_option (gset TierProduction (Some (c\<lparr>sg_ServiceUpdates := cl_encodeUpdates env updates\<rparr>))) tiers) of
                       Inl e \<Rightarrow> (Some e, cm, w)
                     | Inr text \<Rightarrow> put_data resourceType text cm w))))"

definition addServiceUpdates :: "'w cloud_env \<Rightarrow> RHMI \<Rightarrow> string \<Rightarrow> string list \<Rightarrow> CloudResources \<Rightarrow> 'w phase_op" where
  "addServiceUpdates env inst resourceType updates c w =
     (if CloudResources_GetStrategiesConfigMapName c = cro_strategies
      then (case CreateOrUpdate (cl_configMaps env) (=) (put_updates env resourceType updates)
                   (strategies_map (CloudResources_GetStrategiesConfigMapName c) inst) w of
              ((r, Some e), cm, w1) \<Rightarrow> ((PhaseFailed, Some e), w1)
            | ((r, None), cm, w1) \<Rightarrow> ((if r = OperationResultUpdated then PhaseInProgress else PhaseCompleted, None), w1))
      else ((PhaseCompleted, None), w))"

definition redisServiceUpdatesToInstall :: "string list" where
  "redisServiceUpdatesToInstall =
     [''elasticache-20250804-intel'', ''elasticache-july-patch-update-202507'', ''elasticache-20250603-intel'', ''elasticache-april-patch-update-202504'',
      ''elasticache-20250507-intel'', ''elasticache-20241007-intel'', ''elasticache-redis-cve-patch-update-202410'', ''elasticache-patch-update-202501'',
      ''elasticache-20210615-002'', ''elasticache-redis-6-2-6-update-20230109'', ''elasticache-20230315-001'', ''elasticache-redis-6-2-update'',
      ''elasticache-20240225-intel'', ''elasticache-20240501-intel'']"

definition postgresServiceUpdateTimestamp :: "string list" where
  "postgresServiceUpdateTimestamp = [''1642204801'']"

subsection \<open>The address range\<close>

definition production_cidr :: "networks \<Rightarrow> string" where
  "production_cidr n = (case Option.bind n (\<lambda>l. Option.bind (map_of l TierProduction) id) of None \<Rightarrow> '''' | Some b \<Rightarrow> b)"

text \<open>The network with a production tier, and with the new block in every tier; a tier that is null panics.\<close>

definition network_tiers :: "networks \<Rightarrow> (string, string option) gomap" where
  "network_tiers n =
     (let l = (case n of None \<Rightarrow> [] | Some l \<Rightarrow> l) in
      if Option.bind (map_of l TierProduction) id = None then gset TierProduction (Some '''') l else l)"

definition set_blocks :: "string \<Rightarrow> networks \<Rightarrow> (string, string option) gomap option" where
  "set_blocks cidr n =
     (if list_ex (\<lambda>(tier, b). b = None) (network_tiers n) then None else Some (map (map_prod id (\<lambda>_. Some cidr)) (network_tiers n)))"

definition cidr_parameter :: "'w cloud_env \<Rightarrow> RHMI \<Rightarrow> 'w \<Rightarrow> err + string" where
  "cidr_parameter env inst w =
     (case GetPlatformType (pf_boot (cl_preflight env)) w of
        Inl e \<Rightarrow> Inl (Msg (''unable to retrieve platform type '' @ err_string e))
      | Inr t \<Rightarrow>
          if t \<noteq> AWSPlatformType then Inl (Msg (''unsupported platform type '' @ platform_string t))
          else (case GetStringParameter (cl_client env) (Namespace inst) ''cidr-range'' w of
                  (v, ok, Some e) \<Rightarrow> Inl (Msg (''failed to retrieve cidr range value '' @ err_string e))
                | (v, ok, None) \<Rightarrow>
                    Inr (if \<not> ok \<or> v = '''' \<and> isInstallationOlderThan1Minute (be_now (pf_boot (cl_preflight env))) inst then '''' else v)))"

definition patch_network :: "'w cloud_env \<Rightarrow> string \<Rightarrow> networks \<Rightarrow> ConfigMap \<Rightarrow> 'w \<Rightarrow> err option \<times> 'w" where
  "patch_network env cidr n cm w =
     (case set_blocks cidr n of
        None \<Rightarrow> (Some (GoPanic ''nil pointer dereference''), w)
      | Some l \<Rightarrow>
          (case cl_encodeNetwork env (Some l) of
             Inl e \<Rightarrow> (Some e, w)
           | Inr text \<Rightarrow>
               (case put_data ''_network'' text cm w of
                  (Some e, cm1, w1) \<Rightarrow> (Some e, w1)
                | (None, cm1, w1) \<Rightarrow> (case k_Patch (cl_configMaps env) cm1 w1 of (e, cm2, w2) \<Rightarrow> (e, w2)))))"

definition reconcileCIDRValue :: "'w cloud_env \<Rightarrow> RHMI \<Rightarrow> CloudResources \<Rightarrow> 'w \<Rightarrow> err option \<times> 'w" where
  "reconcileCIDRValue env inst c w =
     (case cidr_parameter env inst w of
        Inl e \<Rightarrow> (Some e, w)
      | Inr cidr \<Rightarrow>
          (case k_Get (cl_configMaps env) (strategies_map (CloudResources_GetStrategiesConfigMapName c) inst) w of
             (Some e, cm, w1) \<Rightarrow> (Some e, w1)
           | (None, cm, w1) \<Rightarrow>
               (case Option.bind (cm_Data cm) (\<lambda>d. map_of d ''_network'') of
                  None \<Rightarrow> patch_network env cidr (Some []) cm w1
                | Some text \<Rightarrow>
                    (case cl_decodeNetwork env text of
                       Inl e \<Rightarrow> (Some e, w1)
                     | Inr n \<Rightarrow> if production_cidr n \<noteq> '''' then (None, w1) else patch_network env cidr n cm w1))))"

subsection \<open>The operator and its alerts\<close>

definition cloud_subscription :: "'w cloud_env \<Rightarrow> ProductDeclaration \<Rightarrow> RHMI \<Rightarrow> string \<Rightarrow> 'w phase_op" where
  "cloud_subscription env decl inst operatorNamespace w =
     (case PrepareTarget decl ''rhmi-registry-cs''
             \<lparr>t_Namespace = operatorNamespace, t_SubscriptionName = ''rhmi-cloud-resources'', t_Package = '''', t_Channel = ''''\<rparr> of
        Inl e \<Rightarrow> ((PhaseFailed, Some e), w)
      | Inr (csr, target) \<Rightarrow>
          (case ReconcileSubscription
                  ((cl_base env)\<lparr>br_Backup := PerformBackup (cl_backup env) (cl_drift env) NoopBackup (cl_polls env)\<rparr>)
                  target [Namespace inst] csr w of
             (res, csr', w') \<Rightarrow> (res, w')))"

definition endpoint_message :: "string \<Rightarrow> string" where
  "endpoint_message ns = ''No {{  $labels.endpoint  }} endpoints in namespace '' @ ns @ ''. Expected at least 1.''"

definition sanitize :: "string \<Rightarrow> string" where
  "sanitize s = ToLower (ReplaceAllC s CHR ''-'' CHR ''_'')"

definition snapshot_metrics :: "string list \<Rightarrow> string" where
  "snapshot_metrics names = sanitize (TrimSuffix (concat (map (\<lambda>n. ''cro_redis_snapshot_not_found_'' @ n @ '' > 1 or '') names)) '' or '')"

definition endpoint_rules :: "string \<Rightarrow> string \<Rightarrow> Rule list" where
  "endpoint_rules installationName ns =
     [\<lparr>ru_Alert = ''RHOAMCloudResourceOperatorMetricsServiceEndpointDown'',
       ru_Expr = ''absent(kube_endpoint_address{namespace='' @ quoted ns @ '', endpoint='' @ quoted ''operator-metrics-service'' @ ''})'', ru_For = ''5m'',
       ru_Labels = [(''severity'', ''critical''), (''product'', installationName)],
       ru_Annotations = [(''sop_url'', sopUrlRhoamBase @ ''RHOAMCloudResourceOperatorMetricsServiceEndpointDown.asciidoc''), (''message'', endpoint_message ns)]\<rparr>,
      \<lparr>ru_Alert = ''RHOAMCloudResourceOperatorRhmiRegistryCsServiceEndpointDown'',
       ru_Expr = ''absent(kube_endpoint_address{endpoint='' @ quoted ''rhmi-registry-cs'' @ '', namespace='' @ quoted ns @ ''})'', ru_For = ''5m'',
       ru_Labels = [(''severity'', ''warning''), (''product'', installationName)],
       ru_Annotations = [(''sop_url'', ''https://gitlab.cee.redhat.com/rhcloudservices/integreatly-help/tree/master/sops/rhoam/alerts/service_endpoint_down.asciidoc''),
         (''message'', endpoint_message ns)]\<rparr>,
      \<lparr>ru_Alert = ''RHOAMCloudResourceOperatorVPCActionFailed'',
       ru_Expr = ''cro_vpc_action{namespace='' @ quoted ns @ '', status='' @ quoted ''failed'' @ '', error!='' @ quoted '''' @ ''} > 0'', ru_For = ''5m'',
       ru_Labels = [(''severity'', ''critical''), (''product'', installationName)],
       ru_Annotations = [(''sop_url'', sopUrlRhoamBase @ ''RHOAMCloudResourceOperatorVPCActionFailed.asciidoc''),
         (''message'', ''CRO failed to perform an action on a VPC.'')]\<rparr>]"

definition snapshot_rule :: "string \<Rightarrow> string list \<Rightarrow> Rule" where
  "snapshot_rule installationName names =
     \<lparr>ru_Alert = ''RHOAMCloudResourceOperatorElasticCacheSnapshotsNotFound'', ru_Expr = snapshot_metrics names, ru_For = '''',
      ru_Labels = [(''severity'', ''critical''), (''product'', installationName)],
      ru_Annotations = [(''sop_url'', ''https://gitlab.cee.redhat.com/rhcloudservices/integreatly-help/blob/master/sops/alerts_and_troubleshooting.md''),
        (''message'', ''Elastic Cache snapshot not found or not available for tagging.'')]\<rparr>"

definition metrics_rule :: "string \<Rightarrow> Rule" where
  "metrics_rule installationName =
     \<lparr>ru_Alert = ToUpper installationName @ ''CloudResourceOperatorMetricsMissing'',
      ru_Expr = ''('' @ Join (map (\<lambda>m. ''absent('' @ m @ '')'')
          [''cro_postgres_available'', ''cro_postgres_connection'', ''cro_postgres_status_phase'', ''cro_redis_available'', ''cro_redis_connection'',
           ''cro_redis_status_phase'', ''cro_postgres_current_allocated_storage'']) '' or '' @ '') == 1 and rhoam_spec{use_cluster_storage=\"false\"}'',
      ru_For = ''5m'', ru_Labels = [(''severity'', ''critical'')],
      ru_Annotations = [(''sop_url'', sopUrlRhoamBase @ ''RHOAMCloudResourceOperatorMetricsMissing.asciidoc''),
        (''message'', ''one or more cloud-resource-operator metrics have been missing for 5+ minutes'')]\<rparr>"

definition getRedisCRsNames :: "'w cloud_env \<Rightarrow> string \<Rightarrow> 'w \<Rightarrow> err + string list" where
  "getRedisCRsNames env ns w = listed ''failed to list redis instances'' (cl_ListResources env ''redis'' ns) w"

definition cloud_newAlertsReconciler :: "'w cloud_env \<Rightarrow> RHMI \<Rightarrow> CloudResources \<Rightarrow> 'w \<Rightarrow> err + AlertReconcilerImpl" where
  "cloud_newAlertsReconciler env inst c w =
     (let installationName = InstallationNames (Type (Spec inst)); ns = GetOboNamespace (Namespace inst) in
      map_sum id
        (\<lambda>names. \<lparr>ar_deleting = DeletionTimestamp inst \<noteq> None,
            ar_Alerts =
              [\<lparr>ac_AlertName = ''cro-ksm-endpoint-alerts'', ac_GroupName = ''cloud-resources-operator-endpoint.rules'', ac_Namespace = ns, ac_Interval = '''',
                ac_Rules = OboRules (endpoint_rules installationName (CloudResources_GetOperatorNamespace c) @
                  (if names = [] then [] else [snapshot_rule installationName names]))\<rparr>,
               \<lparr>ac_AlertName = ''cloud-resource-operator-metrics-missing'', ac_GroupName = ''cloud-resource-operator.rules'', ac_Namespace = ns, ac_Interval = '''',
                ac_Rules = OboRules [metrics_rule installationName]\<rparr>],
            ar_RemovedAlerts = []\<rparr>)
        (getRedisCRsNames env (Namespace inst) w))"

section \<open>\<^verbatim>\<open>Reconcile\<close>\<close>

definition with_config :: "(CloudResources \<Rightarrow> 'w phase_op) \<Rightarrow> 'w cloud_state phase_op" where
  "with_config f s = on_cloud (f (cs_config s)) s"

definition cloud_steps :: "'w cloud_env \<Rightarrow> RHMI \<Rightarrow> ProductDeclaration \<Rightarrow> string \<Rightarrow> 'w cloud_state phase_op list" where
  "cloud_steps env inst decl operatorNamespace =
     [setPlatformStrategyName env,
      on_cloud (ReconcileNamespace (cl_base env) operatorNamespace (cl_uid env) inst),
      on_cloud (ReconcileLimitRange (cl_limitRanges env) (cl_quantity env) operatorNamespace DefaultLimitRangeParams),
      on_cloud (checkStsCredentialsPresent env operatorNamespace),
      (\<lambda>s. on_cloud (reconcileCloudResourceStrategies env (m_Namespace (cs_manager s))) s),
      with_config (\<lambda>c. or_fail (reconcileCIDRValue env inst c)),
      on_cloud (cloud_subscription env decl inst operatorNamespace),
      with_config (\<lambda>c w. case ReconcileCsvDeploymentsPriority (cl_base env) cloud_csv (CloudResources_GetOperatorNamespace c) (PriorityClassName (Spec inst)) w of
         (res, csv, w') \<Rightarrow> (res, w')),
      with_config (addServiceUpdates env inst ''redis'' redisServiceUpdatesToInstall),
      with_config (addServiceUpdates env inst ''postgres'' postgresServiceUpdateTimestamp),
      with_config (\<lambda>c. with_alerts (cl_alerts env) (cloud_newAlertsReconciler env inst c))]"

text \<open>The status of the product is set before the configuration is written.\<close>

definition cloud_finish :: "'w cloud_env \<Rightarrow> RHMIProductStatus \<Rightarrow> 'w cloud_state \<Rightarrow> (StatusPhase \<times> err option) \<times> RHMIProductStatus \<times> 'w cloud_state" where
  "cloud_finish env st s =
     (let st' = st\<lparr>p_Host := CloudResources_GetHost (cs_config s), p_Version := CloudResources_GetProductVersion (cs_config s),
                   p_OperatorVersion := CloudResources_GetOperatorVersion (cs_config s)\<rparr> in
      case cl_write env ProductCloudResources (CloudResources_Read (cs_config s)) (cs_manager s) (cs_world s) of
        (Some e, m, w) \<Rightarrow> ((PhaseFailed, Some (Wrap ''could not write cloud resources config'' e)), st', s\<lparr>cs_manager := m, cs_world := w\<rparr>)
      | (None, m, w) \<Rightarrow> ((PhaseCompleted, None), st', s\<lparr>cs_manager := m, cs_world := w\<rparr>))"

definition Cloud_Reconcile ::
  "'w cloud_env \<Rightarrow> ProductDeclaration \<Rightarrow> RHMIProductStatus \<Rightarrow> bool \<Rightarrow> 'w cloud_state \<Rightarrow>
   ((StatusPhase \<times> err option) \<times> RHMIProductStatus \<times> 'w cloud_state) option" where
  "Cloud_Reconcile env decl st uninstall s =
     (let operatorNamespace = CloudResources_GetOperatorNamespace (cs_config s) in
      case ReconcileFinalizer (cl_update env) (\<lambda>i w. case cloud_final env (cs_config s) i operatorNamespace w of (res, w') \<Rightarrow> (res, i, w'))
             ProductCloudResources uninstall (cs_inst s) (cs_world s) of
        None \<Rightarrow> None
      | Some ((phase, e), inst1, w1) \<Rightarrow>
          (let s1 = s\<lparr>cs_inst := inst1, cs_world := w1\<rparr> in
           if e \<noteq> None \<or> phase = PhaseFailed then Some ((phase, e), st, s1)
           else if uninstall then Some ((phase, None), st, s1)
           else (case run_must (cloud_steps env inst1 decl operatorNamespace) s1 of
                   ((phase2, e2), s2) \<Rightarrow>
                     if e2 \<noteq> None \<or> phase2 \<noteq> PhaseCompleted then Some ((phase2, e2), st, s2)
                     else Some (cloud_finish env st s2))))"

lemmas cloud_defs [go_defs] = on_cloud_def strategies_map_def data_of_def put_data_def cloud_config_def Cloud_NewReconciler_def listed_def
  removeSnapshots_def overrideStrategyConfig_def createDeletionStrategy_def delete_kind_def cleanupResources_def remove_unless_hive_def
  ParseInt0_def maintenance_def reconcileCloudResourceStrategies_def setPlatformStrategyName_def checkStsCredentialsPresent_def
  put_updates_def addServiceUpdates_def set_blocks_def cidr_parameter_def patch_network_def reconcileCIDRValue_def cloud_subscription_def

section \<open>Properties\<close>

lemma ParseInt0_samples:
  "ParseInt0 ''4'' = Some 4" "ParseInt0 ''-0x1_F'' = Some (- 31)" "ParseInt0 ''010'' = Some 8" "ParseInt0 ''1__0'' = None"
  "ParseInt0 ''0b102'' = None" "ParseInt0 ''9223372036854775808'' = None"
  by (simp_all add: ParseInt0_def ParseUint0_def has_prefix0_def underscoreOK_def digit_value_def lower_char_def Let_def)

subsection \<open>Removal\<close>

lemma listed_Inr [simp]: "listed msg ls w = Inr xs \<longleftrightarrow> ls w = Inr xs"
  by (cases "ls w") (simp_all add: listed_def)

lemma delete_kind_none: "delete_kind env kind what ns w = (Inr 0, w') \<longleftrightarrow> cl_ListResources env kind ns w = Inr [] \<and> w' = w"
  by (cases "cl_ListResources env kind ns w") (auto simp: delete_kind_def listed_def split: prod.splits option.splits)

lemma delete_kind_zero: "delete_kind env kind what ns w = (Inr n, w') \<Longrightarrow> \<not> 0 < n \<Longrightarrow> cl_ListResources env kind ns w = Inr [] \<and> w' = w"
  using delete_kind_none [of env kind what ns w w'] by simp

lemma cloud_cleanup_completed:
  assumes "cleanupResources env inst w = ((PhaseCompleted, None), w')" and "cl_GetCRD env ''postgres.integreatly.org'' w = None"
  shows "w' = w \<and> cl_ListResources env ''postgres'' (Namespace inst) w = Inr [] \<and> cl_ListResources env ''redis'' (Namespace inst) w = Inr [] \<and>
     cl_ListResources env ''blobstorage'' (Namespace inst) w = Inr []"
proof -
  obtain n1 n2 n3 w1 w2 where p: "delete_kind env ''postgres'' ''postgres'' (Namespace inst) w = (Inr n1, w1)" "\<not> 0 < n1"
    and r: "delete_kind env ''redis'' ''redis'' (Namespace inst) w1 = (Inr n2, w2)" "\<not> 0 < n2"
    and b: "delete_kind env ''blobstorage'' ''blobStorage'' (Namespace inst) w2 = (Inr n3, w')" "\<not> 0 < n3"
    using assms by (auto simp: cleanupResources_def Exists_def split: prod.splits sum.splits if_splits)
  from delete_kind_zero [OF p] delete_kind_zero [OF r] delete_kind_zero [OF b] show ?thesis by simp
qed

lemma EnsureObjectDeleted_completed:
  "EnsureObjectDeleted api obj w = ((PhaseCompleted, None), w') \<Longrightarrow> \<exists>e. k_Delete api obj w = (Some e, w') \<and> IsNotFound (Some e)"
  by (auto simp: EnsureObjectDeleted_def split: prod.splits option.splits if_splits)

lemma Cloud_Reconcile_uninstalled:
  assumes "Cloud_Reconcile env decl st True s = Some ((PhaseCompleted, None), st', s')"
    and "product_finalizer ProductCloudResources \<in> set (Finalizers (cs_inst s))"
  shows "cloud_final env (cs_config s) (cs_inst s) (CloudResources_GetOperatorNamespace (cs_config s)) (cs_world s) = ((PhaseCompleted, None), cs_world s') \<and>
     Remove (Finalizers (cs_inst s)) (product_finalizer ProductCloudResources) = Some (Finalizers (cs_inst s'))"
  using assms
  by (auto simp: Cloud_Reconcile_def ReconcileFinalizer_def Contains_iff Let_def split: prod.splits option.splits if_splits)


text \<open>As long as a resource is left, or a list of them fails, the removal goes no further than requesting its deletion.\<close>

lemma cloud_removal_waits:
  assumes "removeSnapshots env inst w = ((PhaseCompleted, None), w1)" and "createDeletionStrategy env c inst w1 = ((PhaseCompleted, None), w2)"
    and "cleanupResources env inst w2 = (res, w3)" and "res \<noteq> (PhaseCompleted, None)"
  shows "run_must (cloud_removal env c inst ns) w = (res, w3)"
  using assms by (cases res) (auto simp: cloud_removal_def)

subsection \<open>Deletion strategies\<close>

lemma reads_by_key_get:
  assumes "reads_by_key api" and "k_Get api obj w = (e, x, u)"
  shows "u = w" and "e \<noteq> None \<Longrightarrow> x = obj" and "k_Key api obj = k_Key api x"
proof -
  have r: "u = w \<and> (if e = None then k_Key api x = k_Key api obj \<and> (\<forall>q. k_Key api q = k_Key api obj \<longrightarrow> k_Get api q w = (None, x, w)) else x = obj)"
    using assms unfolding reads_by_key_def by blast
  then show "u = w" and "e \<noteq> None \<Longrightarrow> x = obj" and "k_Key api obj = k_Key api x" by (simp_all split: if_splits)
qed

text \<open>The text an override writes for one resource.\<close>

definition override_text :: "'w cloud_env \<Rightarrow> delete_strategy \<Rightarrow> string \<Rightarrow> string option" where
  "override_text env strat text =
     (case cl_decode env text of
        Inl e \<Rightarrow> None
      | Inr tiers \<Rightarrow>
          if list_ex (\<lambda>(tier, c). c = None) (case tiers of None \<Rightarrow> [] | Some l \<Rightarrow> l) then None
          else (case cl_encode env (map_option (map (map_prod id (map_option (sg_DeleteStrategy_update (\<lambda>_. cl_deleteJSON env strat))))) tiers) of
                  Inl e \<Rightarrow> None
                | Inr t \<Rightarrow> Some t))"

lemma override_one:
  "overrideStrategyConfig env r strat cm w = (None, cm', w') \<longleftrightarrow>
     (\<exists>t d. override_text env strat (data_of cm r) = Some t \<and> cm_Data cm = Some d \<and> cm' = cm\<lparr>cm_Data := Some (gset r t d)\<rparr> \<and> w' = w)"
  by (auto simp: overrideStrategyConfig_def override_text_def put_data_def split: sum.splits option.splits if_splits)

lemma data_of_put [simp]: "cm_Data cm = Some d \<Longrightarrow> data_of (cm\<lparr>cm_Data := Some (gset r t d)\<rparr>) k = (if k = r then t else data_of cm k)"
  by (simp add: data_of_def)

lemma override_all_entries:
  assumes "override_all env xs cm w = (None, cm', w')" and "distinct (map fst xs)"
  shows "(\<forall>(r, s) \<in> set xs. override_text env s (data_of cm r) = Some (data_of cm' r)) \<and> (\<forall>k. k \<notin> fst ` set xs \<longrightarrow> data_of cm' k = data_of cm k) \<and>
     w' = w \<and> cm_Name cm' = cm_Name cm \<and> cm_Namespace cm' = cm_Namespace cm"
  using assms
proof (induction xs arbitrary: cm w)
  case Nil
  then show ?case by simp
next
  case (Cons x xs)
  obtain r s where x: "x = (r, s)" by (cases x)
  with Cons.prems(1) obtain cm1 w1 where one: "overrideStrategyConfig env r s cm w = (None, cm1, w1)" and rest: "override_all env xs cm1 w1 = (None, cm', w')"
    by (auto split: prod.splits option.splits)
  from one obtain t d where t: "override_text env s (data_of cm r) = Some t" "cm_Data cm = Some d" "cm1 = cm\<lparr>cm_Data := Some (gset r t d)\<rparr>" "w1 = w"
    unfolding override_one by blast
  from Cons.prems(2) x have new: "r \<notin> fst ` set xs" and "distinct (map fst xs)" by auto
  note IH = Cons.IH [OF rest this(2)]
  have other: "data_of cm1 k = data_of cm k" if "k \<noteq> r" for k using that t by simp
  have "override_text env s (data_of cm r) = Some (data_of cm' r)" using IH new t by simp
  moreover have "override_text env s' (data_of cm r') = Some (data_of cm' r')" if "(r', s') \<in> set xs" for r' s'
  proof -
    from that new have "r' \<noteq> r" by force
    from other [OF this] IH that show ?thesis by fastforce
  qed
  moreover have "data_of cm' k = data_of cm k" if "k \<notin> fst ` set (x # xs)" for k
    using IH other [of k] that x by simp
  ultimately show ?case using IH t x by auto
qed

text \<open>
  Whatever the order in which the runtime visits the strategies, an override that succeeds gives each of their resources the tiers
  it had with the new way of deletion in all of them, and leaves the entries of the other resources alone.
\<close>

theorem deletion_strategies_any_order:
  assumes "mset (cl_order env (resourcesConfig inst)) = mset (resourcesConfig inst)"
    and "override_all env (cl_order env (resourcesConfig inst)) cm w = (None, cm', w')"
  shows "data_of cm' k = (case map_of (resourcesConfig inst) k of None \<Rightarrow> data_of cm k | Some s \<Rightarrow> the (override_text env s (data_of cm k)))"
proof -
  let ?xs = "cl_order env (resourcesConfig inst)"
  have dist: "distinct (map fst (resourcesConfig inst))" by (simp add: resourcesConfig_def)
  have set: "set ?xs = set (resourcesConfig inst)" using mset_eq_setD [OF assms(1)] .
  have "distinct (map fst ?xs)" using assms(1) dist by (metis mset_eq_imp_distinct_iff mset_map)
  note e = override_all_entries [OF assms(2) this, unfolded set]
  show ?thesis
  proof (cases "map_of (resourcesConfig inst) k")
    case None
    then have "k \<notin> fst ` set (resourcesConfig inst)" by (simp add: map_of_eq_None_iff)
    with e None show ?thesis by simp
  next
    case (Some s)
    then have "(k, s) \<in> set (resourcesConfig inst)" by (rule map_of_SomeD)
    with e have "override_text env s (data_of cm k) = Some (data_of cm' k)" by blast
    with Some show ?thesis by simp
  qed
qed

subsection \<open>The address range is set once\<close>

definition network_of :: "'w cloud_env \<Rightarrow> ConfigMap \<Rightarrow> string" where
  "network_of env cm =
     (case Option.bind (cm_Data cm) (\<lambda>d. map_of d ''_network'') of
        None \<Rightarrow> ''''
      | Some text \<Rightarrow> (case cl_decodeNetwork env text of Inl e \<Rightarrow> '''' | Inr n \<Rightarrow> production_cidr n))"

definition patch_server :: "(ConfigMap, 'w) kind_api \<Rightarrow> bool" where
  "patch_server api \<longleftrightarrow> reads_by_key api \<and> write_read api (k_Patch api) \<and> (\<forall>cm. k_Key api cm = (cm_Namespace cm, cm_Name cm))"

lemma map_of_map_values: "map_of (map (map_prod id (\<lambda>_. v)) l) k = (if k \<in> fst ` set l then Some v else None)"
  by (induction l) auto

lemma production_set_blocks:
  assumes "set_blocks cidr n = Some l"
  shows "production_cidr (Some l) = cidr"
proof -
  let ?l = "case n of None \<Rightarrow> [] | Some l \<Rightarrow> l"
  have "TierProduction \<in> fst ` set (network_tiers n)"
  proof (cases "Option.bind (map_of ?l TierProduction) id = None")
    case True
    have "map_of (gset TierProduction (Some '''') ?l) TierProduction \<noteq> None" by (simp add: map_of_gset)
    then have "TierProduction \<in> fst ` set (gset TierProduction (Some '''') ?l)" unfolding map_of_eq_None_iff by simp
    then show ?thesis unfolding network_tiers_def Let_def if_P [OF True] .
  next
    case False
    then have "map_of ?l TierProduction \<noteq> None" by (cases "map_of ?l TierProduction") simp_all
    then have "TierProduction \<in> fst ` set ?l" unfolding map_of_eq_None_iff by simp
    then show ?thesis unfolding network_tiers_def Let_def if_not_P [OF False] .
  qed
  moreover have "l = map (map_prod id (\<lambda>_. Some cidr)) (network_tiers n)" using assms by (simp add: set_blocks_def split: if_splits)
  ultimately show ?thesis by (simp add: production_cidr_def map_of_map_values)
qed

lemma patch_network_stored:
  assumes srv: "patch_server (cl_configMaps env)" and codec: "\<And>n text. cl_encodeNetwork env n = Inr text \<Longrightarrow> cl_decodeNetwork env text = Inr n"
    and run: "patch_network env cidr n cm w = (None, w')" and key: "k_Key (cl_configMaps env) q = k_Key (cl_configMaps env) cm"
  shows "\<exists>cm'. k_Get (cl_configMaps env) q w' = (None, cm', w') \<and> network_of env cm' = cidr \<and> (\<forall>k. k \<noteq> ''_network'' \<longrightarrow> data_of cm' k = data_of cm k)"
proof -
  obtain l tx d cm2 where l: "set_blocks cidr n = Some l" and enc: "cl_encodeNetwork env (Some l) = Inr tx" and d: "cm_Data cm = Some d"
    and p: "k_Patch (cl_configMaps env) (cm\<lparr>cm_Data := Some (gset ''_network'' tx d)\<rparr>) w = (None, cm2, w')"
    using run by (auto simp: patch_network_def put_data_def split: option.splits prod.splits sum.splits)
  let ?cm = "cm\<lparr>cm_Data := Some (gset ''_network'' tx d)\<rparr>"
  have "k_Key (cl_configMaps env) q = k_Key (cl_configMaps env) ?cm" using key srv by (simp add: patch_server_def)
  then have "k_Get (cl_configMaps env) q w' = (None, ?cm, w')" using srv p unfolding patch_server_def write_read_def by blast
  moreover have "network_of env ?cm = cidr" by (simp add: network_of_def map_of_gset codec [OF enc] production_set_blocks [OF l])
  ultimately show ?thesis using d by auto
qed

text \<open>
  The address range of the network is set once: a reconcile that succeeds changes nothing when the production tier has a block,
  and otherwise gives it the parameter of the add-on, be it empty; the strategies of the other resources stay as they are.
\<close>

theorem network_cidr_kept:
  assumes srv: "patch_server (cl_configMaps env)" and codec: "\<And>n text. cl_encodeNetwork env n = Inr text \<Longrightarrow> cl_decodeNetwork env text = Inr n"
    and run: "reconcileCIDRValue env inst c w = (None, w')"
    and get: "k_Get (cl_configMaps env) (strategies_map (CloudResources_GetStrategiesConfigMapName c) inst) w = (None, cm, w1)"
  shows "if network_of env cm \<noteq> '''' then w' = w
     else \<exists>cidr cm'. cidr_parameter env inst w = Inr cidr \<and>
        k_Get (cl_configMaps env) (strategies_map (CloudResources_GetStrategiesConfigMapName c) inst) w' = (None, cm', w') \<and>
        network_of env cm' = cidr \<and> (\<forall>k. k \<noteq> ''_network'' \<longrightarrow> data_of cm' k = data_of cm k)"
proof -
  let ?q = "strategies_map (CloudResources_GetStrategiesConfigMapName c) inst"
  from reads_by_key_get [OF _ get] srv have w1: "w1 = w" and key: "k_Key (cl_configMaps env) ?q = k_Key (cl_configMaps env) cm"
    unfolding patch_server_def by simp_all
  obtain cidr where cidr: "cidr_parameter env inst w = Inr cidr" using run by (auto simp: reconcileCIDRValue_def split: sum.splits)
  show ?thesis
  proof (cases "network_of env cm \<noteq> ''''")
    case True
    then have "w' = w" using run get w1 cidr by (auto simp: reconcileCIDRValue_def network_of_def split: option.splits sum.splits)
    with True show ?thesis by simp
  next
    case False
    then obtain n where "patch_network env cidr n cm w = (None, w')"
      using run get w1 cidr by (auto simp: reconcileCIDRValue_def network_of_def split: option.splits sum.splits if_splits)
    from patch_network_stored [OF srv codec this key] cidr False show ?thesis by simp
  qed
qed

subsection \<open>A completed installation\<close>

definition has_updates :: "'w cloud_env \<Rightarrow> string \<Rightarrow> string list \<Rightarrow> ConfigMap \<Rightarrow> bool" where
  "has_updates env resourceType updates cm \<longleftrightarrow>
     (\<exists>l c. cl_decode env (data_of cm resourceType) = Inr (Some l) \<and> map_of l TierProduction = Some (Some c) \<and>
        sg_ServiceUpdates c = cl_encodeUpdates env updates)"

lemma put_updates_ok:
  assumes "put_updates env rt us cm w = (None, cm', w')" and codec: "\<And>t text. cl_encode env t = Inr text \<Longrightarrow> cl_decode env text = Inr t"
  shows "has_updates env rt us cm' \<and> (\<exists>d. cm_Data cm = Some d)"
proof -
  obtain l c tx d where dec: "cl_decode env (data_of cm rt) = Inr (Some l)" "map_of l TierProduction = Some (Some c)"
    and enc: "cl_encode env (Some (gset TierProduction (Some (c\<lparr>sg_ServiceUpdates := cl_encodeUpdates env us\<rparr>)) l)) = Inr tx"
    and d: "cm_Data cm = Some d" and cm': "cm' = cm\<lparr>cm_Data := Some (gset rt tx d)\<rparr>"
    using assms(1) by (auto simp: put_updates_def put_data_def bind_eq_Some_conv split: sum.splits option.splits)
  have "cl_decode env (data_of cm' rt) = Inr (Some (gset TierProduction (Some (c\<lparr>sg_ServiceUpdates := cl_encodeUpdates env us\<rparr>)) l))"
    using codec [OF enc] d cm' by simp
  then show ?thesis using d by (auto simp: has_updates_def map_of_gset)
qed

lemma addServiceUpdates_completed:
  assumes run: "addServiceUpdates env inst rt us c w = ((PhaseCompleted, None), w')"
    and name: "CloudResources_GetStrategiesConfigMapName c = cro_strategies"
    and srv: "reads_by_key (cl_configMaps env)" and codec: "\<And>t text. cl_encode env t = Inr text \<Longrightarrow> cl_decode env text = Inr t"
  shows "w' = w \<and> (\<exists>cm. k_Get (cl_configMaps env) (strategies_map cro_strategies inst) w = (None, cm, w) \<and> has_updates env rt us cm)"
proof -
  let ?q = "strategies_map cro_strategies inst"
  obtain r cm' where cou: "CreateOrUpdate (cl_configMaps env) (=) (put_updates env rt us) ?q w = ((r, None), cm', w')" and r: "r \<noteq> OperationResultUpdated"
    using run name by (auto simp: addServiceUpdates_def split: prod.splits option.splits if_splits)
  obtain e cm u where get: "k_Get (cl_configMaps env) ?q w = (e, cm, u)" by (metis surj_pair)
  from reads_by_key_get [OF srv get] have u: "u = w" and absent: "e \<noteq> None \<Longrightarrow> cm = ?q" by simp_all
  obtain e2 cm2 u2 where put: "put_updates env rt us cm u = (e2, cm2, u2)" by (metis surj_pair)
  have e2: "e2 = None" using cou get put by (auto simp: CreateOrUpdate_def mutate_def Let_def split: option.splits if_splits prod.splits)
  from put_updates_ok [OF put [unfolded e2] codec] have ok: "has_updates env rt us cm2" "\<exists>d. cm_Data cm = Some d" by simp_all
  have e: "e = None" using absent ok(2) by (cases e) (auto simp: strategies_map_def)
  have u2: "u2 = u" using put e2 by (auto simp: put_updates_def put_data_def split: sum.splits option.splits)
  have "cm = cm2 \<and> w' = u2" using cou get put e e2 r by (auto simp: CreateOrUpdate_def mutate_def Let_def split: option.splits if_splits prod.splits)
  with ok(1) get e u u2 show ?thesis by simp
qed

lemma with_config_completed:
  "with_config f s = ((PhaseCompleted, None), s') \<longleftrightarrow> (\<exists>w'. f (cs_config s) (cs_world s) = ((PhaseCompleted, None), w') \<and> s' = s\<lparr>cs_world := w'\<rparr>)"
  by (auto simp: with_config_def on_cloud_def split: prod.splits)

lemma on_cloud_completed:
  "on_cloud f s = ((PhaseCompleted, None), s') \<longleftrightarrow> (\<exists>w'. f (cs_world s) = ((PhaseCompleted, None), w') \<and> s' = s\<lparr>cs_world := w'\<rparr>)"
  by (auto simp: on_cloud_def split: prod.splits)

lemma setPlatformStrategyName_completed:
  assumes "setPlatformStrategyName env s = ((PhaseCompleted, None), s')" and "CloudResources_GetStrategiesConfigMapName (cs_config s) \<in> {'''', cro_strategies}"
  shows "CloudResources_GetStrategiesConfigMapName (cs_config s') = cro_strategies"
  using assms
  by (auto simp: setPlatformStrategyName_def CloudResources_GetStrategiesConfigMapName_def CloudResources_SetStrategiesConfigMapName_def
      split: sum.splits if_splits)

text \<open>
  An installation of the cloud resource operator that completes found the service updates in place: the strategies on the server
  have, for Redis and for Postgres, the updates the operator ships in their production tier.
\<close>

theorem cloud_updates_in_place:
  assumes run: "Cloud_Reconcile env decl st False s = Some ((PhaseCompleted, None), st', s')"
    and name: "CloudResources_GetStrategiesConfigMapName (cs_config s) \<in> {'''', cro_strategies}"
    and srv: "reads_by_key (cl_configMaps env)" and codec: "\<And>t text. cl_encode env t = Inr text \<Longrightarrow> cl_decode env text = Inr t"
  shows "\<exists>w i cm. k_Get (cl_configMaps env) (strategies_map cro_strategies i) w = (None, cm, w) \<and>
     has_updates env ''redis'' redisServiceUpdatesToInstall cm \<and> has_updates env ''postgres'' postgresServiceUpdateTimestamp cm \<and>
     p_OperatorVersion st' = OperatorVersionCloudResources"
proof -
  let ?ns = "CloudResources_GetOperatorNamespace (cs_config s)"
  obtain i v s2 where steps: "run_must (cloud_steps env i decl ?ns) (s\<lparr>cs_inst := i, cs_world := v\<rparr>) = ((PhaseCompleted, None), s2)"
    and fin: "cloud_finish env st s2 = ((PhaseCompleted, None), st', s')"
    using run unfolding Cloud_Reconcile_def Let_def by (auto split: prod.splits option.splits if_splits)
  have ver: "p_OperatorVersion st' = OperatorVersionCloudResources"
    using fin by (auto simp: cloud_finish_def CloudResources_GetOperatorVersion_def Let_def split: prod.splits option.splits)
  obtain s3 where set: "setPlatformStrategyName env (s\<lparr>cs_inst := i, cs_world := v\<rparr>) = ((PhaseCompleted, None), s3)"
    and rest: "run_must (tl (cloud_steps env i decl ?ns)) s3 = ((PhaseCompleted, None), s2)"
    using steps unfolding cloud_steps_def list.sel run_must_completed_iff by auto
  from setPlatformStrategyName_completed [OF set] name have cro: "CloudResources_GetStrategiesConfigMapName (cs_config s3) = cro_strategies" by simp
  obtain w w1 w2 where red: "addServiceUpdates env i ''redis'' redisServiceUpdatesToInstall (cs_config s3) w = ((PhaseCompleted, None), w1)"
    and pg: "addServiceUpdates env i ''postgres'' postgresServiceUpdateTimestamp (cs_config s3) w1 = ((PhaseCompleted, None), w2)"
    using rest unfolding cloud_steps_def list.sel run_must_completed_iff on_cloud_completed with_config_completed by auto
  from addServiceUpdates_completed [OF red cro srv codec] addServiceUpdates_completed [OF pg cro srv codec] ver
  show ?thesis by (metis prod.inject)
qed

section \<open>Witnesses\<close>

lemma run_must_stays:
  assumes "\<And>f. f \<in> set fs \<Longrightarrow> f s = ((PhaseCompleted, None), s)"
  shows "run_must fs s = ((PhaseCompleted, None), s)"
  using assms
proof (induction fs)
  case (Cons f fs)
  from Cons.prems [of f] have "f s = ((PhaseCompleted, None), s)" by simp
  moreover have "run_must fs s = ((PhaseCompleted, None), s)" by (rule Cons.IH) (simp add: Cons.prems)
  ultimately show ?case by simp
qed simp

text \<open>A cluster where all is in place, its strategies named by one letter each.\<close>

definition sample_tiers :: "string list \<Rightarrow> strategies" where
  "sample_tiers us = Some [(TierProduction, Some \<lparr>sg_Region = '''', sg_CreateStrategy = '''', sg_DeleteStrategy = '''', sg_ServiceUpdates = concat us\<rparr>)]"

definition sample_network :: "string \<Rightarrow> networks" where
  "sample_network block = Some [(TierProduction, Some block)]"

definition encode_tiers :: "strategies \<Rightarrow> err + string" where
  "encode_tiers t = (if t = sample_tiers redisServiceUpdatesToInstall then Inr ''R'' else if t = sample_tiers postgresServiceUpdateTimestamp then Inr ''P''
     else Inl (Msg ''json''))"

definition decode_tiers :: "string \<Rightarrow> err + strategies" where
  "decode_tiers s = (if s = ''R'' then Inr (sample_tiers redisServiceUpdatesToInstall) else if s = ''P'' then Inr (sample_tiers postgresServiceUpdateTimestamp)
     else Inl (Msg ''json''))"

definition sample_cloud :: "ConfigMap option cloud_env" where
  "sample_cloud = \<lparr>cl_preflight = preflight_env_with (boot_env_with empty_api [(''cidr-range'', ''10.1.0.0/16'')]), cl_base = ready_base, cl_backup = sample_backup_env (\<lambda>w. True),
     cl_drift = (\<lambda>w. w), cl_polls = 1, cl_write = (\<lambda>n c m w. (None, m, w)), cl_update = (\<lambda>i w. (None, i, w)), cl_getns = (\<lambda>n w. (Inr True, w)),
     cl_delns = (\<lambda>n w. (None, w)), cl_GetCRD = (\<lambda>n w. None), cl_ListSnapshots = (\<lambda>k ns w. Inr []), cl_DeleteSnapshot = (\<lambda>k n w. (None, w)),
     cl_ListResources = (\<lambda>k ns w. Inr []), cl_DeleteResource = (\<lambda>k n w. (None, w)), cl_configMaps = sample_api (\<lambda>c. (cm_Namespace c, cm_Name c)),
     cl_limitRanges = found_api id, cl_quantity = (\<lambda>s. 0), cl_alerts = \<lparr>al_obo = found_api id, al_upstream = found_api id\<rparr>,
     cl_decode = decode_tiers, cl_encode = encode_tiers, cl_decodeUpdates = (\<lambda>s. Inr []), cl_encodeUpdates = concat,
     cl_decodeNetwork = (\<lambda>s. if s = ''N'' then Inr (sample_network ''10.1.0.0/16'') else Inr (Some [])),
     cl_encodeNetwork = (\<lambda>n. if n = sample_network ''10.1.0.0/16'' then Inr ''N'' else Inl (Msg ''json'')), cl_deleteJSON = (\<lambda>s. ''''),
     cl_order = rev, cl_ReconcileStrategyMaps = (\<lambda>d h t ns w. (None, w)), cl_uid = ''uid''\<rparr>"

definition sample_map :: "string \<Rightarrow> ConfigMap" where
  "sample_map network = (strategies_map cro_strategies zero_rhmi)\<lparr>cm_Data := Some [(''redis'', ''R''), (''postgres'', ''P''), (''_network'', network)]\<rparr>"

definition sample_cloud_config :: CloudResources where
  "sample_cloud_config = NewCloudResources [(''OPERATOR_NAMESPACE'', ''cro''), (''STRATEGIES_CONFIG_MAP_NAME'', cro_strategies)]"

definition sample_cloud_state :: "string list \<Rightarrow> ConfigMap option cloud_state" where
  "sample_cloud_state fs = \<lparr>cs_config = sample_cloud_config, cs_manager = \<lparr>m_Namespace = ''op'', cfgmap = \<lparr>cm_Name = '''', cm_Namespace = '''', cm_Data = None\<rparr>\<rparr>,
     cs_inst = zero_rhmi\<lparr>Finalizers := fs\<rparr>, cs_world = Some (sample_map ''N'')\<rparr>"

lemmas sample_config_simps = sample_cloud_config_def NewCloudResources_def CloudResources_GetStrategiesConfigMapName_def CloudResources_GetOperatorNamespace_def

lemma sample_codec: "cl_encode sample_cloud t = Inr text \<Longrightarrow> cl_decode sample_cloud text = Inr t"
  by (auto simp: sample_cloud_def encode_tiers_def decode_tiers_def split: if_splits)

lemma sample_cloud_server: "patch_server (cl_configMaps sample_cloud)"
  using stores_sample_api [of "\<lambda>c. (cm_Namespace c, cm_Name c)"]
  by (auto simp: patch_server_def stores_def write_read_def sample_cloud_def sample_api_def)

theorem network_cidr_kept_witness:
  "\<exists>w' cm'. reconcileCIDRValue sample_cloud zero_rhmi sample_cloud_config (Some (sample_map ''M'')) = (None, w') \<and>
     k_Get (cl_configMaps sample_cloud) (strategies_map cro_strategies zero_rhmi) w' = (None, cm', w') \<and> network_of sample_cloud cm' = ''10.1.0.0/16''"
proof -
  have name: "CloudResources_GetStrategiesConfigMapName sample_cloud_config = cro_strategies" by (simp add: sample_config_simps)
  have codec: "cl_encodeNetwork sample_cloud n = Inr tx \<Longrightarrow> cl_decodeNetwork sample_cloud tx = Inr n" for n tx
    by (auto simp: sample_cloud_def split: if_splits)
  have get: "k_Get (cl_configMaps sample_cloud) (strategies_map (CloudResources_GetStrategiesConfigMapName sample_cloud_config) zero_rhmi) (Some (sample_map ''M'')) =
      (None, sample_map ''M'', Some (sample_map ''M''))"
    unfolding name by (simp add: sample_cloud_def sample_api_def sample_map_def strategies_map_def)
  have par: "cidr_parameter sample_cloud zero_rhmi (Some (sample_map ''M'')) = Inr ''10.1.0.0/16''"
    by (simp add: cidr_parameter_def sample_cloud_def preflight_env_with_def boot_env_with_def GetPlatformType_def GetStringParameter_secret
        GetAddonParametersSecret_def sample_client_def)
  have old: "network_of sample_cloud (sample_map ''M'') = ''''" by (simp add: network_of_def sample_map_def sample_cloud_def production_cidr_def)
  have "fst (reconcileCIDRValue sample_cloud zero_rhmi sample_cloud_config (Some (sample_map ''M''))) = None"
    by (simp add: reconcileCIDRValue_def par get)
       (simp add: sample_map_def sample_cloud_def production_cidr_def patch_network_def set_blocks_def network_tiers_def sample_network_def put_data_def sample_api_def)
  then obtain w' where run: "reconcileCIDRValue sample_cloud zero_rhmi sample_cloud_config (Some (sample_map ''M'')) = (None, w')" by (metis prod.collapse)
  from network_cidr_kept [OF sample_cloud_server codec run get] old par run show ?thesis unfolding name by auto
qed

definition cloud_gone :: "ConfigMap option cloud_env" where
  "cloud_gone = sample_cloud\<lparr>cl_base := ready_base
     \<lparr>br_market := (br_market ready_base)\<lparr>mk_subs := (found_api id)\<lparr>k_Delete := (\<lambda>x w. (Some (ApiErr NotFound ''''), w))\<rparr>\<rparr>,
      br_csvs := (found_api id)\<lparr>k_Delete := (\<lambda>x w. (Some (ApiErr NotFound ''''), w))\<rparr>\<rparr>\<rparr>"


end
