(* ===== verification/ThreeScale_Client.thy ===== *)
theory ThreeScale_Client
  imports Prelude
begin

text \<open>
  The client of the 3scale portals (\<^verbatim>\<open>pkg/products/threescale/three_scale_client.go\<close>, \<^verbatim>\<open>types.go\<close>). Each call of the interface is a
  function on the client: the requests it sends, in their order, and what it makes of the answers. The transport
  (\<^verbatim>\<open>http.Client.Do\<close>) and the readers of JSON and XML bodies are fields of the client's record; a request whose URL does not
  parse is an error of the transport.
\<close>

section \<open>Data\<close>

record UserDetails =
  ud_Id :: int
  ud_State :: string
  ud_Role :: string
  ud_Username :: string
  ud_Email :: string

record AuthProviderDetails =
  ap_Id :: int
  ap_Kind :: string
  ap_AccountType :: string
  ap_Name :: string
  ap_SystemName :: string
  ap_ClientId :: string
  ap_ClientSecret :: string
  ap_Site :: string
  ap_AuthorizeURL :: string
  ap_SkipSSLCertificateVerification :: bool
  ap_AutomaticallyApproveAccounts :: bool
  ap_AccountId :: int
  ap_UsernameKey :: string
  ap_IdentifierKey :: string
  ap_TrustEmail :: bool
  ap_Published :: bool
  ap_CreatedAt :: string
  ap_UpdatedAt :: string
  ap_CallbackUrl :: string

definition zero_provider :: AuthProviderDetails where
  "zero_provider = \<lparr>ap_Id = 0, ap_Kind = '''', ap_AccountType = '''', ap_Name = '''', ap_SystemName = '''', ap_ClientId = '''', ap_ClientSecret = '''',
     ap_Site = '''', ap_AuthorizeURL = '''', ap_SkipSSLCertificateVerification = False, ap_AutomaticallyApproveAccounts = False, ap_AccountId = 0,
     ap_UsernameKey = '''', ap_IdentifierKey = '''', ap_TrustEmail = False, ap_Published = False, ap_CreatedAt = '''', ap_UpdatedAt = '''', ap_CallbackUrl = ''''\<rparr>"

record XMLUserDetails =
  xu_Id :: int
  xu_State :: string
  xu_Role :: string
  xu_Username :: string
  xu_Email :: string

record AccountDetail =
  ad_Id :: int
  ad_Name :: string
  ad_OrgName :: string
  ad_AdminBaseURL :: string
  ad_State :: string
  ad_Users :: "XMLUserDetails list"

record AccountAccessToken =
  aa_Id :: int
  aa_Name :: string
  aa_Value :: string

record SignUpAccount =
  sa_AccountDetail :: AccountDetail
  sa_AccountAccessToken :: AccountAccessToken

datatype ts_error = TsError string int | GoError err

fun tsIsNotFoundError :: "ts_error \<Rightarrow> bool" where
  "tsIsNotFoundError (TsError m code) \<longleftrightarrow> code = 404"
| "tsIsNotFoundError (GoError e) \<longleftrightarrow> False"

section \<open>Requests\<close>

datatype json = JString string | JInt int | JBool bool

type_synonym json_object = "(string, json) gomap"

record http_request =
  rq_Method :: string
  rq_URL :: string
  rq_Body :: "json_object option"

record http_response =
  hr_StatusCode :: int
  hr_Body :: "err + string"

text \<open>A body may fail to be read. \<open>tc_ProxyConfig\<close> reads into a value that is there: fields the text does not have keep theirs.\<close>

record 'w threeScaleClient =
  tc_Do :: "http_request \<Rightarrow> 'w \<Rightarrow> (err + http_response) \<times> 'w"
  tc_wildCardDomain :: string
  tc_Users :: "string \<Rightarrow> err + UserDetails list"
  tc_AuthProviders :: "string \<Rightarrow> err + AuthProviderDetails list"
  tc_Accounts :: "string \<Rightarrow> err + AccountDetail list"
  tc_SignUp :: "string \<Rightarrow> err + SignUpAccount"
  tc_Id :: "string \<Rightarrow> string \<Rightarrow> err + int"
  tc_ProxyConfig :: "string \<times> int \<Rightarrow> string \<Rightarrow> err + string \<times> int"
  tc_XPath :: "string \<Rightarrow> string \<Rightarrow> err + string option"

abbreviation admin_url :: "'w threeScaleClient \<Rightarrow> string" where "admin_url tsc \<equiv> ''https://3scale-admin.'' @ tc_wildCardDomain tsc @ ''/''"
abbreviation master_url :: "'w threeScaleClient \<Rightarrow> string" where "master_url tsc \<equiv> ''https://master.'' @ tc_wildCardDomain tsc @ ''/''"

type_synonym ('a, 'w) ts_call = "'w \<Rightarrow> (err + 'a) \<times> 'w"

definition http_Get :: "'w threeScaleClient \<Rightarrow> string \<Rightarrow> (http_response, 'w) ts_call" where
  "http_Get tsc url = tc_Do tsc \<lparr>rq_Method = ''GET'', rq_URL = url, rq_Body = None\<rparr>"

definition send_request :: "'w threeScaleClient \<Rightarrow> string \<Rightarrow> string \<Rightarrow> json_object \<Rightarrow> (http_response, 'w) ts_call" where
  "send_request tsc url method parameters = tc_Do tsc \<lparr>rq_Method = method, rq_URL = url, rq_Body = Some parameters\<rparr>"

definition makeRequest :: "'w threeScaleClient \<Rightarrow> string \<Rightarrow> string \<Rightarrow> json_object \<Rightarrow> (http_response, 'w) ts_call" where
  "makeRequest tsc method path = send_request tsc (admin_url tsc @ ''admin/api/'' @ path) method"

definition makeRequestToMaster :: "'w threeScaleClient \<Rightarrow> string \<Rightarrow> string \<Rightarrow> json_object \<Rightarrow> (http_response, 'w) ts_call" where
  "makeRequestToMaster tsc method path = send_request tsc (master_url tsc @ path) method"

definition withAccessToken :: "string \<Rightarrow> json_object \<Rightarrow> json_object" where
  "withAccessToken accessToken parameters = gset ''access_token'' (JString accessToken) parameters"

definition onlyAccessToken :: "string \<Rightarrow> json_object" where
  "onlyAccessToken accessToken = [(''access_token'', JString accessToken)]"

definition assertStatusCode :: "int \<Rightarrow> http_response \<Rightarrow> err option" where
  "assertStatusCode expected res =
     (if hr_StatusCode res = expected then None
      else Some (case hr_Body res of
                   Inl e \<Rightarrow> e
                 | Inr body \<Rightarrow> Msg (''unexpected status code: '' @ Itoa (hr_StatusCode res) @ ''. Body: '' @ body)))"

text \<open>\<^verbatim>\<open>jsonFromResponse\<close> and \<^verbatim>\<open>responseFromXML\<close>, with the reader for the target.\<close>

definition read_body :: "(string \<Rightarrow> err + 'a) \<Rightarrow> http_response \<Rightarrow> err + 'a" where
  "read_body decode res = (case hr_Body res of Inl e \<Rightarrow> Inl e | Inr body \<Rightarrow> decode body)"

definition xmlFromResponse :: "'w threeScaleClient \<Rightarrow> string \<Rightarrow> http_response \<Rightarrow> err + string" where
  "xmlFromResponse tsc xpath res =
     (case read_body (tc_XPath tsc xpath) res of
        Inl e \<Rightarrow> Inl e
      | Inr None \<Rightarrow> Inl (Msg ''query not found in doc'')
      | Inr (Some s) \<Rightarrow> Inr s)"

text \<open>What most calls do with the answer to their request: check its status, then read it.\<close>

definition with_status :: "int \<Rightarrow> (http_response \<Rightarrow> err + 'a) \<Rightarrow> (http_response, 'w) ts_call \<Rightarrow> ('a, 'w) ts_call" where
  "with_status code read call w =
     (case call w of
        (Inl e, w') \<Rightarrow> (Inl e, w')
      | (Inr res, w') \<Rightarrow> (case assertStatusCode code res of Some e \<Rightarrow> Inl e | None \<Rightarrow> read res, w'))"

definition only_status :: "int \<Rightarrow> (http_response, 'w) ts_call \<Rightarrow> 'w \<Rightarrow> err option \<times> 'w" where
  "only_status code call w =
     (case call w of
        (Inl e, w') \<Rightarrow> (Some e, w')
      | (Inr res, w') \<Rightarrow> (assertStatusCode code res, w'))"

section \<open>Authentication providers and users\<close>

definition AddAuthenticationProvider :: "'w threeScaleClient \<Rightarrow> (string, string) gomap \<Rightarrow> string \<Rightarrow> (http_response, 'w) ts_call" where
  "AddAuthenticationProvider tsc parameters accessToken =
     send_request tsc (admin_url tsc @ ''admin/api/account/authentication_providers.json'') ''POST''
       (withAccessToken accessToken (map (map_prod id JString) parameters))"

definition GetAuthenticationProviders :: "'w threeScaleClient \<Rightarrow> string \<Rightarrow> (AuthProviderDetails list, 'w) ts_call" where
  "GetAuthenticationProviders tsc accessToken w =
     (case http_Get tsc (admin_url tsc @ ''admin/api/account/authentication_providers.json?access_token='' @ accessToken) w of
        (Inl e, w') \<Rightarrow> (Inl e, w')
      | (Inr res, w') \<Rightarrow> (read_body (tc_AuthProviders tsc) res, w'))"

definition GetAuthenticationProviderByName :: "'w threeScaleClient \<Rightarrow> string \<Rightarrow> string \<Rightarrow> 'w \<Rightarrow> (ts_error + AuthProviderDetails) \<times> 'w" where
  "GetAuthenticationProviderByName tsc name accessToken w =
     (case GetAuthenticationProviders tsc accessToken w of
        (Inl e, w') \<Rightarrow> (Inl (GoError e), w')
      | (Inr ps, w') \<Rightarrow>
          (case List.find (\<lambda>p. ap_Name p = name) ps of
             Some p \<Rightarrow> Inr p
           | None \<Rightarrow> Inl (TsError ''Authprovider not found'' 404), w'))"

definition GetUsers :: "'w threeScaleClient \<Rightarrow> string \<Rightarrow> (UserDetails list, 'w) ts_call" where
  "GetUsers tsc accessToken w =
     (case http_Get tsc (admin_url tsc @ ''admin/api/users.json?access_token='' @ accessToken) w of
        (Inl e, w') \<Rightarrow> (Inl e, w')
      | (Inr res, w') \<Rightarrow> (read_body (tc_Users tsc) res, w'))"

definition GetUser :: "'w threeScaleClient \<Rightarrow> string \<Rightarrow> string \<Rightarrow> 'w \<Rightarrow> (ts_error + UserDetails) \<times> 'w" where
  "GetUser tsc username accessToken w =
     (case GetUsers tsc accessToken w of
        (Inl e, w') \<Rightarrow> (Inl (GoError e), w')
      | (Inr us, w') \<Rightarrow>
          (case List.find (\<lambda>u. ud_Username u = username) us of
             Some u \<Rightarrow> Inr u
           | None \<Rightarrow> Inl (TsError ''User not found'' 404), w'))"

definition SetFromEmailAddress :: "'w threeScaleClient \<Rightarrow> string \<Rightarrow> string \<Rightarrow> (http_response, 'w) ts_call" where
  "SetFromEmailAddress tsc emailAddress accessToken w =
     (case send_request tsc (admin_url tsc @ ''admin/api/provider.xml'') ''PUT''
             [(''access_token'', JString accessToken), (''from_email'', JString emailAddress)] w of
        (Inl e, w') \<Rightarrow> (Inl e, w')
      | (Inr res, w') \<Rightarrow>
          (if hr_StatusCode res \<noteq> 200 then Inl (Msg (''statusCode '' @ Itoa (hr_StatusCode res) @ '' calling SetFromEmailAddress''))
           else Inr res, w'))"

definition AddUser :: "'w threeScaleClient \<Rightarrow> string \<Rightarrow> string \<Rightarrow> string \<Rightarrow> string \<Rightarrow> (http_response, 'w) ts_call" where
  "AddUser tsc username email password accessToken =
     send_request tsc (admin_url tsc @ ''admin/api/users.json'') ''POST''
       [(''access_token'', JString accessToken), (''username'', JString username), (''email'', JString email), (''password'', JString password)]"

definition user_path :: "'w threeScaleClient \<Rightarrow> int \<Rightarrow> string \<Rightarrow> string" where
  "user_path tsc userID rest = admin_url tsc @ ''admin/api/users/'' @ Itoa userID @ rest"

definition DeleteUser :: "'w threeScaleClient \<Rightarrow> int \<Rightarrow> string \<Rightarrow> (http_response, 'w) ts_call" where
  "DeleteUser tsc userID accessToken = send_request tsc (user_path tsc userID ''.json'') ''DELETE'' [(''access_token'', JString accessToken)]"

definition SetUserAsAdmin :: "'w threeScaleClient \<Rightarrow> int \<Rightarrow> string \<Rightarrow> (http_response, 'w) ts_call" where
  "SetUserAsAdmin tsc userID accessToken = send_request tsc (user_path tsc userID ''/admin.json'') ''PUT'' [(''access_token'', JString accessToken)]"

definition SetUserAsMember :: "'w threeScaleClient \<Rightarrow> int \<Rightarrow> string \<Rightarrow> (http_response, 'w) ts_call" where
  "SetUserAsMember tsc userID accessToken = send_request tsc (user_path tsc userID ''/member.json'') ''PUT'' [(''access_token'', JString accessToken)]"

definition UpdateUser :: "'w threeScaleClient \<Rightarrow> int \<Rightarrow> string \<Rightarrow> string \<Rightarrow> string \<Rightarrow> (http_response, 'w) ts_call" where
  "UpdateUser tsc userID username email accessToken =
     send_request tsc (user_path tsc userID ''.json'') ''PUT''
       [(''access_token'', JString accessToken), (''username'', JString username), (''email'', JString email)]"

section \<open>Accounts, backends and services\<close>

definition CreateAccount :: "'w threeScaleClient \<Rightarrow> string \<Rightarrow> string \<Rightarrow> string \<Rightarrow> (string, 'w) ts_call" where
  "CreateAccount tsc accessToken orgName username =
     with_status 201 (xmlFromResponse tsc ''//account/id/text()'')
       (makeRequest tsc ''POST'' ''signup.xml'' (withAccessToken accessToken [(''org_name'', JString orgName), (''username'', JString username)]))"

definition CreateBackend :: "'w threeScaleClient \<Rightarrow> string \<Rightarrow> string \<Rightarrow> string \<Rightarrow> (int, 'w) ts_call" where
  "CreateBackend tsc accessToken name privateEndpoint =
     with_status 201 (read_body (tc_Id tsc ''backend_api''))
       (makeRequest tsc ''POST'' ''backend_apis.json'' (withAccessToken accessToken [(''name'', JString name), (''private_endpoint'', JString privateEndpoint)]))"

definition CreateMetric :: "'w threeScaleClient \<Rightarrow> string \<Rightarrow> int \<Rightarrow> string \<Rightarrow> string \<Rightarrow> (int, 'w) ts_call" where
  "CreateMetric tsc accessToken backendID friendlyName unit =
     with_status 201 (read_body (tc_Id tsc ''metric''))
       (makeRequest tsc ''POST'' (''backend_apis/'' @ Itoa backendID @ ''/metrics.json'')
          (withAccessToken accessToken [(''friendly_name'', JString friendlyName), (''unit'', JString unit)]))"

definition CreateBackendMappingRule ::
  "'w threeScaleClient \<Rightarrow> string \<Rightarrow> int \<Rightarrow> int \<Rightarrow> string \<Rightarrow> string \<Rightarrow> int \<Rightarrow> 'w \<Rightarrow> err option \<times> 'w" where
  "CreateBackendMappingRule tsc accessToken backendID metricID httpMethod pattern delta =
     only_status 201
       (makeRequest tsc ''POST'' (''backend_apis/'' @ Itoa backendID @ ''/mapping_rules.json'')
          (withAccessToken accessToken
             [(''http_method'', JString httpMethod), (''pattern'', JString pattern), (''delta'', JInt delta), (''metric_id'', JInt metricID)]))"

definition CreateService :: "'w threeScaleClient \<Rightarrow> string \<Rightarrow> string \<Rightarrow> string \<Rightarrow> (string, 'w) ts_call" where
  "CreateService tsc accessToken name systemName =
     with_status 201 (xmlFromResponse tsc ''//service/id/text()'')
       (makeRequest tsc ''POST'' ''services.xml'' (withAccessToken accessToken [(''name'', JString name), (''system_name'', JString name)]))"

definition CreateBackendUsage :: "'w threeScaleClient \<Rightarrow> string \<Rightarrow> string \<Rightarrow> int \<Rightarrow> string \<Rightarrow> 'w \<Rightarrow> err option \<times> 'w" where
  "CreateBackendUsage tsc accessToken serviceID backendID path =
     only_status 201
       (makeRequest tsc ''POST'' (''services/'' @ serviceID @ ''/backend_usages.json'')
          (withAccessToken accessToken [(''backend_api_id'', JInt backendID), (''path'', JString path)]))"

definition CreateApplicationPlan :: "'w threeScaleClient \<Rightarrow> string \<Rightarrow> string \<Rightarrow> string \<Rightarrow> (string, 'w) ts_call" where
  "CreateApplicationPlan tsc accessToken serviceID name =
     with_status 201 (xmlFromResponse tsc ''//plan/id/text()'')
       (makeRequest tsc ''POST'' (''services/'' @ serviceID @ ''/application_plans.xml'') (withAccessToken accessToken [(''name'', JString name)]))"

definition CreateApplication :: "'w threeScaleClient \<Rightarrow> string \<Rightarrow> string \<Rightarrow> string \<Rightarrow> string \<Rightarrow> string \<Rightarrow> (string, 'w) ts_call" where
  "CreateApplication tsc accessToken accountID planID name description =
     with_status 201 (xmlFromResponse tsc ''//application/user_key/text()'')
       (makeRequest tsc ''POST'' (''accounts/'' @ accountID @ ''/applications.xml'')
          (withAccessToken accessToken [(''plan_id'', JString planID), (''name'', JString name), (''description'', JString description)]))"

definition DeployProxy :: "'w threeScaleClient \<Rightarrow> string \<Rightarrow> string \<Rightarrow> 'w \<Rightarrow> err option \<times> 'w" where
  "DeployProxy tsc accessToken serviceID =
     only_status 201 (makeRequest tsc ''POST'' (''services/'' @ serviceID @ ''/proxy/deploy.xml'') (onlyAccessToken accessToken))"

definition PromoteProxy :: "'w threeScaleClient \<Rightarrow> string \<Rightarrow> string \<Rightarrow> string \<Rightarrow> string \<Rightarrow> (string, 'w) ts_call" where
  "PromoteProxy tsc accessToken serviceID env to w =
     (case with_status 200 (read_body (tc_ProxyConfig tsc ('''', 0)))
             (http_Get tsc (admin_url tsc @ ''admin/api/services/'' @ serviceID @ ''/proxy/configs/'' @ env @ ''/latest.json?access_token='' @ accessToken)) w of
        (Inl e, w1) \<Rightarrow> (Inl e, w1)
      | (Inr (endpoint, version), w1) \<Rightarrow>
          (case with_status 201 (read_body (tc_ProxyConfig tsc (endpoint, version)))
                  (makeRequest tsc ''POST'' (''services/'' @ serviceID @ ''/proxy/configs/'' @ env @ ''/'' @ Itoa version @ ''/promote.json'')
                     (withAccessToken accessToken [(''to'', JString to)])) w1 of
             (Inl e, w2) \<Rightarrow> (Inl e, w2)
           | (Inr (endpoint2, version2), w2) \<Rightarrow> (Inr endpoint2, w2)))"

definition DeleteService :: "'w threeScaleClient \<Rightarrow> string \<Rightarrow> string \<Rightarrow> 'w \<Rightarrow> err option \<times> 'w" where
  "DeleteService tsc accessToken serviceID =
     only_status 200 (makeRequest tsc ''DELETE'' (''services/'' @ serviceID @ ''.xml'') (onlyAccessToken accessToken))"

definition DeleteBackend :: "'w threeScaleClient \<Rightarrow> string \<Rightarrow> int \<Rightarrow> 'w \<Rightarrow> err option \<times> 'w" where
  "DeleteBackend tsc accessToken backendID =
     only_status 200 (makeRequest tsc ''DELETE'' (''backend_apis/'' @ Itoa backendID @ ''.json'') (onlyAccessToken accessToken))"

definition DeleteAccount :: "'w threeScaleClient \<Rightarrow> string \<Rightarrow> string \<Rightarrow> 'w \<Rightarrow> err option \<times> 'w" where
  "DeleteAccount tsc accessToken accountID =
     only_status 200 (makeRequest tsc ''DELETE'' (''accounts/'' @ accountID @ ''.xml'') (onlyAccessToken accessToken))"

section \<open>Tenants\<close>

definition ListTenantAccounts :: "'w threeScaleClient \<Rightarrow> string \<Rightarrow> int \<Rightarrow> (AccountDetail \<Rightarrow> bool) option \<Rightarrow> (AccountDetail list, 'w) ts_call" where
  "ListTenantAccounts tsc accessToken page filterFn =
     with_status 200 (\<lambda>res. map_sum id (filter (case filterFn of None \<Rightarrow> \<lambda>ac. True | Some f \<Rightarrow> f)) (read_body (tc_Accounts tsc) res))
       (makeRequestToMaster tsc ''GET'' ''admin/api/accounts.xml'' (withAccessToken accessToken [(''page'', JInt page)]))"

definition CreateTenant :: "'w threeScaleClient \<Rightarrow> string \<Rightarrow> AccountDetail \<Rightarrow> string \<Rightarrow> string \<Rightarrow> (SignUpAccount, 'w) ts_call" where
  "CreateTenant tsc accessToken account password email =
     with_status 201 (read_body (tc_SignUp tsc))
       (makeRequestToMaster tsc ''POST'' ''master/api/providers.xml''
          (withAccessToken accessToken
             [(''org_name'', JString (ad_OrgName account)), (''username'', JString (ad_Name account)), (''password'', JString password), (''email'', JString email)]))"

definition GetTenantAccount :: "'w threeScaleClient \<Rightarrow> string \<Rightarrow> int \<Rightarrow> (SignUpAccount, 'w) ts_call" where
  "GetTenantAccount tsc accessToken accountId =
     with_status 200 (read_body (tc_SignUp tsc))
       (makeRequestToMaster tsc ''GET'' (''master/api/providers/{'' @ Itoa accountId @ ''}.xml'') (onlyAccessToken accessToken))"

definition ActivateUser :: "'w threeScaleClient \<Rightarrow> string \<Rightarrow> int \<Rightarrow> int \<Rightarrow> 'w \<Rightarrow> err option \<times> 'w" where
  "ActivateUser tsc accessToken accountId userId =
     only_status 200
       (makeRequestToMaster tsc ''PUT'' (''admin/api/accounts/'' @ Itoa accountId @ ''/users/'' @ Itoa userId @ ''/activate.xml'') (onlyAccessToken accessToken))"

definition providers_url :: "AccountDetail \<Rightarrow> string" where
  "providers_url account = ad_AdminBaseURL account @ ''/admin/api/account/authentication_providers.json''"

definition AddAuthProviderToAccount :: "'w threeScaleClient \<Rightarrow> string \<Rightarrow> AccountDetail \<Rightarrow> AuthProviderDetails \<Rightarrow> 'w \<Rightarrow> err option \<times> 'w" where
  "AddAuthProviderToAccount tsc accessToken account p w =
     (case send_request tsc (providers_url account) ''POST''
             (withAccessToken accessToken
                [(''kind'', JString (ap_Kind p)), (''name'', JString (ap_Name p)), (''client_id'', JString (ap_ClientId p)),
                 (''client_secret'', JString (ap_ClientSecret p)), (''site'', JString (ap_Site p)),
                 (''skip_ssl_certificate_verification'', JBool (ap_SkipSSLCertificateVerification p)), (''published'', JBool (ap_Published p)),
                 (''system_name'', JString (ap_SystemName p))]) w of
        (Inl e, w') \<Rightarrow> (Some (Wrap (''error creating new authentication provider for '' @ ad_OrgName account @ '' tenant account: , '') e), w')
      | (Inr res, w') \<Rightarrow> (assertStatusCode 201 res, w'))"

definition IsAuthProviderAdded :: "'w threeScaleClient \<Rightarrow> string \<Rightarrow> string \<Rightarrow> AccountDetail \<Rightarrow> (bool, 'w) ts_call" where
  "IsAuthProviderAdded tsc accessToken authProviderName account =
     with_status 200 (\<lambda>res. map_sum id (list_ex (\<lambda>p. ap_Name p = authProviderName)) (read_body (tc_AuthProviders tsc) res))
       (send_request tsc (providers_url account) ''GET'' (onlyAccessToken accessToken))"

definition DeleteTenant :: "'w threeScaleClient \<Rightarrow> string \<Rightarrow> int \<Rightarrow> 'w \<Rightarrow> err option \<times> 'w" where
  "DeleteTenant tsc accessToken accountId =
     only_status 200 (makeRequestToMaster tsc ''DELETE'' (''master/api/providers/'' @ Itoa accountId @ ''.xml'') (onlyAccessToken accessToken))"

text \<open>The test on the result is the source's: the loop stops at the first tenant whose deletion succeeds.\<close>

fun DeleteTenants :: "'w threeScaleClient \<Rightarrow> string \<Rightarrow> AccountDetail list \<Rightarrow> 'w \<Rightarrow> err option \<times> 'w" where
  "DeleteTenants tsc accessToken [] w = (None, w)"
| "DeleteTenants tsc accessToken (account # accounts) w =
     (case DeleteTenant tsc accessToken (ad_Id account) w of
        (None, w') \<Rightarrow> (Some (Msg (''error deleting tenant: '' @ ad_Name account)), w')
      | (Some e, w') \<Rightarrow> DeleteTenants tsc accessToken accounts w')"

lemmas request_defs [go_defs] = http_Get_def send_request_def makeRequest_def makeRequestToMaster_def with_status_def only_status_def user_path_def providers_url_def

section \<open>Where the tokens go\<close>

text \<open>
  Two clients that differ in their transports only, and not on the URLs of \<open>P\<close>, behave the same in a call: the call asks the
  transport for nothing else.
\<close>

definition same_on :: "(string \<Rightarrow> bool) \<Rightarrow> 'w threeScaleClient \<Rightarrow> 'w threeScaleClient \<Rightarrow> bool" where
  "same_on P c c' \<longleftrightarrow> (\<exists>t. c' = c\<lparr>tc_Do := t\<rparr> \<and> (\<forall>rq w. P (rq_URL rq) \<longrightarrow> t rq w = tc_Do c rq w))"

definition sends_only :: "(string \<Rightarrow> bool) \<Rightarrow> 'w threeScaleClient \<Rightarrow> ('w threeScaleClient \<Rightarrow> 'a) \<Rightarrow> bool" where
  "sends_only P c call \<longleftrightarrow> (\<forall>c'. same_on P c c' \<longrightarrow> call c' = call c)"

definition own_portals :: "'w threeScaleClient \<Rightarrow> string \<Rightarrow> bool" where
  "own_portals c url \<longleftrightarrow> HasPrefix url (admin_url c) \<or> HasPrefix url (master_url c)"

lemma own_portals_urls:
  "own_portals c ((''https://3scale-admin.'' @ tc_wildCardDomain c @ ''/'') @ path)" "own_portals c ((''https://master.'' @ tc_wildCardDomain c @ ''/'') @ path)"
  unfolding own_portals_def by (intro disjI1 prefixI, rule refl) (intro disjI2 prefixI, rule refl)

lemma sends_onlyI: "(\<And>t. (\<And>rq w. P (rq_URL rq) \<Longrightarrow> t rq w = tc_Do c rq w) \<Longrightarrow> call (c\<lparr>tc_Do := t\<rparr>) = call c) \<Longrightarrow> sends_only P c call"
  by (auto simp: sends_only_def same_on_def)

lemma sends_only_request:
  assumes "\<And>t. url (c\<lparr>tc_Do := t\<rparr>) = url c" and "P (url c)"
  shows "sends_only P c (\<lambda>c. send_request c (url c) method parameters)" and "sends_only P c (\<lambda>c. http_Get c (url c))"
  using assms by (auto intro!: sends_onlyI simp: send_request_def http_Get_def)

lemma sends_only_status:
  assumes "sends_only P c call" and "\<And>t. read (c\<lparr>tc_Do := t\<rparr>) = read c"
  shows "sends_only P c (\<lambda>c. with_status code (read c) (call c))"
  using assms by (auto simp: sends_only_def same_on_def)

lemma sends_only_code: "sends_only P c call \<Longrightarrow> sends_only P c (\<lambda>c. only_status code (call c))"
  by (auto simp: sends_only_def)

lemma sends_only_own:
  "sends_only (own_portals c) c (\<lambda>c. send_request c (admin_url c @ path) method parameters)"
  "sends_only (own_portals c) c (\<lambda>c. send_request c (master_url c @ path) method parameters)"
  "sends_only (own_portals c) c (\<lambda>c. http_Get c (admin_url c @ path))"
  by (rule sends_only_request, simp, rule own_portals_urls)+

lemma sends_only_make:
  "sends_only (own_portals c) c (\<lambda>c. makeRequest c method path parameters)"
  "sends_only (own_portals c) c (\<lambda>c. makeRequestToMaster c method path parameters)"
  unfolding makeRequest_def makeRequestToMaster_def by (rule sends_only_own)+

lemma sends_only_loop:
  assumes "\<And>i. sends_only P c (\<lambda>c. DeleteTenant c tok i)"
  shows "sends_only P c (\<lambda>c. DeleteTenants c tok accounts)"
proof (rule sends_onlyI, rule ext)
  fix t w
  assume "\<And>rq w. P (rq_URL rq) \<Longrightarrow> t rq w = tc_Do c rq w"
  then have "same_on P c (c\<lparr>tc_Do := t\<rparr>)" by (auto simp: same_on_def)
  with assms have "DeleteTenant (c\<lparr>tc_Do := t\<rparr>) tok i = DeleteTenant c tok i" for i by (simp add: sends_only_def)
  then show "DeleteTenants (c\<lparr>tc_Do := t\<rparr>) tok accounts w = DeleteTenants c tok accounts w"
    by (induction accounts arbitrary: w) (simp_all split: prod.splits option.splits)
qed

lemma sends_only_Pair: "sends_only P c (\<lambda>c. (f c, g c)) \<longleftrightarrow> sends_only P c f \<and> sends_only P c g"
  by (auto simp: sends_only_def)

lemmas status_rules = sends_only_status [OF sends_only_make(1)] sends_only_status [OF sends_only_make(2)] sends_only_code [OF sends_only_make(1)]
  sends_only_code [OF sends_only_make(2)]

lemma sends_onlyD: "sends_only P c call \<Longrightarrow> same_on P c c' \<Longrightarrow> call c' = call c"
  by (simp add: sends_only_def)

lemma same_on_readers:
  assumes "same_on P c c'"
  shows "tc_Users c' = tc_Users c" "tc_AuthProviders c' = tc_AuthProviders c" "tc_ProxyConfig c' = tc_ProxyConfig c"
  using assms by (auto simp: same_on_def)

lemma sends_only_users:
  "sends_only (own_portals c) c (\<lambda>c. AddAuthenticationProvider c ps tok)" "sends_only (own_portals c) c (\<lambda>c. AddUser c n m pw tok)"
  "sends_only (own_portals c) c (\<lambda>c. DeleteUser c i tok)" "sends_only (own_portals c) c (\<lambda>c. SetUserAsAdmin c i tok)"
  "sends_only (own_portals c) c (\<lambda>c. SetUserAsMember c i tok)" "sends_only (own_portals c) c (\<lambda>c. UpdateUser c i n m tok)"
  unfolding AddAuthenticationProvider_def AddUser_def DeleteUser_def SetUserAsAdmin_def SetUserAsMember_def UpdateUser_def user_path_def
  by (rule sends_only_own)+

lemma same_requests:
  assumes "same_on (own_portals c) c c'"
  shows "http_Get c' (admin_url c' @ path) = http_Get c (admin_url c @ path)"
    and "send_request c' (admin_url c' @ path) method parameters = send_request c (admin_url c @ path) method parameters"
    and "makeRequest c' method path parameters = makeRequest c method path parameters"
  by (rule sends_onlyD [OF sends_only_own(3) assms], rule sends_onlyD [OF sends_only_own(1) assms], rule sends_onlyD [OF sends_only_make(1) assms])

lemma sends_only_reads:
  "sends_only (own_portals c) c (\<lambda>c. GetAuthenticationProviders c tok)" "sends_only (own_portals c) c (\<lambda>c. GetUsers c tok)"
  "sends_only (own_portals c) c (\<lambda>c. SetFromEmailAddress c m tok)"
  unfolding sends_only_def GetAuthenticationProviders_def [abs_def] GetUsers_def [abs_def] SetFromEmailAddress_def [abs_def]
  by (intro allI impI, simp only: same_requests same_on_readers)+

lemma sends_only_search:
  "sends_only (own_portals c) c (\<lambda>c. GetAuthenticationProviderByName c n tok)" "sends_only (own_portals c) c (\<lambda>c. GetUser c n tok)"
  using sends_only_reads(1,2) [of c tok] unfolding sends_only_def GetAuthenticationProviderByName_def [abs_def] GetUser_def [abs_def] by simp_all

lemma sends_only_services:
  "sends_only (own_portals c) c (\<lambda>c. CreateAccount c tok n m)" "sends_only (own_portals c) c (\<lambda>c. CreateBackend c tok n m)"
  "sends_only (own_portals c) c (\<lambda>c. CreateMetric c tok i n m)" "sends_only (own_portals c) c (\<lambda>c. CreateBackendMappingRule c tok i j n m k)"
  "sends_only (own_portals c) c (\<lambda>c. CreateService c tok n m)" "sends_only (own_portals c) c (\<lambda>c. CreateBackendUsage c tok s i n)"
  "sends_only (own_portals c) c (\<lambda>c. CreateApplicationPlan c tok s n)" "sends_only (own_portals c) c (\<lambda>c. CreateApplication c tok s n m d)"
  "sends_only (own_portals c) c (\<lambda>c. DeployProxy c tok s)" "sends_only (own_portals c) c (\<lambda>c. DeleteService c tok s)"
  "sends_only (own_portals c) c (\<lambda>c. DeleteBackend c tok i)" "sends_only (own_portals c) c (\<lambda>c. DeleteAccount c tok s)"
  unfolding CreateAccount_def CreateBackend_def CreateMetric_def CreateBackendMappingRule_def CreateService_def CreateBackendUsage_def CreateApplicationPlan_def
    CreateApplication_def DeployProxy_def DeleteService_def DeleteBackend_def DeleteAccount_def
  by (rule status_rules; simp add: fun_eq_iff xmlFromResponse_def)+

lemma sends_only_promote: "sends_only (own_portals c) c (\<lambda>c. PromoteProxy c tok s n m)"
  unfolding sends_only_def PromoteProxy_def [abs_def] by (intro allI impI) (simp only: same_requests same_on_readers)

lemma sends_only_tenants:
  "sends_only (own_portals c) c (\<lambda>c. ListTenantAccounts c tok i f)" "sends_only (own_portals c) c (\<lambda>c. CreateTenant c tok a pw m)"
  "sends_only (own_portals c) c (\<lambda>c. GetTenantAccount c tok i)" "sends_only (own_portals c) c (\<lambda>c. ActivateUser c tok i j)"
  "sends_only (own_portals c) c (\<lambda>c. DeleteTenant c tok i)"
  unfolding ListTenantAccounts_def CreateTenant_def GetTenantAccount_def ActivateUser_def DeleteTenant_def
  by (rule status_rules; simp add: fun_eq_iff)+

lemma sends_only_portal:
  "sends_only (\<lambda>url. HasPrefix url (ad_AdminBaseURL a @ ''/'')) c (\<lambda>c. AddAuthProviderToAccount c tok a p)"
  "sends_only (\<lambda>url. HasPrefix url (ad_AdminBaseURL a @ ''/'')) c (\<lambda>c. IsAuthProviderAdded c tok n a)"
proof -
  let ?P = "\<lambda>url. HasPrefix url (ad_AdminBaseURL a @ ''/'')"
  have own: "sends_only ?P c (\<lambda>c. send_request c (providers_url a) me da)" for me da
    by (rule sends_only_request) (simp_all add: providers_url_def)
  from own show "sends_only ?P c (\<lambda>c. AddAuthProviderToAccount c tok a p)"
    unfolding sends_only_def AddAuthProviderToAccount_def [abs_def] by simp
  show "sends_only ?P c (\<lambda>c. IsAuthProviderAdded c tok n a)"
    unfolding IsAuthProviderAdded_def by (rule sends_only_status [OF own]) simp
qed

text \<open>
  C37. The access tokens stay with the installation: every call of the client sends the one it carries to the admin portal or to the
  master portal of the cluster's own domain, and the calls that configure a tenant send the token of the tenant to its portal.
\<close>

theorem tokens_stay_home:
  "sends_only (own_portals c) c (\<lambda>c. (AddAuthenticationProvider c ps tok, GetAuthenticationProviders c tok, GetAuthenticationProviderByName c n tok)) \<and>
   sends_only (own_portals c) c (\<lambda>c. (GetUsers c tok, GetUser c n tok, AddUser c n m pw tok, DeleteUser c i tok, UpdateUser c i n m tok)) \<and>
   sends_only (own_portals c) c (\<lambda>c. (SetUserAsAdmin c i tok, SetUserAsMember c i tok, SetFromEmailAddress c m tok)) \<and>
   sends_only (own_portals c) c (\<lambda>c. (CreateAccount c tok n m, CreateBackend c tok n m, CreateMetric c tok i n m, CreateBackendMappingRule c tok i j n m k)) \<and>
   sends_only (own_portals c) c (\<lambda>c. (CreateService c tok n m, CreateBackendUsage c tok s i n, CreateApplicationPlan c tok s n, CreateApplication c tok s n m d)) \<and>
   sends_only (own_portals c) c (\<lambda>c. (DeployProxy c tok s, PromoteProxy c tok s n m, DeleteService c tok s, DeleteBackend c tok i, DeleteAccount c tok s)) \<and>
   sends_only (own_portals c) c (\<lambda>c. (ListTenantAccounts c tok i f, CreateTenant c tok a pw m, GetTenantAccount c tok i, ActivateUser c tok i j)) \<and>
   sends_only (own_portals c) c (\<lambda>c. (DeleteTenant c tok i, DeleteTenants c tok accounts)) \<and>
   sends_only (\<lambda>url. HasPrefix url (ad_AdminBaseURL a @ ''/'')) c (\<lambda>c. (AddAuthProviderToAccount c tok a p, IsAuthProviderAdded c tok n a))"
  unfolding sends_only_Pair
  by (intro conjI sends_only_users sends_only_reads sends_only_search sends_only_services sends_only_promote sends_only_tenants sends_only_portal sends_only_loop)

section \<open>Deleting tenants\<close>

text \<open>The state after attempts to delete tenants that all failed.\<close>

fun all_fail :: "'w threeScaleClient \<Rightarrow> string \<Rightarrow> AccountDetail list \<Rightarrow> 'w \<Rightarrow> 'w option" where
  "all_fail tsc tok [] w = Some w"
| "all_fail tsc tok (a # as) w = (case DeleteTenant tsc tok (ad_Id a) w of (None, w') \<Rightarrow> None | (Some e, w') \<Rightarrow> all_fail tsc tok as w')"

lemma all_fail_split:
  "(\<exists>failed a. (\<exists>rest. b # bs = failed @ a # rest) \<and> (\<exists>w1. all_fail tsc tok failed w = Some w1 \<and> P a w1)) \<longleftrightarrow>
     P b w \<or> (\<exists>e w1. DeleteTenant tsc tok (ad_Id b) w = (Some e, w1) \<and>
       (\<exists>failed a. (\<exists>rest. bs = failed @ a # rest) \<and> (\<exists>w2. all_fail tsc tok failed w1 = Some w2 \<and> P a w2)))" (is "?l \<longleftrightarrow> ?r")
proof
  assume ?l
  then obtain failed a rest w1 where "b # bs = failed @ a # rest" "all_fail tsc tok failed w = Some w1" "P a w1" by blast
  then show ?r by (cases failed) (auto split: prod.splits option.splits)
next
  assume ?r
  then show ?l
  proof
    assume "P b w"
    then show ?l by (intro exI [of _ "[]"] exI [of _ b]) simp
  next
    assume "\<exists>e w1. DeleteTenant tsc tok (ad_Id b) w = (Some e, w1) \<and>
       (\<exists>failed a. (\<exists>rest. bs = failed @ a # rest) \<and> (\<exists>w2. all_fail tsc tok failed w1 = Some w2 \<and> P a w2))"
    then obtain e w1 failed a rest w2 where "DeleteTenant tsc tok (ad_Id b) w = (Some e, w1)" "bs = failed @ a # rest"
      "all_fail tsc tok failed w1 = Some w2" "P a w2" by blast
    then show ?l by (intro exI [of _ "b # failed"] exI [of _ a]) simp
  qed
qed

text \<open>
  The deletion of tenants succeeds exactly when every single deletion fails. When a deletion succeeds the call ends there, with an
  error, and the tenants after it are not asked to be deleted at all.
\<close>

theorem DeleteTenants_outcome:
  "DeleteTenants tsc tok accounts w = (res, w') \<longleftrightarrow>
     (case res of
        None \<Rightarrow> all_fail tsc tok accounts w = Some w'
      | Some e \<Rightarrow> (\<exists>failed a rest w1. accounts = failed @ a # rest \<and> all_fail tsc tok failed w = Some w1 \<and>
          DeleteTenant tsc tok (ad_Id a) w1 = (None, w') \<and> e = Msg (''error deleting tenant: '' @ ad_Name a)))"
proof (induction accounts arbitrary: w)
  case Nil
  then show ?case by (auto split: option.splits)
next
  case (Cons b bs)
  obtain d w1 where d: "DeleteTenant tsc tok (ad_Id b) w = (d, w1)" by force
  show ?case
  proof (cases d)
    case None
    with d show ?thesis by (cases res) (simp, simp add: all_fail_split, blast)
  next
    case (Some x)
    with d Cons [of w1] show ?thesis by (cases res) (simp, simp add: all_fail_split)
  qed
qed

end
