(* ===== verification/ThreeScale_Users.thy ===== *)
theory ThreeScale_Users
  imports ThreeScale_Client SSO_Users Base_Reconciler Product_Steps
begin

text \<open>
  How the 3scale reconciler keeps the users of the 3scale portal in step with those of single sign-on
  (\<^verbatim>\<open>reconcileOpenshiftUsers\<close> and what it calls in \<^verbatim>\<open>pkg/products/threescale/reconciler.go\<close>): the difference by name and by recorded
  identifier, the deletions, renamings and additions, the identifiers written back to Keycloak, and the rights of administrators.
\<close>

section \<open>Environment and secrets\<close>

record 'w tsu_env =
  tu_client :: "'w threeScaleClient"
  tu_sso :: "'w sso_env"
  tu_secrets :: "(SecretObject, 'w) kind_api"
  tu_decode :: "string \<Rightarrow> err + ProductConfig"
  tu_manager :: Manager
  tu_config :: ThreeScale

abbreviation user3ScaleID :: string where "user3ScaleID \<equiv> ''3scale_user_id''"
abbreviation adminRole :: string where "adminRole \<equiv> ''admin''"
abbreviation userCreated3ScaleName :: string where "userCreated3ScaleName \<equiv> ''3scale_user_created''"

definition seed_secret :: "string \<Rightarrow> SecretObject" where
  "seed_secret ns = \<lparr>so_Name = ''system-seed'', so_Namespace = ns, so_Type = '''', so_Data = []\<rparr>"

definition getToken :: "'w tsu_env \<Rightarrow> string \<Rightarrow> string \<Rightarrow> 'w \<Rightarrow> (err + string) \<times> 'w" where
  "getToken env ns tokenType w =
     (case k_Get (tu_secrets env) (seed_secret ns) w of
        (Some e, s, w') \<Rightarrow> (Inl e, w')
      | (None, s, w') \<Rightarrow> (Inr (gget '''' (so_Data s) tokenType), w'))"

definition GetAdminToken :: "'w tsu_env \<Rightarrow> 'w \<Rightarrow> (err + string) \<times> 'w" where
  "GetAdminToken env = getToken env (ThreeScale_GetNamespace (tu_config env)) ''ADMIN_ACCESS_TOKEN''"

definition GetMasterToken :: "'w tsu_env \<Rightarrow> 'w \<Rightarrow> (err + string) \<times> 'w" where
  "GetMasterToken env = getToken env (ThreeScale_GetNamespace (tu_config env)) ''MASTER_ACCESS_TOKEN''"

definition GetAdminNameAndPassFromSecret :: "'w tsu_env \<Rightarrow> 'w \<Rightarrow> (err + string \<times> string) \<times> 'w" where
  "GetAdminNameAndPassFromSecret env w =
     (case k_Get (tu_secrets env) (seed_secret (ThreeScale_GetNamespace (tu_config env))) w of
        (Some e, s, w') \<Rightarrow> (Inl e, w')
      | (None, s, w') \<Rightarrow> (Inr (gget '''' (so_Data s) ''ADMIN_USER'', gget '''' (so_Data s) ''ADMIN_EMAIL''), w'))"

section \<open>Differences\<close>

text \<open>\<^verbatim>\<open>strings.EqualFold\<close> on ASCII.\<close>

definition EqualFold :: "string \<Rightarrow> string \<Rightarrow> bool" where
  "EqualFold s t \<longleftrightarrow> ToLower s = ToLower t"

definition tsContainsKc :: "UserDetails list \<Rightarrow> KeycloakAPIUser \<Rightarrow> bool" where
  "tsContainsKc tsUsers kcUser \<longleftrightarrow> list_ex (\<lambda>t. ud_Username t = ToLower (ku_UserName kcUser)) tsUsers"

definition kcContainsTs :: "KeycloakAPIUser list \<Rightarrow> UserDetails \<Rightarrow> bool" where
  "kcContainsTs kcUsers tsUser \<longleftrightarrow> list_ex (\<lambda>k. ToLower (ku_UserName k) = ud_Username tsUser) kcUsers"

definition attribute :: "KeycloakAPIUser \<Rightarrow> string \<Rightarrow> string list" where
  "attribute k name = (case ku_Attributes k of None \<Rightarrow> [] | Some as \<Rightarrow> gget [] as name)"

definition tsUserIDInKc :: "UserDetails \<Rightarrow> KeycloakUser \<Rightarrow> bool" where
  "tsUserIDInKc tsUser kcUser =
     (case attribute (kcu_User kcUser) user3ScaleID of
        [] \<Rightarrow> False
      | v # vs \<Rightarrow> EqualFold (Itoa (ud_Id tsUser)) v)"

text \<open>
  Whether the identifier of a user is recorded at one of the Keycloak users, read one by one; a read that fails is passed over,
  and \<open>None\<close> is the return for a user who has no generated name.
\<close>

fun recorded :: "'w tsu_env \<Rightarrow> string \<Rightarrow> UserDetails \<Rightarrow> KeycloakAPIUser list \<Rightarrow> 'w \<Rightarrow> bool option \<times> 'w" where
  "recorded env ns user [] w = (Some False, w)"
| "recorded env ns user (k # ks) w =
     (if GetValidGeneratedUserName k = '''' then (None, w)
      else (case k_Get (sx_kcusers (tu_sso env)) (kc_user (GetValidGeneratedUserName k) ns) w of
              (Some e, g, w1) \<Rightarrow> recorded env ns user ks w1
            | (None, g, w1) \<Rightarrow> if tsUserIDInKc user g then (Some True, w1) else recorded env ns user ks w1))"

fun sort_out ::
  "'w tsu_env \<Rightarrow> string \<Rightarrow> KeycloakAPIUser list \<Rightarrow> UserDetails list \<Rightarrow> UserDetails list \<times> UserDetails list \<Rightarrow> 'w \<Rightarrow>
   (UserDetails list \<times> UserDetails list) \<times> 'w" where
  "sort_out env ns kcUsers [] (deleted, updated) w = ((deleted, updated), w)"
| "sort_out env ns kcUsers (u # us) (deleted, updated) w =
     (case recorded env ns u kcUsers w of
        (None, w1) \<Rightarrow> ((deleted, updated), w1)
      | (Some True, w1) \<Rightarrow> sort_out env ns kcUsers us (deleted, updated @ [u]) w1
      | (Some False, w1) \<Rightarrow> sort_out env ns kcUsers us (deleted @ [u], updated) w1)"

definition getUserDiff ::
  "'w tsu_env \<Rightarrow> KeycloakAPIUser list \<Rightarrow> UserDetails list \<Rightarrow> 'w \<Rightarrow> (KeycloakAPIUser list \<times> UserDetails list \<times> UserDetails list) \<times> 'w" where
  "getUserDiff env kcUsers tsUsers w =
     (case ReadRHSSO (tu_decode env) (tu_manager env) of
        Inl e \<Rightarrow> (([], [], []), w)
      | Inr rhssoConfig \<Rightarrow>
          (case sort_out env (RHSSOCommon_GetNamespace (rhsso_common rhssoConfig)) kcUsers (filter (\<lambda>t. \<not> kcContainsTs kcUsers t) tsUsers) ([], []) w of
             ((deleted, updated), w') \<Rightarrow> ((filter (\<lambda>k. \<not> tsContainsKc tsUsers k) kcUsers, deleted, updated), w')))"

definition getGeneratedKeycloakUser :: "'w tsu_env \<Rightarrow> string \<Rightarrow> UserDetails \<Rightarrow> 'w \<Rightarrow> err + KeycloakUser" where
  "getGeneratedKeycloakUser env ns tsUser w =
     (case sx_ListKeycloakUsers (tu_sso env) GetInstanceLabels ns w of
        Inl e \<Rightarrow> Inl e
      | Inr users \<Rightarrow>
          (case List.find (tsUserIDInKc tsUser) users of
             None \<Rightarrow> Inl (Msg ''genrated Keycloak user was not found'')
           | Some k \<Rightarrow> Inr k))"

section \<open>Synchronisation\<close>

text \<open>The answers to deletions, renamings and additions are logged and counted only.\<close>

fun delete_users :: "'w tsu_env \<Rightarrow> string \<Rightarrow> string \<Rightarrow> UserDetails list \<Rightarrow> 'w \<Rightarrow> 'w" where
  "delete_users env tok sysadmin [] w = w"
| "delete_users env tok sysadmin (u # us) w =
     delete_users env tok sysadmin us
       (if ud_Username u \<noteq> sysadmin then snd (DeleteUser (tu_client env) (ud_Id u) tok w) else w)"

fun update_users :: "'w tsu_env \<Rightarrow> string \<Rightarrow> string \<Rightarrow> string \<Rightarrow> UserDetails list \<Rightarrow> 'w \<Rightarrow> 'w" where
  "update_users env ns tok sysadmin [] w = w"
| "update_users env ns tok sysadmin (u # us) w =
     update_users env ns tok sysadmin us
       (if ud_Username u = sysadmin then w
        else (case getGeneratedKeycloakUser env ns u w of
                Inl e \<Rightarrow> w
              | Inr k \<Rightarrow> snd (UpdateUser (tu_client env) (ud_Id u) (ToLower (ku_UserName (kcu_User k))) (ud_Email u) tok w)))"

fun add_users :: "'w tsu_env \<Rightarrow> string \<Rightarrow> KeycloakAPIUser list \<Rightarrow> 'w \<Rightarrow> 'w" where
  "add_users env tok [] w = w"
| "add_users env tok (k # ks) w =
     (case GetUser (tu_client env) (ToLower (ku_UserName k)) tok w of
        (Inr u, w1) \<Rightarrow> add_users env tok ks w1
      | (Inl e, w1) \<Rightarrow> add_users env tok ks (snd (AddUser (tu_client env) (ToLower (ku_UserName k)) (ToLower (ku_Email k)) '''' tok w1)))"

definition with_ids :: "int \<Rightarrow> KeycloakAPIUser \<Rightarrow> KeycloakAPIUser" where
  "with_ids i k =
     k\<lparr>ku_Attributes := Some (gset user3ScaleID [Itoa i] (gset userCreated3ScaleName [''true'']
         (case ku_Attributes k of None \<Rightarrow> [(userCreated3ScaleName, [''true''])] | Some as \<Rightarrow> as)))\<rparr>"

fun record_ids :: "'w tsu_env \<Rightarrow> string \<Rightarrow> string \<Rightarrow> KeycloakAPIUser list \<Rightarrow> 'w phase_op" where
  "record_ids env ns tok [] w = ((PhaseCompleted, None), w)"
| "record_ids env ns tok (k # ks) w =
     (case GetUser (tu_client env) (ToLower (ku_UserName k)) tok w of
        (Inl e, w1) \<Rightarrow> record_ids env ns tok ks w1
      | (Inr u, w1) \<Rightarrow>
          if GetValidGeneratedUserName k = '''' then ((PhaseFailed, Some (Msg ''failed to get valid generated username'')), w1)
          else (case CreateOrUpdate (sx_kcusers (tu_sso env)) (=) (pure_op (\<lambda>x. x\<lparr>kcu_User := with_ids (ud_Id u) k\<rparr>))
                       (kc_user (GetValidGeneratedUserName k) ns) w1 of
                  ((r, Some e), x, w2) \<Rightarrow>
                    ((PhaseInProgress, Some (Wrap (''failed to update KeycloakUser CR with '' @ userCreated3ScaleName @ '' attribute'') e)), w2)
                | ((r, None), x, w2) \<Rightarrow> record_ids env ns tok ks w2))"

definition updateKeycloakUsersAttributeWith3ScaleUserId :: "'w tsu_env \<Rightarrow> KeycloakAPIUser list \<Rightarrow> string \<Rightarrow> 'w phase_op" where
  "updateKeycloakUsersAttributeWith3ScaleUserId env kcu accessToken w =
     (case ReadRHSSO (tu_decode env) (tu_manager env) of
        Inl e \<Rightarrow> ((PhaseFailed, Some e), w)
      | Inr rhssoConfig \<Rightarrow> record_ids env (RHSSOCommon_GetNamespace (rhsso_common rhssoConfig)) accessToken kcu w)"

definition userIsOpenshiftAdmin :: "UserDetails \<Rightarrow> Group \<Rightarrow> bool" where
  "userIsOpenshiftAdmin tsUser adminGroup \<longleftrightarrow> list_ex (\<lambda>n. EqualFold (ud_Username tsUser) n) (gr_Users adminGroup)"

text \<open>An answer other than 200 ends the loop without an error.\<close>

fun syncOpenshiftAdminMembership :: "Group \<Rightarrow> UserDetails list \<Rightarrow> string \<Rightarrow> 'w threeScaleClient \<Rightarrow> string \<Rightarrow> 'w \<Rightarrow> err option \<times> 'w" where
  "syncOpenshiftAdminMembership adminGroup [] sysadmin tsc tok w = (None, w)"
| "syncOpenshiftAdminMembership adminGroup (u # us) sysadmin tsc tok w =
     (if ud_Username u \<noteq> sysadmin \<and> userIsOpenshiftAdmin u adminGroup \<and> ud_Role u \<noteq> adminRole
      then (case SetUserAsAdmin tsc (ud_Id u) tok w of
              (Inl e, w1) \<Rightarrow> (Some e, w1)
            | (Inr res, w1) \<Rightarrow> if hr_StatusCode res \<noteq> 200 then (None, w1) else syncOpenshiftAdminMembership adminGroup us sysadmin tsc tok w1)
      else syncOpenshiftAdminMembership adminGroup us sysadmin tsc tok w)"

definition sync_admins :: "'w tsu_env \<Rightarrow> string \<Rightarrow> string \<Rightarrow> 'w phase_op" where
  "sync_admins env tok sysadmin w =
     (case k_Get (us_groups (sx_users (tu_sso env))) \<lparr>gr_Name = dedicatedAdminsGroupName, gr_Users = []\<rparr> w of
        (e, adminGroup, w1) \<Rightarrow>
          if e \<noteq> None \<and> \<not> IsNotFound e then ((PhaseInProgress, e), w1)
          else (case GetUsers (tu_client env) tok w1 of
                  (Inl e, w2) \<Rightarrow> ((PhaseInProgress, Some e), w2)
                | (Inr us, w2) \<Rightarrow>
                    (case syncOpenshiftAdminMembership adminGroup us sysadmin (tu_client env) tok w2 of
                       (Some e, w3) \<Rightarrow> ((PhaseInProgress, Some e), w3)
                     | (None, w3) \<Rightarrow> ((PhaseCompleted, None), w3))))"

definition sync_users :: "'w tsu_env \<Rightarrow> string \<Rightarrow> string \<Rightarrow> string \<Rightarrow> KeycloakAPIUser list \<Rightarrow> UserDetails list \<Rightarrow> 'w \<Rightarrow> 'w" where
  "sync_users env ns tok sysadmin kcu tsUsers w =
     (case getUserDiff env kcu tsUsers w of
        ((added, deleted, updated), w1) \<Rightarrow>
          add_users env tok added (update_users env ns tok sysadmin updated (delete_users env tok sysadmin deleted w1)))"

definition reconcileOpenshiftUsers :: "'w tsu_env \<Rightarrow> 'w phase_op" where
  "reconcileOpenshiftUsers env w =
     (case ReadRHSSO (tu_decode env) (tu_manager env) of
        Inl e \<Rightarrow> ((PhaseFailed, Some e), w)
      | Inr rhssoConfig \<Rightarrow>
          (let ns = RHSSOCommon_GetNamespace (rhsso_common rhssoConfig) in
           case GetAdminToken env w of
             (Inl e, w1) \<Rightarrow> ((PhaseFailed, Some e), w1)
           | (Inr tok, w1) \<Rightarrow>
               (case GetAdminNameAndPassFromSecret env w1 of
                  (Inl e, w2) \<Rightarrow> ((PhaseInProgress, Some e), w2)
                | (Inr (sysadmin, email), w2) \<Rightarrow>
                    (case RHSSO_GetKeycloakUsers (tu_sso env) ns w2 of
                       Inl e \<Rightarrow> ((PhaseFailed, Some e), w2)
                     | Inr kcu \<Rightarrow>
                         (case GetUsers (tu_client env) tok w2 of
                            (Inl e, w3) \<Rightarrow> ((PhaseInProgress, Some e), w3)
                          | (Inr tsUsers, w3) \<Rightarrow>
                              run_must [updateKeycloakUsersAttributeWith3ScaleUserId env kcu tok, sync_admins env tok sysadmin]
                                (sync_users env ns tok sysadmin kcu tsUsers w3))))))"

lemmas tsu_defs [go_defs] = getToken_def GetAdminToken_def GetMasterToken_def GetAdminNameAndPassFromSecret_def getUserDiff_def getGeneratedKeycloakUser_def
  updateKeycloakUsersAttributeWith3ScaleUserId_def sync_admins_def sync_users_def reconcileOpenshiftUsers_def

section \<open>What the portal and the cluster promise\<close>

definition accepted :: "int \<Rightarrow> err + http_response \<Rightarrow> bool" where
  "accepted code r = (case r of Inl e \<Rightarrow> False | Inr res \<Rightarrow> hr_StatusCode res = code)"

text \<open>
  The users of the portal in a state of the world, and what the answers to the requests of the client say of them: a request that is
  not accepted changes nothing.
\<close>

definition portal_serves :: "'w threeScaleClient \<Rightarrow> string \<Rightarrow> ('w \<Rightarrow> UserDetails list) \<Rightarrow> bool" where
  "portal_serves c tok users \<longleftrightarrow>
     (\<forall>w. GetUsers c tok w = (Inr (users w), w)) \<and>
     (\<forall>i w. users (snd (DeleteUser c i tok w)) =
        (if accepted 200 (fst (DeleteUser c i tok w)) then filter (\<lambda>u. ud_Id u \<noteq> i) (users w) else users w)) \<and>
     (\<forall>i n m w. users (snd (UpdateUser c i n m tok w)) =
        (if accepted 200 (fst (UpdateUser c i n m tok w)) then map (\<lambda>u. if ud_Id u = i then u\<lparr>ud_Username := n, ud_Email := m\<rparr> else u) (users w) else users w)) \<and>
     (\<forall>n m w. if accepted 201 (fst (AddUser c n m '''' tok w)) then \<exists>u. users (snd (AddUser c n m '''' tok w)) = users w @ [u] \<and> ud_Username u = n
        else users (snd (AddUser c n m '''' tok w)) = users w) \<and>
     (\<forall>i w. users (snd (SetUserAsAdmin c i tok w)) =
        (if accepted 200 (fst (SetUserAsAdmin c i tok w)) then map (\<lambda>u. if ud_Id u = i then u\<lparr>ud_Role := adminRole\<rparr> else u) (users w) else users w))"

definition reads_quietly :: "('o, 'w) kind_api \<Rightarrow> bool" where
  "reads_quietly api \<longleftrightarrow> (\<forall>x w. snd (snd (k_Get api x w)) = w)"

definition writes_apart :: "('w \<Rightarrow> 'a) \<Rightarrow> ('o, 'w) kind_api \<Rightarrow> bool" where
  "writes_apart users api \<longleftrightarrow> (\<forall>x w. users (snd (snd (k_Create api x w))) = users w \<and> users (snd (snd (k_Update api x w))) = users w)"

definition cluster_apart :: "'w tsu_env \<Rightarrow> ('w \<Rightarrow> 'a) \<Rightarrow> bool" where
  "cluster_apart env users \<longleftrightarrow> reads_quietly (tu_secrets env) \<and> reads_quietly (sx_kcusers (tu_sso env)) \<and> reads_quietly (us_groups (sx_users (tu_sso env))) \<and>
     writes_apart users (sx_kcusers (tu_sso env))"

lemma quiet_get: "reads_quietly api \<Longrightarrow> k_Get api x w = (e, y, w') \<Longrightarrow> w' = w"
  unfolding reads_quietly_def by (metis snd_conv)

lemma CreateOrUpdate_apart:
  assumes "reads_quietly api" and "writes_apart users api" and "CreateOrUpdate api eq (pure_op f) x w = (r, y, w')"
  shows "users w' = users w"
proof -
  obtain e x1 w1 where get: "k_Get api x w = (e, x1, w1)" by (metis surj_pair)
  obtain c y2 w2 where create: "k_Create api (f x1) w = (c, y2, w2)" by (metis surj_pair)
  obtain u y3 w3 where update: "k_Update api (f x1) w = (u, y3, w3)" by (metis surj_pair)
  have "users w2 = users w" "users w3 = users w" using assms(2) create update unfolding writes_apart_def by (metis snd_conv)+
  with assms(3) get quiet_get [OF assms(1) get] create update show ?thesis
    by (auto simp: CreateOrUpdate_def mutate_def pure_op_def Let_def split: option.splits if_splits)
qed

section \<open>The difference\<close>

definition id_recorded :: "'w tsu_env \<Rightarrow> string \<Rightarrow> KeycloakAPIUser list \<Rightarrow> 'w \<Rightarrow> UserDetails \<Rightarrow> bool" where
  "id_recorded env ns kcUsers w u \<longleftrightarrow>
     list_ex (\<lambda>k. case k_Get (sx_kcusers (tu_sso env)) (kc_user (GetValidGeneratedUserName k) ns) w of (e, g, w') \<Rightarrow> e = None \<and> tsUserIDInKc u g) kcUsers"

lemma generated_name [simp]: "GetValidGeneratedUserName k \<noteq> ''''"
  by (simp add: GetValidGeneratedUserName_def Let_def)

lemma recorded_eq:
  assumes "reads_quietly (sx_kcusers (tu_sso env))"
  shows "recorded env ns u kcUsers w = (Some (id_recorded env ns kcUsers w u), w)"
proof (induction kcUsers)
  case Nil
  show ?case by (simp add: id_recorded_def)
next
  case (Cons k ks)
  obtain e g w1 where get: "k_Get (sx_kcusers (tu_sso env)) (kc_user (GetValidGeneratedUserName k) ns) w = (e, g, w1)" by (metis surj_pair)
  with quiet_get [OF assms get] Cons show ?case by (cases e) (simp_all add: id_recorded_def)
qed

lemma sort_out_eq:
  assumes "reads_quietly (sx_kcusers (tu_sso env))"
  shows "sort_out env ns kcUsers us (deleted, updated) w =
    ((deleted @ filter (\<lambda>u. \<not> id_recorded env ns kcUsers w u) us, updated @ filter (id_recorded env ns kcUsers w) us), w)"
  by (induction us arbitrary: deleted updated) (simp_all add: recorded_eq [OF assms] split: bool.splits)

text \<open>
  The difference of users is the one by name, with those who are gone by name told apart by their identifier: a 3scale user without
  a Keycloak user of the name is renamed when its identifier is recorded at a Keycloak user that can be read, and deleted otherwise.
\<close>

theorem getUserDiff_exact:
  assumes "reads_quietly (sx_kcusers (tu_sso env))" and "ReadRHSSO (tu_decode env) (tu_manager env) = Inr rhsso"
    and "ns = RHSSOCommon_GetNamespace (rhsso_common rhsso)"
  shows "getUserDiff env kcUsers tsUsers w =
    ((filter (\<lambda>k. ToLower (ku_UserName k) \<notin> ud_Username ` set tsUsers) kcUsers,
      filter (\<lambda>t. ud_Username t \<notin> (\<lambda>k. ToLower (ku_UserName k)) ` set kcUsers \<and> \<not> id_recorded env ns kcUsers w t) tsUsers,
      filter (\<lambda>t. ud_Username t \<notin> (\<lambda>k. ToLower (ku_UserName k)) ` set kcUsers \<and> id_recorded env ns kcUsers w t) tsUsers), w)"
proof -
  have ts: "tsContainsKc tsUsers k \<longleftrightarrow> ToLower (ku_UserName k) \<in> ud_Username ` set tsUsers" for k
    unfolding tsContainsKc_def list_ex_iff image_iff by metis
  have kc: "kcContainsTs kcUsers t \<longleftrightarrow> ud_Username t \<in> (\<lambda>k. ToLower (ku_UserName k)) ` set kcUsers" for t
    unfolding kcContainsTs_def list_ex_iff image_iff by metis
  show ?thesis
    unfolding getUserDiff_def assms(2) sum.case sort_out_eq [OF assms(1)] assms(3) [symmetric] prod.case append_Nil filter_filter ts kc by simp
qed

section \<open>No user is lost\<close>

lemma portal_delete:
  "portal_serves c tok users \<Longrightarrow> x \<in> set (users w) \<Longrightarrow> ud_Id x \<noteq> i \<Longrightarrow> x \<in> set (users (snd (DeleteUser c i tok w)))"
  by (simp add: portal_serves_def)

lemma portal_update:
  assumes "portal_serves c tok users" and "x \<in> set (users w)" and "ud_Id x \<noteq> i"
  shows "x \<in> set (users (snd (UpdateUser c i n m tok w)))"
proof -
  have "x \<in> set (map (\<lambda>u. if ud_Id u = i then u\<lparr>ud_Username := n, ud_Email := m\<rparr> else u) (users w))" using assms(2,3) by force
  with assms show ?thesis by (simp add: portal_serves_def)
qed

lemma portal_add:
  assumes "portal_serves c tok users"
  shows "set (users w) \<subseteq> set (users (snd (AddUser c n m '''' tok w)))"
    and "accepted 201 (fst (AddUser c n m '''' tok w)) \<Longrightarrow> n \<in> ud_Username ` set (users (snd (AddUser c n m '''' tok w)))"
proof -
  have law: "if accepted 201 (fst (AddUser c n m '''' tok w)) then \<exists>u. users (snd (AddUser c n m '''' tok w)) = users w @ [u] \<and> ud_Username u = n
      else users (snd (AddUser c n m '''' tok w)) = users w"
    using assms unfolding portal_serves_def by blast
  then show "set (users w) \<subseteq> set (users (snd (AddUser c n m '''' tok w)))"
    by (cases "accepted 201 (fst (AddUser c n m '''' tok w))") auto
  show "n \<in> ud_Username ` set (users (snd (AddUser c n m '''' tok w)))" if "accepted 201 (fst (AddUser c n m '''' tok w))"
  proof -
    from law that obtain u where "users (snd (AddUser c n m '''' tok w)) = users w @ [u]" "ud_Username u = n" by auto
    then show ?thesis by simp
  qed
qed

lemma delete_users_keeps:
  assumes "portal_serves (tu_client env) tok users" and "\<And>u. u \<in> set us \<Longrightarrow> ud_Username u \<noteq> sysadmin \<Longrightarrow> ud_Id u \<noteq> ud_Id x"
    and "x \<in> set (users w)"
  shows "x \<in> set (users (delete_users env tok sysadmin us w))"
  using assms(2,3)
proof (induction us arbitrary: w)
  case (Cons u us)
  have "x \<in> set (users (if ud_Username u \<noteq> sysadmin then snd (DeleteUser (tu_client env) (ud_Id u) tok w) else w))"
    using portal_delete [OF assms(1) Cons.prems(2), of "ud_Id u"] Cons.prems(1) [of u] Cons.prems(2) by auto
  from Cons.IH [OF _ this] Cons.prems(1) show ?case by simp
qed simp

lemma update_users_keeps:
  assumes "portal_serves (tu_client env) tok users" and "\<And>u. u \<in> set us \<Longrightarrow> ud_Username u \<noteq> sysadmin \<Longrightarrow> ud_Id u \<noteq> ud_Id x"
    and "x \<in> set (users w)"
  shows "x \<in> set (users (update_users env ns tok sysadmin us w))"
  using assms(2,3)
proof (induction us arbitrary: w)
  case (Cons u us)
  have "x \<in> set (users (if ud_Username u = sysadmin then w else (case getGeneratedKeycloakUser env ns u w of
      Inl e \<Rightarrow> w | Inr k \<Rightarrow> snd (UpdateUser (tu_client env) (ud_Id u) (ToLower (ku_UserName (kcu_User k))) (ud_Email u) tok w))))"
    using portal_update [OF assms(1) Cons.prems(2), of "ud_Id u"] Cons.prems(1) [of u] Cons.prems(2) by (auto split: sum.splits)
  from Cons.IH [OF _ this] Cons.prems(1) show ?case by simp
qed simp

lemma portal_user:
  assumes "portal_serves c tok users"
  shows "GetUser c n tok w = (case List.find (\<lambda>u. ud_Username u = n) (users w) of Some u \<Rightarrow> Inr u | None \<Rightarrow> Inl (TsError ''User not found'' 404), w)"
proof -
  have "GetUsers c tok w = (Inr (users w), w)" using assms unfolding portal_serves_def by blast
  then show ?thesis by (simp add: GetUser_def)
qed

lemma add_users_step:
  assumes "portal_serves (tu_client env) tok users"
  shows "\<exists>w1. add_users env tok (k # ks) w = add_users env tok ks w1 \<and> set (users w) \<subseteq> set (users w1) \<and>
     ((\<forall>m w. accepted 201 (fst (AddUser (tu_client env) (ToLower (ku_UserName k)) m '''' tok w))) \<longrightarrow> ToLower (ku_UserName k) \<in> ud_Username ` set (users w1))"
proof (cases "List.find (\<lambda>u. ud_Username u = ToLower (ku_UserName k)) (users w)")
  case None
  then have "add_users env tok (k # ks) w = add_users env tok ks (snd (AddUser (tu_client env) (ToLower (ku_UserName k)) (ToLower (ku_Email k)) '''' tok w))"
    by (simp add: portal_user [OF assms])
  with portal_add [OF assms] show ?thesis by blast
next
  case (Some u)
  then have "add_users env tok (k # ks) w = add_users env tok ks w" by (simp add: portal_user [OF assms])
  moreover have "u \<in> set (users w)" "ud_Username u = ToLower (ku_UserName k)" using Some by (auto simp: find_Some_iff)
  then have "ToLower (ku_UserName k) \<in> ud_Username ` set (users w)" by (metis imageI)
  ultimately show ?thesis by blast
qed

lemma add_users_present:
  assumes portal: "portal_serves (tu_client env) tok users"
  shows "set (users w) \<subseteq> set (users (add_users env tok ks w)) \<and>
    (\<forall>k \<in> set ks. (\<forall>m w. accepted 201 (fst (AddUser (tu_client env) (ToLower (ku_UserName k)) m '''' tok w))) \<longrightarrow>
       ToLower (ku_UserName k) \<in> ud_Username ` set (users (add_users env tok ks w)))"
proof (induction ks arbitrary: w)
  case Nil
  show ?case by simp
next
  case (Cons k ks)
  obtain w1 where w1: "add_users env tok (k # ks) w = add_users env tok ks w1" "set (users w) \<subseteq> set (users w1)"
    "(\<forall>m w. accepted 201 (fst (AddUser (tu_client env) (ToLower (ku_UserName k)) m '''' tok w))) \<longrightarrow> ToLower (ku_UserName k) \<in> ud_Username ` set (users w1)"
    using add_users_step [OF portal] by blast
  from Cons [of w1] w1 show ?case by (fastforce intro: image_mono)
qed

lemma record_ids_apart:
  assumes "portal_serves (tu_client env) tok users" and "cluster_apart env users"
  shows "users (snd (record_ids env ns tok ks w)) = users w"
proof (induction ks arbitrary: w)
  case Nil
  show ?case by simp
next
  case (Cons k ks)
  show ?case
  proof (cases "List.find (\<lambda>u. ud_Username u = ToLower (ku_UserName k)) (users w)")
    case None
    with Cons show ?thesis by (simp add: portal_user [OF assms(1)])
  next
    case (Some u)
    obtain r e y w2 where cou: "CreateOrUpdate (sx_kcusers (tu_sso env)) (=) (pure_op (\<lambda>x. x\<lparr>kcu_User := with_ids (ud_Id u) k\<rparr>))
        (kc_user (GetValidGeneratedUserName k) ns) w = ((r, e), y, w2)" by (metis surj_pair)
    from CreateOrUpdate_apart [OF _ _ cou] assms(2) have "users w2 = users w" unfolding cluster_apart_def by blast
    with Some cou Cons [of w2] show ?thesis by (cases e) (simp_all add: portal_user [OF assms(1)])
  qed
qed

text \<open>What identifies a user, as opposed to its role.\<close>

abbreviation who :: "UserDetails list \<Rightarrow> (int \<times> string) list" where "who us \<equiv> map (\<lambda>u. (ud_Id u, ud_Username u)) us"

lemma portal_admin:
  assumes "portal_serves c tok users"
  shows "who (users (snd (SetUserAsAdmin c i tok w))) = who (users w)"
  using assms by (simp add: portal_serves_def)

lemma sync_membership_who:
  assumes "portal_serves c tok users"
  shows "who (users (snd (syncOpenshiftAdminMembership g us sysadmin c tok w))) = who (users w)"
proof (induction us arbitrary: w)
  case Nil
  show ?case by simp
next
  case (Cons u us)
  obtain r w1 where r: "SetUserAsAdmin c (ud_Id u) tok w = (r, w1)" by (metis surj_pair)
  with portal_admin [OF assms, of "ud_Id u" w] have "who (users w1) = who (users w)" by simp
  with r Cons [of w] Cons [of w1] show ?case by (cases r) simp_all
qed

lemma sync_admins_who:
  assumes "portal_serves (tu_client env) tok users" and "cluster_apart env users"
  shows "who (users (snd (sync_admins env tok sysadmin w))) = who (users w)"
proof -
  obtain e g w1 where get: "k_Get (us_groups (sx_users (tu_sso env))) \<lparr>gr_Name = dedicatedAdminsGroupName, gr_Users = []\<rparr> w = (e, g, w1)" by (metis surj_pair)
  have w1: "w1 = w" using quiet_get [OF _ get] assms(2) unfolding cluster_apart_def by blast
  have us: "GetUsers (tu_client env) tok w = (Inr (users w), w)" using assms(1) unfolding portal_serves_def by blast
  obtain r w2 where r: "syncOpenshiftAdminMembership g (users w) sysadmin (tu_client env) tok w = (r, w2)" by (metis surj_pair)
  with sync_membership_who [OF assms(1), of g "users w" sysadmin w] have "who (users w2) = who (users w)" by simp
  with get w1 us r show ?thesis by (cases r) (simp_all add: sync_admins_def)
qed

lemma sync_users_keeps:
  assumes portal: "portal_serves (tu_client env) tok users" and apart: "cluster_apart env users" and ids: "distinct (map ud_Id (users w))"
    and x: "x \<in> set (users w)" and kept: "ud_Username x = sysadmin \<or> ud_Username x \<in> (\<lambda>k. ToLower (ku_UserName k)) ` set kcu"
    and rhsso: "ReadRHSSO (tu_decode env) (tu_manager env) = Inr rhsso"
  shows "x \<in> set (users (sync_users env ns tok sysadmin kcu (users w) w))"
proof -
  have "reads_quietly (sx_kcusers (tu_sso env))" using apart unfolding cluster_apart_def by blast
  from getUserDiff_exact [OF this rhsso refl] obtain added deleted updated where diff: "getUserDiff env kcu (users w) w = ((added, deleted, updated), w)"
    and sub: "set deleted \<union> set updated \<subseteq> {t \<in> set (users w). ud_Username t \<notin> (\<lambda>k. ToLower (ku_UserName k)) ` set kcu}" by auto
  have other: "ud_Id u \<noteq> ud_Id x" if "u \<in> set deleted \<union> set updated" "ud_Username u \<noteq> sysadmin" for u
  proof
    assume "ud_Id u = ud_Id x"
    with ids x that(1) sub have "u = x" by (auto simp: distinct_map dest: inj_onD)
    with that sub kept show False by auto
  qed
  have "x \<in> set (users (delete_users env tok sysadmin deleted w))" by (rule delete_users_keeps [OF portal _ x]) (use other in blast)
  then have "x \<in> set (users (update_users env ns tok sysadmin updated (delete_users env tok sysadmin deleted w)))"
    by (rule update_users_keeps [OF portal, rotated]) (use other in blast)
  with add_users_present [OF portal] show ?thesis unfolding sync_users_def diff by auto
qed


section \<open>Administrators\<close>

definition to_promote :: "Group \<Rightarrow> string \<Rightarrow> UserDetails \<Rightarrow> bool" where
  "to_promote g sysadmin u \<longleftrightarrow> ud_Username u \<noteq> sysadmin \<and> userIsOpenshiftAdmin u g \<and> ud_Role u \<noteq> adminRole"

lemma promote_twice:
  "map (\<lambda>u. if P u then u\<lparr>ud_Role := adminRole\<rparr> else u) (map (\<lambda>u. if ud_Id u = i then u\<lparr>ud_Role := adminRole\<rparr> else u) us) =
     map (\<lambda>u. if ud_Id u = i \<or> P u then u\<lparr>ud_Role := adminRole\<rparr> else u) us" if "\<And>u. P (u\<lparr>ud_Role := adminRole\<rparr>) = P u"
  using that by simp

lemma sync_membership_exact:
  assumes portal: "portal_serves c tok users" and acc: "\<And>i w. accepted 200 (fst (SetUserAsAdmin c i tok w))"
  shows "\<exists>w'. syncOpenshiftAdminMembership g us sysadmin c tok w = (None, w') \<and>
    users w' = map (\<lambda>u. if ud_Id u \<in> ud_Id ` {v \<in> set us. to_promote g sysadmin v} then u\<lparr>ud_Role := adminRole\<rparr> else u) (users w)"
proof (induction us arbitrary: w)
  case Nil
  show ?case by simp
next
  case (Cons v us)
  show ?case
  proof (cases "to_promote g sysadmin v")
    case False
    then have "syncOpenshiftAdminMembership g (v # us) sysadmin c tok w = syncOpenshiftAdminMembership g us sysadmin c tok w"
      by (auto simp: to_promote_def)
    moreover have "{x \<in> set (v # us). to_promote g sysadmin x} = {x \<in> set us. to_promote g sysadmin x}" using False by auto
    ultimately show ?thesis using Cons [of w] by simp
  next
    case True
    obtain r w1 where r: "SetUserAsAdmin c (ud_Id v) tok w = (r, w1)" by (metis surj_pair)
    with acc [of "ud_Id v" w] obtain res where res: "r = Inr res" "hr_StatusCode res = 200" by (auto simp: accepted_def split: sum.splits)
    have u1: "users w1 = map (\<lambda>u. if ud_Id u = ud_Id v then u\<lparr>ud_Role := adminRole\<rparr> else u) (users w)"
    proof -
      have "users (snd (SetUserAsAdmin c (ud_Id v) tok w)) = (if accepted 200 (fst (SetUserAsAdmin c (ud_Id v) tok w))
          then map (\<lambda>u. if ud_Id u = ud_Id v then u\<lparr>ud_Role := adminRole\<rparr> else u) (users w) else users w)"
        using portal unfolding portal_serves_def by blast
      with acc [of "ud_Id v" w] r show ?thesis by simp
    qed
    have "{x \<in> set (v # us). to_promote g sysadmin x} = insert v {x \<in> set us. to_promote g sysadmin x}" using True by auto
    moreover have "syncOpenshiftAdminMembership g (v # us) sysadmin c tok w = syncOpenshiftAdminMembership g us sysadmin c tok w1"
      using True r res by (simp add: to_promote_def)
    ultimately show ?thesis using Cons [of w1] unfolding u1 by (subst (asm) promote_twice) simp_all
  qed
qed

text \<open>
  Exactly the members of the administrators' group get the role of an administrator: when the portal accepts the promotions, the
  synchronisation ends well, gives the role to every one of them but the system administrator, and leaves all the others as they are.
\<close>

theorem threescale_admins_exact:
  assumes portal: "portal_serves c tok users" and acc: "\<And>i w. accepted 200 (fst (SetUserAsAdmin c i tok w))" and ids: "distinct (map ud_Id (users w))"
  shows "\<exists>w'. syncOpenshiftAdminMembership g (users w) sysadmin c tok w = (None, w') \<and>
    users w' = map (\<lambda>u. if ud_Username u \<noteq> sysadmin \<and> userIsOpenshiftAdmin u g then u\<lparr>ud_Role := adminRole\<rparr> else u) (users w)"
proof -
  have "(if ud_Id u \<in> ud_Id ` {v \<in> set (users w). to_promote g sysadmin v} then u\<lparr>ud_Role := adminRole\<rparr> else u) =
      (if ud_Username u \<noteq> sysadmin \<and> userIsOpenshiftAdmin u g then u\<lparr>ud_Role := adminRole\<rparr> else u)" if "u \<in> set (users w)" for u
  proof -
    have "ud_Id u \<in> ud_Id ` {v \<in> set (users w). to_promote g sysadmin v} \<longleftrightarrow> to_promote g sysadmin u"
      using ids that by (auto simp: distinct_map dest: inj_onD)
    then show ?thesis by (cases "ud_Role u = adminRole") (auto simp: to_promote_def)
  qed
  then have "map (\<lambda>u. if ud_Id u \<in> ud_Id ` {v \<in> set (users w). to_promote g sysadmin v} then u\<lparr>ud_Role := adminRole\<rparr> else u) (users w) =
      map (\<lambda>u. if ud_Username u \<noteq> sysadmin \<and> userIsOpenshiftAdmin u g then u\<lparr>ud_Role := adminRole\<rparr> else u) (users w)"
    by (rule map_cong [OF refl])
  with sync_membership_exact [OF portal acc, of g "users w" sysadmin w] show ?thesis by simp
qed

section \<open>Witnesses\<close>

text \<open>A portal whose users are characters: seven bits for the name and the identifier, and one for the role.\<close>

definition char_user :: "char \<Rightarrow> UserDetails" where
  "char_user ch = (let n = (of_char ch :: nat) in
     \<lparr>ud_Id = int (n div 2), ud_State = ''active'', ud_Role = (if odd n then adminRole else ''member''), ud_Username = [char_of (n div 2)], ud_Email = ''''\<rparr>)"

definition char_path :: "char \<Rightarrow> string \<Rightarrow> string" where
  "char_path ch rest = ''https://3scale-admin./admin/api/users/'' @ Itoa (ud_Id (char_user ch)) @ rest"

definition char_portal :: "http_request \<Rightarrow> string \<Rightarrow> (err + http_response) \<times> string" where
  "char_portal rq w =
     (if rq_Method rq = ''GET'' then (Inr \<lparr>hr_StatusCode = 200, hr_Body = Inr w\<rparr>, w)
      else if rq_Method rq = ''DELETE'' then
        (Inr \<lparr>hr_StatusCode = 200, hr_Body = Inr ''''\<rparr>, filter (\<lambda>ch. rq_URL rq \<noteq> char_path ch ''.json'') w)
      else if rq_Method rq = ''POST'' then
        (case Option.bind (rq_Body rq) (\<lambda>b. map_of b ''username'') of
           Some (JString [c]) \<Rightarrow>
             if (of_char c :: nat) < 128 then (Inr \<lparr>hr_StatusCode = 201, hr_Body = Inr ''''\<rparr>, w @ [char_of (2 * (of_char c :: nat))])
             else (Inr \<lparr>hr_StatusCode = 422, hr_Body = Inr ''''\<rparr>, w)
         | _ \<Rightarrow> (Inr \<lparr>hr_StatusCode = 422, hr_Body = Inr ''''\<rparr>, w))
      else if Option.bind (rq_Body rq) (\<lambda>b. map_of b ''username'') = None then
        (Inr \<lparr>hr_StatusCode = 200, hr_Body = Inr ''''\<rparr>,
         map (\<lambda>ch. if rq_URL rq = char_path ch ''/admin.json'' then char_of (2 * ((of_char ch :: nat) div 2) + 1) else ch) w)
      else (Inr \<lparr>hr_StatusCode = 403, hr_Body = Inr ''''\<rparr>, w))"

definition char_client :: "string threeScaleClient" where
  "char_client = \<lparr>tc_Do = char_portal, tc_wildCardDomain = '''', tc_Users = (\<lambda>s. Inr (map char_user s)), tc_AuthProviders = (\<lambda>s. Inr []),
     tc_Accounts = (\<lambda>s. Inr []), tc_SignUp = (\<lambda>s. Inl (Msg '''')), tc_Id = (\<lambda>f s. Inl (Msg '''')), tc_ProxyConfig = (\<lambda>p s. Inl (Msg '''')),
     tc_XPath = (\<lambda>p s. Inr None)\<rparr>"

lemma Itoa_inject [simp]: "Itoa i = Itoa j \<longleftrightarrow> i = j"
proof
  have minus: "CHR ''-'' # s \<noteq> nat_digits n" for s n using hd_nat_digits [of n] digit_char_not_sign by (metis list.sel(1))
  have inj: "nat_digits m = nat_digits n \<Longrightarrow> m = n" for m n by (metis digits_val_nat_digits option.inject)
  assume "Itoa i = Itoa j"
  then show "i = j" by (auto simp: Itoa_def minus minus [symmetric] split: if_splits dest!: inj)
qed simp

lemma user_path_char [simp]: "user_path char_client i rest = char_path ch rest \<longleftrightarrow> i = ud_Id (char_user ch)"
  by (simp add: user_path_def char_path_def char_client_def)

lemma char_user_promoted: "char_user (char_of (2 * ((of_char ch :: nat) div 2) + 1)) = (char_user ch)\<lparr>ud_Role := adminRole\<rparr>"
proof -
  have "(of_char ch :: nat) < 256" by simp
  then have "2 * ((of_char ch :: nat) div 2) + 1 < 256" by presburger
  then show ?thesis by (simp add: char_user_def Let_def)
qed

lemma char_client_Do: "tc_Do char_client = char_portal"
  by (simp add: char_client_def)

lemma char_calls:
  "GetUsers char_client tok w = (Inr (map char_user w), w)"
  "DeleteUser char_client i tok w = (Inr \<lparr>hr_StatusCode = 200, hr_Body = Inr []\<rparr>, filter (\<lambda>ch. i \<noteq> ud_Id (char_user ch)) w)"
  "UpdateUser char_client i n m tok w = (Inr \<lparr>hr_StatusCode = 403, hr_Body = Inr []\<rparr>, w)"
  "SetUserAsAdmin char_client i tok w =
     (Inr \<lparr>hr_StatusCode = 200, hr_Body = Inr []\<rparr>, map (\<lambda>ch. if i = ud_Id (char_user ch) then char_of (2 * ((of_char ch :: nat) div 2) + 1) else ch) w)"
  "AddUser char_client n m pw tok w = char_portal \<lparr>rq_Method = ''POST'', rq_URL = admin_url char_client @ ''admin/api/users.json'',
     rq_Body = Some [(''access_token'', JString tok), (''username'', JString n), (''email'', JString m), (''password'', JString pw)]\<rparr> w"
proof -
  show "GetUsers char_client tok w = (Inr (map char_user w), w)"
    by (simp add: GetUsers_def http_Get_def char_client_Do char_portal_def read_body_def) (simp add: char_client_def)
qed (simp_all add: DeleteUser_def UpdateUser_def SetUserAsAdmin_def AddUser_def send_request_def char_client_Do char_portal_def)

lemma char_user_added: "(of_char c :: nat) < 128 \<Longrightarrow> ud_Username (char_user (char_of (2 * (of_char c :: nat)))) = [c]"
  by (simp add: char_user_def Let_def)

lemma char_portal_serves: "portal_serves char_client tok (map char_user)"
proof -
  have add: "if accepted 201 (fst (AddUser char_client n m '''' tok w))
      then \<exists>u. map char_user (snd (AddUser char_client n m '''' tok w)) = map char_user w @ [u] \<and> ud_Username u = n
      else map char_user (snd (AddUser char_client n m '''' tok w)) = map char_user w" for n m w
    by (cases n rule: list.exhaust; cases "tl n"; cases "(of_char (hd n) :: nat) < 128")
       (simp_all add: char_calls char_portal_def accepted_def char_user_added)
  have promote: "map char_user (map (\<lambda>ch. if i = ud_Id (char_user ch) then char_of (2 * ((of_char ch :: nat) div 2) + 1) else ch) w) =
      map (\<lambda>u. if ud_Id u = i then u\<lparr>ud_Role := adminRole\<rparr> else u) (map char_user w)" for i w
    by (simp add: char_user_promoted [simplified])
  have remove: "map char_user (filter (\<lambda>ch. i \<noteq> ud_Id (char_user ch)) w) = filter (\<lambda>u. ud_Id u \<noteq> i) (map char_user w)" for i w
    by (induction w) auto
  show ?thesis unfolding portal_serves_def by (intro conjI allI add) (simp_all only: char_calls(1-4) fst_conv snd_conv promote remove, simp_all add: accepted_def)
qed

definition kc_named :: "string \<Rightarrow> KeycloakUser" where
  "kc_named n = (kc_user n ''rhsso'')\<lparr>kcu_User := zero_api_user\<lparr>ku_UserName := n\<rparr>\<rparr>"

definition char_env :: "string tsu_env" where
  "char_env = \<lparr>tu_client = char_client,
     tu_sso = \<lparr>sx_users = \<lparr>us_ListUsers = (\<lambda>w. Inr []), us_ListGroups = (\<lambda>w. Inr []), us_ListIdentities = (\<lambda>w. Inr []), us_ListOAuths = (\<lambda>w. Inr []),
        us_groups = found_api (\<lambda>g. g\<lparr>gr_Users := [''A'']\<rparr>), us_ParseAddress = (\<lambda>s. False)\<rparr>,
      sx_kcusers = found_api id, sx_ListKeycloakUsers = (\<lambda>l n w. Inr [kc_named ''A'', kc_named ''b''])\<rparr>,
     tu_secrets = found_api (\<lambda>s. s\<lparr>so_Data := [(''ADMIN_ACCESS_TOKEN'', ''t''), (''ADMIN_USER'', ''z'')]\<rparr>),
     tu_decode = (\<lambda>s. Inr []), tu_manager = \<lparr>m_Namespace = ''op'', cfgmap = \<lparr>cm_Name = '''', cm_Namespace = '''', cm_Data = None\<rparr>\<rparr>,
     tu_config = NewThreeScale []\<rparr>"

lemma char_env_apart: "cluster_apart char_env users"
  by (simp add: cluster_apart_def reads_quietly_def writes_apart_def char_env_def found_api_def)

text \<open>The character of a name: its code doubled.\<close>

abbreviation coded :: "string \<Rightarrow> string" where "coded s \<equiv> map (\<lambda>c. char_of (2 * (of_char c :: nat))) s"

lemma char_codes [simp]: "char_of (97 :: nat) = CHR ''a''" "char_of (120 :: nat) = CHR ''x''" "char_of (122 :: nat) = CHR ''z''"
  by (simp_all add: char_of_eq_iff)

theorem getUserDiff_exact_witness:
  "reads_quietly (sx_kcusers (tu_sso char_env)) \<and>
   getUserDiff char_env [kcu_User (kc_named ''A''), kcu_User (kc_named ''b'')] (map char_user (coded ''axz'')) (coded ''axz'') =
     (([kcu_User (kc_named ''b'')], map char_user (coded ''xz''), []), coded ''axz'')"
proof -
  have q: "reads_quietly (sx_kcusers (tu_sso char_env))" using char_env_apart unfolding cluster_apart_def by blast
  have rhsso: "ReadRHSSO (tu_decode char_env) (tu_manager char_env) = Inr (NewRHSSO [])"
    by (simp add: ReadRHSSO_def readConfigForProduct_def char_env_def cm_entry_def)
  have none: "\<not> id_recorded char_env ns ks w u" for ns ks w u
    by (simp add: id_recorded_def char_env_def kc_user_def zero_api_user_def tsUserIDInKc_def attribute_def list_ex_iff)
  from q getUserDiff_exact [OF q rhsso refl, of "[kcu_User (kc_named ''A''), kcu_User (kc_named ''b'')]" "map char_user (coded ''axz'')" "coded ''axz''"]
  show ?thesis by (simp add: none kc_named_def zero_api_user_def char_user_def ToLower_def lower_char_def)
qed


theorem threescale_admins_exact_witness:
  "\<exists>w'. syncOpenshiftAdminMembership \<lparr>gr_Name = ''dedicated-admins'', gr_Users = [''A'', ''z'']\<rparr> (map char_user (coded ''axz'')) ''z'' char_client ''t'' (coded ''axz'') = (None, w') \<and>
     map ud_Role (map char_user w') = [''admin'', ''member'', ''member'']"
proof -
  have acc: "accepted 200 (fst (SetUserAsAdmin char_client i ''t'' w))" for i w by (simp add: char_calls accepted_def)
  have ids: "distinct (map ud_Id (map char_user (coded ''axz'')))" by (simp add: char_user_def)
  from threescale_admins_exact [OF char_portal_serves acc ids, of "\<lparr>gr_Name = ''dedicated-admins'', gr_Users = [''A'', ''z'']\<rparr>" "''z''"]
  show ?thesis by (auto simp: char_user_def userIsOpenshiftAdmin_def EqualFold_def ToLower_def lower_char_def)
qed

end
