(* ===== verification/ThreeScale_SSO.thy ===== *)
theory ThreeScale_SSO
  imports ThreeScale_Users
begin

text \<open>
  Single sign-on for the 3scale portals: the Keycloak clients the operator creates (\<^verbatim>\<open>pkg/resources/rhssoClient.go\<close> and
  \<^verbatim>\<open>getKeycloakClientSpec\<close> of \<^verbatim>\<open>pkg/products/threescale/reconciler.go\<close>), the authentication provider of the admin portal
  (\<^verbatim>\<open>reconcileRHSSOIntegration\<close>) and those of the tenants (\<^verbatim>\<open>addAuthProviderToMTAccount\<close>).
\<close>

section \<open>Keycloak clients\<close>

record KeycloakProtocolMapper =
  pm_Name :: string
  pm_Protocol :: string
  pm_ProtocolMapper :: string
  pm_ConsentRequired :: bool
  pm_ConsentText :: string
  pm_Config :: "(string, string) gomap"

record KeycloakAPIClient =
  kac_ID :: string
  kac_ClientID :: string
  kac_Enabled :: bool
  kac_Secret :: string
  kac_ClientAuthenticatorType :: string
  kac_RedirectUris :: "string list"
  kac_StandardFlowEnabled :: bool
  kac_RootURL :: string
  kac_FullScopeAllowed :: bool
  kac_Access :: "(string, bool) gomap"
  kac_ProtocolMappers :: "KeycloakProtocolMapper list"

record KeycloakClient =
  kcl_Name :: string
  kcl_Namespace :: string
  kcl_RealmSelector :: "(string, string) gomap"
  kcl_Client :: "KeycloakAPIClient option"
  kcl_Ready :: bool

definition property_config :: "string \<Rightarrow> string \<Rightarrow> (string, string) gomap" where
  "property_config attr claim =
     [(''userinfo.token.claim'', ''true''), (''user.attribute'', attr), (''id.token.claim'', ''true''), (''access.token.claim'', ''true''),
      (''claim.name'', claim), (''jsonType.label'', ''String'')]"

definition property_mapper :: "string \<Rightarrow> bool \<Rightarrow> string \<Rightarrow> string \<Rightarrow> string \<Rightarrow> KeycloakProtocolMapper" where
  "property_mapper name consent consentText attr claim =
     \<lparr>pm_Name = name, pm_Protocol = ''openid-connect'', pm_ProtocolMapper = ''oidc-usermodel-property-mapper'', pm_ConsentRequired = consent,
      pm_ConsentText = consentText, pm_Config = property_config attr claim\<rparr>"

definition protocolMappers :: "KeycloakProtocolMapper list" where
  "protocolMappers =
     [property_mapper ''given name'' True ''${givenName}'' ''firstName'' ''given_name'',
      property_mapper ''email verified'' True ''${emailVerified}'' ''emailVerified'' ''email_verified'',
      \<lparr>pm_Name = ''full name'', pm_Protocol = ''openid-connect'', pm_ProtocolMapper = ''oidc-full-name-mapper'', pm_ConsentRequired = True,
       pm_ConsentText = ''${fullName}'', pm_Config = [(''id.token.claim'', ''true''), (''access.token.claim'', ''true'')]\<rparr>,
      property_mapper ''family name'' True ''${familyName}'' ''lastName'' ''family_name'',
      \<lparr>pm_Name = ''role list'', pm_Protocol = ''saml'', pm_ProtocolMapper = ''saml-role-list-mapper'', pm_ConsentRequired = False,
       pm_ConsentText = ''${familyName}'', pm_Config = [(''single'', ''false''), (''attribute.nameformat'', ''Basic''), (''attribute.name'', ''Role'')]\<rparr>,
      property_mapper ''email'' True ''${email}'' ''email'' ''email'',
      property_mapper ''org_name'' False ''n.a.'' ''org_name'' ''org_name'']"

text \<open>The client for a root URL; both branches of the source, and the function of the 3scale reconciler, fill the same fields.\<close>

definition api_client :: "string \<Rightarrow> string \<Rightarrow> string \<Rightarrow> string \<Rightarrow> KeycloakAPIClient" where
  "api_client apiClientID clientID clientSecret rootURL =
     \<lparr>kac_ID = apiClientID, kac_ClientID = clientID, kac_Enabled = True, kac_Secret = clientSecret, kac_ClientAuthenticatorType = ''client-secret'',
      kac_RedirectUris = [rootURL @ ''/*''], kac_StandardFlowEnabled = True, kac_RootURL = rootURL, kac_FullScopeAllowed = True,
      kac_Access = [(''view'', True), (''configure'', True), (''manage'', True)], kac_ProtocolMappers = protocolMappers\<rparr>"

definition admin_portal :: "RHMI \<Rightarrow> string" where
  "admin_portal inst = ''https://3scale-admin.'' @ RoutingSubdomain (Spec inst)"

definition getKeycloakClientSpec :: "string \<Rightarrow> string \<Rightarrow> string \<Rightarrow> string \<Rightarrow> RHMI \<Rightarrow> (string, string) gomap \<times> KeycloakAPIClient" where
  "getKeycloakClientSpec apiClientID clientID clientSecret clientURL inst =
     (GetInstanceLabels,
      api_client apiClientID clientID clientSecret (if IsRHOAMMultitenant (Type (Spec inst)) then clientURL else admin_portal inst))"

abbreviation threescale_clientID :: string where "threescale_clientID \<equiv> ''3scale''"
abbreviation rhssoIntegrationName :: string where "rhssoIntegrationName \<equiv> ''rhsso''"
abbreviation multitenantID :: string where "multitenantID \<equiv> ''rhoam-mt''"

definition threescale_getKeycloakClientSpec :: "RHMI \<Rightarrow> string \<Rightarrow> string \<Rightarrow> (string, string) gomap \<times> KeycloakAPIClient" where
  "threescale_getKeycloakClientSpec inst apiClientID clientSecret = (GetInstanceLabels, api_client apiClientID threescale_clientID clientSecret (admin_portal inst))"

definition client_named :: "string \<Rightarrow> string \<Rightarrow> KeycloakClient" where
  "client_named name ns = \<lparr>kcl_Name = name, kcl_Namespace = ns, kcl_RealmSelector = [], kcl_Client = None, kcl_Ready = False\<rparr>"

definition with_spec :: "(string, string) gomap \<times> KeycloakAPIClient \<Rightarrow> KeycloakClient \<Rightarrow> KeycloakClient" where
  "with_spec spec c = c\<lparr>kcl_RealmSelector := fst spec, kcl_Client := Some (snd spec)\<rparr>"

text \<open>The identifier of a client that is there; a client without a specification is a nil dereference.\<close>

definition api_id :: "err option \<Rightarrow> KeycloakClient \<Rightarrow> err + string" where
  "api_id e c =
     (if e \<noteq> None then Inr ''''
      else (case kcl_Client c of None \<Rightarrow> Inl (GoPanic ''nil pointer dereference'') | Some a \<Rightarrow> Inr (kac_ID a)))"

definition put_client ::
  "(KeycloakClient, 'w) kind_api \<Rightarrow> string \<Rightarrow> string \<Rightarrow> (string \<Rightarrow> (string, string) gomap \<times> KeycloakAPIClient) \<Rightarrow> 'w \<Rightarrow> err option \<times> 'w" where
  "put_client clients name ns spec w =
     (case k_Get clients (client_named name ns) w of
        (e, c, w1) \<Rightarrow>
          (case api_id e c of
             Inl p \<Rightarrow> (Some p, w1)
           | Inr i \<Rightarrow>
               (case CreateOrUpdate clients (=) (pure_op (with_spec (spec i))) c w1 of
                  ((r, Some e), c', w2) \<Rightarrow> (Some (Wrap ''could not create/update 3scale keycloak client'' e), w2)
                | ((r, None), c', w2) \<Rightarrow> (None, w2))))"

definition CreateRHSSOClient ::
  "'w tsu_env \<Rightarrow> (KeycloakClient, 'w) kind_api \<Rightarrow> RHMI \<Rightarrow> string \<Rightarrow> string \<Rightarrow> string \<Rightarrow> 'w phase_op" where
  "CreateRHSSOClient env clients inst clientID clientSecret clientURL w =
     (case ReadRHSSO (tu_decode env) (tu_manager env) of
        Inl e \<Rightarrow> ((PhaseFailed, Some e), w)
      | Inr rhssoConfig \<Rightarrow>
          (let ns = RHSSOCommon_GetNamespace (rhsso_common rhssoConfig) in
           if ns = '''' \<or> RHSSOCommon_GetRealm (rhsso_common rhssoConfig) = '''' then ((PhaseInProgress, None), w)
           else (case put_client clients clientID ns (\<lambda>i. getKeycloakClientSpec i clientID clientSecret clientURL inst) w of
                   (Some e, w1) \<Rightarrow> ((PhaseFailed, Some e), w1)
                 | (None, w1) \<Rightarrow> ((PhaseCompleted, None), w1))))"

section \<open>The admin portal\<close>

definition keyed_secret :: "string \<Rightarrow> string \<Rightarrow> SecretObject" where
  "keyed_secret name ns = \<lparr>so_Name = name, so_Namespace = ns, so_Type = '''', so_Data = []\<rparr>"

definition getOauthClientSecret :: "'w tsu_env \<Rightarrow> 'w \<Rightarrow> (err + string) \<times> 'w" where
  "getOauthClientSecret env w =
     (case k_Get (tu_secrets env) (keyed_secret ''oauth-client-secrets'' (m_Namespace (tu_manager env))) w of
        (Some e, s, w1) \<Rightarrow> (Inl (Wrap ''could not find oauth-client-secrets Secret'' e), w1)
      | (None, s, w1) \<Rightarrow>
          (case map_of (so_Data s) Product3Scale of
             None \<Rightarrow> (Inl (Msg (''could not find '' @ Product3Scale @ '' key in '' @ so_Name s @ '' Secret'')), w1)
           | Some v \<Rightarrow> (Inr v, w1)))"

definition sso_site :: "RHSSO \<Rightarrow> string" where
  "sso_site rhssoConfig = RHSSOCommon_GetHost (rhsso_common rhssoConfig) @ ''/auth/realms/'' @ RHSSOCommon_GetRealm (rhsso_common rhssoConfig)"

text \<open>The provider is looked up by its name only; an answer other than 201 to its creation is not an error.\<close>

definition ensure_admin_provider :: "'w tsu_env \<Rightarrow> RHSSO \<Rightarrow> string \<Rightarrow> string \<Rightarrow> 'w phase_op" where
  "ensure_admin_provider env rhssoConfig clientSecret tok w =
     (case GetAuthenticationProviderByName (tu_client env) rhssoIntegrationName tok w of
        (Inr p, w1) \<Rightarrow> ((PhaseCompleted, None), w1)
      | (Inl e, w1) \<Rightarrow>
          if \<not> tsIsNotFoundError e then ((PhaseInProgress, Some (case e of TsError m c \<Rightarrow> Msg m | GoError g \<Rightarrow> g)), w1)
          else (case AddAuthenticationProvider (tu_client env)
                       [(''kind'', ''keycloak''), (''name'', rhssoIntegrationName), (''client_id'', threescale_clientID), (''client_secret'', clientSecret),
                        (''site'', sso_site rhssoConfig), (''skip_ssl_certificate_verification'', ''true''), (''published'', ''true'')] tok w1 of
                  (Inl e, w2) \<Rightarrow> ((PhaseInProgress, Some e), w2)
                | (Inr res, w2) \<Rightarrow> ((if hr_StatusCode res \<noteq> 201 then PhaseInProgress else PhaseCompleted, None), w2)))"

definition reconcileRHSSOIntegration :: "'w tsu_env \<Rightarrow> (KeycloakClient, 'w) kind_api \<Rightarrow> RHMI \<Rightarrow> 'w phase_op" where
  "reconcileRHSSOIntegration env clients inst w =
     (case ReadRHSSO (tu_decode env) (tu_manager env) of
        Inl e \<Rightarrow> ((PhaseFailed, Some e), w)
      | Inr rhssoConfig \<Rightarrow>
          (let ns = RHSSOCommon_GetNamespace (rhsso_common rhssoConfig) in
           if ns = '''' \<or> RHSSOCommon_GetRealm (rhsso_common rhssoConfig) = '''' then ((PhaseInProgress, None), w)
           else (case k_Get clients (client_named threescale_clientID ns) w of
                   (e, c, w1) \<Rightarrow>
                     (case api_id e c of
                        Inl p \<Rightarrow> ((PhaseFailed, Some p), w1)
                      | Inr i \<Rightarrow>
                          (case getOauthClientSecret env w1 of
                             (Inl e, w2) \<Rightarrow> ((PhaseFailed, Some e), w2)
                           | (Inr clientSecret, w2) \<Rightarrow>
                               (case CreateOrUpdate clients (=) (pure_op (with_spec (threescale_getKeycloakClientSpec inst i clientSecret))) c w2 of
                                  ((r, Some e), c', w3) \<Rightarrow> ((PhaseFailed, Some (Wrap ''could not create/update 3scale keycloak client'' e)), w3)
                                | ((r, None), c', w3) \<Rightarrow>
                                    (case GetAdminToken env w3 of
                                       (Inl e, w4) \<Rightarrow> ((PhaseInProgress, Some e), w4)
                                     | (Inr tok, w4) \<Rightarrow> ensure_admin_provider env rhssoConfig clientSecret tok w4)))))))"

section \<open>The portals of tenants\<close>

definition integration_of :: "string \<Rightarrow> string" where
  "integration_of tenantID = rhssoIntegrationName @ ''-'' @ multitenantID @ ''-'' @ tenantID"

definition tenant_provider :: "RHSSO \<Rightarrow> string \<Rightarrow> string \<Rightarrow> AuthProviderDetails" where
  "tenant_provider rhssoConfig tenantID secret =
     zero_provider\<lparr>ap_Kind := ''keycloak'', ap_Name := integration_of tenantID, ap_ClientId := multitenantID @ ''-'' @ tenantID, ap_ClientSecret := secret,
       ap_Site := sso_site rhssoConfig, ap_SkipSSLCertificateVerification := True, ap_Published := True, ap_SystemName := multitenantID @ ''-'' @ tenantID\<rparr>"

text \<open>
  The secret of the tenant's client is read; the update that follows changes the resource version only, so that it is always sent.
  The phase of \<^verbatim>\<open>CreateRHSSOClient\<close> is dropped.
\<close>

definition tenant_secret :: "'w tsu_env \<Rightarrow> RHMI \<Rightarrow> string \<Rightarrow> 'w \<Rightarrow> (err + string) \<times> 'w" where
  "tenant_secret env inst tenantID w =
     (case k_Get (tu_secrets env) (keyed_secret ''tenant-oauth-client-secrets'' (Namespace inst)) w of
        (Some e, s, w1) \<Rightarrow> (Inl (Wrap ''could not find tenant-oauth-client-secrets Secret'' e), w1)
      | (None, s, w1) \<Rightarrow>
          (case map_of (so_Data s) tenantID of
             None \<Rightarrow> (Inl (Msg (''could not find '' @ tenantID @ '' key in '' @ so_Name s @ '' Secret: %!w(<nil>)'')), w1)
           | Some secret \<Rightarrow>
               (case CreateOrUpdate (tu_secrets env) (\<lambda>a b. False) (pure_op id) s w1 of
                  ((r, Some e), s', w2) \<Rightarrow> (Inl (Wrap ''error creating or updating RHSSO secret clients '' e), w2)
                | ((r, None), s', w2) \<Rightarrow> (Inr secret, w2))))"

definition addAuthProviderToMTAccount :: "'w tsu_env \<Rightarrow> (KeycloakClient, 'w) kind_api \<Rightarrow> RHMI \<Rightarrow> SignUpAccount \<Rightarrow> 'w \<Rightarrow> err option \<times> 'w" where
  "addAuthProviderToMTAccount env clients inst account w =
     (let tenantID = ad_OrgName (sa_AccountDetail account); tok = aa_Value (sa_AccountAccessToken account) in
      case IsAuthProviderAdded (tu_client env) tok (integration_of tenantID) (sa_AccountDetail account) w of
        (Inl e, w1) \<Rightarrow> (Some e, w1)
      | (Inr True, w1) \<Rightarrow> (None, w1)
      | (Inr False, w1) \<Rightarrow>
          (case tenant_secret env inst tenantID w1 of
             (Inl e, w2) \<Rightarrow> (Some e, w2)
           | (Inr secret, w2) \<Rightarrow>
               (case ReadRHSSO (tu_decode env) (tu_manager env) of
                  Inl e \<Rightarrow> (Some (Wrap ''error getting RHSSO config'' e), w2)
                | Inr rhssoConfig \<Rightarrow>
                    (case CreateRHSSOClient env clients inst (multitenantID @ ''-'' @ tenantID) secret (ad_AdminBaseURL (sa_AccountDetail account)) w2 of
                       ((phase, Some e), w3) \<Rightarrow> (Some (Wrap ''failed to create RHSSO client'' e), w3)
                     | ((phase, None), w3) \<Rightarrow>
                         (case AddAuthProviderToAccount (tu_client env) tok (sa_AccountDetail account) (tenant_provider rhssoConfig tenantID secret) w3 of
                            (Some e, w4) \<Rightarrow> (Some (Wrap ''failed to add auth provider to account'' e), w4)
                          | (None, w4) \<Rightarrow> (None, w4))))))"

lemmas ts_sso_defs [go_defs] = put_client_def CreateRHSSOClient_def getOauthClientSecret_def ensure_admin_provider_def reconcileRHSSOIntegration_def
  tenant_secret_def addAuthProviderToMTAccount_def

section \<open>Properties\<close>

text \<open>For an installation without tenants the two functions of the source that describe a client agree.\<close>

lemma client_specs_agree:
  "\<not> IsRHOAMMultitenant (Type (Spec inst)) \<Longrightarrow> getKeycloakClientSpec i threescale_clientID s url inst = threescale_getKeycloakClientSpec inst i s"
  by (simp add: getKeycloakClientSpec_def threescale_getKeycloakClientSpec_def)

text \<open>A client that has been written is there, and keeps the identifier Keycloak gave it.\<close>

lemma client_written:
  assumes srv: "stores clients" and get: "k_Get clients q w = (e, c, w1)" and i: "api_id e c = Inr i"
    and run: "CreateOrUpdate clients (=) (pure_op (with_spec spec)) c w2 = ((r, None), c', w3)"
  shows "k_Get clients q w3 = (None, c', w3) \<and> kcl_Client c' = Some (snd spec) \<and> (e = None \<longrightarrow> map_option kac_ID (kcl_Client c) = Some i)"
proof -
  have "\<exists>x. pure_op (with_spec spec) x w2 = (None, c', w2) \<and> k_Get clients c w3 = (None, c', w3)"
    using CreateOrUpdate_written [OF srv run] by (auto simp: pure_op_def)
  then obtain x where c': "c' = with_spec spec x" and get3: "k_Get clients c w3 = (None, c', w3)" by (auto simp: pure_op_def)
  have "k_Key clients q = k_Key clients c" using stores_get(2) [OF srv get] by simp
  then have "k_Get clients q w3 = (None, c', w3)" by (rule stores_get(3) [OF srv get3 refl])
  moreover have "e = None \<longrightarrow> map_option kac_ID (kcl_Client c) = Some i" using i by (auto simp: api_id_def split: option.splits if_splits)
  ultimately show ?thesis by (simp add: c' with_spec_def)
qed

lemma put_client_stored:
  assumes "stores clients" and "put_client clients name ns spec w = (None, w')"
  shows "\<exists>i c. k_Get clients (client_named name ns) w' = (None, c, w') \<and> kcl_Client c = Some (snd (spec i))"
proof -
  obtain e c w1 where get: "k_Get clients (client_named name ns) w = (e, c, w1)" by (metis surj_pair)
  with assms(2) obtain i r c' where i: "api_id e c = Inr i" and run: "CreateOrUpdate clients (=) (pure_op (with_spec (spec i))) c w1 = ((r, None), c', w')"
    by (auto simp: put_client_def split: sum.splits prod.splits option.splits)
  from client_written [OF assms(1) get i run] show ?thesis by blast
qed


text \<open>
  The single sign-on of the admin portal: when its reconciliation completes, the Keycloak client has been written with the secret of
  the operator and with the identifier it had, and the portal has a provider of the name or has accepted one with that same secret.
\<close>

theorem rhsso_integration_completed:
  assumes srv: "stores clients" and run: "reconcileRHSSOIntegration env clients inst w = ((PhaseCompleted, None), w')"
  shows "\<exists>rhsso ns secret i c v tok. ReadRHSSO (tu_decode env) (tu_manager env) = Inr rhsso \<and> ns = RHSSOCommon_GetNamespace (rhsso_common rhsso) \<and>
     k_Get clients (client_named threescale_clientID ns) v = (None, c, v) \<and> kcl_Client c = Some (api_client i threescale_clientID secret (admin_portal inst)) \<and>
     (\<forall>c0 w0. k_Get clients (client_named threescale_clientID ns) w = (None, c0, w0) \<longrightarrow> map_option kac_ID (kcl_Client c0) = Some i) \<and>
     ((\<exists>p u. GetAuthenticationProviderByName (tu_client env) rhssoIntegrationName tok u = (Inr p, w')) \<or>
      (\<exists>res u. AddAuthenticationProvider (tu_client env)
         [(''kind'', ''keycloak''), (''name'', rhssoIntegrationName), (''client_id'', threescale_clientID), (''client_secret'', secret),
          (''site'', sso_site rhsso), (''skip_ssl_certificate_verification'', ''true''), (''published'', ''true'')] tok u = (Inr res, w') \<and> hr_StatusCode res = 201))"
proof -
  obtain rhsso where rhsso: "ReadRHSSO (tu_decode env) (tu_manager env) = Inr rhsso" using run by (auto simp: reconcileRHSSOIntegration_def split: sum.splits)
  let ?ns = "RHSSOCommon_GetNamespace (rhsso_common rhsso)"
  obtain e c w1 where get: "k_Get clients (client_named threescale_clientID ?ns) w = (e, c, w1)" by (metis surj_pair)
  obtain i secret w2 r c' w3 tok w4 where i: "api_id e c = Inr i"
    and cou: "CreateOrUpdate clients (=) (pure_op (with_spec (threescale_getKeycloakClientSpec inst i secret))) c w2 = ((r, None), c', w3)"
    and ens: "ensure_admin_provider env rhsso secret tok w4 = ((PhaseCompleted, None), w')"
    using run rhsso get by (auto simp: reconcileRHSSOIntegration_def Let_def split: sum.splits prod.splits option.splits if_splits)
  from client_written [OF srv get i cou] have c': "k_Get clients (client_named threescale_clientID ?ns) w3 = (None, c', w3)"
    "kcl_Client c' = Some (api_client i threescale_clientID secret (admin_portal inst))" "e = None \<longrightarrow> map_option kac_ID (kcl_Client c) = Some i"
    by (simp_all add: threescale_getKeycloakClientSpec_def)
  have prov: "(\<exists>p u. GetAuthenticationProviderByName (tu_client env) rhssoIntegrationName tok u = (Inr p, w')) \<or>
      (\<exists>res u. AddAuthenticationProvider (tu_client env)
         [(''kind'', ''keycloak''), (''name'', rhssoIntegrationName), (''client_id'', threescale_clientID), (''client_secret'', secret),
          (''site'', sso_site rhsso), (''skip_ssl_certificate_verification'', ''true''), (''published'', ''true'')] tok u = (Inr res, w') \<and> hr_StatusCode res = 201)"
    using ens unfolding ensure_admin_provider_def by (auto split: prod.splits sum.splits if_splits)
  have "\<forall>c0 w0. k_Get clients (client_named threescale_clientID ?ns) w = (None, c0, w0) \<longrightarrow> map_option kac_ID (kcl_Client c0) = Some i"
    using get c'(3) by simp
  with rhsso c'(1,2) prov show ?thesis by blast
qed

section \<open>Witnesses\<close>

text \<open>A portal that serves reads, accepts what is posted and put, and refuses deletions; the cluster holds one Keycloak client.\<close>

definition kind_client :: "'w threeScaleClient" where
  "kind_client = \<lparr>tc_Do = (\<lambda>rq w. (Inr \<lparr>hr_StatusCode = (if rq_Method rq = ''POST'' then 201 else if rq_Method rq = ''DELETE'' then 403 else 200), hr_Body = Inr ''''\<rparr>, w)),
     tc_wildCardDomain = ''apps'', tc_Users = (\<lambda>s. Inr []), tc_AuthProviders = (\<lambda>s. Inr []), tc_Accounts = (\<lambda>s. Inr []), tc_SignUp = (\<lambda>s. Inl (Msg '''')),
     tc_Id = (\<lambda>f s. Inl (Msg '''')), tc_ProxyConfig = (\<lambda>p s. Inl (Msg '''')), tc_XPath = (\<lambda>p s. Inr None)\<rparr>"

definition kind_env :: "'w tsu_env" where
  "kind_env = \<lparr>tu_client = kind_client,
     tu_sso = \<lparr>sx_users = \<lparr>us_ListUsers = (\<lambda>w. Inr []), us_ListGroups = (\<lambda>w. Inr []), us_ListIdentities = (\<lambda>w. Inr []), us_ListOAuths = (\<lambda>w. Inr []),
        us_groups = found_api id, us_ParseAddress = (\<lambda>s. False)\<rparr>, sx_kcusers = found_api id, sx_ListKeycloakUsers = (\<lambda>l n w. Inr [])\<rparr>,
     tu_secrets = found_api (\<lambda>s. s\<lparr>so_Data := [(''acme'', ''hush''), (''3scale'', ''hush''), (''ADMIN_ACCESS_TOKEN'', ''t'')]\<rparr>),
     tu_decode = (\<lambda>s. Inr [(''NAMESPACE'', ''rhsso''), (''REALM'', ''openshift''), (''HOST'', ''https://sso'')]),
     tu_manager = \<lparr>m_Namespace = ''op'', cfgmap = \<lparr>cm_Name = '''', cm_Namespace = '''', cm_Data = Some [(ProductRHSSO, ''c'')]\<rparr>\<rparr>, tu_config = NewThreeScale []\<rparr>"

definition acme :: AccountDetail where
  "acme = \<lparr>ad_Id = 7, ad_Name = ''acme'', ad_OrgName = ''acme'', ad_AdminBaseURL = ''https://acme'', ad_State = ''approved'', ad_Users = []\<rparr>"

abbreviation acme_signup :: SignUpAccount where
  "acme_signup \<equiv> \<lparr>sa_AccountDetail = acme, sa_AccountAccessToken = \<lparr>aa_Id = 0, aa_Name = '''', aa_Value = ''tok''\<rparr>\<rparr>"

abbreviation tenants_inst :: RHMI where
  "tenants_inst \<equiv> zero_rhmi\<lparr>Spec := zero_spec\<lparr>Type := InstallationTypeMultitenantManagedApi\<rparr>\<rparr>"

abbreviation client_api :: "(KeycloakClient, KeycloakClient option) kind_api" where
  "client_api \<equiv> sample_api (\<lambda>c. (kcl_Namespace c, kcl_Name c))"

lemma kind_rhsso:
  "ReadRHSSO (tu_decode kind_env) (tu_manager kind_env) = Inr (NewRHSSO [(''NAMESPACE'', ''rhsso''), (''REALM'', ''openshift''), (''HOST'', ''https://sso'')])"
  by (simp add: ReadRHSSO_def readConfigForProduct_def kind_env_def cm_entry_def)

lemma kind_not_added: "IsAuthProviderAdded (tu_client kind_env) tok name account w = (Inr False, w)"
  by (simp add: IsAuthProviderAdded_def kind_env_def kind_client_def with_status_def send_request_def assertStatusCode_def read_body_def)

lemma kind_add: "AddAuthProviderToAccount (tu_client kind_env) tok account p w = (None, w)"
  by (simp add: AddAuthProviderToAccount_def kind_env_def kind_client_def send_request_def assertStatusCode_def)

lemma kind_secret: "tenant_secret kind_env inst ''acme'' w = (Inr ''hush'', w)"
  by (simp add: tenant_secret_def kind_env_def CreateOrUpdate_found)

lemma kind_names: "RHSSOCommon_GetNamespace (rhsso_common (NewRHSSO [(''NAMESPACE'', ''rhsso''), (''REALM'', ''openshift''), (''HOST'', ''https://sso'')])) = ''rhsso''"
  "RHSSOCommon_GetRealm (rhsso_common (NewRHSSO [(''NAMESPACE'', ''rhsso''), (''REALM'', ''openshift''), (''HOST'', ''https://sso'')])) = ''openshift''"
  by (simp_all add: RHSSOCommon_GetNamespace_def RHSSOCommon_GetRealm_def NewRHSSO_def NewRHSSOCommon_def)


end
