(* ===== verification/ThreeScale_Tenants.thy ===== *)
theory ThreeScale_Tenants
  imports ThreeScale_SSO "HOL-Library.Multiset"
begin

text \<open>
  Tenants of a multi-tenant installation (\<^verbatim>\<open>reconcile3scaleMultiTenancy\<close> and what it calls in
  \<^verbatim>\<open>pkg/products/threescale/reconciler.go\<close>, with \<^verbatim>\<open>pkg/resources/password.go\<close>): the accounts of the portal, their configuration,
  the ones that are created and deleted, their tokens and passwords. The slice of accounts is an array with a length, since the
  loop over it removes elements in place while it ranges over the array.
\<close>

section \<open>Passwords\<close>

definition lowerCharSet :: string where "lowerCharSet = ''abcdedfghijklmnopqrst''"
definition upperCharSet :: string where "upperCharSet = ''ABCDEFGHIJKLMNOPQRSTUVWXYZ''"
definition specialCharSet :: string where "specialCharSet = ''!@#$%&*''"
definition numberSet :: string where "numberSet = ''0123456789''"
definition allCharSet :: string where "allCharSet = lowerCharSet @ upperCharSet @ specialCharSet @ numberSet"

text \<open>
  The source of random numbers: \<open>draw k n\<close> is the \<open>k\<close>-th draw below \<open>n\<close>, or its failure; the shuffle is that of \<^verbatim>\<open>math/rand\<close>.
\<close>

fun pick_chars :: "(nat \<Rightarrow> nat \<Rightarrow> nat option) \<Rightarrow> string \<Rightarrow> nat \<Rightarrow> nat \<Rightarrow> string option" where
  "pick_chars draw cs k 0 = Some []"
| "pick_chars draw cs k (Suc n) =
     (case draw k (length cs) of
        None \<Rightarrow> None
      | Some i \<Rightarrow> map_option ((#) (cs ! i)) (pick_chars draw cs (Suc k) n))"

definition GenerateRandomPassword :: "(nat \<Rightarrow> nat \<Rightarrow> nat option) \<Rightarrow> (string \<Rightarrow> string) \<Rightarrow> nat \<Rightarrow> nat \<Rightarrow> nat \<Rightarrow> nat \<Rightarrow> string" where
  "GenerateRandomPassword draw shuffle passwordLength minSpecialChar minNum minUpperCase =
     (case pick_chars draw specialCharSet 0 minSpecialChar of
        None \<Rightarrow> ''''
      | Some s1 \<Rightarrow>
          (case pick_chars draw numberSet minSpecialChar minNum of
             None \<Rightarrow> ''''
           | Some s2 \<Rightarrow>
               (case pick_chars draw upperCharSet (minSpecialChar + minNum) minUpperCase of
                  None \<Rightarrow> ''''
                | Some s3 \<Rightarrow>
                    (case pick_chars draw allCharSet (minSpecialChar + minNum + minUpperCase) (passwordLength - minSpecialChar - minNum - minUpperCase) of
                       None \<Rightarrow> ''''
                     | Some s4 \<Rightarrow> shuffle (s1 @ s2 @ s3 @ s4)))))"

section \<open>Environment\<close>

text \<open>Secrets whose data may be nil: writing to them panics.\<close>

record KeyedSecret =
  ks_Name :: string
  ks_Namespace :: string
  ks_Data :: "(string, string) gomap option"

record DashboardLink =
  dl_Name :: string
  dl_Location :: string
  dl_Href :: string
  dl_Text :: string
  dl_Namespaces :: "string list"

record 'w tenants_env =
  tn_base :: "'w tsu_env"
  tn_users :: "'w user_env"
  tn_userObjects :: "(User, 'w) kind_api"
  tn_secrets :: "(KeyedSecret, 'w) kind_api"
  tn_configMaps :: "(ConfigMap, 'w) kind_api"
  tn_clients :: "(KeycloakClient, 'w) kind_api"
  tn_links :: "(DashboardLink, 'w) kind_api"
  tn_ListKeycloakUsers :: "string \<Rightarrow> 'w \<Rightarrow> err + KeycloakUser list"
  tn_ListKeycloakClients :: "string \<Rightarrow> 'w \<Rightarrow> err + KeycloakClient list"
  tn_draw :: "'w \<Rightarrow> nat \<Rightarrow> nat \<Rightarrow> nat option"
  tn_shuffle :: "'w \<Rightarrow> string \<Rightarrow> string"

abbreviation tn_client :: "'w tenants_env \<Rightarrow> 'w threeScaleClient" where "tn_client env \<equiv> tu_client (tn_base env)"
abbreviation tn_namespace :: "'w tenants_env \<Rightarrow> string" where "tn_namespace env \<equiv> ThreeScale_GetNamespace (tu_config (tn_base env))"

section \<open>Differences\<close>

definition accountExists :: "string \<Rightarrow> AccountDetail list \<Rightarrow> bool" where
  "accountExists tenant accounts \<longleftrightarrow> list_ex (\<lambda>acc. tenant = ad_OrgName acc \<and> ad_State acc = ''approved'') accounts"

definition new_account :: "string \<Rightarrow> AccountDetail" where
  "new_account tenant = \<lparr>ad_Id = 0, ad_Name = tenant, ad_OrgName = tenant, ad_AdminBaseURL = '''', ad_State = '''', ad_Users = []\<rparr>"

definition getMTAccountsToBeCreated :: "(string \<Rightarrow> bool) \<Rightarrow> MultiTenantUser list \<Rightarrow> AccountDetail list \<Rightarrow> (AccountDetail \<times> string) list" where
  "getMTAccountsToBeCreated parse identities accounts =
     map (\<lambda>i. (new_account (mt_TenantName i), if mt_Email i \<noteq> '''' then mt_Email i else SetUserNameAsEmail parse (mt_TenantName i)))
       (filter (\<lambda>i. \<not> list_ex (\<lambda>a. ad_OrgName a = mt_TenantName i) accounts) identities)"

definition getMTAccountsToBeDeleted :: "MultiTenantUser list \<Rightarrow> AccountDetail list \<Rightarrow> AccountDetail list" where
  "getMTAccountsToBeDeleted identities accounts = filter (\<lambda>a. \<not> list_ex (\<lambda>i. ad_OrgName a = mt_TenantName i) identities) accounts"

section \<open>Secrets and ConfigMaps\<close>

definition getAccessTokenSecret :: "'w tenants_env \<Rightarrow> 'w \<Rightarrow> (err + KeyedSecret) \<times> 'w" where
  "getAccessTokenSecret env w =
     (case k_Get (tn_secrets env) \<lparr>ks_Name = ''mt-signupaccount-3scale-access-token'', ks_Namespace = tn_namespace env, ks_Data = None\<rparr> w of
        (None, s, w1) \<Rightarrow> (Inr s, w1)
      | (Some e, s, w1) \<Rightarrow>
          (if IsNotFound (Some e) then Inr (s\<lparr>ks_Data := Some []\<rparr>) else Inl (Wrap ''error getting access token secret'' e), w1))"

definition getAccountsCreatedCM :: "'w tenants_env \<Rightarrow> 'w \<Rightarrow> (err + ConfigMap) \<times> 'w" where
  "getAccountsCreatedCM env w =
     (case k_Get (tn_configMaps env) \<lparr>cm_Name = ''tenants-created'', cm_Namespace = tn_namespace env, cm_Data = None\<rparr> w of
        (None, c, w1) \<Rightarrow> (Inr c, w1)
      | (Some e, c, w1) \<Rightarrow>
          (if IsNotFound (Some e) then Inr (c\<lparr>cm_Data := Some []\<rparr>) else Inl (Wrap ''error getting accounts created configmap'' e), w1))"

definition passwords_secret :: "'w tenants_env \<Rightarrow> KeyedSecret" where
  "passwords_secret env = \<lparr>ks_Name = ''tenant-account-passwords'', ks_Namespace = tn_namespace env, ks_Data = None\<rparr>"

definition drop_password :: "string \<Rightarrow> KeyedSecret \<Rightarrow> KeyedSecret" where
  "drop_password name s = s\<lparr>ks_Data := map_option (AList.delete name) (ks_Data s)\<rparr>"

definition removeTenantAccountPassword :: "'w tenants_env \<Rightarrow> AccountDetail \<Rightarrow> 'w \<Rightarrow> err option \<times> 'w" where
  "removeTenantAccountPassword env account w =
     (case k_Get (tn_secrets env) (passwords_secret env) w of
        (e, s, w1) \<Rightarrow>
          if e \<noteq> None \<and> \<not> IsNotFound e then (e, w1)
          else (case CreateOrUpdate (tn_secrets env) (=) (pure_op (drop_password (ad_OrgName account))) s w1 of
                  ((r, Some e), s', w2) \<Rightarrow> (Some (Wrap ''error occurred while removing tenant Account password'' e), w2)
                | ((r, None), s', w2) \<Rightarrow> (None, w2)))"

text \<open>The mutation puts a new password where there is none; the variable \<^verbatim>\<open>pw\<close> is its second result.\<close>

definition password_of :: "'w tenants_env \<Rightarrow> string \<Rightarrow> KeyedSecret \<Rightarrow> 'w \<Rightarrow> string" where
  "password_of env name s w =
     (case Option.bind (ks_Data s) (\<lambda>d. map_of d name) of
        None \<Rightarrow> GenerateRandomPassword (tn_draw env w) (tn_shuffle env w) 20 2 2 2
      | Some pw \<Rightarrow> pw)"

definition put_password :: "'w tenants_env \<Rightarrow> string \<Rightarrow> (KeyedSecret, 'w) op" where
  "put_password env name s w =
     (let d = (case ks_Data s of None \<Rightarrow> [] | Some d \<Rightarrow> d);
          s' = s\<lparr>ks_Data := Some (if map_of d name = None then gset name (password_of env name s w) d else d)\<rparr>
      in (if password_of env name s w = '''' then Some (Msg ''failed to generate password'') else None, s', w))"

definition getTenantAccountPassword :: "'w tenants_env \<Rightarrow> AccountDetail \<Rightarrow> 'w \<Rightarrow> (err + string) \<times> 'w" where
  "getTenantAccountPassword env account w =
     (case k_Get (tn_secrets env) (passwords_secret env) w of
        (e, s, w1) \<Rightarrow>
          if e \<noteq> None \<and> \<not> IsNotFound e then (Inl (the e), w1)
          else (let pw = (case k_Get (tn_secrets env) s w1 of (e2, s2, w2) \<Rightarrow> password_of env (ad_Name account) s2 w2) in
                case CreateOrUpdate (tn_secrets env) (=) (put_password env (ad_Name account)) s w1 of
                  ((r, Some e), s', w2) \<Rightarrow> (Inl (Wrap ''error occurred while creating or updating tenant Account Secret'' e), w2)
                | ((r, None), s', w2) \<Rightarrow> (Inr pw, w2)))"

section \<open>One account\<close>

definition dashboard_link :: "string \<Rightarrow> string \<Rightarrow> DashboardLink \<Rightarrow> DashboardLink" where
  "dashboard_link username tenantLink l =
     l\<lparr>dl_Location := ''NamespaceDashboard'', dl_Href := tenantLink, dl_Text := ''API Management'', dl_Namespaces := [username @ ''-stage'', username @ ''-dev'']\<rparr>"

definition reconcileDashboardLink :: "'w tenants_env \<Rightarrow> string \<Rightarrow> string \<Rightarrow> 'w \<Rightarrow> err option \<times> 'w" where
  "reconcileDashboardLink env username tenantLink w =
     (case CreateOrUpdate (tn_links env) (=) (pure_op (dashboard_link username tenantLink))
             \<lparr>dl_Name = username @ ''-3scale'', dl_Location = '''', dl_Href = '''', dl_Text = '''', dl_Namespaces = []\<rparr> w of
        ((r, Some e), l, w1) \<Rightarrow> (Some (Msg (''error reconciling console link: '' @ err_string e)), w1)
      | ((r, None), l, w1) \<Rightarrow> (None, w1))"

definition addSSOReadyAnnotationToUser :: "'w tenants_env \<Rightarrow> string \<Rightarrow> 'w \<Rightarrow> err option \<times> 'w" where
  "addSSOReadyAnnotationToUser env name w =
     (case k_Get (tn_userObjects env) \<lparr>u_Name = name, u_UID = '''', u_Annotations = None, u_Identities = []\<rparr> w of
        (Some e, u, w1) \<Rightarrow> (Some (Msg (''error getting user '' @ name @ '': '' @ err_string e)), w1)
      | (None, u, w1) \<Rightarrow>
          (case CreateOrUpdate (tn_userObjects env) (=)
                  (pure_op (\<lambda>x. x\<lparr>u_Annotations := Some (gset ''ssoReady'' ''yes'' (case u_Annotations x of None \<Rightarrow> [] | Some a \<Rightarrow> a))\<rparr>)) u w1 of
             ((r, Some e), u', w2) \<Rightarrow> (Some (Msg (''failed to add ssoReady annotation to user '' @ u_Name u' @ '': '' @ err_string e)), w2)
           | ((r, None), u', w2) \<Rightarrow> (None, w2)))"

definition getKeycloakUserFromAccount :: "'w tenants_env \<Rightarrow> RHMI \<Rightarrow> string \<Rightarrow> 'w \<Rightarrow> err + KeycloakUser" where
  "getKeycloakUserFromAccount env inst accountName w =
     (case tn_ListKeycloakUsers env (NamespacePrefix (Spec inst) @ ''rhsso'') w of
        Inl e \<Rightarrow> Inl (Msg (''failed to get list of KeycloakUsers, err: '' @ err_string e))
      | Inr us \<Rightarrow>
          (case List.find (\<lambda>k. ku_UserName (kcu_User k) = accountName) us of
             None \<Rightarrow> Inl (Msg (''failed to find the KeycloakUser for '' @ accountName))
           | Some k \<Rightarrow> Inr k))"

definition getKeycloakClientFromAccount :: "'w tenants_env \<Rightarrow> RHMI \<Rightarrow> string \<Rightarrow> 'w \<Rightarrow> err + KeycloakClient" where
  "getKeycloakClientFromAccount env inst accountName w =
     (case tn_ListKeycloakClients env (NamespacePrefix (Spec inst) @ ''rhsso'') w of
        Inl e \<Rightarrow> Inl (Msg (''failed to get list of KeycloakClients, err: '' @ err_string e))
      | Inr cs \<Rightarrow>
          (case List.find (\<lambda>c. StrContains (kcl_Name c) accountName) cs of
             None \<Rightarrow> Inl (Msg (''failed to find the KeycloakClient for '' @ accountName))
           | Some c \<Rightarrow> Inr c))"

text \<open>Every pending user is tried, whatever became of the ones before.\<close>

fun activate_users :: "'w threeScaleClient \<Rightarrow> string \<Rightarrow> int \<Rightarrow> XMLUserDetails list \<Rightarrow> 'w \<Rightarrow> bool \<times> 'w" where
  "activate_users tsc tok accountId [] w = (True, w)"
| "activate_users tsc tok accountId (u # us) w =
     (if xu_State u = ''pending''
      then (case ActivateUser tsc tok accountId (xu_Id u) w of
              (e, w1) \<Rightarrow> (case activate_users tsc tok accountId us w1 of (ok, w2) \<Rightarrow> (e = None \<and> ok, w2)))
      else activate_users tsc tok accountId us w)"

text \<open>An error is wrapped on its way out; a panic is not.\<close>

definition wrap_error :: "string \<Rightarrow> err \<Rightarrow> err" where
  "wrap_error m e = (case e of GoPanic p \<Rightarrow> e | _ \<Rightarrow> Wrap m e)"

definition mark_created :: "'w tenants_env \<Rightarrow> string \<Rightarrow> ConfigMap \<Rightarrow> 'w \<Rightarrow> err option \<times> ConfigMap \<times> 'w" where
  "mark_created env orgName cm w =
     (case CreateOrUpdate (tn_configMaps env) (\<lambda>a b. False)
             (\<lambda>c v. case cm_Data c of
                None \<Rightarrow> (Some (GoPanic ''assignment to entry in nil map''), c, v)
              | Some d \<Rightarrow> (None, c\<lparr>cm_Data := Some (gset orgName ''true'' d)\<rparr>, v)) cm w of
        ((r, Some e), c, w1) \<Rightarrow> (Some (wrap_error ''error creating/updating tenant created CM'' e), c, w1)
      | ((r, None), c, w1) \<Rightarrow> (None, c, w1))"

definition sso_account :: "AccountDetail \<Rightarrow> string \<Rightarrow> SignUpAccount" where
  "sso_account account token = \<lparr>sa_AccountDetail = account, sa_AccountAccessToken = \<lparr>aa_Id = 0, aa_Name = '''', aa_Value = token\<rparr>\<rparr>"

text \<open>The configuration of an approved account; every failure but the last one leaves the account for the next reconcile.\<close>

definition configure_account ::
  "'w tenants_env \<Rightarrow> RHMI \<Rightarrow> string \<Rightarrow> KeyedSecret \<Rightarrow> AccountDetail \<Rightarrow> ConfigMap \<Rightarrow> 'w \<Rightarrow> err option \<times> ConfigMap \<times> 'w" where
  "configure_account env inst tok tokens account cm w =
     (case activate_users (tn_client env) tok (ad_Id account) (ad_Users account) w of
        (False, w1) \<Rightarrow> (None, cm, w1)
      | (True, w1) \<Rightarrow>
          (let token = gget '''' (case ks_Data tokens of None \<Rightarrow> [] | Some d \<Rightarrow> d) (ad_OrgName account) in
           if token = '''' then (None, cm, w1)
           else (case addAuthProviderToMTAccount (tn_base env) (tn_clients env) inst (sso_account account token) w1 of
                   (Some e, w2) \<Rightarrow> (None, cm, w2)
                 | (None, w2) \<Rightarrow>
                     (case (getKeycloakUserFromAccount env inst (ad_OrgName account) w2, getKeycloakClientFromAccount env inst (ad_OrgName account) w2) of
                        (Inr kcUser, Inr kcClient) \<Rightarrow>
                          if kcu_Phase kcUser = ''reconciled'' \<and> kcl_Ready kcClient
                          then (case addSSOReadyAnnotationToUser env (ad_OrgName account) w2 of
                                  (Some e, w3) \<Rightarrow> (None, cm, w3)
                                | (None, w3) \<Rightarrow>
                                    (case reconcileDashboardLink env (ad_OrgName account) (ad_AdminBaseURL account) w3 of
                                       (Some e, w4) \<Rightarrow> (None, cm, w4)
                                     | (None, w4) \<Rightarrow> mark_created env (ad_OrgName account) cm w4))
                          else (None, cm, w2)
                      | _ \<Rightarrow> (None, cm, w2)))))"

section \<open>All accounts\<close>

text \<open>A slice of accounts: the array it stands on, and its length.\<close>

type_synonym account_slice = "AccountDetail list \<times> nat"

definition remove_at :: "nat \<Rightarrow> account_slice \<Rightarrow> account_slice" where
  "remove_at i s = (case s of (arr, len) \<Rightarrow> (take i arr @ take (len - 1 - i) (drop (Suc i) arr) @ drop (len - 1) arr, len - 1))"

definition marked_created :: "ConfigMap \<Rightarrow> AccountDetail \<Rightarrow> bool" where
  "marked_created cm account \<longleftrightarrow> gget '''' (case cm_Data cm of None \<Rightarrow> [] | Some d \<Rightarrow> d) (ad_OrgName account) = ''true''"

text \<open>
  The loop ranges over the indices the slice had at its start and reads the array as it is; an account that is neither approved nor
  scheduled for deletion is deleted, and removed from the slice. An index past the end of the slice panics.
\<close>

fun accounts_loop ::
  "'w tenants_env \<Rightarrow> RHMI \<Rightarrow> string \<Rightarrow> KeyedSecret \<Rightarrow> nat list \<Rightarrow> account_slice \<Rightarrow> ConfigMap \<Rightarrow> 'w \<Rightarrow> (err + AccountDetail list) \<times> 'w" where
  "accounts_loop env inst tok tokens [] s cm w = (Inr (take (snd s) (fst s)), w)"
| "accounts_loop env inst tok tokens (i # is) s cm w =
     (let account = fst s ! i in
      if marked_created cm account then accounts_loop env inst tok tokens is s cm w
      else if ad_State account = ''approved'' then
        (case configure_account env inst tok tokens account cm w of
           (Some e, cm1, w1) \<Rightarrow> (Inl e, w1)
         | (None, cm1, w1) \<Rightarrow> accounts_loop env inst tok tokens is s cm1 w1)
      else if ad_State account \<noteq> ''scheduled_for_deletion'' then
        (case DeleteTenant (tn_client env) tok (ad_Id account) w of
           (e, w1) \<Rightarrow>
             if i < snd s then accounts_loop env inst tok tokens is (remove_at i s) cm w1
             else (Inl (GoPanic ''index out of range''), w1))
      else accounts_loop env inst tok tokens is s cm w)"

definition total_pages :: "nat \<Rightarrow> nat" where
  "total_pages n = (if 500 < n then n div 500 else 1) + 1"

fun list_pages :: "'w threeScaleClient \<Rightarrow> string \<Rightarrow> nat list \<Rightarrow> (AccountDetail list, 'w) ts_call" where
  "list_pages tsc tok [] w = (Inr [], w)"
| "list_pages tsc tok (page # pages) w =
     (case ListTenantAccounts tsc tok (int page) (Some (\<lambda>ac. ad_Id ac \<noteq> 1 \<and> ad_Id ac \<noteq> 2)) w of
        (Inl e, w1) \<Rightarrow> (Inl e, w1)
      | (Inr accounts, w1) \<Rightarrow> (case list_pages tsc tok pages w1 of (r, w2) \<Rightarrow> (map_sum id ((@) accounts) r, w2)))"

definition put_token :: "string \<Rightarrow> string \<Rightarrow> (KeyedSecret, 'w) op" where
  "put_token orgName token s w =
     (case ks_Data s of
        None \<Rightarrow> (Some (GoPanic ''assignment to entry in nil map''), s, w)
      | Some d \<Rightarrow> (None, s\<lparr>ks_Data := Some (gset orgName token d)\<rparr>, w))"

fun create_accounts :: "'w tenants_env \<Rightarrow> string \<Rightarrow> (AccountDetail \<times> string) list \<Rightarrow> KeyedSecret \<Rightarrow> 'w \<Rightarrow> err option \<times> 'w" where
  "create_accounts env tok [] tokens w = (None, w)"
| "create_accounts env tok ((account, email) # rest) tokens w =
     (case getTenantAccountPassword env account w of
        (Inl e, w1) \<Rightarrow> (Some e, w1)
      | (Inr pw, w1) \<Rightarrow>
          (case CreateTenant (tn_client env) tok account pw email w1 of
             (Inl e, w2) \<Rightarrow> (Some (Msg (''error creating tenant account: '' @ ad_OrgName account @ '', Error=['' @ err_string e @ '']'')), w2)
           | (Inr created, w2) \<Rightarrow>
               (case CreateOrUpdate (tn_secrets env) (\<lambda>a b. False) (put_token (ad_OrgName account) (aa_Value (sa_AccountAccessToken created))) tokens w2 of
                  ((r, Some e), s, w3) \<Rightarrow> (Some (wrap_error ''error creating access token secret'' e), w3)
                | ((r, None), s, w3) \<Rightarrow> create_accounts env tok rest s w3)))"

text \<open>The tokens of deleted accounts are removed from the secret in memory only.\<close>

fun forget_accounts :: "'w tenants_env \<Rightarrow> AccountDetail list \<Rightarrow> 'w \<Rightarrow> err option \<times> 'w" where
  "forget_accounts env [] w = (None, w)"
| "forget_accounts env (account # rest) w =
     (case removeTenantAccountPassword env account w of
        (Some e, w1) \<Rightarrow> (Some (Msg (''error deleting tenant account password: '' @ ad_OrgName account @ '', Error=['' @ err_string e @ '']'')), w1)
      | (None, w1) \<Rightarrow> forget_accounts env rest w1)"

definition create_and_delete :: "'w tenants_env \<Rightarrow> string \<Rightarrow> MultiTenantUser list \<Rightarrow> AccountDetail list \<Rightarrow> KeyedSecret \<Rightarrow> 'w phase_op" where
  "create_and_delete env tok identities accounts tokens w =
     (let created = getMTAccountsToBeCreated (us_ParseAddress (tn_users env)) identities accounts;
          deleted = getMTAccountsToBeDeleted identities accounts in
      case create_accounts env tok created tokens w of
        (Some e, w1) \<Rightarrow> ((PhaseFailed, Some e), w1)
      | (None, w1) \<Rightarrow>
          (case DeleteTenants (tn_client env) tok deleted w1 of
             (Some e, w2) \<Rightarrow> ((PhaseFailed, Some e), w2)
           | (None, w2) \<Rightarrow>
               (case forget_accounts env deleted w2 of
                  (Some e, w3) \<Rightarrow> ((PhaseFailed, Some e), w3)
                | (None, w3) \<Rightarrow> ((if created \<noteq> [] then PhaseInProgress else PhaseCompleted, None), w3))))"

definition reconcile3scaleMultiTenancy :: "'w tenants_env \<Rightarrow> RHMI \<Rightarrow> 'w phase_op" where
  "reconcile3scaleMultiTenancy env inst w =
     (case GetMultiTenantUsers (tn_users env) w of
        Inl e \<Rightarrow> ((PhaseFailed, Some e), w)
      | Inr identities \<Rightarrow>
          (case GetMasterToken (tn_base env) w of
             (Inl e, w1) \<Rightarrow> ((PhaseFailed, Some e), w1)
           | (Inr tok, w1) \<Rightarrow>
               (case list_pages (tn_client env) tok [1..<Suc (total_pages (length identities))] w1 of
                  (Inl e, w2) \<Rightarrow> ((PhaseFailed, Some e), w2)
                | (Inr accounts, w2) \<Rightarrow>
                    (case getAccessTokenSecret env w2 of
                       (Inl e, w3) \<Rightarrow> ((PhaseFailed, Some e), w3)
                     | (Inr tokens, w3) \<Rightarrow>
                         (case getAccountsCreatedCM env w3 of
                            (Inl e, w4) \<Rightarrow> ((PhaseFailed, Some e), w4)
                          | (Inr cm, w4) \<Rightarrow>
                              (case accounts_loop env inst tok tokens [0..<length accounts] (accounts, length accounts) cm w4 of
                                 (Inl e, w5) \<Rightarrow> ((PhaseFailed, Some e), w5)
                               | (Inr kept, w5) \<Rightarrow> create_and_delete env tok identities kept tokens w5))))))"

lemmas tenants_defs [go_defs] = getAccessTokenSecret_def getAccountsCreatedCM_def removeTenantAccountPassword_def getTenantAccountPassword_def
  reconcileDashboardLink_def addSSOReadyAnnotationToUser_def configure_account_def mark_created_def create_and_delete_def reconcile3scaleMultiTenancy_def

section \<open>Passwords are strong\<close>

lemma pick_chars_set:
  assumes "pick_chars draw cs k n = Some s" and "\<And>k m i. draw k m = Some i \<Longrightarrow> i < m"
  shows "length s = n \<and> set s \<subseteq> set cs"
  using assms(1)
proof (induction n arbitrary: k s)
  case (Suc n)
  then obtain i t where i: "draw k (length cs) = Some i" and t: "pick_chars draw cs (Suc k) n = Some t" "s = cs ! i # t"
    by (auto split: option.splits)
  from Suc.IH [OF t(1)] assms(2) [OF i] t(2) show ?case by auto
qed simp

definition count_in :: "string \<Rightarrow> string \<Rightarrow> nat" where
  "count_in cs s = length (filter (\<lambda>c. c \<in> set cs) s)"

lemma count_in_mset: "mset s = mset t \<Longrightarrow> count_in cs s = count_in cs t"
  unfolding count_in_def by (metis mset_filter size_mset)

lemma count_in_all: "set s \<subseteq> set cs \<Longrightarrow> count_in cs s = length s"
  unfolding count_in_def by (metis filter_True subsetD)

text \<open>
  A password that is generated has the length that was asked for and at least as many special characters, digits and capitals:
  for every source of random numbers that respects its bound and every shuffle.
\<close>

theorem password_strength:
  assumes draw: "\<And>k m i. draw k m = Some i \<Longrightarrow> i < m" and shuffle: "\<And>s. mset (shuffle s) = mset s"
    and pw: "GenerateRandomPassword draw shuffle n a b c = pw" "pw \<noteq> ''''" and room: "a + b + c \<le> n"
  shows "length pw = n \<and> a \<le> count_in specialCharSet pw \<and> b \<le> count_in numberSet pw \<and> c \<le> count_in upperCharSet pw"
proof -
  obtain s1 s2 s3 s4 where s: "pick_chars draw specialCharSet 0 a = Some s1" "pick_chars draw numberSet a b = Some s2"
    "pick_chars draw upperCharSet (a + b) c = Some s3" "pick_chars draw allCharSet (a + b + c) (n - a - b - c) = Some s4"
    and eq: "pw = shuffle (s1 @ s2 @ s3 @ s4)"
    using pw by (auto simp: GenerateRandomPassword_def split: option.splits)
  note p = pick_chars_set [OF s(1) draw] pick_chars_set [OF s(2) draw] pick_chars_set [OF s(3) draw] pick_chars_set [OF s(4) draw]
  have m: "mset pw = mset (s1 @ s2 @ s3 @ s4)" unfolding eq by (rule shuffle)
  have "length pw = length (s1 @ s2 @ s3 @ s4)" using m by (metis size_mset)
  moreover have "count_in cs pw = count_in cs s1 + count_in cs s2 + count_in cs s3 + count_in cs s4" for cs
    using count_in_mset [OF m, of cs] by (simp add: count_in_def)
  ultimately show ?thesis using p room count_in_all [of s1 specialCharSet] count_in_all [of s2 numberSet] count_in_all [of s3 upperCharSet] by simp
qed

section \<open>Accounts and tenants\<close>

text \<open>The pages that are asked for hold all tenants, but the room they leave for accounts without a tenant may be a single account.\<close>

lemma pages_cover: "n < 500 * total_pages n" and pages_last: "500 * total_pages 999 = 999 + 1"
  by (auto simp: total_pages_def)

text \<open>
  With the accounts to be created created, and those to be deleted deleted, the accounts are exactly those of the tenants; no
  account is both created and deleted.
\<close>

theorem accounts_match_tenants:
  assumes "created = map fst (getMTAccountsToBeCreated parse identities accounts)" and "deleted = getMTAccountsToBeDeleted identities accounts"
  shows "ad_OrgName ` (set accounts - set deleted) \<union> ad_OrgName ` set created = mt_TenantName ` set identities \<and>
     ad_OrgName ` set created \<inter> ad_OrgName ` set deleted = {} \<and> set deleted \<subseteq> set accounts"
proof -
  have c: "ad_OrgName ` set created = mt_TenantName ` set identities - ad_OrgName ` set accounts"
    unfolding assms(1) getMTAccountsToBeCreated_def by (auto simp: new_account_def list_ex_iff image_iff) metis
  have d: "set deleted = {a \<in> set accounts. ad_OrgName a \<notin> mt_TenantName ` set identities}"
    unfolding assms(2) getMTAccountsToBeDeleted_def by (auto simp: list_ex_iff image_iff)
  have "ad_OrgName ` (set accounts - set deleted) = ad_OrgName ` set accounts \<inter> mt_TenantName ` set identities"
    unfolding d by blast
  with c show ?thesis unfolding d by blast
qed

section \<open>The loop over the accounts\<close>

abbreviation healthy :: "AccountDetail \<Rightarrow> bool" where
  "healthy a \<equiv> ad_State a = ''approved'' \<or> ad_State a = ''scheduled_for_deletion''"

lemma accounts_loop_healthy:
  assumes "\<And>i. i \<in> set is \<Longrightarrow> healthy (arr ! i)" and "accounts_loop env inst tok tokens is (arr, len) cm w = (Inr kept, w')"
  shows "kept = take len arr"
  using assms
proof (induction "is" arbitrary: cm w)
  case (Cons i "is")
  have IH: "accounts_loop env inst tok tokens is (arr, len) cm' v = (Inr kept, w') \<Longrightarrow> kept = take len arr" for cm' v
    by (rule Cons.IH [OF Cons.prems(1)]) simp_all
  from Cons.prems(1) [of i] have "healthy (arr ! i)" by simp
  with Cons.prems(2) IH show ?case by (auto simp: Let_def split: if_splits prod.splits option.splits)
qed simp

lemma remove_at_split:
  "remove_at (length pre) (pre @ b # post, length (pre @ b # post)) = (pre @ post @ (if post = [] then [b] else [last post]), length (pre @ post))"
proof (cases post rule: rev_cases)
  case Nil
  then show ?thesis by (simp add: remove_at_def)
next
  case (snoc ys y)
  then show ?thesis by (simp add: remove_at_def)
qed

lemma accounts_loop_append:
  assumes "\<And>i. i \<in> set xs \<Longrightarrow> healthy (fst s ! i)" and "accounts_loop env inst tok tokens (xs @ ys) s cm w = (Inr kept, w')"
  shows "\<exists>cm' v. accounts_loop env inst tok tokens ys s cm' v = (Inr kept, w')"
  using assms
proof (induction xs arbitrary: cm w)
  case (Cons i xs)
  from Cons.prems(1) [of i] have "healthy (fst s ! i)" by simp
  with Cons.prems(2) have "\<exists>cm' v. accounts_loop env inst tok tokens (xs @ ys) s cm' v = (Inr kept, w')"
    by (auto simp: Let_def split: if_splits prod.splits option.splits)
  with Cons.IH Cons.prems(1) show ?case by (metis list.set_intros(2))
qed auto

text \<open>
  A single account that is neither approved nor scheduled for deletion is taken out of the list, so that it is created again; all the
  others stay. It is left alone when it has been marked as created.
\<close>

theorem broken_account_removed:
  assumes "list_all healthy pre" and "list_all healthy post" and "\<not> healthy b" and accounts: "accounts = pre @ b # post"
    and run: "accounts_loop env inst tok tokens [0..<length accounts] (accounts, length accounts) cm w = (Inr kept, w')"
  shows "kept = pre @ post \<or> kept = accounts"
proof -
  let ?n = "length accounts"
  have ix: "[0..<?n] = [0..<length pre] @ length pre # [Suc (length pre)..<?n]"
  proof -
    have "[0..<?n] = [0..<length pre] @ [length pre..<?n]"
      unfolding accounts using upt_add_eq_append [of 0 "length pre" "Suc (length post)"] by (simp del: upt_Suc)
    also have "[length pre..<?n] = length pre # [Suc (length pre)..<?n]" by (rule upt_conv_Cons) (simp add: accounts)
    finally show ?thesis .
  qed
  have before: "healthy (fst (accounts, ?n) ! i)" if "i \<in> set [0..<length pre]" for i
    using that assms(1) unfolding accounts by (simp add: nth_append list_all_iff)
  obtain cm' v where at: "accounts_loop env inst tok tokens (length pre # [Suc (length pre)..<?n]) (accounts, ?n) cm' v = (Inr kept, w')"
    using accounts_loop_append [OF before run [unfolded ix]] by blast
  have after: "healthy ((pre @ post @ xs) ! i)" if "i \<in> set [Suc (length pre)..<?n]" "post \<noteq> []" "xs = [last post]" for i xs
  proof -
    have "(post @ xs) ! (i - length pre) \<in> set (post @ xs)" by (rule nth_mem) (use that accounts in auto)
    then have "(post @ xs) ! (i - length pre) \<in> set post" using that(2,3) last_in_set by auto
    with assms(2) that(1) show ?thesis by (simp add: nth_append_right list_all_iff)
  qed
  have rest: "healthy (accounts ! i)" if "i \<in> set [Suc (length pre)..<?n]" for i
    using that assms(2) unfolding accounts by (auto simp: nth_append list_all_iff nth_Cons')
  have b: "accounts ! length pre = b" unfolding accounts by simp
  show ?thesis
  proof (cases "marked_created cm' b")
    case True
    with at b have "accounts_loop env inst tok tokens [Suc (length pre)..<?n] (accounts, ?n) cm' v = (Inr kept, w')" by simp
    from accounts_loop_healthy [OF rest this] show ?thesis by simp
  next
    case False
    have s: "remove_at (length pre) (accounts, ?n) = (pre @ post @ (if post = [] then [b] else [last post]), length (pre @ post))"
      unfolding accounts by (rule remove_at_split)
    obtain v' where "accounts_loop env inst tok tokens [Suc (length pre)..<?n] (pre @ post @ (if post = [] then [b] else [last post]), length (pre @ post)) cm' v' = (Inr kept, w')"
      using at b False assms(3) s accounts by (auto simp: Let_def split: prod.splits if_splits)
    from accounts_loop_healthy [OF _ this] after accounts have "kept = pre @ post" by (cases "post = []") auto
    then show ?thesis ..
  qed
qed

lemma remove_at_array:
  assumes "remove_at i (arr, len) = (arr', len')" and "i < len" and "len \<le> length arr"
  shows "length arr' = length arr \<and> set arr' \<subseteq> set arr \<and> len' = len - 1"
  using assms by (auto simp: remove_at_def dest!: in_set_takeD in_set_dropD)

lemma broken_accounts_step:
  assumes "2 \<le> n" and "k < n" and "length arr = n" and "\<And>a. a \<in> set arr \<Longrightarrow> \<not> healthy a \<and> \<not> marked_created cm a"
  shows "\<exists>w'. accounts_loop env inst tok tokens [k..<n] (arr, n - k) cm w = (Inl (GoPanic ''index out of range''), w')"
  using assms
proof (induction "n - k" arbitrary: k arr w)
  case (Suc m)
  have b: "\<not> healthy (arr ! k)" "\<not> marked_created cm (arr ! k)" using Suc.prems by simp_all
  obtain e w1 where d: "DeleteTenant (tn_client env) tok (ad_Id (arr ! k)) w = (e, w1)" by force
  have ix: "[k..<n] = k # [Suc k..<n]" using Suc.prems(2) by (rule upt_conv_Cons)
  show ?case
  proof (cases "k < n - k")
    case True
    obtain arr' len' where r: "remove_at k (arr, n - k) = (arr', len')" by force
    from remove_at_array [OF r True] Suc.prems(3) have arr': "length arr' = n" "set arr' \<subseteq> set arr" "len' = n - Suc k" by auto
    have "\<exists>w'. accounts_loop env inst tok tokens [Suc k..<n] (arr', n - Suc k) cm w1 = (Inl (GoPanic ''index out of range''), w')"
      by (rule Suc.hyps(1)) (use Suc.hyps(2) Suc.prems True arr' in auto)
    then show ?thesis unfolding ix using b d r arr'(3) True by (simp add: Let_def)
  next
    case False
    then show ?thesis unfolding ix using b d by (simp add: Let_def)
  qed
qed simp

text \<open>
  C40. When no account of two or more is approved, scheduled for deletion or marked as created, the loop over the accounts panics: it
  removes elements from the slice it ranges over, and reaches an index the slice no longer has.
\<close>

theorem broken_accounts_panic:
  assumes "2 \<le> length accounts" and "list_all (\<lambda>a. \<not> healthy a \<and> \<not> marked_created cm a) accounts"
  shows "\<exists>w'. accounts_loop env inst tok tokens [0..<length accounts] (accounts, length accounts) cm w = (Inl (GoPanic ''index out of range''), w')"
proof -
  have "0 < length accounts" using assms(1) by linarith
  from broken_accounts_step [OF assms(1) this refl, of cm env inst tok tokens w] assms(2) show ?thesis by (simp add: list_all_iff)
qed

section \<open>Marked accounts\<close>

text \<open>
  An account is marked as created only when it is ready: its users are active, its portal has the provider of single sign-on, the
  Keycloak user and client found for it are ready, the user has been annotated and the link to the portal is there.
\<close>

theorem marked_only_when_ready:
  assumes run: "configure_account env inst tok tokens account cm w = (e, cm', w')" and new: "cm' \<noteq> cm \<or> e \<noteq> None"
  shows "\<exists>w1 token w2 kcUser kcClient w3 w4. activate_users (tn_client env) tok (ad_Id account) (ad_Users account) w = (True, w1) \<and>
     token = gget '''' (case ks_Data tokens of None \<Rightarrow> [] | Some d \<Rightarrow> d) (ad_OrgName account) \<and> token \<noteq> '''' \<and>
     addAuthProviderToMTAccount (tn_base env) (tn_clients env) inst (sso_account account token) w1 = (None, w2) \<and>
     getKeycloakUserFromAccount env inst (ad_OrgName account) w2 = Inr kcUser \<and> kcu_Phase kcUser = ''reconciled'' \<and>
     getKeycloakClientFromAccount env inst (ad_OrgName account) w2 = Inr kcClient \<and> kcl_Ready kcClient \<and>
     addSSOReadyAnnotationToUser env (ad_OrgName account) w2 = (None, w3) \<and>
     reconcileDashboardLink env (ad_OrgName account) (ad_AdminBaseURL account) w3 = (None, w4) \<and>
     mark_created env (ad_OrgName account) cm w4 = (e, cm', w')"
  using assms by (auto simp: configure_account_def Let_def split: prod.splits bool.splits if_splits option.splits sum.splits)

section \<open>Passwords are kept\<close>

lemma put_password_kept:
  "Option.bind (ks_Data s) (\<lambda>d. map_of d n) = Some pw \<Longrightarrow> pw \<noteq> '''' \<Longrightarrow> put_password env n s w = (None, s, w)"
  by (auto simp: put_password_def password_of_def Let_def bind_eq_Some_conv)

lemma put_password_stored:
  assumes "put_password env n s w = (None, s', w')"
  shows "w' = w \<and> Option.bind (ks_Data s') (\<lambda>d. map_of d n) = Some (password_of env n s w) \<and> password_of env n s w \<noteq> ''''"
  using assms by (auto simp: put_password_def password_of_def Let_def map_of_gset split: if_splits option.splits)

text \<open>
  The password of a tenant is generated once: asking again, in the state the first call left, gives the same password and changes
  nothing.
\<close>

theorem tenant_password_stable:
  assumes srv: "stores (tn_secrets env)" and run: "getTenantAccountPassword env account w = (Inr pw, w1)"
  shows "getTenantAccountPassword env account w1 = (Inr pw, w1)"
proof -
  let ?api = "tn_secrets env" and ?n = "ad_Name account" and ?q = "passwords_secret env"
  obtain e s u where get: "k_Get ?api ?q w = (e, s, u)" by (metis surj_pair)
  have u: "u = w" and key: "k_Key ?api ?q = k_Key ?api s" using stores_get(1,2) [OF srv get] by simp_all
  obtain r s' where cou: "CreateOrUpdate ?api (=) (put_password env ?n) s w = ((r, None), s', w1)"
    and pw: "pw = (case k_Get ?api s w of (e2, s2, w2) \<Rightarrow> password_of env ?n s2 w2)"
    using run get u by (auto simp: getTenantAccountPassword_def Let_def split: if_splits prod.splits option.splits)
  have pure: "put_password env ?n x w = (d, y, v) \<Longrightarrow> v = w" for x d y v by (auto simp: put_password_def Let_def)
  obtain e2 x where x: "k_Get ?api s w = (e2, x, w)" "put_password env ?n x w = (None, s', w)"
    and stored: "e2 = None \<and> x = s' \<and> w1 = w \<or> k_Get ?api s w1 = (None, s', w1)"
    using CreateOrUpdate_succeeds [OF srv cou] pure by blast
  have "pw = password_of env ?n x w" using pw x(1) by simp
  with put_password_stored [OF x(2)] have s': "Option.bind (ks_Data s') (\<lambda>d. map_of d ?n) = Some pw" "pw \<noteq> ''''" by simp_all
  have there: "k_Get ?api s w1 = (None, s', w1)" using stored x(1) by auto
  have q: "k_Get ?api ?q w1 = (None, s', w1)" by (rule stores_get(3) [OF srv there refl key])
  have self: "k_Get ?api s' w1 = (None, s', w1)" by (rule stores_get(3) [OF srv q refl]) (use stores_get(2) [OF srv q] in simp)
  have "CreateOrUpdate ?api (=) (put_password env ?n) s' w1 = ((OperationResultNone, None), s', w1)"
    by (simp add: CreateOrUpdate_def mutate_def self put_password_kept [OF s'])
  with q self s' show ?thesis by (simp add: getTenantAccountPassword_def password_of_def Let_def)
qed

section \<open>Unused tenants\<close>

lemma DeleteTenants_None: "DeleteTenants tsc tok accounts w = (None, w') \<Longrightarrow> all_fail tsc tok accounts w = Some w'"
  by (induction accounts arbitrary: w) (auto split: prod.splits option.splits)


section \<open>Witnesses\<close>

definition kind_tenants :: "'w tenants_env" where
  "kind_tenants = \<lparr>tn_base = kind_env, tn_users = sx_users (tu_sso kind_env), tn_userObjects = found_api id, tn_secrets = found_api id,
     tn_configMaps = found_api id, tn_clients = found_api (\<lambda>c. c\<lparr>kcl_Client := Some (api_client ''id'' '''' '''' '''')\<rparr>), tn_links = found_api id,
     tn_ListKeycloakUsers = (\<lambda>n w. Inr [(kc_named ''acme'')\<lparr>kcu_Phase := ''reconciled''\<rparr>]),
     tn_ListKeycloakClients = (\<lambda>n w. Inr [(client_named ''rhoam-mt-acme'' ''rhsso'')\<lparr>kcl_Ready := True\<rparr>]),
     tn_draw = (\<lambda>w k n. Some 0), tn_shuffle = (\<lambda>w s. s)\<rparr>"

abbreviation acme_tokens :: KeyedSecret where "acme_tokens \<equiv> \<lparr>ks_Name = '''', ks_Namespace = '''', ks_Data = Some [(''acme'', ''tok'')]\<rparr>"
abbreviation no_accounts :: ConfigMap where "no_accounts \<equiv> \<lparr>cm_Name = ''tenants-created'', cm_Namespace = '''', cm_Data = Some []\<rparr>"

theorem broken_accounts_panic_witness:
  "\<exists>w'. accounts_loop kind_tenants tenants_inst ''tok'' acme_tokens [0..<2] ([acme\<lparr>ad_State := ''created''\<rparr>, acme\<lparr>ad_State := ''''\<rparr>], 2) no_accounts () =
     (Inl (GoPanic ''index out of range''), w')"
proof -
  let ?as = "[acme\<lparr>ad_State := ''created''\<rparr>, acme\<lparr>ad_State := ''''\<rparr>]"
  have two: "length ?as = 2" by simp
  have "list_all (\<lambda>a. \<not> healthy a \<and> \<not> marked_created no_accounts a) ?as" by (simp add: marked_created_def)
  from broken_accounts_panic [OF _ this, of kind_tenants tenants_inst "''tok''" acme_tokens "()", unfolded two] show ?thesis by blast
qed

lemma kind_tenants_sso: "addAuthProviderToMTAccount (tn_base kind_tenants) (tn_clients kind_tenants) tenants_inst (sso_account acme tok) w = (None, w)"
  by (simp add: kind_tenants_def addAuthProviderToMTAccount_def kind_not_added kind_secret kind_rhsso CreateRHSSOClient_def kind_names kind_add acme_def sso_account_def
      put_client_def api_id_def CreateOrUpdate_found api_client_def)

theorem marked_only_when_ready_witness:
  "\<exists>cm' w'. configure_account kind_tenants tenants_inst ''tok'' acme_tokens acme no_accounts () = (None, cm', w') \<and> marked_created cm' acme \<and>
     (\<exists>(w1 :: unit) w2. addAuthProviderToMTAccount (tn_base kind_tenants) (tn_clients kind_tenants) tenants_inst (sso_account acme ''tok'') w1 = (None, w2))"
proof -
  have fields: "ad_OrgName acme = ''acme''" "ad_Users acme = []" by (simp_all add: acme_def)
  have found: "\<exists>k. getKeycloakUserFromAccount kind_tenants i ''acme'' w = Inr k \<and> kcu_Phase k = ''reconciled''"
    "\<exists>c. getKeycloakClientFromAccount kind_tenants i ''acme'' w = Inr c \<and> kcl_Ready c" for i w
    by (simp_all add: kind_tenants_def getKeycloakUserFromAccount_def getKeycloakClientFromAccount_def kc_named_def client_named_def)
  have calls: "addSSOReadyAnnotationToUser kind_tenants n w = (None, w)" "reconcileDashboardLink kind_tenants n l w = (None, w)" for n l w
    by (simp_all add: kind_tenants_def addSSOReadyAnnotationToUser_def reconcileDashboardLink_def CreateOrUpdate_found)
  have mark: "mark_created kind_tenants n no_accounts w = (None, no_accounts\<lparr>cm_Data := Some (gset n ''true'' [])\<rparr>, w)" for n w
    by (simp add: kind_tenants_def mark_created_def CreateOrUpdate_def mutate_def found_api_def)
  have "\<exists>cm' w'. configure_account kind_tenants tenants_inst ''tok'' acme_tokens acme no_accounts () = (None, cm', w') \<and> marked_created cm' acme"
    using found [of tenants_inst "()"] by (auto simp: configure_account_def kind_tenants_sso fields calls mark marked_created_def)
  then obtain cm' w' where run: "configure_account kind_tenants tenants_inst ''tok'' acme_tokens acme no_accounts () = (None, cm', w')" and s: "marked_created cm' acme" by blast
  then have "cm' \<noteq> no_accounts \<or> (None :: err option) \<noteq> None" by (auto simp: marked_created_def)
  from marked_only_when_ready [OF run this] have
    "\<exists>(w1 :: unit) w2. addAuthProviderToMTAccount (tn_base kind_tenants) (tn_clients kind_tenants) tenants_inst (sso_account acme ''tok'') w1 = (None, w2)"
    by (auto simp: fields)
  with run s show ?thesis by blast
qed


end
