(* ===== verification/ThreeScale_Data.thy ===== *)
theory ThreeScale_Data
  imports ThreeScale_Tenants Cloud_Resources Rate_Limit
begin

text \<open>
  What 3scale stands on (\<^verbatim>\<open>pkg/products/threescale/reconciler.go\<close>): the secrets that survive a reinstallation, the credentials of
  the mail server, the caches and the database the cloud resource operator provides, and the storage of files. The cloud resource
  operator, the clock and the API server are parameters.
\<close>

section \<open>Environment\<close>

record SmtpSecret = KeyedSecret +
  ms_Annotations :: "(string, string) gomap option"

record 'w data_env =
  td_base :: "'w base_env"
  td_secrets :: "(KeyedSecret, 'w) kind_api"
  td_smtp :: "(SmtpSecret, 'w) kind_api"
  td_deployments :: "(DeploymentObject, 'w) kind_api"
  td_now :: "'w \<Rightarrow> string"
  td_GetRedis :: "string \<Rightarrow> string \<Rightarrow> 'w \<Rightarrow> err + string \<times> string"
  td_ReconcileRedis :: "string \<Rightarrow> string \<Rightarrow> string \<Rightarrow> string \<Rightarrow> string \<Rightarrow> bool \<Rightarrow> 'w \<Rightarrow> (err + CloudResource) \<times> 'w"
  td_ReconcilePostgres :: "string \<Rightarrow> string \<Rightarrow> 'w \<Rightarrow> (err + CloudResource) \<times> 'w"
  td_ReconcileBlobStorage :: "string \<Rightarrow> string \<Rightarrow> 'w \<Rightarrow> (err + string) \<times> 'w"
  td_GetBlobStorage :: "string \<Rightarrow> string \<Rightarrow> 'w \<Rightarrow> err + (string \<times> string) option"
  td_calerts :: "'w calert_env"
  td_preflight :: "'w preflight_env"
  td_DeleteJob :: "string \<Rightarrow> string \<Rightarrow> 'w \<Rightarrow> err option \<times> 'w"
  td_config :: ThreeScale

abbreviation td_namespace :: "'w data_env \<Rightarrow> string" where "td_namespace env \<equiv> ThreeScale_GetNamespace (td_config env)"

text \<open>Reading a nil map gives the zero value; writing to one panics.\<close>

definition sdata :: "'z KeyedSecret_scheme \<Rightarrow> (string, string) gomap" where
  "sdata s = (case ks_Data s of None \<Rightarrow> [] | Some d \<Rightarrow> d)"

definition secret_named :: "string \<Rightarrow> string \<Rightarrow> KeyedSecret" where
  "secret_named name ns = \<lparr>ks_Name = name, ks_Namespace = ns, ks_Data = None\<rparr>"

definition blank_secret :: "string \<Rightarrow> string \<Rightarrow> KeyedSecret" where
  "blank_secret name ns = \<lparr>ks_Name = name, ks_Namespace = ns, ks_Data = Some []\<rparr>"

definition set_entries :: "(string \<times> string) list \<Rightarrow> (string, string) gomap \<Rightarrow> (string, string) gomap" where
  "set_entries kvs d = fold (\<lambda>(k, v). gset k v) kvs d"

definition put_entries :: "(string \<times> string) list \<Rightarrow> (KeyedSecret, 'w) op" where
  "put_entries kvs s w =
     (case ks_Data s of
        None \<Rightarrow> (if kvs = [] then None else Some (GoPanic ''assignment to entry in nil map''), s, w)
      | Some d \<Rightarrow> (None, s\<lparr>ks_Data := Some (set_entries kvs d)\<rparr>, w))"

section \<open>Seed secrets\<close>

definition IsConflict :: "err option \<Rightarrow> bool" where
  "IsConflict eo = (case eo of None \<Rightarrow> False | Some e \<Rightarrow> err_reason e = Some Conflict)"

abbreviation system_secrets :: "string list" where "system_secrets \<equiv> [''system-seed'', ''system-master-apicast'']"

fun restore_secrets :: "'w data_env \<Rightarrow> RHMI \<Rightarrow> string list \<Rightarrow> 'w phase_op" where
  "restore_secrets env inst [] w = ((PhaseCompleted, None), w)"
| "restore_secrets env inst (n # ns) w =
     (case CopySecret (td_base env) n (Namespace inst) n (td_namespace env) w of
        (e, w1) \<Rightarrow>
          if e \<noteq> None \<and> \<not> IsNotFound e \<and> \<not> IsConflict e then ((PhaseFailed, e), w1) else restore_secrets env inst ns w1)"

definition restoreSystemSecrets :: "'w data_env \<Rightarrow> RHMI \<Rightarrow> 'w phase_op" where
  "restoreSystemSecrets env inst = restore_secrets env inst system_secrets"

fun backup_secrets :: "'w data_env \<Rightarrow> RHMI \<Rightarrow> string list \<Rightarrow> 'w phase_op" where
  "backup_secrets env inst [] w = ((PhaseCompleted, None), w)"
| "backup_secrets env inst (n # ns) w =
     (case CopySecret (td_base env) n (td_namespace env) n (Namespace inst) w of
        (Some e, w1) \<Rightarrow> ((PhaseFailed, Some e), w1)
      | (None, w1) \<Rightarrow> backup_secrets env inst ns w1)"

definition backupSystemSecrets :: "'w data_env \<Rightarrow> RHMI \<Rightarrow> 'w phase_op" where
  "backupSystemSecrets env inst = backup_secrets env inst system_secrets"

section \<open>Deployments\<close>

definition deployment_named :: "string \<Rightarrow> string \<Rightarrow> DeploymentObject" where
  "deployment_named name ns = \<lparr>d_Name = name, d_Namespace = ns, d_Labels = None, d_Replicas = None, d_Selector = None, d_Strategy = '''', d_Template = zero_template\<rparr>"

definition restarted_at :: "string \<Rightarrow> DeploymentObject \<Rightarrow> DeploymentObject" where
  "restarted_at time d =
     d\<lparr>d_Template := (d_Template d)\<lparr>pt_Annotations := Some (gset ''kubernetes.io/restartedAt'' time (case pt_Annotations (d_Template d) of None \<Rightarrow> [] | Some a \<Rightarrow> a))\<rparr>\<rparr>"

definition RolloutDeployment :: "'w data_env \<Rightarrow> string \<Rightarrow> 'w \<Rightarrow> err option \<times> 'w" where
  "RolloutDeployment env name w =
     (case k_Get (td_deployments env) (deployment_named name (td_namespace env)) w of
        (Some e, d, w1) \<Rightarrow> (Some e, w1)
      | (None, d, w1) \<Rightarrow>
          (case k_Update (td_deployments env) (restarted_at (td_now env w1) d) w1 of
             (Some e, d', w2) \<Rightarrow> (Some (Wrap ''failed to update deployment'' e), w2)
           | (None, d', w2) \<Rightarrow> (None, w2)))"

section \<open>Mail server\<close>

text \<open>The keys of the credentials, and those of the secret 3scale reads.\<close>

definition smtp_keys :: "(string \<times> string) list" where
  "smtp_keys = [(''host'', ''address''), (''authentication'', ''authentication''), (''domain'', ''domain''), (''openssl.verify.mode'', ''openssl.verify.mode''),
     (''password'', ''password''), (''port'', ''port''), (''username'', ''username'')]"

definition smtp_entry :: "(string, string) gomap \<Rightarrow> string \<times> string \<Rightarrow> (string, string) gomap \<Rightarrow> (string, string) gomap" where
  "smtp_entry cred kk d = (case kk of (k, l) \<Rightarrow> if gget '''' cred k \<noteq> gget '''' d l then gset l (gget '''' cred k) d else d)"

definition smtp_changed :: "(string, string) gomap \<Rightarrow> (string, string) gomap \<Rightarrow> bool" where
  "smtp_changed cred d \<longleftrightarrow> list_ex (\<lambda>(k, l). gget '''' cred k \<noteq> gget '''' d l) smtp_keys"

text \<open>The deployments are restarted from within the mutation: before the secret is written.\<close>

definition put_smtp :: "'w data_env \<Rightarrow> RHMI \<Rightarrow> (string, string) gomap \<Rightarrow> (SmtpSecret, 'w) op" where
  "put_smtp env inst cred s w =
     (let s1 = s\<lparr>ms_Annotations := Some (AddIntegreatlyOwnerAnnotations inst (ms_Annotations s)), ks_Data := Some (sdata s)\<rparr> in
      if IsRHOAMMultitenant (Type (Spec inst)) then (None, s1, w)
      else (let s2 = s1\<lparr>ks_Data := Some (fold (smtp_entry cred) smtp_keys (sdata s))\<rparr> in
            if smtp_changed cred (sdata s)
            then (case RolloutDeployment env ''system-app'' w of (e1, w1) \<Rightarrow> (case RolloutDeployment env ''system-sidekiq'' w1 of (e2, w2) \<Rightarrow> (None, s2, w2)))
            else (None, s2, w)))"

definition smtp_secret_name :: "RHMI \<Rightarrow> string" where
  "smtp_secret_name inst =
     (case CustomSmtp (Status inst) of
        Some c \<Rightarrow> if Enabled c then ''custom-smtp'' else SMTPSecret (Spec inst)
      | None \<Rightarrow> SMTPSecret (Spec inst))"

definition reconcileSMTPCredentials :: "'w data_env \<Rightarrow> RHMI \<Rightarrow> 'w phase_op" where
  "reconcileSMTPCredentials env inst w =
     (case k_Get (td_secrets env) (secret_named (smtp_secret_name inst) (Namespace inst)) w of
        (e, credSec, w1) \<Rightarrow>
          (case CreateOrUpdate (td_smtp env) (=) (put_smtp env inst (sdata credSec))
                  \<lparr>ks_Name = ''system-smtp'', ks_Namespace = td_namespace env, ks_Data = Some [], ms_Annotations = None\<rparr> w1 of
             ((r, Some e), s, w2) \<Rightarrow> ((PhaseFailed, Some (Wrap ''failed to create or update 3scale smtp configmap'' e)), w2)
           | ((r, None), s, w2) \<Rightarrow> ((PhaseCompleted, None), w2)))"

section \<open>Caches and database\<close>

definition isQuotaChanged :: "string \<Rightarrow> string \<Rightarrow> bool" where
  "isQuotaChanged newQuota activeQuota = (if newQuota = '''' then False else newQuota \<noteq> activeQuota)"

text \<open>A Redis is asked for with the engine it has; the size of its nodes and whether changes apply at once are the caller's.\<close>

definition request_redis :: "'w data_env \<Rightarrow> RHMI \<Rightarrow> string \<Rightarrow> string \<Rightarrow> string \<Rightarrow> bool \<Rightarrow> 'w \<Rightarrow> ((StatusPhase \<times> err option) + CloudResource) \<times> 'w" where
  "request_redis env inst what name nodeSize change w =
     (case RedisEngineForReconcile (td_GetRedis env name (Namespace inst) w) of
        Inl e \<Rightarrow> (Inl (PhaseInProgress, Some (Wrap (''failed to read existing '' @ what @ '' redis CR'') e)), w)
      | Inr (engine, version) \<Rightarrow>
          (case td_ReconcileRedis env name (Namespace inst) nodeSize engine version change w of
             (Inl e, w1) \<Rightarrow> (Inl (PhaseFailed, Some (Wrap (''failed to reconcile '' @ what @ '' redis request'') e)), w1)
           | (Inr cr, w1) \<Rightarrow> (Inr cr, w1)))"

definition redis_alerts_step :: "'w data_env \<Rightarrow> RHMI \<Rightarrow> CloudResource \<Rightarrow> 'w phase_op" where
  "redis_alerts_step env inst cr w =
     (case ReconcileRedisAlerts (td_calerts env) inst cr w of
        ((phase, Some e), w') \<Rightarrow> ((PhaseFailed, Some (Wrap ''failed to reconcile redis alerts'' e)), w')
      | ((phase, None), w') \<Rightarrow> ((phase, None), w'))"

definition cpu_alerts_step :: "'w data_env \<Rightarrow> RHMI \<Rightarrow> CloudResource \<Rightarrow> 'w phase_op" where
  "cpu_alerts_step env inst cr w =
     (case create_alerts (td_calerts env) inst (CreateRedisCpuUsageAlerts cr) w of
        (Some e, w') \<Rightarrow> ((PhaseFailed, Some (Msg (''failed to create backend redis prometheus Cpu usage high alerts for threescale: '' @ err_string e))), w')
      | (None, w') \<Rightarrow> ((PhaseCompleted, None), w'))"

definition await_resource :: "StatusPhase \<Rightarrow> CloudResource \<Rightarrow> 'w phase_op" where
  "await_resource phase cr w = ((if cr_Phase cr \<noteq> ''complete'' then phase else PhaseCompleted, None), w)"

text \<open>The secret 3scale reads, filled from the credentials of a cloud resource.\<close>

definition link_secret ::
  "'w data_env \<Rightarrow> string \<Rightarrow> CloudResource \<Rightarrow> string \<Rightarrow> ((string, string) gomap \<Rightarrow> (KeyedSecret, 'w) op) \<Rightarrow> 'w phase_op" where
  "link_secret env what cr target f w =
     (case k_Get (td_secrets env) (secret_named (cr_SecretName cr) (cr_SecretNamespace cr)) w of
        (Some e, cred, w1) \<Rightarrow> ((PhaseFailed, Some (Wrap (''failed to get '' @ what @ '' credential secret'') e)), w1)
      | (None, cred, w1) \<Rightarrow>
          (case CreateOrUpdate (td_secrets env) (=) (f (sdata cred)) (blank_secret target (td_namespace env)) w1 of
             ((r, Some e), s, w2) \<Rightarrow> ((PhaseFailed, Some (wrap_error (''failed to create or update 3scale '' @ target @ '' connection secret'') e)), w2)
           | ((r, None), s, w2) \<Rightarrow> ((PhaseCompleted, None), w2)))"

definition redis_url :: "(string, string) gomap \<Rightarrow> string \<Rightarrow> string" where
  "redis_url cred db = ''redis://'' @ gget '''' cred ''uri'' @ '':'' @ gget '''' cred ''port'' @ ''/'' @ db"

definition backend_entries :: "(string, string) gomap \<Rightarrow> (KeyedSecret, 'w) op" where
  "backend_entries cred = put_entries [(''REDIS_STORAGE_URL'', redis_url cred ''0''), (''REDIS_QUEUES_URL'', redis_url cred ''1'')]"

definition messageBusKeys :: "string list" where
  "messageBusKeys = [''MESSAGE_BUS_URL'', ''MESSAGE_BUS_NAMESPACE'', ''MESSAGE_BUS_SENTINEL_HOSTS'', ''MESSAGE_BUS_SENTINEL_ROLE'']"

definition system_entries :: "(string, string) gomap \<Rightarrow> (KeyedSecret, 'w) op" where
  "system_entries cred s w =
     (case put_entries [(''URL'', redis_url cred ''1'')] s w of
        (Some e, s1, w1) \<Rightarrow> (Some e, s1, w1)
      | (None, s1, w1) \<Rightarrow> (None, s1\<lparr>ks_Data := map_option (fold AList.delete messageBusKeys) (ks_Data s1)\<rparr>, w1))"

definition postgres_url :: "RHMI \<Rightarrow> (string, string) gomap \<Rightarrow> string" where
  "postgres_url inst cred =
     ''postgresql://'' @ gget '''' cred ''username'' @ '':'' @ gget '''' cred ''password'' @ ''@'' @ gget '''' cred ''host'' @ '':'' @ gget '''' cred ''port'' @ ''/'' @
     gget '''' cred ''database'' @ (if ToLower (UseClusterStorage (Spec inst)) = ''true'' then '''' else ''?sslmode=require'')"

definition postgres_entries :: "RHMI \<Rightarrow> (string, string) gomap \<Rightarrow> (KeyedSecret, 'w) op" where
  "postgres_entries inst cred =
     put_entries [(''URL'', postgres_url inst cred), (''DB_USER'', gget '''' cred ''username''), (''DB_PASSWORD'', gget '''' cred ''password'')]"

definition deleteSystemAppPreJob :: "'w data_env \<Rightarrow> 'w \<Rightarrow> err option \<times> 'w" where
  "deleteSystemAppPreJob env w =
     (case td_DeleteJob env ''system-app-pre'' (td_namespace env) w of
        (e, w1) \<Rightarrow> (if e \<noteq> None \<and> \<not> IsNotFound e then Some (Wrap ''failed to delete system-app-pre job'' (the e)) else None, w1))"

text \<open>
  The job that prepares the database is deleted when the address of the database changed, so that it runs again. The mutation sees the
  secret as the server has it, or the new one.
\<close>

definition postgres_step :: "'w data_env \<Rightarrow> RHMI \<Rightarrow> CloudResource \<Rightarrow> 'w phase_op" where
  "postgres_step env inst cr w =
     (case k_Get (td_secrets env) (secret_named (cr_SecretName cr) (cr_SecretNamespace cr)) w of
        (Some e, cred, w1) \<Rightarrow> ((PhaseFailed, Some (Wrap ''failed to get postgres credential secret'' e)), w1)
      | (None, cred, w1) \<Rightarrow>
          (let target = blank_secret ''system-database'' (td_namespace env);
               existingURL = (case k_Get (td_secrets env) target w1 of (e, s, v) \<Rightarrow> gget '''' (sdata s) ''URL'') in
           case CreateOrUpdate (td_secrets env) (=) (postgres_entries inst (sdata cred)) target w1 of
             ((r, Some e), s, w2) \<Rightarrow> ((PhaseFailed, Some (wrap_error ''failed to create or update 3scale system-database connection secret'' e)), w2)
           | ((r, None), s, w2) \<Rightarrow>
               if existingURL \<noteq> '''' \<and> existingURL \<noteq> postgres_url inst (sdata cred)
               then (case deleteSystemAppPreJob env w2 of (e, w3) \<Rightarrow> ((PhaseCompleted, None), w3))
               else ((PhaseCompleted, None), w2)))"

definition postgres_alerts_step :: "'w data_env \<Rightarrow> RHMI \<Rightarrow> CloudResource \<Rightarrow> 'w phase_op" where
  "postgres_alerts_step env inst cr w =
     (case ReconcilePostgresAlerts (td_calerts env) inst cr w of
        ((phase, Some e), w') \<Rightarrow> ((PhaseFailed, Some (Wrap (''failed to reconcile postgres alerts for '' @ productName_of cr) e)), w')
      | ((phase, None), w') \<Rightarrow> ((phase, None), w'))"

definition datasource_steps :: "'w data_env \<Rightarrow> RHMI \<Rightarrow> CloudResource \<Rightarrow> CloudResource \<Rightarrow> CloudResource \<Rightarrow> 'w phase_op list" where
  "datasource_steps env inst backendRedis systemRedis postgres =
     [await_resource PhaseAwaitingCloudResources postgres,
      redis_alerts_step env inst backendRedis,
      cpu_alerts_step env inst backendRedis,
      await_resource PhaseAwaitingComponents backendRedis,
      link_secret env ''backend redis'' backendRedis ''backend-redis'' backend_entries,
      redis_alerts_step env inst systemRedis,
      await_resource PhaseAwaitingComponents systemRedis,
      link_secret env ''system redis'' systemRedis ''system-redis'' system_entries,
      postgres_alerts_step env inst postgres,
      postgres_step env inst postgres]"

definition reconcileExternalDatasources :: "'w data_env \<Rightarrow> RHMI \<Rightarrow> string \<Rightarrow> string \<Rightarrow> 'w phase_op" where
  "reconcileExternalDatasources env inst activeQuota platformType w =
     (case request_redis env inst ''backend'' (''threescale-backend-redis-'' @ Name inst) (ThreeScale_GetBackendRedisNodeSize activeQuota platformType)
             (isQuotaChanged (QuotaF (Status inst)) activeQuota) w of
        (Inl res, w1) \<Rightarrow> (res, w1)
      | (Inr backendRedis, w1) \<Rightarrow>
          (case request_redis env inst ''system'' (''threescale-redis-'' @ Name inst) '''' False w1 of
             (Inl res, w2) \<Rightarrow> (res, w2)
           | (Inr systemRedis, w2) \<Rightarrow>
               (case td_ReconcilePostgres env (''threescale-postgres-'' @ Name inst) (Namespace inst) w2 of
                  (Inl e, w3) \<Rightarrow> ((PhaseFailed, Some (Wrap ''failed to reconcile postgres request'' e)), w3)
                | (Inr postgres, w3) \<Rightarrow> run_must (datasource_steps env inst backendRedis systemRedis postgres) w3)))"

text \<open>The snapshots taken before an upgrade: the members of the concurrent executor, none for the one that does nothing.\<close>

definition threescale_backups :: "RHMI \<Rightarrow> executor list" where
  "threescale_backups inst =
     (if UseClusterStorage (Spec inst) \<noteq> ''false'' then []
      else
        [AWSBackup (Namespace inst) ''threescale-postgres-rhmi'' PostgresSnapshotType,
         AWSBackup (Namespace inst) ''threescale-backend-redis-rhmi'' RedisSnapshotType,
         AWSBackup (Namespace inst) ''threescale-redis-rhmi'' RedisSnapshotType])"

section \<open>Storage of files\<close>

record FileStorageSpec =
  fs_Secret :: string
  fs_STS :: "(bool \<times> string) option"

definition reconcileBlobStorage :: "'w data_env \<Rightarrow> RHMI \<Rightarrow> 'w phase_op" where
  "reconcileBlobStorage env inst w =
     (case td_ReconcileBlobStorage env (''threescale-blobstorage-'' @ Name inst) (Namespace inst) w of
        (Inl e, w1) \<Rightarrow> ((PhaseFailed, Some (Wrap ''failed to reconcile blob storage request'' e)), w1)
      | (Inr phase, w1) \<Rightarrow> ((if phase \<noteq> ''complete'' then PhaseAwaitingComponents else PhaseCompleted, None), w1))"

text \<open>Under which key an entry of the secret of the cloud resource operator is passed on.\<close>

definition aws_key :: "string \<Rightarrow> string" where
  "aws_key k =
     (if k = ''credentialKeyID'' then ''AWS_ACCESS_KEY_ID'' else if k = ''credentialSecretKey'' then ''AWS_SECRET_ACCESS_KEY''
      else if k = ''bucketName'' then ''AWS_BUCKET'' else if k = ''bucketRegion'' then ''AWS_REGION'' else k)"

definition blob_entries :: "(string, string) gomap \<Rightarrow> (KeyedSecret, 'w) op" where
  "blob_entries blob = put_entries (map (\<lambda>(k, v). (aws_key k, v)) blob)"

definition sts_entries :: "(string, string) gomap \<Rightarrow> (string, string) gomap \<Rightarrow> (KeyedSecret, 'w) op" where
  "sts_entries blob sts =
     put_entries (map (\<lambda>(k, v). (aws_key k, v)) (filter (\<lambda>(k, v). k = ''bucketName'' \<or> k = ''bucketRegion'') blob) @
       [(''AWS_ROLE_ARN'', gget '''' sts ''role_arn''), (''AWS_WEB_IDENTITY_TOKEN_FILE'', ''/var/run/secrets/openshift/serviceaccount/token'')])"

definition createStsS3Secret :: "'w data_env \<Rightarrow> KeyedSecret \<Rightarrow> (string, string) gomap \<Rightarrow> 'w \<Rightarrow> err option \<times> 'w" where
  "createStsS3Secret env credSec blob w =
     (case k_Get (td_secrets env) (secret_named ''sts-s3-credentials'' (td_namespace env)) w of
        (Some e, sts, w1) \<Rightarrow> (Some (Wrap ''failed to get 3scale sts secret resource'' e), w1)
      | (None, sts, w1) \<Rightarrow> (case CreateOrUpdate (td_secrets env) (=) (sts_entries blob (sdata sts)) credSec w1 of ((r, e), s, w2) \<Rightarrow> (e, w2)))"

definition write_credentials :: "'w data_env \<Rightarrow> bool \<Rightarrow> KeyedSecret \<Rightarrow> (string, string) gomap \<Rightarrow> 'w \<Rightarrow> err option \<times> 'w" where
  "write_credentials env isSTS credSec blob w =
     (if isSTS then createStsS3Secret env credSec blob w
      else (case CreateOrUpdate (td_secrets env) (=) (blob_entries blob) credSec w of ((r, e), s, w1) \<Rightarrow> (e, w1)))"

definition getBlobStorageFileStorageSpec :: "'w data_env \<Rightarrow> RHMI \<Rightarrow> string \<Rightarrow> 'w \<Rightarrow> (err + FileStorageSpec) \<times> 'w" where
  "getBlobStorageFileStorageSpec env inst platformType w =
     (if platformType \<noteq> ''AWS''
      then (Inl (Wrap ''failed to create or update blob storage aws credentials secret'' (Msg (''unsupported cluster type: '' @ platformType))), w)
      else (case td_GetBlobStorage env (''threescale-blobstorage-'' @ Name inst) (Namespace inst) w of
              Inl e \<Rightarrow> (Inl (Wrap ''failed to get blob storage custom resource'' e), w)
            | Inr None \<Rightarrow> (Inl (GoPanic ''nil pointer dereference''), w)
            | Inr (Some (name, ns)) \<Rightarrow>
                (case k_Get (td_secrets env) (secret_named name ns) w of
                   (Some e, blob, w1) \<Rightarrow> (Inl (Wrap ''failed to get blob storage connection secret'' e), w1)
                 | (None, blob, w1) \<Rightarrow>
                     (case IsClusterSTS (td_preflight env) w1 of
                        Inl e \<Rightarrow> (Inl (Wrap ''error checking STS mode'' e), w1)
                      | Inr isSTS \<Rightarrow>
                          (case write_credentials env isSTS (blank_secret ''s3-credentials'' (td_namespace env)) (sdata blob) w1 of
                             (Some e, w2) \<Rightarrow> (Inl (wrap_error ''failed to create or update blob storage aws credentials secret'' e), w2)
                           | (None, w2) \<Rightarrow> (Inr \<lparr>fs_Secret = ''s3-credentials'', fs_STS = (if isSTS then Some (True, ''openshift'') else None)\<rparr>, w2))))))"

lemmas ts_data_defs [go_defs] = RolloutDeployment_def reconcileSMTPCredentials_def request_redis_def link_secret_def postgres_step_def
  reconcileExternalDatasources_def reconcileBlobStorage_def createStsS3Secret_def write_credentials_def getBlobStorageFileStorageSpec_def

section \<open>Stored objects\<close>

text \<open>An update changes no object but its own.\<close>

lemma CreateOrUpdate_others:
  assumes srv: "stores api" "frames api" and run: "CreateOrUpdate api eq f obj w = (r, o1, w1)"
    and pure: "\<And>x e y u. f x w = (e, y, u) \<Longrightarrow> u = w" and other: "k_Key api q \<noteq> k_Key api obj"
  shows "seen api q w1 = seen api q w"
proof -
  obtain e x u where get: "k_Get api obj w = (e, x, u)" by (metis surj_pair)
  note u = stores_get(1) [OF srv(1) get]
  obtain d y v where f: "f x w = (d, y, v)" by (metis surj_pair)
  have v: "v = w" by (rule pure [OF f])
  have "w1 = w \<or> (\<exists>e o1. k_Key api y = k_Key api obj \<and> (k_Create api y w = (e, o1, w1) \<or> k_Update api y w = (e, o1, w1)))"
    using run get u f v by (auto simp: CreateOrUpdate_def mutate_def Let_def split: prod.splits option.splits if_splits)
  then show ?thesis using srv(2) other unfolding frames_def by metis
qed

lemma seen_get: "stores api \<Longrightarrow> seen api q w = (e, x) \<longleftrightarrow> k_Get api q w = (e, x, w)"
  by (auto simp: seen_def dest: stores_get(1) split: prod.splits)

lemma put_entries_pure: "put_entries kvs x w = (e, y, u) \<Longrightarrow> u = w"
  by (auto simp: put_entries_def split: option.splits)

lemma system_entries_pure: "system_entries cred x w = (e, y, u) \<Longrightarrow> u = w"
  by (auto simp: system_entries_def dest: put_entries_pure split: prod.splits option.splits)

text \<open>The values a write of distinct keys leaves.\<close>

lemma set_entries_other: "k \<notin> fst ` set kvs \<Longrightarrow> map_of (set_entries kvs d) k = map_of d k"
  unfolding set_entries_def by (induction kvs arbitrary: d) (auto simp: map_of_gset)

lemma set_entries_value: "distinct (map fst kvs) \<Longrightarrow> (k, v) \<in> set kvs \<Longrightarrow> map_of (set_entries kvs d) k = Some v"
proof (induction kvs arbitrary: d)
  case (Cons kv kvs)
  then show ?case
    using set_entries_other [of k kvs "gset k v d"] by (auto simp: set_entries_def map_of_gset image_iff split: prod.splits)
qed simp

lemma put_entries_value:
  "put_entries kvs x w = (None, s, u) \<Longrightarrow> distinct (map fst kvs) \<Longrightarrow> (k, v) \<in> set kvs \<Longrightarrow> map_of (sdata s) k = Some v"
  by (auto simp: put_entries_def sdata_def set_entries_value split: option.splits if_splits)

text \<open>What a completed link leaves: the credentials it read, the secret it wrote, and everything else as it was.\<close>

lemma link_secret_done:
  assumes srv: "stores (td_secrets env)" "frames (td_secrets env)" and run: "link_secret env what cr target f w = ((PhaseCompleted, None), w')"
    and pure: "\<And>cred x e y u v. f cred x v = (e, y, u) \<Longrightarrow> u = v"
  shows "\<exists>cred x s. k_Get (td_secrets env) (secret_named (cr_SecretName cr) (cr_SecretNamespace cr)) w = (None, cred, w) \<and> f (sdata cred) x w = (None, s, w) \<and>
     seen (td_secrets env) (blank_secret target (td_namespace env)) w' = (None, s) \<and>
     (\<forall>q. k_Key (td_secrets env) q \<noteq> k_Key (td_secrets env) (blank_secret target (td_namespace env)) \<longrightarrow> seen (td_secrets env) q w' = seen (td_secrets env) q w)"
proof -
  let ?api = "td_secrets env" and ?t = "blank_secret target (td_namespace env)"
  obtain e cred u where get: "k_Get ?api (secret_named (cr_SecretName cr) (cr_SecretNamespace cr)) w = (e, cred, u)" by (metis surj_pair)
  have u: "u = w" by (rule stores_get(1) [OF srv(1) get])
  obtain r s where e: "e = None" and cou: "CreateOrUpdate ?api (=) (f (sdata cred)) ?t w = ((r, None), s, w')"
    using run get u by (auto simp: link_secret_def split: option.splits prod.splits)
  obtain x where "f (sdata cred) x w = (None, s, w)" "k_Get ?api ?t w' = (None, s, w')"
    using CreateOrUpdate_written [OF srv(1) cou] pure by blast
  moreover have "seen ?api q w' = seen ?api q w" if "k_Key ?api q \<noteq> k_Key ?api ?t" for q
    by (rule CreateOrUpdate_others [OF srv cou _ that]) (rule pure)
  ultimately show ?thesis using get u e seen_get [OF srv(1)] by blast
qed

section \<open>Caches and database\<close>

text \<open>Writing alerts changes nothing of what the rules are kept apart from.\<close>

lemma reconcile_specs_apart:
  assumes "reads_quietly (ca_rules env)" and "writes_apart view (ca_rules env)" and "reconcile_specs env ns ss w = (e, w')"
  shows "view w' = view w"
  using assms(3)
proof (induction ss arbitrary: w)
  case (Cons s ss)
  obtain d v where r: "reconcilePrometheusRule env ns s w = (d, v)" by (metis surj_pair)
  then have "view v = view w"
    using CreateOrUpdate_apart [OF assms(1,2)] by (fastforce simp: reconcilePrometheusRule_def split: prod.splits option.splits)
  with Cons r show ?case by (auto split: option.splits)
qed simp

lemma alert_steps_apart:
  assumes "reads_quietly (ca_rules env)" and "writes_apart view (ca_rules env)" and "alert_steps env inst ss w = (e, w')"
  shows "view w' = view w"
  using assms(3)
proof (induction ss arbitrary: w)
  case (Cons s ss)
  obtain m ts where s: "s = (m, ts)" by force
  obtain d v where r: "create_alerts env inst ts w = (d, v)" by (metis surj_pair)
  then have "view v = view w" using reconcile_specs_apart [OF assms(1,2)] by (auto simp: create_alerts_def split: if_splits)
  with Cons r s show ?case by (auto split: option.splits)
qed simp

lemma resource_alerts_apart:
  assumes "reads_quietly (ca_rules env)" and "writes_apart view (ca_rules env)" and "resource_alerts env inst phase early late w = (res, w')"
  shows "view w' = view w"
  using assms(3) alert_steps_apart [OF assms(1,2)] by (fastforce simp: resource_alerts_def split: prod.splits option.splits if_splits)

lemma alert_steps_seen:
  assumes "reads_quietly (ca_rules (td_calerts env))" and "writes_apart view (ca_rules (td_calerts env))"
  shows "redis_alerts_step env inst cr w = (res, w') \<Longrightarrow> view w' = view w" and "cpu_alerts_step env inst cr w = (res, w') \<Longrightarrow> view w' = view w"
    and "postgres_alerts_step env inst cr w = (res, w') \<Longrightarrow> view w' = view w"
proof -
  show "redis_alerts_step env inst cr w = (res, w') \<Longrightarrow> view w' = view w"
    using resource_alerts_apart [OF assms] by (auto simp: redis_alerts_step_def ReconcileRedisAlerts_def split: prod.splits option.splits)
  show "cpu_alerts_step env inst cr w = (res, w') \<Longrightarrow> view w' = view w"
    using reconcile_specs_apart [OF assms] by (auto simp: cpu_alerts_step_def create_alerts_def split: prod.splits option.splits if_splits)
  show "postgres_alerts_step env inst cr w = (res, w') \<Longrightarrow> view w' = view w"
    using resource_alerts_apart [OF assms] by (auto simp: postgres_alerts_step_def ReconcilePostgresAlerts_def split: prod.splits option.splits)
qed

lemma await_resource_done: "await_resource phase cr w = ((PhaseCompleted, None), w') \<longleftrightarrow> (cr_Phase cr = ''complete'' \<or> phase = PhaseCompleted) \<and> w' = w"
  by (auto simp: await_resource_def)

text \<open>The last step, as a link followed by the deletion of a job.\<close>

lemma postgres_step_link:
  assumes run: "postgres_step env inst cr w = ((PhaseCompleted, None), w')" and job: "\<And>n ns v. view (snd (td_DeleteJob env n ns v)) = view v"
  shows "\<exists>v. link_secret env ''postgres'' cr ''system-database'' (postgres_entries inst) w = ((PhaseCompleted, None), v) \<and> view w' = view v"
proof -
  have "view (snd (deleteSystemAppPreJob env v)) = view v" for v using job [of "''system-app-pre''" "td_namespace env" v]
    by (auto simp: deleteSystemAppPreJob_def split: prod.splits)
  then have del: "deleteSystemAppPreJob env v = (e, u) \<Longrightarrow> view u = view v" for v e u by (metis snd_conv)
  from run show ?thesis
    by (auto simp: postgres_step_def link_secret_def Let_def split: prod.splits option.splits if_splits dest!: del)
qed

text \<open>
  A server that stores secrets by namespace and name and keeps them apart from each other; alerts and jobs are other objects.
\<close>

definition secrets_apart :: "'w data_env \<Rightarrow> bool" where
  "secrets_apart env \<longleftrightarrow> stores (td_secrets env) \<and> frames (td_secrets env) \<and> (\<forall>s. k_Key (td_secrets env) s = (ks_Namespace s, ks_Name s)) \<and>
     reads_quietly (ca_rules (td_calerts env)) \<and> writes_apart (\<lambda>w q. seen (td_secrets env) q w) (ca_rules (td_calerts env)) \<and>
     (\<forall>n ns w q. seen (td_secrets env) q (snd (td_DeleteJob env n ns w)) = seen (td_secrets env) q w)"

text \<open>The credentials of a cloud resource and the secret for 3scale are on the server, and agree.\<close>

definition linked :: "'w data_env \<Rightarrow> CloudResource \<Rightarrow> string \<Rightarrow> ((string, string) gomap \<Rightarrow> (string, string) gomap \<Rightarrow> bool) \<Rightarrow> 'w \<Rightarrow> bool" where
  "linked env cr target P w \<longleftrightarrow>
     (\<exists>cred s. seen (td_secrets env) (secret_named (cr_SecretName cr) (cr_SecretNamespace cr)) w = (None, cred) \<and>
        seen (td_secrets env) (blank_secret target (td_namespace env)) w = (None, s) \<and> P (sdata cred) (sdata s))"

lemma linked_view: "(\<lambda>q. seen (td_secrets env) q w') = (\<lambda>q. seen (td_secrets env) q w) \<Longrightarrow> linked env cr target P w \<Longrightarrow> linked env cr target P w'"
  unfolding linked_def by metis

lemma link_secret_secrets:
  assumes ap: "secrets_apart env" and run: "link_secret env what cr target f w = ((PhaseCompleted, None), w')"
    and pure: "\<And>cred x e y u v. f cred x v = (e, y, u) \<Longrightarrow> u = v"
  shows "\<exists>cred x s. seen (td_secrets env) (secret_named (cr_SecretName cr) (cr_SecretNamespace cr)) w = (None, cred) \<and> f (sdata cred) x w = (None, s, w) \<and>
       seen (td_secrets env) (blank_secret target (td_namespace env)) w' = (None, s)"
    and "ns \<noteq> td_namespace env \<Longrightarrow> seen (td_secrets env) (secret_named n ns) w' = seen (td_secrets env) (secret_named n ns) w"
    and "target' \<noteq> target \<Longrightarrow>
       seen (td_secrets env) (blank_secret target' (td_namespace env)) w' = seen (td_secrets env) (blank_secret target' (td_namespace env)) w"
proof -
  let ?api = "td_secrets env"
  have srv: "stores ?api" "frames ?api" and key: "\<And>s. k_Key ?api s = (ks_Namespace s, ks_Name s)" using ap by (auto simp: secrets_apart_def)
  obtain cred x s where d: "k_Get ?api (secret_named (cr_SecretName cr) (cr_SecretNamespace cr)) w = (None, cred, w)" "f (sdata cred) x w = (None, s, w)"
    "seen ?api (blank_secret target (td_namespace env)) w' = (None, s)"
    and others: "\<And>q. k_Key ?api q \<noteq> k_Key ?api (blank_secret target (td_namespace env)) \<Longrightarrow> seen ?api q w' = seen ?api q w"
    using link_secret_done [OF srv run] pure by blast
  from d show "\<exists>cred x s. seen ?api (secret_named (cr_SecretName cr) (cr_SecretNamespace cr)) w = (None, cred) \<and> f (sdata cred) x w = (None, s, w) \<and>
       seen ?api (blank_secret target (td_namespace env)) w' = (None, s)" using seen_get [OF srv(1)] by blast
  show "ns \<noteq> td_namespace env \<Longrightarrow> seen ?api (secret_named n ns) w' = seen ?api (secret_named n ns) w"
    by (rule others) (simp add: key secret_named_def blank_secret_def)
  show "target' \<noteq> target \<Longrightarrow> seen ?api (blank_secret target' (td_namespace env)) w' = seen ?api (blank_secret target' (td_namespace env)) w"
    by (rule others) (simp add: key blank_secret_def)
qed

lemma link_secret_links:
  assumes ap: "secrets_apart env" and run: "link_secret env what cr target f w = ((PhaseCompleted, None), w')" and out: "cr_SecretNamespace cr \<noteq> td_namespace env"
    and pure: "\<And>cred x e y u v. f cred x v = (e, y, u) \<Longrightarrow> u = v" and P: "\<And>cred x s. f cred x w = (None, s, w) \<Longrightarrow> P cred (sdata s)"
  shows "linked env cr target P w'"
  unfolding linked_def using link_secret_secrets(1,2) [OF ap run] pure P out by metis

lemma link_secret_keeps:
  assumes ap: "secrets_apart env" and run: "link_secret env what cr target f w = ((PhaseCompleted, None), w')"
    and pure: "\<And>cred x e y u v. f cred x v = (e, y, u) \<Longrightarrow> u = v"
    and other: "target' \<noteq> target" "cr_SecretNamespace cr' \<noteq> td_namespace env" and l: "linked env cr' target' Q w"
  shows "linked env cr' target' Q w'"
proof -
  have "seen (td_secrets env) (secret_named (cr_SecretName cr') (cr_SecretNamespace cr')) w' = seen (td_secrets env) (secret_named (cr_SecretName cr') (cr_SecretNamespace cr')) w"
    by (rule link_secret_secrets(2) [OF ap run _ other(2)]) (erule pure)
  moreover have "seen (td_secrets env) (blank_secret target' (td_namespace env)) w' = seen (td_secrets env) (blank_secret target' (td_namespace env)) w"
    by (rule link_secret_secrets(3) [OF ap run _ other(1)]) (erule pure)
  ultimately show ?thesis using l unfolding linked_def by metis
qed

abbreviation backend_wired :: "(string, string) gomap \<Rightarrow> (string, string) gomap \<Rightarrow> bool" where
  "backend_wired c d \<equiv> map_of d ''REDIS_STORAGE_URL'' = Some (redis_url c ''0'') \<and> map_of d ''REDIS_QUEUES_URL'' = Some (redis_url c ''1'')"

abbreviation system_wired :: "(string, string) gomap \<Rightarrow> (string, string) gomap \<Rightarrow> bool" where
  "system_wired c d \<equiv> map_of d ''URL'' = Some (redis_url c ''1'') \<and> list_all (\<lambda>k. map_of d k = None) messageBusKeys"

abbreviation postgres_wired :: "RHMI \<Rightarrow> (string, string) gomap \<Rightarrow> (string, string) gomap \<Rightarrow> bool" where
  "postgres_wired inst c d \<equiv> map_of d ''URL'' = Some (postgres_url inst c) \<and> map_of d ''DB_USER'' = Some (gget '''' c ''username'') \<and>
     map_of d ''DB_PASSWORD'' = Some (gget '''' c ''password'')"

lemma backend_entries_wired: "backend_entries c x w = (None, s, w) \<Longrightarrow> backend_wired c (sdata s)"
  unfolding backend_entries_def by (auto intro: put_entries_value)

lemma postgres_entries_wired: "postgres_entries inst c x w = (None, s, w) \<Longrightarrow> postgres_wired inst c (sdata s)"
  unfolding postgres_entries_def by (auto intro: put_entries_value)

lemma delete_keys: "map_of (fold AList.delete ks d) k = (if k \<in> set ks then None else map_of d k)"
  by (induction ks arbitrary: d) (auto simp: delete_conv')

lemma system_entries_wired:
  assumes "system_entries c x w = (None, s, w)"
  shows "system_wired c (sdata s)"
proof -
  obtain s1 where s1: "put_entries [(''URL'', redis_url c ''1'')] x w = (None, s1, w)" and s: "s = s1\<lparr>ks_Data := map_option (fold AList.delete messageBusKeys) (ks_Data s1)\<rparr>"
    using assms by (auto simp: system_entries_def split: prod.splits option.splits)
  have v: "map_of (sdata s1) ''URL'' = Some (redis_url c ''1'')" by (rule put_entries_value [OF s1]) auto
  then obtain d where d: "ks_Data s1 = Some d" by (auto simp: sdata_def split: option.splits)
  with v have "map_of (fold AList.delete messageBusKeys d) ''URL'' = Some (redis_url c ''1'')" by (simp add: sdata_def delete_keys messageBusKeys_def)
  moreover have "list_all (\<lambda>k. map_of (fold AList.delete messageBusKeys d) k = None) messageBusKeys" by (simp add: delete_keys list_all_iff)
  ultimately show ?thesis by (simp add: s d sdata_def)
qed

lemma request_redis_stops: "request_redis env inst what n sz c w \<noteq> (Inl (PhaseCompleted, None), w')"
  by (auto simp: request_redis_def split: sum.splits prod.splits)


section \<open>Mail server\<close>

text \<open>The entries of the secret are those of the credentials, under their keys; nothing else changes, and nothing at all when they agree.\<close>

lemma smtp_fold_exact:
  assumes "distinct (map snd ks)"
  shows "gget '''' (fold (smtp_entry cred) ks d) l = (case map_of (map prod.swap ks) l of Some k \<Rightarrow> gget '''' cred k | None \<Rightarrow> gget '''' d l)"
  using assms
proof (induction ks arbitrary: d)
  case (Cons kk ks)
  obtain k m where kk: "kk = (k, m)" by force
  have "map_of (map prod.swap ks) m = None" using Cons.prems kk by (force simp: map_of_eq_None_iff)
  moreover have "gget '''' (smtp_entry cred (k, m) d) l = (if l = m then gget '''' cred k else gget '''' d l)"
    by (simp add: smtp_entry_def gget_def map_of_gset)
  ultimately show ?case using Cons by (auto simp: kk split: option.splits)
qed simp

lemma smtp_entries_exact:
  "gget '''' (fold (smtp_entry cred) smtp_keys d) l = (case map_of (map prod.swap smtp_keys) l of Some k \<Rightarrow> gget '''' cred k | None \<Rightarrow> gget '''' d l)"
  by (rule smtp_fold_exact) (simp add: smtp_keys_def)

lemma smtp_unchanged: "\<not> smtp_changed cred d \<Longrightarrow> fold (smtp_entry cred) smtp_keys d = d"
  by (simp add: smtp_changed_def smtp_keys_def smtp_entry_def)

section \<open>Seed secrets survive\<close>

definition secret_at :: "string \<Rightarrow> string \<Rightarrow> SecretObject" where
  "secret_at name ns = \<lparr>so_Name = name, so_Namespace = ns, so_Type = '''', so_Data = []\<rparr>"

lemma seen_key: "stores api \<Longrightarrow> seen api q w = (None, x) \<Longrightarrow> k_Key api q' = k_Key api q \<Longrightarrow> seen api q' w = (None, x)"
  by (simp add: seen_get stores_get(3))

lemma CopySecret_done:
  assumes srv: "stores (br_secrets env)" "frames (br_secrets env)" and key: "\<And>s. k_Key (br_secrets env) s = (so_Namespace s, so_Name s)"
    and run: "CopySecret env n ns m ms w = (None, w')"
  shows "\<exists>src d. seen (br_secrets env) (secret_at n ns) w = (None, src) \<and> seen (br_secrets env) (secret_at m ms) w' = (None, d) \<and> so_Data d = so_Data src"
    and "(k, ks) \<noteq> (m, ms) \<Longrightarrow> seen (br_secrets env) (secret_at k ks) w' = seen (br_secrets env) (secret_at k ks) w"
proof -
  let ?api = "br_secrets env" and ?new = "\<lparr>so_Name = m, so_Namespace = ms, so_Type = ''kubernetes.io/dockerconfigjson'', so_Data = []\<rparr>"
  obtain e src u where get: "k_Get ?api (secret_at n ns) w = (e, src, u)" by (metis surj_pair)
  have u: "u = w" by (rule stores_get(1) [OF srv(1) get])
  let ?f = "pure_op (\<lambda>d. d\<lparr>so_Data := so_Data src, so_Type := so_Type src\<rparr>)"
  obtain r d where e: "e = None" and cou: "CreateOrUpdate ?api (=) ?f ?new w = ((r, None), d, w')"
    using run get u by (auto simp: CopySecret_def secret_at_def split: option.splits prod.splits)
  have pure: "pure_op g x v = (c, y, v') \<Longrightarrow> v' = v" for g and x :: SecretObject and v c y v' by (simp add: pure_op_def)
  have "so_Data d = so_Data src \<and> k_Get ?api ?new w' = (None, d, w')" using CreateOrUpdate_written [OF srv(1) cou] by (auto simp: pure_op_def)
  then have d: "so_Data d = so_Data src" "k_Get ?api ?new w' = (None, d, w')" by simp_all
  have "seen ?api (secret_at m ms) w' = (None, d)" by (rule seen_key [OF srv(1), of ?new]) (use d in \<open>simp_all add: seen_get srv key secret_at_def\<close>)
  with d(1) show "\<exists>src d. seen ?api (secret_at n ns) w = (None, src) \<and> seen ?api (secret_at m ms) w' = (None, d) \<and> so_Data d = so_Data src"
    using get u e seen_get [OF srv(1)] by blast
  show "(k, ks) \<noteq> (m, ms) \<Longrightarrow> seen ?api (secret_at k ks) w' = seen ?api (secret_at k ks) w"
    by (rule CreateOrUpdate_others [OF srv cou]) (erule pure, auto simp: key secret_at_def)
qed

text \<open>A server that takes every secret it is sent.\<close>

definition takes_secrets :: "'w base_env \<Rightarrow> bool" where
  "takes_secrets env \<longleftrightarrow> stores (br_secrets env) \<and> frames (br_secrets env) \<and> (\<forall>s. k_Key (br_secrets env) s = (so_Namespace s, so_Name s)) \<and>
     (\<forall>x w. fst (k_Create (br_secrets env) x w) = None \<and> fst (k_Update (br_secrets env) x w) = None) \<and>
     (\<forall>x w. fst (k_Get (br_secrets env) x w) = None \<or> IsNotFound (fst (k_Get (br_secrets env) x w)))"

lemma CopySecret_taken:
  assumes "takes_secrets env" and "seen (br_secrets env) (secret_at n ns) w = (None, src)"
  shows "\<exists>w'. CopySecret env n ns m ms w = (None, w')"
proof -
  let ?api = "br_secrets env" and ?new = "\<lparr>so_Name = m, so_Namespace = ms, so_Type = ''kubernetes.io/dockerconfigjson'', so_Data = []\<rparr>"
  have srv: "stores ?api" and key: "\<And>s. k_Key ?api s = (so_Namespace s, so_Name s)"
    and wr: "\<And>x w. fst (k_Create ?api x w) = None" "\<And>x w. fst (k_Update ?api x w) = None"
    and find: "\<And>x w. fst (k_Get ?api x w) = None \<or> IsNotFound (fst (k_Get ?api x w))" using assms(1) by (auto simp: takes_secrets_def)
  have get: "k_Get ?api (secret_at n ns) w = (None, src, w)" using assms(2) by (simp add: seen_get srv)
  obtain e x u where g2: "k_Get ?api ?new w = (e, x, u)" by (metis surj_pair)
  have "k_Key ?api x = k_Key ?api ?new" by (rule stores_get(2) [OF srv g2])
  with get g2 wr find [of ?new w] show ?thesis
    by (auto simp: CopySecret_def secret_at_def CreateOrUpdate_pure key split: prod.splits option.splits) (metis fst_conv option.distinct(1))+
qed

text \<open>Copies of distinct secrets between two namespaces: each arrives, and the sources stay.\<close>

lemma backup_secrets_done:
  assumes tk: "takes_secrets (td_base env)" and ns: "Namespace inst \<noteq> td_namespace env" and run: "backup_secrets env inst names w = ((PhaseCompleted, None), w')"
    and dist: "distinct names"
  shows "\<forall>n \<in> set names. \<exists>src d. seen (br_secrets (td_base env)) (secret_at n (td_namespace env)) w = (None, src) \<and>
      seen (br_secrets (td_base env)) (secret_at n (Namespace inst)) w' = (None, d) \<and> so_Data d = so_Data src"
    and "\<forall>n. n \<notin> set names \<longrightarrow> seen (br_secrets (td_base env)) (secret_at n (Namespace inst)) w' = seen (br_secrets (td_base env)) (secret_at n (Namespace inst)) w"
  using run dist
proof (induction names arbitrary: w)
  case Nil
  { case 1 then show ?case by simp }
  { case 2 then show ?case by simp }
next
  case (Cons m names)
  let ?api = "br_secrets (td_base env)" and ?p = "td_namespace env" and ?o = "Namespace inst"
  have srv: "stores ?api" "frames ?api" and key: "\<And>s. k_Key ?api s = (so_Namespace s, so_Name s)" using tk by (auto simp: takes_secrets_def)
  { case 1
    then obtain w1 where c: "CopySecret (td_base env) m ?p m ?o w = (None, w1)" and r: "backup_secrets env inst names w1 = ((PhaseCompleted, None), w')"
      by (auto split: prod.splits option.splits)
    have same: "seen ?api (secret_at n ?p) w1 = seen ?api (secret_at n ?p) w" for n by (rule CopySecret_done(2) [OF srv key c]) (use ns in simp)
    have "seen ?api (secret_at m ?o) w' = seen ?api (secret_at m ?o) w1" using Cons.IH(2) [OF r] 1 by simp
    with CopySecret_done(1) [OF srv key c] Cons.IH(1) [OF r] 1 same show ?case by auto }
  { case 2
    then obtain w1 where c: "CopySecret (td_base env) m ?p m ?o w = (None, w1)" and r: "backup_secrets env inst names w1 = ((PhaseCompleted, None), w')"
      by (auto split: prod.splits option.splits)
    have "n \<noteq> m \<Longrightarrow> seen ?api (secret_at n ?o) w1 = seen ?api (secret_at n ?o) w" for n by (rule CopySecret_done(2) [OF srv key c]) simp
    with Cons.IH(2) [OF r] 2 show ?case by auto }
qed

lemma restore_secrets_done:
  assumes tk: "takes_secrets (td_base env)" and ns: "Namespace inst \<noteq> td_namespace env"
    and src: "\<forall>n \<in> set names. fst (seen (br_secrets (td_base env)) (secret_at n (Namespace inst)) w) = None" and dist: "distinct names"
  shows "\<exists>w'. restore_secrets env inst names w = ((PhaseCompleted, None), w') \<and>
     (\<forall>n \<in> set names. \<exists>src d. seen (br_secrets (td_base env)) (secret_at n (Namespace inst)) w = (None, src) \<and>
        seen (br_secrets (td_base env)) (secret_at n (td_namespace env)) w' = (None, d) \<and> so_Data d = so_Data src) \<and>
     (\<forall>n. n \<notin> set names \<longrightarrow> seen (br_secrets (td_base env)) (secret_at n (td_namespace env)) w' = seen (br_secrets (td_base env)) (secret_at n (td_namespace env)) w)"
  using src dist
proof (induction names arbitrary: w)
  case (Cons m names)
  let ?api = "br_secrets (td_base env)" and ?p = "td_namespace env" and ?o = "Namespace inst"
  have srv: "stores ?api" "frames ?api" and key: "\<And>s. k_Key ?api s = (so_Namespace s, so_Name s)" using tk by (auto simp: takes_secrets_def)
  obtain x where "seen ?api (secret_at m ?o) w = (None, x)" using Cons.prems(1) by (metis list.set_intros(1) prod.collapse)
  from CopySecret_taken [OF tk this] obtain w1 where c: "CopySecret (td_base env) m ?o m ?p w = (None, w1)" by blast
  have o: "seen ?api (secret_at n ?o) w1 = seen ?api (secret_at n ?o) w" for n by (rule CopySecret_done(2) [OF srv key c]) (use ns in simp)
  have p: "n \<noteq> m \<Longrightarrow> seen ?api (secret_at n ?p) w1 = seen ?api (secret_at n ?p) w" for n by (rule CopySecret_done(2) [OF srv key c]) simp
  have "\<forall>n \<in> set names. fst (seen ?api (secret_at n ?o) w1) = None" using Cons.prems(1) o by simp
  then obtain w' where r: "restore_secrets env inst names w1 = ((PhaseCompleted, None), w')"
    and each: "\<forall>n \<in> set names. \<exists>src d. seen ?api (secret_at n ?o) w1 = (None, src) \<and> seen ?api (secret_at n ?p) w' = (None, d) \<and> so_Data d = so_Data src"
    and rest: "\<forall>n. n \<notin> set names \<longrightarrow> seen ?api (secret_at n ?p) w' = seen ?api (secret_at n ?p) w1"
    using Cons.IH [of w1] Cons.prems(2) by auto
  have "seen ?api (secret_at m ?p) w' = seen ?api (secret_at m ?p) w1" using rest Cons.prems(2) by simp
  with CopySecret_done(1) [OF srv key c] have "\<exists>src d. seen ?api (secret_at m ?o) w = (None, src) \<and> seen ?api (secret_at m ?p) w' = (None, d) \<and> so_Data d = so_Data src" by metis
  with c r each rest o p show ?case by auto
qed simp


text \<open>
  The snapshots before an upgrade are asked for under fixed names: they are those of the database and the caches of the installation
  only when it is called \<open>rhmi\<close>.
\<close>

lemma backups_of_rhmi_only:
  assumes "UseClusterStorage (Spec inst) = ''false''"
  shows "AWSBackup (Namespace inst) (''threescale-postgres-'' @ Name inst) PostgresSnapshotType \<in> set (threescale_backups inst) \<longleftrightarrow> Name inst = ''rhmi''"
  using assms by (auto simp: threescale_backups_def)

section \<open>Witnesses\<close>

abbreviation secret_table :: "(KeyedSecret, string \<times> string \<Rightarrow> KeyedSecret option) kind_api" where
  "secret_table \<equiv> table_api (\<lambda>s. (ks_Namespace s, ks_Name s))"

abbreviation object_table :: "(SecretObject, string \<times> string \<Rightarrow> SecretObject option) kind_api" where
  "object_table \<equiv> table_api (\<lambda>s. (so_Namespace s, so_Name s))"

definition cloud_ready :: "string \<Rightarrow> CloudResource" where
  "cloud_ready secret = \<lparr>cr_Name = ''cr'', cr_Namespace = ''op'', cr_Labels = [], cr_Phase = ''complete'', cr_Strategy = '''', cr_SecretName = secret, cr_SecretNamespace = ''op''\<rparr>"

definition sample_data :: "'w base_env \<Rightarrow> (KeyedSecret, 'w) kind_api \<Rightarrow> 'w data_env" where
  "sample_data base secrets = \<lparr>td_base = base, td_secrets = secrets, td_smtp = found_api id, td_deployments = found_api id, td_now = (\<lambda>w. ''now''),
     td_GetRedis = (\<lambda>n ns w. Inr (''redis'', ''7'')), td_ReconcileRedis = (\<lambda>n ns sz e v c w. (Inr (cloud_ready ''cache''), w)),
     td_ReconcilePostgres = (\<lambda>n ns w. (Inr (cloud_ready ''db''), w)), td_ReconcileBlobStorage = (\<lambda>n ns w. (Inr ''complete'', w)),
     td_GetBlobStorage = (\<lambda>n ns w. Inr (Some (''blob'', ''op''))), td_calerts = \<lparr>ca_rules = found_api id, ca_title = id\<rparr>, td_preflight = preflight_env_with (boot_env_with empty_api []),
     td_DeleteJob = (\<lambda>n ns w. (None, w)), td_config = NewThreeScale [(''NAMESPACE'', ''3scale'')]\<rparr>"

lemma sample_data_simps:
  "td_base (sample_data base secrets) = base" "td_secrets (sample_data base secrets) = secrets" "td_namespace (sample_data base secrets) = ''3scale''"
  "td_DeleteJob (sample_data base secrets) n ns w = (None, w)" "ca_rules (td_calerts (sample_data base secrets)) = found_api id"
  by (simp_all add: sample_data_def ThreeScale_GetNamespace_def NewThreeScale_def)

definition cloud_secrets :: "string \<times> string \<Rightarrow> KeyedSecret option" where
  "cloud_secrets = (\<lambda>k. if k = (''op'', ''cache'') then Some \<lparr>ks_Name = ''cache'', ks_Namespace = ''op'', ks_Data = Some [(''uri'', ''h''), (''port'', ''6379'')]\<rparr>
     else if k = (''op'', ''db'') then Some \<lparr>ks_Name = ''db'', ks_Namespace = ''op'', ks_Data = Some [(''username'', ''u''), (''password'', ''p'')]\<rparr> else None)"

abbreviation local_inst :: RHMI where "local_inst \<equiv> zero_rhmi\<lparr>Namespace := ''op'', Spec := zero_spec\<lparr>UseClusterStorage := ''true''\<rparr>\<rparr>"

lemma sample_data_apart: "secrets_apart (sample_data base secret_table)"
  by (simp add: secrets_apart_def sample_data_simps stores_table_api frames_table_api reads_quietly_def writes_apart_def)
     (simp add: table_api_def found_api_def)

lemma in_cluster_local: "in_cluster local_inst"
  by (simp add: in_cluster_def ToLower_def lower_char_def)

lemma local_alert_steps: "alert_steps ca local_inst steps v = (None, v)"
  by (induction steps arbitrary: v) (auto simp: create_alerts_def in_cluster_local)

lemma local_alerts:
  "redis_alerts_step env local_inst (cloud_ready n) w = ((PhaseCompleted, None), w)" "cpu_alerts_step env local_inst (cloud_ready n) w = ((PhaseCompleted, None), w)"
  "postgres_alerts_step env local_inst (cloud_ready n) w = ((PhaseCompleted, None), w)"
  by (simp_all add: redis_alerts_step_def postgres_alerts_step_def cpu_alerts_step_def ReconcileRedisAlerts_def ReconcilePostgresAlerts_def resource_alerts_def
      local_alert_steps create_alerts_def in_cluster_local) (simp_all add: cloud_ready_def)

lemma link_table:
  assumes "w (''op'', n) = Some s" "ks_Name s = n" "ks_Namespace s = ''op''" "w (''3scale'', target) = None"
    and "f (sdata s) (blank_secret target ''3scale'') w = (None, t, w)" "ks_Name t = target" "ks_Namespace t = ''3scale''"
  shows "link_secret (sample_data ready_base secret_table) what (cloud_ready n) target f w = ((PhaseCompleted, None), w((''3scale'', target) \<mapsto> t))"
proof -
  have get: "k_Get secret_table (secret_named n ''op'') w = (None, s, w)"
    "k_Get secret_table (blank_secret target ''3scale'') w = (Some (ApiErr NotFound ''''), blank_secret target ''3scale'', w)"
    using assms by (simp_all add: table_api_def secret_named_def blank_secret_def)
  have key: "k_Key secret_table x = (ks_Namespace x, ks_Name x)" "k_Create secret_table x w = (None, x, w((ks_Namespace x, ks_Name x) \<mapsto> x))" for x
    by (simp_all add: table_api_def)
  have "CreateOrUpdate secret_table (=) (f (sdata s)) (blank_secret target ''3scale'') w = ((OperationResultCreated, None), t, w((''3scale'', target) \<mapsto> t))"
    using assms(5-7) by (simp add: CreateOrUpdate_def mutate_def get key) (simp add: blank_secret_def)
  then show ?thesis by (simp add: link_secret_def sample_data_simps cloud_ready_def get)
qed

lemma postgres_table:
  assumes "w (''op'', n) = Some s" "ks_Name s = n" "ks_Namespace s = ''op''" "w (''3scale'', ''system-database'') = None"
  shows "\<exists>t. postgres_step (sample_data ready_base secret_table) local_inst (cloud_ready n) w = ((PhaseCompleted, None), w((''3scale'', ''system-database'') \<mapsto> t))"
proof -
  have get: "k_Get secret_table (secret_named n ''op'') w = (None, s, w)"
    "k_Get secret_table (blank_secret ''system-database'' ''3scale'') w = (Some (ApiErr NotFound ''''), blank_secret ''system-database'' ''3scale'', w)"
    using assms by (simp_all add: table_api_def secret_named_def blank_secret_def)
  have key: "k_Key secret_table x = (ks_Namespace x, ks_Name x)" "k_Create secret_table x w = (None, x, w((ks_Namespace x, ks_Name x) \<mapsto> x))" for x
    by (simp_all add: table_api_def)
  obtain t where "postgres_entries local_inst (sdata s) (blank_secret ''system-database'' ''3scale'') w = (None, t, w)" "ks_Name t = ''system-database''" "ks_Namespace t = ''3scale''"
    by (simp add: postgres_entries_def put_entries_def blank_secret_def)
  then have "CreateOrUpdate secret_table (=) (postgres_entries local_inst (sdata s)) (blank_secret ''system-database'' ''3scale'') w =
      ((OperationResultCreated, None), t, w((''3scale'', ''system-database'') \<mapsto> t))"
    by (simp add: CreateOrUpdate_def mutate_def get key) (simp add: blank_secret_def)
  moreover have "gget '''' (sdata (blank_secret ''system-database'' ''3scale'')) ''URL'' = ''''" by (simp add: sdata_def blank_secret_def)
  ultimately show ?thesis by (intro exI [of _ t]) (simp add: postgres_step_def sample_data_simps cloud_ready_def get)
qed


definition seeded :: "string \<times> string \<Rightarrow> SecretObject option" where
  "seeded = (\<lambda>(ns, n). if ns = ''3scale'' then Some \<lparr>so_Name = n, so_Namespace = ns, so_Type = ''Opaque'', so_Data = [(''ADMIN_USER'', n)]\<rparr> else None)"

abbreviation seed_env :: "(string \<times> string \<Rightarrow> SecretObject option) data_env" where
  "seed_env \<equiv> sample_data (ready_base\<lparr>br_secrets := object_table\<rparr>) (found_api id)"

lemma seed_env_takes: "takes_secrets (td_base seed_env)"
  by (simp add: takes_secrets_def sample_data_simps stores_table_api frames_table_api) (simp add: table_api_def split: option.splits)


end
