(* ===== verification/ThreeScale_Components.thy ===== *)
theory ThreeScale_Components
  imports ThreeScale_Data
begin

text \<open>
  The parts of 3scale itself (\<^verbatim>\<open>pkg/products/threescale/reconciler.go\<close>): the \<^verbatim>\<open>APIManager\<close> the 3scale operator deploys, the storage,
  replicas and scheduling it asks for, its routes, and the host that ends up in the configuration. The theories on portals, mail and
  rate limiting build on it. The 3scale operator, the pods and the API server are parameters.
\<close>

section \<open>The \<^verbatim>\<open>APIManager\<close>\<close>

text \<open>One component of 3scale, with the fields the operator sets.\<close>

record ComponentCR =
  co_Spec :: ComponentSpec
  co_TopologySpreadConstraints :: "TopologySpreadConstraint list"
  co_PriorityClassName :: "string option"
  co_Affinity :: "Affinity option"
  co_HTTPSPort :: "int option"

definition zero_component :: ComponentCR where
  "zero_component = \<lparr>co_Spec = \<lparr>cs_Replicas = None, cs_Resources = None\<rparr>, co_TopologySpreadConstraints = [], co_PriorityClassName = None, co_Affinity = None, co_HTTPSPort = None\<rparr>"

text \<open>Of the storage of files, the bucket; an empty one has none.\<close>

record SystemCR =
  sy_App :: "ComponentCR option"
  sy_Sidekiq :: "ComponentCR option"
  sy_Searchd :: "ComponentCR option"
  sy_FileStorage :: "FileStorageSpec option"
  sy_MemcachedTopology :: "TopologySpreadConstraint list"
  sy_MemcachedPriority :: "string option"

record ApicastCR =
  ac_Production :: "ComponentCR option"
  ac_Staging :: "ComponentCR option"

record BackendCR =
  be_Listener :: "ComponentCR option"
  be_Worker :: "ComponentCR option"
  be_Cron :: "ComponentCR option"

record ZyncCR =
  zy_App :: "ComponentCR option"
  zy_Que :: "ComponentCR option"
  zy_DatabaseTopology :: "TopologySpreadConstraint list"
  zy_DatabasePriority :: "string option"

text \<open>Redis and database of the system, and Redis of the backend, that are outside of 3scale.\<close>

record ExternalCR =
  ex_System :: "(bool \<times> bool) option"
  ex_Backend :: "bool option"

record APIManagerCR =
  am_Name :: string
  am_Namespace :: string
  am_Annotations :: "(string, string) gomap option"
  am_System :: "SystemCR option"
  am_Apicast :: "ApicastCR option"
  am_Backend :: "BackendCR option"
  am_Zync :: "ZyncCR option"
  am_External :: "ExternalCR option"
  am_HighAvailability :: bool
  am_ResourceRequirements :: bool
  am_WildcardDomain :: string
  am_PodDisruptionBudget :: bool
  am_Monitoring :: "bool option"
  am_Starting :: "string list"
  am_Stopped :: "string list"
  am_Ready :: "string list"

definition new_apim :: "string \<Rightarrow> APIManagerCR" where
  "new_apim ns = \<lparr>am_Name = ''3scale'', am_Namespace = ns, am_Annotations = None, am_System = None, am_Apicast = None, am_Backend = None, am_Zync = None,
     am_External = None, am_HighAvailability = False, am_ResourceRequirements = False, am_WildcardDomain = '''', am_PodDisruptionBudget = False,
     am_Monitoring = None, am_Starting = [], am_Stopped = [], am_Ready = []\<rparr>"

definition prepareNestedOptionalFields :: "APIManagerCR \<Rightarrow> APIManagerCR" where
  "prepareNestedOptionalFields apim =
     apim\<lparr>am_System := Some (case am_System apim of Some s \<Rightarrow> s | None \<Rightarrow>
            \<lparr>sy_App = Some zero_component, sy_Sidekiq = Some zero_component, sy_Searchd = Some zero_component, sy_FileStorage = None,
             sy_MemcachedTopology = [], sy_MemcachedPriority = None\<rparr>),
          am_Apicast := Some (case am_Apicast apim of Some a \<Rightarrow> a | None \<Rightarrow> \<lparr>ac_Production = Some zero_component, ac_Staging = Some zero_component\<rparr>),
          am_Backend := Some (case am_Backend apim of Some b \<Rightarrow> b | None \<Rightarrow>
            \<lparr>be_Listener = Some zero_component, be_Worker = Some zero_component, be_Cron = Some zero_component\<rparr>),
          am_Zync := Some (case am_Zync apim of Some z \<Rightarrow> z | None \<Rightarrow>
            \<lparr>zy_App = Some zero_component, zy_Que = Some zero_component, zy_DatabaseTopology = [], zy_DatabasePriority = None\<rparr>),
          am_External := Some (case am_External apim of Some e \<Rightarrow> e | None \<Rightarrow> \<lparr>ex_System = Some (False, False), ex_Backend = Some False\<rparr>)\<rparr>"

text \<open>The pointers inside the parts that are there are followed without a check.\<close>

definition nested_present :: "APIManagerCR \<Rightarrow> bool" where
  "nested_present apim \<longleftrightarrow>
     (case (am_System apim, am_Apicast apim, am_Backend apim, am_Zync apim, am_External apim) of
        (Some s, Some a, Some b, Some z, Some e) \<Rightarrow>
          sy_App s \<noteq> None \<and> sy_Sidekiq s \<noteq> None \<and> sy_Searchd s \<noteq> None \<and> ac_Production a \<noteq> None \<and> ac_Staging a \<noteq> None \<and>
          be_Listener b \<noteq> None \<and> be_Worker b \<noteq> None \<and> be_Cron b \<noteq> None \<and> zy_App z \<noteq> None \<and> zy_Que z \<noteq> None \<and> ex_System e \<noteq> None \<and> ex_Backend e \<noteq> None
      | _ \<Rightarrow> False)"

definition topologySpreadConstraints :: "TopologySpreadConstraint list" where
  "topologySpreadConstraints =
     [\<lparr>ts_MaxSkew = 1, ts_TopologyKey = AZ_ZoneLabel, ts_WhenUnsatisfiable = ''ScheduleAnyway'', ts_MatchLabels = [(''app'', ''3scale-api-management'')]\<rparr>]"

definition raise_replicas :: "int \<Rightarrow> ComponentCR \<Rightarrow> ComponentCR" where
  "raise_replicas n c =
     c\<lparr>co_Spec := (co_Spec c)\<lparr>cs_Replicas := (case cs_Replicas (co_Spec c) of
         None \<Rightarrow> Some (word_of_int n)
       | Some r \<Rightarrow> if sint r < n then Some (word_of_int n) else Some r)\<rparr>\<rparr>"

definition placed :: "string \<Rightarrow> ComponentCR \<Rightarrow> ComponentCR" where
  "placed prio c = c\<lparr>co_TopologySpreadConstraints := topologySpreadConstraints, co_PriorityClassName := Some prio\<rparr>"

definition apart_from :: "bool \<Rightarrow> string \<Rightarrow> string \<Rightarrow> ComponentCR \<Rightarrow> ComponentCR" where
  "apart_from required component element c =
     c\<lparr>co_Affinity := Some (SelectAntiAffinityForCluster required [(''threescale_component'', component), (''threescale_component_element'', element)])\<rparr>"

definition with_port :: "ComponentCR \<Rightarrow> ComponentCR" where
  "with_port c = c\<lparr>co_HTTPSPort := Some 8444\<rparr>"

text \<open>All that is set of the components, given the wanted replicas.\<close>

definition set_system :: "string \<Rightarrow> bool \<Rightarrow> (string, int) gomap \<Rightarrow> FileStorageSpec \<Rightarrow> SystemCR \<Rightarrow> SystemCR" where
  "set_system prio anti reps fss s =
     s\<lparr>sy_App := map_option (apart_from anti ''system'' ''app'' \<circ> raise_replicas (gget 0 reps ''systemApp'') \<circ> placed prio) (sy_App s),
       sy_Sidekiq := map_option (apart_from anti ''system'' ''sidekiq'' \<circ> raise_replicas (gget 0 reps ''systemSidekiq'') \<circ> placed prio) (sy_Sidekiq s),
       sy_Searchd := map_option (placed prio) (sy_Searchd s), sy_FileStorage := Some fss, sy_MemcachedTopology := topologySpreadConstraints, sy_MemcachedPriority := Some prio\<rparr>"

definition set_apicast :: "string \<Rightarrow> bool \<Rightarrow> (string, int) gomap \<Rightarrow> ApicastCR \<Rightarrow> ApicastCR" where
  "set_apicast prio anti reps a =
     a\<lparr>ac_Production := map_option (apart_from anti ''apicast'' ''production'' \<circ> with_port \<circ> placed prio) (ac_Production a),
       ac_Staging := map_option (apart_from anti ''apicast'' ''staging'' \<circ> raise_replicas (gget 0 reps ''apicastStage'') \<circ> with_port \<circ> placed prio) (ac_Staging a)\<rparr>"

definition set_backend :: "string \<Rightarrow> bool \<Rightarrow> (string, int) gomap \<Rightarrow> BackendCR \<Rightarrow> BackendCR" where
  "set_backend prio anti reps b =
     b\<lparr>be_Listener := map_option (apart_from anti ''backend'' ''listener'' \<circ> placed prio) (be_Listener b),
       be_Worker := map_option (apart_from anti ''backend'' ''worker'' \<circ> placed prio) (be_Worker b),
       be_Cron := map_option (apart_from anti ''backend'' ''cron'' \<circ> raise_replicas (gget 0 reps ''backendCron'') \<circ> placed prio) (be_Cron b)\<rparr>"

definition set_zync :: "string \<Rightarrow> bool \<Rightarrow> (string, int) gomap \<Rightarrow> ZyncCR \<Rightarrow> ZyncCR" where
  "set_zync prio anti reps z =
     z\<lparr>zy_App := map_option (apart_from anti ''zync'' ''zync'' \<circ> raise_replicas (gget 0 reps ''zyncApp'') \<circ> placed prio) (zy_App z),
       zy_Que := map_option (apart_from anti ''zync'' ''zync-que'' \<circ> raise_replicas (gget 0 reps ''zyncQue'') \<circ> placed prio) (zy_Que z),
       zy_DatabaseTopology := topologySpreadConstraints, zy_DatabasePriority := Some prio\<rparr>"

definition set_apim :: "RHMI \<Rightarrow> bool \<Rightarrow> FileStorageSpec \<Rightarrow> APIManagerCR \<Rightarrow> APIManagerCR" where
  "set_apim inst anti fss apim =
     (let prio = PriorityClassName (Spec inst); reps = ThreeScale_GetReplicasConfig inst in
      apim\<lparr>am_System := map_option (set_system prio anti reps fss) (am_System apim), am_Apicast := map_option (set_apicast prio anti reps) (am_Apicast apim),
           am_Backend := map_option (set_backend prio anti reps) (am_Backend apim), am_Zync := map_option (set_zync prio anti reps) (am_Zync apim),
           am_External := Some \<lparr>ex_System = Some (True, True), ex_Backend = Some True\<rparr>, am_HighAvailability := True, am_ResourceRequirements := True,
           am_WildcardDomain := (if am_WildcardDomain apim = '''' then RoutingSubdomain (Spec inst) else am_WildcardDomain apim),
           am_PodDisruptionBudget := True, am_Monitoring := Some False\<rparr>)"

text \<open>The quota sees the four components it scales.\<close>

definition quota_view :: "APIManagerCR \<Rightarrow> APIManager" where
  "quota_view apim =
     \<lparr>Apicast = map_option (\<lambda>a. \<lparr>ProductionSpec = map_option co_Spec (ac_Production a), StagingSpec = map_option co_Spec (ac_Staging a)\<rparr>) (am_Apicast apim),
      Backend = map_option (\<lambda>b. \<lparr>ListenerSpec = map_option co_Spec (be_Listener b), WorkerSpec = map_option co_Spec (be_Worker b)\<rparr>) (am_Backend apim)\<rparr>"

definition put_spec :: "ComponentSpec option \<Rightarrow> ComponentCR option \<Rightarrow> ComponentCR option" where
  "put_spec sp c = map_option (\<lambda>x. (case c of None \<Rightarrow> zero_component | Some y \<Rightarrow> y)\<lparr>co_Spec := x\<rparr>) sp"

definition put_quota :: "APIManager \<Rightarrow> APIManagerCR \<Rightarrow> APIManagerCR" where
  "put_quota t apim =
     apim\<lparr>am_Apicast := map_option (\<lambda>a. \<lparr>ac_Production = put_spec (ProductionSpec a) (Option.bind (am_Apicast apim) ac_Production),
                                         ac_Staging = put_spec (StagingSpec a) (Option.bind (am_Apicast apim) ac_Staging)\<rparr>) (Apicast t),
          am_Backend := map_option (\<lambda>b. \<lparr>be_Listener = put_spec (ListenerSpec b) (Option.bind (am_Backend apim) be_Listener),
                                         be_Worker = put_spec (WorkerSpec b) (Option.bind (am_Backend apim) be_Worker),
                                         be_Cron = Option.bind (am_Backend apim) be_Cron\<rparr>) (Backend t)\<rparr>"

definition mutate_apim :: "RHMI \<Rightarrow> bool \<Rightarrow> FileStorageSpec \<Rightarrow> Quota option \<Rightarrow> QuotaProductConfig \<Rightarrow> (APIManagerCR, 'w) op" where
  "mutate_apim inst anti fss q p apim w =
     (let apim1 = prepareNestedOptionalFields apim in
      if \<not> nested_present apim1 then (Some (GoPanic ''nil pointer dereference''), apim1, w)
      else (let apim2 = set_apim inst anti fss apim1 in
            case Configure q p (APIMgr (am_Name apim2) (quota_view apim2)) of
              None \<Rightarrow> (Some (GoPanic ''nil pointer dereference''), apim2, w)
            | Some (Inl e) \<Rightarrow> (Some e, apim2, w)
            | Some (Inr (APIMgr n t)) \<Rightarrow>
                (None, (put_quota t apim2)\<lparr>am_Annotations := Some (AddIntegreatlyOwnerAnnotations inst (am_Annotations apim2))\<rparr>, w)
            | Some (Inr other) \<Rightarrow> (None, apim2, w)))"

section \<open>Routes and deployment\<close>

text \<open>A route of zync: its labels, the host it serves, and the host and canonical router name of each ingress that admitted it.\<close>

record ZyncRoute =
  zr_Labels :: "(string, string) gomap"
  zr_Host :: string
  zr_Ingress :: "(string \<times> string) list"

text \<open>
  The environment: routes by namespace and label selector, pods (name and phase) likewise, commands run in a container of a pod, and what
  the configuration manager needs to write.
\<close>

record 'w comp_env =
  cp_data :: "'w data_env"
  cp_users :: "'w tsu_env"
  cp_apims :: "(APIManagerCR, 'w) kind_api"
  cp_lookupEnv :: "string \<Rightarrow> string option"
  cp_ListRoutes :: "string \<Rightarrow> (string \<times> string) option \<Rightarrow> 'w \<Rightarrow> err + ZyncRoute list"
  cp_ListPods :: "string \<Rightarrow> (string \<times> string) \<Rightarrow> 'w \<Rightarrow> err + (string \<times> string) list"
  cp_Exec :: "string \<Rightarrow> string \<Rightarrow> string option \<Rightarrow> string \<Rightarrow> 'w \<Rightarrow> (err + string \<times> string) \<times> 'w"
  cp_marshal :: "ProductConfig \<Rightarrow> err + string"
  cp_cmGet :: "'w cm_op"
  cp_cmCreate :: "'w cm_op"
  cp_cmUpdate :: "'w cm_op"

abbreviation cp_namespace :: "'w comp_env \<Rightarrow> string" where "cp_namespace env \<equiv> td_namespace (cp_data env)"

text \<open>Host and versions of the product are set on the configuration, which is written through the manager: both are state here.\<close>

type_synonym 'w config_op = "ThreeScale \<Rightarrow> Manager \<Rightarrow> 'w \<Rightarrow> (StatusPhase \<times> err option) \<times> ThreeScale \<times> Manager \<times> 'w"

definition write_threescale :: "'w comp_env \<Rightarrow> ThreeScale \<Rightarrow> Manager \<Rightarrow> 'w \<Rightarrow> err option \<times> Manager \<times> 'w" where
  "write_threescale env conf m = WriteConfig (cp_marshal env) (cp_cmGet env) (cp_cmCreate env) (cp_cmUpdate env) m (ThreeScale_GetProductName conf) (ThreeScale_Read conf)"

definition getThreescaleRoute :: "'w comp_env \<Rightarrow> string \<Rightarrow> (ZyncRoute \<Rightarrow> bool) option \<Rightarrow> 'w \<Rightarrow> err + ZyncRoute option" where
  "getThreescaleRoute env label filterFn w =
     map_sum id (List.find (case filterFn of None \<Rightarrow> \<lambda>r. True | Some f \<Rightarrow> f)) (cp_ListRoutes env (cp_namespace env) (Some (''zync.3scale.net/route-to'', label)) w)"

definition routesExist :: "'w comp_env \<Rightarrow> 'w \<Rightarrow> err + bool" where
  "routesExist env w = map_sum id (\<lambda>rs. 4 \<le> length rs) (cp_ListRoutes env (cp_namespace env) None w)"

definition running_pod :: "(string \<times> string) list \<Rightarrow> string" where
  "running_pod pods = (case List.find (\<lambda>(n, ph). ph = ''Running'') pods of None \<Rightarrow> '''' | Some (n, ph) \<Rightarrow> n)"

text \<open>A command that could not be run is a failure without an error.\<close>

definition resyncRoutes :: "'w comp_env \<Rightarrow> 'w phase_op" where
  "resyncRoutes env w =
     (case cp_ListPods env (cp_namespace env) (''deployment'', ''system-sidekiq'') w of
        Inl e \<Rightarrow> ((PhaseFailed, Some e), w)
      | Inr pods \<Rightarrow>
          if running_pod pods = '''' then ((PhaseInProgress, None), w)
          else (case cp_Exec env (cp_namespace env) (running_pod pods) None ''bundle exec rake zync:resync:domains'' w of
                  (Inl e, w1) \<Rightarrow> ((PhaseFailed, None), w1)
                | (Inr (out, err), w1) \<Rightarrow> (if err \<noteq> '''' then (PhaseFailed, Some (Msg err)) else (PhaseInProgress, None), w1)))"

definition routes_step :: "'w comp_env \<Rightarrow> 'w config_op" where
  "routes_step env conf m w =
     (case routesExist env w of
        Inl e \<Rightarrow> ((PhaseFailed, Some e), conf, m, w)
      | Inr True \<Rightarrow> ((PhaseCompleted, None), conf, m, w)
      | Inr False \<Rightarrow> (case resyncRoutes env w of (r, w1) \<Rightarrow> (r, conf, m, w1)))"

definition deployed_step :: "'w comp_env \<Rightarrow> 'w config_op" where
  "deployed_step env conf m w =
     (case getThreescaleRoute env ''system-provider'' (Some (\<lambda>r. prefix ''3scale-admin.'' (zr_Host r))) w of
        Inl e \<Rightarrow> ((PhaseFailed, Some e), conf, m, w)
      | Inr None \<Rightarrow> routes_step env conf m w
      | Inr (Some r) \<Rightarrow>
          (let conf1 = ThreeScale_SetHost conf (''https://'' @ zr_Host r) in
           case write_threescale env conf1 m w of
             (Some e, m1, w1) \<Rightarrow> ((PhaseFailed, Some e), conf1, m1, w1)
           | (None, m1, w1) \<Rightarrow> routes_step env conf1 m1 w1))"

definition deployments_up :: "APIManagerCR \<Rightarrow> bool" where
  "deployments_up apim \<longleftrightarrow> am_Starting apim = [] \<and> am_Stopped apim = [] \<and> am_Ready apim \<noteq> []"

definition reconcileComponents :: "'w comp_env \<Rightarrow> RHMI \<Rightarrow> Quota option \<Rightarrow> QuotaProductConfig \<Rightarrow> string \<Rightarrow> 'w config_op" where
  "reconcileComponents env inst q p platformType conf m w =
     (case getBlobStorageFileStorageSpec (cp_data env) inst platformType w of
        (Inl e, w1) \<Rightarrow> ((PhaseFailed, Some e), conf, m, w1)
      | (Inr fss, w1) \<Rightarrow>
          (case k_Get (cp_apims env) (new_apim (cp_namespace env)) w1 of
             (e, apim, w2) \<Rightarrow>
               if e \<noteq> None \<and> \<not> IsNotFound e then ((PhaseFailed, e), conf, m, w2)
               else (case CreateOrUpdate (cp_apims env) (=) (mutate_apim inst (IsAntiAffinityRequired (cp_lookupEnv env) = Inr True) fss q p) apim w2 of
                       ((r, Some e), apim1, w3) \<Rightarrow> ((PhaseFailed, Some e), conf, m, w3)
                     | ((r, None), apim1, w3) \<Rightarrow>
                         if deployments_up apim1 then deployed_step env conf m w3 else ((PhaseInProgress, None), conf, m, w3))))"

text \<open>An object that has no annotations gets them on a map of its own, which is not set on the object.\<close>

definition put_port_annotation :: "(APIManagerCR, 'w) op" where
  "put_port_annotation apim w =
     (None, apim\<lparr>am_Annotations := map_option (gset ''apps.3scale.net/disable-apicast-service-reconciler'' ''true'') (am_Annotations apim)\<rparr>, w)"

definition reconcileRatelimitPortAnnotation :: "'w comp_env \<Rightarrow> 'w phase_op" where
  "reconcileRatelimitPortAnnotation env w =
     (case CreateOrUpdate (cp_apims env) (=) put_port_annotation (new_apim (cp_namespace env)) w of
        ((r, Some e), apim, w1) \<Rightarrow> ((PhaseFailed, Some e), w1)
      | ((r, None), apim, w1) \<Rightarrow> ((PhaseCompleted, None), w1))"

lemmas ts_component_defs [go_defs] = resyncRoutes_def routes_step_def deployed_step_def reconcileComponents_def reconcileRatelimitPortAnnotation_def

section \<open>The deployed components\<close>

lemma raise_replicas_idem [simp]: "raise_replicas n (raise_replicas n c) = raise_replicas n c"
  by (simp add: raise_replicas_def split: option.split)

lemma raise_replicas_at_least:
  "n \<le> sint (word_of_int n :: 64 word) \<Longrightarrow> \<exists>r. cs_Replicas (co_Spec (raise_replicas n c)) = Some r \<and> n \<le> sint r \<and> (\<forall>r0. cs_Replicas (co_Spec c) = Some r0 \<longrightarrow> sint r0 \<le> sint r \<and> (n \<le> sint r0 \<longrightarrow> r = r0))"
  by (auto simp: raise_replicas_def split: option.split)

lemma setters_commute [simp]:
  "raise_replicas n (apart_from b s t c) = apart_from b s t (raise_replicas n c)"
  "raise_replicas n (with_port c) = with_port (raise_replicas n c)"
  "raise_replicas n (placed x c) = placed x (raise_replicas n c)"
  "placed x (apart_from b s t c) = apart_from b s t (placed x c)"
  "placed x (with_port c) = with_port (placed x c)"
  "with_port (apart_from b s t c) = apart_from b s t (with_port c)"
  "placed x (placed x c) = placed x c"
  "with_port (with_port c) = with_port c"
  "apart_from b s t (apart_from b s t c) = apart_from b s t c"
  by (simp_all add: raise_replicas_def apart_from_def with_port_def placed_def)

lemma set_parts_idem:
  "set_system x b r f (set_system x b r f s) = set_system x b r f s"
  "set_apicast x b r (set_apicast x b r a) = set_apicast x b r a"
  "set_backend x b r (set_backend x b r d) = set_backend x b r d"
  "set_zync x b r (set_zync x b r z) = set_zync x b r z"
  by (simp_all add: set_system_def set_apicast_def set_backend_def set_zync_def option.map_comp comp_def)

lemma owner_annotations_idem: "AddIntegreatlyOwnerAnnotations inst (Some (AddIntegreatlyOwnerAnnotations inst a)) = AddIntegreatlyOwnerAnnotations inst a"
  by (simp add: AddIntegreatlyOwnerAnnotations_def gset_same)

text \<open>A successful mutation, piece by piece: all parts and their components are there.\<close>

definition scaled :: "bool \<Rightarrow> QuotaProductConfig \<Rightarrow> string \<Rightarrow> ComponentCR \<Rightarrow> ComponentCR" where
  "scaled u p n c = c\<lparr>co_Spec := the (scale_component u p n (Some (check_component (Some (co_Spec c)))))\<rparr>"

definition checked :: "ComponentCR \<Rightarrow> ComponentCR" where
  "checked c = c\<lparr>co_Spec := check_component (Some (co_Spec c))\<rparr>"

definition scaled_apim :: "Quota \<Rightarrow> QuotaProductConfig \<Rightarrow> ApicastCR \<Rightarrow> BackendCR \<Rightarrow> APIManagerCR \<Rightarrow> APIManagerCR" where
  "scaled_apim Q p a b x =
     x\<lparr>am_Apicast := Some \<lparr>ac_Production = map_option (scaled (q_isUpdated Q) p ApicastProductionName) (ac_Production a), ac_Staging = map_option checked (ac_Staging a)\<rparr>,
       am_Backend := Some \<lparr>be_Listener = map_option (scaled (q_isUpdated Q) p BackendListenerName) (be_Listener b),
                           be_Worker = map_option (scaled (q_isUpdated Q) p BackendWorkerName) (be_Worker b), be_Cron = be_Cron b\<rparr>\<rparr>"

lemma nested_parts:
  assumes "nested_present apim"
  obtains s a b z e where "am_System apim = Some s" "am_Apicast apim = Some a" "am_Backend apim = Some b" "am_Zync apim = Some z" "am_External apim = Some e"
    and "sy_App s \<noteq> None" "sy_Sidekiq s \<noteq> None" "sy_Searchd s \<noteq> None" "ac_Production a \<noteq> None" "ac_Staging a \<noteq> None"
    "be_Listener b \<noteq> None" "be_Worker b \<noteq> None" "be_Cron b \<noteq> None" "zy_App z \<noteq> None" "zy_Que z \<noteq> None"
  using assms that unfolding nested_present_def by (auto split: option.splits)

lemma configured:
  assumes "am_Apicast x = Some a" "am_Backend x = Some b" "ac_Production a \<noteq> None" "ac_Staging a \<noteq> None" "be_Listener b \<noteq> None" "be_Worker b \<noteq> None"
  shows "\<exists>t. Configure (Some Q) p (APIMgr n (quota_view x)) = Some (Inr (APIMgr n t)) \<and>
     put_quota t x = scaled_apim Q p a b x"
  using assms by (auto simp: scaled_apim_def Configure_def Let_def checkApiManager_def quota_view_def put_quota_def put_spec_def scaled_def checked_def scale_component_def)

lemma mutate_apim_parts:
  assumes run: "mutate_apim inst anti fss q p apim w = (None, a1, w1)"
  obtains Q a b where "q = Some Q" "w1 = w" "nested_present (prepareNestedOptionalFields apim)"
    "am_Apicast (prepareNestedOptionalFields apim) = Some a" "am_Backend (prepareNestedOptionalFields apim) = Some b"
    "a1 = (scaled_apim Q p (set_apicast (PriorityClassName (Spec inst)) anti (ThreeScale_GetReplicasConfig inst) a)
            (set_backend (PriorityClassName (Spec inst)) anti (ThreeScale_GetReplicasConfig inst) b) (set_apim inst anti fss (prepareNestedOptionalFields apim)))
          \<lparr>am_Annotations := Some (AddIntegreatlyOwnerAnnotations inst (am_Annotations apim))\<rparr>"
proof -
  have nest: "nested_present (prepareNestedOptionalFields apim)" using run unfolding mutate_apim_def Let_def by (auto split: if_splits)
  obtain Q where Q: "q = Some Q" using run nest unfolding mutate_apim_def Let_def by (cases q) (auto simp: Configure_def)
  from nest obtain s a b z e where parts: "am_System (prepareNestedOptionalFields apim) = Some s" "am_Apicast (prepareNestedOptionalFields apim) = Some a"
    "am_Backend (prepareNestedOptionalFields apim) = Some b" "ac_Production a \<noteq> None" "ac_Staging a \<noteq> None" "be_Listener b \<noteq> None" "be_Worker b \<noteq> None" "be_Cron b \<noteq> None"
    by (rule nested_parts) auto
  have ann: "am_Annotations (prepareNestedOptionalFields apim) = am_Annotations apim" by (simp add: prepareNestedOptionalFields_def)
  show ?thesis
    by (rule that [OF Q _ nest parts(2,3)])
      (use run nest parts Q ann in \<open>auto simp: mutate_apim_def Let_def Configure_def checkApiManager_def quota_view_def put_quota_def put_spec_def set_apim_def
        set_apicast_def set_backend_def scaled_apim_def scaled_def checked_def scale_component_def\<close>)
qed

lemma scaled_checked_idem [simp]:
  "scaled u p n (scaled u p n c) = scaled u p n c" "checked (checked c) = checked c"
  by (simp_all add: scaled_def checked_def check_component_def scale_component_def Let_def nil_to_zero_def)

lemma raise_checked [simp]: "raise_replicas n (checked (raise_replicas n c)) = checked (raise_replicas n c)"
  by (simp add: checked_def raise_replicas_def check_component_def Let_def nil_to_zero_def split: option.split)

lemma setters_scaled [simp]:
  "scaled u p n (placed x c) = placed x (scaled u p n c)" "scaled u p n (apart_from r s t c) = apart_from r s t (scaled u p n c)"
  "scaled u p n (with_port c) = with_port (scaled u p n c)"
  "checked (placed x c) = placed x (checked c)" "checked (apart_from r s t c) = apart_from r s t (checked c)"
  "checked (with_port c) = with_port (checked c)"
  by (simp_all add: scaled_def checked_def placed_def apart_from_def with_port_def)

lemma prepare_present: "nested_present apim \<Longrightarrow> prepareNestedOptionalFields apim = apim"
  by (rule nested_parts, assumption) (simp add: prepareNestedOptionalFields_def)

text \<open>The wild card domain, the replicas and the rest are settled by one mutation: a second one, at any later time, changes nothing.\<close>

lemma mutate_apim_settled:
  assumes run: "mutate_apim inst anti fss q p apim w = (None, a1, w1)"
  shows "mutate_apim inst anti fss q p a1 v = (None, a1, v)"
proof -
  obtain Q a b where Q: "q = Some Q" and nest: "nested_present (prepareNestedOptionalFields apim)"
    and a: "am_Apicast (prepareNestedOptionalFields apim) = Some a" and b: "am_Backend (prepareNestedOptionalFields apim) = Some b"
    and a1: "a1 = (scaled_apim Q p (set_apicast (PriorityClassName (Spec inst)) anti (ThreeScale_GetReplicasConfig inst) a)
            (set_backend (PriorityClassName (Spec inst)) anti (ThreeScale_GetReplicasConfig inst) b) (set_apim inst anti fss (prepareNestedOptionalFields apim)))
          \<lparr>am_Annotations := Some (AddIntegreatlyOwnerAnnotations inst (am_Annotations apim))\<rparr>"
    using run by (rule mutate_apim_parts)
  from nest obtain s a0 b0 z e where parts: "am_System (prepareNestedOptionalFields apim) = Some s" "am_Zync (prepareNestedOptionalFields apim) = Some z"
    "sy_App s \<noteq> None" "sy_Sidekiq s \<noteq> None" "sy_Searchd s \<noteq> None" "zy_App z \<noteq> None" "zy_Que z \<noteq> None"
    "am_Apicast (prepareNestedOptionalFields apim) = Some a0" "am_Backend (prepareNestedOptionalFields apim) = Some b0"
    "ac_Production a0 \<noteq> None" "ac_Staging a0 \<noteq> None" "be_Listener b0 \<noteq> None" "be_Worker b0 \<noteq> None" "be_Cron b0 \<noteq> None"
    by (rule nested_parts) auto
  have present: "nested_present a1"
    unfolding a1 nested_present_def using a b parts by (auto simp: scaled_apim_def Let_def set_apim_def set_system_def set_apicast_def set_backend_def set_zync_def)
  have sets: "set_apim inst anti fss a1 = a1"
    unfolding a1 using a b parts
    by (auto simp: scaled_apim_def Let_def set_apim_def set_parts_idem) (auto simp: set_apicast_def set_backend_def)
  have "am_Apicast a1 \<noteq> None" "am_Backend a1 \<noteq> None" using present by (auto simp: nested_present_def split: option.splits)
  then obtain c d where c: "am_Apicast a1 = Some c" and d: "am_Backend a1 = Some d" by auto
  have some: "ac_Production c \<noteq> None" "ac_Staging c \<noteq> None" "be_Listener d \<noteq> None" "be_Worker d \<noteq> None"
    using present c d by (auto simp: nested_present_def split: option.splits)
  obtain t where t: "Configure (Some Q) p (APIMgr (am_Name a1) (quota_view a1)) = Some (Inr (APIMgr (am_Name a1) t))"
    and put: "put_quota t a1 = scaled_apim Q p c d a1"
    using configured [OF c d some] by blast
  have same: "(put_quota t a1)\<lparr>am_Annotations := Some (AddIntegreatlyOwnerAnnotations inst (am_Annotations a1))\<rparr> = a1"
    unfolding put using c d a1 by (auto simp: scaled_apim_def option.map_comp comp_def owner_annotations_idem)
  show ?thesis
    unfolding mutate_apim_def Let_def prepare_present [OF present] sets using present Q same t by auto
qed

lemma mutate_apim_pure: "mutate_apim inst anti fss q p x w = (e, y, u) \<Longrightarrow> u = w"
  by (auto simp: mutate_apim_def Let_def split: if_splits option.splits sum.splits workload.splits)

text \<open>What every mutation that succeeds leaves, beside what 3scale itself keeps in the object.\<close>

definition apim_wired :: "RHMI \<Rightarrow> FileStorageSpec \<Rightarrow> APIManagerCR \<Rightarrow> bool" where
  "apim_wired inst fss a \<longleftrightarrow>
     am_External a = Some \<lparr>ex_System = Some (True, True), ex_Backend = Some True\<rparr> \<and> am_HighAvailability a \<and> am_PodDisruptionBudget a \<and>
     am_Monitoring a = Some False \<and> am_Annotations a \<noteq> None \<and>
     (case (am_System a, am_Zync a, am_Backend a) of
        (Some s, Some z, Some b) \<Rightarrow>
          sy_FileStorage s = Some fss \<and>
          list_all (\<lambda>(n, c). \<exists>x r. c = Some x \<and> cs_Replicas (co_Spec x) = Some r \<and> gget 0 (ThreeScale_GetReplicasConfig inst) n \<le> sint r)
            [(''systemApp'', sy_App s), (''systemSidekiq'', sy_Sidekiq s), (''zyncApp'', zy_App z), (''zyncQue'', zy_Que z), (''backendCron'', be_Cron b)]
      | _ \<Rightarrow> False)"

lemma gget_range: "gget z m k \<in> insert z (snd ` set m)"
  by (force simp: gget_def dest: map_of_SomeD split: option.split)

lemma gset_range: "snd ` set m \<subseteq> S \<Longrightarrow> v \<in> S \<Longrightarrow> snd ` set (gset k v m) \<subseteq> S"
  by (induction m) auto

lemma quota_replicas_range: "snd ` set m \<subseteq> S \<Longrightarrow> {a, b, c} \<subseteq> S \<Longrightarrow> snd ` set (set_quota_replicas a b c m) \<subseteq> S"
  unfolding set_quota_replicas_def by (intro gset_range) auto

lemma replicas_fit: "gget 0 (ThreeScale_GetReplicasConfig inst) n \<le> sint (word_of_int (gget 0 (ThreeScale_GetReplicasConfig inst) n) :: 64 word)"
proof -
  have c1: "snd ` set (setDefaultNumberOfReplicas 1 c) \<subseteq> {1 .. 8}" if "snd ` set c \<subseteq> {1 .. 8}" for c :: "(string, int) gomap"
    using that by (auto simp: setDefaultNumberOfReplicas_def)
  have pick: "snd ` set (if b then x else y) \<subseteq> {1 .. 8}" if "snd ` set x \<subseteq> {1 .. 8}" "snd ` set y \<subseteq> {1 .. 8}" for b and x y :: "(string, int) gomap"
    using that by simp
  have "snd ` set (ThreeScale_GetReplicasConfig inst) \<subseteq> {1 .. 8}"
    unfolding ThreeScale_GetReplicasConfig_def Let_def by (intro pick quota_replicas_range c1) simp_all
  with gget_range [of 0 "ThreeScale_GetReplicasConfig inst" n] have "gget 0 (ThreeScale_GetReplicasConfig inst) n \<in> {0 .. 8}" by auto
  then show ?thesis by (simp add: sint_sbintrunc' signed_take_bit_int_eq_self)
qed

lemma raised: "\<exists>r. cs_Replicas (co_Spec (raise_replicas (gget 0 (ThreeScale_GetReplicasConfig inst) n) c)) = Some r \<and> gget 0 (ThreeScale_GetReplicasConfig inst) n \<le> sint r"
  using raise_replicas_at_least [OF replicas_fit] by blast

lemma co_Spec_setters [simp]: "co_Spec (placed x c) = co_Spec c" "co_Spec (apart_from r s t c) = co_Spec c" "co_Spec (with_port c) = co_Spec c"
  by (simp_all add: placed_def apart_from_def with_port_def)

lemma mutate_apim_wired:
  assumes "mutate_apim inst anti fss q p apim w = (None, a1, w1)"
  shows "apim_wired inst fss a1"
proof -
  obtain Q a b where nest: "nested_present (prepareNestedOptionalFields apim)"
    and ab: "am_Apicast (prepareNestedOptionalFields apim) = Some a" "am_Backend (prepareNestedOptionalFields apim) = Some b"
    and a1: "a1 = (scaled_apim Q p (set_apicast (PriorityClassName (Spec inst)) anti (ThreeScale_GetReplicasConfig inst) a)
            (set_backend (PriorityClassName (Spec inst)) anti (ThreeScale_GetReplicasConfig inst) b) (set_apim inst anti fss (prepareNestedOptionalFields apim)))
          \<lparr>am_Annotations := Some (AddIntegreatlyOwnerAnnotations inst (am_Annotations apim))\<rparr>"
    using assms by (rule mutate_apim_parts)
  from nest obtain s a0 b0 z where "am_System (prepareNestedOptionalFields apim) = Some s" "am_Zync (prepareNestedOptionalFields apim) = Some z"
    "sy_App s \<noteq> None" "sy_Sidekiq s \<noteq> None" "zy_App z \<noteq> None" "zy_Que z \<noteq> None" "am_Backend (prepareNestedOptionalFields apim) = Some b0" "be_Cron b0 \<noteq> None"
    by (rule nested_parts) auto
  then show ?thesis
    unfolding a1 apim_wired_def using ab by (auto simp: scaled_apim_def set_apim_def Let_def set_system_def set_zync_def set_backend_def raised)
qed

text \<open>Two runs in a row: the second finds what it wants and writes nothing.\<close>

lemma apim_settles:
  assumes srv: "stores (cp_apims env)" and run: "CreateOrUpdate (cp_apims env) (=) (mutate_apim inst anti fss q p) x w = ((r, None), a1, w1)"
    and key: "k_Key (cp_apims env) y = k_Key (cp_apims env) x"
  shows "CreateOrUpdate (cp_apims env) (=) (mutate_apim inst anti fss q p) y w1 = ((OperationResultNone, None), a1, w1)"
proof -
  have "\<exists>z e y. k_Key (cp_apims env) z = k_Key (cp_apims env) x \<and> k_Get (cp_apims env) z w = (e, y, w) \<and>
     mutate_apim inst anti fss q p z w = (None, a1, w) \<and> k_Get (cp_apims env) x w1 = (None, a1, w1)"
    by (rule CreateOrUpdate_written [OF srv run]) (rule mutate_apim_pure)
  then obtain z where z: "mutate_apim inst anti fss q p z w = (None, a1, w)" and got: "k_Get (cp_apims env) x w1 = (None, a1, w1)" by blast
  have "k_Get (cp_apims env) y w1 = (None, a1, w1)" using stores_get(3) [OF srv got refl key] .
  moreover have "k_Key (cp_apims env) a1 = k_Key (cp_apims env) y" using stores_get(2) [OF srv got] key by simp
  ultimately show ?thesis using mutate_apim_settled [OF z, of w1] by (simp add: CreateOrUpdate_def mutate_def Let_def)
qed

lemma routes_step_done:
  "routes_step env conf m w = ((PhaseCompleted, None), conf1, m1, w1) \<Longrightarrow>
   conf1 = conf \<and> m1 = m \<and> w1 = w \<and> (\<exists>rs. cp_ListRoutes env (cp_namespace env) None w1 = Inr rs \<and> 4 \<le> length rs)"
  by (cases "cp_ListRoutes env (cp_namespace env) None w")
    (auto simp: routes_step_def routesExist_def resyncRoutes_def split: sum.splits bool.splits prod.splits if_splits)

lemma deployed_step_done:
  assumes "deployed_step env conf m w = ((PhaseCompleted, None), conf1, m1, w1)"
  shows "(\<exists>rs. cp_ListRoutes env (cp_namespace env) None w1 = Inr rs \<and> 4 \<le> length rs) \<and>
     (case getThreescaleRoute env ''system-provider'' (Some (\<lambda>r. prefix ''3scale-admin.'' (zr_Host r))) w of
        Inr (Some r) \<Rightarrow> ThreeScale_GetHost conf1 = ''https://'' @ zr_Host r
      | Inr None \<Rightarrow> conf1 = conf
      | Inl e \<Rightarrow> False)"
  using assms unfolding deployed_step_def
  by (auto simp: Let_def ThreeScale_GetHost_def ThreeScale_SetHost_def split: sum.splits option.splits prod.splits dest!: routes_step_done)


text \<open>With a quota and no half-filled part, the mutation succeeds, and what 3scale reports of its deployments stays.\<close>

lemma mutate_apim_succeeds:
  assumes "nested_present (prepareNestedOptionalFields apim)"
  obtains a1 where "mutate_apim inst anti fss (Some Q) p apim w = (None, a1, w)" and "am_Name a1 = am_Name apim" "am_Namespace a1 = am_Namespace apim"
    "am_Starting a1 = am_Starting apim" "am_Stopped a1 = am_Stopped apim" "am_Ready a1 = am_Ready apim"
proof -
  from assms obtain a b where ab: "am_Apicast (prepareNestedOptionalFields apim) = Some a" "am_Backend (prepareNestedOptionalFields apim) = Some b"
    "ac_Production a \<noteq> None" "ac_Staging a \<noteq> None" "be_Listener b \<noteq> None" "be_Worker b \<noteq> None"
    by (rule nested_parts) auto
  let ?x = "set_apim inst anti fss (prepareNestedOptionalFields apim)"
  obtain a' b' where x: "am_Apicast ?x = Some a'" "am_Backend ?x = Some b'" "ac_Production a' \<noteq> None" "ac_Staging a' \<noteq> None" "be_Listener b' \<noteq> None" "be_Worker b' \<noteq> None"
    using ab by (auto simp: set_apim_def Let_def set_apicast_def set_backend_def)
  obtain t where "Configure (Some Q) p (APIMgr (am_Name ?x) (quota_view ?x)) = Some (Inr (APIMgr (am_Name ?x) t))" "put_quota t ?x = scaled_apim Q p a' b' ?x"
    using configured [OF x] by blast
  then show ?thesis
    using assms by (intro that [of "(scaled_apim Q p a' b' ?x)\<lparr>am_Annotations := Some (AddIntegreatlyOwnerAnnotations inst (am_Annotations ?x))\<rparr>"])
      (auto simp: mutate_apim_def Let_def scaled_apim_def set_apim_def prepareNestedOptionalFields_def)
qed

abbreviation apim_api :: "(APIManagerCR, APIManagerCR option) kind_api" where "apim_api \<equiv> sample_api (\<lambda>a. (am_Namespace a, am_Name a))"

lemma CreateOrUpdate_sample:
  "f x (Some x) = (None, y, Some x) \<Longrightarrow> key y = key x \<Longrightarrow> \<exists>r. CreateOrUpdate (sample_api key) (=) f x (Some x) = ((r, None), y, Some y)"
  by (auto simp: CreateOrUpdate_def mutate_def Let_def sample_api_def)

definition empty_manager :: Manager where
  "empty_manager = \<lparr>m_Namespace = ''op'', cfgmap = \<lparr>cm_Name = '''', cm_Namespace = '''', cm_Data = None\<rparr>\<rparr>"

definition kind_comp :: "('w base_env) \<Rightarrow> (APIManagerCR, 'w) kind_api \<Rightarrow> 'w comp_env" where
  "kind_comp base apims = \<lparr>cp_data = sample_data base (found_api (\<lambda>s. s\<lparr>ks_Data := Some [(''bucketName'', ''b'')]\<rparr>)), cp_users = kind_env, cp_apims = apims, cp_lookupEnv = (\<lambda>n. None),
     cp_ListRoutes = (\<lambda>ns sel w. Inr (replicate 4 \<lparr>zr_Labels = [], zr_Host = ''3scale-admin.apps.x'', zr_Ingress = []\<rparr>)), cp_ListPods = (\<lambda>ns l w. Inr []),
     cp_Exec = (\<lambda>ns pod c cmd w. (Inr ('''', ''''), w)), cp_marshal = (\<lambda>c. Inr ''host''), cp_cmGet = (\<lambda>c w. (None, c, w)), cp_cmCreate = (\<lambda>c w. (None, c, w)), cp_cmUpdate = (\<lambda>c w. (None, c, w))\<rparr>"

lemma kind_comp_simps:
  "cp_apims (kind_comp base apims) = apims" "cp_namespace (kind_comp base apims) = ''3scale''"
  by (simp_all add: kind_comp_def sample_data_simps)

lemma kind_storage:
  "\<exists>fss. getBlobStorageFileStorageSpec (cp_data (kind_comp base apims)) local_inst ''AWS'' w = (Inr fss, w)"
  by (simp add: kind_comp_def getBlobStorageFileStorageSpec_def sample_data_def IsClusterSTS_def preflight_env_with_def write_credentials_def createStsS3Secret_def
      secret_named_def blank_secret_def sdata_def sts_entries_def put_entries_def CreateOrUpdate_def mutate_def Let_def found_api_def)

lemma kind_deployed: "\<exists>m1. deployed_step (kind_comp base apims) conf m w = ((PhaseCompleted, None), ThreeScale_SetHost conf ''https://3scale-admin.apps.x'', m1, w)"
  by (simp add: deployed_step_def routes_step_def routesExist_def getThreescaleRoute_def write_threescale_def WriteConfig_def kind_comp_def Let_def numeral_eq_Suc)


section \<open>Boundaries\<close>

text \<open>A part of the object that someone has written without one of its components: the pointer to it is followed all the same.\<close>

lemma half_filled_panics:
  assumes "am_System apim = Some s" and "sy_App s = None \<or> sy_Sidekiq s = None \<or> sy_Searchd s = None"
  shows "fst (mutate_apim inst anti fss q p apim w) = Some (GoPanic ''nil pointer dereference'')"
  using assms by (auto simp: mutate_apim_def Let_def nested_present_def prepareNestedOptionalFields_def)

text \<open>The annotation against the reconciliation of services needs annotations to be there; those of the owner, set with the components, see to that.\<close>

lemma port_annotation_lost: "am_Annotations apim = None \<Longrightarrow> put_port_annotation apim w = (None, apim, w)"
  by (simp add: put_port_annotation_def)

lemma apim_wired_annotated: "apim_wired inst fss a \<Longrightarrow> apim_wired inst fss (a\<lparr>am_Annotations := Some ann\<rparr>)"
  by (cases a) (simp add: apim_wired_def split: option.splits)

lemma port_annotation_set:
  assumes srv: "stores (cp_apims env)" and obj: "k_Get (cp_apims env) (new_apim (cp_namespace env)) w = (None, a, w)" "apim_wired inst fss a"
    and run: "reconcileRatelimitPortAnnotation env w = ((PhaseCompleted, None), w1)"
  shows "\<exists>b ann. k_Get (cp_apims env) (new_apim (cp_namespace env)) w1 = (None, b, w1) \<and> am_Annotations b = Some ann \<and>
     map_of ann ''apps.3scale.net/disable-apicast-service-reconciler'' = Some ''true'' \<and> apim_wired inst fss b"
proof -
  obtain r b where cu: "CreateOrUpdate (cp_apims env) (=) put_port_annotation (new_apim (cp_namespace env)) w = ((r, None), b, w1)"
    using run unfolding reconcileRatelimitPortAnnotation_def by (auto split: prod.splits option.splits)
  have pure: "u = w" if "put_port_annotation x w = (e, y, u)" for x e y u using that by (simp add: put_port_annotation_def)
  have "\<exists>e x. k_Get (cp_apims env) (new_apim (cp_namespace env)) w = (e, x, w) \<and> (e = None \<or> IsNotFound e) \<and> put_port_annotation x w = (None, b, w) \<and>
     (e = None \<and> x = b \<and> w1 = w \<or> k_Get (cp_apims env) (new_apim (cp_namespace env)) w1 = (None, b, w1))"
    by (rule CreateOrUpdate_succeeds [OF srv cu]) (rule pure)
  then have "put_port_annotation a w = (None, b, w)" and "k_Get (cp_apims env) (new_apim (cp_namespace env)) w1 = (None, b, w1)" using obj(1) by auto
  moreover from this(1) have "b = a\<lparr>am_Annotations := map_option (gset ''apps.3scale.net/disable-apicast-service-reconciler'' ''true'') (am_Annotations a)\<rparr>"
    by (simp add: put_port_annotation_def)
  moreover obtain ann where "am_Annotations a = Some ann" using obj(2) by (auto simp: apim_wired_def)
  ultimately show ?thesis using apim_wired_annotated [OF obj(2)] by auto
qed

end
