(* ===== verification/ThreeScale_Portals.thy ===== *)
theory ThreeScale_Portals
  imports ThreeScale_Components
begin

text \<open>
  Whether 3scale can be reached: the custom domain the installation asks for (\<^verbatim>\<open>pkg/resources/custom-domain\<close>), the routes of the portals
  (\<^verbatim>\<open>filters.go\<close>) and the requests sent to them (\<^verbatim>\<open>ping3scalePortals\<close>). Services, custom domains and ingress controllers are read
  from the cluster; names are looked up and pages fetched by parameters.
\<close>

section \<open>Custom domains\<close>

record CustomDomainCR =
  cd_Name :: string
  cd_Domain :: string
  cd_State :: string

text \<open>Of an ingress controller, its domain and the conditions (type and status).\<close>

record IngressControllerCR =
  ic_Domain :: string
  ic_Conditions :: "(string \<times> string) list"

text \<open>A service of an ingress router: the host name and the address of each point the load balancer offers.\<close>

type_synonym lb_ingress = "string \<times> string"

text \<open>An answer with the redirections that led to it, latest first: status, and host and path of the request.\<close>

type_synonym response_chain = "(int \<times> string \<times> string) list"

record 'w portal_env =
  po_comp :: "'w comp_env"
  po_ipLiteral :: "string \<Rightarrow> bool"
  po_ListCustomDomains :: "'w \<Rightarrow> err + CustomDomainCR list"
  po_ListIngressControllers :: "'w \<Rightarrow> err + IngressControllerCR list"
  po_GetIngressController :: "string \<Rightarrow> string \<Rightarrow> 'w \<Rightarrow> err + IngressControllerCR"
  po_GetService :: "string \<Rightarrow> string \<Rightarrow> 'w \<Rightarrow> err + lb_ingress list"
  po_LookupIP :: "string \<Rightarrow> 'w \<Rightarrow> err + string list"
  po_Fetch :: "string \<Rightarrow> string \<Rightarrow> 'w \<Rightarrow> err + response_chain"

definition HasValidCustomDomainCR :: "'w portal_env \<Rightarrow> string \<Rightarrow> 'w \<Rightarrow> bool \<times> string \<times> err option" where
  "HasValidCustomDomainCR env domain w =
     (if \<not> IsValidDomain (po_ipLiteral env) domain then (False, '''', Some (Msg (''invalid domain string passed: '' @ domain)))
      else (case po_ListCustomDomains env w of
              Inl e \<Rightarrow> (False, '''', Some e)
            | Inr items \<Rightarrow>
                (case List.find (\<lambda>i. cd_Domain i = domain) items of
                   None \<Rightarrow> (False, '''', Some (Msg (''no custom domain CR found for: '' @ domain)))
                 | Some i \<Rightarrow> if cd_State i = ''Ready'' then (True, cd_Name i, None)
                             else (False, cd_Name i, Some (Msg (''custom domain CR in failing state for: '' @ domain))))))"

definition ic_available :: "IngressControllerCR \<Rightarrow> bool" where
  "ic_available i \<longleftrightarrow> (''Available'', ''True'') \<in> set (ic_Conditions i)"

definition HasValidIngressControllerCR :: "'w portal_env \<Rightarrow> string \<Rightarrow> string \<Rightarrow> 'w \<Rightarrow> bool \<times> err option" where
  "HasValidIngressControllerCR env customDomainName domain w =
     (let failing = Msg (''ingress controller CR in failing state for: '' @ domain) in
      if \<not> IsValidDomain (po_ipLiteral env) domain then (False, Some (Msg (''invalid domain string passed: '' @ domain)))
      else if customDomainName = '''' then
        (case po_ListIngressControllers env w of
           Inl e \<Rightarrow> (False, Some e)
         | Inr items \<Rightarrow>
             (case List.find (\<lambda>i. ic_Domain i = domain) items of
                None \<Rightarrow> (False, Some (Msg (''no ingress controller CR found for: '' @ domain)))
              | Some i \<Rightarrow> if ic_available i then (True, None) else (False, Some failing)))
      else
        (case po_GetIngressController env customDomainName ''openshift-ingress-operator'' w of
           Inl e \<Rightarrow> (False, Some e)
         | Inr i \<Rightarrow> if ic_available i then (True, None) else (False, Some failing)))"

definition finding_failed :: "string \<Rightarrow> err option \<Rightarrow> err" where
  "finding_failed what e = (case e of None \<Rightarrow> Msg (what @ '': <nil>'') | Some x \<Rightarrow> Wrap what x)"

definition findCustomDomainCr :: "'w portal_env \<Rightarrow> RHMI \<Rightarrow> 'w \<Rightarrow> StatusPhase \<times> string \<times> err option" where
  "findCustomDomainCr env inst w =
     (case HasValidCustomDomainCR env (RoutingSubdomain (Spec inst)) w of
        (ok, name, e) \<Rightarrow> if ok then (PhaseCompleted, name, None) else (PhaseFailed, name, Some (finding_failed ''finding CustomDomain CR failed'' e)))"

definition findIngressControllerCr :: "'w portal_env \<Rightarrow> string \<Rightarrow> RHMI \<Rightarrow> 'w \<Rightarrow> StatusPhase \<times> err option" where
  "findIngressControllerCr env customDomainName inst w =
     (case HasValidIngressControllerCR env customDomainName (RoutingSubdomain (Spec inst)) w of
        (ok, e) \<Rightarrow> if ok then (PhaseCompleted, None) else (PhaseFailed, Some (finding_failed ''finding IngressController CR failed'' e)))"

text \<open>The error shown in the status of the installation; the metric beside it is not modelled.\<close>

definition UpdateErrorAndCustomDomainMetric :: "err option \<Rightarrow> RHMI \<Rightarrow> RHMI" where
  "UpdateErrorAndCustomDomainMetric e inst =
     inst\<lparr>Status := (Status inst)\<lparr>CustomDomain := map_option (\<lambda>c. c\<lparr>EnabledError := (case e of None \<Rightarrow> '''' | Some x \<Rightarrow> err_string x)\<rparr>) (CustomDomain (Status inst))\<rparr>\<rparr>"

text \<open>
  What \<^verbatim>\<open>Reconcile\<close> does about a custom domain: \<open>Some\<close> a phase and an error it returns with, or none to go on. The error of the second
  branch comes with the phase of the step before.
\<close>

definition custom_domain_gate :: "'w portal_env \<Rightarrow> StatusPhase \<Rightarrow> RHMI \<Rightarrow> 'w \<Rightarrow> (StatusPhase \<times> err option) option \<times> RHMI" where
  "custom_domain_gate env phase inst w =
     (if \<not> IsCustomDomain inst then (None, inst)
      else (case findCustomDomainCr env inst w of
              (cdPhase, name, cdErr) \<Rightarrow>
                (case findIngressControllerCr env name inst w of
                   (icPhase, icErr) \<Rightarrow>
                     if cdErr \<noteq> None \<and> icErr \<noteq> None then (Some (icPhase, icErr), UpdateErrorAndCustomDomainMetric icErr inst)
                     else if cdPhase \<noteq> PhaseCompleted \<and> icPhase \<noteq> PhaseCompleted then
                       (let e = Msg ''customDomain Phase and ingressController Phase failed : CustomDomain or IngressController CR is not in a completed phase''
                        in (Some (phase, Some e), UpdateErrorAndCustomDomainMetric (Some e) inst))
                     else (None, UpdateErrorAndCustomDomainMetric None inst))))"

section \<open>Routes of the tenants\<close>

text \<open>The last place where one string stands in another (\<^verbatim>\<open>strings.LastIndex\<close>), as what comes before it and what follows it.\<close>

fun split_last :: "string \<Rightarrow> string \<Rightarrow> (string \<times> string) option" where
  "split_last sub [] = (if sub = [] then Some ([], []) else None)"
| "split_last sub (c # cs) =
     (case split_last sub cs of
        Some (a, b) \<Rightarrow> Some (c # a, b)
      | None \<Rightarrow> if prefix sub (c # cs) then Some ([], drop (length sub) (c # cs)) else None)"

text \<open>The portal of the developers has the name of the admin portal without its \<^verbatim>\<open>-admin\<close>.\<close>

definition generateDeveloperRoutes :: "AccountDetail list \<Rightarrow> (string \<times> string) list" where
  "generateDeveloperRoutes accounts =
     List.map_filter (\<lambda>a. map_option (\<lambda>(x, y). (x @ ''.'' @ y, ad_State a)) (split_last ''-admin.'' (ad_AdminBaseURL a))) accounts"

definition state_of_host :: "(string \<times> string) list \<Rightarrow> ZyncRoute \<Rightarrow> bool" where
  "state_of_host urls r = (case List.find (\<lambda>(url, st). HasSuffix url (zr_Host r)) urls of None \<Rightarrow> False | Some (url, st) \<Rightarrow> st = ''approved'')"

definition Filter_Provider :: "AccountDetail list \<Rightarrow> ZyncRoute \<Rightarrow> bool" where
  "Filter_Provider accounts = state_of_host (map (\<lambda>a. (ad_AdminBaseURL a, ad_State a)) accounts)"

definition Filter_Developer :: "AccountDetail list \<Rightarrow> ZyncRoute \<Rightarrow> bool" where
  "Filter_Developer accounts = state_of_host (generateDeveloperRoutes accounts)"

section \<open>Portals\<close>

record PortalInfo =
  pi_Host :: string
  pi_PortalName :: string
  pi_Ingress :: string
  pi_IsAvailable :: bool

text \<open>The answer itself, or one that led to it, must be the redirection of the wanted page.\<close>

fun checkRedirects :: "string \<Rightarrow> string \<Rightarrow> response_chain \<Rightarrow> int \<Rightarrow> bool \<times> int" where
  "checkRedirects host path [] statusCode = (False, 0)"
| "checkRedirects host path ((st, h, p) # rs) statusCode =
     (if st = statusCode \<and> h = host \<and> p = path then (True, st) else checkRedirects host path rs statusCode)"

definition GetIngressRouterIPs :: "'w portal_env \<Rightarrow> lb_ingress list \<Rightarrow> 'w \<Rightarrow> err + string list" where
  "GetIngressRouterIPs env ingress w =
     (case ingress of
        [] \<Rightarrow> Inl (GoPanic ''index out of range'')
      | (hostname, ip) # rest \<Rightarrow>
          if hostname \<noteq> ''''
          then (case po_LookupIP env hostname w of Inl e \<Rightarrow> Inl (Wrap (''unable to perform ip lookup for hostname '' @ hostname) e) | Inr ips \<Rightarrow> Inr ips)
          else Inr (map snd ingress))"

definition GetIngressRouterService :: "'w portal_env \<Rightarrow> string \<Rightarrow> 'w \<Rightarrow> err + lb_ingress list" where
  "GetIngressRouterService env svcName = po_GetService env svcName ''openshift-ingress''"

definition portal_of :: "string \<Rightarrow> string \<Rightarrow> ZyncRoute option \<Rightarrow> (string \<times> PortalInfo) list" where
  "portal_of key name r =
     (case r of
        None \<Rightarrow> []
      | Some z \<Rightarrow> (case zr_Ingress z of [] \<Rightarrow> [] | (h, canonical) # rest \<Rightarrow>
                    [(key, \<lparr>pi_Host = h, pi_PortalName = name, pi_Ingress = takeWhile (\<lambda>c. c \<noteq> CHR ''.'') canonical, pi_IsAvailable = False\<rparr>)]))"

definition ping_portal :: "'w portal_env \<Rightarrow> PortalInfo \<Rightarrow> 'w \<Rightarrow> err + PortalInfo" where
  "ping_portal env portal w =
     (case GetIngressRouterService env (pi_Ingress portal) w of
        Inl e \<Rightarrow> Inl (Wrap ''failed to retrieve ingress router service'' e)
      | Inr [] \<Rightarrow> Inl (Msg ''failed to retrieve ingress router service: <nil>'')
      | Inr (i # is') \<Rightarrow>
          (case GetIngressRouterIPs env (i # is') w of
             Inl e \<Rightarrow> Inl (Wrap ''failed to retrieve ingress router ips'' e)
           | Inr [] \<Rightarrow> Inl (GoPanic ''index out of range'')
           | Inr (ip # ips) \<Rightarrow>
               (case po_Fetch env (pi_Host portal) ip w of
                  Inl e \<Rightarrow> Inl (Wrap (''failed to ping '' @ pi_PortalName portal @ '' 3scale portal ('' @ pi_Host portal @ '')'') e)
                | Inr res \<Rightarrow>
                    Inr (portal\<lparr>pi_IsAvailable := (case res of (st, h, p) # rs \<Rightarrow> st = 200 | [] \<Rightarrow> False) \<or> fst (checkRedirects (pi_Host portal) ''/p/login'' res 302)\<rparr>))))"

fun ping_all :: "'w portal_env \<Rightarrow> (string \<times> PortalInfo) list \<Rightarrow> 'w \<Rightarrow> err + (string \<times> PortalInfo) list" where
  "ping_all env [] w = Inr []"
| "ping_all env ((k, portal) # ps) w =
     (case ping_portal env portal w of
        Inl e \<Rightarrow> Inl e
      | Inr portal' \<Rightarrow> map_sum id (Cons (k, portal')) (ping_all env ps w))"

text \<open>The labels of the metric that is set (\<^verbatim>\<open>SetThreeScalePortals\<close>), and its value.\<close>

definition SetThreeScalePortals :: "(string \<times> PortalInfo) list \<Rightarrow> (string, bool) gomap" where
  "SetThreeScalePortals portals =
     fold (\<lambda>(k, p). gset k (pi_IsAvailable p)) portals [(''system_master'', False), (''system_developer'', False), (''system_provider'', False)]"

definition no_route :: "string \<Rightarrow> err" where "no_route label = Msg (''failed to retrieve '' @ label @ '' 3scale route'')"

text \<open>The portals are gone through in the order the map gives them, \<open>order\<close>. The tenants considered are those of the first page.\<close>

definition ping3scalePortals ::
  "'w portal_env \<Rightarrow> ((string \<times> PortalInfo) list \<Rightarrow> (string \<times> PortalInfo) list) \<Rightarrow> 'w \<Rightarrow>
   ((StatusPhase \<times> err option) \<times> ((string, bool) gomap \<times> bool) option) \<times> 'w" where
  "ping3scalePortals env order w =
     (let cp = po_comp env in
      case GetMasterToken (cp_users cp) w of
        (Inl e, w1) \<Rightarrow> (((PhaseFailed, Some e), None), w1)
      | (Inr tok, w1) \<Rightarrow>
          (case ListTenantAccounts (tu_client (cp_users cp)) tok 1 None w1 of
             (Inl e, w2) \<Rightarrow> (((PhaseFailed, Some e), None), w2)
           | (Inr accounts, w2) \<Rightarrow>
               (case (getThreescaleRoute cp ''system-master'' None w2, getThreescaleRoute cp ''system-developer'' (Some (Filter_Developer accounts)) w2,
                      getThreescaleRoute cp ''system-provider'' (Some (Filter_Provider accounts)) w2) of
                  (Inl e, _, _) \<Rightarrow> (((PhaseFailed, Some (no_route ''system-master'')), None), w2)
                | (Inr master, Inl e, _) \<Rightarrow> (((PhaseFailed, Some (no_route ''system-developer'')), None), w2)
                | (Inr master, Inr developer, Inl e) \<Rightarrow> (((PhaseFailed, Some (no_route ''system-provider'')), None), w2)
                | (Inr master, Inr developer, Inr provider) \<Rightarrow>
                    (case ping_all env (order (portal_of ''system_master'' ''system-master'' master @ portal_of ''system_developer'' ''system-developer'' developer @
                                               portal_of ''system_provider'' ''system-provider'' provider)) w2 of
                       Inl e \<Rightarrow> (((PhaseFailed, Some e), None), w2)
                     | Inr portals \<Rightarrow>
                         (((PhaseCompleted, None), Some (SetThreeScalePortals portals, list_ex (\<lambda>(k, p). \<not> pi_IsAvailable p) portals)), w2)))))"

section \<open>The custom domain lets the installation go on\<close>

lemma HasValidCustomDomainCR_ok: "HasValidCustomDomainCR env d w = (ok, n, e) \<Longrightarrow> (ok \<longleftrightarrow> e = None)"
  by (auto simp: HasValidCustomDomainCR_def split: if_splits sum.splits option.splits)

lemma HasValidIngressControllerCR_ok: "HasValidIngressControllerCR env n d w = (ok, e) \<Longrightarrow> (ok \<longleftrightarrow> e = None)"
  by (auto simp: HasValidIngressControllerCR_def Let_def split: if_splits sum.splits option.splits)

text \<open>
  An installation with a custom domain goes on exactly when the custom domain of its routing subdomain is ready or an ingress
  controller for it is available (by the name of the custom domain, when there is one); otherwise it fails with the error of the ingress
  controller, which is shown in the status. The branch for phases that are not complete while one of the two was found is never taken.
\<close>

theorem custom_domain_gate_exact:
  fixes env :: "'w portal_env" and w :: 'w and phase :: StatusPhase
  assumes "IsCustomDomain inst"
  shows "case (HasValidCustomDomainCR env (RoutingSubdomain (Spec inst)) w) of (cd, name, cdErr) \<Rightarrow>
           (case HasValidIngressControllerCR env name (RoutingSubdomain (Spec inst)) w of (ic, icErr) \<Rightarrow>
              custom_domain_gate env phase inst w =
                (if cd \<or> ic then (None, UpdateErrorAndCustomDomainMetric None inst)
                 else (let e = Some (finding_failed ''finding IngressController CR failed'' icErr) in (Some (PhaseFailed, e), UpdateErrorAndCustomDomainMetric e inst))))"
proof -
  obtain cd name cdErr where cd: "HasValidCustomDomainCR env (RoutingSubdomain (Spec inst)) w = (cd, name, cdErr)" by (metis surj_pair)
  obtain ic icErr where ic: "HasValidIngressControllerCR env name (RoutingSubdomain (Spec inst)) w = (ic, icErr)" by (metis surj_pair)
  show ?thesis using assms cd ic by (auto simp: custom_domain_gate_def findCustomDomainCr_def findIngressControllerCr_def Let_def)
qed

definition kind_portal :: "unit portal_env" where
  "kind_portal = \<lparr>po_comp = kind_comp ready_base empty_api, po_ipLiteral = (\<lambda>s. False),
     po_ListCustomDomains = (\<lambda>w. Inr [\<lparr>cd_Name = ''cd'', cd_Domain = ''apps.x'', cd_State = ''Failing''\<rparr>]), po_ListIngressControllers = (\<lambda>w. Inr []),
     po_GetIngressController = (\<lambda>n ns w. Inr \<lparr>ic_Domain = ''apps.x'', ic_Conditions = [(''Available'', ''True'')]\<rparr>),
     po_GetService = (\<lambda>n ns w. Inr [('''', ''10.0.0.1'')]), po_LookupIP = (\<lambda>h w. Inr []), po_Fetch = (\<lambda>h ip w. Inr [(503, h, ''/'')])\<rparr>"

abbreviation domain_inst :: RHMI where
  "domain_inst \<equiv> zero_rhmi\<lparr>Spec := zero_spec\<lparr>RoutingSubdomain := ''apps.x''\<rparr>, Status := (Status zero_rhmi)\<lparr>CustomDomain := Some \<lparr>Enabled = True, EnabledError = ''old''\<rparr>\<rparr>\<rparr>"

text \<open>A custom domain that is failing, with an ingress controller under its name that is available.\<close>

theorem custom_domain_gate_exact_witness:
  "custom_domain_gate kind_portal PhaseCompleted domain_inst () = (None, UpdateErrorAndCustomDomainMetric None domain_inst)"
proof -
  have on: "IsCustomDomain domain_inst" by (simp add: IsCustomDomain_def)
  have valid: "IsValidDomain (\<lambda>s. False) ''apps.x''" by code_simp
  show ?thesis
    using custom_domain_gate_exact [OF on, where env = kind_portal and w = "()" and phase = PhaseCompleted] valid
    by (simp add: HasValidCustomDomainCR_def HasValidIngressControllerCR_def kind_portal_def ic_available_def)
qed

section \<open>Routes and answers\<close>

lemma split_last_sound: "split_last sub s = Some (a, b) \<Longrightarrow> s = a @ sub @ b"
  by (induction s arbitrary: a b) (auto split: option.splits if_splits prod.splits elim: prefixE)

lemma split_last_none: "split_last sub s = None \<longleftrightarrow> \<not> sublist sub s"
  by (induction s) (auto simp: sublist_Cons_right split: option.splits)

lemma split_last_last: "split_last sub s = Some (a, b) \<Longrightarrow> sub \<noteq> [] \<Longrightarrow> \<not> sublist sub (tl sub @ b)"
proof (induction s arbitrary: a b)
  case (Cons c cs)
  show ?case
  proof (cases "split_last sub cs")
    case None
    with Cons.prems have "prefix sub (c # cs)" "b = drop (length sub) (c # cs)" by (auto split: if_splits)
    then have "tl sub @ b = cs" using Cons.prems(2) by (auto elim!: prefixE) (cases sub; auto)
    then show ?thesis using None split_last_none by metis
  next
    case (Some ab)
    with Cons show ?thesis by (cases ab) auto
  qed
qed auto

text \<open>Every account whose address has \<^verbatim>\<open>-admin.\<close> in it gives one portal of developers: the address with the last of them made a dot.\<close>

lemma developer_routes_exact:
  "(url, st) \<in> set (generateDeveloperRoutes accounts) \<longleftrightarrow>
   (\<exists>a x y. a \<in> set accounts \<and> ad_State a = st \<and> split_last ''-admin.'' (ad_AdminBaseURL a) = Some (x, y) \<and>
      ad_AdminBaseURL a = x @ ''-admin.'' @ y \<and> url = x @ ''.'' @ y)"
  by (auto simp: generateDeveloperRoutes_def List.map_filter_def image_iff dest: split_last_sound) (fastforce dest: split_last_sound)+

lemma checkRedirects_iff: "fst (checkRedirects host path rs st) \<longleftrightarrow> (st, host, path) \<in> set rs"
  by (induction host path rs st rule: checkRedirects.induct) auto

section \<open>Pinging the portals\<close>

lemma ping_all_Inr:
  "ping_all env ps w = Inr qs \<longleftrightarrow> (\<forall>(k, p) \<in> set ps. \<exists>p'. ping_portal env p w = Inr p') \<and> qs = map (\<lambda>(k, p). (k, projr (ping_portal env p w))) ps"
proof (induction ps arbitrary: qs)
  case (Cons kp ps)
  obtain k p where kp: "kp = (k, p)" by (cases kp)
  show ?case
  proof (cases "ping_portal env p w")
    case (Inr p')
    have "ping_all env (kp # ps) w = Inr qs \<longleftrightarrow> (\<exists>t. ping_all env ps w = Inr t \<and> qs = (k, p') # t)"
      using Inr by (cases "ping_all env ps w") (auto simp: kp)
    then show ?thesis using Cons Inr by (auto simp: kp)
  qed (simp add: kp)
qed auto

lemma labels_set:
  "distinct (map fst qs) \<Longrightarrow> map_of (fold (\<lambda>(k, p). gset k (f p)) qs d) k = (case map_of qs k of Some p \<Rightarrow> Some (f p) | None \<Rightarrow> map_of d k)"
  by (induction qs arbitrary: d) (auto split: option.split simp: map_of_eq_None_iff image_iff)

lemma portals_distinct: "distinct (map fst (portal_of ''system_master'' a x @ portal_of ''system_developer'' b y @ portal_of ''system_provider'' c z))"
  by (auto simp: portal_of_def split: option.split list.split)

text \<open>The order in which a map is gone through, as far as Go promises one: all entries, each once.\<close>

definition some_order :: "('a list \<Rightarrow> 'a list) \<Rightarrow> bool" where
  "some_order f \<longleftrightarrow> (\<forall>xs. mset (f xs) = mset xs)"

lemma ping_all_orders:
  assumes "some_order f" "some_order g" "distinct (map fst ps)" and run: "ping_all env (f ps) w = Inr qs"
  obtains rs where "ping_all env (g ps) w = Inr rs" "set rs = set qs" "map_of (SetThreeScalePortals rs) = map_of (SetThreeScalePortals qs)"
proof -
  have same: "set (g ps) = set ps" "set (f ps) = set ps" and dist: "distinct (map fst (g ps))" "distinct (map fst (f ps))"
    using assms(1-3) unfolding some_order_def by (metis mset_eq_setD, metis mset_eq_setD, metis mset_eq_imp_distinct_iff mset_map, metis mset_eq_imp_distinct_iff mset_map)
  let ?rs = "map (\<lambda>(k, p). (k, projr (ping_portal env p w))) (g ps)"
  have rs: "ping_all env (g ps) w = Inr ?rs" and qs: "qs = map (\<lambda>(k, p). (k, projr (ping_portal env p w))) (f ps)"
    using run same by (simp_all add: ping_all_Inr)
  have sets: "set ?rs = set qs" using same qs by simp
  have keys: "distinct (map fst ?rs)" "distinct (map fst qs)" using dist qs by (simp_all add: comp_def case_prod_beta')
  then have "map_of ?rs = map_of qs" using sets map_of_inject_set by blast
  then have "map_of (SetThreeScalePortals ?rs) = map_of (SetThreeScalePortals qs)"
    unfolding SetThreeScalePortals_def by (intro ext) (simp only: labels_set [OF keys(1)] labels_set [OF keys(2)])
  with rs sets show ?thesis by (rule that)
qed

text \<open>
  Whether the portals answer does not depend on the order the map of portals is gone through: when the check completes for one order, it
  completes for every order, with the same labels and value of the metric. It completes with portals that are not available, too.
\<close>

theorem ping_order_irrelevant:
  assumes ord: "some_order f" "some_order g"
    and run: "ping3scalePortals env f w = (((PhaseCompleted, None), Some (labels, bad)), w1)"
  shows "\<exists>labels'. ping3scalePortals env g w = (((PhaseCompleted, None), Some (labels', bad)), w1) \<and> map_of labels' = map_of labels"
proof -
  let ?cp = "po_comp env"
  obtain tok w0 accounts where tok: "GetMasterToken (cp_users ?cp) w = (Inr tok, w0)" and acc: "ListTenantAccounts (tu_client (cp_users ?cp)) tok 1 None w0 = (Inr accounts, w1)"
    using run unfolding ping3scalePortals_def Let_def by (auto split: prod.splits sum.splits)
  obtain a b c where routes: "getThreescaleRoute ?cp ''system-master'' None w1 = Inr a" "getThreescaleRoute ?cp ''system-developer'' (Some (Filter_Developer accounts)) w1 = Inr b"
    "getThreescaleRoute ?cp ''system-provider'' (Some (Filter_Provider accounts)) w1 = Inr c"
    using run tok acc unfolding ping3scalePortals_def Let_def by (auto split: prod.splits sum.splits)
  let ?ps = "portal_of ''system_master'' ''system-master'' a @ portal_of ''system_developer'' ''system-developer'' b @ portal_of ''system_provider'' ''system-provider'' c"
  obtain qs where qs: "ping_all env (f ?ps) w1 = Inr qs" and out: "labels = SetThreeScalePortals qs" "bad = list_ex (\<lambda>(k, p). \<not> pi_IsAvailable p) qs"
    using run tok acc routes unfolding ping3scalePortals_def Let_def by (auto split: sum.splits)
  obtain rs where "ping_all env (g ?ps) w1 = Inr rs" "set rs = set qs" "map_of (SetThreeScalePortals rs) = map_of (SetThreeScalePortals qs)"
    using ping_all_orders [OF ord portals_distinct qs] by blast
  with out show ?thesis using tok acc routes unfolding ping3scalePortals_def Let_def by (auto simp: list_ex_iff)
qed

definition shop_portal :: "unit portal_env" where
  "shop_portal = kind_portal\<lparr>po_comp := (kind_comp ready_base empty_api)
     \<lparr>cp_users := kind_env\<lparr>tu_client := kind_client\<lparr>tc_Accounts := (\<lambda>s. Inr [acme\<lparr>ad_AdminBaseURL := ''https://acme-admin.x''\<rparr>])\<rparr>\<rparr>,
      cp_ListRoutes := (\<lambda>ns sel w. Inr [\<lparr>zr_Labels = [], zr_Host = ''acme-admin.x'', zr_Ingress = [(''acme-admin.x'', ''router-default.apps.x'')]\<rparr>])\<rparr>\<rparr>"

text \<open>Two portals of a tenant that answer with an error: the check completes, in either order, and says so in the metric.\<close>

theorem ping_order_irrelevant_witness:
  "\<exists>labels'. ping3scalePortals shop_portal rev () = (((PhaseCompleted, None), Some (labels', True)), ()) \<and> map_of labels' ''system_master'' = Some False"
proof -
  have ord: "some_order id" "some_order rev" by (simp_all add: some_order_def)
  have "ping3scalePortals shop_portal id () =
    (((PhaseCompleted, None), Some ([(''system_master'', False), (''system_developer'', False), (''system_provider'', False)], True)), ())"
    by (simp add: ping3scalePortals_def shop_portal_def kind_portal_def kind_comp_def kind_env_def kind_client_def GetMasterToken_def getToken_def ListTenantAccounts_def with_status_def
        makeRequestToMaster_def send_request_def assertStatusCode_def read_body_def getThreescaleRoute_def Filter_Developer_def Filter_Provider_def generateDeveloperRoutes_def List.map_filter_def
        state_of_host_def acme_def portal_of_def ping_portal_def GetIngressRouterService_def GetIngressRouterIPs_def SetThreeScalePortals_def Let_def)
  from ping_order_irrelevant [OF ord this] show ?thesis by auto
qed

end
