(* ===== verification/ThreeScale_Mail.thy ===== *)
theory ThreeScale_Mail
  imports ThreeScale_Portals
begin

text \<open>
  The addresses 3scale sends mail from (\<^verbatim>\<open>pkg/resources/smtp.go\<close> and the mail steps of
  \<^verbatim>\<open>pkg/products/threescale/reconciler.go\<close>), the discovery of services, and the wait for its deployments.
\<close>

section \<open>The address mail is sent from\<close>

definition GetFromAddress :: "'w tsu_env \<Rightarrow> string \<Rightarrow> 'w \<Rightarrow> (err + string) \<times> 'w" where
  "GetFromAddress env ns w =
     (case k_Get (tu_secrets env) (keyed_secret ''custom-smtp'' ns) w of
        (Some e, s, w1) \<Rightarrow> (Inl e, w1)
      | (None, s, w1) \<Rightarrow> (Inr (gget '''' (so_Data s) ''from_address''), w1))"

definition os_Getenv :: "'w comp_env \<Rightarrow> string \<Rightarrow> string" where
  "os_Getenv env n = (case cp_lookupEnv env n of None \<Rightarrow> '''' | Some v \<Rightarrow> v)"

definition GetSMTPFromAddress :: "'w comp_env \<Rightarrow> RHMI \<Rightarrow> 'w \<Rightarrow> (err + string) \<times> 'w" where
  "GetSMTPFromAddress env inst w =
     (if IsRHOAMMultitenant (Type (Spec inst)) then (Inr ''test@rhmw.io'', w)
      else (let or_env = (\<lambda>a. if a = '''' then os_Getenv env ''ALERT_SMTP_FROM'' else a) in
            if (case CustomSmtp (Status inst) of None \<Rightarrow> False | Some s \<Rightarrow> Enabled s)
            then (case GetFromAddress (cp_users env) (Namespace inst) w of (r, w1) \<Rightarrow> (map_sum id or_env r, w1))
            else (Inr (or_env (AlertFromAddress (Spec inst))), w)))"

section \<open>Variables of the deployments\<close>

definition set_variable :: "string \<Rightarrow> string \<Rightarrow> Container \<Rightarrow> Container" where
  "set_variable var value c =
     c\<lparr>ct_Env := map (\<lambda>(n, v). (n, if n = var then value else v)) (ct_Env c) @ (if var \<in> fst ` set (ct_Env c) then [] else [(var, value)])\<rparr>"

definition variable_differs :: "string \<Rightarrow> string \<Rightarrow> Container \<Rightarrow> bool" where
  "variable_differs var value c \<longleftrightarrow> var \<notin> fst ` set (ct_Env c) \<or> list_ex (\<lambda>(n, v). n = var \<and> v \<noteq> value) (ct_Env c)"

definition d_containers :: "DeploymentObject \<Rightarrow> Container list" where
  "d_containers d = (case pt_Containers (d_Template d) of None \<Rightarrow> [] | Some cs \<Rightarrow> cs)"

definition updateContainerSupportEmail :: "DeploymentObject \<Rightarrow> string \<Rightarrow> string \<Rightarrow> bool \<times> DeploymentObject" where
  "updateContainerSupportEmail d address var =
     (list_ex (variable_differs var address) (d_containers d),
      d\<lparr>d_Template := (d_Template d)\<lparr>pt_Containers := map_option (map (set_variable var address)) (pt_Containers (d_Template d))\<rparr>\<rparr>)"

definition updateSystemAppAddresses :: "DeploymentObject \<Rightarrow> string \<Rightarrow> bool \<times> DeploymentObject" where
  "updateSystemAppAddresses d value = updateContainerSupportEmail d value ''SUPPORT_EMAIL''"

definition updateSystemSidekiqAddresses :: "DeploymentObject \<Rightarrow> string \<Rightarrow> bool \<times> DeploymentObject" where
  "updateSystemSidekiqAddresses d value =
     (case updateContainerSupportEmail d value ''SUPPORT_EMAIL'' of
        (support, d1) \<Rightarrow> (case updateContainerSupportEmail d1 value ''NOTIFICATION_EMAIL'' of (notification, d2) \<Rightarrow> (support \<or> notification, d2)))"

definition reconcileDeploymentEnvarEmailAddress ::
  "'w comp_env \<Rightarrow> RHMI \<Rightarrow> string \<Rightarrow> (DeploymentObject \<Rightarrow> string \<Rightarrow> bool \<times> DeploymentObject) \<Rightarrow> 'w phase_op" where
  "reconcileDeploymentEnvarEmailAddress env inst name updateFn w =
     (case GetSMTPFromAddress env inst w of
        (Inl e, w1) \<Rightarrow> ((PhaseFailed, Some e), w1)
      | (Inr address, w1) \<Rightarrow>
          (case k_Get (td_deployments (cp_data env)) (deployment_named name (cp_namespace env)) w1 of
             (Some e, d, w2) \<Rightarrow> ((PhaseFailed, Some e), w2)
           | (None, d, w2) \<Rightarrow>
               (case updateFn d address of
                  (False, d1) \<Rightarrow> ((PhaseCompleted, None), w2)
                | (True, d1) \<Rightarrow>
                    (case k_Update (td_deployments (cp_data env)) d1 w2 of
                       (Some e, d2, w3) \<Rightarrow> ((PhaseFailed, Some e), w3)
                     | (None, d2, w3) \<Rightarrow>
                         (case RolloutDeployment (cp_data env) name w3 of
                            (Some e, w4) \<Rightarrow> ((PhaseFailed, Some e), w4)
                          | (None, w4) \<Rightarrow> ((PhaseCompleted, None), w4))))))"

text \<open>As with the routes, a command that could not be run is a failure without an error.\<close>

definition invitation_command :: "string \<Rightarrow> string" where
  "invitation_command a = ''bundle exec rails runner '' @ [CHR 0x22] @ ''a=Account.find_by_master true; a.from_email = '' @ [CHR 0x27] @ a @ [CHR 0x27] @ ''; a.save;'' @ [CHR 0x22]"

definition syncInvitationEmail :: "'w comp_env \<Rightarrow> RHMI \<Rightarrow> 'w phase_op" where
  "syncInvitationEmail env inst w =
     (case GetSMTPFromAddress env inst w of
        (Inl e, w1) \<Rightarrow> ((PhaseFailed, Some e), w1)
      | (Inr address, w1) \<Rightarrow>
          (case cp_ListPods env (cp_namespace env) (''deployment'', ''system-app'') w1 of
             Inl e \<Rightarrow> ((PhaseFailed, Some e), w1)
           | Inr pods \<Rightarrow>
               if running_pod pods = '''' then ((PhaseInProgress, None), w1)
               else (case cp_Exec env (cp_namespace env) (running_pod pods) (Some ''system-master'') (invitation_command address) w1 of
                       (Inl e, w2) \<Rightarrow> ((PhaseFailed, None), w2)
                     | (Inr (out, err), w2) \<Rightarrow> (if err \<noteq> '''' then (PhaseFailed, Some (Msg err)) else (PhaseCompleted, None), w2))))"

section \<open>Addresses of the tenants\<close>

text \<open>
  \<open>ma_NewAdminPortal\<close> says whether a client can be made for a host, \<open>ma_UpdateTenant\<close> sends the update of a tenant through it;
  \<open>ma_Status\<close> reads what a deployment reports and \<open>ma_configMaps\<close> are the ConfigMaps of the cluster.
\<close>

record DeploymentStatus =
  dp_Conditions :: "string list"
  dp_Replicas :: int
  dp_AvailableReplicas :: int
  dp_ReadyReplicas :: int
  dp_UpdatedReplicas :: int

record 'w mail_env =
  ma_comp :: "'w comp_env"
  ma_NewAdminPortal :: "string \<Rightarrow> err option"
  ma_UpdateTenant :: "string \<Rightarrow> string \<Rightarrow> int \<Rightarrow> string \<times> string \<Rightarrow> 'w \<Rightarrow> err option \<times> 'w"
  ma_Status :: "string \<Rightarrow> string \<Rightarrow> 'w \<Rightarrow> err + DeploymentStatus"
  ma_configMaps :: "(ConfigMap, 'w) kind_api"
  ma_keyed :: "(KeyedSecret, 'w) kind_api"

abbreviation ma_users :: "'w mail_env \<Rightarrow> 'w tsu_env" where "ma_users env \<equiv> cp_users (ma_comp env)"
abbreviation ma_namespace :: "'w mail_env \<Rightarrow> string" where "ma_namespace env \<equiv> cp_namespace (ma_comp env)"

text \<open>Pages are read until one has no tenant on it, a hundred at most; the first two accounts are 3scale's own.\<close>

definition tenant_account :: "AccountDetail \<Rightarrow> bool" where
  "tenant_account a \<longleftrightarrow> ad_Id a \<noteq> 1 \<and> ad_Id a \<noteq> 2"

fun tenant_pages :: "'w threeScaleClient \<Rightarrow> string \<Rightarrow> nat list \<Rightarrow> (AccountDetail list, 'w) ts_call" where
  "tenant_pages tsc tok [] w = (Inr [], w)"
| "tenant_pages tsc tok (p # ps) w =
     (case ListTenantAccounts tsc tok (int p) (Some tenant_account) w of
        (Inl e, w1) \<Rightarrow> (Inl e, w1)
      | (Inr [], w1) \<Rightarrow> (Inr [], w1)
      | (Inr (a # as'), w1) \<Rightarrow> (case tenant_pages tsc tok ps w1 of (r, w2) \<Rightarrow> (map_sum id ((@) (a # as')) r, w2)))"

fun update_tenants :: "'w mail_env \<Rightarrow> string \<Rightarrow> string \<Rightarrow> string \<Rightarrow> AccountDetail list \<Rightarrow> 'w \<Rightarrow> err option \<times> 'w" where
  "update_tenants env host tok address [] w = (None, w)"
| "update_tenants env host tok address (a # as') w =
     (case ma_UpdateTenant env host tok (ad_Id a) (''from_email'', address) w of
        (Some e, w1) \<Rightarrow> (Some e, w1)
      | (None, w1) \<Rightarrow> update_tenants env host tok address as' w1)"

definition reconcileTenantOutgoingEmailAddress :: "'w mail_env \<Rightarrow> string \<Rightarrow> 'w \<Rightarrow> err option \<times> 'w" where
  "reconcileTenantOutgoingEmailAddress env address w =
     (case GetMasterToken (ma_users env) w of
        (Inl e, w1) \<Rightarrow> (Some e, w1)
      | (Inr tok, w1) \<Rightarrow>
          (case cp_ListRoutes (ma_comp env) (ma_namespace env) None w1 of
             Inl e \<Rightarrow> (Some (Wrap ''failed to get 3scale route list during portaClient creation, error'' e), w1)
           | Inr routes \<Rightarrow>
               (case List.find (\<lambda>r. map_of (zr_Labels r) ''zync.3scale.net/route-to'' = Some ''system-master'') routes of
                  None \<Rightarrow> (Some (Msg ''failed to get 3scale route during portaClient creation''), w1)
                | Some r \<Rightarrow>
                    (case ma_NewAdminPortal env (zr_Host r) of
                       Some e \<Rightarrow> (Some (Wrap ''could not create admin portal during portaClient creation, error'' e), w1)
                     | None \<Rightarrow>
                         (case tenant_pages (tu_client (ma_users env)) tok [1..<101] w1 of
                            (Inl e, w2) \<Rightarrow> (Some e, w2)
                          | (Inr accounts, w2) \<Rightarrow> update_tenants env (zr_Host r) tok address accounts w2)))))"

definition reconcileOutgoingEmailAddress :: "'w mail_env \<Rightarrow> RHMI \<Rightarrow> 'w phase_op" where
  "reconcileOutgoingEmailAddress env inst w =
     (case GetSMTPFromAddress (ma_comp env) inst w of
        (Inl e, w1) \<Rightarrow> ((PhaseFailed, Some e), w1)
      | (Inr address, w1) \<Rightarrow>
          (case GetAdminToken (ma_users env) w1 of
             (Inl e, w2) \<Rightarrow> ((PhaseInProgress, Some e), w2)
           | (Inr tok, w2) \<Rightarrow>
               (case reconcileTenantOutgoingEmailAddress env address w2 of
                  (Some e, w3) \<Rightarrow> ((PhaseFailed, Some e), w3)
                | (None, w3) \<Rightarrow>
                    (case SetFromEmailAddress (tu_client (ma_users env)) address tok w3 of
                       (Inl e, w4) \<Rightarrow> ((PhaseFailed, Some e), w4)
                     | (Inr res, w4) \<Rightarrow> ((PhaseCompleted, None), w4)))))"

section \<open>Discovery of services\<close>

definition getOAuthClientName :: "RHMI \<Rightarrow> string" where
  "getOAuthClientName inst = NamespacePrefix (Spec inst) @ Product3Scale"

definition sd_config :: "string \<Rightarrow> string \<Rightarrow> string" where
  "sd_config client secret =
     (let q = [CHR 0x27]; nl = [CHR 0x0A] in
      ''production:'' @ nl @ ''  enabled: true'' @ nl @ ''  authentication_method: oauth'' @ nl @ ''  oauth_server_type: builtin'' @ nl @
      ''  client_id: '' @ q @ client @ q @ nl @ ''  client_secret: '' @ q @ secret @ q @ nl)"

text \<open>The secret is read inside the mutation. A ConfigMap that has no data makes it panic.\<close>

definition put_discovery :: "'w mail_env \<Rightarrow> RHMI \<Rightarrow> (ConfigMap, 'w) op" where
  "put_discovery env inst cm w =
     (case getOauthClientSecret (ma_users env) w of
        (Inl e, w1) \<Rightarrow> (Some e, cm, w1)
      | (Inr secret, w1) \<Rightarrow>
          (case cm_Data cm of
             None \<Rightarrow> (Some (GoPanic ''assignment to entry in nil map''), cm, w1)
           | Some d \<Rightarrow> (None, cm\<lparr>cm_Data := Some (gset ''service_discovery.yml'' (sd_config (getOAuthClientName inst) secret) d)\<rparr>, w1)))"

definition set_versions :: "'w mail_env \<Rightarrow> 'w config_op" where
  "set_versions env conf m w =
     (let write_if = (\<lambda>changed conf1 m w. if changed then write_threescale (ma_comp env) conf1 m w else (None, m, w));
          conf1 = (if ThreeScale_GetProductVersion conf \<noteq> Version3Scale then ThreeScale_SetProductVersion conf Version3Scale else conf) in
      case write_if (ThreeScale_GetProductVersion conf \<noteq> Version3Scale) conf1 m w of
        (Some e, m1, w1) \<Rightarrow> ((PhaseFailed, Some (Wrap ''error writing threescale config '' e)), conf1, m1, w1)
      | (None, m1, w1) \<Rightarrow>
          (let conf2 = (if ThreeScale_GetOperatorVersion conf1 \<noteq> OperatorVersion3Scale then ThreeScale_SetOperatorVersion conf1 OperatorVersion3Scale else conf1) in
           case write_if (ThreeScale_GetOperatorVersion conf1 \<noteq> OperatorVersion3Scale) conf2 m1 w1 of
             (Some e, m2, w2) \<Rightarrow> ((PhaseFailed, Some (Wrap ''error writing threescale config '' e)), conf2, m2, w2)
           | (None, m2, w2) \<Rightarrow> ((PhaseCompleted, None), conf2, m2, w2)))"

fun rollout_all :: "'w data_env \<Rightarrow> string list \<Rightarrow> 'w phase_op" where
  "rollout_all env [] w = ((PhaseCompleted, None), w)"
| "rollout_all env (n # ns) w =
     (case RolloutDeployment env n w of
        (Some e, w1) \<Rightarrow> ((PhaseInProgress, Some e), w1)
      | (None, w1) \<Rightarrow> rollout_all env ns w1)"

definition reconcileServiceDiscovery :: "'w mail_env \<Rightarrow> RHMI \<Rightarrow> 'w config_op" where
  "reconcileServiceDiscovery env inst conf m w =
     (case set_versions env conf m w of
        ((phase, Some e), conf1, m1, w1) \<Rightarrow> ((phase, Some e), conf1, m1, w1)
      | ((phase, None), conf1, m1, w1) \<Rightarrow>
          (case CreateOrUpdate (ma_configMaps env) (=) (put_discovery env inst) \<lparr>cm_Name = ''system'', cm_Namespace = ma_namespace env, cm_Data = None\<rparr> w1 of
             ((r, Some e), cm, w2) \<Rightarrow> ((PhaseInProgress, Some e), conf1, m1, w2)
           | ((r, None), cm, w2) \<Rightarrow>
               (case (if r \<noteq> OperationResultNone then rollout_all (cp_data (ma_comp env)) [''system-app'', ''system-sidekiq''] w2 else ((PhaseCompleted, None), w2)) of
                  (p, w3) \<Rightarrow> (p, conf1, m1, w3))))"

text \<open>As above: a seed secret that has no data makes the mutation panic.\<close>

definition SetAdminDetailsOnSecret :: "'w mail_env \<Rightarrow> string \<Rightarrow> string \<Rightarrow> 'w \<Rightarrow> err option \<times> 'w" where
  "SetAdminDetailsOnSecret env username email w =
     (case CreateOrUpdate (ma_keyed env) (=) (put_entries [(''ADMIN_USER'', username), (''ADMIN_EMAIL'', email)]) (secret_named ''system-seed'' (ma_namespace env)) w of
        ((r, e), s, w1) \<Rightarrow> (e, w1))"

section \<open>The wait for the deployments\<close>

definition threeScaleDeployments :: "string list" where
  "threeScaleDeployments = [''apicast-production'', ''apicast-staging'', ''backend-cron'', ''backend-listener'', ''backend-worker'', ''system-app'',
     ''system-memcache'', ''system-sidekiq'', ''system-searchd'', ''zync'', ''zync-database'', ''zync-que'']"

fun deployments_ready :: "'w mail_env \<Rightarrow> string \<Rightarrow> string list \<Rightarrow> 'w phase_op" where
  "deployments_ready env ns [] w = ((PhaseCompleted, None), w)"
| "deployments_ready env ns (n # names) w =
     (case ma_Status env n ns w of
        Inl e \<Rightarrow> ((PhaseFailed, Some e), w)
      | Inr st \<Rightarrow>
          if list_ex (\<lambda>c. c = ''False'') (dp_Conditions st) then
            (case RolloutDeployment (cp_data (ma_comp env)) n w of
               (Some e, w1) \<Rightarrow> ((PhaseFailed, Some e), w1)
             | (None, w1) \<Rightarrow> ((PhaseCreatingComponents, None), w1))
          else if list_ex (\<lambda>c. c \<noteq> ''True'' \<or> dp_Replicas st \<noteq> dp_AvailableReplicas st \<or> dp_ReadyReplicas st \<noteq> dp_UpdatedReplicas st) (dp_Conditions st) then
            ((PhaseInProgress, Some (Msg (''waiting for 3scale deployments '' @ n @ '' to become available''))), w)
          else deployments_ready env ns names w)"

definition ensureDeploymentsReady :: "'w mail_env \<Rightarrow> string \<Rightarrow> 'w phase_op" where
  "ensureDeploymentsReady env ns = deployments_ready env ns threeScaleDeployments"

section \<open>Which address, and where it ends up\<close>

lemma set_variable_same: "set_variable var v c = c \<longleftrightarrow> \<not> variable_differs var v c"
proof -
  have "map (\<lambda>(n, x). (n, if n = var then v else x)) env = env \<longleftrightarrow> (\<forall>(n, x) \<in> set env. n = var \<longrightarrow> x = v)" for env :: "(string \<times> string) list"
    by (induction env) auto
  then show ?thesis
    by (cases c) (auto simp: set_variable_def variable_differs_def list_ex_iff)
qed

lemma set_variable_exact: "set_variable var v c = c' \<Longrightarrow> (var, x) \<in> set (ct_Env c') \<longleftrightarrow> x = v"
  by (auto simp: set_variable_def image_iff split: if_splits) (force)+

lemma set_variable_others: "n \<noteq> var \<Longrightarrow> (n, x) \<in> set (ct_Env (set_variable var v c)) \<longleftrightarrow> (n, x) \<in> set (ct_Env c)"
  by (auto simp: set_variable_def image_iff split: prod.splits) 

lemma map_id_iff: "map f xs = xs \<longleftrightarrow> (\<forall>x \<in> set xs. f x = x)"
  by (induction xs) auto

lemma restarted_names: "d_Name (restarted_at t d) = d_Name d" "d_Namespace (restarted_at t d) = d_Namespace d"
  by (simp_all add: restarted_at_def)

lemma email_update:
  assumes "updateContainerSupportEmail d a var = (b, d1)"
  shows "d_containers d1 = map (set_variable var a) (d_containers d)" and "b \<longleftrightarrow> d1 \<noteq> d" and "d_Name d1 = d_Name d" "d_Namespace d1 = d_Namespace d"
proof -
  have d1: "d1 = d\<lparr>d_Template := (d_Template d)\<lparr>pt_Containers := map_option (map (set_variable var a)) (pt_Containers (d_Template d))\<rparr>\<rparr>"
    and b: "b = list_ex (variable_differs var a) (d_containers d)" using assms by (simp_all add: updateContainerSupportEmail_def)
  show "d_containers d1 = map (set_variable var a) (d_containers d)" "d_Name d1 = d_Name d" "d_Namespace d1 = d_Namespace d"
    unfolding d1 d_containers_def by (simp_all split: option.split)
  have "d1 = d \<longleftrightarrow> map_option (map (set_variable var a)) (pt_Containers (d_Template d)) = pt_Containers (d_Template d)"
    unfolding d1 by (cases d, cases "d_Template d") auto
  also have "\<dots> \<longleftrightarrow> (\<forall>c \<in> set (d_containers d). set_variable var a c = c)"
    unfolding d_containers_def by (cases "pt_Containers (d_Template d)") (auto simp: map_id_iff)
  finally show "b \<longleftrightarrow> d1 \<noteq> d" unfolding b list_ex_iff set_variable_same by blast
qed

text \<open>The variables of every container have one value, the address.\<close>

definition addressed :: "string list \<Rightarrow> string \<Rightarrow> DeploymentObject \<Rightarrow> bool" where
  "addressed vars a d \<longleftrightarrow> (\<forall>c \<in> set (d_containers d). \<forall>var \<in> set vars. \<forall>x. (var, x) \<in> set (ct_Env c) \<longleftrightarrow> x = a)"

lemma addressed_email: "updateContainerSupportEmail d a var = (b, d1) \<Longrightarrow> addressed [var] a d1"
  by (auto simp: addressed_def email_update(1) set_variable_exact)

lemma addressed_keep: "updateContainerSupportEmail d a var = (b, d1) \<Longrightarrow> addressed vars a d \<Longrightarrow> var \<notin> set vars \<Longrightarrow> addressed vars a d1"
  unfolding addressed_def email_update(1) set_map ball_simps(9) by (metis set_variable_others)

lemma addressed_restarted: "addressed vars a (restarted_at t d) \<longleftrightarrow> addressed vars a d"
  by (simp add: addressed_def d_containers_def restarted_at_def)

text \<open>What is asked of a function that puts the address into a deployment; servers that tell deployments by name and namespace.\<close>

definition by_name :: "(DeploymentObject, 'w) kind_api \<Rightarrow> bool" where
  "by_name api \<longleftrightarrow> (\<forall>d d'. d_Name d = d_Name d' \<longrightarrow> d_Namespace d = d_Namespace d' \<longrightarrow> k_Key api d = k_Key api d')"

locale address_update =
  fixes update :: "DeploymentObject \<Rightarrow> string \<Rightarrow> bool \<times> DeploymentObject"
    and vars :: "string list"
  assumes puts: "update d a = (b, d1) \<Longrightarrow> addressed vars a d1"
    and tells: "update d a = (False, d1) \<Longrightarrow> d1 = d"
    and names: "update d a = (b, d1) \<Longrightarrow> d_Name d1 = d_Name d \<and> d_Namespace d1 = d_Namespace d"
begin

lemma address_ends_up:
  assumes srv: "stores (td_deployments (cp_data env))" "by_name (td_deployments (cp_data env))"
    and address: "GetSMTPFromAddress env inst w = (Inr a, w1)"
    and run: "reconcileDeploymentEnvarEmailAddress env inst n update w = ((PhaseCompleted, None), w')"
  shows "\<exists>d. k_Get (td_deployments (cp_data env)) (deployment_named n (cp_namespace env)) w' = (None, d, w') \<and> addressed vars a d"
proof -
  let ?api = "td_deployments (cp_data env)" and ?q = "deployment_named n (cp_namespace env)"
  obtain d w2 where get: "k_Get ?api ?q w1 = (None, d, w2)"
    using run address unfolding reconcileDeploymentEnvarEmailAddress_def by (auto split: prod.splits option.splits)
  note w2 = stores_get(1) [OF srv(1) get] and kd = stores_get(2) [OF srv(1) get]
  obtain b d1 where up: "update d a = (b, d1)" by (cases "update d a")
  show ?thesis
  proof (cases b)
    case False
    then have "d1 = d" using up by (auto intro: tells)
    then have "addressed vars a d" using puts [OF up] by simp
    then show ?thesis using False run address get up w2 unfolding reconcileDeploymentEnvarEmailAddress_def by auto
  next
    case True
    then obtain d2 w3 where wr: "k_Update ?api d1 w1 = (None, d2, w3)" and roll: "RolloutDeployment (cp_data env) n w3 = (None, w')"
      using run address get up w2 unfolding reconcileDeploymentEnvarEmailAddress_def by (auto split: prod.splits option.splits)
    have k1: "k_Key ?api d1 = k_Key ?api ?q" using kd names [OF up] srv(2) unfolding by_name_def by metis
    have g3: "k_Get ?api ?q w3 = (None, d1, w3)" using stores_update(2) [OF srv(1) wr, of ?q] k1 by simp
    obtain t d3 where wr3: "k_Update ?api (restarted_at t d1) w3 = (None, d3, w')"
      using roll g3 unfolding RolloutDeployment_def by (auto split: prod.splits option.splits)
    have "k_Key ?api (restarted_at t d1) = k_Key ?api ?q" using k1 srv(2) unfolding by_name_def by (metis restarted_names)
    then have "k_Get ?api ?q w' = (None, restarted_at t d1, w')" using stores_update(2) [OF srv(1) wr3, of ?q] by simp
    then show ?thesis using puts [OF up] addressed_restarted by blast
  qed
qed

text \<open>Nothing else on the server changes.\<close>

lemma address_alone:
  assumes srv: "stores (td_deployments (cp_data env))" "by_name (td_deployments (cp_data env))" "frames (td_deployments (cp_data env))"
    and address: "GetSMTPFromAddress env inst w = (Inr a, w1)"
    and run: "reconcileDeploymentEnvarEmailAddress env inst n update w = ((PhaseCompleted, None), w')"
    and other: "k_Key (td_deployments (cp_data env)) q \<noteq> k_Key (td_deployments (cp_data env)) (deployment_named n (cp_namespace env))"
  shows "seen (td_deployments (cp_data env)) q w' = seen (td_deployments (cp_data env)) q w1"
proof -
  let ?api = "td_deployments (cp_data env)" and ?q = "deployment_named n (cp_namespace env)"
  obtain d w2 where get: "k_Get ?api ?q w1 = (None, d, w2)"
    using run address unfolding reconcileDeploymentEnvarEmailAddress_def by (auto split: prod.splits option.splits)
  note w2 = stores_get(1) [OF srv(1) get] and kd = stores_get(2) [OF srv(1) get]
  obtain b d1 where up: "update d a = (b, d1)" by (cases "update d a")
  have k1: "k_Key ?api d1 = k_Key ?api ?q" using kd names [OF up] srv(2) unfolding by_name_def by metis
  show ?thesis
  proof (cases b)
    case False
    then show ?thesis using run address get up w2 unfolding reconcileDeploymentEnvarEmailAddress_def by auto
  next
    case True
    then obtain d2 w3 where wr: "k_Update ?api d1 w1 = (None, d2, w3)" and roll: "RolloutDeployment (cp_data env) n w3 = (None, w')"
      using run address get up w2 unfolding reconcileDeploymentEnvarEmailAddress_def by (auto split: prod.splits option.splits)
    obtain t d3 where wr3: "k_Update ?api (restarted_at t d1) w3 = (None, d3, w')"
      using roll stores_update(2) [OF srv(1) wr, of ?q] k1 unfolding RolloutDeployment_def by (auto split: prod.splits option.splits)
    have "k_Key ?api (restarted_at t d1) = k_Key ?api d1" using srv(2) unfolding by_name_def by (metis restarted_names)
    then show ?thesis using srv(3) wr wr3 other k1 unfolding frames_def by metis
  qed
qed

end

interpretation app_address: address_update updateSystemAppAddresses "[''SUPPORT_EMAIL'']"
  by unfold_locales (auto simp: updateSystemAppAddresses_def addressed_email email_update(3,4) dest: email_update(2))

lemma sidekiq_parts:
  assumes "updateSystemSidekiqAddresses d a = (b, d2)"
  obtains b1 b2 d1 where "updateContainerSupportEmail d a ''SUPPORT_EMAIL'' = (b1, d1)" "updateContainerSupportEmail d1 a ''NOTIFICATION_EMAIL'' = (b2, d2)" "b = (b1 \<or> b2)"
  using assms that unfolding updateSystemSidekiqAddresses_def by (auto split: prod.splits)

interpretation sidekiq_address: address_update updateSystemSidekiqAddresses "[''SUPPORT_EMAIL'', ''NOTIFICATION_EMAIL'']"
proof unfold_locales
  fix d a b d1
  assume "updateSystemSidekiqAddresses d a = (b, d1)"
  then obtain b1 b2 d0 where up: "updateContainerSupportEmail d a ''SUPPORT_EMAIL'' = (b1, d0)" "updateContainerSupportEmail d0 a ''NOTIFICATION_EMAIL'' = (b2, d1)"
    by (rule sidekiq_parts)
  have "addressed [''SUPPORT_EMAIL''] a d1" using addressed_keep [OF up(2) addressed_email [OF up(1)]] by simp
  then show "addressed [''SUPPORT_EMAIL'', ''NOTIFICATION_EMAIL''] a d1" using addressed_email [OF up(2)] by (simp add: addressed_def)
  show "d_Name d1 = d_Name d \<and> d_Namespace d1 = d_Namespace d" using email_update(3,4) [OF up(1)] email_update(3,4) [OF up(2)] by simp
next
  fix d a d1
  assume "updateSystemSidekiqAddresses d a = (False, d1)"
  then obtain b1 b2 d0 where "updateContainerSupportEmail d a ''SUPPORT_EMAIL'' = (b1, d0)" "updateContainerSupportEmail d0 a ''NOTIFICATION_EMAIL'' = (b2, d1)" "\<not> b1" "\<not> b2"
    by (rule sidekiq_parts) auto
  then show "d1 = d" using email_update(2) by blast
qed

text \<open>
  The address mail is sent from: after the steps for the two deployments of 3scale have completed one after the other, every container
  of each of them on the server has the address of the installation in its variables, and no other value for them.
\<close>

theorem mail_address_set:
  assumes srv: "stores (td_deployments (cp_data env))" "by_name (td_deployments (cp_data env))" "frames (td_deployments (cp_data env))"
    and keys: "k_Key (td_deployments (cp_data env)) (deployment_named ''system-app'' (cp_namespace env)) \<noteq> k_Key (td_deployments (cp_data env)) (deployment_named ''system-sidekiq'' (cp_namespace env))"
    and address: "\<And>u. GetSMTPFromAddress env inst u = (Inr a, u)"
    and run: "reconcileDeploymentEnvarEmailAddress env inst ''system-app'' updateSystemAppAddresses w = ((PhaseCompleted, None), w1)"
      "reconcileDeploymentEnvarEmailAddress env inst ''system-sidekiq'' updateSystemSidekiqAddresses w1 = ((PhaseCompleted, None), w2)"
  shows "\<exists>app sidekiq. k_Get (td_deployments (cp_data env)) (deployment_named ''system-app'' (cp_namespace env)) w2 = (None, app, w2) \<and>
     k_Get (td_deployments (cp_data env)) (deployment_named ''system-sidekiq'' (cp_namespace env)) w2 = (None, sidekiq, w2) \<and>
     addressed [''SUPPORT_EMAIL''] a app \<and> addressed [''SUPPORT_EMAIL'', ''NOTIFICATION_EMAIL''] a sidekiq"
proof -
  let ?api = "td_deployments (cp_data env)" and ?app = "deployment_named ''system-app'' (cp_namespace env)"
  obtain app where "k_Get ?api ?app w1 = (None, app, w1)" and app: "addressed [''SUPPORT_EMAIL''] a app"
    using app_address.address_ends_up [OF srv(1,2) address run(1)] by blast
  then have "seen ?api ?app w2 = (None, app)"
    using sidekiq_address.address_alone [OF srv address run(2), of ?app] keys by (simp add: seen_def)
  then have "k_Get ?api ?app w2 = (None, app, w2)" by (simp add: seen_get [OF srv(1)])
  then show ?thesis using app sidekiq_address.address_ends_up [OF srv(1,2) address run(2)] by blast
qed

abbreviation deployment_table :: "(DeploymentObject, string \<times> string \<Rightarrow> DeploymentObject option) kind_api" where
  "deployment_table \<equiv> table_api (\<lambda>d. (d_Namespace d, d_Name d))"

definition mail_comp :: "(string \<times> string \<Rightarrow> DeploymentObject option) comp_env" where
  "mail_comp = (kind_comp ready_base empty_api)\<lparr>cp_data := (sample_data ready_base (found_api id))\<lparr>td_deployments := deployment_table\<rparr>\<rparr>"

abbreviation one_container :: "(string \<times> string) list \<Rightarrow> DeploymentObject \<Rightarrow> DeploymentObject" where
  "one_container env d \<equiv> d\<lparr>d_Template := zero_template\<lparr>pt_Containers := Some [zero_container\<lparr>ct_Env := env\<rparr>]\<rparr>\<rparr>"

definition two_deployments :: "string \<times> string \<Rightarrow> DeploymentObject option" where
  "two_deployments = [(''3scale'', ''system-app'') \<mapsto> one_container [(''SUPPORT_EMAIL'', ''old'')] (deployment_named ''system-app'' ''3scale''),
     (''3scale'', ''system-sidekiq'') \<mapsto> one_container [] (deployment_named ''system-sidekiq'' ''3scale'')]"

abbreviation mail_inst :: RHMI where "mail_inst \<equiv> zero_rhmi\<lparr>Spec := zero_spec\<lparr>AlertFromAddress := ''from@x''\<rparr>\<rparr>"

lemma mail_comp_simps: "td_deployments (cp_data mail_comp) = deployment_table" "cp_namespace mail_comp = ''3scale''" "td_namespace (cp_data mail_comp) = ''3scale''"
  by (simp_all add: mail_comp_def sample_data_def ThreeScale_GetNamespace_def NewThreeScale_def)

text \<open>A deployment with another address, and one with none.\<close>

theorem mail_address_set_witness:
  "\<exists>w1 w2 app sidekiq. reconcileDeploymentEnvarEmailAddress mail_comp mail_inst ''system-app'' updateSystemAppAddresses two_deployments = ((PhaseCompleted, None), w1) \<and>
     reconcileDeploymentEnvarEmailAddress mail_comp mail_inst ''system-sidekiq'' updateSystemSidekiqAddresses w1 = ((PhaseCompleted, None), w2) \<and>
     w2 (''3scale'', ''system-app'') = Some app \<and> w2 (''3scale'', ''system-sidekiq'') = Some sidekiq \<and>
     addressed [''SUPPORT_EMAIL''] ''from@x'' app \<and> addressed [''SUPPORT_EMAIL'', ''NOTIFICATION_EMAIL''] ''from@x'' sidekiq"
proof -
  have address: "GetSMTPFromAddress mail_comp mail_inst u = (Inr ''from@x'', u)" for u
    by (simp add: GetSMTPFromAddress_def IsRHOAMMultitenant_def IsRHOAM_def isMultitenant_def zero_rhmi_def zero_spec_def zero_status_def Let_def)
  have srv: "stores (td_deployments (cp_data mail_comp))" "by_name (td_deployments (cp_data mail_comp))" "frames (td_deployments (cp_data mail_comp))"
    by (simp_all add: mail_comp_simps stores_table_api frames_table_api by_name_def) (simp add: table_api_def)
  have keys: "k_Key (td_deployments (cp_data mail_comp)) (deployment_named ''system-app'' (cp_namespace mail_comp)) \<noteq>
      k_Key (td_deployments (cp_data mail_comp)) (deployment_named ''system-sidekiq'' (cp_namespace mail_comp))"
    by (simp add: mail_comp_simps table_api_def deployment_named_def)
  obtain w1 where r1: "reconcileDeploymentEnvarEmailAddress mail_comp mail_inst ''system-app'' updateSystemAppAddresses two_deployments = ((PhaseCompleted, None), w1)"
    and keep: "w1 (''3scale'', ''system-sidekiq'') = two_deployments (''3scale'', ''system-sidekiq'')"
    by (simp add: reconcileDeploymentEnvarEmailAddress_def address mail_comp_simps table_api_def deployment_named_def two_deployments_def updateSystemAppAddresses_def
        updateContainerSupportEmail_def d_containers_def variable_differs_def RolloutDeployment_def restarted_at_def)
  obtain w2 where r2: "reconcileDeploymentEnvarEmailAddress mail_comp mail_inst ''system-sidekiq'' updateSystemSidekiqAddresses w1 = ((PhaseCompleted, None), w2)"
    using keep by (simp add: reconcileDeploymentEnvarEmailAddress_def address mail_comp_simps table_api_def deployment_named_def two_deployments_def updateSystemSidekiqAddresses_def
        updateContainerSupportEmail_def d_containers_def variable_differs_def RolloutDeployment_def restarted_at_def zero_container_def)
  show ?thesis
    using mail_address_set [OF srv keys address r1 r2] r1 r2 unfolding mail_comp_simps
    by (auto simp: table_api_def deployment_named_def split: option.splits if_splits)
qed

section \<open>Readiness, discovery and tenants\<close>

text \<open>
  The wait for the deployments completes exactly when each of the twelve was read, every condition it reports is true, and if it reports
  any, all its replicas are available and all that are ready are of the latest kind. Nothing is written then.
\<close>

theorem deployments_ready_exact:
  "ensureDeploymentsReady env ns w = ((PhaseCompleted, None), w') \<longleftrightarrow>
   w' = w \<and> list_all (\<lambda>n. case ma_Status env n ns w of Inl e \<Rightarrow> False
     | Inr st \<Rightarrow> dp_Conditions st = [] \<or> set (dp_Conditions st) = {''True''} \<and> dp_Replicas st = dp_AvailableReplicas st \<and> dp_ReadyReplicas st = dp_UpdatedReplicas st) threeScaleDeployments"
proof -
  have "deployments_ready env ns names w = ((PhaseCompleted, None), w') \<longleftrightarrow>
     w' = w \<and> list_all (\<lambda>n. case ma_Status env n ns w of Inl e \<Rightarrow> False
       | Inr st \<Rightarrow> dp_Conditions st = [] \<or> set (dp_Conditions st) = {''True''} \<and> dp_Replicas st = dp_AvailableReplicas st \<and> dp_ReadyReplicas st = dp_UpdatedReplicas st) names" for names
  proof (induction names)
    case (Cons n names)
    show ?case
    proof (cases "ma_Status env n ns w")
      case (Inr st)
      have "list_ex (\<lambda>c. c = ''False'') (dp_Conditions st) \<or> list_ex (\<lambda>c. c \<noteq> ''True'' \<or> dp_Replicas st \<noteq> dp_AvailableReplicas st \<or> dp_ReadyReplicas st \<noteq> dp_UpdatedReplicas st) (dp_Conditions st) \<longleftrightarrow>
          \<not> (dp_Conditions st = [] \<or> set (dp_Conditions st) = {''True''} \<and> dp_Replicas st = dp_AvailableReplicas st \<and> dp_ReadyReplicas st = dp_UpdatedReplicas st)"
        by (cases "dp_Conditions st") (auto simp: list_ex_iff)
      then show ?thesis using Cons Inr by (auto split: prod.splits option.splits)
    qed simp
  qed auto
  then show ?thesis by (simp add: ensureDeploymentsReady_def)
qed

text \<open>A deployment that reports no condition yet passes, whatever its replicas.\<close>

lemma unreported_passes: "ma_Status env n ns w = Inr \<lparr>dp_Conditions = [], dp_Replicas = 3, dp_AvailableReplicas = 0, dp_ReadyReplicas = 0, dp_UpdatedReplicas = 3\<rparr> \<Longrightarrow>
   deployments_ready env ns (n # names) w = deployments_ready env ns names w"
  by simp

lemma tenant_pages_tenants: "tenant_pages tsc tok ps w = (Inr as', w') \<Longrightarrow> list_all tenant_account as'"
proof (induction ps arbitrary: as' w)
  case (Cons p ps)
  obtain r w1 where l: "ListTenantAccounts tsc tok (int p) (Some tenant_account) w = (r, w1)" by (metis surj_pair)
  have only: "list_all tenant_account xs" if "r = Inr xs" for xs
    using l that unfolding ListTenantAccounts_def with_status_def by (auto simp: list_all_iff map_sum_def split: prod.splits sum.splits option.splits)
  show ?case
  proof (cases r)
    case (Inr xs)
    then show ?thesis using Cons l only by (cases xs) (fastforce split: prod.splits simp: map_sum_def split: sum.splits)+
  qed (use Cons.prems l in simp)
qed simp

lemma discovery_needs_data:
  "getOauthClientSecret (ma_users env) w = (Inr secret, w1) \<Longrightarrow> cm_Data cm = None \<Longrightarrow> fst (put_discovery env inst cm w) = Some (GoPanic ''assignment to entry in nil map'')"
  by (simp add: put_discovery_def)

end
