(* ===== verification/ThreeScale_Envoy.thy ===== *)
theory ThreeScale_Envoy
  imports ThreeScale_Components
begin

text \<open>
  Rate limiting in front of 3scale (\<^verbatim>\<open>reconcileRatelimitingTo3scaleComponents\<close>, \<^verbatim>\<open>pkg/products/threescale/envoyconfig.go\<close> and
  \<^verbatim>\<open>pkg/resources/ratelimit\<close>): sidecars requested by annotations, services sent through them, and the configuration of the proxies.
  Messages of the proxy are records of the fields that are set; their serialisation is a parameter, which may fail.
\<close>

section \<open>Messages of the proxy\<close>

datatype EnvoyAction =
    GenericKey string
  | HeaderValueMatch string "(string \<times> string) list"  \<comment> \<open>the value; names of headers with the expression they must match\<close>
  | RequestHeaders string string

record EnvoyRateLimit =
  er_Stage :: nat
  er_Actions :: "EnvoyAction list"

record EnvoyRoute =
  et_Prefix :: string
  et_Cluster :: string
  et_Timeout :: nat
  et_RateLimits :: "EnvoyRateLimit list"

record VirtualHost =
  vh_Name :: string
  vh_Domains :: "string list"
  vh_Routes :: "EnvoyRoute list"

text \<open>The filter that asks the limiter: domain, stage, the cluster it asks and the seconds it waits.\<close>

datatype FilterConfig = RateLimitFilter string nat string nat | RouterFilter | LuaFilter string

type_synonym HttpFilter = "string \<times> FilterConfig"

record ConnectionManager =
  hm_StatPrefix :: string
  hm_RouteName :: string
  hm_VirtualHosts :: "VirtualHost list"
  hm_EnableTrailers :: bool
  hm_HttpFilters :: "HttpFilter list"

record EnvoyListener =
  el_Name :: string
  el_Address :: string
  el_Port :: "32 word"
  el_Filters :: "(string \<times> ConnectionManager) list"

record EnvoyCluster =
  ek_Name :: string
  ek_ConnectTimeout :: nat
  ek_Address :: string
  ek_Port :: "32 word"
  ek_Http2 :: bool
  ek_AcceptUntrusted :: bool

record EnvoyRuntime =
  eu_Name :: string
  eu_Layer :: "(string, bool) gomap"

datatype EnvoyAny = AnyFilter FilterConfig | AnyManager ConnectionManager | AnyHttp2 | AnyTls
datatype EnvoyResource = ClusterResource EnvoyCluster | ListenerResource EnvoyListener | RuntimeResource EnvoyRuntime

record EnvoyConfigCR =
  vc_Name :: string
  vc_Namespace :: string
  vc_Annotations :: "(string, string) gomap option"
  vc_NodeID :: string
  vc_API :: string
  vc_Serialization :: string
  vc_Clusters :: "(string \<times> string) list"
  vc_Listeners :: "(string \<times> string) list"
  vc_Runtimes :: "(string \<times> string) list"

record ProxyService = ServiceObject +
  xs_Annotations :: "(string, string) gomap option"
  xs_ClusterIP :: string

record BackendRoute =
  bk_Name :: string
  bk_Namespace :: string
  bk_To :: string

record 'w envoy_env =
  ev_comp :: "'w comp_env"
  ev_services :: "(ProxyService, 'w) kind_api"
  ev_routes :: "(BackendRoute, 'w) kind_api"
  ev_configs :: "(EnvoyConfigCR, 'w) kind_api"
  ev_New :: "EnvoyAny \<Rightarrow> err option"
  ev_json :: "EnvoyResource \<Rightarrow> err + string"
  ev_JSONToYAML :: "string \<Rightarrow> err + string"

abbreviation ev_namespace :: "'w envoy_env \<Rightarrow> string" where "ev_namespace env \<equiv> cp_namespace (ev_comp env)"

section \<open>Resources (\<^verbatim>\<open>pkg/resources/ratelimit/envoyconfig.go\<close>)\<close>

definition CreateClusterResource :: "string \<Rightarrow> string \<Rightarrow> int \<Rightarrow> EnvoyCluster" where
  "CreateClusterResource containerAddress clusterName containerPort =
     \<lparr>ek_Name = clusterName, ek_ConnectTimeout = 2, ek_Address = containerAddress, ek_Port = word_of_int containerPort, ek_Http2 = False, ek_AcceptUntrusted = False\<rparr>"

definition CreateListenerResource :: "string \<Rightarrow> string \<Rightarrow> int \<Rightarrow> (string \<times> ConnectionManager) list \<Rightarrow> EnvoyListener" where
  "CreateListenerResource listenerName listenerAddress listenerPort filters =
     \<lparr>el_Name = listenerName, el_Address = listenerAddress, el_Port = word_of_int listenerPort, el_Filters = filters\<rparr>"

definition CreateRuntimesResource :: EnvoyRuntime where
  "CreateRuntimesResource = \<lparr>eu_Name = ''runtime'', eu_Layer = [(''envoy.reloadable_features.sanitize_http_header_referer'', False)]\<rparr>"

text \<open>Resources by name and text, or the first error.\<close>

definition as_text :: "'w envoy_env \<Rightarrow> string \<Rightarrow> string \<Rightarrow> EnvoyResource \<Rightarrow> err + string" where
  "as_text env what what2 r =
     (case ev_json env r of
        Inl e \<Rightarrow> Inl (Msg (''failed to convert envoy rate limiting '' @ what @ '' configuration to JSON '' @ err_string e))
      | Inr j \<Rightarrow>
          (case ev_JSONToYAML env j of
             Inl e \<Rightarrow> Inl (Msg (''failed to convert envoy rate limiting '' @ what2 @ '' JSON configuration to YAML '' @ err_string e))
           | Inr y \<Rightarrow> Inr y))"

fun all_text :: "'w envoy_env \<Rightarrow> string \<Rightarrow> string \<Rightarrow> (string \<times> EnvoyResource) list \<Rightarrow> err + (string \<times> string) list" where
  "all_text env what what2 [] = Inr []"
| "all_text env what what2 ((n, r) # rs) =
     (case as_text env what what2 r of
        Inl e \<Rightarrow> Inl e
      | Inr y \<Rightarrow> map_sum id (Cons (n, y)) (all_text env what what2 rs))"

definition put_envoy_config :: "RHMI \<Rightarrow> string \<Rightarrow> (string \<times> string) list \<Rightarrow> (string \<times> string) list \<Rightarrow> (string \<times> string) list \<Rightarrow> EnvoyConfigCR \<Rightarrow> EnvoyConfigCR" where
  "put_envoy_config inst nodeID cs ls rs c =
     c\<lparr>vc_Annotations := Some (AddIntegreatlyOwnerAnnotations inst (vc_Annotations c)), vc_NodeID := nodeID, vc_API := ''v3'', vc_Serialization := ''yaml'',
       vc_Clusters := cs, vc_Listeners := ls, vc_Runtimes := rs\<rparr>"

definition envoy_config_named :: "string \<Rightarrow> string \<Rightarrow> EnvoyConfigCR" where
  "envoy_config_named name ns =
     \<lparr>vc_Name = name, vc_Namespace = ns, vc_Annotations = None, vc_NodeID = '''', vc_API = '''', vc_Serialization = '''', vc_Clusters = [], vc_Listeners = [], vc_Runtimes = []\<rparr>"

definition CreateEnvoyConfig ::
  "'w envoy_env \<Rightarrow> string \<Rightarrow> string \<Rightarrow> EnvoyCluster list \<Rightarrow> EnvoyListener list \<Rightarrow> EnvoyRuntime \<Rightarrow> RHMI \<Rightarrow> 'w \<Rightarrow> err option \<times> 'w" where
  "CreateEnvoyConfig env name nodeID clusters listeners runtimes inst w =
     (case all_text env ''cluster'' ''cluster'' (map (\<lambda>c. (ek_Name c, ClusterResource c)) clusters) of
        Inl e \<Rightarrow> (Some e, w)
      | Inr cs \<Rightarrow>
          (case all_text env ''listeners'' ''listener'' (map (\<lambda>l. (el_Name l, ListenerResource l)) listeners) of
             Inl e \<Rightarrow> (Some e, w)
           | Inr ls \<Rightarrow>
               (case as_text env ''runtimes'' ''runtimes'' (RuntimeResource runtimes) of
                  Inl e \<Rightarrow> (Some e, w)
                | Inr r \<Rightarrow>
                    (case CreateOrUpdate (ev_configs env) (=) (pure_op (put_envoy_config inst nodeID cs ls [(eu_Name runtimes, r)])) (envoy_config_named name (ev_namespace env)) w of
                       ((res, Some e), c, w1) \<Rightarrow> (Some (Msg (''failed to create envoy config CR '' @ err_string e)), w1)
                     | ((res, None), c, w1) \<Rightarrow> (None, w1)))))"

section \<open>Hosts and filters (\<^verbatim>\<open>pkg/products/threescale/envoyconfig.go\<close>)\<close>

definition tsRatelimitDescriptor :: EnvoyRateLimit where
  "tsRatelimitDescriptor = \<lparr>er_Stage = 0, er_Actions = [GenericKey ''slowpath'']\<rparr>"

definition multiTenantRatelimitDescriptor :: EnvoyRateLimit where
  "multiTenantRatelimitDescriptor =
     \<lparr>er_Stage = 0, er_Actions = [HeaderValueMatch ''per-mt-limit'' [(''host'', ''.*apicast.*'')], RequestHeaders ''tenant'' ''tenant'']\<rparr>"

definition getAPICastHTTPFilters :: "'w envoy_env \<Rightarrow> err + HttpFilter list" where
  "getAPICastHTTPFilters env =
     (let limit = RateLimitFilter RateLimitDomain 0 ''ratelimit'' 2 in
      if ev_New env (AnyFilter limit) \<noteq> None then Inl (Msg ''failed to convert rate limit filter for rate limiting'')
      else if ev_New env (AnyFilter RouterFilter) \<noteq> None then Inl (Msg ''failed to convert router filter for Apicast ratelimit envoy configuration'')
      else Inr [(''envoy.filters.http.ratelimit'', limit), (''envoy.filters.http.router'', RouterFilter)])"

definition with_lua :: "'w envoy_env \<Rightarrow> string \<Rightarrow> err + HttpFilter list" where
  "with_lua env code =
     (case ev_New env (AnyFilter (LuaFilter code)) of
        Some e \<Rightarrow> Inl (Wrap ''failed to convert HttpConnectionManager for rate limiting'' e)
      | None \<Rightarrow> map_sum id (Cons (''envoy.filters.http.lua'', LuaFilter code)) (getAPICastHTTPFilters env))"

definition quoted :: "string \<Rightarrow> string" where "quoted s = [CHR 0x27] @ s @ [CHR 0x27]"

definition tenant_lua :: string where
  "tenant_lua =
     ''function envoy_on_request(request_handle) host = request_handle:headers():get('' @ quoted ''Host'' @ '') local headers = request_handle:headers() split_string = Split(host, '' @
     quoted ''-apicast'' @ '') headers:add('' @ quoted ''tenant'' @ '', split_string[1]) end function Split(s, delimiter) result = {}; for match in (s..delimiter):gmatch('' @
     quoted ''(.-)'' @ ''..delimiter) do table.insert(result, match); end return result; end''"

definition rejection_lua :: string where
  "rejection_lua =
     ''function envoy_on_response(response_handle) rate_limit = response_handle:headers():get('' @ quoted ''x-envoy-ratelimited'' @
     '') if rate_limit ~= nil then response_handle:headers():add('' @ quoted ''3scale-rejection-reason'' @ '', '' @ quoted ''limits_exceeded'' @ '') end end''"

definition getMultitenantAPICastHTTPFilters :: "'w envoy_env \<Rightarrow> err + HttpFilter list" where
  "getMultitenantAPICastHTTPFilters env = with_lua env tenant_lua"

definition getBackendListenerHTTPFilters :: "'w envoy_env \<Rightarrow> err + HttpFilter list" where
  "getBackendListenerHTTPFilters env = with_lua env rejection_lua"

definition getRateLimitsPerInstallType :: "RHMI \<Rightarrow> EnvoyRateLimit list" where
  "getRateLimitsPerInstallType inst =
     (if \<not> IsRHOAMMultitenant (Type (Spec inst)) then [tsRatelimitDescriptor] else [tsRatelimitDescriptor, multiTenantRatelimitDescriptor])"

definition virtual_host :: "string \<Rightarrow> EnvoyRateLimit list \<Rightarrow> VirtualHost list" where
  "virtual_host clusterName limits =
     [\<lparr>vh_Name = clusterName, vh_Domains = [''*''], vh_Routes = [\<lparr>et_Prefix = ''/'', et_Cluster = clusterName, et_Timeout = 75, et_RateLimits = limits\<rparr>]\<rparr>]"

definition getAPICastVirtualHosts :: "RHMI \<Rightarrow> string \<Rightarrow> VirtualHost list" where
  "getAPICastVirtualHosts inst clusterName = virtual_host clusterName (getRateLimitsPerInstallType inst)"

definition getBackendListenerVitualHosts :: "string \<Rightarrow> VirtualHost list" where
  "getBackendListenerVitualHosts clusterName = virtual_host clusterName [tsRatelimitDescriptor]"

definition getListenerResourceFilters :: "'w envoy_env \<Rightarrow> VirtualHost list \<Rightarrow> HttpFilter list \<Rightarrow> err + (string \<times> ConnectionManager) list" where
  "getListenerResourceFilters env virtualHosts httpFilters =
     (let manager = \<lparr>hm_StatPrefix = ''ingress_http'', hm_RouteName = ''local_route'', hm_VirtualHosts = virtualHosts, hm_EnableTrailers = True, hm_HttpFilters = httpFilters\<rparr> in
      case ev_New env (AnyManager manager) of
        Some e \<Rightarrow> Inl (Wrap ''failed to convert HttpConnectionManager for rate limiting'' e)
      | None \<Rightarrow> Inr [(''envoy.filters.network.http_connection_manager'', manager)])"

section \<open>Sidecars (\<^verbatim>\<open>pkg/resources/ratelimit/envoy.go\<close>)\<close>

definition marin3r_annotations :: "string \<Rightarrow> int \<Rightarrow> (string \<times> string) list" where
  "marin3r_annotations nodeID port =
     [(''marin3r.3scale.net/node-id'', nodeID), (''marin3r.3scale.net/ports'', ''envoy-https:'' @ Itoa port), (''marin3r.3scale.net/envoy-api-version'', ''v3''),
      (''marin3r.3scale.net/envoy-image'', ''registry.redhat.io/openshift-service-mesh/proxyv2-rhel9:2.6.12-1767872298''),
      (''marin3r.3scale.net/resources.requests.cpu'', ''190m''), (''marin3r.3scale.net/resources.requests.memory'', ''90Mi'')]"

definition with_sidecar :: "string \<Rightarrow> int \<Rightarrow> DeploymentObject \<Rightarrow> DeploymentObject" where
  "with_sidecar nodeID port d =
     (let t = d_Template d; nn = (\<lambda>m. case m of None \<Rightarrow> [] | Some x \<Rightarrow> x) in
      d\<lparr>d_Template := t\<lparr>pt_Labels := Some (gset ''marin3r.3scale.net/status'' ''enabled'' (nn (pt_Labels t))),
                        pt_Annotations := Some (set_entries (marin3r_annotations nodeID port) (nn (pt_Annotations t)))\<rparr>\<rparr>)"

definition patchDeployment :: "'w envoy_env \<Rightarrow> string \<Rightarrow> string \<Rightarrow> int \<Rightarrow> 'w phase_op" where
  "patchDeployment env name nodeID port w =
     (let api = td_deployments (cp_data (ev_comp env)) in
      case k_Get api (deployment_named name (ev_namespace env)) w of
        (Some e, d, w1) \<Rightarrow>
          (if IsNotFound (Some e) then (PhaseAwaitingComponents, None)
           else (PhaseFailed, Some (Wrap (''failed to get '' @ name @ '' deployment on namespace '' @ ev_namespace env @ '' '') e)), w1)
      | (None, d, w1) \<Rightarrow>
          (case k_Update api (with_sidecar nodeID port d) w1 of
             (Some e, d1, w2) \<Rightarrow> ((PhaseFailed, Some (Wrap ''failed to apply MARIN3R labels to deployment'' e)), w2)
           | (None, d1, w2) \<Rightarrow> ((PhaseCompleted, None), w2)))"

text \<open>The first port of the name gets the port of the proxy, on both sides.\<close>

fun forward_port :: "string \<Rightarrow> int \<Rightarrow> (string \<times> string \<times> int \<times> int) list \<Rightarrow> (string \<times> string \<times> int \<times> int) list" where
  "forward_port portName port [] = []"
| "forward_port portName port ((n, proto, p, t) # ps) =
     (if n = portName then (n, proto, sint (word_of_int port :: 32 word), port) # ps else (n, proto, p, t) # forward_port portName port ps)"

definition service_named :: "string \<Rightarrow> string \<Rightarrow> ProxyService" where
  "service_named name ns = \<lparr>sv_Name = name, sv_Namespace = ns, sv_Labels = None, sv_Ports = [], sv_Selector = [], xs_Annotations = None, xs_ClusterIP = ''''\<rparr>"

definition patchService :: "'w envoy_env \<Rightarrow> string \<Rightarrow> string \<Rightarrow> int \<Rightarrow> 'w phase_op" where
  "patchService env name portName port w =
     (case k_Get (ev_services env) (service_named name (ev_namespace env)) w of
        (Some e, s, w1) \<Rightarrow> (if IsNotFound (Some e) then (PhaseAwaitingComponents, None) else (PhaseFailed, Some e), w1)
      | (None, s, w1) \<Rightarrow>
          (case k_Update (ev_services env) (s\<lparr>sv_Ports := forward_port portName port (sv_Ports s)\<rparr>) w1 of
             (Some e, s1, w2) \<Rightarrow> ((PhaseFailed, Some (Wrap (''failed to update '' @ name @ '' service to forward requests to proxy server'') e)), w2)
           | (None, s1, w2) \<Rightarrow> ((PhaseCompleted, None), w2)))"

text \<open>Of the first patch only an error ends the call: that the deployment is still awaited does not.\<close>

definition CreateEnvoyProxyContainer :: "'w envoy_env \<Rightarrow> string \<Rightarrow> string \<Rightarrow> string \<Rightarrow> string \<Rightarrow> int \<Rightarrow> 'w phase_op" where
  "CreateEnvoyProxyContainer env deploymentName nodeID svcName portName port w =
     (case patchDeployment env deploymentName nodeID port w of
        ((phase, Some e), w1) \<Rightarrow> ((phase, Some e), w1)
      | ((phase, None), w1) \<Rightarrow> patchService env svcName portName port w1)"

section \<open>Reconciling (\<^verbatim>\<open>reconciler.go\<close>)\<close>

definition proxy_service :: "RHMI \<Rightarrow> ProxyService \<Rightarrow> ProxyService" where
  "proxy_service inst s =
     s\<lparr>xs_Annotations := Some (AddIntegreatlyOwnerAnnotations inst (xs_Annotations s)), sv_Ports := [(''http'', ''TCP'', 3001, 3001)], sv_Selector := [(''deployment'', ''backend-listener'')]\<rparr>"

definition getBackendListenerRoute :: "'w envoy_env \<Rightarrow> 'w \<Rightarrow> (err + BackendRoute) \<times> 'w" where
  "getBackendListenerRoute env w =
     (case k_Get (ev_routes env) \<lparr>bk_Name = ''backend'', bk_Namespace = ev_namespace env, bk_To = ''''\<rparr> w of
        (Some e, r, w1) \<Rightarrow> (Inl (Wrap ''error getting the backend-listener external route'' e), w1)
      | (None, r, w1) \<Rightarrow> (Inr r, w1))"

definition createBackendListenerProxyService :: "'w envoy_env \<Rightarrow> RHMI \<Rightarrow> 'w \<Rightarrow> err option \<times> 'w" where
  "createBackendListenerProxyService env inst w =
     (case CreateOrUpdate (ev_services env) (=) (pure_op (proxy_service inst)) (service_named ''backend-listener-proxy'' (ev_namespace env)) w of
        ((r, Some e), s, w1) \<Rightarrow> (Some e, w1)
      | ((r, None), s, w1) \<Rightarrow>
          (case getBackendListenerRoute env w1 of
             (Inl e, w2) \<Rightarrow> (Some e, w2)
           | (Inr rt, w2) \<Rightarrow>
               (case k_Update (ev_routes env) (rt\<lparr>bk_To := sv_Name s\<rparr>) w2 of
                  (Some e, rt1, w3) \<Rightarrow> (Some (Wrap ''error updating the backend-listener external route to the backend-listener proxy server'' e), w3)
                | (None, rt1, w3) \<Rightarrow> (None, w3))))"

definition getRateLimitServiceCR :: "'w envoy_env \<Rightarrow> 'w \<Rightarrow> (err + ProxyService) \<times> 'w" where
  "getRateLimitServiceCR env w =
     (case ReadMarin3r (tu_decode (cp_users (ev_comp env))) (tu_manager (cp_users (ev_comp env))) of
        Inl e \<Rightarrow> (Inl (Wrap ''failed to load marin3r config in 3scale reconciler'' e), w)
      | Inr c \<Rightarrow>
          (case k_Get (ev_services env) (service_named ''ratelimit'' (Marin3r_GetNamespace c)) w of
             (Some e, s, w1) \<Rightarrow> (Inl (Wrap ''failed to rate limiting service'' e), w1)
           | (None, s, w1) \<Rightarrow> (Inr s, w1)))"

definition getRatelimitServicePort :: "ProxyService \<Rightarrow> int" where
  "getRatelimitServicePort s = (case List.find (\<lambda>(n, proto, p, t). n = ''grpc'') (sv_Ports s) of None \<Rightarrow> 0 | Some (n, proto, p, t) \<Rightarrow> t)"

definition sidecars :: "'w envoy_env \<Rightarrow> 'w phase_op list" where
  "sidecars env =
     [CreateEnvoyProxyContainer env ''apicast-staging'' ''apicast-ratelimit'' ''apicast-staging'' ''gateway'' 8443,
      CreateEnvoyProxyContainer env ''apicast-production'' ''apicast-ratelimit'' ''apicast-production'' ''gateway'' 8443,
      CreateEnvoyProxyContainer env ''backend-listener'' ''backend-listener-ratelimit'' ''backend-listener-proxy'' ''http'' 3001]"

text \<open>The steps end the reconcile by their phase.\<close>

fun run_phases :: "'w phase_op list \<Rightarrow> 'w phase_op" where
  "run_phases [] w = ((PhaseCompleted, None), w)"
| "run_phases (f # fs) w = (case f w of ((phase, e), w1) \<Rightarrow> if phase \<noteq> PhaseCompleted then ((phase, e), w1) else run_phases fs w1)"

text \<open>The clusters and the listener of the two configurations.\<close>

definition limiter_cluster :: "ProxyService \<Rightarrow> EnvoyCluster" where
  "limiter_cluster s = (CreateClusterResource (xs_ClusterIP s) ''ratelimit'' (getRatelimitServicePort s))\<lparr>ek_Http2 := True\<rparr>"

definition apicast_config :: "'w envoy_env \<Rightarrow> RHMI \<Rightarrow> ProxyService \<Rightarrow> err + EnvoyCluster list \<times> EnvoyListener list" where
  "apicast_config env inst s =
     (case ev_New env AnyHttp2 of
        Some e \<Rightarrow> Inl e
      | None \<Rightarrow>
          (case ev_New env AnyTls of
             Some e \<Rightarrow> Inl e
           | None \<Rightarrow>
               (case (if \<not> IsRHOAMMultitenant (Type (Spec inst)) then getAPICastHTTPFilters env else getMultitenantAPICastHTTPFilters env) of
                  Inl e \<Rightarrow> Inl e
                | Inr hf \<Rightarrow>
                    (case getListenerResourceFilters env (getAPICastVirtualHosts inst ''apicast-ratelimit'') hf of
                       Inl e \<Rightarrow> Inl e
                     | Inr fs \<Rightarrow>
                         Inr ([(CreateClusterResource ''127.0.0.1'' ''apicast-ratelimit'' 8444)\<lparr>ek_Http2 := True, ek_AcceptUntrusted := True\<rparr>, limiter_cluster s],
                              [CreateListenerResource ''http'' ''0.0.0.0'' 8443 fs])))))"

definition backend_config :: "'w envoy_env \<Rightarrow> ProxyService \<Rightarrow> err + EnvoyCluster list \<times> EnvoyListener list" where
  "backend_config env s =
     (case getBackendListenerHTTPFilters env of
        Inl e \<Rightarrow> Inl e
      | Inr hf \<Rightarrow>
          (case getListenerResourceFilters env (getBackendListenerVitualHosts ''backend-listener-ratelimit'') hf of
             Inl e \<Rightarrow> Inl e
           | Inr fs \<Rightarrow>
               Inr ([CreateClusterResource ''127.0.0.1'' ''backend-listener-ratelimit'' 3000, limiter_cluster s],
                    [CreateListenerResource ''http'' ''0.0.0.0'' 3001 fs])))"

definition apply_config :: "'w envoy_env \<Rightarrow> RHMI \<Rightarrow> string \<Rightarrow> err + EnvoyCluster list \<times> EnvoyListener list \<Rightarrow> 'w phase_op" where
  "apply_config env inst name r w =
     (case r of
        Inl e \<Rightarrow> ((PhaseFailed, Some e), w)
      | Inr (cs, ls) \<Rightarrow> or_fail (CreateEnvoyConfig env name name cs ls CreateRuntimesResource inst) w)"

definition reconcileRatelimitingTo3scaleComponents :: "'w envoy_env \<Rightarrow> RHMI \<Rightarrow> 'w phase_op" where
  "reconcileRatelimitingTo3scaleComponents env inst w =
     (case createBackendListenerProxyService env inst w of
        (Some e, w1) \<Rightarrow> ((PhaseInProgress, Some e), w1)
      | (None, w1) \<Rightarrow>
          (case run_phases (sidecars env) w1 of
             ((phase, e), w2) \<Rightarrow>
               if phase \<noteq> PhaseCompleted then ((phase, e), w2)
               else (case getRateLimitServiceCR env w2 of
                       (Inl e, w3) \<Rightarrow> ((PhaseFailed, Some e), w3)
                     | (Inr s, w3) \<Rightarrow>
                         run_must [apply_config env inst ''apicast-ratelimit'' (apicast_config env inst s),
                                   apply_config env inst ''backend-listener-ratelimit'' (backend_config env s)] w3)))"

section \<open>The configurations are closed\<close>

text \<open>
  Every cluster a listener sends requests to or asks for limits is configured beside it, under one name only; requests are asked about in the
  domain of the limiter, and the router comes last.
\<close>

definition manager_closed :: "string list \<Rightarrow> ConnectionManager \<Rightarrow> bool" where
  "manager_closed names m \<longleftrightarrow>
     list_all (\<lambda>h. list_all (\<lambda>r. et_Cluster r \<in> set names) (vh_Routes h)) (hm_VirtualHosts m) \<and>
     list_all (\<lambda>(n, f). case f of RateLimitFilter domain stage cluster timeout \<Rightarrow> domain = RateLimitDomain \<and> cluster \<in> set names | _ \<Rightarrow> True) (hm_HttpFilters m) \<and>
     hm_HttpFilters m \<noteq> [] \<and> snd (last (hm_HttpFilters m)) = RouterFilter \<and> RouterFilter \<notin> snd ` set (butlast (hm_HttpFilters m))"

definition config_closed :: "EnvoyCluster list \<times> EnvoyListener list \<Rightarrow> bool" where
  "config_closed c \<longleftrightarrow> distinct (map ek_Name (fst c)) \<and> list_all (\<lambda>l. list_all (\<lambda>(n, m). manager_closed (map ek_Name (fst c)) m) (el_Filters l)) (snd c)"

definition limited :: "HttpFilter list \<Rightarrow> bool" where
  "limited hf \<longleftrightarrow> (\<exists>pre. set (map snd pre) \<subseteq> range LuaFilter \<and>
     hf = pre @ [(''envoy.filters.http.ratelimit'', RateLimitFilter RateLimitDomain 0 ''ratelimit'' 2), (''envoy.filters.http.router'', RouterFilter)])"

lemma filters_limited: "getAPICastHTTPFilters env = Inr hf \<Longrightarrow> limited hf" "with_lua env code = Inr hf \<Longrightarrow> limited hf"
proof -
  show plain: "limited hf" if "getAPICastHTTPFilters env = Inr hf" for hf
    using that by (auto simp: getAPICastHTTPFilters_def limited_def Let_def split: if_splits)
  show "limited hf" if lua: "with_lua env code = Inr hf"
  proof -
    obtain fs where fs: "getAPICastHTTPFilters env = Inr fs" and hf: "hf = (''envoy.filters.http.lua'', LuaFilter code) # fs"
      using lua by (cases "getAPICastHTTPFilters env") (auto simp: with_lua_def split: option.splits)
    obtain pre where "set (map snd pre) \<subseteq> range LuaFilter"
      "fs = pre @ [(''envoy.filters.http.ratelimit'', RateLimitFilter RateLimitDomain 0 ''ratelimit'' 2), (''envoy.filters.http.router'', RouterFilter)]"
      using plain [OF fs] unfolding limited_def by blast
    then show ?thesis unfolding hf limited_def by (intro exI [of _ "(''envoy.filters.http.lua'', LuaFilter code) # pre"]) simp
  qed
qed

lemma limited_closed:
  assumes "limited hf" "cl \<in> set names" "''ratelimit'' \<in> set names" and "getListenerResourceFilters env (virtual_host cl ls) hf = Inr fs"
  shows "list_all (\<lambda>(n, m). manager_closed names m) fs"
proof -
  obtain pre where pre: "set (map snd pre) \<subseteq> range LuaFilter"
    "hf = pre @ [(''envoy.filters.http.ratelimit'', RateLimitFilter RateLimitDomain 0 ''ratelimit'' 2), (''envoy.filters.http.router'', RouterFilter)]"
    using assms(1) unfolding limited_def by blast
  have "list_all (\<lambda>(n, f). case f of RateLimitFilter domain stage cluster timeout \<Rightarrow> domain = RateLimitDomain \<and> cluster \<in> set names | _ \<Rightarrow> True) pre" and "RouterFilter \<notin> snd ` set pre"
    using pre(1) by (auto simp: list_all_iff split: FilterConfig.splits)
  then show ?thesis
    using assms(2-4) by (auto simp: getListenerResourceFilters_def virtual_host_def manager_closed_def pre(2) Let_def butlast_append split: option.splits)
qed


section \<open>Limits and descriptors\<close>

text \<open>What the limiter compares for an action, and the variable an action gives a value to.\<close>

fun action_condition :: "EnvoyAction \<Rightarrow> string list" where
  "action_condition (GenericKey v) = [''descriptors[0]['' @ quoted ''generic_key'' @ ''] == '' @ [CHR 34] @ v @ [CHR 34]]"
| "action_condition (HeaderValueMatch v hs) = [''header_match == '' @ v]"
| "action_condition (RequestHeaders h k) = []"

fun action_variable :: "EnvoyAction \<Rightarrow> string list" where
  "action_variable (RequestHeaders h k) = [k]"
| "action_variable a = []"

definition limit_fits :: "limitadorLimit \<Rightarrow> EnvoyRateLimit \<Rightarrow> bool" where
  "limit_fits l r \<longleftrightarrow> ll_Namespace l = RateLimitDomain \<and> ll_Conditions l = concat (map action_condition (er_Actions r)) \<and>
     ll_Variables l = concat (map action_variable (er_Actions r))"


text \<open>An installation with many tenants.\<close>

definition tenants_rl :: RateLimitServiceReconciler where
  "tenants_rl = (sample_rl 100)\<lparr>rr_Installation := zero_rhmi\<lparr>Spec := zero_spec\<lparr>Type := InstallationTypeMultitenantManagedApi\<rparr>\<rparr>\<rparr>"


section \<open>Sidecars\<close>

lemma forward_port_first:
  assumes "portName \<in> fst ` set ps" and "sint (word_of_int port :: 32 word) = port"
  shows "\<exists>proto. List.find (\<lambda>(n, proto, p, t). n = portName) (forward_port portName port ps) = Some (portName, proto, port, port)"
  using assms by (induction portName port ps rule: forward_port.induct) auto

lemma with_sidecar_annotations:
  "\<exists>ann. pt_Annotations (d_Template (with_sidecar nodeID port d)) = Some ann \<and> (\<forall>(k, v) \<in> set (marin3r_annotations nodeID port). map_of ann k = Some v)"
proof -
  have "distinct (map fst (marin3r_annotations nodeID port))" by (simp add: marin3r_annotations_def)
  then show ?thesis by (auto simp: with_sidecar_def Let_def set_entries_value)
qed

text \<open>
  A sidecar that is reported in place is not there when the deployment it belongs to does not exist yet: only the service is asked for.
\<close>

theorem awaited_sidecar_reported:
  assumes "k_Get (td_deployments (cp_data (ev_comp env))) (deployment_named name (ev_namespace env)) w = (Some e, d, w1)" "IsNotFound (Some e)"
    and "k_Get (ev_services env) (service_named svc (ev_namespace env)) w1 = (None, s, w2)"
    and "k_Update (ev_services env) (s\<lparr>sv_Ports := forward_port portName port (sv_Ports s)\<rparr>) w2 = (None, s1, w3)"
  shows "CreateEnvoyProxyContainer env name nodeID svc portName port w = ((PhaseCompleted, None), w3)"
  using assms by (simp add: CreateEnvoyProxyContainer_def patchDeployment_def patchService_def Let_def)

text \<open>Where the deployment exists, the annotations of the sidecar are on it, and the service is sent to the same port.\<close>

lemma sidecar_patched:
  assumes srv: "stores (td_deployments (cp_data (ev_comp env)))" "\<And>x t. k_Key (td_deployments (cp_data (ev_comp env))) (x\<lparr>d_Template := t\<rparr>) = k_Key (td_deployments (cp_data (ev_comp env))) x"
    and d: "k_Get (td_deployments (cp_data (ev_comp env))) (deployment_named name (ev_namespace env)) w = (None, d, w)"
    and run: "patchDeployment env name nodeID port w = ((PhaseCompleted, None), w')"
  shows "k_Get (td_deployments (cp_data (ev_comp env))) (deployment_named name (ev_namespace env)) w' = (None, with_sidecar nodeID port d, w')"
proof -
  let ?api = "td_deployments (cp_data (ev_comp env))"
  obtain d1 where "k_Update ?api (with_sidecar nodeID port d) w = (None, d1, w')"
    using run d by (auto simp: patchDeployment_def Let_def split: prod.splits option.splits)
  moreover have "k_Key ?api (with_sidecar nodeID port d) = k_Key ?api (deployment_named name (ev_namespace env))"
    using stores_get(2) [OF srv(1) d] srv(2) by (simp add: with_sidecar_def Let_def)
  ultimately show ?thesis using stores_update(2) [OF srv(1)] by metis
qed

end
