(* ===== verification/Spec2Isabelle.thy ===== *)
theory Spec2Isabelle
  imports Reconcile Versions Pod_Distribution Upgrade Namespace_Label Tenant Status_Controller Marin3r_Reconciler SSO_Reconcilers Cloud_Resources ThreeScale_Mail ThreeScale_Envoy
begin

text \<open>
  \<^bold>\<open>A model of the integreatly operator (RHOAM) in Isabelle/HOL.\<close>

  The operator is a Kubernetes controller written in Go. It watches one custom resource, the RHMI
  installation, and on every reconcile moves the cluster one step towards having the managed API
  service installed, upgraded or removed. Its parts, and the theories that model them:

  Foundations.
  \<^item> \<open>Prelude\<close>: what Go gives the sources: error values with the reason an API server attaches,
    the functions of \<^verbatim>\<open>strings\<close> and \<^verbatim>\<open>strconv\<close> that are called, and maps as association lists, whose
    order stands for the order a \<^verbatim>\<open>range\<close> visits the keys in.
  \<^item> \<open>RHMI_Types\<close>: the custom resource (\<^verbatim>\<open>api/v1alpha1\<close>): constants, spec, status, the methods on
    it and the conditions reported to the add-on operator.
  \<^item> \<open>Kube\<close>: the client calls for one kind of object and the helpers on them
    (\<^verbatim>\<open>pkg/resources/k8s/objectQueries.go\<close>, \<^verbatim>\<open>CreateOrUpdate\<close> of controller-runtime).
  \<^item> \<open>Finalizers\<close> (\<^verbatim>\<open>pkg/resources/finalizers.go\<close>): string slices as sets of finalizers, and the
    finalizers of the resource. \<^verbatim>\<open>Remove\<close> shifts the array it ranges over; the model keeps the array.
  \<^item> \<open>Product_Config\<close> and \<open>Config_Manager\<close> (\<^verbatim>\<open>pkg/config\<close>): the typed configuration wrappers of the
    six products and the manager that keeps them in one ConfigMap.
  \<^item> \<open>Quota\<close> and \<open>Quota_Table\<close> (\<^verbatim>\<open>pkg/resources/quota\<close>, \<^verbatim>\<open>pkg/addon/quota.go\<close>): choosing a quota,
    scaling deployments and the 3scale APIManager to it, and the ten rows of the two tables.
  \<^item> \<open>Versions\<close>, \<open>Addon\<close>, \<open>Resource_Helpers\<close>, \<open>Product_Steps\<close>: version numbers, the add-on's parameters
    and how the operator is run, helpers on pod templates, limits and labels, sequences of steps.

  The installation.
  \<^item> \<open>Stages\<close> (\<^verbatim>\<open>internal/controller/rhmi/types.go\<close>): the installation types and their stages.
  \<^item> \<open>Install_Stage\<close> (\<^verbatim>\<open>processStage\<close>, \<^verbatim>\<open>bootstrapStage\<close>, \<^verbatim>\<open>addCustomInformer\<close>): one stage over its
    products, and the loop over the stages.
  \<^item> \<open>Bootstrap\<close> (\<^verbatim>\<open>bootstrapReconciler.go\<close>, \<^verbatim>\<open>pkg/resources/custom-domain\<close>): the first stage: quota,
    OAuth client secrets, routing, custom SMTP, priority class, cloud resource configuration.
  \<^item> \<open>Uninstall\<close> (\<^verbatim>\<open>handleUninstall\<close> and what it calls, \<^verbatim>\<open>ReconcileFinalizer\<close>): deletion.
  \<^item> \<open>Preflight\<close> (\<^verbatim>\<open>preflightChecks\<close> and what it calls): the checks before an installation.
  \<^item> \<open>Reconcile\<close> (\<^verbatim>\<open>RHMIReconciler.Reconcile\<close>, \<^verbatim>\<open>createInstallationCR\<close>, \<^verbatim>\<open>reconcileQuotaConfig\<close>): the
    loop that calls all of the above.

  Upgrades and the other controllers.
  \<^item> \<open>OLM\<close>, \<open>Backup\<close>, \<open>Upgrade\<close>: the objects of the Operator Lifecycle Manager and the locators of cluster
    service versions, the backups before an upgrade as executors that run beside each other, and the
    subscription controller that approves install plans.
  \<^item> \<open>Marketplace\<close>, \<open>Base_Reconciler\<close>: installing the operators of the products, and the reconciler every
    product extends.
  \<^item> \<open>Namespace_Label\<close>, \<open>Users\<close>, \<open>Tenant\<close>, \<open>Status_Controller\<close>, \<open>Pod_Distribution\<close>: the controllers that start
    a deletion, keep the groups of users, set up tenants and report to the add-on, and the
    balancing of pods over zones.

  The products.
  \<^item> \<open>Rate_Limit\<close>, \<open>Marin3r_Reconciler\<close> (\<^verbatim>\<open>pkg/products/marin3r\<close>).
  \<^item> \<open>SSO_Users\<close>, \<open>SSO_Groups\<close>, \<open>SSO_Common\<close>, \<open>SSO_Reconcilers\<close> (\<^verbatim>\<open>pkg/products/rhsso\<close>, \<^verbatim>\<open>rhssouser\<close>, \<^verbatim>\<open>rhssocommon\<close>).
  \<^item> \<open>Cloud_Alerts\<close>, \<open>Cloud_Resources\<close> (\<^verbatim>\<open>pkg/resources/metrics.go\<close>, \<^verbatim>\<open>pkg/products/cloudresources\<close>).
  \<^item> \<open>ThreeScale_Client\<close>, \<open>ThreeScale_Users\<close>, \<open>ThreeScale_SSO\<close>, \<open>ThreeScale_Tenants\<close>, \<open>ThreeScale_Data\<close>,
    \<open>ThreeScale_Components\<close>, \<open>ThreeScale_Portals\<close>, \<open>ThreeScale_Mail\<close>, \<open>ThreeScale_Envoy\<close> (\<^verbatim>\<open>pkg/products/threescale\<close>,
    \<^verbatim>\<open>pkg/resources/ratelimit\<close>): the client of 3scale, its users and their single sign-on, the accounts of
    tenants, the data 3scale stands on, its deployment, whether it can be reached, the addresses mail
    is sent from, and the rate limiting proxies in front of it.

  \<^bold>\<open>State and effects.\<close> The RHMI object is a record, passed and returned. The cluster is a type
  variable \<open>'w\<close>; a call of the Kubernetes client that only reads is a function of it, a call that
  writes returns the error, the object as the call leaves it in memory, and the new cluster.
  What the controller keeps between reconciles is the record \<open>controller\<close>: the product maps of the
  two installation types (package variables the stages write to), the version-mismatch flag and
  the informers. A product reconciler is a value of the Go interface \<^verbatim>\<open>products.Interface\<close>, here
  the record \<open>product_reconciler\<close>. Code outside the repository (the API server, YAML and JSON
  codecs, protocol buffers, HTTP, the random source) and the calls into parts that are not modelled are
  fields of the environment records; what a theorem needs of them is a hypothesis with a name of its own
  (\<open>stores\<close>, \<open>frames\<close>, \<open>update_keeps_finalizers\<close>, \<open>yaml_ok\<close>, \<open>write_echo\<close>, \<open>some_order\<close>).
  Errors are values of the type \<open>err\<close>; a run-time panic is \<open>None\<close> where a caller handles errors
  itself, and the error \<open>GoPanic\<close> where every caller passes an error on.

  \<^bold>\<open>Loops.\<close> Nearly every loop of the modelled code is over a finite list and is a structural recursion;
  the loops over an index (\<open>Remove_loop\<close>, \<open>reverse_loop\<close> and the like) have a measure. A poll takes the
  number of ticks until its deadline, as the polls of the backups do: the deadline of the source bounds
  it, so that running out is what the source reports as a time-out. Backups that run at the same time
  are a step relation, with its reachable states.

  \<^bold>\<open>Interfaces.\<close> Five locales carry lemmas that several parts share: \<open>finalizer_store\<close> (slices as
  sets, interpreted by \<open>slice\<close>), \<open>config_readable\<close> (the interface \<^verbatim>\<open>ConfigReadable\<close>, interpreted for
  the six wrappers), \<open>scale_policy\<close> (raising a value to a quota, interpreted at the three number
  types), \<open>staged\<close> (running stages in order, interpreted by the install loop, \<open>install\<close>, and by
  the uninstall loop, \<open>uninstall\<close>) and \<open>address_update\<close> (functions that put an address into a
  deployment, interpreted for the two deployments that get one).

  \<^bold>\<open>What is shown.\<close>
  \<^item> Installation: the loop never starts a stage before the one in front of it is complete (C1); a
    stage is complete exactly when all its products are (C2); a bootstrap stage that completes has
    a named quota and the API server's URL (C3); the version in the status changes only when all
    stages are complete and the product versions match (C4); the stages of a type are well formed (C39).
  \<^item> Removal: an uninstall is reported finished only with all stages done and no product finalizer
    left (C5), in stage order (C6), and each product's finalizer goes exactly with its clean-up (C7);
    a deletion starts on request only (C23), single sign-on and the cloud resource operator go when
    nothing needs them any more (C20, C26), and the operator is released last (C30).
  \<^item> Preflight: success means that every check passed (C8).
  \<^item> Configuration: what a product writes is what it reads, and nobody else's is touched (C9, C10).
  \<^item> Upgrades: approved only after their backups, never when they affect the service, and in the end
    when they do not (C11 to C15); the cached locator agrees with the one it caches (C22).
  \<^item> Single sign-on: administrators and users are those of the cluster, the identity provider fits
    its client, and what is installed is complete (C16, C17, C19, C21).
  \<^item> Pods and tenants: unbalanced pods are found and balanced (C24, C25), a tenant follows its state
    machine and a user has one tenant (C28, C29).
  \<^item> 3scale: users, tenants and their single sign-on (C27, C31, C33, C40), tokens (C37), the
    APIManager and its replicas (C34, C35), data sources (C36), seeds that survive (C38), proxies
    whose configuration is closed and fits the limits of the limiter (C18, C32).

  \<^bold>\<open>What is not modelled.\<close> The method that calls the steps of 3scale in turn, with the role for routes,
  the service monitor and the console link; the Grafana reconciler and its dashboards; alert rules and
  the observability stack; webhooks; metrics and events, but for the labels of the portals; the informer
  machinery of controller-runtime; mocks, process start-up and the test harness. Of the bootstrap stage
  the steps in \<open>boot_calls\<close> (limit range, GitHub secret, alert configuration) are only called. These
  parts are data handed to other programs, or glue around calls that are modelled.
\<close>

end
